(* ===== verification/Prelude.thy ===== *)
theory Prelude
  imports Main
begin

text \<open>
  Shared vocabulary of the development.

  \<^item> \<open>pyerr\<close> names the Python exceptions the modelled code raises and \<open>'a res\<close> is the value of a
    call that either raises (\<open>Inl\<close>) or returns (\<open>Inr\<close>). \<open>bindR\<close> sequences two calls and
    \<open>require\<close> is the \<open>if not c: raise e\<close> statement.
  \<^item> A database operation of the source is a function \<open>'s \<Rightarrow> 'a res \<times> 's\<close>. The context manager
    \<open>live_db.connection\<close> commits when its body returns and rolls back when its body raises;
    \<open>transaction\<close> is that rule.
  \<^item> A SQL table is the list of its rows in insertion (\<open>rowid\<close>) order. \<open>fetchone\<close>,
    \<open>update_where\<close> and \<open>rowcount\<close> are the statements the stores use.
  \<^item> The string operations (\<open>str.upper\<close>, \<open>str.lower\<close>, \<open>str.rstrip\<close>, \<open>str.startswith\<close>) work on
    ASCII text, the alphabet of every identifier the code compares.
\<close>

section \<open>Exceptions and results\<close>

datatype pyerr =
    ValueError string
  | TypeError string
  | KeyError string
  | RuntimeError string
  | ExecutionBlocked string
  | IntegrityError string
  | TimeoutError string
  | AttributeError string
  | UnboundLocalError string
  | AssertionError
  | BinanceExecutionError string "int option"
  | HTTPException int string
  | CancelledError
  | ZeroDivisionError
  | OverflowError
  | InvalidOperation

type_synonym 'a res = "pyerr + 'a"
type_synonym ('s, 'a) dbop = "'s \<Rightarrow> 'a res \<times> 's"

named_theorems result_simps \<open>unfolding of the result combinators\<close>

fun bindR :: "'a res \<Rightarrow> ('a \<Rightarrow> 'b res) \<Rightarrow> 'b res" where
  "bindR (Inl e) f = Inl e"
| "bindR (Inr x) f = f x"

definition require :: "bool \<Rightarrow> pyerr \<Rightarrow> unit res" where
  "require c e = (if c then Inr () else Inl e)"

fun is_ok :: "'a res \<Rightarrow> bool" where
  "is_ok (Inl e) = False"
| "is_ok (Inr x) = True"

lemma bindR_Inr_iff [result_simps]:
  "bindR m f = Inr y \<longleftrightarrow> (\<exists>x. m = Inr x \<and> f x = Inr y)"
  by (cases m) auto

lemma bindR_Inl_iff [result_simps]:
  "bindR m f = Inl e \<longleftrightarrow> m = Inl e \<or> (\<exists>x. m = Inr x \<and> f x = Inl e)"
  by (cases m) auto

lemma require_Inr_iff [result_simps]: "require c e = Inr u \<longleftrightarrow> c"
  by (simp add: require_def)

lemma require_Inl_iff [result_simps]: "require c e = Inl e' \<longleftrightarrow> \<not> c \<and> e' = e"
  by (auto simp: require_def)

lemma bindR_require [simp]: "bindR (require c e) f = (if c then f () else Inl e)"
  by (simp add: require_def)

lemma is_ok_iff: "is_ok r \<longleftrightarrow> (\<exists>x. r = Inr x)"
  by (cases r) auto

lemma bindR_assoc: "bindR (bindR m f) g = bindR m (\<lambda>x. bindR (f x) g)"
  by (cases m) auto

section \<open>Transactions\<close>

definition transaction :: "('s, 'a) dbop \<Rightarrow> ('s, 'a) dbop" where
  "transaction body s =
     (case body s of (Inl e, _) \<Rightarrow> (Inl e, s) | (Inr x, s') \<Rightarrow> (Inr x, s'))"

lemma transaction_Inr_iff:
  "transaction body s = (Inr x, s') \<longleftrightarrow> body s = (Inr x, s')"
  by (auto simp: transaction_def split: prod.splits sum.splits)

lemma transaction_Inl_iff:
  "transaction body s = (Inl e, s') \<longleftrightarrow> s' = s \<and> (\<exists>s''. body s = (Inl e, s''))"
  by (auto simp: transaction_def split: prod.splits sum.splits)

lemma transaction_rollback: "fst (transaction body s) = Inl e \<Longrightarrow> snd (transaction body s) = s"
  by (auto simp: transaction_def split: prod.splits sum.splits)

section \<open>Tables\<close>

definition fetchone :: "('r \<Rightarrow> bool) \<Rightarrow> 'r list \<Rightarrow> 'r option" where
  "fetchone P rows = List.find P rows"

definition update_where :: "('r \<Rightarrow> bool) \<Rightarrow> ('r \<Rightarrow> 'r) \<Rightarrow> 'r list \<Rightarrow> 'r list" where
  "update_where P f rows = map (\<lambda>r. if P r then f r else r) rows"

definition rowcount :: "('r \<Rightarrow> bool) \<Rightarrow> 'r list \<Rightarrow> nat" where
  "rowcount P rows = length (filter P rows)"

definition unique_on :: "('r \<Rightarrow> 'k) \<Rightarrow> 'r list \<Rightarrow> bool" where
  "unique_on k rows = distinct (map k rows)"

lemma fetchone_Some:
  "fetchone P rows = Some r \<Longrightarrow> r \<in> set rows \<and> P r"
  by (auto simp: fetchone_def find_Some_iff)

lemma fetchone_None: "fetchone P rows = None \<longleftrightarrow> (\<forall>r \<in> set rows. \<not> P r)"
  by (auto simp: fetchone_def find_None_iff)

lemma fetchone_key:
  assumes "unique_on k rows" and "r \<in> set rows"
  shows "fetchone (\<lambda>x. k x = k r) rows = Some r"
proof -
  have "fetchone (\<lambda>x. k x = k r) rows \<noteq> None"
    using assms(2) by (auto simp: fetchone_None)
  then obtain y where y: "fetchone (\<lambda>x. k x = k r) rows = Some y" by auto
  then have "y \<in> set rows" and "k y = k r" by (auto dest: fetchone_Some)
  with assms have "y = r"
    by (auto simp: unique_on_def distinct_map inj_on_def)
  with y show ?thesis by simp
qed

lemma unique_onD: "unique_on k rows \<Longrightarrow> x \<in> set rows \<Longrightarrow> y \<in> set rows \<Longrightarrow> k x = k y \<Longrightarrow> x = y"
  by (auto simp: unique_on_def distinct_map inj_on_def)

lemma fetchone_append:
  "fetchone P (xs @ ys) = (case fetchone P xs of None \<Rightarrow> fetchone P ys | Some r \<Rightarrow> Some r)"
  by (induction xs) (auto simp: fetchone_def)

lemma fetchone_Cons [simp]:
  "fetchone P [] = None"
  "fetchone P (x # xs) = (if P x then Some x else fetchone P xs)"
  by (simp_all add: fetchone_def)

lemma fetchone_update_where:
  assumes "\<And>r. Q (f r) = Q r"
  shows "fetchone Q (update_where P f rows) =
           map_option (\<lambda>r. if P r then f r else r) (fetchone Q rows)"
  by (induction rows) (auto simp: update_where_def assms)

lemma unique_on_append:
  "unique_on k (rows @ [r]) \<longleftrightarrow> unique_on k rows \<and> (\<forall>x \<in> set rows. k x \<noteq> k r)"
  by (auto simp: unique_on_def image_iff)

lemma update_where_keys:
  assumes "\<And>r. k (f r) = k r"
  shows "map k (update_where P f rows) = map k rows"
  by (induction rows) (auto simp: update_where_def assms)

lemma unique_on_update_where:
  assumes "\<And>r. k (f r) = k r"
  shows "unique_on k (update_where P f rows) \<longleftrightarrow> unique_on k rows"
proof -
  have "map k (update_where P f rows) = map k rows"
    by (rule update_where_keys) (rule assms)
  then show ?thesis by (simp add: unique_on_def)
qed

lemma length_update_where [simp]: "length (update_where P f rows) = length rows"
  by (simp add: update_where_def)

lemma set_update_where:
  "set (update_where P f rows) = (\<lambda>r. if P r then f r else r) ` set rows"
  by (simp add: update_where_def)

lemma update_where_none:
  "(\<forall>r \<in> set rows. \<not> P r) \<Longrightarrow> update_where P f rows = rows"
  by (induction rows) (auto simp: update_where_def)

lemma rowcount_pos: "0 < rowcount P rows \<longleftrightarrow> (\<exists>r \<in> set rows. P r)"
  by (auto simp: rowcount_def filter_empty_conv)

lemma rowcount_key_le_one:
  assumes "unique_on k rows" and "\<And>r. P r \<Longrightarrow> k r = a"
  shows "rowcount P rows \<le> 1"
  using assms(1)
proof (induction rows)
  case Nil
  then show ?case by (simp add: rowcount_def)
next
  case (Cons x xs)
  then have IH: "rowcount P xs \<le> 1" and new: "k x \<notin> k ` set xs"
    by (auto simp: unique_on_def image_iff)
  show ?case
  proof (cases "P x")
    case True
    then have "\<forall>y \<in> set xs. \<not> P y" using new assms(2) by (metis image_eqI)
    then have "rowcount P xs = 0" by (auto simp: rowcount_def filter_empty_conv)
    with True show ?thesis by (simp add: rowcount_def)
  next
    case False
    with IH show ?thesis by (simp add: rowcount_def)
  qed
qed

section \<open>ASCII strings\<close>

definition upper_char :: "char \<Rightarrow> char" where
  "upper_char c = (let n = of_char c :: nat in if 97 \<le> n \<and> n \<le> 122 then char_of (n - 32) else c)"

definition lower_char :: "char \<Rightarrow> char" where
  "lower_char c = (let n = of_char c :: nat in if 65 \<le> n \<and> n \<le> 90 then char_of (n + 32) else c)"

definition py_upper :: "string \<Rightarrow> string" where
  "py_upper s = map upper_char s"

definition py_lower :: "string \<Rightarrow> string" where
  "py_lower s = map lower_char s"

definition rstrip :: "char \<Rightarrow> string \<Rightarrow> string" where
  "rstrip c s = rev (dropWhile (\<lambda>x. x = c) (rev s))"

definition is_space :: "char \<Rightarrow> bool" where
  "is_space c = (let n = of_char c :: nat in n = 32 \<or> 9 \<le> n \<and> n \<le> 13 \<or> 28 \<le> n \<and> n \<le> 31)"

definition py_strip :: "string \<Rightarrow> string" where
  "py_strip s = rev (dropWhile is_space (rev (dropWhile is_space s)))"

definition startswith :: "string \<Rightarrow> string \<Rightarrow> bool" where
  "startswith s p = (take (length p) s = p)"

lemma py_lower_idem [simp]: "py_lower (py_lower s) = py_lower s"
  by (simp add: py_lower_def lower_char_def Let_def)

section \<open>Transition systems\<close>

text \<open>The two interfaces the stateful components are proved against. A component is a step
  relation on its state with an invariant that every step keeps; a component may also promise that
  an observation of its state (a terminal status, a claimed key, a tripped switch), once made, is
  never taken back.\<close>

locale invariant_system =
  fixes step :: "'s \<Rightarrow> 's \<Rightarrow> bool" and inv :: "'s \<Rightarrow> bool"
  assumes step_inv: "inv s \<Longrightarrow> step s s' \<Longrightarrow> inv s'"
begin

lemma steps_inv: "step\<^sup>*\<^sup>* s s' \<Longrightarrow> inv s \<Longrightarrow> inv s'"
  by (induction rule: rtranclp_induct) (auto intro: step_inv)

end

locale latched_system = invariant_system +
  fixes obs :: "'a \<Rightarrow> 'k \<Rightarrow> 'v option"
  assumes step_latch: "inv s \<Longrightarrow> step s s' \<Longrightarrow> obs s k = Some v \<Longrightarrow> obs s' k = Some v"
begin

lemma steps_latch: "step\<^sup>*\<^sup>* s s' \<Longrightarrow> inv s \<Longrightarrow> obs s k = Some v \<Longrightarrow> obs s' k = Some v"
proof (induction rule: rtranclp_induct)
  case base
  then show ?case by simp
next
  case (step y z)
  then show ?case using steps_inv step_latch by blast
qed

text \<open>Two observations of the same key along one run agree.\<close>

lemma latch_unique:
  assumes "step\<^sup>*\<^sup>* s s'" and "inv s" and "obs s k = Some v" and "obs s' k = Some w"
  shows "v = w"
  using steps_latch [OF assms(1-3)] assms(4) by simp

end

section \<open>Messages\<close>

definition quoted :: "string \<Rightarrow> string" where
  "quoted s = [CHR 0x27] @ s @ [CHR 0x27]"

text \<open>The text of an exception inside a message.\<close>

fun err_str :: "pyerr \<Rightarrow> string" where
  "err_str (KeyError k) = quoted k"
| "err_str (ValueError m) = m"
| "err_str (TypeError m) = m"
| "err_str (RuntimeError m) = m"
| "err_str (ExecutionBlocked m) = m"
| "err_str (IntegrityError m) = m"
| "err_str (TimeoutError m) = m"
| "err_str (AttributeError m) = m"
| "err_str (BinanceExecutionError m c) = m"
| "err_str _ = []"

end
