(* ===== verification/PyFloat.thy ===== *)
theory PyFloat
  imports Prelude Complex_Main "HOL-Library.Log_Nat"
begin

text \<open>
  Python's \<open>float\<close>: IEEE 754 binary64 with round-to-nearest, ties-to-even.

  A value is \<open>Fin q\<close> (a finite double, given by the rational it denotes), an infinity or NaN.
  The two zeros are identified: they compare equal, and the modelled code never prints or
  divides by a zero. Every arithmetic operation rounds the exact rational result once
  (\<open>rnd64\<close>), overflows to an infinity, and follows IEEE on infinities and NaN; comparisons
  with NaN are false. Python's \<open>/\<close> raises ZeroDivisionError, so \<open>fdiv\<close> returns a result.

  The lemmas say what the rest of the development uses of rounding: it is monotone
  (\<open>rval_mono\<close>), odd, exact on integers up to \<open>2 ^ 53\<close> and on doubles (\<open>rval_exact\<close>,
  \<open>rval_idem\<close>), and keeps the sign.
\<close>

section \<open>Rounding\<close>

definition rne :: "rat \<Rightarrow> int" where
  "rne q = (let f = \<lfloor>q\<rfloor>; d = q - of_int f
            in if d < 1/2 \<or> d = 1/2 \<and> even f then f else f + 1)"

definition ilog2 :: "rat \<Rightarrow> int" where
  "ilog2 q = (let (n, d) = quotient_of \<bar>q\<bar>;
                  k = int (floorlog 2 (nat n)) - int (floorlog 2 (nat d))
              in if 2 powi k \<le> \<bar>q\<bar> then k else k - 1)"

definition ulp_exp :: "rat \<Rightarrow> int" where
  "ulp_exp q = max (ilog2 q - 52) (-1074)"

definition rval :: "rat \<Rightarrow> rat" where
  "rval q = (if q = 0 then 0
             else let e = ulp_exp q in of_int (rne (q * 2 powi (- e))) * 2 powi e)"

datatype flt = Fin rat | PInf | NInf | NaN

definition rnd64 :: "rat \<Rightarrow> flt" where
  "rnd64 q = (let v = rval q
              in if 2 ^ 1024 \<le> v then PInf else if v \<le> - (2 ^ 1024) then NInf else Fin v)"


section \<open>Arithmetic\<close>

fun isfinite :: "flt \<Rightarrow> bool" where
  "isfinite (Fin q) = True"
| "isfinite x = False"

fun fval :: "flt \<Rightarrow> rat" where
  "fval (Fin q) = q"
| "fval x = 0"

instantiation flt :: "{ord, zero, one, plus, minus, times, uminus, abs}"
begin

fun less_eq_flt :: "flt \<Rightarrow> flt \<Rightarrow> bool" where
  "less_eq_flt (Fin a) (Fin b) = (a \<le> b)"
| "less_eq_flt NaN y = False"
| "less_eq_flt x NaN = False"
| "less_eq_flt NInf y = True"
| "less_eq_flt x PInf = True"
| "less_eq_flt x y = False"

definition less_flt :: "flt \<Rightarrow> flt \<Rightarrow> bool" where
  "less_flt x y = (x \<le> y \<and> \<not> y \<le> x)"

definition zero_flt :: flt where "zero_flt = Fin 0"

definition one_flt :: flt where "one_flt = Fin 1"

fun uminus_flt :: "flt \<Rightarrow> flt" where
  "uminus_flt (Fin a) = Fin (- a)"
| "uminus_flt PInf = NInf"
| "uminus_flt NInf = PInf"
| "uminus_flt NaN = NaN"

fun abs_flt :: "flt \<Rightarrow> flt" where
  "abs_flt (Fin a) = Fin \<bar>a\<bar>"
| "abs_flt NaN = NaN"
| "abs_flt x = PInf"

fun plus_flt :: "flt \<Rightarrow> flt \<Rightarrow> flt" where
  "plus_flt (Fin a) (Fin b) = rnd64 (a + b)"
| "plus_flt NaN y = NaN"
| "plus_flt x NaN = NaN"
| "plus_flt PInf NInf = NaN"
| "plus_flt NInf PInf = NaN"
| "plus_flt PInf y = PInf"
| "plus_flt x PInf = PInf"
| "plus_flt NInf y = NInf"
| "plus_flt x NInf = NInf"

definition minus_flt :: "flt \<Rightarrow> flt \<Rightarrow> flt" where
  "minus_flt x y = x + (- y)"

fun times_flt :: "flt \<Rightarrow> flt \<Rightarrow> flt" where
  "times_flt (Fin a) (Fin b) = rnd64 (a * b)"
| "times_flt NaN y = NaN"
| "times_flt x NaN = NaN"
| "times_flt PInf (Fin b) = (if b = 0 then NaN else if 0 < b then PInf else NInf)"
| "times_flt NInf (Fin b) = (if b = 0 then NaN else if 0 < b then NInf else PInf)"
| "times_flt (Fin a) PInf = (if a = 0 then NaN else if 0 < a then PInf else NInf)"
| "times_flt (Fin a) NInf = (if a = 0 then NaN else if 0 < a then NInf else PInf)"
| "times_flt PInf PInf = PInf"
| "times_flt NInf NInf = PInf"
| "times_flt x y = NInf"

instance ..

end

text \<open>IEEE quotient by a nonzero divisor, and Python's division operator.\<close>

fun quot :: "flt \<Rightarrow> flt \<Rightarrow> flt" where
  "quot (Fin a) (Fin b) = rnd64 (a / b)"
| "quot NaN y = NaN"
| "quot x NaN = NaN"
| "quot (Fin a) y = Fin 0"
| "quot PInf (Fin b) = (if 0 \<le> b then PInf else NInf)"
| "quot NInf (Fin b) = (if 0 \<le> b then NInf else PInf)"
| "quot x y = NaN"

definition fdiv :: "flt \<Rightarrow> flt \<Rightarrow> flt res" where
  "fdiv x y = (if y = Fin 0 then Inl ZeroDivisionError else Inr (quot x y))"

text \<open>Python's \<open>==\<close>, and \<open>min\<close> and \<open>max\<close>, which keep the earlier of two arguments unless the later
  one compares strictly smaller (greater).\<close>

definition feq :: "flt \<Rightarrow> flt \<Rightarrow> bool" where
  "feq x y = (x \<noteq> NaN \<and> x = y)"

definition pymin :: "flt \<Rightarrow> flt \<Rightarrow> flt" where
  "pymin x y = (if y < x then y else x)"

definition pymax :: "flt \<Rightarrow> flt \<Rightarrow> flt" where
  "pymax x y = (if x < y then y else x)"

text \<open>A decimal literal of the source, an \<open>int\<close> used as a float, and the true quotient of two ints.\<close>

abbreviation lit :: "rat \<Rightarrow> flt" where "lit \<equiv> rnd64"

definition float_of_int :: "int \<Rightarrow> flt" where
  "float_of_int n = rnd64 (of_int n)"

definition int_truediv :: "int \<Rightarrow> int \<Rightarrow> flt" where
  "int_truediv a b = rnd64 (of_int a / of_int b)"

text \<open>\<open>math.floor\<close> and \<open>round(x, n)\<close>: the exact value is rounded to \<open>n\<close> decimals, ties to even.\<close>

fun math_floor :: "flt \<Rightarrow> int res" where
  "math_floor (Fin q) = Inr \<lfloor>q\<rfloor>"
| "math_floor NaN = Inl (ValueError ''cannot convert float NaN to integer'')"
| "math_floor x = Inl OverflowError"

fun py_round :: "flt \<Rightarrow> nat \<Rightarrow> flt" where
  "py_round (Fin q) n = rnd64 (of_int (rne (q * 10 ^ n)) / 10 ^ n)"
| "py_round x n = x"

text \<open>Membership in the set of doubles.\<close>

fun is_f64 :: "flt \<Rightarrow> bool" where
  "is_f64 (Fin q) = (rnd64 q = Fin q)"
| "is_f64 x = True"

section \<open>Laws of rounding\<close>

lemma rne_of_int [simp]: "rne (of_int n) = n"
  by (simp add: rne_def)

lemma rne_zero [simp]: "rne 0 = 0"
  using rne_of_int [of 0] by simp

lemma rne_near: "\<bar>of_int (rne q) - q\<bar> \<le> 1/2"
proof -
  have "of_int \<lfloor>q\<rfloor> \<le> q" and "q < of_int \<lfloor>q\<rfloor> + 1" by linarith+
  then show ?thesis by (auto simp: rne_def Let_def)
qed

lemma floor_le_rne: "\<lfloor>q\<rfloor> \<le> rne q" and rne_le_floor: "rne q \<le> \<lfloor>q\<rfloor> + 1"
  by (simp_all add: rne_def Let_def)

lemma rne_mono: assumes "p \<le> q" shows "rne p \<le> rne q"
proof (cases "\<lfloor>p\<rfloor> < \<lfloor>q\<rfloor>")
  case True
  then show ?thesis using floor_le_rne [of q] rne_le_floor [of p] by linarith
next
  case False
  with floor_mono [OF assms] have "\<lfloor>p\<rfloor> = \<lfloor>q\<rfloor>" by linarith
  with assms show ?thesis by (auto simp: rne_def Let_def)
qed

lemma rne_minus: "rne (- q) = - rne q"
proof (cases "q \<in> \<int>")
  case True
  then obtain n where "q = of_int n" by (auto elim: Ints_cases)
  then show ?thesis by (simp flip: of_int_minus)
next
  case False
  then have ne: "q \<noteq> of_int \<lfloor>q\<rfloor>" by (metis Ints_of_int)
  have fl: "\<lfloor>- q\<rfloor> = - \<lfloor>q\<rfloor> - 1"
    using ne by (intro floor_unique) (simp, linarith+)
  show ?thesis unfolding rne_def Let_def fl by (auto; linarith)
qed

lemma ilog2_bounds:
  assumes "q \<noteq> 0"
  shows "2 powi (ilog2 q) \<le> \<bar>q\<bar> \<and> \<bar>q\<bar> < 2 powi (ilog2 q + 1)"
proof -
  obtain n d where nd: "quotient_of \<bar>q\<bar> = (n, d)" by (cases "quotient_of \<bar>q\<bar>")
  have d: "0 < d" using nd by (rule quotient_of_denom_pos)
  have q: "\<bar>q\<bar> = of_int n / of_int d" using nd by (rule quotient_of_div)
  have n: "0 < n" using assms d q by (metis zero_less_abs_iff zero_less_divide_iff of_int_0_less_iff less_asym)
  define a where "a = floorlog 2 (nat n)"
  define b where "b = floorlog 2 (nat d)"
  have pow: "2 ^ (floorlog 2 (nat m) - 1) \<le> m \<and> m < 2 ^ floorlog 2 (nat m) \<and> 0 < floorlog 2 (nat m)"
    if "0 < m" for m :: int
    using floorlog_bounds [of "nat m" 2] that by (auto simp: nat_less_iff le_nat_iff floorlog_def split: if_splits)
  have na: "(2::rat) ^ (a - 1) \<le> of_int n \<and> of_int n < (2::rat) ^ a \<and> 0 < a"
    using pow [OF n] unfolding a_def [symmetric]
    by (metis of_int_le_iff of_int_less_iff of_int_numeral of_int_power)
  have db: "(2::rat) ^ (b - 1) \<le> of_int d \<and> of_int d < (2::rat) ^ b \<and> 0 < b"
    using pow [OF d] unfolding b_def [symmetric]
    by (metis of_int_le_iff of_int_less_iff of_int_numeral of_int_power)
  have half: "(2::rat) ^ c / 2 = 2 ^ (c - 1)" if "0 < c" for c :: nat
    using that by (cases c) simp_all
  have kk: "(2::rat) powi (int a - int b) = 2 ^ a / 2 ^ b"
    by (simp add: power_int_diff)
  have lo: "(2::rat) powi (int a - int b) / 2 \<le> \<bar>q\<bar>"
  proof -
    have "(2 ^ a / 2) / 2 ^ b \<le> (of_int n :: rat) / of_int d"
    proof (rule frac_le)
      show "(0::rat) \<le> of_int n" using n by simp
      show "(2::rat) ^ a / 2 \<le> of_int n" using na half by metis
      show "(0::rat) < of_int d" using d by simp
      show "(of_int d::rat) \<le> 2 ^ b" using db by simp
    qed
    then show ?thesis by (simp add: q kk)
  qed
  have hi: "\<bar>q\<bar> < 2 * (2::rat) powi (int a - int b)"
  proof -
    have "(of_int n :: rat) / of_int d < 2 ^ a / (2 ^ b / 2)"
    proof (rule frac_less)
      show "(0::rat) \<le> of_int n" using n by simp
      show "(of_int n::rat) < 2 ^ a" using na by simp
      show "(0::rat) < 2 ^ b / 2" by simp
      show "(2::rat) ^ b / 2 \<le> of_int d" using db half by metis
    qed
    then show ?thesis by (simp add: q kk mult.commute)
  qed
  have m1: "(2::rat) powi (k - 1) = 2 powi k / 2" and p1: "(2::rat) powi (k + 1) = 2 * 2 powi k" for k
    by (simp_all add: power_int_diff power_int_add)
  show ?thesis
    using lo hi by (auto simp: ilog2_def nd m1 p1 Let_def a_def [symmetric] b_def [symmetric])
qed

lemma powi_less_iff: "(2::rat) powi i < 2 powi j \<longleftrightarrow> i < j"
proof
  assume "(2::rat) powi i < 2 powi j"
  then show "i < j" using power_int_increasing [of j i "2::rat"] by force
next
  assume "i < j"
  then show "(2::rat) powi i < 2 powi j" by (simp add: power_int_strict_increasing)
qed

lemma powi_pos [simp]: "0 < (2::rat) powi i"
  by simp

lemma ilog2_unique:
  assumes "2 powi k \<le> \<bar>q\<bar>" and "\<bar>q\<bar> < 2 powi (k + 1)"
  shows "ilog2 q = k"
proof -
  have "0 < \<bar>q\<bar>" using assms(1) powi_pos [of k] by (rule less_le_trans [rotated])
  then have "q \<noteq> 0" by simp
  note b = ilog2_bounds [OF this]
  have "2 powi (ilog2 q) < (2::rat) powi (k + 1)" using b assms by linarith
  moreover have "2 powi k < (2::rat) powi (ilog2 q + 1)" using b assms by linarith
  ultimately show ?thesis unfolding powi_less_iff by linarith
qed

lemma ilog2_mono:
  assumes "p \<noteq> 0" and "\<bar>p\<bar> \<le> \<bar>q\<bar>"
  shows "ilog2 p \<le> ilog2 q"
proof -
  have "q \<noteq> 0" using assms by auto
  then have "2 powi (ilog2 p) < (2::rat) powi (ilog2 q + 1)"
    using ilog2_bounds [OF assms(1)] ilog2_bounds [of q] assms(2) by linarith
  then show ?thesis unfolding powi_less_iff by linarith
qed

lemma ilog2_minus [simp]: "ilog2 (- q) = ilog2 q"
  by (simp add: ilog2_def)

lemma ulp_exp_minus [simp]: "ulp_exp (- q) = ulp_exp q"
  by (simp add: ulp_exp_def)

lemma rval_minus: "rval (- q) = - rval q"
  by (simp add: rval_def Let_def rne_minus)

lemma rval_zero [simp]: "rval 0 = 0"
  by (simp add: rval_def)

text \<open>On the grid of spacing \<open>2 powi e\<close>, multiples of the spacing round to themselves and rounding
  is monotone.\<close>

lemma powi_cancel: "(2::rat) powi e * 2 powi (- e) = 1"
  by (simp add: power_int_minus)

lemma grid_fix:
  assumes "e \<le> f"
  shows "of_int (rne (of_int m * 2 powi f * 2 powi (- e))) * 2 powi e = (of_int m * 2 powi f :: rat)"
proof -
  obtain k :: nat where k: "f = e + int k" using assms by (metis zle_iff_zadd)
  have "(2::rat) powi f * 2 powi (- e) = 2 ^ k"
    by (simp add: k power_int_add power_int_minus)
  then have eq: "of_int m * (2::rat) powi f * 2 powi (- e) = of_int (m * 2 ^ k)"
    by (simp add: mult.assoc)
  have "(of_int (m * 2 ^ k) :: rat) * 2 powi e = of_int m * 2 powi f"
    by (simp add: k power_int_add mult_ac)
  then show ?thesis unfolding eq rne_of_int .
qed

lemma rval_exact:
  assumes "\<bar>m\<bar> \<le> 2 ^ 53" and "- 1074 \<le> e"
  shows "rval (of_int m * 2 powi e) = of_int m * 2 powi e"
proof (cases "m = 0")
  case True
  then show ?thesis by simp
next
  case False
  define q where "q = (of_int m * 2 powi e :: rat)"
  have q0: "q \<noteq> 0" using False by (simp add: q_def)
  have absq: "\<bar>q\<bar> = of_int \<bar>m\<bar> * 2 powi e" by (simp add: q_def abs_mult)
  show ?thesis
  proof (cases "\<bar>m\<bar> = 2 ^ 53")
    case True
    then have a: "\<bar>q\<bar> = 2 powi (e + 53)" by (simp add: absq power_int_add)
    have "ilog2 q = e + 53"
    proof (rule ilog2_unique)
      show "2 powi (e + 53) \<le> \<bar>q\<bar>" by (simp add: a)
      show "\<bar>q\<bar> < 2 powi (e + 53 + 1)" unfolding a powi_less_iff by simp
    qed
    then have le: "ulp_exp q \<le> e + 1" using assms by (simp add: ulp_exp_def)
    have "m = 1 * 2 ^ 53 \<or> m = (- 1) * 2 ^ 53" using True by linarith
    then obtain s where s: "m = s * 2 ^ 53" by blast
    have qs: "q = of_int (s * 2 ^ 52) * 2 powi (e + 1)" by (simp add: q_def s power_int_add)
    have "rval q = q" using grid_fix [OF le, of "s * 2 ^ 52"] q0 unfolding rval_def Let_def qs [symmetric] by simp
    then show ?thesis by (simp add: q_def)
  next
    case False
    then have "\<bar>m\<bar> < 2 ^ 53" using assms by linarith
    then have "(of_int \<bar>m\<bar> :: rat) < of_int (2 ^ 53)" unfolding of_int_less_iff .
    then have "\<bar>q\<bar> < 2 powi (e + 53)" by (simp add: absq power_int_add)
    then have "2 powi (ilog2 q) < (2::rat) powi (e + 53)" using ilog2_bounds [OF q0] by linarith
    then have le: "ulp_exp q \<le> e" unfolding powi_less_iff using assms by (simp add: ulp_exp_def)
    have "rval q = q" using grid_fix [OF le, of m] q0 unfolding rval_def Let_def q_def [symmetric] by simp
    then show ?thesis by (simp add: q_def)
  qed
qed


text \<open>A nonzero value is below the next power of two, which lies on its own grid; a value with a
  larger exponent is above it. Monotonicity follows.\<close>

lemma rval_grid:
  assumes "q \<noteq> 0"
  shows "rval q = of_int (rne (q * 2 powi (- ulp_exp q))) * 2 powi (ulp_exp q)"
  using assms by (simp add: rval_def Let_def)

lemma grid_mono:
  assumes "p \<le> q"
  shows "of_int (rne (p * 2 powi (- e))) * 2 powi e \<le> (of_int (rne (q * 2 powi (- e))) * 2 powi e :: rat)"
proof -
  have "p * 2 powi (- e) \<le> q * 2 powi (- e)" using assms by (intro mult_right_mono) auto
  then have "rne (p * 2 powi (- e)) \<le> rne (q * 2 powi (- e))" by (rule rne_mono)
  then show ?thesis by (intro mult_right_mono) auto
qed

lemma rval_nonneg: assumes "0 \<le> q" shows "0 \<le> rval q"
proof (cases "q = 0")
  case False
  then show ?thesis using grid_mono [OF assms, of "ulp_exp q"] by (simp add: rval_grid)
qed simp

lemma rval_le_next:
  assumes "0 < q" and "\<bar>q\<bar> < 2 powi (f + 53)" and "ulp_exp q \<le> f"
  shows "rval q \<le> 2 powi (f + 53)"
proof -
  let ?e = "ulp_exp q"
  have "rval q \<le> of_int (rne (2 powi (f + 53) * 2 powi (- ?e))) * 2 powi ?e"
    using grid_mono [of q "2 powi (f + 53)" ?e] assms by (simp add: rval_grid)
  also have "\<dots> = 2 powi (f + 53)"
    using grid_fix [of ?e "f + 53" 1] assms(3) by simp
  finally show ?thesis .
qed

lemma ulp_exp_mono: "p \<noteq> 0 \<Longrightarrow> \<bar>p\<bar> \<le> \<bar>q\<bar> \<Longrightarrow> ulp_exp p \<le> ulp_exp q"
  using ilog2_mono [of p q] by (simp add: ulp_exp_def)

lemma abs_less_ulp: assumes "q \<noteq> 0" shows "\<bar>q\<bar> < 2 powi (ulp_exp q + 53)"
proof -
  have "ilog2 q + 1 \<le> ulp_exp q + 53" by (simp add: ulp_exp_def)
  then have "(2::rat) powi (ilog2 q + 1) \<le> 2 powi (ulp_exp q + 53)"
    by (intro power_int_increasing) auto
  with ilog2_bounds [OF assms] show ?thesis by linarith
qed

lemma rval_mono_pos:
  assumes "0 < p" and "p \<le> q"
  shows "rval p \<le> rval q"
proof (cases "ulp_exp p = ulp_exp q")
  case True
  then show ?thesis using grid_mono [OF assms(2), of "ulp_exp p"] assms by (simp add: rval_grid)
next
  case False
  have lt: "ulp_exp p < ulp_exp q"
    using ulp_exp_mono [of p q] assms False by simp
  have q: "ulp_exp q = ilog2 q - 52" using lt by (auto simp: ulp_exp_def max_def split: if_splits)
  have "\<bar>p\<bar> < 2 powi (ulp_exp p + 53)" using assms by (intro abs_less_ulp) simp
  then have "rval p \<le> 2 powi (ulp_exp p + 53)" using assms by (intro rval_le_next) auto
  also have "\<dots> \<le> 2 powi (ulp_exp q + 52)" using lt by (intro power_int_increasing) auto
  also have "\<dots> = of_int (rne (2 powi (ulp_exp q + 52) * 2 powi (- ulp_exp q))) * 2 powi (ulp_exp q)"
    using grid_fix [of "ulp_exp q" "ulp_exp q + 52" 1] by simp
  also have "\<dots> \<le> rval q"
    using grid_mono [of "2 powi (ulp_exp q + 52)" q "ulp_exp q"] ilog2_bounds [of q] assms q
    by (simp add: rval_grid)
  finally show ?thesis .
qed

lemma rval_mono: assumes "p \<le> q" shows "rval p \<le> rval q"
proof -
  consider "0 < p" | "p \<le> 0" "0 \<le> q" | "q < 0" using assms by linarith
  then show ?thesis
  proof cases
    case 1
    then show ?thesis using assms by (rule rval_mono_pos)
  next
    case 2
    then show ?thesis using rval_nonneg [of q] rval_nonneg [of "- p"] rval_minus [of p] by simp
  next
    case 3
    then show ?thesis using rval_mono_pos [of "- q" "- p"] assms by (simp add: rval_minus)
  qed
qed

lemma rval_form:
  obtains m e where "rval q = of_int m * 2 powi e" and "\<bar>m\<bar> \<le> 2 ^ 53" and "- 1074 \<le> e"
proof (cases "q = 0")
  case True
  then show ?thesis using that [of 0 0] by simp
next
  case False
  let ?e = "ulp_exp q" and ?m = "rne (q * 2 powi (- ulp_exp q))"
  have e: "- 1074 \<le> ?e" by (simp add: ulp_exp_def)
  from False have "\<bar>q\<bar> < 2 powi (?e + 53)" by (rule abs_less_ulp)
  then have "\<bar>q * 2 powi (- ?e)\<bar> < 2 powi (?e + 53) * 2 powi (- ?e)"
    by (simp add: abs_mult)
  also have "\<dots> = of_int (2 ^ 53)" by (simp add: power_int_add power_int_minus)
  finally have b: "\<bar>q * 2 powi (- ?e)\<bar> < of_int (2 ^ 53)" .
  have "?m \<le> 2 ^ 53"
    using rne_mono [of "q * 2 powi (- ?e)" "of_int (2 ^ 53)"] b unfolding rne_of_int by linarith
  moreover have "- (2 ^ 53) \<le> ?m"
    using rne_mono [of "- of_int (2 ^ 53)" "q * 2 powi (- ?e)"] b
    unfolding rne_minus rne_of_int by linarith
  ultimately show ?thesis using that [of ?m ?e] False e by (simp add: rval_grid)
qed

lemma rval_idem [simp]: "rval (rval q) = rval q"
  by (rule rval_form [of q]) (simp add: rval_exact)

lemma rval_of_int [simp]: "\<bar>m\<bar> \<le> 2 ^ 53 \<Longrightarrow> rval (of_int m) = of_int m"
  using rval_exact [of m 0] by simp


section \<open>Laws of the arithmetic\<close>

lemma Fin_le [simp]: "Fin a \<le> Fin b \<longleftrightarrow> a \<le> b" by simp

lemma Fin_less [simp]: "Fin a < Fin b \<longleftrightarrow> a < b" by (auto simp: less_flt_def)

lemma Fin_zero [simp]: "0 < Fin a \<longleftrightarrow> 0 < a" "Fin a < 0 \<longleftrightarrow> a < 0" "0 \<le> Fin a \<longleftrightarrow> 0 \<le> a"
  "Fin a \<le> 0 \<longleftrightarrow> a \<le> 0" "Fin a = 0 \<longleftrightarrow> a = 0" "0 = Fin a \<longleftrightarrow> a = 0"
  by (auto simp: zero_flt_def)

lemma flt_le_trans: "(x::flt) \<le> y \<Longrightarrow> y \<le> z \<Longrightarrow> x \<le> z"
  by (cases x; cases y; cases z) auto

lemma flt_le_refl [simp]: "(x::flt) \<noteq> NaN \<Longrightarrow> x \<le> x" by (cases x) auto

lemma flt_less_imp_le: "(x::flt) < y \<Longrightarrow> x \<le> y" by (simp add: less_flt_def)

lemma flt_less_le_trans: "(x::flt) < y \<Longrightarrow> y \<le> z \<Longrightarrow> x < z"
  by (cases x; cases y; cases z) (auto simp: less_flt_def)

lemma flt_le_less_trans: "(x::flt) \<le> y \<Longrightarrow> y < z \<Longrightarrow> x < z"
  by (cases x; cases y; cases z) (auto simp: less_flt_def)

lemma flt_not_less: "x \<noteq> NaN \<Longrightarrow> y \<noteq> NaN \<Longrightarrow> \<not> x < y \<longleftrightarrow> (y::flt) \<le> x"
  by (cases x; cases y) (auto simp: less_flt_def)

lemma flt_not_le: "x \<noteq> NaN \<Longrightarrow> y \<noteq> NaN \<Longrightarrow> \<not> x \<le> y \<longleftrightarrow> (y::flt) < x"
  by (cases x; cases y) (auto simp: less_flt_def)

lemma flt_less_irrefl [simp]: "\<not> (x::flt) < x" by (simp add: less_flt_def)

lemma NaN_compare [simp]: "\<not> NaN \<le> x" "\<not> x \<le> NaN" "\<not> NaN < x" "\<not> x < NaN"
  by (cases x; simp add: less_flt_def)+

lemma flt_le_not_NaN: "(x::flt) \<le> y \<Longrightarrow> x \<noteq> NaN \<and> y \<noteq> NaN" by auto

lemma isfinite_iff: "isfinite x \<longleftrightarrow> (\<exists>q. x = Fin q)" by (cases x) auto

lemma rnd64_not_NaN [simp]: "rnd64 q \<noteq> NaN" by (simp add: rnd64_def Let_def)

lemma rnd64_zero [simp]: "rnd64 0 = Fin 0" by (simp add: rnd64_def)

lemma rnd64_mono: assumes "p \<le> q" shows "rnd64 p \<le> rnd64 q"
  using rval_mono [OF assms] by (auto simp: rnd64_def Let_def)

lemma rnd64_Fin: "rnd64 q = Fin v \<Longrightarrow> v = rval q \<and> \<bar>v\<bar> < 2 ^ 1024"
  by (auto simp: rnd64_def Let_def split: if_splits)

lemma is_f64_rnd64 [simp]: "is_f64 (rnd64 q)"
  by (simp add: rnd64_def Let_def)

lemma is_f64_Fin: "is_f64 (Fin q) \<longleftrightarrow> rval q = q \<and> \<bar>q\<bar> < 2 ^ 1024"
  by (auto simp: rnd64_def Let_def split: if_splits)

lemma rnd64_of_int: "\<bar>m\<bar> \<le> 2 ^ 53 \<Longrightarrow> rnd64 (of_int m) = Fin (of_int m)"
proof -
  assume m: "\<bar>m\<bar> \<le> 2 ^ 53"
  then have "(of_int \<bar>m\<bar> :: rat) \<le> of_int (2 ^ 53)" unfolding of_int_le_iff .
  then have "\<bar>of_int m :: rat\<bar> \<le> 2 ^ 53" by simp
  moreover have "(2::rat) ^ 53 < 2 ^ 1024" by (rule power_strict_increasing) simp_all
  ultimately have "\<bar>of_int m :: rat\<bar> < 2 ^ 1024" by linarith
  with rval_of_int [OF m] show ?thesis by (auto simp: rnd64_def Let_def abs_less_iff)
qed

lemma rnd64_numeral [simp]: "numeral n \<le> (2 ^ 53 :: int) \<Longrightarrow> rnd64 (numeral n) = Fin (numeral n)"
  using rnd64_of_int [of "numeral n"] by simp

lemma rnd64_one [simp]: "rnd64 1 = Fin 1"
  using rnd64_of_int [of 1] by simp

lemma rnd64_minus: "rnd64 (- q) = - rnd64 q"
  by (auto simp: rnd64_def Let_def rval_minus)

lemma rnd64_half [simp]: "rnd64 (1/2) = Fin (1/2)"
proof -
  have r: "rval (1/2) = 1/2"
  proof -
    have h: "of_int 1 * 2 powi (- 1) = (1/2 :: rat)" by (simp add: power_int_minus)
    show ?thesis using rval_exact [of 1 "- 1"] unfolding h by simp
  qed
  have b: "(2::rat) \<le> 2 ^ 1024"
    using power_increasing [of 1 1024 "2::rat"] by simp
  show ?thesis using b by (simp add: rnd64_def r del: power_numeral)
qed

lemma is_f64_minus [simp]: "is_f64 (- x) \<longleftrightarrow> is_f64 x"
  by (cases x) (simp_all add: is_f64_Fin rval_minus del: is_f64.simps(1))

lemma is_f64_abs [simp]: "is_f64 x \<Longrightarrow> is_f64 \<bar>x\<bar>"
  by (cases x) (simp_all add: is_f64_Fin rval_minus abs_if del: is_f64.simps(1))

lemma is_f64_plus [simp]: "is_f64 (x + y)" by (cases x; cases y) simp_all

lemma is_f64_diff [simp]: "is_f64 ((x::flt) - y)" by (simp add: minus_flt_def)

lemma is_f64_times [simp]: "is_f64 (x * y)" by (cases x; cases y) simp_all

lemma is_f64_quot [simp]: "is_f64 (quot x y)" by (cases x; cases y) simp_all

lemma is_f64_pymin [simp]: "is_f64 x \<Longrightarrow> is_f64 y \<Longrightarrow> is_f64 (pymin x y)" by (simp add: pymin_def)

lemma is_f64_pymax [simp]: "is_f64 x \<Longrightarrow> is_f64 y \<Longrightarrow> is_f64 (pymax x y)" by (simp add: pymax_def)

lemma pymin_le: "pymin x y \<noteq> NaN \<Longrightarrow> y \<noteq> NaN \<Longrightarrow> pymin x y \<le> x \<and> pymin x y \<le> y"
  by (cases x; cases y) (auto simp: pymin_def less_flt_def split: if_splits)

lemma pymin_not_NaN: "x \<noteq> NaN \<Longrightarrow> pymin x y \<noteq> NaN" by (auto simp: pymin_def)

lemma pymax_ge: "x \<noteq> NaN \<Longrightarrow> x \<le> pymax x y"
  by (auto simp: pymax_def flt_less_imp_le)

lemma pymax_not_NaN: "x \<noteq> NaN \<Longrightarrow> pymax x y \<noteq> NaN" by (auto simp: pymax_def)

text \<open>Rounding keeps the sign of an exact result, and a double is a fixed point.\<close>

lemma rnd64_nonneg: "0 \<le> q \<Longrightarrow> 0 \<le> rnd64 q"
  using rnd64_mono [of 0 q] by (simp add: zero_flt_def)

lemma rnd64_ge_f64: "is_f64 (Fin a) \<Longrightarrow> a \<le> q \<Longrightarrow> Fin a \<le> rnd64 q"
  using rnd64_mono [of a q] by simp

lemma rnd64_le_f64: "is_f64 (Fin a) \<Longrightarrow> q \<le> a \<Longrightarrow> rnd64 q \<le> Fin a"
  using rnd64_mono [of q a] by simp

lemma times_nonneg: "0 \<le> (x::flt) \<Longrightarrow> 0 \<le> y \<Longrightarrow> isfinite x \<Longrightarrow> isfinite y \<Longrightarrow> 0 \<le> x * y"
  by (cases x; cases y) (auto intro: rnd64_nonneg)

lemma times_mono_right:
  "isfinite x \<Longrightarrow> isfinite y \<Longrightarrow> isfinite z \<Longrightarrow> 0 \<le> (z::flt) \<Longrightarrow> x \<le> y \<Longrightarrow> x * z \<le> y * z"
  by (cases x; cases y; cases z) (auto intro!: rnd64_mono mult_right_mono)

lemma diff_le_self:
  "isfinite x \<Longrightarrow> isfinite y \<Longrightarrow> is_f64 x \<Longrightarrow> 0 \<le> y \<Longrightarrow> (x::flt) - y \<le> x"
  by (cases x; cases y) (auto simp: minus_flt_def intro!: rnd64_le_f64 simp del: less_eq_flt.simps)

lemma quot_ge_self:
  assumes "is_f64 (Fin a)" and "0 \<le> a" and "0 < b" and "b \<le> 1"
  shows "Fin a \<le> quot (Fin a) (Fin b)"
proof -
  have "a \<le> a / b" using assms by (simp add: field_simps mult_left_le)
  with assms(1) show ?thesis by (simp add: rnd64_ge_f64 del: less_eq_flt.simps)
qed

lemmas flt_order = flt_le_trans flt_less_imp_le flt_less_le_trans flt_le_less_trans
lemmas is_f64_intros = is_f64_plus is_f64_diff is_f64_times is_f64_quot is_f64_rnd64
  is_f64_abs is_f64_pymin is_f64_pymax

end
