(* ===== verification/Canonical.thy ===== *)
theory Canonical
  imports PyFloat "HOL-Library.Char_ord" "HOL-Library.List_Lexorder"
begin

text \<open>
  Canonical JSON and content hashes (\<open>decision/models.py\<close>, \<open>canonical_json\<close> and
  \<open>content_hash\<close>): \<open>json.dumps\<close> with sorted keys, the separators \<open>,\<close> and \<open>:\<close>, no ASCII
  escaping and no NaN, hashed by SHA-256. A Python string is the list of its UTF-8 bytes, so the
  text is also the byte string that is hashed.

  SHA-256 is the parameter \<open>H\<close> of every definition that hashes; no theorem assumes more of it
  than that two named texts do not collide. Floats are printed as \<open>float.__repr__\<close> does, with
  the shortest decimal that reads back as the same double (\<open>shortest\<close>).
\<close>

datatype json =
    JNull
  | JBool bool
  | JInt int
  | JFloat flt
  | JStr string
  | JArr "json list"
  | JObj "(string \<times> json) list"

section \<open>Printing numbers\<close>

fun digit_char :: "nat \<Rightarrow> char" where
  "digit_char n = char_of (48 + n)"

fun show_nat :: "nat \<Rightarrow> string" where
  "show_nat n = (if n < 10 then [digit_char n] else show_nat (n div 10) @ [digit_char (n mod 10)])"

declare show_nat.simps [simp del]

definition show_int :: "int \<Rightarrow> string" where
  "show_int i = (if i < 0 then CHR ''-'' # show_nat (nat (- i)) else show_nat (nat i))"

text \<open>The decimal exponent \<open>k\<close> of a positive rational: \<open>10 ^ k \<le> q < 10 ^ (k + 1)\<close>.\<close>

definition ilog10 :: "rat \<Rightarrow> int" where
  "ilog10 q = (let (n, d) = quotient_of q;
                   k = int (floorlog 10 (nat n)) - int (floorlog 10 (nat d))
               in if 10 powi k \<le> q then k else k - 1)"

text \<open>The decimal of \<open>p\<close> significant digits nearest to \<open>q\<close> that rounds to the double \<open>q\<close>, if
  one of the two neighbours does.\<close>

definition dec_digits :: "rat \<Rightarrow> nat \<Rightarrow> (int \<times> int) option" where
  "dec_digits q p =
     (let e = ilog10 q - int p + 1; x = q * 10 powi (- e); m = rne x;
          m' = (if of_int m \<le> x then m + 1 else m - 1)
      in if rval (of_int m * 10 powi e) = q then Some (m, e)
         else if rval (of_int m' * 10 powi e) = q then Some (m', e) else None)"

fun shortest_from :: "rat \<Rightarrow> nat \<Rightarrow> nat \<Rightarrow> int \<times> int" where
  "shortest_from q p 0 = (rne (q * 10 powi (- (ilog10 q - int p + 1))), ilog10 q - int p + 1)"
| "shortest_from q p (Suc n) =
     (case dec_digits q p of Some r \<Rightarrow> r | None \<Rightarrow> shortest_from q (Suc p) n)"

text \<open>\<open>shortest q = (m, e)\<close>: the digits \<open>m\<close> and the exponent \<open>e\<close> that \<open>repr\<close> prints for the
  positive double \<open>q\<close>. Seventeen digits always suffice.\<close>

definition shortest :: "rat \<Rightarrow> int \<times> int" where
  "shortest q = shortest_from q 1 16"

definition exp_str :: "int \<Rightarrow> string" where
  "exp_str k = (let d = show_nat (nat \<bar>k\<bar>)
                in (if k < 0 then ''-'' else ''+'') @ (if length d < 2 then CHR ''0'' # d else d))"

definition repr_pos :: "rat \<Rightarrow> string" where
  "repr_pos q =
     (let (m, e) = shortest q; ds = show_nat (nat m); p = int (length ds); k = e + p - 1
      in if - 4 \<le> k \<and> k < 16 then
           (if p \<le> k + 1 then ds @ replicate (nat (k + 1 - p)) (CHR ''0'') @ ''.0''
            else if 0 \<le> k then take (nat (k + 1)) ds @ ''.'' @ drop (nat (k + 1)) ds
            else ''0.'' @ replicate (nat (- k - 1)) (CHR ''0'') @ ds)
         else take 1 ds @ (if p = 1 then [] else ''.'' @ drop 1 ds) @ ''e'' @ exp_str k)"

fun float_repr :: "flt \<Rightarrow> string" where
  "float_repr (Fin q) = (if q = 0 then ''0.0'' else if q < 0 then CHR ''-'' # repr_pos (- q) else repr_pos q)"
| "float_repr PInf = ''inf''"
| "float_repr NInf = ''-inf''"
| "float_repr NaN = ''nan''"

text \<open>How \<open>json.dumps\<close> prints a float: as \<open>repr\<close>, with the JavaScript names of the special values.\<close>

definition json_float :: "flt \<Rightarrow> string" where
  "json_float x =
     (case x of Fin _ \<Rightarrow> float_repr x | PInf \<Rightarrow> ''Infinity'' | NInf \<Rightarrow> ''-Infinity'' | NaN \<Rightarrow> ''NaN'')"

text \<open>The value of \<open>Decimal(str(x))\<close> for a finite float \<open>x\<close>.\<close>

definition decimal_of_float :: "rat \<Rightarrow> rat" where
  "decimal_of_float q =
     (if q = 0 then 0 else let (m, e) = shortest \<bar>q\<bar> in (if q < 0 then - 1 else 1) * of_int m * 10 powi e)"

section \<open>Printing documents\<close>

definition hex_char :: "nat \<Rightarrow> char" where
  "hex_char n = (if n < 10 then char_of (48 + n) else char_of (87 + n))"

definition escape_char :: "char \<Rightarrow> string" where
  "escape_char c =
     (let n = of_char c :: nat
      in if n = 34 then [CHR 0x5C, CHR 0x22]
         else if n = 92 then [CHR 0x5C, CHR 0x5C]
         else if n = 8 then [CHR 0x5C, CHR ''b'']
         else if n = 12 then [CHR 0x5C, CHR ''f'']
         else if n = 10 then [CHR 0x5C, CHR ''n'']
         else if n = 13 then [CHR 0x5C, CHR ''r'']
         else if n = 9 then [CHR 0x5C, CHR ''t'']
         else if n < 32 then [CHR 0x5C, CHR ''u'', CHR ''0'', CHR ''0'', hex_char (n div 16), hex_char (n mod 16)]
         else [c])"

definition json_string :: "string \<Rightarrow> string" where
  "json_string s = [CHR 0x22] @ concat (map escape_char s) @ [CHR 0x22]"

fun intersperse :: "string list \<Rightarrow> string" where
  "intersperse [] = []"
| "intersperse [s] = s"
| "intersperse (s # ss) = s @ '','' @ intersperse ss"

fun json_finite :: "json \<Rightarrow> bool" where
  "json_finite (JFloat x) = isfinite x"
| "json_finite (JArr vs) = list_all json_finite vs"
| "json_finite (JObj kvs) = list_all (\<lambda>kv. json_finite (snd kv)) kvs"
| "json_finite v = True"

fun dumps :: "json \<Rightarrow> string" where
  "dumps JNull = ''null''"
| "dumps (JBool b) = (if b then ''true'' else ''false'')"
| "dumps (JInt i) = show_int i"
| "dumps (JFloat x) = json_float x"
| "dumps (JStr s) = json_string s"
| "dumps (JArr vs) = ''['' @ intersperse (map dumps vs) @ '']''"
| "dumps (JObj kvs) =
     ''{'' @ intersperse (map (\<lambda>(k, t). json_string k @ '':'' @ t)
                            (sort_key fst (map (\<lambda>kv. (fst kv, dumps (snd kv))) kvs))) @ ''}''"

definition canonical_json :: "json \<Rightarrow> string res" where
  "canonical_json v =
     (if json_finite v then Inr (dumps v) else Inl (ValueError ''Out of range float values are not JSON compliant''))"

type_synonym hasher = "string \<Rightarrow> string"

definition content_hash :: "hasher \<Rightarrow> json \<Rightarrow> string res" where
  "content_hash H v = bindR (canonical_json v) (\<lambda>t. Inr (H t))"

text \<open>The hash of a document whose floats are known to be finite.\<close>

definition digest :: "hasher \<Rightarrow> json \<Rightarrow> string" where
  "digest H v = H (dumps v)"

lemma content_hash_finite: "json_finite v \<Longrightarrow> content_hash H v = Inr (digest H v)"
  by (simp add: content_hash_def canonical_json_def digest_def)

section \<open>Field encodings\<close>

abbreviation jopt :: "('a \<Rightarrow> json) \<Rightarrow> 'a option \<Rightarrow> json" where
  "jopt f x \<equiv> (case x of None \<Rightarrow> JNull | Some y \<Rightarrow> f y)"

abbreviation jstrs :: "string list \<Rightarrow> json" where
  "jstrs ss \<equiv> JArr (map JStr ss)"

text \<open>The string pattern \<open>^[a-f0-9]{64}$\<close> of the \<open>Hash\<close> fields, and the numeric field bounds of the
  models, all of which reject NaN and infinities (\<open>allow_inf_nan=False\<close>).\<close>

definition is_hex :: "char \<Rightarrow> bool" where
  "is_hex c = (let n = of_char c :: nat in 48 \<le> n \<and> n \<le> 57 \<or> 97 \<le> n \<and> n \<le> 102)"

definition is_hash :: "string \<Rightarrow> bool" where
  "is_hash s = (length s = 64 \<and> list_all is_hex s)"

definition Positive :: "flt \<Rightarrow> bool" where
  "Positive x = (isfinite x \<and> 0 < x)"

definition Nonnegative :: "flt \<Rightarrow> bool" where
  "Nonnegative x = (isfinite x \<and> 0 \<le> x)"

definition Fraction :: "flt \<Rightarrow> bool" where
  "Fraction x = (isfinite x \<and> 0 < x \<and> x \<le> 1)"

definition opt_all :: "('a \<Rightarrow> bool) \<Rightarrow> 'a option \<Rightarrow> bool" where
  "opt_all P x = (case x of None \<Rightarrow> True | Some y \<Rightarrow> P y)"

lemma opt_all_simps [simp]: "opt_all P None" "opt_all P (Some x) = P x"
  by (simp_all add: opt_all_def)

lemma Positive_Fin: "Positive x \<Longrightarrow> \<exists>q. x = Fin q \<and> 0 < q"
  by (cases x) (auto simp: Positive_def)

lemma Nonnegative_Fin: "Nonnegative x \<Longrightarrow> \<exists>q. x = Fin q \<and> 0 \<le> q"
  by (cases x) (auto simp: Nonnegative_def)

lemma Fraction_Fin: "Fraction x \<Longrightarrow> \<exists>q. x = Fin q \<and> 0 < q \<and> q \<le> 1"
  by (cases x) (auto simp: Fraction_def one_flt_def)

end
