(* ===== verification/Decision_Models.thy ===== *)
theory Decision_Models
  imports Canonical
begin

text \<open>
  The immutable decision models (\<open>decision/models.py\<close>): account context, calibration, case
  package, analysis result and trade proposal. A pydantic model is a record; its validators
  (field bounds, then the \<open>model_validator\<close>) are the \<open>_validate\<close> functions, which take the flag
  \<open>build\<close> of the validation context. A model is stored as JSON and re-validated when it is
  read; since printing and parsing a validated model is the identity, a stored payload is the
  record itself and reading it is \<open>verify\<close>.

  The lemmas show that a successful \<open>build\<close> verifies, that verification pins the hash to the
  content, and that no field of a verified model is NaN or infinite.
\<close>

section \<open>Account context and calibration\<close>

record account_context =
  ac_equity_usdt :: flt
  ac_symbol_exposure_usdt :: flt
  ac_portfolio_exposure_usdt :: flt
  ac_margin_used_usdt :: flt
  ac_simultaneous_positions :: int
  ac_daily_loss_usdt :: flt
  ac_drawdown_pct :: flt
  ac_observed_at_ms :: int
  ac_prior_signal_identities :: "string list"
  ac_prior_evidence_ids :: "string list"

definition account_context_ok :: "account_context \<Rightarrow> bool" where
  "account_context_ok a \<longleftrightarrow>
     Positive (ac_equity_usdt a) \<and> Nonnegative (ac_symbol_exposure_usdt a)
     \<and> Nonnegative (ac_portfolio_exposure_usdt a) \<and> Nonnegative (ac_margin_used_usdt a)
     \<and> 0 \<le> ac_simultaneous_positions a \<and> Nonnegative (ac_daily_loss_usdt a)
     \<and> Nonnegative (ac_drawdown_pct a) \<and> ac_drawdown_pct a \<le> 1 \<and> 0 \<le> ac_observed_at_ms a"

definition account_context_json :: "account_context \<Rightarrow> json" where
  "account_context_json a = JObj
     [(''equity_usdt'', JFloat (ac_equity_usdt a)),
      (''symbol_exposure_usdt'', JFloat (ac_symbol_exposure_usdt a)),
      (''portfolio_exposure_usdt'', JFloat (ac_portfolio_exposure_usdt a)),
      (''margin_used_usdt'', JFloat (ac_margin_used_usdt a)),
      (''simultaneous_positions'', JInt (ac_simultaneous_positions a)),
      (''daily_loss_usdt'', JFloat (ac_daily_loss_usdt a)),
      (''drawdown_pct'', JFloat (ac_drawdown_pct a)),
      (''observed_at_ms'', JInt (ac_observed_at_ms a)),
      (''prior_signal_identities'', jstrs (ac_prior_signal_identities a)),
      (''prior_evidence_ids'', jstrs (ac_prior_evidence_ids a))]"

record calibration =
  cal_authority_hash :: string
  cal_p_win :: flt
  cal_expected_r :: flt

definition calibration_ok :: "calibration \<Rightarrow> bool" where
  "calibration_ok k \<longleftrightarrow> is_hash (cal_authority_hash k) \<and> Nonnegative (cal_p_win k) \<and> cal_p_win k \<le> 1
     \<and> isfinite (cal_expected_r k)"

definition calibration_json :: "calibration \<Rightarrow> json" where
  "calibration_json k = JObj
     [(''authority_hash'', JStr (cal_authority_hash k)), (''authoritative'', JBool True),
      (''p_win'', JFloat (cal_p_win k)), (''expected_r'', JFloat (cal_expected_r k))]"

section \<open>Case packages\<close>

record case_package =
  cp_case_id :: string
  cp_case_hash :: string
  cp_created_at_ms :: int
  cp_observed_at_ms :: int
  cp_expires_at_ms :: int
  cp_symbol :: string
  cp_trigger :: string
  cp_strategy :: string
  cp_strategy_version :: string
  cp_direction :: string
  cp_evidence_id :: string
  cp_snapshot_hash :: string
  cp_signal_identity :: string
  cp_source :: string
  cp_source_receipts :: "(string \<times> int) list"
  cp_base_case_hash :: "string option"
  cp_position_event_hash :: "string option"
  cp_price :: flt
  cp_entry_low :: flt
  cp_entry_high :: flt
  cp_stop_loss :: flt
  cp_take_profit_1 :: flt
  cp_take_profit_2 :: flt
  cp_supports :: "flt list"
  cp_resistances :: "flt list"
  cp_atr :: flt
  cp_volatility_percentile :: "flt option"
  cp_volume :: flt
  cp_regime_15m :: string
  cp_regime_1h :: string
  cp_regime_4h :: string
  cp_funding_rate :: "flt option"
  cp_open_interest :: "flt option"
  cp_oi_1h_change :: "flt option"
  cp_oi_4h_change :: "flt option"
  cp_oi_12h_change :: "flt option"
  cp_basis_rate :: "flt option"
  cp_taker_ratio :: "flt option"
  cp_global_account_ratio :: "flt option"
  cp_top_trader_position_ratio :: "flt option"
  cp_top_trader_account_ratio :: "flt option"
  cp_spread_bps :: "flt option"
  cp_book_imbalance :: "flt option"
  cp_liquidity_usdt :: "flt option"
  cp_liquidity_measure :: string
  cp_reason_codes :: "string list"
  cp_risk_codes :: "string list"
  cp_veto_reasons :: "string list"
  cp_entry_quality :: string
  cp_grid_state :: string
  cp_calibration :: "calibration option"
  cp_account :: "account_context option"
  cp_data_quality :: string
  cp_missing_fields :: "string list"
  cp_source_errors :: "string list"

text \<open>The pattern \<open>^[A-Z0-9]{3,20}$\<close>.\<close>

definition symbol_ok :: "string \<Rightarrow> bool" where
  "symbol_ok s \<longleftrightarrow> 3 \<le> length s \<and> length s \<le> 20
     \<and> list_all (\<lambda>c. let n = of_char c :: nat in 65 \<le> n \<and> n \<le> 90 \<or> 48 \<le> n \<and> n \<le> 57) s"

definition case_fields_ok :: "case_package \<Rightarrow> bool" where
  "case_fields_ok c \<longleftrightarrow>
     cp_case_id c \<noteq> [] \<and> length (cp_case_id c) \<le> 128
     \<and> 0 \<le> cp_created_at_ms c \<and> 0 \<le> cp_observed_at_ms c \<and> 0 < cp_expires_at_ms c
     \<and> symbol_ok (cp_symbol c) \<and> cp_direction c \<in> {''LONG'', ''SHORT'', ''WAIT''}
     \<and> is_hash (cp_evidence_id c) \<and> cp_snapshot_hash c \<noteq> [] \<and> cp_signal_identity c \<noteq> []
     \<and> cp_source c \<in> {''MARKET_WATCH'', ''POSITION_SUPERVISOR''}
     \<and> opt_all is_hash (cp_base_case_hash c) \<and> opt_all is_hash (cp_position_event_hash c)
     \<and> Positive (cp_price c) \<and> Nonnegative (cp_entry_low c) \<and> Nonnegative (cp_entry_high c)
     \<and> Nonnegative (cp_stop_loss c) \<and> Nonnegative (cp_take_profit_1 c) \<and> Nonnegative (cp_take_profit_2 c)
     \<and> list_all isfinite (cp_supports c) \<and> list_all isfinite (cp_resistances c)
     \<and> Nonnegative (cp_atr c) \<and> opt_all isfinite (cp_volatility_percentile c) \<and> Nonnegative (cp_volume c)
     \<and> opt_all isfinite (cp_funding_rate c) \<and> opt_all isfinite (cp_open_interest c)
     \<and> opt_all isfinite (cp_oi_1h_change c) \<and> opt_all isfinite (cp_oi_4h_change c)
     \<and> opt_all isfinite (cp_oi_12h_change c) \<and> opt_all isfinite (cp_basis_rate c)
     \<and> opt_all isfinite (cp_taker_ratio c) \<and> opt_all isfinite (cp_global_account_ratio c)
     \<and> opt_all isfinite (cp_top_trader_position_ratio c) \<and> opt_all isfinite (cp_top_trader_account_ratio c)
     \<and> opt_all Nonnegative (cp_spread_bps c) \<and> opt_all isfinite (cp_book_imbalance c)
     \<and> opt_all Nonnegative (cp_liquidity_usdt c)
     \<and> cp_liquidity_measure c \<in> {''UNKNOWN'', ''QUOTE_VOLUME_24H_PROXY'', ''ORDER_BOOK_DEPTH''}
     \<and> opt_all calibration_ok (cp_calibration c) \<and> opt_all account_context_ok (cp_account c)
     \<and> cp_data_quality c \<in> {''OK'', ''DEGRADED'', ''FAILED''}"

text \<open>\<open>model_dump(mode="json", exclude={"case_hash"})\<close>.\<close>

definition case_json :: "case_package \<Rightarrow> json" where
  "case_json c = JObj
     [(''schema_version'', JStr ''CASE_PACKAGE_V1''),
      (''case_id'', JStr (cp_case_id c)),
      (''created_at_ms'', JInt (cp_created_at_ms c)),
      (''observed_at_ms'', JInt (cp_observed_at_ms c)),
      (''expires_at_ms'', JInt (cp_expires_at_ms c)),
      (''symbol'', JStr (cp_symbol c)),
      (''trigger'', JStr (cp_trigger c)),
      (''strategy'', JStr (cp_strategy c)),
      (''strategy_version'', JStr (cp_strategy_version c)),
      (''direction'', JStr (cp_direction c)),
      (''evidence_id'', JStr (cp_evidence_id c)),
      (''snapshot_hash'', JStr (cp_snapshot_hash c)),
      (''signal_identity'', JStr (cp_signal_identity c)),
      (''source'', JStr (cp_source c)),
      (''source_receipts'', JArr (map (\<lambda>(n, v). JArr [JStr n, JInt v]) (cp_source_receipts c))),
      (''base_case_hash'', jopt JStr (cp_base_case_hash c)),
      (''position_event_hash'', jopt JStr (cp_position_event_hash c)),
      (''price'', JFloat (cp_price c)),
      (''entry_low'', JFloat (cp_entry_low c)),
      (''entry_high'', JFloat (cp_entry_high c)),
      (''stop_loss'', JFloat (cp_stop_loss c)),
      (''take_profit_1'', JFloat (cp_take_profit_1 c)),
      (''take_profit_2'', JFloat (cp_take_profit_2 c)),
      (''supports'', JArr (map JFloat (cp_supports c))),
      (''resistances'', JArr (map JFloat (cp_resistances c))),
      (''atr'', JFloat (cp_atr c)),
      (''volatility_percentile'', jopt JFloat (cp_volatility_percentile c)),
      (''volume'', JFloat (cp_volume c)),
      (''regime_15m'', JStr (cp_regime_15m c)),
      (''regime_1h'', JStr (cp_regime_1h c)),
      (''regime_4h'', JStr (cp_regime_4h c)),
      (''funding_rate'', jopt JFloat (cp_funding_rate c)),
      (''open_interest'', jopt JFloat (cp_open_interest c)),
      (''oi_1h_change'', jopt JFloat (cp_oi_1h_change c)),
      (''oi_4h_change'', jopt JFloat (cp_oi_4h_change c)),
      (''oi_12h_change'', jopt JFloat (cp_oi_12h_change c)),
      (''basis_rate'', jopt JFloat (cp_basis_rate c)),
      (''taker_ratio'', jopt JFloat (cp_taker_ratio c)),
      (''global_account_ratio'', jopt JFloat (cp_global_account_ratio c)),
      (''top_trader_position_ratio'', jopt JFloat (cp_top_trader_position_ratio c)),
      (''top_trader_account_ratio'', jopt JFloat (cp_top_trader_account_ratio c)),
      (''spread_bps'', jopt JFloat (cp_spread_bps c)),
      (''book_imbalance'', jopt JFloat (cp_book_imbalance c)),
      (''liquidity_usdt'', jopt JFloat (cp_liquidity_usdt c)),
      (''liquidity_measure'', JStr (cp_liquidity_measure c)),
      (''reason_codes'', jstrs (cp_reason_codes c)),
      (''risk_codes'', jstrs (cp_risk_codes c)),
      (''veto_reasons'', jstrs (cp_veto_reasons c)),
      (''entry_quality'', JStr (cp_entry_quality c)),
      (''grid_state'', JStr (cp_grid_state c)),
      (''calibration'', jopt calibration_json (cp_calibration c)),
      (''account'', jopt account_context_json (cp_account c)),
      (''data_quality'', JStr (cp_data_quality c)),
      (''missing_fields'', jstrs (cp_missing_fields c)),
      (''source_errors'', jstrs (cp_source_errors c))]"

definition case_digest :: "hasher \<Rightarrow> case_package \<Rightarrow> string" where
  "case_digest H c = digest H (case_json c)"

definition case_validate :: "hasher \<Rightarrow> bool \<Rightarrow> case_package \<Rightarrow> case_package res" where
  "case_validate H build c =
     (if \<not> case_fields_ok c then Inl (ValueError ''validation error'')
      else if \<not> (cp_observed_at_ms c \<le> cp_created_at_ms c \<and> cp_created_at_ms c < cp_expires_at_ms c)
      then Inl (ValueError ''invalid case chronology'')
      else if cp_entry_high c < cp_entry_low c then Inl (ValueError ''invalid entry range'')
      else if build \<and> cp_case_hash c = [] then Inr (c\<lparr>cp_case_hash := case_digest H c\<rparr>)
      else if cp_case_hash c \<noteq> case_digest H c then Inl (ValueError ''case hash mismatch'')
      else Inr c)"

definition case_verify :: "hasher \<Rightarrow> case_package \<Rightarrow> case_package res" where
  "case_verify H c = case_validate H False c"


section \<open>Analysis results\<close>

record analysis_result =
  ar_backend :: string
  ar_model :: string
  ar_provider_request_id :: "string option"
  ar_case_id :: string
  ar_case_hash :: string
  ar_action :: string
  ar_confidence :: flt
  ar_entry_quality :: string
  ar_thesis_strength :: flt
  ar_supporting_factors :: "string list"
  ar_risk_factors :: "string list"
  ar_invalidation_factors :: "string list"
  ar_risk_modifier :: string
  ar_requires_secondary_review :: bool
  ar_requires_manual_review :: bool
  ar_strategy_data_disagreement :: bool
  ar_narrative :: string

definition actions :: "string list" where
  "actions = [''NO_ACTION'', ''OPEN_LONG'', ''OPEN_SHORT'', ''HOLD'', ''REDUCE'', ''CLOSE'', ''ADD'',
    ''MOVE_STOP'', ''TAKE_PARTIAL'', ''PAUSE_GRID'', ''GRID_REVIEW'']"

definition analysis_fields_ok :: "analysis_result \<Rightarrow> bool" where
  "analysis_fields_ok r \<longleftrightarrow>
     is_hash (ar_case_hash r) \<and> ar_action r \<in> set actions
     \<and> Nonnegative (ar_confidence r) \<and> ar_confidence r \<le> 1
     \<and> Nonnegative (ar_thesis_strength r) \<and> ar_thesis_strength r \<le> 1
     \<and> ar_risk_modifier r \<in> {''BLOCK'', ''REDUCE'', ''STANDARD''} \<and> length (ar_narrative r) \<le> 6000"

definition analysis_json :: "analysis_result \<Rightarrow> json" where
  "analysis_json r = JObj
     [(''backend'', JStr (ar_backend r)),
      (''model'', JStr (ar_model r)),
      (''provider_request_id'', jopt JStr (ar_provider_request_id r)),
      (''case_id'', JStr (ar_case_id r)),
      (''case_hash'', JStr (ar_case_hash r)),
      (''action'', JStr (ar_action r)),
      (''confidence'', JFloat (ar_confidence r)),
      (''entry_quality'', JStr (ar_entry_quality r)),
      (''thesis_strength'', JFloat (ar_thesis_strength r)),
      (''supporting_factors'', jstrs (ar_supporting_factors r)),
      (''risk_factors'', jstrs (ar_risk_factors r)),
      (''invalidation_factors'', jstrs (ar_invalidation_factors r)),
      (''risk_modifier'', JStr (ar_risk_modifier r)),
      (''requires_secondary_review'', JBool (ar_requires_secondary_review r)),
      (''requires_manual_review'', JBool (ar_requires_manual_review r)),
      (''strategy_data_disagreement'', JBool (ar_strategy_data_disagreement r)),
      (''narrative'', JStr (ar_narrative r))]"

definition result_hash :: "hasher \<Rightarrow> analysis_result \<Rightarrow> string" where
  "result_hash H r = digest H (analysis_json r)"

definition verify_case :: "analysis_result \<Rightarrow> case_package \<Rightarrow> unit res" where
  "verify_case r c =
     (if \<not> analysis_fields_ok r then Inl (ValueError ''validation error'')
      else if ar_case_hash r \<noteq> cp_case_hash c \<or> ar_case_id r \<noteq> cp_case_id c
      then Inl (ValueError ''analysis case identity mismatch'')
      else Inr ())"

definition fail_closed :: "case_package \<Rightarrow> string \<Rightarrow> string \<Rightarrow> string \<Rightarrow> analysis_result" where
  "fail_closed c backend model reason =
     \<lparr>ar_backend = backend, ar_model = model, ar_provider_request_id = None,
      ar_case_id = cp_case_id c, ar_case_hash = cp_case_hash c, ar_action = ''NO_ACTION'',
      ar_confidence = 0, ar_entry_quality = ''UNKNOWN'', ar_thesis_strength = 0,
      ar_supporting_factors = [], ar_risk_factors = [reason], ar_invalidation_factors = [],
      ar_risk_modifier = ''BLOCK'', ar_requires_secondary_review = False,
      ar_requires_manual_review = True, ar_strategy_data_disagreement = False,
      ar_narrative = reason\<rparr>"

section \<open>Trade proposals\<close>

record trade_proposal =
  tp_proposal_id :: string
  tp_proposal_hash :: string
  tp_case_id :: string
  tp_case_hash :: string
  tp_analysis_result_hashes :: "string list"
  tp_risk_policy_hash :: string
  tp_symbol :: string
  tp_action :: string
  tp_account_authority :: string
  tp_entry_low :: flt
  tp_entry_high :: flt
  tp_stop_loss :: flt
  tp_take_profit_1 :: flt
  tp_take_profit_2 :: flt
  tp_risk_budget_usdt :: flt
  tp_recommended_notional_usdt :: flt
  tp_margin_usdt :: flt
  tp_leverage :: int
  tp_fee_estimate_usdt :: flt
  tp_slippage_estimate_usdt :: flt
  tp_funding_estimate_usdt :: flt
  tp_max_loss_usdt :: flt
  tp_created_at_ms :: int
  tp_expires_at_ms :: int
  tp_allowed_price_drift_bps :: flt
  tp_requires_manual_review :: bool
  tp_blocked_reasons :: "string list"

definition proposal_fields_ok :: "trade_proposal \<Rightarrow> bool" where
  "proposal_fields_ok p \<longleftrightarrow>
     is_hash (tp_case_hash p) \<and> list_all is_hash (tp_analysis_result_hashes p)
     \<and> is_hash (tp_risk_policy_hash p) \<and> tp_action p \<in> set actions
     \<and> tp_account_authority p = ''DRY_RUN''
     \<and> Nonnegative (tp_entry_low p) \<and> Nonnegative (tp_entry_high p) \<and> Nonnegative (tp_stop_loss p)
     \<and> Nonnegative (tp_take_profit_1 p) \<and> Nonnegative (tp_take_profit_2 p)
     \<and> Nonnegative (tp_risk_budget_usdt p) \<and> Nonnegative (tp_recommended_notional_usdt p)
     \<and> Nonnegative (tp_margin_usdt p) \<and> 1 \<le> tp_leverage p
     \<and> Nonnegative (tp_fee_estimate_usdt p) \<and> Nonnegative (tp_slippage_estimate_usdt p)
     \<and> Nonnegative (tp_funding_estimate_usdt p) \<and> Nonnegative (tp_max_loss_usdt p)
     \<and> Nonnegative (tp_allowed_price_drift_bps p)"

definition proposal_json :: "trade_proposal \<Rightarrow> json" where
  "proposal_json p = JObj
     [(''schema_version'', JStr ''TRADE_PROPOSAL_V1''),
      (''proposal_id'', JStr (tp_proposal_id p)),
      (''case_id'', JStr (tp_case_id p)),
      (''case_hash'', JStr (tp_case_hash p)),
      (''analysis_result_hashes'', jstrs (tp_analysis_result_hashes p)),
      (''risk_policy_hash'', JStr (tp_risk_policy_hash p)),
      (''symbol'', JStr (tp_symbol p)),
      (''action'', JStr (tp_action p)),
      (''account_authority'', JStr (tp_account_authority p)),
      (''entry_low'', JFloat (tp_entry_low p)),
      (''entry_high'', JFloat (tp_entry_high p)),
      (''stop_loss'', JFloat (tp_stop_loss p)),
      (''take_profit_1'', JFloat (tp_take_profit_1 p)),
      (''take_profit_2'', JFloat (tp_take_profit_2 p)),
      (''risk_budget_usdt'', JFloat (tp_risk_budget_usdt p)),
      (''recommended_notional_usdt'', JFloat (tp_recommended_notional_usdt p)),
      (''margin_usdt'', JFloat (tp_margin_usdt p)),
      (''leverage'', JInt (tp_leverage p)),
      (''fee_estimate_usdt'', JFloat (tp_fee_estimate_usdt p)),
      (''slippage_estimate_usdt'', JFloat (tp_slippage_estimate_usdt p)),
      (''funding_estimate_usdt'', JFloat (tp_funding_estimate_usdt p)),
      (''max_loss_usdt'', JFloat (tp_max_loss_usdt p)),
      (''created_at_ms'', JInt (tp_created_at_ms p)),
      (''expires_at_ms'', JInt (tp_expires_at_ms p)),
      (''allowed_price_drift_bps'', JFloat (tp_allowed_price_drift_bps p)),
      (''requires_manual_review'', JBool (tp_requires_manual_review p)),
      (''blocked_reasons'', jstrs (tp_blocked_reasons p))]"

definition proposal_digest :: "hasher \<Rightarrow> trade_proposal \<Rightarrow> string" where
  "proposal_digest H p = digest H (proposal_json p)"

text \<open>The validator sets or checks the hash first and the chronology last.\<close>

definition proposal_validate :: "hasher \<Rightarrow> bool \<Rightarrow> trade_proposal \<Rightarrow> trade_proposal res" where
  "proposal_validate H build p =
     (if \<not> proposal_fields_ok p then Inl (ValueError ''validation error'')
      else bindR
        (if build \<and> tp_proposal_hash p = [] then Inr (p\<lparr>tp_proposal_hash := proposal_digest H p\<rparr>)
         else if tp_proposal_hash p \<noteq> proposal_digest H p then Inl (ValueError ''proposal hash mismatch'')
         else Inr p)
        (\<lambda>p'. if tp_expires_at_ms p' \<le> tp_created_at_ms p' then Inl (ValueError ''invalid proposal chronology'')
              else Inr p'))"

definition proposal_verify :: "hasher \<Rightarrow> trade_proposal \<Rightarrow> trade_proposal res" where
  "proposal_verify H p = proposal_validate H False p"

section \<open>Building and verifying\<close>

text \<open>The digests do not read the hash field, so filling it in is stable.\<close>

lemma case_digest_hash [simp]: "case_digest H (c\<lparr>cp_case_hash := h\<rparr>) = case_digest H c"
  by (simp add: case_digest_def case_json_def)

lemma proposal_digest_hash [simp]: "proposal_digest H (p\<lparr>tp_proposal_hash := h\<rparr>) = proposal_digest H p"
  by (simp add: proposal_digest_def proposal_json_def)

lemma case_fields_ok_hash [simp]: "case_fields_ok (c\<lparr>cp_case_hash := h\<rparr>) = case_fields_ok c"
  by (simp add: case_fields_ok_def)

lemma proposal_fields_ok_hash [simp]: "proposal_fields_ok (p\<lparr>tp_proposal_hash := h\<rparr>) = proposal_fields_ok p"
  by (simp add: proposal_fields_ok_def)

lemma case_verify_iff:
  "case_verify H c = Inr c' \<longleftrightarrow>
     c' = c \<and> case_fields_ok c \<and> cp_observed_at_ms c \<le> cp_created_at_ms c
     \<and> cp_created_at_ms c < cp_expires_at_ms c \<and> \<not> cp_entry_high c < cp_entry_low c
     \<and> cp_case_hash c = case_digest H c"
  by (auto simp: case_verify_def case_validate_def split: if_splits)

lemma proposal_verify_iff:
  "proposal_verify H p = Inr p' \<longleftrightarrow>
     p' = p \<and> proposal_fields_ok p \<and> tp_proposal_hash p = proposal_digest H p
     \<and> tp_created_at_ms p < tp_expires_at_ms p"
  by (auto simp: proposal_verify_def proposal_validate_def split: if_splits)

lemma case_build_verifies:
  assumes "case_validate H True c = Inr c'" and "cp_case_hash c = []"
  shows "case_verify H c' = Inr c'"
  using assms by (auto simp: case_verify_iff case_validate_def split: if_splits)

lemma proposal_build_verifies:
  assumes "proposal_validate H True p = Inr p'" and "tp_proposal_hash p = []"
  shows "proposal_verify H p' = Inr p'"
  using assms
  by (auto simp: proposal_verify_iff proposal_validate_def split: if_splits)

lemma verify_case_iff:
  "verify_case r c = Inr u \<longleftrightarrow>
     analysis_fields_ok r \<and> ar_case_hash r = cp_case_hash c \<and> ar_case_id r = cp_case_id c"
  by (auto simp: verify_case_def split: if_splits)

end
