(* ===== verification/Fixtures.thy ===== *)
theory Fixtures
  imports Decision_Models
begin

text \<open>
  Concrete values the witnesses share: a hash function, a verified long case without account
  context, and an analysis of it. They model no code.
\<close>

definition hash_a :: string where
  "hash_a = replicate 64 (CHR ''a'')"

definition const_hash :: hasher where
  "const_hash t = hash_a"

lemma is_hash_a [simp]: "is_hash hash_a"
  by (simp add: is_hash_def hash_a_def list_all_iff is_hex_def)

lemma digest_const [simp]: "digest const_hash v = hash_a"
  by (simp add: digest_def const_hash_def)

lemma result_hash_const [simp]: "result_hash const_hash r = hash_a"
  by (simp add: result_hash_def)

lemma hash_a_nonempty [simp]: "hash_a \<noteq> []"
  by (simp add: hash_a_def)

definition sample_case :: case_package where
  "sample_case =
     \<lparr>cp_case_id = ''case-1'', cp_case_hash = hash_a, cp_created_at_ms = 1000, cp_observed_at_ms = 1000,
      cp_expires_at_ms = 121000, cp_symbol = ''BTCUSDT'', cp_trigger = ''MARKET_WATCH'', cp_strategy = ''BREAKOUT'',
      cp_strategy_version = ''V1'', cp_direction = ''LONG'', cp_evidence_id = hash_a, cp_snapshot_hash = ''snap'',
      cp_signal_identity = ''sig-1'', cp_source = ''MARKET_WATCH'', cp_source_receipts = [],
      cp_base_case_hash = None, cp_position_event_hash = None, cp_price = Fin 100,
      cp_entry_low = Fin 100, cp_entry_high = Fin 100, cp_stop_loss = Fin 50, cp_take_profit_1 = Fin 110,
      cp_take_profit_2 = Fin 120, cp_supports = [], cp_resistances = [], cp_atr = Fin 1,
      cp_volatility_percentile = None, cp_volume = Fin 0, cp_regime_15m = ''UNKNOWN'', cp_regime_1h = ''UNKNOWN'',
      cp_regime_4h = ''UNKNOWN'', cp_funding_rate = None, cp_open_interest = None, cp_oi_1h_change = None,
      cp_oi_4h_change = None, cp_oi_12h_change = None, cp_basis_rate = None, cp_taker_ratio = None,
      cp_global_account_ratio = None, cp_top_trader_position_ratio = None, cp_top_trader_account_ratio = None,
      cp_spread_bps = Some (Fin 1), cp_book_imbalance = None, cp_liquidity_usdt = Some (Fin 1000000),
      cp_liquidity_measure = ''UNKNOWN'', cp_reason_codes = [], cp_risk_codes = [], cp_veto_reasons = [],
      cp_entry_quality = ''GOOD'', cp_grid_state = ''UNKNOWN'', cp_calibration = None, cp_account = None,
      cp_data_quality = ''OK'', cp_missing_fields = [], cp_source_errors = []\<rparr>"

definition sample_analysis :: analysis_result where
  "sample_analysis =
     \<lparr>ar_backend = ''responses'', ar_model = ''m'', ar_provider_request_id = None, ar_case_id = ''case-1'',
      ar_case_hash = hash_a, ar_action = ''OPEN_LONG'', ar_confidence = Fin 1, ar_entry_quality = ''GOOD'',
      ar_thesis_strength = Fin 1, ar_supporting_factors = [], ar_risk_factors = [],
      ar_invalidation_factors = [], ar_risk_modifier = ''STANDARD'', ar_requires_secondary_review = False,
      ar_requires_manual_review = False, ar_strategy_data_disagreement = False, ar_narrative = []\<rparr>"

lemma symbol_BTCUSDT [simp]: "symbol_ok ''BTCUSDT''"
  by (simp add: symbol_ok_def)

lemma sample_case_fields: "case_fields_ok sample_case"
  by (simp add: case_fields_ok_def sample_case_def Positive_def Nonnegative_def)

lemma sample_case_verify [simp]: "case_verify const_hash sample_case = Inr sample_case"
  unfolding case_verify_iff case_digest_def digest_const
  using sample_case_fields by (simp add: sample_case_def)

lemma sample_analysis_fields: "analysis_fields_ok sample_analysis"
  by (simp add: analysis_fields_ok_def sample_analysis_def actions_def Nonnegative_def one_flt_def)

lemma sample_analysis_verify [simp]: "verify_case sample_analysis sample_case = Inr ()"
  using sample_analysis_fields by (simp add: verify_case_def) (simp add: sample_analysis_def sample_case_def)

definition sample_proposal :: trade_proposal where
  "sample_proposal =
     \<lparr>tp_proposal_id = ''proposal-1'', tp_proposal_hash = hash_a, tp_case_id = ''case-1'', tp_case_hash = hash_a,
      tp_analysis_result_hashes = [hash_a], tp_risk_policy_hash = hash_a, tp_symbol = ''BTCUSDT'',
      tp_action = ''OPEN_LONG'', tp_account_authority = ''DRY_RUN'', tp_entry_low = Fin 100, tp_entry_high = Fin 100,
      tp_stop_loss = Fin 50, tp_take_profit_1 = Fin 110, tp_take_profit_2 = Fin 120, tp_risk_budget_usdt = Fin 32,
      tp_recommended_notional_usdt = Fin 50, tp_margin_usdt = Fin 25, tp_leverage = 2, tp_fee_estimate_usdt = Fin 0,
      tp_slippage_estimate_usdt = Fin 0, tp_funding_estimate_usdt = Fin 0, tp_max_loss_usdt = Fin 25,
      tp_created_at_ms = 1000, tp_expires_at_ms = 61000, tp_allowed_price_drift_bps = Fin 20,
      tp_requires_manual_review = False, tp_blocked_reasons = []\<rparr>"

lemma sample_proposal_verify [simp]: "proposal_verify const_hash sample_proposal = Inr sample_proposal"
  unfolding proposal_verify_iff proposal_digest_def digest_const
  by (simp add: sample_proposal_def proposal_fields_ok_def actions_def Nonnegative_def)

lemma sample_proposal_fields [simp]:
  "tp_case_id sample_proposal = ''case-1''" "tp_case_hash sample_proposal = hash_a"
  "tp_proposal_hash sample_proposal = hash_a" "tp_proposal_id sample_proposal = ''proposal-1''"
  "tp_analysis_result_hashes sample_proposal = [hash_a]" "tp_expires_at_ms sample_proposal = 61000"
  "tp_requires_manual_review sample_proposal = False" "tp_blocked_reasons sample_proposal = []"
  "tp_recommended_notional_usdt sample_proposal = Fin 50"
  by (simp_all add: sample_proposal_def)

lemma sample_case_ids [simp]:
  "cp_case_id sample_case = ''case-1''" "cp_case_hash sample_case = hash_a" "cp_expires_at_ms sample_case = 121000"
  "cp_created_at_ms sample_case = 1000"
  by (simp_all add: sample_case_def)

lemma sample_analysis_ids [simp]: "ar_case_id sample_analysis = ''case-1''"
  by (simp add: sample_analysis_def)

end
