(* ===== verification/Fusion.thy ===== *)
theory Fusion
  imports Fixtures
begin

text \<open>
  Conservative fusion of the primary and the optional secondary analysis of a case
  (\<open>decision/fusion.py\<close>, class \<open>DecisionFusion\<close>).

  The modifiers are ordered by severity, \<open>STANDARD < REDUCE < BLOCK\<close>; the lemmas show that the
  fused modifier is at least as severe as both inputs, that a required but missing or a
  disagreeing second opinion always blocks, and that fusion never changes the primary action.
\<close>

record decision_fusion =
  df_confidence_threshold :: flt
  df_high_exposure_fraction :: flt

definition decision_fusion_init :: "flt \<Rightarrow> flt \<Rightarrow> decision_fusion res" where
  "decision_fusion_init t h =
     (if \<not> (0 \<le> t \<and> t \<le> 1) \<or> \<not> (0 \<le> h \<and> h \<le> 1) then Inl (ValueError ''fusion thresholds must be fractions'')
      else Inr \<lparr>df_confidence_threshold = t, df_high_exposure_fraction = h\<rparr>)"

record fusion_result =
  fr_primary :: analysis_result
  fr_secondary :: "analysis_result option"
  fr_selected :: analysis_result
  fr_requires_manual_review :: bool
  fr_reasons :: "string list"

definition reason_if :: "bool \<Rightarrow> string \<Rightarrow> string list" where
  "reason_if b r = (if b then [r] else [])"

definition high_exposure :: "decision_fusion \<Rightarrow> case_package \<Rightarrow> bool res" where
  "high_exposure f c =
     (case cp_account c of
        None \<Rightarrow> Inr False
      | Some a \<Rightarrow> bindR (fdiv (pymax (ac_symbol_exposure_usdt a) (ac_portfolio_exposure_usdt a)) (ac_equity_usdt a))
                        (\<lambda>x. Inr (df_high_exposure_fraction f \<le> x)))"

definition review_reasons ::
  "hasher \<Rightarrow> decision_fusion \<Rightarrow> case_package \<Rightarrow> analysis_result \<Rightarrow> bool \<Rightarrow> string list res" where
  "review_reasons H f c primary manual_codex_request =
     bindR (case_verify H c) (\<lambda>_.
     bindR (verify_case primary c) (\<lambda>_.
     let is_reversal = (cp_direction c = ''LONG'' \<and> ar_action primary = ''OPEN_SHORT''
                        \<or> cp_direction c = ''SHORT'' \<and> ar_action primary = ''OPEN_LONG'');
         is_close_sensitive = ar_action primary \<in> {''CLOSE'', ''REDUCE'', ''TAKE_PARTIAL''}
     in bindR (high_exposure f c) (\<lambda>high.
        Inr (reason_if (ar_confidence primary < df_confidence_threshold f) ''LOW_CONFIDENCE''
             @ reason_if (ar_action primary = ''ADD'') ''ADD_REVIEW''
             @ reason_if (ar_strategy_data_disagreement primary) ''STRATEGY_DATA_DISAGREEMENT''
             @ reason_if (ar_requires_secondary_review primary) ''SECONDARY_REVIEW_REQUESTED''
             @ reason_if (ar_requires_manual_review primary) ''PRIMARY_REVIEW_REQUESTED''
             @ reason_if manual_codex_request ''MANUAL_CODEX_REQUEST''
             @ reason_if (is_reversal \<or> is_close_sensitive) ''REVERSE_OR_CLOSE_ACTION''
             @ reason_if high ''HIGH_EXPOSURE''))))"

definition needs_secondary ::
  "hasher \<Rightarrow> decision_fusion \<Rightarrow> case_package \<Rightarrow> analysis_result \<Rightarrow> bool \<Rightarrow> bool res" where
  "needs_secondary H f c primary manual_codex_request =
     bindR (review_reasons H f c primary manual_codex_request) (\<lambda>rs. Inr (rs \<noteq> []))"

definition disagreement :: "analysis_result \<Rightarrow> analysis_result \<Rightarrow> bool" where
  "disagreement p s \<longleftrightarrow> ar_action p \<noteq> ar_action s \<or> ar_risk_modifier p \<noteq> ar_risk_modifier s
     \<or> ar_entry_quality p \<noteq> ar_entry_quality s
     \<or> lit (3/10) \<le> \<bar>ar_thesis_strength p - ar_thesis_strength s\<bar>"

definition fused_modifier :: "analysis_result \<Rightarrow> analysis_result option \<Rightarrow> bool \<Rightarrow> string" where
  "fused_modifier p sec manual =
     (let m = (case sec of
                 None \<Rightarrow> ar_risk_modifier p
               | Some s \<Rightarrow> if ar_risk_modifier s = ''BLOCK'' then ''BLOCK''
                           else if ar_risk_modifier s = ''REDUCE'' \<and> ar_risk_modifier p = ''STANDARD'' then ''REDUCE''
                           else ar_risk_modifier p)
      in if manual then ''BLOCK'' else m)"

definition fuse ::
  "hasher \<Rightarrow> decision_fusion \<Rightarrow> case_package \<Rightarrow> analysis_result \<Rightarrow> analysis_result option \<Rightarrow> bool
     \<Rightarrow> fusion_result res" where
  "fuse H f c primary secondary manual_codex_request =
     bindR (review_reasons H f c primary manual_codex_request) (\<lambda>rs0.
     bindR (case secondary of None \<Rightarrow> Inr () | Some s \<Rightarrow> verify_case s c) (\<lambda>_.
     let rs1 = rs0 @ reason_if (rs0 \<noteq> [] \<and> secondary = None) ''SECONDARY_UNAVAILABLE'';
         rs = rs1 @ (case secondary of None \<Rightarrow> []
                     | Some s \<Rightarrow> if disagreement primary s then [''MODEL_DISAGREEMENT'', ''MANUAL_REVIEW_REQUIRED''] else []);
         manual = (ar_requires_manual_review primary
                   \<or> (case secondary of None \<Rightarrow> False | Some s \<Rightarrow> ar_requires_manual_review s)
                   \<or> ''SECONDARY_UNAVAILABLE'' \<in> set rs \<or> ''MODEL_DISAGREEMENT'' \<in> set rs
                   \<or> ''MANUAL_REVIEW_REQUIRED'' \<in> set rs)
     in Inr \<lparr>fr_primary = primary, fr_secondary = secondary,
              fr_selected = primary\<lparr>ar_risk_modifier := fused_modifier primary secondary manual,
                                    ar_requires_manual_review := manual\<rparr>,
              fr_requires_manual_review = manual, fr_reasons = rs\<rparr>))"

section \<open>Severity\<close>

definition severity :: "string \<Rightarrow> nat" where
  "severity m = (if m = ''BLOCK'' then 2 else if m = ''REDUCE'' then 1 else 0)"

lemma severity_BLOCK [simp]: "severity ''BLOCK'' = 2" "severity ''REDUCE'' = 1" "severity ''STANDARD'' = 0"
  by (simp_all add: severity_def)

lemma severity_le_two: "severity m \<le> 2"
  by (simp add: severity_def)

lemma fused_modifier_severity:
  "severity (ar_risk_modifier p) \<le> severity (fused_modifier p sec manual)"
  "sec = Some s \<Longrightarrow> ar_risk_modifier p \<in> {''BLOCK'', ''REDUCE'', ''STANDARD''} \<Longrightarrow>
     severity (ar_risk_modifier s) \<le> severity (fused_modifier p sec manual)"
  by (auto simp: fused_modifier_def severity_def split: option.splits)

lemma review_reasons_verified:
  "review_reasons H f c p mcr = Inr rs \<Longrightarrow> case_verify H c = Inr c \<and> verify_case p c = Inr ()"
  by (auto simp: review_reasons_def bindR_Inr_iff case_verify_iff)

lemma fuse_Inr:
  assumes "fuse H f c p sec mcr = Inr r"
  obtains rs0 where "review_reasons H f c p mcr = Inr rs0"
    and "fr_selected r = p\<lparr>ar_risk_modifier := fused_modifier p sec (fr_requires_manual_review r),
                           ar_requires_manual_review := fr_requires_manual_review r\<rparr>"
    and "ar_requires_manual_review p \<or> (\<exists>s. sec = Some s \<and> (ar_requires_manual_review s \<or> disagreement p s))
         \<or> rs0 \<noteq> [] \<and> sec = None \<Longrightarrow> fr_requires_manual_review r"
proof -
  from assms obtain rs0 where rs0: "review_reasons H f c p mcr = Inr rs0"
    by (auto simp: fuse_def bindR_Inr_iff)
  show thesis
  proof (rule that [OF rs0])
    show "fr_selected r = p\<lparr>ar_risk_modifier := fused_modifier p sec (fr_requires_manual_review r),
                           ar_requires_manual_review := fr_requires_manual_review r\<rparr>"
      using assms by (cases sec) (auto simp: fuse_def rs0 Let_def bindR_Inr_iff)
    assume "ar_requires_manual_review p \<or> (\<exists>s. sec = Some s \<and> (ar_requires_manual_review s \<or> disagreement p s))
         \<or> rs0 \<noteq> [] \<and> sec = None"
    then show "fr_requires_manual_review r"
      using assms by (cases sec) (auto simp: fuse_def rs0 Let_def bindR_Inr_iff reason_if_def)
  qed
qed

text \<open>fusion of a case's analyses is conservative. The selected result keeps the primary's
  action, its risk modifier is at least as severe as the primary's and as the secondary's, and
  when a second opinion is needed and missing, when the two models disagree, or when either
  asks for a manual review, the result is flagged for manual review and its modifier is BLOCK.\<close>

theorem fuse_conservative:
  assumes "fuse H f c p sec mcr = Inr r"
  shows "ar_action (fr_selected r) = ar_action p
    \<and> severity (ar_risk_modifier p) \<le> severity (ar_risk_modifier (fr_selected r))
    \<and> (\<forall>s. sec = Some s \<longrightarrow> severity (ar_risk_modifier s) \<le> severity (ar_risk_modifier (fr_selected r)))
    \<and> (ar_requires_manual_review p \<or> (\<exists>s. sec = Some s \<and> (ar_requires_manual_review s \<or> disagreement p s))
       \<or> needs_secondary H f c p mcr = Inr True \<and> sec = None
       \<longrightarrow> fr_requires_manual_review r \<and> ar_requires_manual_review (fr_selected r)
           \<and> ar_risk_modifier (fr_selected r) = ''BLOCK'')"
  using assms
proof (rule fuse_Inr)
  fix rs0
  assume a: "review_reasons H f c p mcr = Inr rs0"
    and sel: "fr_selected r = p\<lparr>ar_risk_modifier := fused_modifier p sec (fr_requires_manual_review r),
                 ar_requires_manual_review := fr_requires_manual_review r\<rparr>"
    and man: "ar_requires_manual_review p \<or> (\<exists>s. sec = Some s \<and> (ar_requires_manual_review s \<or> disagreement p s))
         \<or> rs0 \<noteq> [] \<and> sec = None \<Longrightarrow> fr_requires_manual_review r"
  have "verify_case p c = Inr ()" using review_reasons_verified [OF a] by simp
  then have mods: "ar_risk_modifier p \<in> {''BLOCK'', ''REDUCE'', ''STANDARD''}"
    by (simp add: verify_case_iff analysis_fields_ok_def)
  have need: "needs_secondary H f c p mcr = Inr (rs0 \<noteq> [])"
    by (simp add: needs_secondary_def a)
  have block: "fused_modifier p sec True = ''BLOCK''"
    by (simp add: fused_modifier_def)
  show ?thesis
    using man fused_modifier_severity(1) [of p sec] fused_modifier_severity(2) [OF _ mods, of sec]
    by (auto simp: sel need block)
qed

definition sample_fusion :: decision_fusion where
  "sample_fusion = \<lparr>df_confidence_threshold = 0, df_high_exposure_fraction = 0\<rparr>"

theorem fuse_conservative_witness:
  "\<exists>r. fuse const_hash sample_fusion sample_case sample_analysis None True = Inr r
     \<and> ar_action (fr_selected r) = ''OPEN_LONG'' \<and> fr_requires_manual_review r
     \<and> ar_risk_modifier (fr_selected r) = ''BLOCK''"
proof -
  have rr: "review_reasons const_hash sample_fusion sample_case sample_analysis True = Inr [''MANUAL_CODEX_REQUEST'']"
    unfolding review_reasons_def sample_case_verify sample_analysis_verify
    by (simp add: high_exposure_def sample_fusion_def sample_case_def sample_analysis_def reason_if_def
        less_flt_def zero_flt_def)
  then obtain r where r: "fuse const_hash sample_fusion sample_case sample_analysis None True = Inr r"
    by (simp add: fuse_def Let_def)
  have need: "needs_secondary const_hash sample_fusion sample_case sample_analysis True = Inr True"
    by (simp add: needs_secondary_def rr)
  show ?thesis
    using fuse_conservative [OF r] need r by (auto simp: sample_analysis_def)
qed

end
