(* ===== verification/Actions.thy ===== *)
theory Actions
  imports Prelude
begin

text \<open>
  Code that works on a state, may raise and keeps every effect made before the exception: the actions of
  the testnet backend and of the position supervisor. An action has the type of a database operation,
  \<open>'s \<Rightarrow> 'a res \<times> 's\<close>, over a state that also holds the outside world. The theory gives the statements of
  the code (sequence, \<open>raise\<close>, \<open>try ... except\<close>, reading the state) and three ways to reason about them:
  a relation between the states before and after that every statement respects (the locale
  \<open>run_relation\<close>), a condition on what is returned and on the state it leaves (\<open>ends\<close>), and triples with one
  condition for a normal return and one for an exception (\<open>triple\<close>).
\<close>

section \<open>Statements\<close>

definition ret :: "'a \<Rightarrow> ('s, 'a) dbop" where
  "ret x s = (Inr x, s)"

definition raise :: "pyerr \<Rightarrow> ('s, 'a) dbop" where
  "raise e s = (Inl e, s)"

abbreviation blocked :: "string \<Rightarrow> ('s, 'a) dbop" where
  "blocked r \<equiv> raise (ExecutionBlocked r)"

definition sbind :: "('s, 'a) dbop \<Rightarrow> ('a \<Rightarrow> ('s, 'b) dbop) \<Rightarrow> ('s, 'b) dbop" where
  "sbind m k s = (case m s of (Inl e, s') \<Rightarrow> (Inl e, s') | (Inr x, s') \<Rightarrow> k x s')"

definition on_error :: "('s, 'a) dbop \<Rightarrow> (pyerr \<Rightarrow> ('s, 'a) dbop) \<Rightarrow> ('s, 'a) dbop" where
  "on_error m h s = (case m s of (Inl e, s') \<Rightarrow> h e s' | (Inr x, s') \<Rightarrow> (Inr x, s'))"

definition with_state :: "('s \<Rightarrow> ('s, 'a) dbop) \<Rightarrow> ('s, 'a) dbop" where
  "with_state F s = F s s"

definition check :: "bool \<Rightarrow> string \<Rightarrow> ('s, unit) dbop" where
  "check c r = (if c then ret () else blocked r)"

definition lift_res :: "'a res \<Rightarrow> ('s, 'a) dbop" where
  "lift_res r s = (r, s)"

lemma sbind_Inr: "sbind m k s = (Inr y, s') \<longleftrightarrow> (\<exists>x t. m s = (Inr x, t) \<and> k x t = (Inr y, s'))"
  by (auto simp: sbind_def split: prod.splits sum.splits)

lemma sbind_cases:
  obtains e where "m s = (Inl e, snd (sbind m k s))"
  | x t where "m s = (Inr x, t)" and "sbind m k s = k x t"
  by (cases "m s"; cases "fst (m s)") (auto simp: sbind_def)

section \<open>Relations that runs respect\<close>

locale run_relation =
  fixes P :: "'s \<Rightarrow> 's \<Rightarrow> bool"
  assumes rel_refl: "P s s" and rel_trans: "P s t \<Longrightarrow> P t u \<Longrightarrow> P s u"
begin

definition pres :: "('s, 'a) dbop \<Rightarrow> bool" where
  "pres m \<longleftrightarrow> (\<forall>s. P s (snd (m s)))"

lemma presD: "pres m \<Longrightarrow> m s = (r, s') \<Longrightarrow> P s s'"
  by (metis pres_def snd_conv)

lemma pres_statements: "pres (ret x)" "pres (raise e)" "pres (check c r)" "pres (lift_res v)"
  by (simp_all add: pres_def ret_def raise_def check_def lift_res_def rel_refl)

lemma pres_sbind: "pres m \<Longrightarrow> (\<And>x. pres (k x)) \<Longrightarrow> pres (sbind m k)"
  by (auto simp: pres_def sbind_def split: prod.splits sum.splits) (metis rel_trans snd_conv)+

lemma pres_on_error: "pres m \<Longrightarrow> (\<And>e. pres (h e)) \<Longrightarrow> pres (on_error m h)"
  by (auto simp: pres_def on_error_def split: prod.splits sum.splits) (metis rel_trans snd_conv)+

lemma pres_with_state: "(\<And>s. pres (F s)) \<Longrightarrow> pres (with_state F)"
  by (simp add: pres_def with_state_def)

lemmas pres_rules = pres_statements pres_sbind pres_on_error pres_with_state

end

section \<open>What a run returns\<close>

text \<open>What holds of every value an action returns and of the state it leaves.\<close>

definition ends :: "('s, 'a) dbop \<Rightarrow> ('a \<Rightarrow> 's \<Rightarrow> bool) \<Rightarrow> bool" where
  "ends m Q \<longleftrightarrow> (\<forall>s y s'. m s = (Inr y, s') \<longrightarrow> Q y s')"

lemma ends_intros:
  "(\<And>x. ends (k x) Q) \<Longrightarrow> ends (sbind m k) Q" "ends (raise e) Q" "(\<And>s. ends (F s) Q) \<Longrightarrow> ends (with_state F) Q"
  by (auto simp: ends_def sbind_Inr raise_def with_state_def)

lemma ends_seq: "ends m (\<lambda>x s. Q x) \<Longrightarrow> (\<And>x. Q x \<Longrightarrow> ends (k x) R) \<Longrightarrow> ends (sbind m k) R"
  unfolding ends_def sbind_Inr by blast

lemma ends_ret: "(\<And>s. Q x s) \<Longrightarrow> ends (ret x) Q"
  by (simp add: ends_def ret_def)

lemma ends_on_error: "ends m Q \<Longrightarrow> (\<And>e. ends (h e) Q) \<Longrightarrow> ends (on_error m h) Q"
  by (auto simp: ends_def on_error_def split: prod.splits sum.splits)

lemma ends_bind: "ends m Q \<Longrightarrow> (\<And>x s. Q x s \<Longrightarrow> R (f x) s) \<Longrightarrow> ends (sbind m (\<lambda>x. ret (f x))) R"
  by (auto simp: ends_def sbind_Inr ret_def)

lemma ends_never: "ends m (\<lambda>_ _. False) \<Longrightarrow> ends (sbind m k) Q"
  by (auto simp: ends_def sbind_Inr)

section \<open>Triples\<close>

definition triple :: "('s \<Rightarrow> bool) \<Rightarrow> ('s, 'a) dbop \<Rightarrow> ('a \<Rightarrow> 's \<Rightarrow> bool) \<Rightarrow> (pyerr \<Rightarrow> 's \<Rightarrow> bool) \<Rightarrow> bool" where
  "triple A m Q R \<longleftrightarrow>
     (\<forall>s. A s \<longrightarrow> (\<forall>x s'. m s = (Inr x, s') \<longrightarrow> Q x s') \<and> (\<forall>e s'. m s = (Inl e, s') \<longrightarrow> R e s'))"

lemma sbind_Inl: "sbind m k s = (Inl e, s') \<longleftrightarrow> m s = (Inl e, s') \<or> (\<exists>x t. m s = (Inr x, t) \<and> k x t = (Inl e, s'))"
  by (auto simp: sbind_def split: prod.splits sum.splits)

lemma on_error_result: "on_error m h s = (r, s') \<longleftrightarrow> (\<exists>x. m s = (Inr x, s') \<and> r = Inr x) \<or> (\<exists>e t. m s = (Inl e, t) \<and> h e t = (r, s'))"
  by (auto simp: on_error_def split: prod.splits sum.splits)

lemma triple_ret: "(\<And>s. A s \<Longrightarrow> Q x s) \<Longrightarrow> triple A (ret x) Q R"
  by (simp add: triple_def ret_def)

lemma triple_raise: "(\<And>s. A s \<Longrightarrow> R e s) \<Longrightarrow> triple A (raise e) Q R"
  by (simp add: triple_def raise_def)

lemma triple_sbind: "triple A m B R \<Longrightarrow> (\<And>x. triple (B x) (k x) Q R) \<Longrightarrow> triple A (sbind m k) Q R"
  unfolding triple_def sbind_Inr sbind_Inl by blast

lemma triple_on_error: "triple A m Q B \<Longrightarrow> (\<And>e. triple (B e) (h e) Q R) \<Longrightarrow> triple A (on_error m h) Q R"
  unfolding triple_def on_error_result by blast

lemma triple_weaken:
  "triple A m Q R \<Longrightarrow> (\<And>s. A' s \<Longrightarrow> A s) \<Longrightarrow> (\<And>x s. Q x s \<Longrightarrow> Q' x s) \<Longrightarrow> (\<And>e s. R e s \<Longrightarrow> R' e s) \<Longrightarrow> triple A' m Q' R'"
  unfolding triple_def by blast

lemma triple_if: "(c \<Longrightarrow> triple A m Q R) \<Longrightarrow> (\<not> c \<Longrightarrow> triple A n Q R) \<Longrightarrow> triple A (if c then m else n) Q R"
  by simp

end
