(* ===== verification/Kill_Switch.thy ===== *)
theory Kill_Switch
  imports Canonical
begin

text \<open>
  The durable kill switch (\<open>position_supervisor/kill_switch.py\<close>) with its policy and observation
  (\<open>position_supervisor/models.py\<close>). The switch is one row: a flag, the reasons in a sorted JSON
  list and the time it was last tripped. The module has no operation that clears it.

  The lemmas give the reasons an observation yields, show that the switch is a latch whose reasons
  only grow, and what the environment check does with the credential namespace that the rest of the
  system uses for the testnet.
\<close>

record supervisor_policy =
  sp_daily_loss_cap_usdt :: flt
  sp_drawdown_cap_pct :: flt
  sp_unreconciled_timeout_ms :: int
  sp_order_conflicts_max :: int
  sp_protective_missing_grace_ms :: int
  sp_stale_partial_fill_ms :: int
  sp_stop_near_pct :: flt
  sp_tp_near_pct :: flt
  sp_oi_shock_pct :: flt
  sp_funding_shock_rate :: flt
  sp_volatility_spike_percentile :: flt
  sp_liquidity_deterioration_bps :: flt
  sp_cooldown_ms :: int

definition default_supervisor_policy :: supervisor_policy where
  "default_supervisor_policy =
     \<lparr>sp_daily_loss_cap_usdt = lit 25, sp_drawdown_cap_pct = lit (5/100), sp_unreconciled_timeout_ms = 60000,
      sp_order_conflicts_max = 2, sp_protective_missing_grace_ms = 10000, sp_stale_partial_fill_ms = 30000,
      sp_stop_near_pct = lit (2/100), sp_tp_near_pct = lit (2/100), sp_oi_shock_pct = lit (20/100),
      sp_funding_shock_rate = lit (15/10000), sp_volatility_spike_percentile = lit (90/100),
      sp_liquidity_deterioration_bps = lit 10, sp_cooldown_ms = 60000\<rparr>"

record kill_observation =
  ko_account_snapshot_hash :: string
  ko_environment :: string
  ko_credential_namespace :: string
  ko_rest_url :: string
  ko_observed_at_ms :: int
  ko_last_reconciled_at_ms :: int
  ko_reconciled :: bool
  ko_equity_usdt :: flt
  ko_daily_loss_usdt :: flt
  ko_drawdown_pct :: flt
  ko_order_conflicts :: int
  ko_protective_missing_since_ms :: "int option"

record kill_state =
  ks_is_killed :: bool
  ks_reasons :: "string list"
  ks_tripped_at_ms :: int

definition initial_kill_state :: kill_state where
  "initial_kill_state = \<lparr>ks_is_killed = False, ks_reasons = [], ks_tripped_at_ms = 0\<rparr>"

definition reason_when :: "bool \<Rightarrow> string \<Rightarrow> string list" where
  "reason_when c r = (if c then [r] else [])"

definition testnet_url :: string where
  "testnet_url = ''https://testnet.binancefuture.com''"

definition wrong_environment :: "kill_observation \<Rightarrow> bool" where
  "wrong_environment s \<longleftrightarrow> ko_environment s = ''TESTNET''
     \<and> (ko_credential_namespace s \<noteq> ''TESTNET'' \<or> rstrip (CHR ''/'') (ko_rest_url s) \<noteq> testnet_url)"

definition protection_overdue :: "supervisor_policy \<Rightarrow> kill_observation \<Rightarrow> int \<Rightarrow> bool" where
  "protection_overdue p s now =
     (case ko_protective_missing_since_ms s of None \<Rightarrow> False
      | Some t \<Rightarrow> sp_protective_missing_grace_ms p \<le> now - t)"

definition kill_reasons :: "supervisor_policy \<Rightarrow> kill_observation \<Rightarrow> int \<Rightarrow> string list" where
  "kill_reasons p s now =
     reason_when (sp_daily_loss_cap_usdt p \<le> ko_daily_loss_usdt s) ''DAILY_LOSS_CAP''
     @ reason_when (sp_drawdown_cap_pct p \<le> ko_drawdown_pct s) ''DRAWDOWN_CAP''
     @ reason_when (\<not> ko_reconciled s \<and> sp_unreconciled_timeout_ms p \<le> now - ko_last_reconciled_at_ms s)
         ''ACCOUNT_UNRECONCILED''
     @ reason_when (sp_order_conflicts_max p \<le> ko_order_conflicts s) ''ORDER_STATE_CONFLICT''
     @ reason_when (wrong_environment s) ''WRONG_ENVIRONMENT''
     @ reason_when (protection_overdue p s now) ''PROTECTIVE_ORDER_MISSING''"

definition latch :: "string list \<Rightarrow> int \<Rightarrow> kill_state \<Rightarrow> kill_state" where
  "latch reasons now k =
     \<lparr>ks_is_killed = True, ks_reasons = sort (remdups (ks_reasons k @ reasons)), ks_tripped_at_ms = now\<rparr>"

definition evaluate :: "supervisor_policy \<Rightarrow> kill_observation \<Rightarrow> int \<Rightarrow> kill_state \<Rightarrow> string list \<times> kill_state" where
  "evaluate p s now k =
     (let reasons = kill_reasons p s now in (reasons, if reasons = [] then k else latch reasons now k))"

definition allows_new_risk :: "kill_state \<Rightarrow> bool" where
  "allows_new_risk k = (\<not> ks_is_killed k)"

definition allows_risk_reducing :: "string \<Rightarrow> bool" where
  "allows_risk_reducing environment = (py_upper environment \<noteq> ''LIVE'')"

section \<open>The latch\<close>

inductive kill_step :: "supervisor_policy \<Rightarrow> kill_state \<Rightarrow> kill_state \<Rightarrow> bool" for p where
  eval: "kill_step p k (snd (evaluate p s now k))"

inductive_cases kill_stepE: "kill_step p k k'"

lemma tripped_iff: "(if c then Some () else None) = Some v \<longleftrightarrow> c"
  by simp

definition tripped_reason :: "kill_state \<Rightarrow> string \<Rightarrow> unit option" where
  "tripped_reason k r = (if ks_is_killed k \<and> r \<in> set (ks_reasons k) then Some () else None)"

lemma evaluate_latch:
  "snd (evaluate p s now k) = (if kill_reasons p s now = [] then k else latch (kill_reasons p s now) now k)"
  by (simp add: evaluate_def Let_def)

text \<open>The reasons column is sorted and without duplicates, and the flag is set exactly when it is
  not empty.\<close>

definition kill_inv :: "kill_state \<Rightarrow> bool" where
  "kill_inv k \<longleftrightarrow> sorted (ks_reasons k) \<and> distinct (ks_reasons k) \<and> (ks_is_killed k \<longleftrightarrow> ks_reasons k \<noteq> [])"

lemma kill_inv_initial: "kill_inv initial_kill_state"
  by (simp add: kill_inv_def initial_kill_state_def)

lemma latch_reasons [simp]: "set (ks_reasons (latch rs now k)) = set (ks_reasons k) \<union> set rs"
  by (simp add: latch_def)

lemma latch_killed [simp]: "ks_is_killed (latch rs now k)"
  by (simp add: latch_def)

lemma kill_inv_latch:
  assumes "rs \<noteq> []"
  shows "kill_inv (latch rs now k)"
proof -
  have "set (ks_reasons (latch rs now k)) \<noteq> {}" using assms by simp
  then have "ks_reasons (latch rs now k) \<noteq> []" by fastforce
  moreover have "sorted (ks_reasons (latch rs now k))" "distinct (ks_reasons (latch rs now k))"
    by (simp_all add: latch_def)
  ultimately show ?thesis by (simp add: kill_inv_def)
qed

interpretation kill: latched_system "kill_step p" kill_inv tripped_reason for p
proof
  show "kill_inv k'" if "kill_inv k" "kill_step p k k'" for k k'
    using that by (auto elim!: kill_stepE simp: evaluate_latch kill_inv_latch)
  show "tripped_reason k' r = Some v" if "kill_step p k k'" "tripped_reason k r = Some v" for k k' r v
    using that by (auto elim!: kill_stepE simp: evaluate_latch tripped_reason_def split: if_splits)
qed

text \<open>the kill switch is a latch: once it is tripped, no later evaluation, of whatever
  observation at whatever time, allows new risk again or forgets a recorded reason.\<close>

theorem kill_switch_latches:
  assumes "(kill_step p)\<^sup>*\<^sup>* initial_kill_state k" and "(kill_step p)\<^sup>*\<^sup>* k k'" and "\<not> allows_new_risk k"
  shows "\<not> allows_new_risk k' \<and> set (ks_reasons k) \<subseteq> set (ks_reasons k')"
proof -
  have inv: "kill_inv k" using kill.steps_inv [OF assms(1) kill_inv_initial] .
  have "ks_is_killed k' \<and> r \<in> set (ks_reasons k')" if "r \<in> set (ks_reasons k)" for r
    using kill.steps_latch [OF assms(2) inv, of r "()"] that assms(3)
    by (simp add: tripped_reason_def allows_new_risk_def tripped_iff)
  moreover obtain r where "r \<in> set (ks_reasons k)"
    using inv assms(3) by (cases "ks_reasons k") (auto simp: kill_inv_def allows_new_risk_def)
  ultimately show ?thesis by (auto simp: allows_new_risk_def)
qed

text \<open>An observation trips the switch exactly when it yields a reason, and each reason stands
  for its own breach: daily loss or drawdown at the cap, an account unreconciled for the timeout, too
  many order conflicts, a testnet observation with a foreign namespace or endpoint, or protection
  missing for the grace period.\<close>

theorem evaluate_trips_iff:
  "(\<not> allows_new_risk (snd (evaluate p s now initial_kill_state))) \<longleftrightarrow>
     sp_daily_loss_cap_usdt p \<le> ko_daily_loss_usdt s \<or> sp_drawdown_cap_pct p \<le> ko_drawdown_pct s
     \<or> \<not> ko_reconciled s \<and> sp_unreconciled_timeout_ms p \<le> now - ko_last_reconciled_at_ms s
     \<or> sp_order_conflicts_max p \<le> ko_order_conflicts s \<or> wrong_environment s \<or> protection_overdue p s now"
  by (simp add: evaluate_latch allows_new_risk_def kill_reasons_def reason_when_def initial_kill_state_def)

text \<open>the environment check expects the credential namespace TESTNET, while account snapshots,
  the capability policy and the signed client all use BINANCE_TESTNET: every observation of the
  testnet with that namespace trips the switch, whatever the policy and the other fields.\<close>

theorem canonical_testnet_namespace_trips:
  assumes "ko_environment s = ''TESTNET''" and "ko_credential_namespace s = ''BINANCE_TESTNET''"
  shows "''WRONG_ENVIRONMENT'' \<in> set (ks_reasons (snd (evaluate p s now k)))
    \<and> \<not> allows_new_risk (snd (evaluate p s now k))"
proof -
  have w: "wrong_environment s" using assms by (simp add: wrong_environment_def)
  have "''WRONG_ENVIRONMENT'' \<in> set (kill_reasons p s now)" by (simp add: kill_reasons_def reason_when_def w)
  then show ?thesis by (auto simp: evaluate_latch allows_new_risk_def)
qed

definition sample_observation :: kill_observation where
  "sample_observation =
     \<lparr>ko_account_snapshot_hash = replicate 64 (CHR ''0''), ko_environment = ''TESTNET'',
      ko_credential_namespace = ''BINANCE_TESTNET'', ko_rest_url = testnet_url, ko_observed_at_ms = 1000,
      ko_last_reconciled_at_ms = 1000, ko_reconciled = True, ko_equity_usdt = Fin 1000, ko_daily_loss_usdt = Fin 0,
      ko_drawdown_pct = Fin 0, ko_order_conflicts = 0, ko_protective_missing_since_ms = None\<rparr>"

theorem canonical_testnet_namespace_trips_witness:
  "''WRONG_ENVIRONMENT'' \<in> set (ks_reasons (snd (evaluate default_supervisor_policy sample_observation 1000 initial_kill_state)))"
  using canonical_testnet_namespace_trips [of sample_observation default_supervisor_policy 1000 initial_kill_state]
  by (simp add: sample_observation_def)

theorem kill_switch_latches_witness:
  "\<not> allows_new_risk (snd (evaluate default_supervisor_policy
      (sample_observation\<lparr>ko_environment := ''DRY_RUN''\<rparr>) 2000
      (snd (evaluate default_supervisor_policy sample_observation 1000 initial_kill_state))))"
proof -
  let ?k = "snd (evaluate default_supervisor_policy sample_observation 1000 initial_kill_state)"
  have "\<not> allows_new_risk ?k"
    by (simp add: evaluate_latch kill_reasons_def reason_when_def wrong_environment_def sample_observation_def allows_new_risk_def)
  then show ?thesis
    using kill_switch_latches [of default_supervisor_policy ?k, OF r_into_rtranclp r_into_rtranclp, OF kill_step.eval kill_step.eval]
    by blast
qed

end
