(* ===== verification/Capability.thy ===== *)
theory Capability
  imports Kill_Switch
begin

text \<open>
  Who may write to an exchange: the capability policy (\<open>execution/policy.py\<close>), the execution plans
  (\<open>execution/models.py\<close>), the guard of the manual execution path (\<open>execution/guard.py\<close>), the
  offline environment preflight (\<open>execution/environment.py\<close>) and the configuration they read
  (\<open>ExecutionConfig\<close> in \<open>config.py\<close>). Environment variables are the argument \<open>getenv\<close>.

  The lemmas show that no input makes the live capability pass, that the testnet capability needs the
  exact namespace and endpoint, that the preflight passes in paper mode only, and that the guard binds
  an entry to the hash, the limits and the expiry of its plan.
\<close>

section \<open>Modes and plans\<close>

datatype execution_mode = DISABLED | PAPER | TESTNET | LIVE

fun mode_value :: "execution_mode \<Rightarrow> string" where
  "mode_value DISABLED = ''disabled''"
| "mode_value PAPER = ''paper''"
| "mode_value TESTNET = ''testnet''"
| "mode_value LIVE = ''live''"

definition mode_of_string :: "string \<Rightarrow> execution_mode res" where
  "mode_of_string s =
     (case List.find (\<lambda>m. mode_value m = s) [DISABLED, PAPER, TESTNET, LIVE] of
        Some m \<Rightarrow> Inr m | None \<Rightarrow> Inl (ValueError (s @ '' is not a valid ExecutionMode'')))"

record execution_plan =
  ep_plan_id :: string
  ep_signal_id :: string
  ep_symbol :: string
  ep_direction :: string
  ep_mode :: execution_mode
  ep_order_type :: string
  ep_quantity :: flt
  ep_entry_price :: flt
  ep_stop_price :: flt
  ep_take_profit_price :: flt
  ep_notional_usdt :: flt
  ep_leverage :: int
  ep_validation_status :: string
  ep_created_at_ms :: int
  ep_expires_at_ms :: int
  ep_signal_expires_at_ms :: int
  ep_rounded_rr_net :: flt
  ep_estimated_max_loss_usdt :: flt
  ep_plan_hash :: string
  ep_execution_environment_id :: string
  ep_credential_namespace_id :: string
  ep_account_authority_id :: string

definition plan_unsigned :: "execution_plan \<Rightarrow> json" where
  "plan_unsigned p = JObj
     [(''plan_id'', JStr (ep_plan_id p)), (''signal_id'', JStr (ep_signal_id p)), (''symbol'', JStr (ep_symbol p)),
      (''direction'', JStr (ep_direction p)), (''mode'', JStr (mode_value (ep_mode p))),
      (''order_type'', JStr (ep_order_type p)), (''quantity'', JFloat (ep_quantity p)),
      (''entry_price'', JFloat (ep_entry_price p)), (''stop_price'', JFloat (ep_stop_price p)),
      (''take_profit_price'', JFloat (ep_take_profit_price p)), (''notional_usdt'', JFloat (ep_notional_usdt p)),
      (''leverage'', JInt (ep_leverage p)), (''validation_status'', JStr (ep_validation_status p)),
      (''created_at_ms'', JInt (ep_created_at_ms p)), (''expires_at_ms'', JInt (ep_expires_at_ms p)),
      (''signal_expires_at_ms'', JInt (ep_signal_expires_at_ms p)), (''rounded_rr_net'', JFloat (ep_rounded_rr_net p)),
      (''estimated_max_loss_usdt'', JFloat (ep_estimated_max_loss_usdt p)),
      (''execution_environment_id'', JStr (ep_execution_environment_id p)),
      (''credential_namespace_id'', JStr (ep_credential_namespace_id p)),
      (''account_authority_id'', JStr (ep_account_authority_id p))]"

definition plan_calculated_hash :: "hasher \<Rightarrow> execution_plan \<Rightarrow> string" where
  "plan_calculated_hash H p = H (dumps (plan_unsigned p))"

record close_plan =
  kp_plan_id :: string
  kp_symbol :: string
  kp_mode :: execution_mode
  kp_side :: string
  kp_quantity :: flt
  kp_created_at_ms :: int
  kp_expires_at_ms :: int
  kp_plan_hash :: string
  kp_execution_environment_id :: string
  kp_credential_namespace_id :: string
  kp_account_authority_id :: string

definition close_unsigned :: "close_plan \<Rightarrow> json" where
  "close_unsigned p = JObj
     [(''plan_id'', JStr (kp_plan_id p)), (''symbol'', JStr (kp_symbol p)), (''mode'', JStr (mode_value (kp_mode p))),
      (''side'', JStr (kp_side p)), (''quantity'', JFloat (kp_quantity p)), (''created_at_ms'', JInt (kp_created_at_ms p)),
      (''expires_at_ms'', JInt (kp_expires_at_ms p)), (''execution_environment_id'', JStr (kp_execution_environment_id p)),
      (''credential_namespace_id'', JStr (kp_credential_namespace_id p)),
      (''account_authority_id'', JStr (kp_account_authority_id p))]"

definition close_calculated_hash :: "hasher \<Rightarrow> close_plan \<Rightarrow> string" where
  "close_calculated_hash H p = H (dumps (close_unsigned p))"

record order_receipt =
  or_plan_id :: string
  or_role :: string
  or_order_id :: string
  or_status :: string
  or_plan_hash :: string
  or_mode :: execution_mode
  or_execution_environment_id :: string
  or_credential_namespace_id :: string
  or_account_authority_id :: string
  or_symbol :: string
  or_submitted_at_ms :: int
  or_client_order_id :: string

section \<open>Capability policy\<close>

definition blocked_capabilities :: "string list" where
  "blocked_capabilities = [''LIVE'', ''AUTONOMOUS'']"

definition allowed_capabilities :: "string list" where
  "allowed_capabilities = [''SHADOW'', ''DRY_RUN'', ''PAPER'', ''TESTNET'']"

definition is_allowed :: "string \<Rightarrow> bool" where
  "is_allowed mode =
     (if py_upper mode \<in> set blocked_capabilities then False else py_upper mode \<in> set allowed_capabilities)"

definition check_capability :: "string \<Rightarrow> string \<Rightarrow> string \<Rightarrow> string \<Rightarrow> string \<Rightarrow> unit res" where
  "check_capability mode action env_id cred_ns rest_url =
     (let normalized = py_upper mode
      in if normalized \<in> set blocked_capabilities \<or> normalized = ''LIVE'' then
           Inl (ExecutionBlocked (''LIVE execution is permanently blocked: LIVE_WRITE_AUTHORITY is NONE ''
             @ ''(policy=EXECUTION_CAPABILITY_POLICY_V1, action='' @ action @ '')''))
         else if normalized = ''TESTNET'' then
           (if env_id = [] \<or> cred_ns = [] \<or> rest_url = [] then
              Inl (ExecutionBlocked (''missing credential authority metadata for TESTNET (env_id='' @ quoted env_id
                @ '', cred_ns='' @ quoted cred_ns @ '', rest_url='' @ quoted rest_url @ '')''))
            else if py_lower env_id \<notin> {''binance_usdm_testnet'', ''testnet''} then
              Inl (ExecutionBlocked (''environment mismatch for TESTNET: '' @ quoted env_id))
            else if cred_ns \<noteq> ''BINANCE_TESTNET'' then
              Inl (ExecutionBlocked (''credential namespace mismatch for TESTNET: '' @ quoted cred_ns))
            else if py_lower (rstrip (CHR ''/'') rest_url) \<noteq> testnet_url then
              Inl (ExecutionBlocked (''endpoint/environment mismatch: '' @ quoted rest_url
                @ '' is not allowlisted for TESTNET''))
            else Inr ())
         else if normalized \<in> {''PAPER'', ''DRY_RUN'', ''SHADOW''} then
           (if cred_ns \<noteq> [] \<and> cred_ns \<noteq> ''NONE'' then
              Inl (ExecutionBlocked (''offline mode must have NONE credential namespace, got '' @ quoted cred_ns))
            else Inr ())
         else Inl (ExecutionBlocked (''unknown or unhandled execution capability: '' @ quoted mode)))"

section \<open>Configuration\<close>

record execution_config =
  ec_mode :: string
  ec_auto_execute :: bool
  ec_allow_live :: bool
  ec_max_leverage :: int
  ec_max_notional_usdt :: flt
  ec_max_daily_loss_usdt :: flt
  ec_max_open_positions :: int
  ec_plan_ttl_seconds :: int
  ec_recv_window_ms :: int
  ec_position_mode :: string
  ec_margin_type :: string
  ec_entry_order_type :: string
  ec_require_protective_orders :: bool
  ec_testnet_base_url :: string

text \<open>\<open>ExecutionConfig.__post_init__\<close> on values of the declared types.\<close>

definition execution_config_validate :: "execution_config \<Rightarrow> execution_config res" where
  "execution_config_validate c =
     (if ec_mode c \<notin> {''disabled'', ''paper'', ''testnet'', ''live''}
      then Inl (ValueError ''execution.mode must be disabled, paper, testnet, or live'')
      else if ec_position_mode c \<noteq> ''ONE_WAY''
      then Inl (ValueError ''phase two execution supports ONE_WAY position mode only'')
      else if \<not> (1 \<le> ec_max_leverage c \<and> ec_max_leverage c \<le> 20)
      then Inl (ValueError ''execution.max_leverage must be between 1 and 20'')
      else if py_upper (ec_entry_order_type c) \<notin> {''LIMIT'', ''MARKET''}
      then Inl (ValueError ''execution.entry_order_type must be LIMIT or MARKET'')
      else if \<not> Nonnegative (ec_max_notional_usdt c) then Inl (ValueError ''execution.max_notional_usdt must be finite and nonnegative'')
      else if \<not> Nonnegative (ec_max_daily_loss_usdt c) then Inl (ValueError ''execution.max_daily_loss_usdt must be finite and nonnegative'')
      else if ec_max_notional_usdt c \<le> 0 \<or> ec_max_daily_loss_usdt c \<le> 0
      then Inl (ValueError ''execution notional and daily loss limits must be positive'')
      else if ec_max_open_positions c \<le> 0 then Inl (ValueError ''execution.max_open_positions must be a positive integer'')
      else if ec_plan_ttl_seconds c \<le> 0 then Inl (ValueError ''execution.plan_ttl_seconds must be a positive integer'')
      else if ec_recv_window_ms c \<le> 0 then Inl (ValueError ''execution.recv_window_ms must be a positive integer'')
      else if ec_plan_ttl_seconds c < 15
      then Inl (ValueError ''execution position limit and plan TTL are invalid'')
      else Inr c)"

section \<open>Guard\<close>

type_synonym getenv = "string \<Rightarrow> string option"

definition nonempty_env :: "getenv \<Rightarrow> string \<Rightarrow> bool" where
  "nonempty_env getenv name = (case getenv name of None \<Rightarrow> False | Some v \<Rightarrow> v \<noteq> [])"

definition credential_names :: "execution_config \<Rightarrow> string \<times> string" where
  "credential_names c =
     (if ec_mode c = mode_value TESTNET then (''BINANCE_TESTNET_API_KEY'', ''BINANCE_TESTNET_API_SECRET'')
      else (''BINANCE_API_KEY'', ''BINANCE_API_SECRET''))"

definition credentials_present :: "getenv \<Rightarrow> execution_config \<Rightarrow> bool" where
  "credentials_present getenv c =
     (nonempty_env getenv (fst (credential_names c)) \<and> nonempty_env getenv (snd (credential_names c)))"

definition risk_reducing_gate :: "getenv \<Rightarrow> execution_config \<Rightarrow> execution_mode \<Rightarrow> unit res" where
  "risk_reducing_gate getenv c mode =
     bindR (mode_of_string (ec_mode c)) (\<lambda>configured.
       if configured = DISABLED then Inl (ExecutionBlocked ''execution.mode=disabled'')
       else if mode \<noteq> configured
       then Inl (ExecutionBlocked ''plan mode does not match current execution mode'')
       else if configured \<in> {TESTNET, LIVE} \<and> \<not> credentials_present getenv c
       then Inl (ExecutionBlocked ''mode-specific Binance API credentials are missing'')
       else Inr ())"

definition mode_gate :: "getenv \<Rightarrow> execution_config \<Rightarrow> execution_mode \<Rightarrow> unit res" where
  "mode_gate getenv c mode =
     bindR (risk_reducing_gate getenv c mode) (\<lambda>_.
       if mode = LIVE then
         (if \<not> ec_allow_live c then Inl (ExecutionBlocked ''execution.allow_live=false'')
          else if getenv ''BTC_QUANT_LIVE_CONFIRM'' \<noteq> Some ''I_UNDERSTAND_REAL_ORDERS''
          then Inl (ExecutionBlocked ''BTC_QUANT_LIVE_CONFIRM is not set to the required phrase'')
          else Inr ())
       else Inr ())"

definition provisional :: "string \<Rightarrow> bool" where
  "provisional status \<longleftrightarrow> startswith status ''PROVISIONAL''
     \<or> status \<in> {''NOT_FORWARD_VALIDATED'', ''NOT_RUNTIME_ACTIONABLE''}"

definition validate_entry ::
  "hasher \<Rightarrow> getenv \<Rightarrow> execution_config \<Rightarrow> execution_plan \<Rightarrow> string \<Rightarrow> int \<Rightarrow> int \<Rightarrow> flt \<Rightarrow> bool \<Rightarrow> unit res" where
  "validate_entry H getenv c p confirmation_hash now open_positions daily_loss automatic =
     (if provisional (ep_validation_status p)
      then Inl (ExecutionBlocked ''provisional or non-runtime signal cannot enter execution'')
      else bindR (mode_gate getenv c (ep_mode p)) (\<lambda>_.
        if plan_calculated_hash H p \<noteq> ep_plan_hash p \<or> confirmation_hash \<noteq> ep_plan_hash p
        then Inl (ExecutionBlocked ''execution plan hash mismatch'')
        else if ep_expires_at_ms p < now then Inl (ExecutionBlocked ''execution plan expired'')
        else if ec_max_notional_usdt c < ep_notional_usdt p
        then Inl (ExecutionBlocked ''plan exceeds max_notional_usdt'')
        else if ec_max_leverage c < ep_leverage p then Inl (ExecutionBlocked ''plan exceeds max_leverage'')
        else if ep_mode p = LIVE \<and> ep_validation_status p \<noteq> ''VALIDATED_FORWARD''
        then Inl (ExecutionBlocked ''live execution requires VALIDATED_FORWARD'')
        else if ec_max_open_positions c \<le> open_positions
        then Inl (ExecutionBlocked ''max_open_positions reached'')
        else if ec_max_daily_loss_usdt c \<le> daily_loss
        then Inl (ExecutionBlocked ''max_daily_loss_usdt reached'')
        else if automatic then
          (if \<not> ec_auto_execute c then Inl (ExecutionBlocked ''execution.auto_execute=false'')
           else if ep_validation_status p \<noteq> ''VALIDATED_FORWARD''
           then Inl (ExecutionBlocked ''automatic execution requires VALIDATED_FORWARD'')
           else if getenv ''BTC_QUANT_AUTO_EXECUTE_CONFIRM'' \<noteq> Some ''ENABLE_AUTO_EXECUTION''
           then Inl (ExecutionBlocked ''BTC_QUANT_AUTO_EXECUTE_CONFIRM is missing'')
           else Inr ())
        else Inr ()))"

definition validate_close ::
  "hasher \<Rightarrow> getenv \<Rightarrow> execution_config \<Rightarrow> close_plan \<Rightarrow> string \<Rightarrow> int \<Rightarrow> unit res" where
  "validate_close H getenv c p confirmation_hash now =
     bindR (risk_reducing_gate getenv c (kp_mode p)) (\<lambda>_.
       if close_calculated_hash H p \<noteq> kp_plan_hash p \<or> confirmation_hash \<noteq> kp_plan_hash p
       then Inl (ExecutionBlocked ''close plan hash mismatch'')
       else if kp_expires_at_ms p < now then Inl (ExecutionBlocked ''close plan expired'')
       else Inr ())"

definition validate_cancel ::
  "hasher \<Rightarrow> getenv \<Rightarrow> execution_config \<Rightarrow> execution_plan \<Rightarrow> string \<Rightarrow> unit res" where
  "validate_cancel H getenv c p confirmation_hash =
     bindR (risk_reducing_gate getenv c (ep_mode p)) (\<lambda>_.
       if plan_calculated_hash H p \<noteq> ep_plan_hash p \<or> confirmation_hash \<noteq> ep_plan_hash p
       then Inl (ExecutionBlocked ''execution plan hash mismatch'') else Inr ())"

section \<open>Environment authority\<close>

text \<open>\<open>urllib.parse.urlsplit\<close> as far as it is used: the scheme (a letter, then letters, digits, +, -
  and dot, up to the first colon), the network location (after two slashes, up to the first slash,
  question mark or hash) and the path (up to the first question mark or hash). Unbalanced brackets in
  the network location raise; bracketed hosts are taken as they are.\<close>

definition is_alpha :: "char \<Rightarrow> bool" where
  "is_alpha c = (let n = of_char c :: nat in 65 \<le> n \<and> n \<le> 90 \<or> 97 \<le> n \<and> n \<le> 122)"

definition is_scheme_char :: "char \<Rightarrow> bool" where
  "is_scheme_char c = (let n = of_char c :: nat in is_alpha c \<or> 48 \<le> n \<and> n \<le> 57 \<or> n = 43 \<or> n = 45 \<or> n = 46)"

definition split_scheme :: "string \<Rightarrow> string \<times> string" where
  "split_scheme url =
     (let pre = takeWhile (\<lambda>c. c \<noteq> CHR '':'') url; rest = dropWhile (\<lambda>c. c \<noteq> CHR '':'') url
      in if rest \<noteq> [] \<and> pre \<noteq> [] \<and> is_alpha (hd pre) \<and> list_all is_scheme_char pre then (py_lower pre, tl rest)
         else ([], url))"

definition urlsplit :: "string \<Rightarrow> (string \<times> string \<times> string) res" where
  "urlsplit url =
     (let (scheme, rest) = split_scheme (filter (\<lambda>c. of_char c \<notin> {9, 10, 13 :: nat}) (dropWhile (\<lambda>c. (of_char c :: nat) \<le> 32) url));
          has_loc = startswith rest ''//'';
          body = (if has_loc then drop 2 rest else rest);
          loc = (if has_loc then takeWhile (\<lambda>c. c \<notin> {CHR ''/'', CHR ''?'', CHR ''#''}) body else []);
          path = takeWhile (\<lambda>c. c \<notin> {CHR ''?'', CHR ''#''}) (drop (length loc) body)
      in if (CHR ''['' \<in> set loc) \<noteq> (CHR '']'' \<in> set loc) then Inl (ValueError ''Invalid IPv6 URL'')
         else Inr (scheme, loc, path))"

definition normalize_rest_base_url :: "string \<Rightarrow> string res" where
  "normalize_rest_base_url url =
     (let cleaned = py_strip url
      in bindR (urlsplit cleaned) (\<lambda>(scheme, netloc, path).
           if scheme = [] then Inr (rstrip (CHR ''/'') cleaned)
           else Inr (py_lower scheme @ ''://'' @ py_lower netloc @ rstrip (CHR ''/'') path)))"

fun canonical_environment :: "execution_mode \<Rightarrow> string" where
  "canonical_environment PAPER = ''local_paper''"
| "canonical_environment TESTNET = ''binance_usdm_testnet''"
| "canonical_environment LIVE = ''binance_usdm_live''"
| "canonical_environment DISABLED = ''disabled''"

fun canonical_namespace :: "execution_mode \<Rightarrow> string" where
  "canonical_namespace PAPER = ''NONE''"
| "canonical_namespace TESTNET = ''BINANCE_TESTNET''"
| "canonical_namespace LIVE = ''BINANCE_LIVE''"
| "canonical_namespace DISABLED = ''NONE''"

fun canonical_url :: "execution_mode \<Rightarrow> string" where
  "canonical_url TESTNET = ''https://testnet.binancefuture.com''"
| "canonical_url LIVE = ''https://fapi.binance.com''"
| "canonical_url PAPER = ''local://paper''"
| "canonical_url DISABLED = []"

fun canonical_account :: "execution_mode \<Rightarrow> string" where
  "canonical_account PAPER = ''DEFAULT_PAPER_ACCOUNT''"
| "canonical_account TESTNET = ''BINANCE_TESTNET_DEFAULT''"
| "canonical_account LIVE = ''BINANCE_LIVE_DEFAULT''"
| "canonical_account DISABLED = ''DISABLED''"

record environment_authority =
  ea_mode :: execution_mode
  ea_environment_id :: string
  ea_normalized_rest_base_url :: string
  ea_credential_namespace_id :: string
  ea_account_authority_id :: string
  ea_position_mode_assumption :: string
  ea_margin_mode_assumption :: string

definition or_else :: "string option \<Rightarrow> string \<Rightarrow> string" where
  "or_else x d = (case x of None \<Rightarrow> d | Some v \<Rightarrow> if v = [] then d else v)"

definition resolved_url :: "execution_config \<Rightarrow> string option \<Rightarrow> string option \<Rightarrow> execution_mode \<Rightarrow> string res" where
  "resolved_url c data_url base_url mode =
     (case base_url of
        Some u \<Rightarrow> normalize_rest_base_url u
      | None \<Rightarrow>
          if mode = TESTNET then normalize_rest_base_url (ec_testnet_base_url c)
          else if mode = LIVE then
            normalize_rest_base_url (case data_url of Some u \<Rightarrow> u | None \<Rightarrow> ''https://fapi.binance.com'')
          else Inr ''local://paper'')"

text \<open>\<open>ExecutionEnvironmentAuthority.from_config\<close>; \<open>data_url\<close> is \<open>config.data.rest_base_url\<close> when an
  application configuration is given.\<close>

definition authority_from_config ::
  "execution_config \<Rightarrow> string option \<Rightarrow> string option \<Rightarrow> string option \<Rightarrow> environment_authority res" where
  "authority_from_config c data_url base_url account =
     bindR (mode_of_string (ec_mode c)) (\<lambda>mode.
       if mode = DISABLED then
         Inr \<lparr>ea_mode = mode, ea_environment_id = ''disabled'', ea_normalized_rest_base_url = [],
              ea_credential_namespace_id = ''NONE'', ea_account_authority_id = or_else account ''DISABLED'',
              ea_position_mode_assumption = ec_position_mode c, ea_margin_mode_assumption = ec_margin_type c\<rparr>
       else bindR (resolved_url c data_url base_url mode) (\<lambda>url.
         bindR (normalize_rest_base_url (canonical_url mode)) (\<lambda>expected.
           if mode \<in> {TESTNET, LIVE} \<and> url \<noteq> expected then
             Inl (ExecutionBlocked (''endpoint/environment mismatch: '' @ quoted url @ '' is not allowlisted for ''
               @ quoted (canonical_environment mode)))
           else
             Inr \<lparr>ea_mode = mode, ea_environment_id = canonical_environment mode, ea_normalized_rest_base_url = url,
                  ea_credential_namespace_id = canonical_namespace mode,
                  ea_account_authority_id = or_else account (canonical_account mode),
                  ea_position_mode_assumption = ec_position_mode c, ea_margin_mode_assumption = ec_margin_type c\<rparr>)))"

section \<open>Preflight\<close>

datatype any_plan = EntryPlan execution_plan | ClosingPlan close_plan

record plan_view =
  pv_hash :: string
  pv_calculated :: string
  pv_expires_at_ms :: int
  pv_mode :: execution_mode
  pv_environment :: string
  pv_namespace :: string
  pv_account :: string
  pv_symbol :: string

fun plan_view_of :: "hasher \<Rightarrow> any_plan \<Rightarrow> plan_view" where
  "plan_view_of H (EntryPlan p) =
     \<lparr>pv_hash = ep_plan_hash p, pv_calculated = plan_calculated_hash H p, pv_expires_at_ms = ep_expires_at_ms p,
      pv_mode = ep_mode p, pv_environment = ep_execution_environment_id p, pv_namespace = ep_credential_namespace_id p,
      pv_account = ep_account_authority_id p, pv_symbol = ep_symbol p\<rparr>"
| "plan_view_of H (ClosingPlan p) =
     \<lparr>pv_hash = kp_plan_hash p, pv_calculated = close_calculated_hash H p, pv_expires_at_ms = kp_expires_at_ms p,
      pv_mode = kp_mode p, pv_environment = kp_execution_environment_id p, pv_namespace = kp_credential_namespace_id p,
      pv_account = kp_account_authority_id p, pv_symbol = kp_symbol p\<rparr>"

datatype receipt_arg = ReceiptDict "(string \<times> string) list" | ReceiptObject order_receipt

definition dict_get :: "(string \<times> string) list \<Rightarrow> string \<Rightarrow> string" where
  "dict_get d k = (case map_of d k of None \<Rightarrow> [] | Some v \<Rightarrow> v)"

text \<open>The fields read off a receipt: plan hash, environment, namespace, account, symbol and mode.\<close>

fun receipt_fields :: "receipt_arg \<Rightarrow> string list" where
  "receipt_fields (ReceiptDict d) =
     map (dict_get d) [''plan_hash'', ''execution_environment_id'', ''credential_namespace_id'',
       ''account_authority_id'', ''symbol'', ''mode'']"
| "receipt_fields (ReceiptObject r) =
     [or_plan_hash r, or_execution_environment_id r, or_credential_namespace_id r, or_account_authority_id r,
      or_symbol r, mode_value (or_mode r)]"

definition check_receipt :: "plan_view \<Rightarrow> environment_authority \<Rightarrow> receipt_arg \<Rightarrow> unit res" where
  "check_receipt p a r =
     (let f = receipt_fields r
      in if f ! 0 \<noteq> pv_hash p
         then Inl (ExecutionBlocked ''foreign plan receipt: receipt plan_hash does not match plan'')
         else if f ! 1 \<noteq> ea_environment_id a
         then Inl (ExecutionBlocked (''foreign-environment order receipt: receipt '' @ quoted (f ! 1)
           @ '' != current '' @ quoted (ea_environment_id a)))
         else if f ! 2 \<noteq> ea_credential_namespace_id a
         then Inl (ExecutionBlocked (''receipt credential namespace mismatch: receipt '' @ quoted (f ! 2)
           @ '' != current '' @ quoted (ea_credential_namespace_id a)))
         else if f ! 3 \<noteq> ea_account_authority_id a
         then Inl (ExecutionBlocked (''receipt account authority mismatch: receipt '' @ quoted (f ! 3)
           @ '' != current '' @ quoted (ea_account_authority_id a)))
         else if f ! 5 \<noteq> mode_value (ea_mode a)
         then Inl (ExecutionBlocked (''receipt mode mismatch: receipt '' @ quoted (f ! 5)
           @ '' != current '' @ quoted (mode_value (ea_mode a))))
         else if f ! 4 \<noteq> [] \<and> f ! 4 \<noteq> pv_symbol p
         then Inl (ExecutionBlocked (''wrong symbol on receipt: '' @ quoted (f ! 4) @ '' != '' @ quoted (pv_symbol p)))
         else Inr ())"

definition action_classifications :: "string list" where
  "action_classifications = [''ENTRY_SUBMIT'', ''RECONCILE'', ''RECONCILE_OPEN_PLANS'', ''PREPARE_CLOSE'',
    ''SUBMIT_CLOSE'', ''CANCEL_ENTRY'', ''ORDER_QUERY'', ''POSITION_QUERY'', ''ACCOUNT_QUERY'']"

definition classify_action :: "string option \<Rightarrow> string option res" where
  "classify_action action =
     (case action of None \<Rightarrow> Inr None
      | Some a \<Rightarrow> if a = [] then Inr None else if a \<in> set action_classifications then Inr (Some a)
                  else Inl (ValueError (quoted a @ '' is not a valid ActionClassification'')))"

definition match_authority :: "plan_view \<Rightarrow> environment_authority \<Rightarrow> unit res" where
  "match_authority p a =
     (if pv_mode p \<noteq> ea_mode a
      then Inl (ExecutionBlocked (''plan mode '' @ quoted (mode_value (pv_mode p))
        @ '' does not match current execution mode '' @ quoted (mode_value (ea_mode a))))
      else if pv_environment p \<noteq> ea_environment_id a
      then Inl (ExecutionBlocked (''environment mismatch: plan '' @ quoted (pv_environment p)
        @ '' != configured '' @ quoted (ea_environment_id a)))
      else if pv_namespace p \<noteq> ea_credential_namespace_id a
      then Inl (ExecutionBlocked (''credential namespace mismatch: plan '' @ quoted (pv_namespace p)
        @ '' != configured '' @ quoted (ea_credential_namespace_id a)))
      else if pv_account p \<noteq> ea_account_authority_id a
      then Inl (ExecutionBlocked (''account authority mismatch: plan '' @ quoted (pv_account p)
        @ '' != configured '' @ quoted (ea_account_authority_id a)))
      else Inr ())"

definition check_assumptions :: "environment_authority \<Rightarrow> unit res" where
  "check_assumptions a =
     (if ea_position_mode_assumption a \<noteq> ''ONE_WAY''
      then Inl (ExecutionBlocked (''position mode assumption mismatch: '' @ quoted (ea_position_mode_assumption a)
        @ '' != '' @ quoted ''ONE_WAY''))
      else if ea_margin_mode_assumption a \<noteq> ''ISOLATED''
      then Inl (ExecutionBlocked (''margin mode assumption mismatch: '' @ quoted (ea_margin_mode_assumption a)
        @ '' != '' @ quoted ''ISOLATED''))
      else Inr ())"

definition preflight ::
  "hasher \<Rightarrow> any_plan \<Rightarrow> execution_config \<Rightarrow> string option \<Rightarrow> receipt_arg option \<Rightarrow> string option \<Rightarrow> int option
     \<Rightarrow> string option \<Rightarrow> string option \<Rightarrow> environment_authority res" where
  "preflight H plan c data_url receipt action now account base_url =
     (let p = plan_view_of H plan
      in if pv_calculated p \<noteq> pv_hash p then Inl (ExecutionBlocked ''execution plan hash mismatch'')
         else if action \<noteq> Some ''RECONCILE'' \<and> (case now of None \<Rightarrow> False | Some n \<Rightarrow> pv_expires_at_ms p < n)
         then Inl (ExecutionBlocked ''execution plan expired'')
         else if pv_mode p \<in> {TESTNET, LIVE} \<and> (pv_environment p = [] \<or> pv_namespace p = [] \<or> pv_account p = [])
         then Inl (ExecutionBlocked ''old testnet/live plan without V1 environment authority fails closed'')
         else bindR (authority_from_config c data_url base_url account) (\<lambda>a.
           bindR (match_authority p a) (\<lambda>_.
           bindR (case receipt of None \<Rightarrow> Inr () | Some r \<Rightarrow> check_receipt p a r) (\<lambda>_.
           bindR (check_assumptions a) (\<lambda>_.
           bindR (classify_action action) (\<lambda>classified.
             if ea_mode a = DISABLED then Inl (ExecutionBlocked ''execution.mode=disabled'')
             else if ea_mode a \<noteq> PAPER then
               Inl (ExecutionBlocked (''RESEARCH_DISABLED_V1: signed exchange execution is not authorized ''
                 @ ''(policy=RESEARCH_DISABLED_V1, write_authority=None, action=''
                 @ (case classified of None \<Rightarrow> ''None'' | Some k \<Rightarrow> k) @ '')''))
             else Inr a))))))"

section \<open>Properties\<close>

text \<open>The capability check passes exactly for the offline modes without foreign credentials and
  for the testnet with its own environment, the namespace BINANCE_TESTNET and the testnet endpoint;
  in particular no spelling of LIVE or AUTONOMOUS and no combination of arguments passes it.\<close>

theorem check_capability_iff:
  "check_capability mode action env_id cred_ns rest_url = Inr () \<longleftrightarrow>
     (py_upper mode \<in> {''PAPER'', ''DRY_RUN'', ''SHADOW''} \<and> (cred_ns = [] \<or> cred_ns = ''NONE''))
     \<or> (py_upper mode = ''TESTNET'' \<and> py_lower env_id \<in> {''binance_usdm_testnet'', ''testnet''}
        \<and> cred_ns = ''BINANCE_TESTNET'' \<and> py_lower (rstrip (CHR ''/'') rest_url) = testnet_url)"
proof -
  have nil: "py_lower [] \<notin> {''binance_usdm_testnet'', ''testnet''}" "py_lower (rstrip (CHR ''/'') []) \<noteq> testnet_url"
    by (simp_all add: py_lower_def rstrip_def testnet_url_def)
  show ?thesis
    using nil by (auto simp: check_capability_def Let_def blocked_capabilities_def)
qed

lemma authority_mode:
  assumes "authority_from_config c d b acc = Inr a"
  shows "ea_environment_id a = canonical_environment (ea_mode a)
    \<and> ea_credential_namespace_id a = canonical_namespace (ea_mode a)"
proof -
  obtain m where m: "mode_of_string (ec_mode c) = Inr m"
    using assms by (cases "mode_of_string (ec_mode c)") (simp_all add: authority_from_config_def)
  show ?thesis
  proof (cases "m = DISABLED")
    case True
    with assms m show ?thesis by (auto simp: authority_from_config_def)
  next
    case False
    then obtain url expected where u: "resolved_url c d b m = Inr url" "normalize_rest_base_url (canonical_url m) = Inr expected"
      using assms m by (auto simp: authority_from_config_def bindR_Inr_iff simp del: bindR.simps)
    show ?thesis using assms m False u by (cases m) (auto simp: authority_from_config_def split: if_splits)
  qed
qed

lemma match_authority_iff:
  "match_authority p a = Inr u \<longleftrightarrow> pv_mode p = ea_mode a \<and> pv_environment p = ea_environment_id a
     \<and> pv_namespace p = ea_credential_namespace_id a \<and> pv_account p = ea_account_authority_id a"
  by (auto simp: match_authority_def)

lemma check_receipt_hash: "check_receipt p a r = Inr u \<Longrightarrow> receipt_fields r ! 0 = pv_hash p"
  by (auto simp: check_receipt_def Let_def split: if_splits)

lemma check_receipt_environment: "check_receipt p a r = Inr u \<Longrightarrow> receipt_fields r ! 1 = ea_environment_id a"
  by (auto simp: check_receipt_def Let_def split: if_splits)

lemma check_assumptions_iff:
  "check_assumptions a = Inr u \<longleftrightarrow> ea_position_mode_assumption a = ''ONE_WAY'' \<and> ea_margin_mode_assumption a = ''ISOLATED''"
  by (auto simp: check_assumptions_def)

text \<open>The environment preflight passes in paper mode only: whatever the plan, configuration,
  endpoint, account and receipt, success means that the plan hash is the hash of its content, that the
  plan is bound to the local paper environment with no credentials, that it has not expired unless the
  action is RECONCILE, and that a receipt, if given, belongs to that plan and environment.\<close>

theorem preflight_paper_only:
  assumes "preflight H plan c data_url receipt action now account base_url = Inr a"
  shows "ea_mode a = PAPER \<and> pv_mode (plan_view_of H plan) = PAPER
    \<and> pv_hash (plan_view_of H plan) = pv_calculated (plan_view_of H plan)
    \<and> pv_environment (plan_view_of H plan) = ''local_paper'' \<and> pv_namespace (plan_view_of H plan) = ''NONE''
    \<and> (action = Some ''RECONCILE'' \<or> (\<forall>n. now = Some n \<longrightarrow> n \<le> pv_expires_at_ms (plan_view_of H plan)))
    \<and> (\<forall>r. receipt = Some r \<longrightarrow> receipt_fields r ! 0 = pv_hash (plan_view_of H plan)
                               \<and> receipt_fields r ! 1 = ''local_paper'')"
proof -
  let ?p = "plan_view_of H plan"
  have a: "authority_from_config c data_url base_url account = Inr a" and m: "match_authority ?p a = Inr ()"
    and r: "(case receipt of None \<Rightarrow> Inr () | Some r \<Rightarrow> check_receipt ?p a r) = Inr ()"
    and mode: "ea_mode a = PAPER" and h: "pv_calculated ?p = pv_hash ?p"
    and e: "action = Some ''RECONCILE'' \<or> \<not> (case now of None \<Rightarrow> False | Some n \<Rightarrow> pv_expires_at_ms ?p < n)"
    using assms by (auto simp: preflight_def Let_def result_simps split: if_splits)
  have env: "ea_environment_id a = ''local_paper''" "ea_credential_namespace_id a = ''NONE''"
    using authority_mode [OF a] mode by simp_all
  show ?thesis
    using m [unfolded match_authority_iff] env mode h e r check_receipt_hash check_receipt_environment
    by (auto split: option.splits)
qed

text \<open>An entry that passes the guard of the manual path is confirmed by the hash of its own content,
  is not provisional and not expired, and keeps the limits of the configuration on leverage, open
  positions and, for comparable values, notional; a live entry needs the forward-validated status, the
  configuration flag and the confirmation phrase.\<close>

theorem validate_entry_bounds:
  assumes "validate_entry H getenv c p confirmation now open_positions daily_loss automatic = Inr ()"
    and "execution_config_validate c = Inr c"
  shows "plan_calculated_hash H p = ep_plan_hash p \<and> confirmation = ep_plan_hash p
    \<and> \<not> provisional (ep_validation_status p) \<and> now \<le> ep_expires_at_ms p
    \<and> (ep_notional_usdt p = NaN \<or> ep_notional_usdt p \<le> ec_max_notional_usdt c)
    \<and> ep_leverage p \<le> 20 \<and> open_positions < ec_max_open_positions c
    \<and> mode_of_string (ec_mode c) = Inr (ep_mode p) \<and> ep_mode p \<noteq> DISABLED
    \<and> (ep_mode p = LIVE \<longrightarrow> ec_allow_live c \<and> ep_validation_status p = ''VALIDATED_FORWARD''
         \<and> getenv ''BTC_QUANT_LIVE_CONFIRM'' = Some ''I_UNDERSTAND_REAL_ORDERS'')
    \<and> (automatic \<longrightarrow> ec_auto_execute c \<and> ep_validation_status p = ''VALIDATED_FORWARD'')"
proof -
  have g: "mode_gate getenv c (ep_mode p) = Inr ()" and nn: "\<not> ec_max_notional_usdt c < ep_notional_usdt p"
    and rest: "plan_calculated_hash H p = ep_plan_hash p" "confirmation = ep_plan_hash p"
    "\<not> provisional (ep_validation_status p)" "now \<le> ep_expires_at_ms p" "ep_leverage p \<le> ec_max_leverage c"
    "open_positions < ec_max_open_positions c" "ep_mode p = LIVE \<longrightarrow> ep_validation_status p = ''VALIDATED_FORWARD''"
    "automatic \<longrightarrow> ec_auto_execute c \<and> ep_validation_status p = ''VALIDATED_FORWARD''"
    using assms(1) by (auto simp: validate_entry_def result_simps split: if_splits)
  have fin: "ec_max_notional_usdt c \<noteq> NaN" and lev: "ec_max_leverage c \<le> 20"
    using assms(2) by (auto simp: execution_config_validate_def Nonnegative_def split: if_splits)
  have mode: "mode_of_string (ec_mode c) = Inr (ep_mode p)" "ep_mode p \<noteq> DISABLED"
    "ep_mode p = LIVE \<longrightarrow> ec_allow_live c \<and> getenv ''BTC_QUANT_LIVE_CONFIRM'' = Some ''I_UNDERSTAND_REAL_ORDERS''"
    using g by (auto simp: mode_gate_def risk_reducing_gate_def result_simps split: if_splits)
  have "ep_notional_usdt p = NaN \<or> ep_notional_usdt p \<le> ec_max_notional_usdt c"
    using nn fin flt_not_less by blast
  with rest mode lev show ?thesis by auto
qed

section \<open>Concrete plans\<close>

definition sample_config :: execution_config where
  "sample_config =
     \<lparr>ec_mode = ''paper'', ec_auto_execute = False, ec_allow_live = False, ec_max_leverage = 5,
      ec_max_notional_usdt = Fin 100, ec_max_daily_loss_usdt = Fin 2, ec_max_open_positions = 1,
      ec_plan_ttl_seconds = 120, ec_recv_window_ms = 5000, ec_position_mode = ''ONE_WAY'',
      ec_margin_type = ''ISOLATED'', ec_entry_order_type = ''LIMIT'', ec_require_protective_orders = True,
      ec_testnet_base_url = ''https://testnet.binancefuture.com''\<rparr>"

definition sample_plan :: execution_plan where
  "sample_plan =
     \<lparr>ep_plan_id = ''plan-1'', ep_signal_id = ''sig-1'', ep_symbol = ''BTCUSDT'', ep_direction = ''LONG'', ep_mode = PAPER,
      ep_order_type = ''LIMIT'', ep_quantity = Fin 1, ep_entry_price = Fin 50, ep_stop_price = Fin 40,
      ep_take_profit_price = Fin 60, ep_notional_usdt = Fin 50, ep_leverage = 2, ep_validation_status = ''EXPERIMENTAL'',
      ep_created_at_ms = 0, ep_expires_at_ms = 1000, ep_signal_expires_at_ms = 1000, ep_rounded_rr_net = Fin 1,
      ep_estimated_max_loss_usdt = Fin 1, ep_plan_hash = ''h'', ep_execution_environment_id = ''local_paper'',
      ep_credential_namespace_id = ''NONE'', ep_account_authority_id = ''DEFAULT_PAPER_ACCOUNT''\<rparr>"

definition sample_authority :: environment_authority where
  "sample_authority =
     \<lparr>ea_mode = PAPER, ea_environment_id = ''local_paper'', ea_normalized_rest_base_url = ''local://paper'',
      ea_credential_namespace_id = ''NONE'', ea_account_authority_id = ''DEFAULT_PAPER_ACCOUNT'',
      ea_position_mode_assumption = ''ONE_WAY'', ea_margin_mode_assumption = ''ISOLATED''\<rparr>"

lemma sample_normalize: "normalize_rest_base_url ''local://paper'' = Inr ''local://paper''"
  by (simp add: normalize_rest_base_url_def urlsplit_def split_scheme_def py_strip_def is_space_def rstrip_def
      startswith_def py_lower_def lower_char_def is_alpha_def is_scheme_char_def Let_def)

lemma sample_authority_from: "authority_from_config sample_config None None None = Inr sample_authority"
  by (simp add: authority_from_config_def sample_config_def mode_of_string_def resolved_url_def sample_normalize
      sample_authority_def or_else_def)

lemma sample_preflight:
  "preflight (\<lambda>_. ''h'') (EntryPlan sample_plan) sample_config None None (Some ''ENTRY_SUBMIT'') (Some 500) None None
     = Inr sample_authority"
  unfolding preflight_def sample_authority_from
  by (simp add: plan_calculated_hash_def sample_plan_def Let_def match_authority_def check_assumptions_def
      sample_authority_def classify_action_def action_classifications_def)

theorem preflight_paper_only_witness:
  "ea_mode sample_authority = PAPER \<and> pv_mode (plan_view_of (\<lambda>_. ''h'') (EntryPlan sample_plan)) = PAPER"
  using preflight_paper_only [OF sample_preflight] by simp

theorem validate_entry_bounds_witness:
  "plan_calculated_hash (\<lambda>_. ''h'') sample_plan = ''h'' \<and> ep_leverage sample_plan \<le> 20"
proof -
  have v: "validate_entry (\<lambda>_. ''h'') (\<lambda>_. None) sample_config sample_plan ''h'' 500 0 (Fin 0) False = Inr ()"
    by (simp add: validate_entry_def provisional_def startswith_def mode_gate_def risk_reducing_gate_def mode_of_string_def
        sample_config_def sample_plan_def plan_calculated_hash_def)
  have c: "execution_config_validate sample_config = Inr sample_config"
    by (simp add: execution_config_validate_def sample_config_def Nonnegative_def py_upper_def upper_char_def zero_flt_def)
  have "ep_plan_hash sample_plan = ''h''" by (simp add: sample_plan_def)
  with validate_entry_bounds [OF v c] show ?thesis by simp
qed

end
