(* ===== verification/Account.thy ===== *)
theory Account
  imports Fixtures Capability
begin

text \<open>
  Account snapshots (\<open>account_watch/models.py\<close>) and market observations
  (\<open>live_market/models.py\<close>): hashed immutable models with the authority and chronology checks of
  their validators, the account context a snapshot yields for the risk compiler, and the freshness of
  the three components of a market observation.

  \<open>py_sum\<close> is the built-in \<open>sum\<close> on floats of the Python the project's image runs (3.12), which
  compensates rounding errors as it goes.
\<close>

section \<open>Positions and orders\<close>

record position =
  po_symbol :: string
  po_quantity :: flt
  po_entry_price :: flt
  po_mark_price :: flt
  po_unrealized_pnl_usdt :: flt
  po_leverage :: int
  po_liquidation_price :: "flt option"
  po_margin_type :: string
  po_observed_at_ms :: int

definition position_ok :: "position \<Rightarrow> bool" where
  "position_ok p \<longleftrightarrow> isfinite (po_quantity p) \<and> Nonnegative (po_entry_price p) \<and> Nonnegative (po_mark_price p)
     \<and> isfinite (po_unrealized_pnl_usdt p) \<and> 1 \<le> po_leverage p \<and> opt_all Nonnegative (po_liquidation_price p)
     \<and> 0 \<le> po_observed_at_ms p"

definition position_json :: "position \<Rightarrow> json" where
  "position_json p = JObj
     [(''symbol'', JStr (po_symbol p)), (''quantity'', JFloat (po_quantity p)), (''entry_price'', JFloat (po_entry_price p)),
      (''mark_price'', JFloat (po_mark_price p)), (''unrealized_pnl_usdt'', JFloat (po_unrealized_pnl_usdt p)),
      (''leverage'', JInt (po_leverage p)), (''liquidation_price'', jopt JFloat (po_liquidation_price p)),
      (''margin_type'', JStr (po_margin_type p)), (''observed_at_ms'', JInt (po_observed_at_ms p))]"

record account_order =
  ao_symbol :: string
  ao_order_id :: string
  ao_client_order_id :: string
  ao_side :: string
  ao_status :: string
  ao_order_type :: string
  ao_quantity :: flt
  ao_filled_quantity :: flt
  ao_price :: flt
  ao_average_price :: flt
  ao_reduce_only :: bool
  ao_stop_price :: "flt option"
  ao_observed_at_ms :: int

definition order_statuses :: "string list" where
  "order_statuses = [''NEW'', ''PARTIALLY_FILLED'', ''FILLED'', ''CANCELED'', ''EXPIRED'', ''REJECTED'']"

definition account_order_ok :: "account_order \<Rightarrow> bool" where
  "account_order_ok o1 \<longleftrightarrow> ao_side o1 \<in> {''BUY'', ''SELL''} \<and> ao_status o1 \<in> set order_statuses
     \<and> Nonnegative (ao_quantity o1) \<and> Nonnegative (ao_filled_quantity o1) \<and> Nonnegative (ao_price o1)
     \<and> Nonnegative (ao_average_price o1) \<and> opt_all Nonnegative (ao_stop_price o1) \<and> 0 \<le> ao_observed_at_ms o1
     \<and> \<not> ao_quantity o1 < ao_filled_quantity o1"

definition account_order_json :: "account_order \<Rightarrow> json" where
  "account_order_json o1 = JObj
     [(''symbol'', JStr (ao_symbol o1)), (''order_id'', JStr (ao_order_id o1)),
      (''client_order_id'', JStr (ao_client_order_id o1)), (''side'', JStr (ao_side o1)), (''status'', JStr (ao_status o1)),
      (''order_type'', JStr (ao_order_type o1)), (''quantity'', JFloat (ao_quantity o1)),
      (''filled_quantity'', JFloat (ao_filled_quantity o1)), (''price'', JFloat (ao_price o1)),
      (''average_price'', JFloat (ao_average_price o1)), (''reduce_only'', JBool (ao_reduce_only o1)),
      (''stop_price'', jopt JFloat (ao_stop_price o1)), (''observed_at_ms'', JInt (ao_observed_at_ms o1))]"

section \<open>Snapshots\<close>

record account_snapshot =
  as_snapshot_hash :: string
  as_account_id :: string
  as_environment :: string
  as_credential_namespace :: string
  as_rest_base_url :: string
  as_observed_at_ms :: int
  as_last_rest_at_ms :: int
  as_stream_connected :: bool
  as_reconciled :: bool
  as_conflict_count :: int
  as_equity_usdt :: flt
  as_available_balance_usdt :: flt
  as_wallet_balance_usdt :: flt
  as_margin_used_usdt :: flt
  as_daily_loss_usdt :: flt
  as_drawdown_pct :: flt
  as_peak_equity_usdt :: flt
  as_positions :: "position list"
  as_orders :: "account_order list"
  as_quality :: string

definition snapshot_fields_ok :: "account_snapshot \<Rightarrow> bool" where
  "snapshot_fields_ok a \<longleftrightarrow> as_account_id a \<noteq> [] \<and> length (as_account_id a) \<le> 128
     \<and> as_environment a \<in> {''DRY_RUN'', ''TESTNET''} \<and> as_credential_namespace a \<in> {''NONE'', ''BINANCE_TESTNET''}
     \<and> 0 \<le> as_observed_at_ms a \<and> 0 \<le> as_last_rest_at_ms a \<and> 0 \<le> as_conflict_count a
     \<and> Nonnegative (as_equity_usdt a) \<and> Nonnegative (as_available_balance_usdt a)
     \<and> Nonnegative (as_wallet_balance_usdt a) \<and> Nonnegative (as_margin_used_usdt a)
     \<and> Nonnegative (as_daily_loss_usdt a) \<and> Nonnegative (as_drawdown_pct a) \<and> as_drawdown_pct a \<le> 1
     \<and> Nonnegative (as_peak_equity_usdt a) \<and> list_all position_ok (as_positions a)
     \<and> list_all account_order_ok (as_orders a) \<and> as_quality a \<in> {''OK'', ''STALE'', ''CONFLICT''}"

definition snapshot_json :: "account_snapshot \<Rightarrow> json" where
  "snapshot_json a = JObj
     [(''schema_version'', JStr ''ACCOUNT_SNAPSHOT_V1''), (''account_id'', JStr (as_account_id a)),
      (''environment'', JStr (as_environment a)), (''credential_namespace'', JStr (as_credential_namespace a)),
      (''rest_base_url'', JStr (as_rest_base_url a)), (''observed_at_ms'', JInt (as_observed_at_ms a)),
      (''last_rest_at_ms'', JInt (as_last_rest_at_ms a)), (''stream_connected'', JBool (as_stream_connected a)),
      (''reconciled'', JBool (as_reconciled a)), (''conflict_count'', JInt (as_conflict_count a)),
      (''equity_usdt'', JFloat (as_equity_usdt a)), (''available_balance_usdt'', JFloat (as_available_balance_usdt a)),
      (''wallet_balance_usdt'', JFloat (as_wallet_balance_usdt a)), (''margin_used_usdt'', JFloat (as_margin_used_usdt a)),
      (''daily_loss_usdt'', JFloat (as_daily_loss_usdt a)), (''drawdown_pct'', JFloat (as_drawdown_pct a)),
      (''peak_equity_usdt'', JFloat (as_peak_equity_usdt a)), (''positions'', JArr (map position_json (as_positions a))),
      (''orders'', JArr (map account_order_json (as_orders a))), (''quality'', JStr (as_quality a))]"

definition snapshot_digest :: "hasher \<Rightarrow> account_snapshot \<Rightarrow> string" where
  "snapshot_digest H a = digest H (snapshot_json a)"

definition snapshot_validate :: "hasher \<Rightarrow> bool \<Rightarrow> account_snapshot \<Rightarrow> account_snapshot res" where
  "snapshot_validate H build a =
     (if \<not> snapshot_fields_ok a then Inl (ValueError ''validation error'')
      else if as_environment a = ''TESTNET''
              \<and> (as_credential_namespace a \<noteq> ''BINANCE_TESTNET'' \<or> rstrip (CHR ''/'') (as_rest_base_url a) \<noteq> testnet_url)
      then Inl (ValueError ''testnet account authority mismatch'')
      else if as_environment a \<noteq> ''TESTNET'' \<and> as_credential_namespace a \<noteq> ''NONE''
      then Inl (ValueError ''dry-run account must have no credential namespace'')
      else if as_observed_at_ms a < as_last_rest_at_ms a then Inl (ValueError ''account chronology invalid'')
      else if build \<and> as_snapshot_hash a = [] then Inr (a\<lparr>as_snapshot_hash := snapshot_digest H a\<rparr>)
      else if as_snapshot_hash a \<noteq> snapshot_digest H a then Inl (ValueError ''account snapshot hash mismatch'')
      else Inr a)"

definition snapshot_verify :: "hasher \<Rightarrow> account_snapshot \<Rightarrow> account_snapshot res" where
  "snapshot_verify H a = snapshot_validate H False a"

section \<open>Account context\<close>

fun sum_loop :: "flt \<Rightarrow> flt \<Rightarrow> flt list \<Rightarrow> flt" where
  "sum_loop s c [] = (if isfinite c \<and> \<not> feq c 0 then s + c else s)"
| "sum_loop s c (x # xs) =
     (let t = s + x in sum_loop t (c + (if \<bar>x\<bar> \<le> \<bar>s\<bar> then (s - t) + x else (x - t) + s)) xs)"

fun py_sum :: "flt list \<Rightarrow> flt" where
  "py_sum [] = 0"
| "py_sum (x # xs) = sum_loop x 0 xs"

definition exposure :: "position list \<Rightarrow> flt" where
  "exposure ps = py_sum (map (\<lambda>p. \<bar>po_quantity p * po_mark_price p\<bar>) ps)"

definition symbol_positions :: "string \<Rightarrow> position list \<Rightarrow> position list" where
  "symbol_positions symb ps = filter (\<lambda>p. po_symbol p = symb) ps"

definition open_positions :: "position list \<Rightarrow> position list" where
  "open_positions ps = filter (\<lambda>p. \<not> feq (po_quantity p) 0) ps"

definition account_context_of ::
  "hasher \<Rightarrow> account_snapshot \<Rightarrow> string \<Rightarrow> string list \<Rightarrow> string list \<Rightarrow> account_context res" where
  "account_context_of H a symb signals evidence =
     bindR (snapshot_verify H a) (\<lambda>_.
       if as_quality a \<noteq> ''OK'' \<or> \<not> as_reconciled a then Inl (ValueError ''account snapshot is not reconciled'')
       else (let ctx = \<lparr>ac_equity_usdt = as_equity_usdt a,
                        ac_symbol_exposure_usdt = exposure (symbol_positions symb (as_positions a)),
                        ac_portfolio_exposure_usdt = exposure (as_positions a),
                        ac_margin_used_usdt = as_margin_used_usdt a,
                        ac_simultaneous_positions = int (length (open_positions (as_positions a))),
                        ac_daily_loss_usdt = as_daily_loss_usdt a, ac_drawdown_pct = as_drawdown_pct a,
                        ac_observed_at_ms = as_observed_at_ms a, ac_prior_signal_identities = signals,
                        ac_prior_evidence_ids = evidence\<rparr>
             in if account_context_ok ctx then Inr ctx else Inl (ValueError ''validation error'')))"

section \<open>Market observations\<close>

record market_observation =
  mo_symbol :: string
  mo_mark_price :: flt
  mo_best_bid :: flt
  mo_best_ask :: flt
  mo_kline_1m_close :: flt
  mo_kline_1m_open_time_ms :: int
  mo_kline_1m_close_time_ms :: int
  mo_source_timestamp_ms :: int
  mo_receipt_timestamp_ms :: int
  mo_mark_source_timestamp_ms :: "int option"
  mo_mark_receipt_timestamp_ms :: "int option"
  mo_book_source_timestamp_ms :: "int option"
  mo_book_receipt_timestamp_ms :: "int option"
  mo_kline_source_timestamp_ms :: "int option"
  mo_kline_receipt_timestamp_ms :: "int option"
  mo_stream_connected :: bool
  mo_spread_bps :: flt
  mo_observation_hash :: string

definition market_fields_ok :: "market_observation \<Rightarrow> bool" where
  "market_fields_ok m \<longleftrightarrow> Positive (mo_mark_price m) \<and> Positive (mo_best_bid m) \<and> Positive (mo_best_ask m)
     \<and> Positive (mo_kline_1m_close m) \<and> 0 \<le> mo_kline_1m_open_time_ms m \<and> 0 \<le> mo_kline_1m_close_time_ms m
     \<and> 0 \<le> mo_source_timestamp_ms m \<and> 0 \<le> mo_receipt_timestamp_ms m
     \<and> opt_all (\<lambda>t. 0 \<le> t) (mo_mark_source_timestamp_ms m) \<and> opt_all (\<lambda>t. 0 \<le> t) (mo_mark_receipt_timestamp_ms m)
     \<and> opt_all (\<lambda>t. 0 \<le> t) (mo_book_source_timestamp_ms m) \<and> opt_all (\<lambda>t. 0 \<le> t) (mo_book_receipt_timestamp_ms m)
     \<and> opt_all (\<lambda>t. 0 \<le> t) (mo_kline_source_timestamp_ms m) \<and> opt_all (\<lambda>t. 0 \<le> t) (mo_kline_receipt_timestamp_ms m)
     \<and> Nonnegative (mo_spread_bps m)"

definition market_json :: "market_observation \<Rightarrow> json" where
  "market_json m = JObj
     [(''symbol'', JStr (mo_symbol m)), (''mark_price'', JFloat (mo_mark_price m)), (''best_bid'', JFloat (mo_best_bid m)),
      (''best_ask'', JFloat (mo_best_ask m)), (''kline_1m_close'', JFloat (mo_kline_1m_close m)),
      (''kline_1m_open_time_ms'', JInt (mo_kline_1m_open_time_ms m)),
      (''kline_1m_close_time_ms'', JInt (mo_kline_1m_close_time_ms m)),
      (''source_timestamp_ms'', JInt (mo_source_timestamp_ms m)), (''receipt_timestamp_ms'', JInt (mo_receipt_timestamp_ms m)),
      (''mark_source_timestamp_ms'', jopt JInt (mo_mark_source_timestamp_ms m)),
      (''mark_receipt_timestamp_ms'', jopt JInt (mo_mark_receipt_timestamp_ms m)),
      (''book_source_timestamp_ms'', jopt JInt (mo_book_source_timestamp_ms m)),
      (''book_receipt_timestamp_ms'', jopt JInt (mo_book_receipt_timestamp_ms m)),
      (''kline_source_timestamp_ms'', jopt JInt (mo_kline_source_timestamp_ms m)),
      (''kline_receipt_timestamp_ms'', jopt JInt (mo_kline_receipt_timestamp_ms m)),
      (''stream_connected'', JBool (mo_stream_connected m)), (''spread_bps'', JFloat (mo_spread_bps m))]"

definition market_validate :: "hasher \<Rightarrow> bool \<Rightarrow> market_observation \<Rightarrow> market_observation res" where
  "market_validate H build m =
     (if \<not> market_fields_ok m then Inl (ValueError ''validation error'')
      else if mo_best_ask m < mo_best_bid m then Inl (ValueError ''best_bid exceeds best_ask'')
      else if build \<and> mo_observation_hash m = [] then Inr (m\<lparr>mo_observation_hash := digest H (market_json m)\<rparr>)
      else if mo_observation_hash m \<noteq> digest H (market_json m) then Inl (ValueError ''market observation hash mismatch'')
      else Inr m)"

definition market_verify :: "hasher \<Rightarrow> market_observation \<Rightarrow> market_observation res" where
  "market_verify H m = market_validate H False m"

definition market_components :: "market_observation \<Rightarrow> (string \<times> int option \<times> int option) list" where
  "market_components m =
     [(''MARKET_MARK'', mo_mark_source_timestamp_ms m, mo_mark_receipt_timestamp_ms m),
      (''MARKET_BOOK'', mo_book_source_timestamp_ms m, mo_book_receipt_timestamp_ms m),
      (''MARKET_KLINE'', mo_kline_source_timestamp_ms m, mo_kline_receipt_timestamp_ms m)]"

fun component_reason :: "int \<Rightarrow> int \<Rightarrow> string \<times> int option \<times> int option \<Rightarrow> string" where
  "component_reason now max_age (label, Some source, Some receipt) =
     (if now < source \<or> now < receipt \<or> receipt < source then label @ ''_FUTURE''
      else if max_age < now - source \<or> max_age < now - receipt then label @ ''_STALE''
      else [])"
| "component_reason now max_age (label, _, _) = label @ ''_MISSING''"

fun first_reason :: "int \<Rightarrow> int \<Rightarrow> (string \<times> int option \<times> int option) list \<Rightarrow> string" where
  "first_reason now max_age [] = []"
| "first_reason now max_age (c # cs) =
     (if component_reason now max_age c \<noteq> [] then component_reason now max_age c else first_reason now max_age cs)"

definition freshness_reason :: "market_observation \<Rightarrow> int \<Rightarrow> int \<Rightarrow> string" where
  "freshness_reason m now max_age =
     (if \<not> mo_stream_connected m then ''MARKET_STREAM_DISCONNECTED'' else first_reason now max_age (market_components m))"

definition is_stale :: "market_observation \<Rightarrow> int \<Rightarrow> int \<Rightarrow> bool" where
  "is_stale m now max_age = (freshness_reason m now max_age \<noteq> [])"

section \<open>Lemmas\<close>

lemma snapshot_verify_iff:
  "snapshot_verify H a = Inr a' \<longleftrightarrow> a' = a \<and> snapshot_fields_ok a \<and> as_snapshot_hash a = snapshot_digest H a
     \<and> as_last_rest_at_ms a \<le> as_observed_at_ms a
     \<and> (if as_environment a = ''TESTNET''
        then as_credential_namespace a = ''BINANCE_TESTNET'' \<and> rstrip (CHR ''/'') (as_rest_base_url a) = testnet_url
        else as_credential_namespace a = ''NONE'')"
  by (auto simp: snapshot_verify_def snapshot_validate_def split: if_splits)

lemma market_verify_iff:
  "market_verify H m = Inr m' \<longleftrightarrow> m' = m \<and> market_fields_ok m \<and> \<not> mo_best_ask m < mo_best_bid m
     \<and> mo_observation_hash m = digest H (market_json m)"
  by (auto simp: market_verify_def market_validate_def split: if_splits)

definition component_fresh :: "int \<Rightarrow> int \<Rightarrow> int option \<Rightarrow> int option \<Rightarrow> bool" where
  "component_fresh now max_age source receipt \<longleftrightarrow>
     (\<exists>s r. source = Some s \<and> receipt = Some r \<and> s \<le> r \<and> r \<le> now \<and> now - s \<le> max_age)"

lemma component_reason_Nil:
  assumes "label \<noteq> []"
  shows "component_reason now max_age (label, source, receipt) = [] \<longleftrightarrow> component_fresh now max_age source receipt"
  using assms by (cases source; cases receipt) (auto simp: component_fresh_def)

text \<open>A market observation counts as fresh exactly when the stream is connected and each of the
  mark price, the order book and the candle has a source and a receipt time that are ordered, not in
  the future, and no older than the limit.\<close>

theorem freshness_iff:
  "\<not> is_stale m now max_age \<longleftrightarrow> mo_stream_connected m
     \<and> component_fresh now max_age (mo_mark_source_timestamp_ms m) (mo_mark_receipt_timestamp_ms m)
     \<and> component_fresh now max_age (mo_book_source_timestamp_ms m) (mo_book_receipt_timestamp_ms m)
     \<and> component_fresh now max_age (mo_kline_source_timestamp_ms m) (mo_kline_receipt_timestamp_ms m)"
  by (auto simp: is_stale_def freshness_reason_def market_components_def component_reason_Nil)

end
