(* ===== verification/Risk.thy ===== *)
theory Risk
  imports Fusion
begin

text \<open>
  Deterministic sizing (\<open>decision/risk.py\<close>): the risk policy, the loss headroom, the worst-case
  loss rate and \<open>RiskCompilerV1.compile\<close>, which turns a verified case and its selected
  analysis into a trade proposal. All arithmetic is binary64.

  The lemmas show that a proposal carries a positive size only when no block reason applies, that
  the size is bounded by every cap of the policy, that the headroom check never rejects a
  consistent account, and which inputs make the compiler raise instead of blocking.
\<close>

section \<open>Policy\<close>

record risk_policy =
  rp_simulation_equity_usdt :: flt
  rp_max_trade_risk_usdt :: flt
  rp_max_trade_risk_pct :: flt
  rp_max_symbol_exposure_pct :: flt
  rp_max_portfolio_exposure_pct :: flt
  rp_max_notional_usdt :: flt
  rp_max_leverage :: int
  rp_configured_leverage :: int
  rp_max_margin_utilization :: flt
  rp_max_simultaneous_positions :: int
  rp_max_daily_loss_pct :: flt
  rp_drawdown_kill_pct :: flt
  rp_max_staleness_ms :: int
  rp_max_spread_bps :: flt
  rp_min_liquidity_usdt :: flt
  rp_max_liquidity_fraction :: flt
  rp_proposal_ttl_ms :: int
  rp_allowed_price_drift_bps :: flt
  rp_round_trip_fee_bps :: flt
  rp_slippage_bps :: flt
  rp_funding_buffer_bps :: flt
  rp_reduced_risk_fraction :: flt

definition default_risk_policy :: risk_policy where
  "default_risk_policy =
     \<lparr>rp_simulation_equity_usdt = lit 1000, rp_max_trade_risk_usdt = lit 10,
      rp_max_trade_risk_pct = lit (1/100), rp_max_symbol_exposure_pct = lit (2/10),
      rp_max_portfolio_exposure_pct = lit (5/10), rp_max_notional_usdt = lit 1000,
      rp_max_leverage = 5, rp_configured_leverage = 2, rp_max_margin_utilization = lit (5/10),
      rp_max_simultaneous_positions = 5, rp_max_daily_loss_pct = lit (3/100),
      rp_drawdown_kill_pct = lit (1/10), rp_max_staleness_ms = 120000, rp_max_spread_bps = lit 5,
      rp_min_liquidity_usdt = lit 10000, rp_max_liquidity_fraction = lit (1/100),
      rp_proposal_ttl_ms = 60000, rp_allowed_price_drift_bps = lit 20, rp_round_trip_fee_bps = lit 8,
      rp_slippage_bps = lit 4, rp_funding_buffer_bps = lit 1, rp_reduced_risk_fraction = lit (5/10)\<rparr>"

definition risk_policy_validate :: "risk_policy \<Rightarrow> risk_policy res" where
  "risk_policy_validate p =
     (if \<not> (Positive (rp_simulation_equity_usdt p) \<and> Positive (rp_max_trade_risk_usdt p)
           \<and> Fraction (rp_max_trade_risk_pct p) \<and> Fraction (rp_max_symbol_exposure_pct p)
           \<and> Fraction (rp_max_portfolio_exposure_pct p) \<and> Positive (rp_max_notional_usdt p)
           \<and> 1 \<le> rp_max_leverage p \<and> rp_max_leverage p \<le> 125
           \<and> 1 \<le> rp_configured_leverage p \<and> rp_configured_leverage p \<le> 125
           \<and> Fraction (rp_max_margin_utilization p) \<and> 0 < rp_max_simultaneous_positions p
           \<and> Fraction (rp_max_daily_loss_pct p) \<and> Fraction (rp_drawdown_kill_pct p)
           \<and> 0 < rp_max_staleness_ms p \<and> Positive (rp_max_spread_bps p)
           \<and> Positive (rp_min_liquidity_usdt p) \<and> Fraction (rp_max_liquidity_fraction p)
           \<and> 0 < rp_proposal_ttl_ms p \<and> Nonnegative (rp_allowed_price_drift_bps p)
           \<and> Nonnegative (rp_round_trip_fee_bps p) \<and> Nonnegative (rp_slippage_bps p)
           \<and> Nonnegative (rp_funding_buffer_bps p) \<and> Fraction (rp_reduced_risk_fraction p))
      then Inl (ValueError ''validation error'')
      else if rp_max_leverage p < rp_configured_leverage p
      then Inl (ValueError ''configured leverage exceeds maximum'')
      else Inr p)"

definition risk_policy_json :: "risk_policy \<Rightarrow> json" where
  "risk_policy_json p = JObj
     [(''simulation_equity_usdt'', JFloat (rp_simulation_equity_usdt p)),
      (''max_trade_risk_usdt'', JFloat (rp_max_trade_risk_usdt p)),
      (''max_trade_risk_pct'', JFloat (rp_max_trade_risk_pct p)),
      (''max_symbol_exposure_pct'', JFloat (rp_max_symbol_exposure_pct p)),
      (''max_portfolio_exposure_pct'', JFloat (rp_max_portfolio_exposure_pct p)),
      (''max_notional_usdt'', JFloat (rp_max_notional_usdt p)),
      (''max_leverage'', JInt (rp_max_leverage p)),
      (''configured_leverage'', JInt (rp_configured_leverage p)),
      (''max_margin_utilization'', JFloat (rp_max_margin_utilization p)),
      (''max_simultaneous_positions'', JInt (rp_max_simultaneous_positions p)),
      (''max_daily_loss_pct'', JFloat (rp_max_daily_loss_pct p)),
      (''drawdown_kill_pct'', JFloat (rp_drawdown_kill_pct p)),
      (''max_staleness_ms'', JInt (rp_max_staleness_ms p)),
      (''max_spread_bps'', JFloat (rp_max_spread_bps p)),
      (''min_liquidity_usdt'', JFloat (rp_min_liquidity_usdt p)),
      (''max_liquidity_fraction'', JFloat (rp_max_liquidity_fraction p)),
      (''proposal_ttl_ms'', JInt (rp_proposal_ttl_ms p)),
      (''allowed_price_drift_bps'', JFloat (rp_allowed_price_drift_bps p)),
      (''round_trip_fee_bps'', JFloat (rp_round_trip_fee_bps p)),
      (''slippage_bps'', JFloat (rp_slippage_bps p)),
      (''funding_buffer_bps'', JFloat (rp_funding_buffer_bps p)),
      (''reduced_risk_fraction'', JFloat (rp_reduced_risk_fraction p))]"

definition policy_hash :: "hasher \<Rightarrow> risk_policy \<Rightarrow> string" where
  "policy_hash H p = digest H (risk_policy_json p)"

section \<open>Headroom and loss rate\<close>

definition remaining_loss_headroom :: "flt \<Rightarrow> flt \<Rightarrow> flt \<Rightarrow> flt \<Rightarrow> flt \<Rightarrow> (flt \<times> flt) res" where
  "remaining_loss_headroom equity peak_equity daily_loss daily_cap drawdown_cap =
     (if \<not> list_all isfinite [equity, peak_equity, daily_loss, daily_cap, drawdown_cap]
         \<or> equity \<le> 0 \<or> peak_equity < equity \<or> daily_loss < 0
         \<or> \<not> (0 < drawdown_cap \<and> drawdown_cap \<le> 1)
      then Inl (ValueError ''ACCOUNT_EQUITY_INCONSISTENT'')
      else Inr (pymax 0 (daily_cap - daily_loss), pymax 0 (equity - peak_equity * (1 - drawdown_cap))))"

text \<open>\<open>abs(funding_rate or 0)\<close>, and the adverse funding charge per unit of notional.\<close>

definition abs_funding :: "flt option \<Rightarrow> flt" where
  "abs_funding f = (case f of None \<Rightarrow> 0 | Some x \<Rightarrow> \<bar>x\<bar>)"

definition funding_charge :: "risk_policy \<Rightarrow> flt option \<Rightarrow> flt" where
  "funding_charge p f = pymax (quot (rp_funding_buffer_bps p) (lit 10000)) (abs_funding f)"

definition worst_case_loss_rate :: "flt \<Rightarrow> flt \<Rightarrow> risk_policy \<Rightarrow> flt option \<Rightarrow> flt res" where
  "worst_case_loss_rate entry stop p f =
     bindR (fdiv \<bar>entry - stop\<bar> entry) (\<lambda>x.
       Inr ((x + quot (rp_round_trip_fee_bps p + rp_slippage_bps p) (lit 10000)) + funding_charge p f))"

section \<open>The compiler\<close>

definition case_stale :: "risk_policy \<Rightarrow> case_package \<Rightarrow> int \<Rightarrow> bool" where
  "case_stale p c now_ms \<longleftrightarrow> now_ms < cp_created_at_ms c \<or> cp_expires_at_ms c \<le> now_ms
     \<or> rp_max_staleness_ms p < now_ms - cp_observed_at_ms c"

definition case_equity :: "risk_policy \<Rightarrow> case_package \<Rightarrow> flt" where
  "case_equity p c = (case cp_account c of Some a \<Rightarrow> ac_equity_usdt a | None \<Rightarrow> rp_simulation_equity_usdt p)"

text \<open>The Python chained comparison: both orderings of the price levels.\<close>

definition geometry :: "case_package \<Rightarrow> bool" where
  "geometry c =
     (if cp_direction c = ''LONG''
      then 0 < cp_stop_loss c \<and> cp_stop_loss c < cp_entry_low c \<and> cp_entry_low c \<le> cp_entry_high c
           \<and> cp_entry_high c < cp_take_profit_1 c \<and> cp_take_profit_1 c \<le> cp_take_profit_2 c
      else 0 < cp_take_profit_2 c \<and> cp_take_profit_2 c \<le> cp_take_profit_1 c
           \<and> cp_take_profit_1 c < cp_entry_low c \<and> cp_entry_low c \<le> cp_entry_high c
           \<and> cp_entry_high c < cp_stop_loss c)"

definition add_evidence_stale :: "case_package \<Rightarrow> bool" where
  "add_evidence_stale c =
     (case cp_account c of
        None \<Rightarrow> True
      | Some a \<Rightarrow> ac_prior_signal_identities a = [] \<or> ac_prior_evidence_ids a = []
                  \<or> cp_signal_identity c \<in> set (ac_prior_signal_identities a)
                  \<or> cp_evidence_id c \<in> set (ac_prior_evidence_ids a))"

definition expected_direction :: "case_package \<Rightarrow> analysis_result \<Rightarrow> string" where
  "expected_direction c r =
     (if ar_action r = ''ADD'' then cp_direction c
      else if ar_action r = ''OPEN_SHORT'' then ''SHORT'' else ''LONG'')"

definition account_reasons :: "risk_policy \<Rightarrow> case_package \<Rightarrow> analysis_result \<Rightarrow> int \<Rightarrow> string list" where
  "account_reasons p c r now_ms =
     (case cp_account c of
        None \<Rightarrow> []
      | Some a \<Rightarrow>
          reason_if (now_ms < ac_observed_at_ms a \<or> rp_max_staleness_ms p < now_ms - ac_observed_at_ms a) ''STALE_ACCOUNT''
          @ reason_if (ac_equity_usdt a * rp_max_daily_loss_pct p \<le> ac_daily_loss_usdt a) ''DAILY_LOSS_CAP''
          @ reason_if (rp_drawdown_kill_pct p \<le> ac_drawdown_pct a) ''DRAWDOWN_KILL_SWITCH''
          @ reason_if (ar_action r \<noteq> ''ADD'' \<and> rp_max_simultaneous_positions p \<le> ac_simultaneous_positions a) ''POSITION_CAP'')"

definition block_reasons :: "risk_policy \<Rightarrow> case_package \<Rightarrow> analysis_result \<Rightarrow> int \<Rightarrow> bool \<Rightarrow> string list" where
  "block_reasons p c r now_ms requires_manual_review =
     reason_if (cp_data_quality c \<noteq> ''OK'' \<or> cp_source_errors c \<noteq> [] \<or> cp_veto_reasons c \<noteq> []) ''DATA_QUALITY''
     @ reason_if (case cp_spread_bps c of None \<Rightarrow> True | Some x \<Rightarrow> rp_max_spread_bps p < x) ''SPREAD_CAP''
     @ (case cp_liquidity_usdt c of
          None \<Rightarrow> [''LIQUIDITY_MISSING'']
        | Some x \<Rightarrow> reason_if (x < rp_min_liquidity_usdt p) ''LIQUIDITY_CAP'')
     @ reason_if (ar_risk_modifier r = ''BLOCK'') ''MODEL_BLOCK''
     @ reason_if (ar_requires_manual_review r \<or> requires_manual_review) ''MANUAL_REVIEW''
     @ reason_if (ar_action r \<notin> {''OPEN_LONG'', ''OPEN_SHORT'', ''ADD''}) ''NON_ENTRY_ACTION''
     @ reason_if (ar_action r = ''ADD'' \<and> add_evidence_stale c) ''ADD_FRESH_EVIDENCE_REQUIRED''
     @ reason_if (cp_direction c \<noteq> expected_direction c r \<or> ar_strategy_data_disagreement r) ''STRATEGY_DATA_DISAGREEMENT''
     @ account_reasons p c r now_ms
     @ reason_if (\<not> geometry c) ''INVALID_GEOMETRY''"

text \<open>The risk budget: the policy's cap, cut by the account's remaining headroom, halved (by the
  policy's fraction) under a REDUCE modifier.\<close>

definition risk_budget :: "risk_policy \<Rightarrow> case_package \<Rightarrow> analysis_result \<Rightarrow> flt res" where
  "risk_budget p c r =
     (let equity = case_equity p c;
          risk0 = pymin (rp_max_trade_risk_usdt p) (equity * rp_max_trade_risk_pct p)
      in bindR (case cp_account c of
                  None \<Rightarrow> Inr risk0
                | Some a \<Rightarrow>
                    bindR (fdiv equity (1 - ac_drawdown_pct a)) (\<lambda>peak.
                    bindR (remaining_loss_headroom equity peak (ac_daily_loss_usdt a)
                             (equity * rp_max_daily_loss_pct p) (rp_drawdown_kill_pct p)) (\<lambda>(rd, rdd).
                      Inr (pymin (pymin risk0 rd) rdd))))
         (\<lambda>risk. Inr (if ar_risk_modifier r = ''REDUCE'' then risk * rp_reduced_risk_fraction p else risk)))"

definition account_used :: "(account_context \<Rightarrow> flt) \<Rightarrow> case_package \<Rightarrow> flt" where
  "account_used f c = (case cp_account c of Some a \<Rightarrow> f a | None \<Rightarrow> 0)"

text \<open>The caps on the notional other than \<open>risk / loss_rate\<close>, in the order of the source's \<open>min\<close>.\<close>

definition notional_caps :: "risk_policy \<Rightarrow> case_package \<Rightarrow> flt list" where
  "notional_caps p c =
     (let equity = case_equity p c
      in [rp_max_notional_usdt p,
          equity * rp_max_symbol_exposure_pct p - account_used ac_symbol_exposure_usdt c,
          equity * rp_max_portfolio_exposure_pct p - account_used ac_portfolio_exposure_usdt c,
          (equity * rp_max_margin_utilization p - account_used ac_margin_used_usdt c)
            * float_of_int (rp_configured_leverage p),
          (case cp_liquidity_usdt c of None \<Rightarrow> 0 | Some x \<Rightarrow> x) * rp_max_liquidity_fraction p])"

definition floor_cents :: "flt \<Rightarrow> flt res" where
  "floor_cents x = bindR (math_floor (x * lit 100)) (\<lambda>n. Inr (int_truediv n 100))"

definition entry_price :: "case_package \<Rightarrow> flt" where
  "entry_price c = (if cp_direction c = ''LONG'' then cp_entry_high c else cp_entry_low c)"

definition proposal_identity :: "hasher \<Rightarrow> risk_policy \<Rightarrow> case_package \<Rightarrow> string list \<Rightarrow> int \<Rightarrow> string" where
  "proposal_identity H p c hashes now_ms = digest H (JObj
     [(''case'', JStr (cp_case_hash c)), (''analyses'', jstrs hashes),
      (''policy'', JStr (policy_hash H p)), (''now'', JInt now_ms)])"

definition assemble_proposal ::
  "hasher \<Rightarrow> risk_policy \<Rightarrow> case_package \<Rightarrow> analysis_result \<Rightarrow> int \<Rightarrow> string list \<Rightarrow> bool \<Rightarrow> string list
     \<Rightarrow> flt \<Rightarrow> flt \<Rightarrow> flt \<Rightarrow> trade_proposal" where
  "assemble_proposal H p c r now_ms hashes requires_manual_review reasons loss_rate risk notional =
     \<lparr>tp_proposal_id = proposal_identity H p c hashes now_ms, tp_proposal_hash = [],
      tp_case_id = cp_case_id c, tp_case_hash = cp_case_hash c,
      tp_analysis_result_hashes = hashes, tp_risk_policy_hash = policy_hash H p,
      tp_symbol = cp_symbol c, tp_action = ar_action r, tp_account_authority = ''DRY_RUN'',
      tp_entry_low = cp_entry_low c, tp_entry_high = cp_entry_high c, tp_stop_loss = cp_stop_loss c,
      tp_take_profit_1 = cp_take_profit_1 c, tp_take_profit_2 = cp_take_profit_2 c,
      tp_risk_budget_usdt = risk, tp_recommended_notional_usdt = notional,
      tp_margin_usdt = quot notional (float_of_int (rp_configured_leverage p)),
      tp_leverage = rp_configured_leverage p,
      tp_fee_estimate_usdt = quot (notional * rp_round_trip_fee_bps p) (lit 10000),
      tp_slippage_estimate_usdt = quot (notional * rp_slippage_bps p) (lit 10000),
      tp_funding_estimate_usdt = notional * funding_charge p (cp_funding_rate c),
      tp_max_loss_usdt = notional * loss_rate,
      tp_created_at_ms = now_ms,
      tp_expires_at_ms = min (cp_expires_at_ms c) (now_ms + rp_proposal_ttl_ms p),
      tp_allowed_price_drift_bps = rp_allowed_price_drift_bps p,
      tp_requires_manual_review = (requires_manual_review \<or> ar_requires_manual_review r
                                   \<or> ar_action r = ''ADD'' \<or> reasons \<noteq> []),
      tp_blocked_reasons = reasons\<rparr>"

definition compile ::
  "hasher \<Rightarrow> risk_policy \<Rightarrow> case_package \<Rightarrow> analysis_result \<Rightarrow> int \<Rightarrow> string list option \<Rightarrow> bool
     \<Rightarrow> trade_proposal res" where
  "compile H p c r now_ms analysis_result_hashes requires_manual_review =
     bindR (case_verify H c) (\<lambda>_.
     bindR (verify_case r c) (\<lambda>_.
     if case_stale p c now_ms then Inl (ValueError ''STALE_CASE'')
     else
       let reasons0 = block_reasons p c r now_ms requires_manual_review
       in bindR (worst_case_loss_rate (entry_price c) (cp_stop_loss c) p (cp_funding_rate c)) (\<lambda>loss_rate.
          bindR (risk_budget p c r) (\<lambda>risk0.
          bindR (fdiv risk0 loss_rate) (\<lambda>by_risk.
          bindR (floor_cents (pymax 0 (foldl pymin by_risk (notional_caps p c)))) (\<lambda>notional0.
          let reasons = reasons0 @ reason_if (feq notional0 0 \<and> reasons0 = []) ''EXPOSURE_CAP'';
              notional = (if reasons \<noteq> [] then 0 else notional0);
              risk = (if reasons \<noteq> [] then 0 else risk0);
              hashes = (case analysis_result_hashes of None \<Rightarrow> [result_hash H r]
                        | Some hs \<Rightarrow> if hs = [] then [result_hash H r] else hs)
          in if result_hash H r \<notin> set hashes then Inl (ValueError ''selected analysis hash missing'')
             else proposal_validate H True
                    (assemble_proposal H p c r now_ms hashes requires_manual_review reasons loss_rate risk notional)))))))"

section \<open>Facts about the compiler\<close>

lemma compile_Inr:
  assumes "compile H p c r now hs rmr = Inr tp"
  obtains loss_rate risk0 by_risk notional0 reasons hashes where
    "case_verify H c = Inr c" and "verify_case r c = Inr ()" and "\<not> case_stale p c now"
    "worst_case_loss_rate (entry_price c) (cp_stop_loss c) p (cp_funding_rate c) = Inr loss_rate"
    "risk_budget p c r = Inr risk0" "fdiv risk0 loss_rate = Inr by_risk"
    "floor_cents (pymax 0 (foldl pymin by_risk (notional_caps p c))) = Inr notional0"
    "reasons = block_reasons p c r now rmr @ reason_if (feq notional0 0 \<and> block_reasons p c r now rmr = []) ''EXPOSURE_CAP''"
    "result_hash H r \<in> set hashes"
    "proposal_validate H True (assemble_proposal H p c r now hashes rmr reasons loss_rate
       (if reasons \<noteq> [] then 0 else risk0) (if reasons \<noteq> [] then 0 else notional0)) = Inr tp"
proof -
  from assms obtain c' where cv: "case_verify H c = Inr c'" and "verify_case r c = Inr ()"
    and "\<not> case_stale p c now"
    by (auto simp: compile_def bindR_Inr_iff split: if_splits)
  moreover have "c' = c" using cv by (simp add: case_verify_iff)
  ultimately show thesis
    using assms that by (auto simp: compile_def bindR_Inr_iff Let_def split: if_splits)
qed

lemma assemble_validate:
  assumes "proposal_validate H True (assemble_proposal H p c r now hashes rmr reasons lr risk notional) = Inr tp"
  shows "tp = (assemble_proposal H p c r now hashes rmr reasons lr risk notional)\<lparr>tp_proposal_hash :=
            proposal_digest H (assemble_proposal H p c r now hashes rmr reasons lr risk notional)\<rparr>"
    and "proposal_verify H tp = Inr tp"
proof -
  have h: "tp_proposal_hash (assemble_proposal H p c r now hashes rmr reasons lr risk notional) = []"
    by (simp add: assemble_proposal_def)
  show "proposal_verify H tp = Inr tp" by (rule proposal_build_verifies [OF assms h])
  show "tp = (assemble_proposal H p c r now hashes rmr reasons lr risk notional)\<lparr>tp_proposal_hash :=
            proposal_digest H (assemble_proposal H p c r now hashes rmr reasons lr risk notional)\<rparr>"
    using assms h by (auto simp: proposal_validate_def split: if_splits)
qed

text \<open>What an empty list of block reasons means.\<close>

lemma block_reasons_empty:
  assumes "block_reasons p c r now rmr = []"
  shows "cp_data_quality c = ''OK'' \<and> cp_source_errors c = [] \<and> cp_veto_reasons c = []
    \<and> (\<exists>x. cp_spread_bps c = Some x \<and> \<not> rp_max_spread_bps p < x)
    \<and> (\<exists>x. cp_liquidity_usdt c = Some x \<and> \<not> x < rp_min_liquidity_usdt p)
    \<and> ar_risk_modifier r \<noteq> ''BLOCK'' \<and> \<not> ar_requires_manual_review r \<and> \<not> rmr
    \<and> ar_action r \<in> {''OPEN_LONG'', ''OPEN_SHORT'', ''ADD''}
    \<and> cp_direction c = expected_direction c r \<and> \<not> ar_strategy_data_disagreement r \<and> geometry c
    \<and> account_reasons p c r now = []"
  using assms by (auto simp: block_reasons_def reason_if_def split: if_splits option.splits)

lemma foldl_pymin_bound:
  assumes "a \<noteq> NaN"
  shows "foldl pymin a xs \<noteq> NaN \<and> foldl pymin a xs \<le> a \<and> (\<forall>x \<in> set xs. x \<noteq> NaN \<longrightarrow> foldl pymin a xs \<le> x)"
  using assms
proof (induction xs arbitrary: a)
  case Nil
  then show ?case by simp
next
  case (Cons y ys)
  have nn: "pymin a y \<noteq> NaN" using Cons.prems by (rule pymin_not_NaN)
  note IH = Cons.IH [OF nn]
  have le: "pymin a y \<le> a" using Cons.prems by (auto simp: pymin_def flt_less_imp_le)
  have ley: "y \<noteq> NaN \<Longrightarrow> pymin a y \<le> y" using pymin_le [OF nn] by blast
  show ?case using IH le ley by (auto intro: flt_le_trans)
qed

lemma floor_cents_bound:
  assumes "floor_cents x = Inr v" and "x \<le> y"
  shows "v \<le> quot (y * Fin 100) (Fin 100)"
proof -
  from assms(1) obtain n where n: "math_floor (x * Fin 100) = Inr n" and v: "v = rnd64 (of_int n / 100)"
    by (auto simp: floor_cents_def bindR_Inr_iff int_truediv_def)
  then obtain a where a: "x * Fin 100 = Fin a" and na: "n = \<lfloor>a\<rfloor>"
    by (cases "x * Fin 100") auto
  then obtain x' where x': "x = Fin x'" by (cases x) auto
  have n_le: "(of_int n :: rat) \<le> a" by (simp add: na)
  have mono: "Fin a \<le> y * Fin 100"
  proof (cases y)
    case (Fin y')
    then have "rnd64 (x' * 100) \<le> rnd64 (y' * 100)" using assms(2) x' by (intro rnd64_mono) simp
    then show ?thesis using a by (simp add: x' Fin del: less_eq_flt.simps)
  qed (use assms(2) x' in auto)
  show ?thesis
  proof (cases "y * Fin 100")
    case (Fin b)
    then have "a \<le> b" using mono by simp
    with n_le have "(of_int n :: rat) / 100 \<le> b / 100" by (simp add: divide_right_mono)
    then show ?thesis by (simp add: Fin v rnd64_mono del: less_eq_flt.simps)
  next
    case PInf
    then show ?thesis using rnd64_not_NaN [of "of_int n / 100"] by (cases "rnd64 (of_int n / 100)") (auto simp: v)
  qed (use mono in auto)
qed

section \<open>Properties\<close>

text \<open>C6: a compiled proposal sizes a position only when nothing blocks it. If the proposal lists a
  blocked reason, its notional and its risk budget are zero and it asks for manual review. If its
  notional is positive, the case has clean data, a spread and a liquidity within the policy, price
  levels in the order of its direction and no account cap reached, and the model neither blocked
  nor asked for review, proposes an entry and agrees with the case's direction.\<close>

theorem compile_sizes_only_unblocked:
  assumes "compile H p c r now hs rmr = Inr tp"
  shows "(tp_blocked_reasons tp \<noteq> [] \<longrightarrow> tp_recommended_notional_usdt tp = 0 \<and> tp_risk_budget_usdt tp = 0
            \<and> tp_requires_manual_review tp)
    \<and> (0 < tp_recommended_notional_usdt tp \<longrightarrow>
         tp_blocked_reasons tp = []
         \<and> cp_data_quality c = ''OK'' \<and> cp_source_errors c = [] \<and> cp_veto_reasons c = []
         \<and> (\<exists>x. cp_spread_bps c = Some x \<and> \<not> rp_max_spread_bps p < x)
         \<and> (\<exists>x. cp_liquidity_usdt c = Some x \<and> \<not> x < rp_min_liquidity_usdt p)
         \<and> ar_risk_modifier r \<noteq> ''BLOCK'' \<and> \<not> ar_requires_manual_review r \<and> \<not> rmr
         \<and> ar_action r \<in> {''OPEN_LONG'', ''OPEN_SHORT'', ''ADD''}
         \<and> cp_direction c = expected_direction c r \<and> \<not> ar_strategy_data_disagreement r \<and> geometry c
         \<and> account_reasons p c r now = [])"
  using assms
proof (rule compile_Inr)
  fix loss_rate risk0 by_risk notional0 reasons hashes
  assume reasons: "reasons = block_reasons p c r now rmr
      @ reason_if (feq notional0 0 \<and> block_reasons p c r now rmr = []) ''EXPOSURE_CAP''"
    and v: "proposal_validate H True (assemble_proposal H p c r now hashes rmr reasons loss_rate
       (if reasons \<noteq> [] then 0 else risk0) (if reasons \<noteq> [] then 0 else notional0)) = Inr tp"
  have tp: "tp_blocked_reasons tp = reasons" "tp_risk_budget_usdt tp = (if reasons \<noteq> [] then 0 else risk0)"
      "tp_recommended_notional_usdt tp = (if reasons \<noteq> [] then 0 else notional0)"
      "reasons \<noteq> [] \<Longrightarrow> tp_requires_manual_review tp"
    by (simp_all add: assemble_validate(1) [OF v] assemble_proposal_def)
  have "block_reasons p c r now rmr = []" if "reasons = []"
    using that reasons by simp
  then show ?thesis
    using tp block_reasons_empty [of p c r now rmr] by auto
qed


text \<open>a compiled proposal is bound to its case and to its time. It verifies, carries the hashes of
  the case and of the policy and the analysis it was compiled from, is created at the time of
  compilation, and expires after that and no later than the case or the policy's lifetime.\<close>

theorem compile_binds_case:
  assumes "compile H p c r now hs rmr = Inr tp"
  shows "proposal_verify H tp = Inr tp \<and> tp_case_id tp = cp_case_id c \<and> tp_case_hash tp = case_digest H c
    \<and> tp_risk_policy_hash tp = policy_hash H p \<and> result_hash H r \<in> set (tp_analysis_result_hashes tp)
    \<and> tp_created_at_ms tp = now \<and> now < tp_expires_at_ms tp \<and> tp_expires_at_ms tp \<le> cp_expires_at_ms c
    \<and> tp_expires_at_ms tp \<le> now + rp_proposal_ttl_ms p"
  using assms
proof (rule compile_Inr)
  fix loss_rate risk0 by_risk notional0 reasons hashes
  assume c: "case_verify H c = Inr c" and h: "result_hash H r \<in> set hashes"
    and v: "proposal_validate H True (assemble_proposal H p c r now hashes rmr reasons loss_rate
       (if reasons \<noteq> [] then 0 else risk0) (if reasons \<noteq> [] then 0 else notional0)) = Inr tp"
  have pv: "proposal_verify H tp = Inr tp" by (rule assemble_validate(2) [OF v])
  then have lt: "tp_created_at_ms tp < tp_expires_at_ms tp" by (simp add: proposal_verify_iff)
  have cr: "tp_created_at_ms tp = now"
    by (simp add: assemble_validate(1) [OF v] assemble_proposal_def)
  have ch: "cp_case_hash c = case_digest H c" using c by (simp add: case_verify_iff)
  show ?thesis
    using pv h ch lt unfolding cr by (simp add: assemble_validate(1) [OF v] assemble_proposal_def)
qed

text \<open>The headroom check accepts every account that the case model accepts with a drawdown below
  one: with the peak equity the compiler derives from the drawdown by a rounded division, the test
  \<open>peak_equity < equity\<close> never fires, so \<open>ACCOUNT_EQUITY_INCONSISTENT\<close> can only come from an
  overflow, a negative loss or a cap outside \<open>(0, 1]\<close>.\<close>

theorem derived_peak_consistent:
  assumes "Positive equity" and "is_f64 equity" and "Nonnegative drawdown" and "drawdown < 1"
    and "is_f64 drawdown" and "fdiv equity (1 - drawdown) = Inr peak" and "isfinite peak"
    and "isfinite daily_loss" and "0 \<le> daily_loss" and "isfinite daily_cap"
    and "isfinite drawdown_cap" and "0 < drawdown_cap" and "drawdown_cap \<le> 1"
  shows "equity \<le> peak \<and> \<not> peak < equity
    \<and> is_ok (remaining_loss_headroom equity peak daily_loss daily_cap drawdown_cap)"
proof -
  obtain e where e: "equity = Fin e" "0 < e" using Positive_Fin [OF assms(1)] by blast
  obtain d where d: "drawdown = Fin d" "0 \<le> d" using Nonnegative_Fin [OF assms(3)] by blast
  have d1: "d < 1" using assms(4) d by (simp add: one_flt_def)
  have rest: "1 - drawdown = rnd64 (1 - d)" by (simp add: d one_flt_def minus_flt_def)
  have le1: "rnd64 (1 - d) \<le> Fin 1" using d by (intro rnd64_le_f64) auto
  have ge0: "Fin 0 \<le> rnd64 (1 - d)" using d1 by (intro rnd64_ge_f64) auto
  obtain b where b: "rnd64 (1 - d) = Fin b" using le1 ge0 by (cases "rnd64 (1 - d)") auto
  have b01: "0 < b" "b \<le> 1"
  proof -
    show "b \<le> 1" using le1 b by simp
    have "b \<noteq> 0" using assms(6) rest b by (auto simp: fdiv_def)
    then show "0 < b" using ge0 b by simp
  qed
  have pk: "peak = quot (Fin e) (Fin b)" using assms(6) rest b b01 by (simp add: fdiv_def e)
  have "Fin e \<le> peak" unfolding pk using assms(2) e b01 by (intro quot_ge_self) auto
  then have le: "equity \<le> peak" by (simp add: e)
  then have "\<not> peak < equity" by (simp add: less_flt_def)
  moreover have "\<not> equity \<le> 0" using e by simp
  moreover have "\<not> daily_loss < 0" using assms(9) by (simp add: less_flt_def)
  ultimately show ?thesis
    using le assms e by (simp add: remaining_loss_headroom_def)
qed

theorem derived_peak_consistent_witness:
  "Fin 1000 \<le> Fin 2000 \<and> is_ok (remaining_loss_headroom (Fin 1000) (Fin 2000) (Fin 5) (Fin 30) (Fin (1/2)))"
proof -
  have f: "fdiv (Fin 1000) (1 - Fin (1/2)) = Inr (Fin 2000)"
    by (simp add: fdiv_def one_flt_def minus_flt_def)
  show ?thesis
    using derived_peak_consistent [of "Fin 1000" "Fin (1/2)" "Fin 2000" "Fin 5" "Fin 30" "Fin (1/2)", OF _ _ _ _ _ f]
    by (simp add: Positive_def Nonnegative_def one_flt_def)
qed

text \<open>the compiler raises ZeroDivisionError, instead of a blocked proposal or a ValueError, on a
  fresh verified case whose entry price is zero (which the case model admits, for instance for a
  WAIT case), whatever the policy and the analysis.\<close>

theorem compile_zero_entry_raises:
  assumes "case_verify H c = Inr c" and "verify_case r c = Inr ()" and "\<not> case_stale p c now"
    and "entry_price c = 0"
  shows "compile H p c r now hs rmr = Inl ZeroDivisionError"
  using assms by (simp add: compile_def Let_def worst_case_loss_rate_def fdiv_def zero_flt_def)

definition wait_case :: case_package where
  "wait_case = sample_case\<lparr>cp_direction := ''WAIT'', cp_entry_low := Fin 0, cp_entry_high := Fin 0\<rparr>"

section \<open>A concrete compilation\<close>

definition sample_policy :: risk_policy where
  "sample_policy =
     \<lparr>rp_simulation_equity_usdt = Fin 1024, rp_max_trade_risk_usdt = Fin 8, rp_max_trade_risk_pct = Fin (1/2),
      rp_max_symbol_exposure_pct = Fin (1/2), rp_max_portfolio_exposure_pct = Fin (1/2),
      rp_max_notional_usdt = Fin 1024, rp_max_leverage = 5, rp_configured_leverage = 2,
      rp_max_margin_utilization = Fin (1/2), rp_max_simultaneous_positions = 5,
      rp_max_daily_loss_pct = Fin (1/2), rp_drawdown_kill_pct = Fin (1/2), rp_max_staleness_ms = 120000,
      rp_max_spread_bps = Fin 5, rp_min_liquidity_usdt = Fin 10000, rp_max_liquidity_fraction = Fin (1/2),
      rp_proposal_ttl_ms = 60000, rp_allowed_price_drift_bps = Fin 20, rp_round_trip_fee_bps = Fin 0,
      rp_slippage_bps = Fin 0, rp_funding_buffer_bps = Fin 0, rp_reduced_risk_fraction = Fin (1/2)\<rparr>"

lemmas flt_eval = zero_flt_def one_flt_def less_flt_def pymin_def pymax_def minus_flt_def fdiv_def
  float_of_int_def int_truediv_def feq_def

lemma sample_loss_rate:
  "worst_case_loss_rate (entry_price sample_case) (cp_stop_loss sample_case) sample_policy (cp_funding_rate sample_case)
     = Inr (Fin (1/2))"
  by (simp add: worst_case_loss_rate_def entry_price_def sample_case_def sample_policy_def funding_charge_def
      abs_funding_def flt_eval)

lemma sample_budget: "risk_budget sample_policy sample_case sample_analysis = Inr (Fin 8)"
  by (simp add: risk_budget_def case_equity_def sample_case_def sample_policy_def sample_analysis_def flt_eval)

lemma sample_caps: "notional_caps sample_policy sample_case = [Fin 1024, Fin 512, Fin 512, Fin 1024, Fin 500000]"
  by (simp add: notional_caps_def Let_def case_equity_def account_used_def sample_case_def sample_policy_def flt_eval)

lemma sample_reasons: "block_reasons sample_policy sample_case sample_analysis 1000 False = []"
  by (simp add: block_reasons_def account_reasons_def geometry_def expected_direction_def reason_if_def
      sample_case_def sample_policy_def sample_analysis_def flt_eval)

lemma sample_not_stale: "\<not> case_stale sample_policy sample_case 1000"
  by (simp add: case_stale_def sample_policy_def sample_case_def)

lemma sample_size: "floor_cents (pymax 0 (foldl pymin (Fin 16) [Fin 1024, Fin 512, Fin 512, Fin 1024, Fin 500000])) = Inr (Fin 16)"
  by (simp add: floor_cents_def flt_eval)

lemma sample_compiled_fields:
  "proposal_fields_ok (assemble_proposal const_hash sample_policy sample_case sample_analysis 1000 [hash_a] False []
     (Fin (1/2)) (Fin 8) (Fin 16))"
  by (simp add: proposal_fields_ok_def assemble_proposal_def policy_hash_def sample_policy_def sample_case_def
      sample_analysis_def actions_def Nonnegative_def funding_charge_def abs_funding_def flt_eval)

lemma sample_compile:
  "compile const_hash sample_policy sample_case sample_analysis 1000 None False =
     Inr ((assemble_proposal const_hash sample_policy sample_case sample_analysis 1000 [hash_a] False []
            (Fin (1/2)) (Fin 8) (Fin 16))\<lparr>tp_proposal_hash := hash_a\<rparr>)"
proof -
  have t: "tp_proposal_hash (assemble_proposal const_hash sample_policy sample_case sample_analysis 1000 [hash_a]
             False [] (Fin (1/2)) (Fin 8) (Fin 16)) = []"
    "tp_created_at_ms (assemble_proposal const_hash sample_policy sample_case sample_analysis 1000 [hash_a]
             False [] (Fin (1/2)) (Fin 8) (Fin 16)) = 1000"
    "tp_expires_at_ms (assemble_proposal const_hash sample_policy sample_case sample_analysis 1000 [hash_a]
             False [] (Fin (1/2)) (Fin 8) (Fin 16)) = 61000"
    by (simp_all add: assemble_proposal_def sample_case_def sample_policy_def)
  show ?thesis
    unfolding compile_def sample_case_verify sample_analysis_verify sample_loss_rate sample_budget sample_caps
      sample_reasons
    using sample_not_stale sample_size sample_compiled_fields t
    by (simp add: fdiv_def Let_def reason_if_def feq_def zero_flt_def proposal_validate_def proposal_digest_def)
qed

theorem compile_sizes_only_unblocked_witness:
  "\<exists>tp. compile const_hash sample_policy sample_case sample_analysis 1000 None False = Inr tp
     \<and> 0 < tp_recommended_notional_usdt tp \<and> tp_blocked_reasons tp = [] \<and> geometry sample_case"
  using compile_sizes_only_unblocked [OF sample_compile] sample_compile
  by (simp add: assemble_proposal_def)


theorem compile_binds_case_witness:
  "\<exists>tp. compile const_hash sample_policy sample_case sample_analysis 1000 None False = Inr tp
     \<and> proposal_verify const_hash tp = Inr tp \<and> tp_created_at_ms tp = 1000"
  using compile_binds_case [OF sample_compile] sample_compile by blast

lemma wait_case_verify: "case_verify const_hash wait_case = Inr wait_case"
proof -
  have f: "case_fields_ok wait_case"
    using sample_case_fields by (simp add: case_fields_ok_def wait_case_def Nonnegative_def)
  have e: "\<not> cp_entry_high wait_case < cp_entry_low wait_case" by (simp add: wait_case_def)
  have "cp_case_hash wait_case = hash_a" "cp_observed_at_ms wait_case = 1000"
      "cp_created_at_ms wait_case = 1000" "cp_expires_at_ms wait_case = 121000"
    by (simp_all add: wait_case_def sample_case_def)
  with f e show ?thesis
    unfolding case_verify_iff case_digest_def digest_const by simp
qed

lemma wait_case_analysis: "verify_case sample_analysis wait_case = Inr ()"
  using sample_analysis_verify [unfolded verify_case_iff] by (simp add: verify_case_iff wait_case_def)

theorem compile_zero_entry_raises_witness:
  "compile const_hash sample_policy wait_case sample_analysis 1000 None False = Inl ZeroDivisionError"
proof (rule compile_zero_entry_raises [OF wait_case_verify wait_case_analysis])
  show "\<not> case_stale sample_policy wait_case 1000"
    using sample_not_stale by (simp add: wait_case_def case_stale_def)
  show "entry_price wait_case = 0" by (simp add: entry_price_def wait_case_def)
qed

end
