(* ===== verification/Approval_Store.thy ===== *)
theory Approval_Store
  imports Decision_Models "HOL-Library.Product_Lexorder"
begin

text \<open>
  The approval journal (\<open>approval/store.py\<close>): cases, analyses, proposals, approval records and
  the state event log, all in one SQLite file. The record \<open>live_db\<close> holds the five tables; an
  operation of \<open>LiveStore\<close> is a function on it that returns the Python result and the tables
  after commit or rollback (\<open>live_db.connection\<close>).

  A join on a primary key is a lookup (\<open>fetchone\<close>). \<open>secrets.token_hex\<close> and the wall clock are
  arguments. Where SQLite leaves the order of a \<open>SELECT\<close> open, rows come in table order.
\<close>

section \<open>States\<close>

datatype live_state =
    CASE_TRIGGERED | LLM_ANALYZING | PLAN_READY | NOTIFIED | WAITING_APPROVAL
  | APPROVED | REJECTED | MANUAL | EXPIRED

fun edges :: "live_state \<Rightarrow> live_state list" where
  "edges CASE_TRIGGERED = [LLM_ANALYZING, MANUAL]"
| "edges LLM_ANALYZING = [PLAN_READY, MANUAL]"
| "edges PLAN_READY = [NOTIFIED, MANUAL]"
| "edges NOTIFIED = [WAITING_APPROVAL, MANUAL]"
| "edges WAITING_APPROVAL = [APPROVED, REJECTED, MANUAL]"
| "edges MANUAL = [PLAN_READY]"
| "edges _ = []"

fun terminal :: "live_state \<Rightarrow> bool" where
  "terminal APPROVED = True"
| "terminal REJECTED = True"
| "terminal EXPIRED = True"
| "terminal _ = False"

definition action_state :: "string \<Rightarrow> live_state option" where
  "action_state a =
     (if a = ''APPROVE'' then Some APPROVED
      else if a = ''REJECT'' then Some REJECTED
      else if a = ''MANUAL'' \<or> a = ''REQUEST_CODEX_REVIEW'' then Some MANUAL
      else None)"

definition allowed_edge :: "live_state \<Rightarrow> live_state \<Rightarrow> bool" where
  "allowed_edge old new = (new \<in> set (edges old) \<or> new = EXPIRED \<and> \<not> terminal old)"

section \<open>Tables\<close>

record case_row =
  lc_case_id :: string
  lc_case_hash :: string
  lc_payload :: case_package
  lc_state :: live_state
  lc_active_proposal_hash :: "string option"
  lc_created_at_ms :: int
  lc_source :: string
  lc_evidence_id :: string
  lc_signal_identity :: string
  lc_trigger :: string
  lc_strategy_version :: string

record analysis_row =
  an_result_hash :: string
  an_case_id :: string
  an_role :: string
  an_payload :: analysis_result

record proposal_row =
  pr_proposal_hash :: string
  pr_proposal_id :: string
  pr_case_id :: string
  pr_case_hash :: string
  pr_payload :: trade_proposal

record approval_row =
  ap_event_id :: string
  ap_action :: string
  ap_actor :: string
  ap_proposal_hash :: string
  ap_case_hash :: string
  ap_at_ms :: int
  ap_result_state :: live_state
  ap_review_processed :: bool
  ap_review_claim_until_ms :: int
  ap_review_claim_token :: string

record state_event =
  ev_case_id :: string
  ev_from_state :: "live_state option"
  ev_to_state :: live_state
  ev_at_ms :: int
  ev_callback_event_id :: "string option"

record live_db =
  live_cases :: "case_row list"
  analysis_results :: "analysis_row list"
  trade_proposals :: "proposal_row list"
  approval_records :: "approval_row list"
  live_state_events :: "state_event list"

definition empty_live_db :: live_db where
  "empty_live_db = \<lparr>live_cases = [], analysis_results = [], trade_proposals = [], approval_records = [],
     live_state_events = []\<rparr>"

abbreviation find_case :: "live_db \<Rightarrow> string \<Rightarrow> case_row option" where
  "find_case db cid \<equiv> fetchone (\<lambda>r. lc_case_id r = cid) (live_cases db)"

abbreviation find_proposal :: "live_db \<Rightarrow> string \<Rightarrow> proposal_row option" where
  "find_proposal db h \<equiv> fetchone (\<lambda>r. pr_proposal_hash r = h) (trade_proposals db)"

abbreviation find_approval :: "live_db \<Rightarrow> string \<Rightarrow> approval_row option" where
  "find_approval db e \<equiv> fetchone (\<lambda>r. ap_event_id r = e) (approval_records db)"

section \<open>Cases and analyses\<close>

definition natural_identity :: "case_row \<Rightarrow> string list" where
  "natural_identity r =
     [lc_source r, lc_evidence_id r, lc_signal_identity r, lc_trigger r, lc_strategy_version r]"

definition case_row_of :: "case_package \<Rightarrow> case_row" where
  "case_row_of c =
     \<lparr>lc_case_id = cp_case_id c, lc_case_hash = cp_case_hash c, lc_payload = c, lc_state = CASE_TRIGGERED,
      lc_active_proposal_hash = None, lc_created_at_ms = cp_created_at_ms c, lc_source = cp_source c,
      lc_evidence_id = cp_evidence_id c, lc_signal_identity = cp_signal_identity c, lc_trigger = cp_trigger c,
      lc_strategy_version = cp_strategy_version c\<rparr>"

definition save_case_body :: "case_package \<Rightarrow> (live_db, bool) dbop" where
  "save_case_body c db =
     (case find_case db (cp_case_id c) of
        Some row \<Rightarrow> (if lc_case_hash row \<noteq> cp_case_hash c then Inl (ValueError ''case identity collision'')
                     else Inr False, db)
      | None \<Rightarrow>
          (if list_ex (\<lambda>r. lc_case_hash r = cp_case_hash c
                         \<or> natural_identity r = natural_identity (case_row_of c)) (live_cases db)
           then (Inl (ValueError ''case natural identity collision''), db)
           else (Inr True,
                 db\<lparr>live_cases := live_cases db @ [case_row_of c],
                    live_state_events := live_state_events db @
                      [\<lparr>ev_case_id = cp_case_id c, ev_from_state = None, ev_to_state = CASE_TRIGGERED,
                        ev_at_ms = cp_created_at_ms c, ev_callback_event_id = None\<rparr>]\<rparr>)))"

definition save_case :: "hasher \<Rightarrow> case_package \<Rightarrow> (live_db, bool) dbop" where
  "save_case H c db =
     (case case_verify H c of Inl e \<Rightarrow> (Inl e, db) | Inr _ \<Rightarrow> transaction (save_case_body c) db)"

definition get_case :: "hasher \<Rightarrow> live_db \<Rightarrow> string \<Rightarrow> case_package res" where
  "get_case H db cid =
     (case find_case db cid of None \<Rightarrow> Inl (KeyError cid) | Some row \<Rightarrow> case_verify H (lc_payload row))"

definition save_analysis_body :: "hasher \<Rightarrow> analysis_result \<Rightarrow> string \<Rightarrow> (live_db, unit) dbop" where
  "save_analysis_body H r role db =
     (case find_case db (ar_case_id r) of
        None \<Rightarrow> (Inl (ValueError ''unknown case''), db)
      | Some row \<Rightarrow>
          (case bindR (case_verify H (lc_payload row)) (verify_case r) of
             Inl e \<Rightarrow> (Inl e, db)
           | Inr _ \<Rightarrow>
               (let same = (\<lambda>a. an_case_id a = ar_case_id r \<and> an_role a = role
                               \<and> an_result_hash a = result_hash H r);
                    new = \<lparr>an_result_hash = result_hash H r, an_case_id = ar_case_id r, an_role = role,
                           an_payload = r\<rparr>;
                    db' = (case fetchone same (analysis_results db) of
                             Some _ \<Rightarrow> db
                           | None \<Rightarrow> db\<lparr>analysis_results := analysis_results db @ [new]\<rparr>)
                in case fetchone same (analysis_results db') of
                     Some existing \<Rightarrow>
                       (if an_payload existing \<noteq> r then Inl (ValueError ''analysis identity collision'')
                        else Inr (), db')
                   | None \<Rightarrow> (Inl (TypeError ''existing''), db'))))"

definition save_analysis :: "hasher \<Rightarrow> analysis_result \<Rightarrow> string \<Rightarrow> (live_db, unit) dbop" where
  "save_analysis H r role db =
     (if role \<notin> {''PRIMARY'', ''SECONDARY'', ''FUSED''} then (Inl (ValueError ''invalid analysis role''), db)
      else transaction (save_analysis_body H r role) db)"

definition get_analysis :: "live_db \<Rightarrow> string \<Rightarrow> string \<Rightarrow> analysis_result option res" where
  "get_analysis db cid role =
     (case fetchone (\<lambda>a. an_case_id a = cid \<and> an_role a = role) (rev (analysis_results db)) of
        None \<Rightarrow> Inr None
      | Some row \<Rightarrow> if analysis_fields_ok (an_payload row) then Inr (Some (an_payload row))
                    else Inl (ValueError ''validation error''))"

section \<open>Review claims\<close>

text \<open>The join of an approval record with its proposal, restricted to the open review requests of a
  case: \<open>p.case_id = ? AND a.action = 'REQUEST_CODEX_REVIEW' AND a.review_processed = 0\<close>.\<close>

definition of_case :: "live_db \<Rightarrow> string \<Rightarrow> approval_row \<Rightarrow> bool" where
  "of_case db cid a = list_ex (\<lambda>p. pr_proposal_hash p = ap_proposal_hash a \<and> pr_case_id p = cid) (trade_proposals db)"

definition open_review :: "live_db \<Rightarrow> string \<Rightarrow> approval_row \<Rightarrow> bool" where
  "open_review db cid a =
     (of_case db cid a \<and> ap_action a = ''REQUEST_CODEX_REVIEW'' \<and> \<not> ap_review_processed a)"

definition require_review_claim :: "live_db \<Rightarrow> string \<Rightarrow> string \<Rightarrow> int \<Rightarrow> unit res" where
  "require_review_claim db cid token now =
     (if token = [] then Inl (ValueError ''review claim required'')
      else if list_ex (\<lambda>a. open_review db cid a \<and> ap_review_claim_token a = token
                         \<and> ap_review_claim_until_ms a > now) (approval_records db)
      then Inr () else Inl (ValueError ''stale review claim''))"

section \<open>Proposals\<close>

definition proposal_row_of :: "trade_proposal \<Rightarrow> proposal_row" where
  "proposal_row_of p =
     \<lparr>pr_proposal_hash = tp_proposal_hash p, pr_proposal_id = tp_proposal_id p, pr_case_id = tp_case_id p,
      pr_case_hash = tp_case_hash p, pr_payload = p\<rparr>"

definition check_claim :: "live_db \<Rightarrow> string \<Rightarrow> string option \<Rightarrow> int option \<Rightarrow> unit res" where
  "check_claim db cid token now =
     (case token of None \<Rightarrow> Inr ()
      | Some t \<Rightarrow> (case now of None \<Rightarrow> Inl (ValueError ''review claim time required'')
                   | Some n \<Rightarrow> require_review_claim db cid t n))"

definition proposal_admissible :: "live_db \<Rightarrow> trade_proposal \<Rightarrow> unit res" where
  "proposal_admissible db p =
     (case find_case db (tp_case_id p) of
        None \<Rightarrow> Inl (ValueError ''proposal case identity mismatch'')
      | Some row \<Rightarrow>
          if lc_case_hash row \<noteq> tp_case_hash p then Inl (ValueError ''proposal case identity mismatch'')
          else if terminal (lc_state row) then Inl (ValueError ''terminal case'')
          else if tp_analysis_result_hashes p = [] then Inl (ValueError ''missing analysis hashes'')
          else if \<not> list_all (\<lambda>h. list_ex (\<lambda>a. an_case_id a = tp_case_id p \<and> an_result_hash a = h)
                                  (analysis_results db)) (tp_analysis_result_hashes p)
          then Inl (ValueError ''unknown analysis hash'')
          else Inr ())"

definition insert_proposal :: "live_db \<Rightarrow> trade_proposal \<Rightarrow> live_db res" where
  "insert_proposal db p =
     (case fetchone (\<lambda>r. pr_proposal_id r = tp_proposal_id p) (trade_proposals db) of
        Some row \<Rightarrow>
          if pr_proposal_hash row \<noteq> tp_proposal_hash p \<or> pr_payload row \<noteq> p
          then Inl (ValueError ''proposal identity collision'') else Inr db
      | None \<Rightarrow>
          if list_ex (\<lambda>r. pr_proposal_hash r = tp_proposal_hash p) (trade_proposals db)
          then Inl (IntegrityError ''UNIQUE constraint failed: trade_proposals.proposal_hash'')
          else Inr (db\<lparr>trade_proposals := trade_proposals db @ [proposal_row_of p]\<rparr>))"

definition save_proposal_body :: "trade_proposal \<Rightarrow> string option \<Rightarrow> int option \<Rightarrow> (live_db, unit) dbop" where
  "save_proposal_body p token now db =
     (case bindR (check_claim db (tp_case_id p) token now)
            (\<lambda>_. bindR (proposal_admissible db p) (\<lambda>_. insert_proposal db p)) of
        Inl e \<Rightarrow> (Inl e, db)
      | Inr db' \<Rightarrow>
          (Inr (), db'\<lparr>live_cases := update_where (\<lambda>r. lc_case_id r = tp_case_id p)
             (\<lambda>r. r\<lparr>lc_active_proposal_hash := Some (tp_proposal_hash p)\<rparr>) (live_cases db')\<rparr>))"

definition save_proposal :: "hasher \<Rightarrow> trade_proposal \<Rightarrow> string option \<Rightarrow> int option \<Rightarrow> (live_db, unit) dbop" where
  "save_proposal H p token now db =
     (case proposal_verify H p of Inl e \<Rightarrow> (Inl e, db)
      | Inr _ \<Rightarrow> transaction (save_proposal_body p token now) db)"

definition get_proposal :: "hasher \<Rightarrow> live_db \<Rightarrow> string \<Rightarrow> trade_proposal res" where
  "get_proposal H db h =
     (case find_proposal db h of None \<Rightarrow> Inl (KeyError h) | Some row \<Rightarrow> proposal_verify H (pr_payload row))"

definition active_row :: "live_db \<Rightarrow> case_row \<Rightarrow> proposal_row option" where
  "active_row db row =
     (case lc_active_proposal_hash row of None \<Rightarrow> None | Some h \<Rightarrow> find_proposal db h)"

definition active_proposal :: "hasher \<Rightarrow> live_db \<Rightarrow> string \<Rightarrow> trade_proposal option res" where
  "active_proposal H db cid =
     (case Option.bind (find_case db cid) (active_row db) of
        None \<Rightarrow> Inr None
      | Some row \<Rightarrow> bindR (proposal_verify H (pr_payload row)) (\<lambda>p. Inr (Some p)))"

definition state_of :: "live_db \<Rightarrow> string \<Rightarrow> live_state res" where
  "state_of db cid =
     (case find_case db cid of None \<Rightarrow> Inl (KeyError cid) | Some row \<Rightarrow> Inr (lc_state row))"

section \<open>Transitions\<close>

definition transition_row ::
  "live_db \<Rightarrow> string \<Rightarrow> live_state \<Rightarrow> live_state \<Rightarrow> int \<Rightarrow> string option \<Rightarrow> live_db res" where
  "transition_row db cid old new now cb =
     (if \<not> allowed_edge old new then Inl (ValueError ''invalid state transition'')
      else Inr (db\<lparr>live_cases := update_where (\<lambda>r. lc_case_id r = cid) (\<lambda>r. r\<lparr>lc_state := new\<rparr>) (live_cases db),
                  live_state_events := live_state_events db @
                    [\<lparr>ev_case_id = cid, ev_from_state = Some old, ev_to_state = new, ev_at_ms = now,
                      ev_callback_event_id = cb\<rparr>]\<rparr>))"

text \<open>Running a sequence of statements whose failure rolls the transaction back.\<close>

definition run_tx :: "('s \<Rightarrow> 's res) \<Rightarrow> 's \<Rightarrow> unit res \<times> 's" where
  "run_tx body s = (case body s of Inl e \<Rightarrow> (Inl e, s) | Inr s' \<Rightarrow> (Inr (), s'))"

definition transition :: "live_db \<Rightarrow> string \<Rightarrow> live_state \<Rightarrow> int \<Rightarrow> string option \<Rightarrow> unit res \<times> live_db" where
  "transition db cid new now token =
     run_tx (\<lambda>db. bindR (check_claim db cid token (Some now))
       (\<lambda>_. case find_case db cid of
              None \<Rightarrow> Inl (KeyError cid)
            | Some row \<Rightarrow> transition_row db cid (lc_state row) new now None)) db"

definition close_reviews :: "(approval_row \<Rightarrow> bool) \<Rightarrow> live_db \<Rightarrow> live_db" where
  "close_reviews P db = db\<lparr>approval_records := update_where P
     (\<lambda>a. a\<lparr>ap_review_processed := True, ap_review_claim_until_ms := 0, ap_review_claim_token := []\<rparr>)
     (approval_records db)\<rparr>"

text \<open>One iteration of the loop of \<open>expire_cases\<close>; \<open>prop\<close> is the joined proposal payload.\<close>

definition expire_row :: "hasher \<Rightarrow> int \<Rightarrow> case_row \<Rightarrow> trade_proposal option \<Rightarrow> live_db \<Rightarrow> live_db res" where
  "expire_row H now row prop db =
     bindR (case_verify H (lc_payload row)) (\<lambda>c.
     bindR (case (lc_state row = WAITING_APPROVAL, prop) of
              (True, Some p) \<Rightarrow> bindR (proposal_verify H p) (\<lambda>p. Inr (min (cp_expires_at_ms c) (tp_expires_at_ms p)))
            | _ \<Rightarrow> Inr (cp_expires_at_ms c)) (\<lambda>deadline.
     if now < deadline then Inr db
     else bindR (transition_row db (cp_case_id c) (lc_state row) EXPIRED now None)
       (\<lambda>db'. Inr (close_reviews (\<lambda>a. of_case db' (cp_case_id c) a \<and> ap_action a = ''REQUEST_CODEX_REVIEW'') db'))))"

fun expire_loop :: "hasher \<Rightarrow> int \<Rightarrow> (case_row \<times> trade_proposal option) list \<Rightarrow> live_db \<Rightarrow> live_db res" where
  "expire_loop H now [] db = Inr db"
| "expire_loop H now ((row, prop) # rest) db =
     bindR (expire_row H now row prop db) (expire_loop H now rest)"

definition expire_cases :: "hasher \<Rightarrow> int \<Rightarrow> live_db \<Rightarrow> unit res \<times> live_db" where
  "expire_cases H now db =
     run_tx (expire_loop H now
       (map (\<lambda>row. (row, map_option pr_payload (active_row db row)))
          (filter (\<lambda>row. \<not> terminal (lc_state row)) (live_cases db)))) db"

section \<open>Callbacks\<close>

definition new_approval :: "string \<Rightarrow> string \<Rightarrow> string \<Rightarrow> string \<Rightarrow> string \<Rightarrow> int \<Rightarrow> live_state \<Rightarrow> approval_row" where
  "new_approval event_id action actor proposal_hash case_hash now new =
     \<lparr>ap_event_id = event_id, ap_action = action, ap_actor = actor, ap_proposal_hash = proposal_hash,
      ap_case_hash = case_hash, ap_at_ms = now, ap_result_state = new, ap_review_processed = False,
      ap_review_claim_until_ms = 0, ap_review_claim_token = []\<rparr>"

definition not_approvable :: "trade_proposal \<Rightarrow> bool" where
  "not_approvable p \<longleftrightarrow> tp_requires_manual_review p \<or> tp_blocked_reasons p \<noteq> []
     \<or> tp_recommended_notional_usdt p \<le> 0"

text \<open>The body returns the committed tables and, for an expired proposal, no result: the exception
  is raised after the transaction has been committed.\<close>

definition callback_live ::
  "hasher \<Rightarrow> string \<Rightarrow> string \<Rightarrow> string \<Rightarrow> string \<Rightarrow> string \<Rightarrow> int \<Rightarrow> live_db
     \<Rightarrow> (live_db \<times> live_state option) res" where
  "callback_live H event_id action actor proposal_hash case_hash now db =
     (case find_proposal db proposal_hash of
        None \<Rightarrow> Inl (ValueError ''stale or mismatched callback identity'')
      | Some prow \<Rightarrow>
     (case find_case db (pr_case_id prow) of
        None \<Rightarrow> Inl (ValueError ''stale or mismatched callback identity'')
      | Some crow \<Rightarrow>
     if lc_case_hash crow \<noteq> case_hash \<or> lc_active_proposal_hash crow \<noteq> Some proposal_hash
     then Inl (ValueError ''stale or mismatched callback identity'')
     else bindR (proposal_verify H (pr_payload prow)) (\<lambda>p. bindR (case_verify H (lc_payload crow)) (\<lambda>c.
       if min (cp_expires_at_ms c) (tp_expires_at_ms p) \<le> now then
         (if terminal (lc_state crow) then Inr (db, None)
          else bindR (transition_row db (cp_case_id c) (lc_state crow) EXPIRED now None) (\<lambda>db'. Inr (db', None)))
       else if lc_state crow \<noteq> WAITING_APPROVAL then Inl (ValueError ''callback not awaiting approval'')
       else if action = ''APPROVE'' \<and> not_approvable p then Inl (ValueError ''proposal cannot be approved'')
       else (case action_state action of
               None \<Rightarrow> Inl (KeyError action)
             | Some new \<Rightarrow>
                 bindR (transition_row
                   (db\<lparr>approval_records := approval_records db @
                      [new_approval event_id action actor proposal_hash case_hash now new]\<rparr>)
                   (cp_case_id c) (lc_state crow) new now (Some event_id)) (\<lambda>db'. Inr (db', Some new)))))))"

definition record_callback ::
  "hasher \<Rightarrow> string \<Rightarrow> string \<Rightarrow> string \<Rightarrow> string \<Rightarrow> string \<Rightarrow> int \<Rightarrow> (live_db, live_state \<times> bool) dbop" where
  "record_callback H event_id action actor proposal_hash case_hash now db =
     (if event_id = [] \<or> actor = [] \<or> action_state action = None then (Inl (ValueError ''invalid callback''), db)
      else (case find_approval db event_id of
        Some r \<Rightarrow>
          (if (ap_action r, ap_actor r, ap_proposal_hash r, ap_case_hash r) \<noteq> (action, actor, proposal_hash, case_hash)
           then Inl (ValueError ''callback event collision'') else Inr (ap_result_state r, True), db)
      | None \<Rightarrow>
          (case callback_live H event_id action actor proposal_hash case_hash now db of
             Inl e \<Rightarrow> (Inl e, db)
           | Inr (db', None) \<Rightarrow> (Inl (ValueError ''proposal expired''), db')
           | Inr (db', Some new) \<Rightarrow> (Inr (new, False), db'))))"

section \<open>Review leases\<close>

text \<open>The stale requests that \<open>queued_codex_reviews\<close> closes: their proposal is no longer the active
  one and either the case has moved on or a newer open request (a later rowid) names the active one.\<close>

definition superseded :: "live_db \<Rightarrow> nat \<Rightarrow> approval_row \<Rightarrow> bool" where
  "superseded db i a =
     (case find_proposal db (ap_proposal_hash a) of None \<Rightarrow> False
      | Some p \<Rightarrow> (case find_case db (pr_case_id p) of None \<Rightarrow> False
      | Some c \<Rightarrow> ap_action a = ''REQUEST_CODEX_REVIEW'' \<and> \<not> ap_review_processed a
          \<and> (case lc_active_proposal_hash c of None \<Rightarrow> False | Some h \<Rightarrow> h \<noteq> ap_proposal_hash a
             \<and> (lc_state c \<in> {WAITING_APPROVAL, APPROVED, REJECTED}
                \<or> lc_state c = MANUAL \<and> list_ex (\<lambda>n. ap_proposal_hash n = h
                     \<and> ap_action n = ''REQUEST_CODEX_REVIEW'' \<and> \<not> ap_review_processed n)
                     (drop (Suc i) (approval_records db))))))"

definition close_superseded :: "live_db \<Rightarrow> live_db" where
  "close_superseded db =
     close_reviews (\<lambda>a. list_ex (\<lambda>(i, b). ap_event_id b = ap_event_id a \<and> superseded db i b)
                          (enumerate 0 (approval_records db))) db"

definition review_busy :: "live_db \<Rightarrow> string \<Rightarrow> int \<Rightarrow> bool" where
  "review_busy db cid now = list_ex (\<lambda>a. open_review db cid a \<and> ap_review_claim_until_ms a > now) (approval_records db)"

definition review_pending :: "live_db \<Rightarrow> string \<Rightarrow> int \<Rightarrow> approval_row list" where
  "review_pending db cid now =
     filter (\<lambda>a. open_review db cid a \<and> ap_review_claim_until_ms a \<le> now) (approval_records db)"

fun manual_loop :: "int \<Rightarrow> case_row list \<Rightarrow> live_db \<Rightarrow> live_db res" where
  "manual_loop now [] db = Inr db"
| "manual_loop now (row # rest) db =
     bindR (transition_row db (lc_case_id row) (lc_state row) MANUAL now None) (manual_loop now rest)"

definition interrupted :: "live_db \<Rightarrow> int \<Rightarrow> case_row list" where
  "interrupted db now =
     filter (\<lambda>c. lc_state c \<in> {PLAN_READY, NOTIFIED} \<and> review_pending db (lc_case_id c) now \<noteq> []
               \<and> \<not> review_busy db (lc_case_id c) now) (live_cases db)"

definition queued_codex_reviews :: "int \<Rightarrow> (live_db, string list) dbop" where
  "queued_codex_reviews now db =
     (let db1 = close_superseded db
      in case manual_loop now (interrupted db1 now) db1 of
           Inl e \<Rightarrow> (Inl e, db)
         | Inr db2 \<Rightarrow>
             (Inr (sort (map lc_case_id (filter (\<lambda>c. lc_state c = MANUAL
                  \<and> review_pending db2 (lc_case_id c) now \<noteq> [] \<and> \<not> review_busy db2 (lc_case_id c) now)
                (live_cases db2)))), db2))"

definition claim_codex_review :: "string \<Rightarrow> int \<Rightarrow> int \<Rightarrow> string \<Rightarrow> (live_db, string option) dbop" where
  "claim_codex_review cid now lease token db =
     (if lease \<le> 0 then (Inl (ValueError ''review lease must be positive''), db)
      else (case find_case db cid of None \<Rightarrow> (Inr None, db)
      | Some row \<Rightarrow>
          if lc_state row \<noteq> MANUAL \<or> review_busy db cid now then (Inr None, db)
          else (case sort_key (\<lambda>a. (ap_at_ms a, ap_event_id a)) (review_pending db cid now) of
                  [] \<Rightarrow> (Inr None, db)
                | pending # _ \<Rightarrow>
                    (let P = (\<lambda>a. ap_event_id a = ap_event_id pending \<and> \<not> ap_review_processed a
                                \<and> ap_review_claim_until_ms a \<le> now);
                         n = rowcount P (approval_records db)
                     in (Inr (if n = 1 then Some token else None),
                         db\<lparr>approval_records := update_where P
                           (\<lambda>a. a\<lparr>ap_review_claim_until_ms := now + lease, ap_review_claim_token := token\<rparr>)
                           (approval_records db)\<rparr>)))))"

definition renew_codex_review :: "string \<Rightarrow> string \<Rightarrow> int \<Rightarrow> int \<Rightarrow> (live_db, bool) dbop" where
  "renew_codex_review cid token now lease db =
     (if token = [] \<or> lease \<le> 0 then (Inl (ValueError ''invalid review lease''), db)
      else (let P = (\<lambda>a. open_review db cid a \<and> ap_review_claim_token a = token \<and> ap_review_claim_until_ms a > now)
            in (Inr (rowcount P (approval_records db) = 1),
                db\<lparr>approval_records := update_where P (\<lambda>a. a\<lparr>ap_review_claim_until_ms := now + lease\<rparr>)
                  (approval_records db)\<rparr>)))"

definition release_codex_review :: "string \<Rightarrow> string \<Rightarrow> (live_db, unit) dbop" where
  "release_codex_review cid token db =
     (if token = [] then (Inl (ValueError ''review claim required''), db)
      else (Inr (), db\<lparr>approval_records := update_where
              (\<lambda>a. open_review db cid a \<and> ap_review_claim_token a = token)
              (\<lambda>a. a\<lparr>ap_review_claim_until_ms := 0, ap_review_claim_token := []\<rparr>) (approval_records db)\<rparr>))"

definition mark_codex_review_processed :: "string \<Rightarrow> string \<Rightarrow> (live_db, unit) dbop" where
  "mark_codex_review_processed cid token db =
     (if token = [] then (Inl (ValueError ''review claim required''), db)
      else (Inr (), close_reviews (\<lambda>a. open_review db cid a \<and> ap_review_claim_token a = token
              \<and> find_case db cid \<noteq> None) db))"

end
