(* ===== verification/Approval_Safety.thy ===== *)
theory Approval_Safety
  imports Approval_Store Fixtures
begin

text \<open>
  The contract of the approval journal. \<open>store_cmd\<close> lists the calls that change it and \<open>exec\<close>
  is their effect on the tables; \<open>store_step\<close> is one call made by the services, at a clock
  that does not run backwards. The services move a case with \<open>transition\<close> only to the states
  \<open>LLM_ANALYZING\<close>, \<open>PLAN_READY\<close>, \<open>NOTIFIED\<close>, \<open>WAITING_APPROVAL\<close>, \<open>MANUAL\<close> and \<open>EXPIRED\<close>; the
  decisions \<open>APPROVED\<close> and \<open>REJECTED\<close> are left to \<open>record_callback\<close>.

  The lemmas show that every call keeps the tables consistent, that an approved case has exactly
  one decisive record, made in time by a named actor on the active and executable proposal, that
  terminal states are final, that the event log replays to the state column, and that a review
  lease has one holder.
\<close>

section \<open>Calls\<close>

datatype store_cmd =
    SaveCase case_package
  | SaveAnalysis analysis_result string
  | SaveProposal trade_proposal "string option"
  | Transition string live_state "string option"
  | ExpireCases
  | RecordCallback string string string string string
  | QueuedReviews
  | ClaimReview string int string
  | RenewReview string string int
  | ReleaseReview string string
  | MarkReview string string

fun exec :: "hasher \<Rightarrow> int \<Rightarrow> store_cmd \<Rightarrow> live_db \<Rightarrow> live_db" where
  "exec H t (SaveCase c) db = snd (save_case H c db)"
| "exec H t (SaveAnalysis r role) db = snd (save_analysis H r role db)"
| "exec H t (SaveProposal p token) db = snd (save_proposal H p token (Some t) db)"
| "exec H t (Transition cid new token) db = snd (transition db cid new t token)"
| "exec H t ExpireCases db = snd (expire_cases H t db)"
| "exec H t (RecordCallback e a actor ph ch) db = snd (record_callback H e a actor ph ch t db)"
| "exec H t QueuedReviews db = snd (queued_codex_reviews t db)"
| "exec H t (ClaimReview cid lease token) db = snd (claim_codex_review cid t lease token db)"
| "exec H t (RenewReview cid token lease) db = snd (renew_codex_review cid token t lease db)"
| "exec H t (ReleaseReview cid token) db = snd (release_codex_review cid token db)"
| "exec H t (MarkReview cid token) db = snd (mark_codex_review_processed cid token db)"

fun service_cmd :: "store_cmd \<Rightarrow> bool" where
  "service_cmd (Transition cid new token) = (new \<noteq> APPROVED \<and> new \<noteq> REJECTED)"
| "service_cmd _ = True"

inductive store_step :: "hasher \<Rightarrow> int \<times> live_db \<Rightarrow> int \<times> live_db \<Rightarrow> bool" for H where
  call: "t \<le> t' \<Longrightarrow> service_cmd cmd \<Longrightarrow> store_step H (t, db) (t', exec H t' cmd db)"

inductive_cases store_stepE: "store_step H s s'"

section \<open>The invariant\<close>

definition case_state :: "live_db \<Rightarrow> string \<Rightarrow> live_state option" where
  "case_state db cid = map_option lc_state (find_case db cid)"

definition keys_ok :: "live_db \<Rightarrow> bool" where
  "keys_ok db \<longleftrightarrow> unique_on lc_case_id (live_cases db) \<and> unique_on pr_proposal_hash (trade_proposals db)
     \<and> unique_on ap_event_id (approval_records db)"

definition case_row_ok :: "hasher \<Rightarrow> case_row \<Rightarrow> bool" where
  "case_row_ok H r \<longleftrightarrow> lc_case_id r = cp_case_id (lc_payload r) \<and> lc_case_hash r = cp_case_hash (lc_payload r)
     \<and> case_verify H (lc_payload r) = Inr (lc_payload r)"

definition proposal_row_ok :: "hasher \<Rightarrow> live_db \<Rightarrow> proposal_row \<Rightarrow> bool" where
  "proposal_row_ok H db p \<longleftrightarrow> p = proposal_row_of (pr_payload p)
     \<and> proposal_verify H (pr_payload p) = Inr (pr_payload p)
     \<and> (\<exists>r \<in> set (live_cases db). lc_case_id r = pr_case_id p \<and> lc_case_hash r = pr_case_hash p)"

definition active_ok :: "live_db \<Rightarrow> case_row \<Rightarrow> bool" where
  "active_ok db r \<longleftrightarrow> (\<forall>h. lc_active_proposal_hash r = Some h \<longrightarrow>
     (\<exists>p \<in> set (trade_proposals db). pr_proposal_hash p = h \<and> pr_case_id p = lc_case_id r))"

definition rows_ok :: "hasher \<Rightarrow> live_db \<Rightarrow> bool" where
  "rows_ok H db \<longleftrightarrow> (\<forall>r \<in> set (live_cases db). case_row_ok H r \<and> active_ok db r)
     \<and> (\<forall>p \<in> set (trade_proposals db). proposal_row_ok H db p)
     \<and> (\<forall>a \<in> set (approval_records db). \<exists>p \<in> set (trade_proposals db). pr_proposal_hash p = ap_proposal_hash a)"

text \<open>The decision that makes a case approved: a record of a named actor for the active proposal,
  taken before the case and the proposal expired, on a proposal that needs no manual review, has no
  block reason and a positive size.\<close>

definition decisive :: "live_db \<Rightarrow> case_row \<Rightarrow> approval_row \<Rightarrow> proposal_row \<Rightarrow> bool" where
  "decisive db r a p \<longleftrightarrow> ap_action a = ''APPROVE'' \<and> ap_result_state a = APPROVED \<and> ap_actor a \<noteq> [] \<and> ap_case_hash a = lc_case_hash r
     \<and> lc_active_proposal_hash r = Some (ap_proposal_hash a)
     \<and> p \<in> set (trade_proposals db) \<and> pr_proposal_hash p = ap_proposal_hash a \<and> pr_case_id p = lc_case_id r
     \<and> \<not> not_approvable (pr_payload p)
     \<and> ap_at_ms a < min (cp_expires_at_ms (lc_payload r)) (tp_expires_at_ms (pr_payload p))"

definition approved_ok :: "live_db \<Rightarrow> bool" where
  "approved_ok db \<longleftrightarrow> (\<forall>r \<in> set (live_cases db). lc_state r = APPROVED \<longrightarrow>
     (\<exists>a \<in> set (approval_records db). \<exists>p. decisive db r a p))"

definition final_record :: "live_db \<Rightarrow> string \<Rightarrow> approval_row \<Rightarrow> bool" where
  "final_record db cid a \<longleftrightarrow> of_case db cid a \<and> terminal (ap_result_state a)"

definition single_ok :: "live_db \<Rightarrow> bool" where
  "single_ok db \<longleftrightarrow> (\<forall>cid. rowcount (final_record db cid) (approval_records db) \<le> 1
     \<and> (\<forall>a \<in> set (approval_records db). final_record db cid a \<longrightarrow> case_state db cid = Some (ap_result_state a)))"

fun replay_log :: "live_state option \<Rightarrow> state_event list \<Rightarrow> live_state option option" where
  "replay_log s [] = Some s"
| "replay_log s (e # es) =
     (if ev_from_state e = s \<and> (case s of None \<Rightarrow> ev_to_state e = CASE_TRIGGERED
                                | Some old \<Rightarrow> allowed_edge old (ev_to_state e))
      then replay_log (Some (ev_to_state e)) es else None)"

definition case_log :: "live_db \<Rightarrow> string \<Rightarrow> state_event list" where
  "case_log db cid = filter (\<lambda>e. ev_case_id e = cid) (live_state_events db)"

definition log_ok :: "live_db \<Rightarrow> bool" where
  "log_ok db \<longleftrightarrow> (\<forall>cid. replay_log None (case_log db cid) = Some (case_state db cid))"

definition live_inv :: "hasher \<Rightarrow> live_db \<Rightarrow> bool" where
  "live_inv H db \<longleftrightarrow> keys_ok db \<and> rows_ok H db \<and> approved_ok db \<and> single_ok db \<and> log_ok db"

lemma replay_log_append:
  "replay_log s (xs @ ys) = (case replay_log s xs of None \<Rightarrow> None | Some s' \<Rightarrow> replay_log s' ys)"
  by (induction xs arbitrary: s) auto

lemma live_inv_empty: "live_inv H empty_live_db"
  by (simp add: live_inv_def keys_ok_def rows_ok_def approved_ok_def single_ok_def log_ok_def empty_live_db_def
      unique_on_def rowcount_def case_log_def case_state_def)

section \<open>Lease fields are irrelevant to the decisions\<close>

definition core :: "approval_row \<Rightarrow> approval_row" where
  "core a = a\<lparr>ap_review_processed := False, ap_review_claim_until_ms := 0, ap_review_claim_token := []\<rparr>"

definition core_db :: "live_db \<Rightarrow> live_db" where
  "core_db db = db\<lparr>approval_records := map core (approval_records db)\<rparr>"

lemma core_fields [simp]:
  "ap_event_id (core a) = ap_event_id a" "ap_action (core a) = ap_action a" "ap_actor (core a) = ap_actor a"
  "ap_proposal_hash (core a) = ap_proposal_hash a" "ap_case_hash (core a) = ap_case_hash a"
  "ap_at_ms (core a) = ap_at_ms a" "ap_result_state (core a) = ap_result_state a"
  by (simp_all add: core_def)

lemma core_db_fields [simp]:
  "live_cases (core_db db) = live_cases db" "trade_proposals (core_db db) = trade_proposals db"
  "live_state_events (core_db db) = live_state_events db" "analysis_results (core_db db) = analysis_results db"
  "approval_records (core_db db) = map core (approval_records db)"
  by (simp_all add: core_db_def)

lemma decisive_core [simp]: "decisive (core_db db) r (core a) = decisive db r a"
  by (rule ext) (simp add: decisive_def)

lemma of_case_core [simp]: "of_case (core_db db) cid (core a) = of_case db cid a"
  by (simp add: of_case_def)

lemma final_record_core [simp]: "final_record (core_db db) cid (core a) = final_record db cid a"
  by (simp add: final_record_def)

lemma rowcount_map: "rowcount P (map f xs) = rowcount (\<lambda>x. P (f x)) xs"
  by (induction xs) (auto simp: rowcount_def)

lemma live_inv_core: "live_inv H (core_db db) = live_inv H db"
proof -
  have u: "unique_on ap_event_id (map core xs) = unique_on ap_event_id xs" for xs
    by (simp add: unique_on_def comp_def)
  have k: "keys_ok (core_db db) = keys_ok db" by (simp add: keys_ok_def u)
  have r: "rows_ok H (core_db db) = rows_ok H db"
    by (simp add: rows_ok_def proposal_row_ok_def active_ok_def)
  have a: "approved_ok (core_db db) = approved_ok db"
    by (simp add: approved_ok_def)
  have c: "case_state (core_db db) cid = case_state db cid" for cid
    by (simp add: case_state_def)
  have s: "single_ok (core_db db) = single_ok db"
    by (simp add: single_ok_def rowcount_map c)
  have l: "log_ok (core_db db) = log_ok db"
    by (simp add: log_ok_def case_log_def c)
  show ?thesis by (simp add: live_inv_def k r a s l)
qed

lemma live_inv_lease:
  assumes "live_inv H db" and "core_db db' = core_db db"
  shows "live_inv H db'"
  using assms live_inv_core [of H db'] live_inv_core [of H db] by simp

lemma core_db_update_where:
  assumes "\<And>a. core (f a) = core a"
  shows "core_db (db\<lparr>approval_records := update_where P f (approval_records db)\<rparr>) = core_db db"
proof -
  have "map core (update_where P f xs) = map core xs" for xs
    by (induction xs) (auto simp: update_where_def assms)
  then show ?thesis by (simp add: core_db_def)
qed

lemma core_close_reviews [simp]: "core_db (close_reviews P db) = core_db db"
  unfolding close_reviews_def by (rule core_db_update_where) (simp add: core_def)

lemma decisive_cong: "trade_proposals db' = trade_proposals db \<Longrightarrow> decisive db' = decisive db"
  by (intro ext) (simp add: decisive_def)

section \<open>Transitions keep the invariant\<close>

definition moved :: "live_db \<Rightarrow> string \<Rightarrow> live_state \<Rightarrow> live_state \<Rightarrow> int \<Rightarrow> string option \<Rightarrow> live_db" where
  "moved db cid old new now cb =
     db\<lparr>live_cases := update_where (\<lambda>r. lc_case_id r = cid) (\<lambda>r. r\<lparr>lc_state := new\<rparr>) (live_cases db),
       live_state_events := live_state_events db @
         [\<lparr>ev_case_id = cid, ev_from_state = Some old, ev_to_state = new, ev_at_ms = now,
           ev_callback_event_id = cb\<rparr>]\<rparr>"

lemma transition_row_iff:
  "transition_row db cid old new now cb = Inr db' \<longleftrightarrow> allowed_edge old new \<and> db' = moved db cid old new now cb"
  by (auto simp: transition_row_def moved_def)

lemma allowed_edge_not_terminal: "allowed_edge old new \<Longrightarrow> \<not> terminal old"
  by (cases old) (auto simp: allowed_edge_def)

lemma moved_tables [simp]:
  "trade_proposals (moved db cid old new now cb) = trade_proposals db"
  "approval_records (moved db cid old new now cb) = approval_records db"
  "analysis_results (moved db cid old new now cb) = analysis_results db"
  by (simp_all add: moved_def)

lemma moved_case:
  "set (live_cases (moved db cid old new now cb)) =
     (\<lambda>r. if lc_case_id r = cid then r\<lparr>lc_state := new\<rparr> else r) ` set (live_cases db)"
  by (simp add: moved_def set_update_where)

lemma find_case_moved:
  "find_case (moved db cid old new now cb) c =
     map_option (\<lambda>r. if lc_case_id r = cid then r\<lparr>lc_state := new\<rparr> else r) (find_case db c)"
  by (simp add: moved_def fetchone_update_where)

lemma case_state_moved:
  assumes "find_case db cid = Some r"
  shows "case_state (moved db cid old new now cb) c = (if c = cid then Some new else case_state db c)"
proof (cases "c = cid")
  case True
  have "lc_case_id r = cid" using fetchone_Some [OF assms] by simp
  with True assms show ?thesis by (simp add: case_state_def find_case_moved)
next
  case False
  then show ?thesis
    by (cases "find_case db c") (auto simp: case_state_def find_case_moved dest: fetchone_Some)
qed

lemma of_case_moved [simp]: "of_case (moved db cid old new now cb) = of_case db"
  by (intro ext) (simp add: of_case_def)

lemma keys_ok_moved: "keys_ok db \<Longrightarrow> keys_ok (moved db cid old new now cb)"
  by (simp add: keys_ok_def moved_def unique_on_update_where)

lemma rows_ok_moved:
  assumes "rows_ok H db"
  shows "rows_ok H (moved db cid old new now cb)"
proof -
  have c: "case_row_ok H r' \<and> active_ok (moved db cid old new now cb) r'"
    if "r' \<in> set (live_cases (moved db cid old new now cb))" for r'
    using that assms
    by (auto simp: moved_case rows_ok_def case_row_ok_def active_ok_def split: if_splits)
  have p: "proposal_row_ok H (moved db cid old new now cb) p" if "p \<in> set (trade_proposals db)" for p
  proof -
    from assms that obtain r where "r \<in> set (live_cases db)" "lc_case_id r = pr_case_id p" "lc_case_hash r = pr_case_hash p"
      by (auto simp: rows_ok_def proposal_row_ok_def)
    then have "\<exists>r' \<in> set (live_cases (moved db cid old new now cb)). lc_case_id r' = pr_case_id p \<and> lc_case_hash r' = pr_case_hash p"
      unfolding moved_case bex_simps by (intro bexI [of _ r]) simp_all
    with assms that show ?thesis by (auto simp: rows_ok_def proposal_row_ok_def)
  qed
  show ?thesis using assms c p by (simp add: rows_ok_def)
qed

lemma log_ok_moved:
  assumes "log_ok db" and "find_case db cid = Some r" and "lc_state r = old" and "allowed_edge old new"
  shows "log_ok (moved db cid old new now cb)"
  unfolding log_ok_def
proof
  fix c
  have "case_state db cid = Some old" using assms by (simp add: case_state_def)
  moreover have "replay_log None (case_log db c) = Some (case_state db c)" using assms(1) by (simp add: log_ok_def)
  ultimately show "replay_log None (case_log (moved db cid old new now cb) c) = Some (case_state (moved db cid old new now cb) c)"
    using assms(4) unfolding case_state_moved [OF assms(2)]
    by (simp add: case_log_def moved_def replay_log_append split: option.splits)
qed

lemma approved_ok_moved:
  assumes "approved_ok db" and "new \<noteq> APPROVED"
  shows "approved_ok (moved db cid old new now cb)"
proof -
  have d: "decisive (moved db cid old new now cb) = decisive db"
    by (rule decisive_cong) simp
  show ?thesis using assms by (auto simp: approved_ok_def moved_case d split: if_splits)
qed

lemma no_final_record:
  assumes "single_ok db" and "find_case db cid = Some r" and "\<not> terminal (lc_state r)"
    and "a \<in> set (approval_records db)"
  shows "\<not> final_record db cid a"
proof
  assume "final_record db cid a"
  then have "case_state db cid = Some (ap_result_state a)" and "terminal (ap_result_state a)"
    using assms(1,4) unfolding single_ok_def by (blast, simp add: final_record_def)
  with assms(2,3) show False by (simp add: case_state_def)
qed

lemma single_ok_moved:
  assumes "single_ok db" and "find_case db cid = Some r" and "\<not> terminal (lc_state r)"
  shows "single_ok (moved db cid old new now cb)"
proof -
  have f: "final_record (moved db cid old new now cb) = final_record db"
    by (intro ext) (simp add: final_record_def)
  have "\<not> final_record db cid a" if "a \<in> set (approval_records db)" for a
    using assms that by (rule no_final_record)
  then show ?thesis
    using assms(1) unfolding single_ok_def f case_state_moved [OF assms(2)] by auto
qed

lemma live_inv_moved:
  assumes "live_inv H db" and "find_case db cid = Some r" and "lc_state r = old" and "allowed_edge old new"
    and "new \<noteq> APPROVED"
  shows "live_inv H (moved db cid old new now cb)"
  using assms allowed_edge_not_terminal
  by (auto simp: live_inv_def intro: keys_ok_moved rows_ok_moved log_ok_moved approved_ok_moved single_ok_moved)

section \<open>Every call keeps the invariant\<close>

lemma live_inv_analysis: "live_inv H (db\<lparr>analysis_results := x\<rparr>) = live_inv H db"
  by (simp add: live_inv_def keys_ok_def rows_ok_def active_ok_def proposal_row_ok_def approved_ok_def decisive_def
      single_ok_def final_record_def [abs_def] of_case_def case_state_def log_ok_def case_log_def)

lemma save_analysis_inv: "live_inv H db \<Longrightarrow> live_inv H (snd (save_analysis H r role db))"
  by (auto simp: save_analysis_def transaction_def save_analysis_body_def live_inv_analysis Let_def
      split: prod.splits sum.splits option.splits if_splits)

definition added_case :: "live_db \<Rightarrow> case_package \<Rightarrow> live_db" where
  "added_case db c =
     db\<lparr>live_cases := live_cases db @ [case_row_of c],
       live_state_events := live_state_events db @
         [\<lparr>ev_case_id = cp_case_id c, ev_from_state = None, ev_to_state = CASE_TRIGGERED,
           ev_at_ms = cp_created_at_ms c, ev_callback_event_id = None\<rparr>]\<rparr>"

lemma case_row_of_fields [simp]:
  "lc_case_id (case_row_of c) = cp_case_id c" "lc_case_hash (case_row_of c) = cp_case_hash c"
  "lc_payload (case_row_of c) = c" "lc_state (case_row_of c) = CASE_TRIGGERED"
  "lc_active_proposal_hash (case_row_of c) = None"
  by (simp_all add: case_row_of_def)

lemma case_state_added:
  assumes "find_case db (cp_case_id c) = None"
  shows "case_state (added_case db c) cid = (if cid = cp_case_id c then Some CASE_TRIGGERED else case_state db cid)"
  using assms by (auto simp: case_state_def added_case_def fetchone_append split: option.splits)

lemma of_case_ex:
  "of_case db cid a \<longleftrightarrow> (\<exists>p \<in> set (trade_proposals db). pr_proposal_hash p = ap_proposal_hash a \<and> pr_case_id p = cid)"
  by (simp add: of_case_def list_ex_iff)

lemma of_case_exists: "rows_ok H db \<Longrightarrow> of_case db cid a \<Longrightarrow> \<exists>r \<in> set (live_cases db). lc_case_id r = cid"
  by (fastforce simp: rows_ok_def proposal_row_ok_def of_case_ex)

lemma live_inv_added:
  assumes inv: "live_inv H db" and new: "find_case db (cp_case_id c) = None" and ok: "case_verify H c = Inr c"
  shows "live_inv H (added_case db c)"
proof -
  have fresh: "\<forall>r \<in> set (live_cases db). lc_case_id r \<noteq> cp_case_id c" using new by (simp add: fetchone_None)
  have k: "keys_ok (added_case db c)" and a: "approved_ok (added_case db c)"
    using inv fresh by (auto simp: live_inv_def keys_ok_def added_case_def unique_on_append approved_ok_def decisive_def)
  have r: "rows_ok H (added_case db c)"
    using inv ok by (auto simp: live_inv_def rows_ok_def added_case_def case_row_ok_def active_ok_def proposal_row_ok_def)
  have f: "final_record (added_case db c) = final_record db"
    by (intro ext) (simp add: final_record_def of_case_def added_case_def)
  have n: "\<not> final_record db (cp_case_id c) x" for x
    using inv fresh of_case_exists [of H db "cp_case_id c" x] by (auto simp: live_inv_def final_record_def)
  have s: "single_ok (added_case db c)"
    using inv n unfolding single_ok_def f case_state_added [OF new]
    by (auto simp: live_inv_def single_ok_def added_case_def)
  have l: "log_ok (added_case db c)"
    unfolding log_ok_def case_state_added [OF new]
    using inv new by (auto simp: live_inv_def log_ok_def case_log_def added_case_def replay_log_append case_state_def)
  show ?thesis using k r a s l by (simp add: live_inv_def)
qed

lemma save_case_effect:
  "snd (save_case H c db) = db
     \<or> snd (save_case H c db) = added_case db c \<and> find_case db (cp_case_id c) = None \<and> case_verify H c = Inr c"
proof (cases "case_verify H c")
  case (Inr c')
  then have "case_verify H c = Inr c" by (simp add: case_verify_iff)
  then show ?thesis
    by (auto simp: save_case_def transaction_def save_case_body_def added_case_def split: option.splits)
qed (simp add: save_case_def)

lemma save_case_inv: "live_inv H db \<Longrightarrow> live_inv H (snd (save_case H c db))"
  using save_case_effect [of H c db] live_inv_added by metis

text \<open>Saving a proposal: the table afterwards, and the row that becomes active.\<close>

definition activated :: "live_db \<Rightarrow> trade_proposal \<Rightarrow> live_db" where
  "activated db p = db\<lparr>live_cases := update_where (\<lambda>r. lc_case_id r = tp_case_id p)
     (\<lambda>r. r\<lparr>lc_active_proposal_hash := Some (tp_proposal_hash p)\<rparr>) (live_cases db)\<rparr>"

lemma proposal_admissible_iff:
  "proposal_admissible db p = Inr u \<longleftrightarrow>
     (\<exists>row. find_case db (tp_case_id p) = Some row \<and> lc_case_hash row = tp_case_hash p
        \<and> \<not> terminal (lc_state row) \<and> tp_analysis_result_hashes p \<noteq> []
        \<and> list_all (\<lambda>h. list_ex (\<lambda>a. an_case_id a = tp_case_id p \<and> an_result_hash a = h) (analysis_results db))
            (tp_analysis_result_hashes p))"
  by (auto simp: proposal_admissible_def split: option.splits if_splits)

lemma save_proposal_effect:
  "snd (save_proposal H p token now db) = db
     \<or> (\<exists>db'. snd (save_proposal H p token now db) = activated db' p \<and> insert_proposal db p = Inr db'
          \<and> proposal_admissible db p = Inr () \<and> proposal_verify H p = Inr p)"
proof (cases "proposal_verify H p")
  case (Inr p')
  then have "proposal_verify H p = Inr p" by (simp add: proposal_verify_iff)
  then show ?thesis
    by (auto simp: save_proposal_def transaction_def save_proposal_body_def activated_def result_simps
        split: sum.splits prod.splits)
qed (simp add: save_proposal_def)

lemma proposal_row_of_fields [simp]:
  "pr_proposal_hash (proposal_row_of p) = tp_proposal_hash p" "pr_case_id (proposal_row_of p) = tp_case_id p"
  "pr_payload (proposal_row_of p) = p" "pr_case_hash (proposal_row_of p) = tp_case_hash p"
  "pr_proposal_id (proposal_row_of p) = tp_proposal_id p"
  by (simp_all add: proposal_row_of_def)

lemma live_inv_new_proposal:
  assumes inv: "live_inv H db" and ver: "proposal_verify H p = Inr p"
    and fresh: "\<forall>q \<in> set (trade_proposals db). pr_proposal_hash q \<noteq> tp_proposal_hash p"
    and row: "r \<in> set (live_cases db)" "lc_case_id r = tp_case_id p" "lc_case_hash r = tp_case_hash p"
  shows "live_inv H (db\<lparr>trade_proposals := trade_proposals db @ [proposal_row_of p]\<rparr>)" (is "live_inv H ?db")
proof -
  have fk: "\<exists>q \<in> set (trade_proposals db). pr_proposal_hash q = ap_proposal_hash a"
    if "a \<in> set (approval_records db)" for a using inv that by (auto simp: live_inv_def rows_ok_def)
  have k: "keys_ok ?db" using inv fresh by (simp add: live_inv_def keys_ok_def unique_on_append)
  have r: "rows_ok H ?db"
    using inv ver row by (fastforce simp: live_inv_def rows_ok_def active_ok_def proposal_row_ok_def)
  have a: "approved_ok ?db" using inv by (fastforce simp: live_inv_def approved_ok_def decisive_def)
  have o: "of_case ?db cid a = of_case db cid a" if "a \<in> set (approval_records db)" for cid a
    using fk [OF that] fresh by (auto simp: of_case_ex)
  then have f: "final_record ?db cid a = final_record db cid a" if "a \<in> set (approval_records db)" for cid a
    using that by (simp add: final_record_def)
  then have c: "rowcount (final_record ?db cid) (approval_records db) = rowcount (final_record db cid) (approval_records db)" for cid
    by (simp add: rowcount_def cong: filter_cong)
  have s: "single_ok ?db" using inv f c by (simp add: live_inv_def single_ok_def case_state_def)
  have l: "log_ok ?db" using inv by (simp add: live_inv_def log_ok_def case_log_def case_state_def)
  show ?thesis using k r a s l by (simp add: live_inv_def)
qed

lemma insert_proposal_inv:
  assumes inv: "live_inv H db" and ins: "insert_proposal db p = Inr db'" and adm: "proposal_admissible db p = Inr ()"
    and ver: "proposal_verify H p = Inr p"
  shows "live_inv H db' \<and> live_cases db' = live_cases db
    \<and> (\<exists>q \<in> set (trade_proposals db'). pr_proposal_hash q = tp_proposal_hash p \<and> pr_case_id q = tp_case_id p)"
proof (cases "fetchone (\<lambda>r. pr_proposal_id r = tp_proposal_id p) (trade_proposals db)")
  case None
  obtain r where r: "r \<in> set (live_cases db)" "lc_case_id r = tp_case_id p" "lc_case_hash r = tp_case_hash p"
    using adm by (auto simp: proposal_admissible_iff dest: fetchone_Some)
  from None ins have "\<forall>q \<in> set (trade_proposals db). pr_proposal_hash q \<noteq> tp_proposal_hash p"
    and "db' = db\<lparr>trade_proposals := trade_proposals db @ [proposal_row_of p]\<rparr>"
    by (auto simp: insert_proposal_def list_ex_iff split: if_splits)
  then show ?thesis using live_inv_new_proposal [OF inv ver _ r] by simp
next
  case (Some q)
  with ins have d: "db' = db" and q: "pr_payload q = p" by (auto simp: insert_proposal_def split: if_splits)
  have "q \<in> set (trade_proposals db)" using Some by (auto dest: fetchone_Some)
  moreover from this have "q = proposal_row_of p" using inv q by (auto simp: live_inv_def rows_ok_def proposal_row_ok_def)
  ultimately show ?thesis using inv d by (intro conjI bexI [of _ q]) simp_all
qed

lemma find_case_activated:
  "find_case (activated db p) cid = map_option (\<lambda>r. if lc_case_id r = tp_case_id p
      then r\<lparr>lc_active_proposal_hash := Some (tp_proposal_hash p)\<rparr> else r) (find_case db cid)"
  by (simp add: activated_def fetchone_update_where)

lemma case_state_activated [simp]: "case_state (activated db p) cid = case_state db cid"
  by (cases "find_case db cid") (auto simp: case_state_def find_case_activated)

lemma activated_tables [simp]:
  "trade_proposals (activated db p) = trade_proposals db" "approval_records (activated db p) = approval_records db"
  "live_state_events (activated db p) = live_state_events db"
  by (simp_all add: activated_def)

lemma find_case_unique: "keys_ok db \<Longrightarrow> r \<in> set (live_cases db) \<Longrightarrow> find_case db (lc_case_id r) = Some r"
  by (simp add: keys_ok_def fetchone_key)

lemma live_inv_activated:
  assumes inv: "live_inv H db" and q: "q \<in> set (trade_proposals db)" "pr_proposal_hash q = tp_proposal_hash p"
      "pr_case_id q = tp_case_id p"
    and row: "find_case db (tp_case_id p) = Some row" "\<not> terminal (lc_state row)"
  shows "live_inv H (activated db p)"
proof -
  have cs: "set (live_cases (activated db p)) = (\<lambda>r. if lc_case_id r = tp_case_id p
      then r\<lparr>lc_active_proposal_hash := Some (tp_proposal_hash p)\<rparr> else r) ` set (live_cases db)"
    by (simp add: activated_def set_update_where)
  have keys: "keys_ok db" using inv by (simp add: live_inv_def)
  have k: "keys_ok (activated db p)" using keys by (simp add: keys_ok_def activated_def unique_on_update_where)
  have pr: "proposal_row_ok H (activated db p) x" if "x \<in> set (trade_proposals db)" for x
  proof -
    have x: "proposal_row_ok H db x" using inv that by (auto simp: live_inv_def rows_ok_def)
    then obtain r where "r \<in> set (live_cases db)" "lc_case_id r = pr_case_id x" "lc_case_hash r = pr_case_hash x"
      unfolding proposal_row_ok_def by blast
    then show ?thesis
      using x unfolding proposal_row_ok_def cs bex_simps by (intro conjI bexI [of _ r]) simp_all
  qed
  have r: "rows_ok H (activated db p)"
    using inv q pr unfolding rows_ok_def cs by (fastforce simp: live_inv_def rows_ok_def case_row_ok_def active_ok_def)
  have ne: "lc_case_id r \<noteq> tp_case_id p" if "r \<in> set (live_cases db)" "lc_state r = APPROVED" for r
    using find_case_unique [OF keys that(1)] row that(2) by auto
  have a: "approved_ok (activated db p)"
    using inv ne decisive_cong [of "activated db p" db] unfolding approved_ok_def cs
    by (auto simp: live_inv_def approved_ok_def)
  have f: "final_record (activated db p) = final_record db"
    by (intro ext) (simp add: final_record_def of_case_def)
  have s: "single_ok (activated db p)" using inv by (simp add: live_inv_def single_ok_def f)
  have l: "log_ok (activated db p)" using inv by (simp add: live_inv_def log_ok_def case_log_def)
  show ?thesis using k r a s l by (simp add: live_inv_def)
qed

lemma save_proposal_inv:
  assumes "live_inv H db"
  shows "live_inv H (snd (save_proposal H p token now db))"
proof (cases "snd (save_proposal H p token now db) = db")
  case False
  then obtain db' where e: "snd (save_proposal H p token now db) = activated db' p" "insert_proposal db p = Inr db'"
    and ad: "proposal_admissible db p = Inr ()" and v: "proposal_verify H p = Inr p"
    using save_proposal_effect [of H p token now db] by auto
  from ad obtain row where "find_case db (tp_case_id p) = Some row" "\<not> terminal (lc_state row)"
    by (auto simp: proposal_admissible_iff)
  then show ?thesis
    using insert_proposal_inv [OF assms e(2) ad v] e(1) live_inv_activated [of H db' _ p row] by auto
qed (use assms in simp)

lemma transition_inv:
  assumes "live_inv H db" and "new \<noteq> APPROVED"
  shows "live_inv H (snd (transition db cid new now token))"
  using assms
  by (auto simp: transition_def run_tx_def result_simps transition_row_iff intro!: live_inv_moved
      split: sum.splits option.splits)

text \<open>The loops over a snapshot of the case table: a row that has not been visited is unchanged.\<close>

lemma find_case_moved_other:
  "lc_case_id r \<noteq> cid \<Longrightarrow> find_case db (lc_case_id r) = Some r \<Longrightarrow>
     find_case (moved db cid old new now cb) (lc_case_id r) = Some r"
  by (simp add: find_case_moved)

lemma find_case_close_reviews [simp]: "live_cases (close_reviews P db) = live_cases db"
  by (simp add: close_reviews_def)

lemma expire_row_effect:
  assumes "case_row_ok H row" and "expire_row H now row prop db = Inr db'"
  shows "db' = db \<or> (\<exists>P. db' = close_reviews P (moved db (lc_case_id row) (lc_state row) EXPIRED now None)
                          \<and> allowed_edge (lc_state row) EXPIRED)"
proof -
  have "case_verify H (lc_payload row) = Inr (lc_payload row)" "lc_case_id row = cp_case_id (lc_payload row)"
    using assms(1) by (simp_all add: case_row_ok_def)
  with assms(2) show ?thesis
    by (fastforce simp: expire_row_def result_simps transition_row_iff split: if_splits)
qed

lemma expire_loop_rule:
  assumes ok: "\<And>db row. P db \<Longrightarrow> row \<in> set (live_cases db) \<Longrightarrow> case_row_ok H row"
    and step: "\<And>db row Q. P db \<Longrightarrow> find_case db (lc_case_id row) = Some row \<Longrightarrow> allowed_edge (lc_state row) EXPIRED
       \<Longrightarrow> P (close_reviews Q (moved db (lc_case_id row) (lc_state row) EXPIRED now None))"
    and "P db" and "expire_loop H now work db = Inr db'"
    and "distinct (map (lc_case_id \<circ> fst) work)"
    and "\<forall>(row, prop) \<in> set work. find_case db (lc_case_id row) = Some row"
  shows "P db'"
  using assms(3-)
proof (induction work arbitrary: db)
  case (Cons x work)
  obtain row q where x: "x = (row, q)" by fastforce
  from Cons.prems(2) obtain db1 where s: "expire_row H now row q db = Inr db1" "expire_loop H now work db1 = Inr db'"
    by (auto simp: x result_simps)
  have row: "find_case db (lc_case_id row) = Some row" using Cons.prems(4) x by auto
  then have "case_row_ok H row" using ok [OF Cons.prems(1)] by (auto dest: fetchone_Some)
  from expire_row_effect [OF this s(1)] have "P db1 \<and> (\<forall>(r, q) \<in> set work. find_case db1 (lc_case_id r) = Some r)"
  proof (elim disjE exE conjE)
    assume "db1 = db" with Cons.prems show ?thesis by auto
  next
    fix Q assume d: "db1 = close_reviews Q (moved db (lc_case_id row) (lc_state row) EXPIRED now None)"
      and e: "allowed_edge (lc_state row) EXPIRED"
    have "P db1" unfolding d using Cons.prems(1) row e by (rule step)
    moreover have "\<forall>(r, q) \<in> set work. find_case db1 (lc_case_id r) = Some r"
      using Cons.prems(3,4) x by (force simp: d image_iff intro!: find_case_moved_other)
    ultimately show ?thesis by simp
  qed
  with Cons.IH [of db1] s(2) Cons.prems(3) show ?case by simp
qed simp

lemma snapshot_distinct: "keys_ok db \<Longrightarrow> distinct (map lc_case_id (filter P (live_cases db)))"
  by (simp add: keys_ok_def unique_on_def distinct_map_filter)

lemma expire_cases_rule:
  assumes "\<And>db. P db \<Longrightarrow> live_inv H db"
    and step: "\<And>db row Q. P db \<Longrightarrow> find_case db (lc_case_id row) = Some row \<Longrightarrow> allowed_edge (lc_state row) EXPIRED
       \<Longrightarrow> P (close_reviews Q (moved db (lc_case_id row) (lc_state row) EXPIRED now None))"
    and "P db"
  shows "P (snd (expire_cases H now db))"
proof -
  let ?work = "map (\<lambda>row. (row, map_option pr_payload (active_row db row)))
                 (filter (\<lambda>row. \<not> terminal (lc_state row)) (live_cases db))"
  have k: "keys_ok db" using assms(1,3) by (simp add: live_inv_def)
  have ok: "case_row_ok H row" if "P db'" "row \<in> set (live_cases db')" for db' row
    using assms(1) [OF that(1)] that(2) by (simp add: live_inv_def rows_ok_def)
  have w: "distinct (map (lc_case_id \<circ> fst) ?work)"
    "\<forall>(row, prop) \<in> set ?work. find_case db (lc_case_id row) = Some row"
    using k snapshot_distinct by (auto simp: comp_def find_case_unique)
  have "P db'" if l: "expire_loop H now ?work db = Inr db'" for db'
    by (rule expire_loop_rule [where P = P, OF _ _ assms(3) l w]) (erule (1) ok, erule (2) step)
  with assms(3) show ?thesis by (auto simp: expire_cases_def run_tx_def split: sum.splits)
qed

lemma expire_cases_inv: "live_inv H db \<Longrightarrow> live_inv H (snd (expire_cases H now db))"
  by (rule expire_cases_rule) (auto intro: live_inv_lease live_inv_moved)

lemma manual_loop_rule:
  assumes step: "\<And>db row. P db \<Longrightarrow> find_case db (lc_case_id row) = Some row \<Longrightarrow> allowed_edge (lc_state row) MANUAL
       \<Longrightarrow> P (moved db (lc_case_id row) (lc_state row) MANUAL now None)"
    and "P db" and "manual_loop now rows db = Inr db'" and "distinct (map lc_case_id rows)"
    and "\<forall>row \<in> set rows. find_case db (lc_case_id row) = Some row"
  shows "P db'"
  using assms(2-)
proof (induction rows arbitrary: db)
  case (Cons row rows)
  from Cons.prems(2) obtain db1 where d: "db1 = moved db (lc_case_id row) (lc_state row) MANUAL now None"
    and e: "allowed_edge (lc_state row) MANUAL" and l: "manual_loop now rows db1 = Inr db'"
    by (auto simp: result_simps transition_row_iff)
  have row: "find_case db (lc_case_id row) = Some row" using Cons.prems(4) by simp
  have "P db1" unfolding d using Cons.prems(1) row e by (rule step)
  moreover have "\<forall>r \<in> set rows. find_case db1 (lc_case_id r) = Some r"
    using Cons.prems(3,4) by (force simp: d image_iff intro!: find_case_moved_other)
  ultimately show ?case using Cons.IH l Cons.prems(3) by simp
qed simp

lemma live_inv_close: "live_inv H db \<Longrightarrow> live_inv H (close_reviews P db)"
  by (erule live_inv_lease) simp

lemma queued_codex_reviews_rule:
  assumes inv: "\<And>db. P db \<Longrightarrow> live_inv H db"
    and step: "\<And>db row. P db \<Longrightarrow> find_case db (lc_case_id row) = Some row \<Longrightarrow> allowed_edge (lc_state row) MANUAL
       \<Longrightarrow> P (moved db (lc_case_id row) (lc_state row) MANUAL now None)"
    and lease: "\<And>db Q. P db \<Longrightarrow> P (close_reviews Q db)"
    and "P db"
  shows "P (snd (queued_codex_reviews now db))"
proof -
  let ?db = "close_superseded db"
  have i: "P ?db" unfolding close_superseded_def using assms(4) by (rule lease)
  then have k: "keys_ok ?db" using inv by (simp add: live_inv_def)
  have d: "distinct (map lc_case_id (interrupted ?db now))"
    unfolding interrupted_def by (rule snapshot_distinct [OF k])
  have f: "\<forall>row \<in> set (interrupted ?db now). find_case ?db (lc_case_id row) = Some row"
    using find_case_unique [OF k] by (simp add: interrupted_def)
  show ?thesis
    using assms(4) manual_loop_rule [of P now, OF step i _ d f]
    by (auto simp: queued_codex_reviews_def Let_def split: sum.splits)
qed

lemma queued_codex_reviews_inv: "live_inv H db \<Longrightarrow> live_inv H (snd (queued_codex_reviews now db))"
  by (rule queued_codex_reviews_rule) (auto intro: live_inv_close live_inv_moved)

lemma claim_codex_review_inv: "live_inv H db \<Longrightarrow> live_inv H (snd (claim_codex_review cid now lease token db))"
  by (auto simp: claim_codex_review_def Let_def core_def
      intro!: live_inv_lease [of H db] core_db_update_where split: option.splits list.splits)

lemma renew_codex_review_inv: "live_inv H db \<Longrightarrow> live_inv H (snd (renew_codex_review cid token now lease db))"
  by (auto simp: renew_codex_review_def Let_def core_def intro!: live_inv_lease [of H db] core_db_update_where)

lemma release_codex_review_inv: "live_inv H db \<Longrightarrow> live_inv H (snd (release_codex_review cid token db))"
  by (auto simp: release_codex_review_def core_def intro!: live_inv_lease [of H db] core_db_update_where)

lemma mark_codex_review_processed_inv: "live_inv H db \<Longrightarrow> live_inv H (snd (mark_codex_review_processed cid token db))"
  by (auto simp: mark_codex_review_processed_def intro: live_inv_close)

text \<open>A callback that decides: the new record and the move, as one transaction.\<close>

definition decided :: "live_db \<Rightarrow> case_row \<Rightarrow> approval_row \<Rightarrow> live_db" where
  "decided db r a = moved (db\<lparr>approval_records := approval_records db @ [a]\<rparr>) (lc_case_id r) (lc_state r)
     (ap_result_state a) (ap_at_ms a) (Some (ap_event_id a))"

definition callback_outcome ::
  "live_db \<Rightarrow> proposal_row \<Rightarrow> case_row \<Rightarrow> approval_row \<Rightarrow> live_db \<Rightarrow> live_state option \<Rightarrow> bool" where
  "callback_outcome db p r a db' out \<longleftrightarrow>
     (let deadline = min (cp_expires_at_ms (lc_payload r)) (tp_expires_at_ms (pr_payload p))
      in out = None \<and> deadline \<le> ap_at_ms a
           \<and> (db' = db \<or> db' = moved db (lc_case_id r) (lc_state r) EXPIRED (ap_at_ms a) None
                          \<and> allowed_edge (lc_state r) EXPIRED)
         \<or> out = Some (ap_result_state a) \<and> action_state (ap_action a) = Some (ap_result_state a)
           \<and> db' = decided db r a \<and> lc_state r = WAITING_APPROVAL \<and> ap_at_ms a < deadline
           \<and> \<not> (ap_action a = ''APPROVE'' \<and> not_approvable (pr_payload p)))"

lemma callback_live_effect:
  assumes inv: "live_inv H db" and "callback_live H e act actor ph ch now db = Inr (db', out)"
  obtains p r new where "find_proposal db ph = Some p" and "find_case db (pr_case_id p) = Some r"
    and "lc_case_hash r = ch" and "lc_active_proposal_hash r = Some ph"
    and "callback_outcome db p r (new_approval e act actor ph ch now new) db' out"
proof -
  from assms(2) obtain p r where p: "find_proposal db ph = Some p" and r: "find_case db (pr_case_id p) = Some r"
    by (auto simp: callback_live_def split: option.splits)
  have "proposal_row_ok H db p" "case_row_ok H r"
    using inv p r by (auto simp: live_inv_def rows_ok_def dest: fetchone_Some)
  then have v: "proposal_verify H (pr_payload p) = Inr (pr_payload p)" "case_verify H (lc_payload r) = Inr (lc_payload r)"
    and id: "cp_case_id (lc_payload r) = lc_case_id r"
    by (simp_all add: proposal_row_ok_def case_row_ok_def)
  show ?thesis
    by (rule that [OF p r, of "the (action_state act)"]; cases "action_state act")
      (use assms(2) p r v id in \<open>auto simp: callback_live_def callback_outcome_def Let_def result_simps
         transition_row_iff decided_def new_approval_def min_le_iff_disj split: if_splits\<close>)
qed

lemma approved_ok_decided:
  assumes inv: "live_inv H db" and r: "find_case db cid = Some r"
    and dec: "ap_result_state a = APPROVED \<Longrightarrow> decisive db r a p"
  shows "approved_ok (decided db r a)"
proof -
  have cid: "lc_case_id r = cid" using fetchone_Some [OF r] by simp
  have u: "r0 = r" if "r0 \<in> set (live_cases db)" "lc_case_id r0 = cid" for r0
    using find_case_unique [of db r0] inv that r by (simp add: live_inv_def)
  have d: "decisive (decided db r a) = decisive db" by (rule decisive_cong) (simp add: decided_def)
  show ?thesis
    unfolding approved_ok_def d
  proof (intro ballI impI)
    fix r1 assume r1: "r1 \<in> set (live_cases (decided db r a))" "lc_state r1 = APPROVED"
    from r1(1) obtain r0 where r0: "r0 \<in> set (live_cases db)"
      "r1 = (if lc_case_id r0 = cid then r0\<lparr>lc_state := ap_result_state a\<rparr> else r0)"
      by (auto simp: decided_def moved_case cid)
    show "\<exists>x \<in> set (approval_records (decided db r a)). \<exists>q. decisive db r1 x q"
    proof (cases "lc_case_id r0 = cid")
      case True
      then have "r1 = r\<lparr>lc_state := ap_result_state a\<rparr>" using r0 u by simp
      then have "decisive db r1 a p" using dec r1(2) by (simp add: decisive_def)
      then show ?thesis by (auto simp: decided_def)
    next
      case False
      then have "lc_state r0 = APPROVED" "r1 = r0" using r0 r1 by simp_all
      then show ?thesis using inv r0(1) by (fastforce simp: live_inv_def approved_ok_def decided_def)
    qed
  qed
qed

lemma single_ok_decided:
  assumes inv: "live_inv H db" and r: "find_case db cid = Some r" and w: "lc_state r = WAITING_APPROVAL"
    and p: "p \<in> set (trade_proposals db)" "pr_proposal_hash p = ap_proposal_hash a" "pr_case_id p = cid"
  shows "single_ok (decided db r a)"
proof -
  have cid: "lc_case_id r = cid" using fetchone_Some [OF r] by simp
  have single: "single_ok db" using inv by (simp add: live_inv_def)
  have f: "final_record (decided db r a) = final_record db"
    by (intro ext) (simp add: final_record_def of_case_def decided_def)
  have none: "\<not> final_record db cid x" if "x \<in> set (approval_records db)" for x
    using no_final_record [OF single r _ that] w by simp
  have only: "c = cid" if f: "final_record db c a" for c
  proof -
    obtain q where q: "q \<in> set (trade_proposals db)" "pr_proposal_hash q = ap_proposal_hash a" "pr_case_id q = c"
      using f by (auto simp: final_record_def of_case_ex)
    have "q = p" using inv q p by (intro unique_onD [of pr_proposal_hash]) (simp_all add: live_inv_def keys_ok_def)
    with q p show ?thesis by simp
  qed
  have cs: "case_state (decided db r a) c = (if c = cid then Some (ap_result_state a) else case_state db c)" for c
  proof -
    have r': "find_case (db\<lparr>approval_records := approval_records db @ [a]\<rparr>) cid = Some r" using r by simp
    show ?thesis unfolding decided_def cid case_state_moved [OF r'] by (simp add: case_state_def)
  qed
  have z: "filter (final_record db cid) (approval_records db) = []"
    using none by (simp add: filter_empty_conv)
  have t: "approval_records (decided db r a) = approval_records db @ [a]" by (simp add: decided_def)
  show ?thesis
    unfolding single_ok_def f cs t
  proof (intro allI conjI ballI impI)
    fix c
    show "rowcount (final_record db c) (approval_records db @ [a]) \<le> 1"
    proof (cases "c = cid")
      case True
      with z show ?thesis by (simp add: rowcount_def)
    next
      case False
      then have "\<not> final_record db c a" using only by blast
      with single show ?thesis by (simp add: single_ok_def rowcount_def)
    qed
    fix x assume "x \<in> set (approval_records db @ [a])" "final_record db c x"
    then show "(if c = cid then Some (ap_result_state a) else case_state db c) = Some (ap_result_state x)"
      using single none only [of c] by (auto simp: single_ok_def)
  qed
qed

lemma decided_inv:
  assumes inv: "live_inv H db" and r: "find_case db cid = Some r" and w: "lc_state r = WAITING_APPROVAL"
    and fresh: "find_approval db (ap_event_id a) = None"
    and p: "p \<in> set (trade_proposals db)" "pr_proposal_hash p = ap_proposal_hash a" "pr_case_id p = cid"
    and ok: "allowed_edge WAITING_APPROVAL (ap_result_state a)"
    and dec: "ap_result_state a = APPROVED \<Longrightarrow> decisive db r a p"
  shows "live_inv H (decided db r a)"
proof -
  let ?db = "db\<lparr>approval_records := approval_records db @ [a]\<rparr>"
  have cid: "lc_case_id r = cid" using fetchone_Some [OF r] by simp
  have keys: "keys_ok ?db" and rows: "rows_ok H ?db" and lg: "log_ok ?db"
    using inv fresh p
    by (auto simp: live_inv_def keys_ok_def unique_on_append fetchone_None rows_ok_def active_ok_def proposal_row_ok_def
        log_ok_def case_log_def case_state_def)
  have r': "find_case ?db cid = Some r" using r by simp
  have "keys_ok (decided db r a)" "rows_ok H (decided db r a)" "log_ok (decided db r a)"
    using keys_ok_moved [OF keys] rows_ok_moved [OF rows] log_ok_moved [OF lg r' w ok]
    by (simp_all add: decided_def cid w)
  with approved_ok_decided [OF inv r dec] single_ok_decided [OF inv r w p] show ?thesis
    by (simp add: live_inv_def)
qed

lemma action_state_edge: "action_state act = Some new \<Longrightarrow> allowed_edge WAITING_APPROVAL new"
  by (auto simp: action_state_def allowed_edge_def split: if_splits)

lemma action_state_approved: "action_state act = Some APPROVED \<longleftrightarrow> act = ''APPROVE''"
  by (auto simp: action_state_def)

lemma record_callback_inv:
  assumes inv: "live_inv H db"
  shows "live_inv H (snd (record_callback H e act actor ph ch now db))"
proof (cases "e = [] \<or> actor = [] \<or> action_state act = None \<or> find_approval db e \<noteq> None")
  case True
  then show ?thesis using inv by (auto simp: record_callback_def split: option.splits)
next
  case False
  show ?thesis
  proof (cases "callback_live H e act actor ph ch now db")
    case (Inl x)
    then show ?thesis using inv by (simp add: record_callback_def split: option.splits)
  next
    case (Inr y)
    obtain db' out where y: "y = (db', out)" by fastforce
    then have res: "snd (record_callback H e act actor ph ch now db) = db'"
      using False Inr by (auto simp: record_callback_def split: option.splits)
    from Inr y obtain p r new where f: "find_proposal db ph = Some p" "find_case db (pr_case_id p) = Some r"
      and c: "lc_case_hash r = ch" "lc_active_proposal_hash r = Some ph"
      and o: "callback_outcome db p r (new_approval e act actor ph ch now new) db' out"
      using callback_live_effect [OF inv] by metis
    have p: "p \<in> set (trade_proposals db)" "pr_proposal_hash p = ph" using fetchone_Some [OF f(1)] by simp_all
    have id: "lc_case_id r = pr_case_id p" using fetchone_Some [OF f(2)] by simp
    consider "db' = db" | "db' = moved db (lc_case_id r) (lc_state r) EXPIRED now None" "allowed_edge (lc_state r) EXPIRED"
      | "db' = decided db r (new_approval e act actor ph ch now new)" "action_state act = Some new"
        "lc_state r = WAITING_APPROVAL" "\<not> (act = ''APPROVE'' \<and> not_approvable (pr_payload p))"
        "now < min (cp_expires_at_ms (lc_payload r)) (tp_expires_at_ms (pr_payload p))"
      using o by (auto simp: callback_outcome_def Let_def new_approval_def)
    then have "live_inv H db'"
    proof cases
      case 2
      then show ?thesis using live_inv_moved [OF inv f(2) refl] id by simp
    next
      case 3
      show ?thesis
        unfolding 3(1)
        by (rule decided_inv [OF inv f(2) 3(3), of _ p])
          (use False p id c 3 action_state_edge action_state_approved in \<open>auto simp: new_approval_def decisive_def\<close>)
    qed (use inv in simp)
    with res show ?thesis by simp
  qed
qed

lemmas call_inv = save_case_inv save_analysis_inv save_proposal_inv transition_inv expire_cases_inv
  record_callback_inv queued_codex_reviews_inv claim_codex_review_inv renew_codex_review_inv
  release_codex_review_inv mark_codex_review_processed_inv

lemma exec_inv: "live_inv H db \<Longrightarrow> service_cmd cmd \<Longrightarrow> live_inv H (exec H t cmd db)"
  by (cases cmd) (simp_all add: call_inv)

section \<open>Terminal states are final\<close>

definition final_state :: "live_db \<Rightarrow> string \<Rightarrow> live_state option" where
  "final_state db cid = (case case_state db cid of Some s \<Rightarrow> if terminal s then Some s else None | None \<Rightarrow> None)"

lemma final_state_Some: "final_state db cid = Some s \<longleftrightarrow> case_state db cid = Some s \<and> terminal s"
  by (auto simp: final_state_def split: option.splits)

lemma final_state_lease [simp]:
  "final_state (db\<lparr>approval_records := x\<rparr>) cid = final_state db cid"
  "final_state (db\<lparr>analysis_results := y\<rparr>) cid = final_state db cid"
  "final_state (close_reviews P db) cid = final_state db cid"
  by (simp_all add: final_state_def case_state_def)

lemma final_state_moved:
  assumes "find_case db c = Some r" and "allowed_edge (lc_state r) new" and "final_state db cid = Some s"
  shows "final_state (moved db c old new now cb) cid = Some s"
proof -
  have "c \<noteq> cid" using assms allowed_edge_not_terminal by (auto simp: final_state_Some case_state_def)
  with assms show ?thesis by (simp add: final_state_Some case_state_moved)
qed

lemma final_state_added:
  assumes "find_case db (cp_case_id c) = None" and "final_state db cid = Some s"
  shows "final_state (added_case db c) cid = Some s"
proof -
  have "cid \<noteq> cp_case_id c" using assms by (auto simp: final_state_Some case_state_def)
  with assms(2) show ?thesis by (simp add: final_state_Some case_state_added [OF assms(1)])
qed

lemma save_proposal_final:
  assumes "live_inv H db"
  shows "final_state (snd (save_proposal H p token now db)) cid = final_state db cid"
proof (cases "snd (save_proposal H p token now db) = db")
  case False
  then obtain db' where e: "snd (save_proposal H p token now db) = activated db' p" "insert_proposal db p = Inr db'"
    and ad: "proposal_admissible db p = Inr ()" and v: "proposal_verify H p = Inr p"
    using save_proposal_effect [of H p token now db] by auto
  then have "live_cases db' = live_cases db" using insert_proposal_inv [OF assms] by blast
  then show ?thesis by (simp add: e(1) final_state_def) (simp add: case_state_def)
qed simp

lemma record_callback_final:
  assumes inv: "live_inv H db" and fin: "final_state db cid = Some s"
  shows "final_state (snd (record_callback H e act actor ph ch now db)) cid = Some s"
proof (cases "callback_live H e act actor ph ch now db")
  case (Inl x)
  then show ?thesis using fin by (simp add: record_callback_def split: option.splits)
next
  case (Inr y)
  obtain db' out where y: "y = (db', out)" by fastforce
  from Inr y obtain p r new where f: "find_proposal db ph = Some p" "find_case db (pr_case_id p) = Some r"
      and o: "callback_outcome db p r (new_approval e act actor ph ch now new) db' out"
      using callback_live_effect [OF inv] by metis
  have id: "lc_case_id r = pr_case_id p" using fetchone_Some [OF f(2)] by simp
  let ?db = "db\<lparr>approval_records := approval_records db @ [new_approval e act actor ph ch now new]\<rparr>"
  have g: "find_case ?db (pr_case_id p) = Some r" "final_state ?db cid = Some s"
    using f(2) fin by (simp_all add: final_state_def case_state_def)
  have "final_state db' cid = Some s"
    using o fin final_state_moved [OF f(2)] final_state_moved [OF g(1) _ g(2)] action_state_edge
    by (auto simp: callback_outcome_def Let_def decided_def id)
  with fin Inr y show ?thesis
    by (auto simp: record_callback_def split: option.splits)
qed

lemma transition_final:
  assumes "final_state db cid = Some s"
  shows "final_state (snd (transition db c new now token)) cid = Some s"
  using assms
  by (auto simp: transition_def run_tx_def result_simps transition_row_iff intro!: final_state_moved
      split: sum.splits option.splits)

lemma expire_cases_final:
  assumes "live_inv H db" and "final_state db cid = Some s"
  shows "final_state (snd (expire_cases H now db)) cid = Some s"
proof -
  let ?P = "\<lambda>db. live_inv H db \<and> final_state db cid = Some s"
  have "?P (close_reviews Q (moved db (lc_case_id row) (lc_state row) EXPIRED now None))"
    if "?P db" "find_case db (lc_case_id row) = Some row" "allowed_edge (lc_state row) EXPIRED" for db row Q
    using that live_inv_close live_inv_moved [of H db "lc_case_id row" row] final_state_moved
    by simp
  then show ?thesis using expire_cases_rule [of ?P H now db] assms by simp
qed

lemma queued_codex_reviews_final:
  assumes "live_inv H db" and "final_state db cid = Some s"
  shows "final_state (snd (queued_codex_reviews now db)) cid = Some s"
proof -
  let ?P = "\<lambda>db. live_inv H db \<and> final_state db cid = Some s"
  have "?P (moved db (lc_case_id row) (lc_state row) MANUAL now None)"
    if "?P db" "find_case db (lc_case_id row) = Some row" "allowed_edge (lc_state row) MANUAL" for db row
    using that live_inv_moved [of H db "lc_case_id row" row] final_state_moved by simp
  moreover have "?P (close_reviews Q db)" if "?P db" for db Q
    using that live_inv_close by simp
  ultimately show ?thesis using queued_codex_reviews_rule [of ?P H now db] assms by simp
qed

lemma exec_final:
  assumes "live_inv H db" and "final_state db cid = Some s"
  shows "final_state (exec H t cmd db) cid = Some s"
proof (cases cmd)
  case (SaveCase c)
  then show ?thesis using assms save_case_effect [of H c db] final_state_added by fastforce
next
  case (SaveAnalysis r role)
  then show ?thesis
    using assms by (auto simp: save_analysis_def transaction_def save_analysis_body_def Let_def
        split: prod.splits sum.splits option.splits if_splits)
next
  case (ClaimReview c lease token)
  then show ?thesis
    using assms by (auto simp: claim_codex_review_def Let_def split: option.splits list.splits)
qed (use assms in \<open>simp_all add: save_proposal_final transition_final expire_cases_final record_callback_final
       queued_codex_reviews_final renew_codex_review_def release_codex_review_def mark_codex_review_processed_def Let_def\<close>)

text \<open>The journal provides the latched interface: every call the services make keeps the invariant
  and no terminal state is ever left.\<close>

interpretation journal: latched_system "store_step H" "\<lambda>s. live_inv H (snd s)" "\<lambda>s. final_state (snd s)"
  for H :: hasher
proof
  show "live_inv H (snd s')" if "live_inv H (snd s)" "store_step H s s'" for s s'
    using that by (auto elim!: store_stepE intro: exec_inv)
  show "final_state (snd s') k = Some v"
    if "live_inv H (snd s)" "store_step H s s'" "final_state (snd s) k = Some v" for s s' k v
    using that by (auto elim!: store_stepE intro: exec_final)
qed

definition store_reachable :: "hasher \<Rightarrow> int \<Rightarrow> live_db \<Rightarrow> bool" where
  "store_reachable H t db \<longleftrightarrow> (\<exists>t0. (store_step H)\<^sup>*\<^sup>* (t0, empty_live_db) (t, db))"

lemma reachable_inv: "store_reachable H t db \<Longrightarrow> live_inv H db"
  using journal.steps_inv [of H] live_inv_empty by (fastforce simp: store_reachable_def)

section \<open>Expiry\<close>

definition row_deadline :: "case_row \<Rightarrow> trade_proposal option \<Rightarrow> int" where
  "row_deadline row q =
     (if lc_state row = WAITING_APPROVAL then
        (case q of Some p \<Rightarrow> min (cp_expires_at_ms (lc_payload row)) (tp_expires_at_ms p)
         | None \<Rightarrow> cp_expires_at_ms (lc_payload row))
      else cp_expires_at_ms (lc_payload row))"

lemma expire_row_ok:
  assumes "case_row_ok H row" and "\<not> terminal (lc_state row)" and "\<forall>p. q = Some p \<longrightarrow> proposal_verify H p = Inr p"
    and "find_case db (lc_case_id row) = Some row"
  shows "\<exists>db'. expire_row H now row q db = Inr db'
    \<and> (\<forall>c. case_state db' c = (if c = lc_case_id row \<and> row_deadline row q \<le> now then Some EXPIRED else case_state db c))"
proof -
  have v: "case_verify H (lc_payload row) = Inr (lc_payload row)" "cp_case_id (lc_payload row) = lc_case_id row"
    using assms(1) by (simp_all add: case_row_ok_def)
  have e: "expire_row H now row q db =
      (if now < row_deadline row q then Inr db
       else bindR (transition_row db (lc_case_id row) (lc_state row) EXPIRED now None)
         (\<lambda>db'. Inr (close_reviews (\<lambda>a. of_case db' (lc_case_id row) a \<and> ap_action a = ''REQUEST_CODEX_REVIEW'') db')))"
    using v assms(3) by (simp add: expire_row_def row_deadline_def split: option.split)
  have c: "case_state (close_reviews P d) = case_state d" for P d
    by (intro ext) (simp add: case_state_def)
  show ?thesis
    using assms(2) case_state_moved [OF assms(4)]
    by (auto simp: e transition_row_def allowed_edge_def moved_def [symmetric] c)
qed

lemma expire_loop_ok:
  assumes "distinct (map (lc_case_id \<circ> fst) work)"
    and "\<forall>(row, q) \<in> set work. case_row_ok H row \<and> \<not> terminal (lc_state row)
            \<and> (\<forall>p. q = Some p \<longrightarrow> proposal_verify H p = Inr p)"
    and "\<forall>(row, q) \<in> set work. find_case db (lc_case_id row) = Some row"
  shows "\<exists>db'. expire_loop H now work db = Inr db'
    \<and> (\<forall>c. case_state db' c = (if \<exists>(row, q) \<in> set work. lc_case_id row = c \<and> row_deadline row q \<le> now
                               then Some EXPIRED else case_state db c))"
  using assms
proof (induction work arbitrary: db)
  case (Cons x work)
  obtain row q where x: "x = (row, q)" by fastforce
  have p: "case_row_ok H row" "\<not> terminal (lc_state row)" "\<forall>p. q = Some p \<longrightarrow> proposal_verify H p = Inr p"
      "find_case db (lc_case_id row) = Some row"
    using Cons.prems x by auto
  obtain db1 where s: "expire_row H now row q db = Inr db1"
    and st: "\<forall>c. case_state db1 c = (if c = lc_case_id row \<and> row_deadline row q \<le> now then Some EXPIRED else case_state db c)"
    using expire_row_ok [OF p] by blast
  have rest: "\<forall>(r, q) \<in> set work. find_case db1 (lc_case_id r) = Some r"
    using expire_row_effect [OF p(1) s] Cons.prems(1,3) x
    by (force simp: image_iff intro!: find_case_moved_other)
  from Cons.IH [OF _ _ rest] Cons.prems(1,2) obtain db' where l: "expire_loop H now work db1 = Inr db'"
    and st': "\<forall>c. case_state db' c = (if \<exists>(row, q) \<in> set work. lc_case_id row = c \<and> row_deadline row q \<le> now
                               then Some EXPIRED else case_state db1 c)"
    by auto
  show ?case by (rule exI [of _ db']) (use s l st st' x in \<open>auto split: if_splits\<close>)
qed simp

lemma callback_live_records:
  assumes "callback_live H e act actor ph ch now db = Inr (db', Some s)"
  shows "approval_records db' = approval_records db @ [new_approval e act actor ph ch now s]"
proof -
  obtain p r where "find_proposal db ph = Some p" "find_case db (pr_case_id p) = Some r"
    using assms by (auto simp: callback_live_def split: option.splits)
  then show ?thesis
    using assms unfolding callback_live_def
    by (cases "action_state act") (auto simp: result_simps transition_row_iff split: if_splits)
qed

section \<open>Properties\<close>



text \<open>C10: the event log is a faithful journal: in every reachable state the events of a case replay,
  edge by edge, from its creation to the state in the case table.\<close>

theorem event_log_replays:
  assumes "store_reachable H t db"
  shows "replay_log None (case_log db cid) = Some (case_state db cid)"
  using reachable_inv [OF assms] by (simp add: live_inv_def log_ok_def)

text \<open>delivering a callback event a second time, at any later time, returns the recorded state
  with the replay flag and changes nothing; the same event id with other content is refused.\<close>

theorem callback_replay_idempotent:
  assumes "record_callback H e act actor ph ch now db = (Inr (s, b), db')"
  shows "record_callback H e act actor ph ch now' db' = (Inr (s, True), db')
    \<and> ((act', actor', ph', ch') \<noteq> (act, actor, ph, ch) \<and> actor' \<noteq> [] \<and> action_state act' \<noteq> None \<longrightarrow>
         record_callback H e act' actor' ph' ch' now' db' = (Inl (ValueError ''callback event collision''), db'))"
proof -
  have g: "e \<noteq> []" "actor \<noteq> []" "action_state act \<noteq> None"
    using assms by (auto simp: record_callback_def split: if_splits)
  have "find_approval db' e = Some x \<Longrightarrow> ap_action x = act \<Longrightarrow> ap_actor x = actor \<Longrightarrow> ap_proposal_hash x = ph
      \<Longrightarrow> ap_case_hash x = ch \<Longrightarrow> ap_result_state x = s \<Longrightarrow> ?thesis" for x
    using g by (auto simp: record_callback_def)
  moreover have "\<exists>x. find_approval db' e = Some x \<and> ap_action x = act \<and> ap_actor x = actor \<and> ap_proposal_hash x = ph
      \<and> ap_case_hash x = ch \<and> ap_result_state x = s"
  proof (cases "find_approval db e")
    case (Some x)
    then show ?thesis using assms g by (auto simp: record_callback_def split: if_splits)
  next
    case None
    then have "callback_live H e act actor ph ch now db = Inr (db', Some s)"
      using assms g by (auto simp: record_callback_def split: sum.splits option.splits prod.splits)
    then have "approval_records db' = approval_records db @ [new_approval e act actor ph ch now s]"
      by (rule callback_live_records)
    then show ?thesis using None by (simp add: fetchone_append new_approval_def)
  qed
  ultimately show ?thesis by blast
qed

text \<open>\<open>expire_cases\<close> never raises on a reachable journal, and afterwards exactly the non-terminal
  cases whose deadline (the case expiry, or the earlier proposal expiry while approval is awaited) has
  passed are EXPIRED; every other case keeps its state.\<close>

theorem expire_cases_complete:
  assumes "store_reachable H t db"
  shows "\<exists>db'. expire_cases H now db = (Inr (), db') \<and> (\<forall>r \<in> set (live_cases db). case_state db' (lc_case_id r) =
    Some (if \<not> terminal (lc_state r) \<and> row_deadline r (map_option pr_payload (active_row db r)) \<le> now
          then EXPIRED else lc_state r))"
proof -
  let ?work = "map (\<lambda>row. (row, map_option pr_payload (active_row db row)))
                 (filter (\<lambda>row. \<not> terminal (lc_state row)) (live_cases db))"
  have inv: "live_inv H db" using assms by (rule reachable_inv)
  then have k: "keys_ok db" by (simp add: live_inv_def)
  have v: "proposal_verify H (pr_payload q) = Inr (pr_payload q)" if "active_row db r = Some q" for r q
    using that inv
    by (auto simp: active_row_def live_inv_def rows_ok_def proposal_row_ok_def split: option.splits dest: fetchone_Some)
  have w: "distinct (map (lc_case_id \<circ> fst) ?work)"
    "\<forall>(row, q) \<in> set ?work. case_row_ok H row \<and> \<not> terminal (lc_state row)
            \<and> (\<forall>p. q = Some p \<longrightarrow> proposal_verify H p = Inr p)"
    "\<forall>(row, q) \<in> set ?work. find_case db (lc_case_id row) = Some row"
    using k snapshot_distinct inv v by (auto simp: comp_def find_case_unique live_inv_def rows_ok_def)
  obtain db' where l: "expire_loop H now ?work db = Inr db'"
    and st: "\<forall>c. case_state db' c = (if \<exists>(row, q) \<in> set ?work. lc_case_id row = c \<and> row_deadline row q \<le> now
                               then Some EXPIRED else case_state db c)"
    using expire_loop_ok [OF w] by blast
  have u: "r' = r" if "r \<in> set (live_cases db)" "r' \<in> set (live_cases db)" "lc_case_id r' = lc_case_id r" for r r'
    by (rule unique_onD [of lc_case_id "live_cases db"]) (use k that in \<open>simp_all add: keys_ok_def\<close>)
  have e: "(\<exists>(row, q) \<in> set ?work. lc_case_id row = lc_case_id r \<and> row_deadline row q \<le> now)
      \<longleftrightarrow> \<not> terminal (lc_state r) \<and> row_deadline r (map_option pr_payload (active_row db r)) \<le> now"
    if r: "r \<in> set (live_cases db)" for r
  proof
    assume "\<exists>(row, q) \<in> set ?work. lc_case_id row = lc_case_id r \<and> row_deadline row q \<le> now"
    then obtain row where "row \<in> set (live_cases db)" "\<not> terminal (lc_state row)" "lc_case_id row = lc_case_id r"
      "row_deadline row (map_option pr_payload (active_row db row)) \<le> now" by auto
    with u [OF r] show "\<not> terminal (lc_state r) \<and> row_deadline r (map_option pr_payload (active_row db r)) \<le> now" by metis
  qed (use r in auto)
  have "case_state db' (lc_case_id r) =
      Some (if \<not> terminal (lc_state r) \<and> row_deadline r (map_option pr_payload (active_row db r)) \<le> now
            then EXPIRED else lc_state r)" if r: "r \<in> set (live_cases db)" for r
    using find_case_unique [OF k r] unfolding st [rule_format] e [OF r] by (simp add: case_state_def)
  then show ?thesis using l by (auto simp: expire_cases_def run_tx_def)
qed

section \<open>A concrete journal\<close>

definition sample_cmds :: "store_cmd list" where
  "sample_cmds =
     [SaveCase sample_case, Transition ''case-1'' LLM_ANALYZING None, SaveAnalysis sample_analysis ''PRIMARY'',
      SaveProposal sample_proposal None, Transition ''case-1'' PLAN_READY None, Transition ''case-1'' NOTIFIED None,
      Transition ''case-1'' WAITING_APPROVAL None]"

definition sample_waiting :: live_db where
  "sample_waiting = fold (exec const_hash 1000) sample_cmds empty_live_db"

definition sample_row :: "live_state \<Rightarrow> case_row" where
  "sample_row s = (case_row_of sample_case)\<lparr>lc_state := s, lc_active_proposal_hash := Some hash_a\<rparr>"

definition sample_event :: "live_state option \<Rightarrow> live_state \<Rightarrow> string option \<Rightarrow> state_event" where
  "sample_event f t cb = \<lparr>ev_case_id = ''case-1'', ev_from_state = f, ev_to_state = t, ev_at_ms = 1000,
     ev_callback_event_id = cb\<rparr>"

lemma sample_waiting_eq:
  "sample_waiting =
     \<lparr>live_cases = [sample_row WAITING_APPROVAL],
      analysis_results = [\<lparr>an_result_hash = hash_a, an_case_id = ''case-1'', an_role = ''PRIMARY'', an_payload = sample_analysis\<rparr>],
      trade_proposals = [proposal_row_of sample_proposal], approval_records = [],
      live_state_events = [sample_event None CASE_TRIGGERED None, sample_event (Some CASE_TRIGGERED) LLM_ANALYZING None,
        sample_event (Some LLM_ANALYZING) PLAN_READY None, sample_event (Some PLAN_READY) NOTIFIED None,
        sample_event (Some NOTIFIED) WAITING_APPROVAL None]\<rparr>"
  by (simp add: sample_waiting_def sample_cmds_def empty_live_db_def save_case_def transaction_def save_case_body_def
      transition_def run_tx_def check_claim_def transition_row_def allowed_edge_def update_where_def
      save_analysis_def save_analysis_body_def save_proposal_def save_proposal_body_def proposal_admissible_def
      insert_proposal_def sample_row_def sample_event_def Let_def)

lemma run_steps:
  assumes "\<forall>c \<in> set cmds. service_cmd c"
  shows "(store_step H)\<^sup>*\<^sup>* (t, db) (t, fold (exec H t) cmds db)"
  using assms
proof (induction cmds arbitrary: db)
  case (Cons c cmds)
  then have "store_step H (t, db) (t, exec H t c db)" by (intro store_step.call) simp_all
  moreover have "(store_step H)\<^sup>*\<^sup>* (t, exec H t c db) (t, fold (exec H t) cmds (exec H t c db))"
    using Cons by simp
  ultimately show ?case by (simp add: converse_rtranclp_into_rtranclp)
qed simp

lemma sample_waiting_reachable: "store_reachable const_hash 1000 sample_waiting"
  unfolding store_reachable_def sample_waiting_def
  by (rule exI [of _ 1000], rule run_steps) (simp add: sample_cmds_def)

definition sample_record :: approval_row where
  "sample_record = new_approval ''event-1'' ''APPROVE'' ''alice'' hash_a hash_a 1000 APPROVED"

definition sample_approved :: live_db where
  "sample_approved = exec const_hash 1000 (RecordCallback ''event-1'' ''APPROVE'' ''alice'' hash_a hash_a) sample_waiting"

lemma sample_callback:
  "record_callback const_hash ''event-1'' ''APPROVE'' ''alice'' hash_a hash_a 1000 sample_waiting =
     (Inr (APPROVED, False), sample_approved)"
  by (simp add: sample_approved_def sample_waiting_eq record_callback_def callback_live_def sample_row_def action_state_def
      transition_row_def allowed_edge_def not_approvable_def)

lemma sample_approved_cases: "live_cases sample_approved = [sample_row APPROVED]"
  by (simp add: sample_approved_def sample_waiting_eq record_callback_def callback_live_def sample_row_def action_state_def
      transition_row_def allowed_edge_def not_approvable_def update_where_def)

lemma sample_approved_step: "(store_step const_hash)\<^sup>*\<^sup>* (1000, sample_waiting) (1000, sample_approved)"
  unfolding sample_approved_def by (rule r_into_rtranclp, rule store_step.call) simp_all

lemma sample_approved_reachable: "store_reachable const_hash 1000 sample_approved"
  using sample_waiting_reachable sample_approved_step unfolding store_reachable_def
  by (meson rtranclp_trans)



theorem event_log_replays_witness:
  "replay_log None (case_log sample_approved ''case-1'') = Some (Some APPROVED)"
  using event_log_replays [OF sample_approved_reachable, of "''case-1''"]
  by (simp add: case_state_def sample_approved_cases sample_row_def)

theorem callback_replay_idempotent_witness:
  "record_callback const_hash ''event-1'' ''APPROVE'' ''alice'' hash_a hash_a 5000 sample_approved =
     (Inr (APPROVED, True), sample_approved)
   \<and> record_callback const_hash ''event-1'' ''REJECT'' ''alice'' hash_a hash_a 5000 sample_approved =
     (Inl (ValueError ''callback event collision''), sample_approved)"
  using callback_replay_idempotent [OF sample_callback, of 5000 "''REJECT''" "''alice''" hash_a hash_a]
  by (simp add: action_state_def)

theorem expire_cases_complete_witness:
  "\<exists>db'. expire_cases const_hash 61000 sample_waiting = (Inr (), db') \<and> case_state db' ''case-1'' = Some EXPIRED"
proof -
  have d: "row_deadline (sample_row WAITING_APPROVAL)
      (map_option pr_payload (active_row sample_waiting (sample_row WAITING_APPROVAL))) = 61000"
    by (simp add: sample_waiting_eq sample_row_def row_deadline_def active_row_def)
  have c: "live_cases sample_waiting = [sample_row WAITING_APPROVAL]" by (simp add: sample_waiting_eq)
  have s: "lc_case_id (sample_row WAITING_APPROVAL) = ''case-1''" "lc_state (sample_row WAITING_APPROVAL) = WAITING_APPROVAL"
    by (simp_all add: sample_row_def)
  from expire_cases_complete [OF sample_waiting_reachable, of 61000] show ?thesis
    unfolding c by (simp add: d s)
qed

end
