(* ===== verification/Approval_Leases.thy ===== *)
theory Approval_Leases
  imports Approval_Safety
begin

text \<open>
  Review leases of the approval journal: a worker that took over a review request holds it through a
  token until a deadline, and every write it makes for the case checks the token
  (\<open>_require_review_claim\<close>). The lemmas show that at any time of a run whose clock does not run
  backwards at most one request of a case is held, so that two workers never pass that check with
  different tokens.
\<close>

definition held :: "live_db \<Rightarrow> int \<Rightarrow> string \<Rightarrow> approval_row \<Rightarrow> bool" where
  "held db t cid a \<longleftrightarrow> open_review db cid a \<and> ap_review_claim_until_ms a > t"

definition lease_ok :: "int \<Rightarrow> live_db \<Rightarrow> bool" where
  "lease_ok t db \<longleftrightarrow> (\<forall>cid. rowcount (held db t cid) (approval_records db) \<le> 1)"

lemma rowcount_mono: "(\<And>x. x \<in> set xs \<Longrightarrow> P x \<Longrightarrow> Q x) \<Longrightarrow> rowcount P xs \<le> rowcount Q xs"
  by (induction xs) (auto simp: rowcount_def)

lemma rowcount_update_le:
  assumes "\<And>x. x \<in> set xs \<Longrightarrow> P (if R x then f x else x) \<Longrightarrow> Q x"
  shows "rowcount P (update_where R f xs) \<le> rowcount Q xs"
  unfolding update_where_def rowcount_map by (rule rowcount_mono) (rule assms)

lemma rowcount_cong: "(\<And>x. x \<in> set xs \<Longrightarrow> P x = Q x) \<Longrightarrow> rowcount P xs = rowcount Q xs"
  by (induction xs) (auto simp: rowcount_def)

lemma lease_ok_mono: "lease_ok t db \<Longrightarrow> t \<le> t' \<Longrightarrow> lease_ok t' db"
proof -
  assume ok: "lease_ok t db" and "t \<le> t'"
  then have "rowcount (held db t' cid) (approval_records db) \<le> rowcount (held db t cid) (approval_records db)" for cid
    by (intro rowcount_mono) (auto simp: held_def)
  with ok show ?thesis unfolding lease_ok_def by (meson le_trans)
qed

lemma lease_ok_le:
  assumes "lease_ok t db" and "\<And>cid. rowcount (held db' t cid) (approval_records db') \<le> rowcount (held db t cid) (approval_records db)"
  shows "lease_ok t db'"
  using assms unfolding lease_ok_def by (meson le_trans)

lemma held_cong:
  "trade_proposals db' = trade_proposals db \<Longrightarrow> held db' t cid = held db t cid"
  by (intro ext) (simp add: held_def open_review_def of_case_def)

lemma lease_ok_cong:
  "trade_proposals db' = trade_proposals db \<Longrightarrow> approval_records db' = approval_records db \<Longrightarrow> lease_ok t db' = lease_ok t db"
  unfolding lease_ok_def by (simp add: held_cong [of db' db])

lemma lease_ok_moved [simp]: "lease_ok t (moved db cid old new now cb) = lease_ok t db"
  by (rule lease_ok_cong) simp_all

lemma lease_ok_close:
  assumes "lease_ok t db"
  shows "lease_ok t (close_reviews P db)"
proof (rule lease_ok_le [OF assms])
  fix cid
  have h: "held (close_reviews P db) t cid = held db t cid"
    by (rule held_cong) (simp add: close_reviews_def)
  show "rowcount (held (close_reviews P db) t cid) (approval_records (close_reviews P db))
      \<le> rowcount (held db t cid) (approval_records db)"
    unfolding h unfolding close_reviews_def
    by (simp, rule rowcount_update_le) (auto simp: held_def open_review_def split: if_splits)
qed

section \<open>Every call keeps the leases exclusive\<close>

lemma save_proposal_lease:
  assumes inv: "live_inv H db" and "lease_ok t db"
  shows "lease_ok t (snd (save_proposal H p token now db))"
proof (cases "snd (save_proposal H p token now db) = db")
  case False
  then obtain db' where e: "snd (save_proposal H p token now db) = activated db' p" "insert_proposal db p = Inr db'"
    using save_proposal_effect [of H p token now db] by auto
  have fk: "\<exists>q \<in> set (trade_proposals db). pr_proposal_hash q = ap_proposal_hash a"
    if "a \<in> set (approval_records db)" for a using inv that by (auto simp: live_inv_def rows_ok_def)
  have o: "of_case db' cid a = of_case db cid a" if "a \<in> set (approval_records db)" for cid a
    using e(2) fk [OF that]
    by (auto simp: insert_proposal_def of_case_ex list_ex_iff split: option.splits if_splits)
  have r: "approval_records db' = approval_records db"
    using e(2) by (auto simp: insert_proposal_def split: option.splits if_splits)
  have "rowcount (held db' t cid) (approval_records db) = rowcount (held db t cid) (approval_records db)" for cid
    by (rule rowcount_cong) (simp add: held_def open_review_def o)
  then have "lease_ok t db'" using assms(2) by (simp add: lease_ok_def r)
  then show ?thesis unfolding e(1) by (subst lease_ok_cong [of _ db']) simp_all
qed (use assms in simp)

lemma renew_lease:
  assumes "lease_ok t db"
  shows "lease_ok t (snd (renew_codex_review cid token t lease db))"
proof (rule lease_ok_le [OF assms])
  fix c
  have h: "held (snd (renew_codex_review cid token t lease db)) t c = held db t c"
    by (rule held_cong) (simp add: renew_codex_review_def Let_def)
  show "rowcount (held (snd (renew_codex_review cid token t lease db)) t c)
      (approval_records (snd (renew_codex_review cid token t lease db))) \<le> rowcount (held db t c) (approval_records db)"
    unfolding h unfolding renew_codex_review_def Let_def
    by (simp, intro impI rowcount_update_le) (auto simp: held_def open_review_def of_case_def split: if_splits)
qed

lemma release_lease:
  assumes "lease_ok t db" and "0 \<le> t"
  shows "lease_ok t (snd (release_codex_review cid token db))"
proof (rule lease_ok_le [OF assms(1)])
  fix c
  have h: "held (snd (release_codex_review cid token db)) t c = held db t c"
    by (rule held_cong) (simp add: release_codex_review_def)
  show "rowcount (held (snd (release_codex_review cid token db)) t c)
      (approval_records (snd (release_codex_review cid token db))) \<le> rowcount (held db t c) (approval_records db)"
    unfolding h unfolding release_codex_review_def
    by (simp, intro impI rowcount_update_le) (use assms(2) in \<open>auto simp: held_def split: if_splits\<close>)
qed

lemma callback_lease:
  assumes inv: "live_inv H db" and "lease_ok t db" and "0 \<le> t"
  shows "lease_ok t (snd (record_callback H e act actor ph ch t db))"
proof (cases "callback_live H e act actor ph ch t db")
  case (Inl x)
  then show ?thesis using assms(2) by (simp add: record_callback_def split: option.splits)
next
  case (Inr y)
  obtain db' out where y: "y = (db', out)" by fastforce
  from Inr y obtain p r new where o: "callback_outcome db p r (new_approval e act actor ph ch t new) db' out"
      using callback_live_effect [OF inv] by metis
  let ?db = "db\<lparr>approval_records := approval_records db @ [new_approval e act actor ph ch t new]\<rparr>"
  have "held ?db t cid = held db t cid" for cid by (rule held_cong) simp
  then have "lease_ok t ?db" using assms(2,3) by (simp add: lease_ok_def rowcount_def held_def new_approval_def)
  then have "lease_ok t db'"
    using o assms(2) by (auto simp: callback_outcome_def Let_def decided_def)
  with assms(2) Inr y show ?thesis by (auto simp: record_callback_def split: option.splits)
qed

lemma of_case_unique:
  assumes "keys_ok db" and "of_case db c a" and "of_case db d a"
  shows "c = d"
proof -
  obtain p q where p: "p \<in> set (trade_proposals db)" "pr_proposal_hash p = ap_proposal_hash a" "pr_case_id p = c"
    and q: "q \<in> set (trade_proposals db)" "pr_proposal_hash q = ap_proposal_hash a" "pr_case_id q = d"
    using assms(2,3) by (auto simp: of_case_ex)
  have "p = q"
    by (rule unique_onD [of pr_proposal_hash "trade_proposals db"]) (use assms(1) p q in \<open>simp_all add: keys_ok_def\<close>)
  with p q show ?thesis by simp
qed

lemma claim_lease:
  assumes inv: "live_inv H db" and ok: "lease_ok t db"
  shows "lease_ok t (snd (claim_codex_review cid t lease token db))"
proof (cases "snd (claim_codex_review cid t lease token db) = db")
  case False
  then obtain row pending rest where f: "find_case db cid = Some row" "0 < lease" "\<not> review_busy db cid t"
    and s: "sort_key (\<lambda>a. (ap_at_ms a, ap_event_id a)) (review_pending db cid t) = pending # rest"
    by (auto simp: claim_codex_review_def split: if_splits option.splits list.splits)
  define P :: "approval_row \<Rightarrow> bool" where "P = (\<lambda>a. ap_event_id a = ap_event_id pending \<and> \<not> ap_review_processed a \<and> ap_review_claim_until_ms a \<le> t)"
  let ?f = "\<lambda>a :: approval_row. a\<lparr>ap_review_claim_until_ms := t + lease, ap_review_claim_token := token\<rparr>"
  let ?db = "db\<lparr>approval_records := update_where P ?f (approval_records db)\<rparr>"
  have d: "snd (claim_codex_review cid t lease token db) = ?db"
    using False f s by (auto simp: claim_codex_review_def P_def Let_def split: if_splits)
  have keys: "keys_ok db" using inv by (simp add: live_inv_def)
  have "pending \<in> set (sort_key (\<lambda>a. (ap_at_ms a, ap_event_id a)) (review_pending db cid t))" by (simp add: s)
  then have pen: "pending \<in> set (approval_records db)" "open_review db cid pending"
    by (simp_all add: review_pending_def)
  have h: "held ?db t c = held db t c" for c by (rule held_cong) simp
  have "rowcount (held db t c) (update_where P ?f (approval_records db)) \<le> 1" for c
  proof (cases "c = cid")
    case True
    have "rowcount (held db t c) (update_where P ?f (approval_records db))
        \<le> rowcount (\<lambda>a. ap_event_id a = ap_event_id pending) (approval_records db)"
      using True f(3) by (intro rowcount_update_le) (auto simp: held_def review_busy_def list_ex_iff P_def split: if_splits)
    also have "\<dots> \<le> 1"
      by (rule rowcount_key_le_one [of ap_event_id]) (use keys in \<open>simp_all add: keys_ok_def\<close>)
    finally show ?thesis .
  next
    case False
    have "a = pending" if "a \<in> set (approval_records db)" "P a" for a
      by (rule unique_onD [of ap_event_id "approval_records db"]) (use keys that pen in \<open>simp_all add: keys_ok_def P_def\<close>)
    then have "\<not> of_case db c a" if "a \<in> set (approval_records db)" "P a" for a
      using False of_case_unique [OF keys] pen(2) that by (auto simp: open_review_def)
    then have "rowcount (held db t c) (update_where P ?f (approval_records db)) \<le> rowcount (held db t c) (approval_records db)"
      by (intro rowcount_update_le) (auto simp: held_def open_review_def of_case_def split: if_splits)
    with ok show ?thesis unfolding lease_ok_def by (meson le_trans)
  qed
  then show ?thesis unfolding d lease_ok_def h by simp
qed (use ok in simp)

lemma expire_cases_lease:
  assumes "live_inv H db" and "lease_ok t db"
  shows "lease_ok t (snd (expire_cases H now db))"
proof -
  let ?P = "\<lambda>db. live_inv H db \<and> lease_ok t db"
  have "?P (close_reviews Q (moved db (lc_case_id row) (lc_state row) EXPIRED now None))"
    if "?P db" "find_case db (lc_case_id row) = Some row" "allowed_edge (lc_state row) EXPIRED" for db row Q
    using that live_inv_close live_inv_moved [of H db "lc_case_id row" row] lease_ok_close by simp
  then show ?thesis using expire_cases_rule [of ?P H now db] assms by simp
qed

lemma queued_codex_reviews_lease:
  assumes "live_inv H db" and "lease_ok t db"
  shows "lease_ok t (snd (queued_codex_reviews now db))"
proof -
  let ?P = "\<lambda>db. live_inv H db \<and> lease_ok t db"
  have "?P (moved db (lc_case_id row) (lc_state row) MANUAL now None)"
    if "?P db" "find_case db (lc_case_id row) = Some row" "allowed_edge (lc_state row) MANUAL" for db row
    using that live_inv_moved [of H db "lc_case_id row" row] by simp
  moreover have "?P (close_reviews Q db)" if "?P db" for db Q
    using that live_inv_close lease_ok_close by simp
  ultimately show ?thesis using queued_codex_reviews_rule [of ?P H now db] assms by simp
qed

lemma lease_ok_tables [simp]:
  "lease_ok t (db\<lparr>analysis_results := x\<rparr>) = lease_ok t db"
  "lease_ok t (added_case db c) = lease_ok t db"
  by (rule lease_ok_cong; simp add: added_case_def)+

lemma exec_lease:
  assumes "live_inv H db" and "lease_ok t db" and "0 \<le> t"
  shows "lease_ok t (exec H t cmd db)"
proof (cases cmd)
  case (SaveCase c)
  then show ?thesis using assms save_case_effect [of H c db] by auto
next
  case (SaveAnalysis r role)
  then show ?thesis
    using assms by (auto simp: save_analysis_def transaction_def save_analysis_body_def Let_def
        split: prod.splits sum.splits option.splits if_splits)
next
  case (Transition cid new token)
  then show ?thesis
    using assms by (auto simp: transition_def run_tx_def result_simps transition_row_iff split: sum.splits option.splits)
next
  case (MarkReview cid token)
  then show ?thesis using assms by (simp add: mark_codex_review_processed_def lease_ok_close)
qed (use assms in \<open>simp_all add: save_proposal_lease expire_cases_lease callback_lease queued_codex_reviews_lease
       claim_lease renew_lease release_lease\<close>)

interpretation leases: invariant_system "store_step H" "\<lambda>(t, db). 0 \<le> t \<and> live_inv H db \<and> lease_ok t db"
  for H :: hasher
proof
  show "case s' of (t, db) \<Rightarrow> 0 \<le> t \<and> live_inv H db \<and> lease_ok t db"
    if "case s of (t, db) \<Rightarrow> 0 \<le> t \<and> live_inv H db \<and> lease_ok t db" and st: "store_step H s s'" for s s'
    using st that
  proof (cases rule: store_step.cases)
    case (call t t' cmd db)
    with that have "0 \<le> t'" "live_inv H db" "lease_ok t' db" by (auto intro: lease_ok_mono)
    with call show ?thesis using exec_inv exec_lease by simp
  qed
qed

text \<open>C8: two workers never hold the review of a case at the same time: in every journal reached by
  calls at a clock that starts non-negative and never runs backwards, any two tokens that pass the
  claim check of a case are equal, and while one does no other worker is given a claim.\<close>

theorem review_lease_exclusive:
  assumes "(store_step H)\<^sup>*\<^sup>* (t0, empty_live_db) (t, db)" and "0 \<le> t0"
    and "require_review_claim db cid token t = Inr ()"
  shows "(require_review_claim db cid token' t = Inr () \<longrightarrow> token' = token)
    \<and> (0 < lease \<longrightarrow> claim_codex_review cid t lease fresh db = (Inr None, db))"
proof -
  have "lease_ok t db"
    using leases.steps_inv [OF assms(1)] assms(2) live_inv_empty
    by (simp add: lease_ok_def empty_live_db_def rowcount_def)
  then have one: "length (filter (held db t cid) (approval_records db)) \<le> 1"
    by (simp add: lease_ok_def rowcount_def)
  have ex: "\<exists>a \<in> set (filter (held db t cid) (approval_records db)). ap_review_claim_token a = tk"
    if "require_review_claim db cid tk t = Inr ()" for tk
    using that by (auto simp: require_review_claim_def held_def list_ex_iff split: if_splits)
  obtain a where a: "filter (held db t cid) (approval_records db) = [a]"
    using ex [OF assms(3)] one
    by (cases "filter (held db t cid) (approval_records db)") simp_all
  have "a \<in> set (filter (held db t cid) (approval_records db))" by (simp add: a)
  then have "review_busy db cid t" by (auto simp: review_busy_def held_def list_ex_iff)
  then have "0 < lease \<longrightarrow> claim_codex_review cid t lease fresh db = (Inr None, db)"
    by (simp add: claim_codex_review_def split: option.splits)
  moreover have "require_review_claim db cid token' t = Inr () \<longrightarrow> token' = token"
    using ex [of token'] ex [OF assms(3)] unfolding a by auto
  ultimately show ?thesis by blast
qed

definition sample_review_cmds :: "store_cmd list" where
  "sample_review_cmds = sample_cmds @ [RecordCallback ''event-1'' ''REQUEST_CODEX_REVIEW'' ''alice'' hash_a hash_a,
     ClaimReview ''case-1'' 5000 ''tk'']"

definition sample_claimed :: live_db where
  "sample_claimed = fold (exec const_hash 1000) sample_review_cmds empty_live_db"

lemma sample_claimed_eq:
  "sample_claimed = exec const_hash 1000 (ClaimReview ''case-1'' 5000 ''tk'')
     (exec const_hash 1000 (RecordCallback ''event-1'' ''REQUEST_CODEX_REVIEW'' ''alice'' hash_a hash_a) sample_waiting)"
  by (simp add: sample_claimed_def sample_review_cmds_def sample_waiting_def)

lemma sample_claim: "require_review_claim sample_claimed ''case-1'' ''tk'' 1000 = Inr ()"
  by (simp add: sample_claimed_eq sample_waiting_eq record_callback_def callback_live_def sample_row_def action_state_def
      transition_row_def allowed_edge_def update_where_def claim_codex_review_def review_busy_def review_pending_def
      open_review_def of_case_def new_approval_def Let_def require_review_claim_def rowcount_def)

theorem review_lease_exclusive_witness:
  "require_review_claim sample_claimed ''case-1'' ''tk'' 1000 = Inr ()
   \<and> claim_codex_review ''case-1'' 1000 5000 ''other'' sample_claimed = (Inr None, sample_claimed)"
proof -
  have "(store_step const_hash)\<^sup>*\<^sup>* (1000, empty_live_db) (1000, sample_claimed)"
    unfolding sample_claimed_def by (rule run_steps) (simp add: sample_review_cmds_def sample_cmds_def)
  from review_lease_exclusive [OF this _ sample_claim, of "''tk''" 5000 "''other''"] show ?thesis
    using sample_claim by simp
qed

end
