(* ===== verification/Intents.thy ===== *)
theory Intents
  imports Account Risk Approval_Leases
begin

text \<open>
  Trade intents (\<open>execution/intents.py\<close>): the immutable intent with its canonical identity, the one
  function that turns an approved proposal into the executable fields, and the database the execution
  stores share. All of them open the same SQLite file, so \<open>exec_db\<close> holds their tables; a table
  that has not been created yet is empty.
\<close>

section \<open>Intents\<close>

record trade_intent =
  ti_intent_id :: string
  ti_intent_hash :: string
  ti_case_id :: string
  ti_case_hash :: string
  ti_proposal_id :: string
  ti_proposal_hash :: string
  ti_approval_event_id :: string
  ti_approval_actor :: string
  ti_approval_hash :: string
  ti_risk_policy_hash :: string
  ti_account_snapshot_hash :: string
  ti_environment :: string
  ti_account_authority :: string
  ti_symbol :: string
  ti_side :: string
  ti_order_type :: string
  ti_quantity :: flt
  ti_price :: flt
  ti_leverage :: int
  ti_stop_loss :: flt
  ti_take_profit_1 :: flt
  ti_take_profit_2 :: "flt option"
  ti_created_at_ms :: int
  ti_expires_at_ms :: int
  ti_idempotency_key :: string
  ti_client_order_id :: string

definition intent_fields_ok :: "trade_intent \<Rightarrow> bool" where
  "intent_fields_ok i \<longleftrightarrow> ti_intent_id i \<noteq> [] \<and> length (ti_intent_id i) \<le> 128 \<and> is_hash (ti_case_hash i)
     \<and> is_hash (ti_proposal_hash i) \<and> is_hash (ti_approval_hash i) \<and> is_hash (ti_risk_policy_hash i)
     \<and> is_hash (ti_account_snapshot_hash i) \<and> ti_environment i \<in> {''DRY_RUN'', ''TESTNET''}
     \<and> ti_side i \<in> {''BUY'', ''SELL''} \<and> ti_order_type i \<in> {''LIMIT'', ''MARKET''}
     \<and> Positive (ti_quantity i) \<and> Positive (ti_price i) \<and> 1 \<le> ti_leverage i \<and> Positive (ti_stop_loss i)
     \<and> Positive (ti_take_profit_1 i) \<and> opt_all isfinite (ti_take_profit_2 i) \<and> 0 \<le> ti_created_at_ms i
     \<and> 0 < ti_expires_at_ms i"

definition intent_json :: "trade_intent \<Rightarrow> json" where
  "intent_json i = JObj
     [(''schema_version'', JStr ''TRADE_INTENT_V1''), (''intent_id'', JStr (ti_intent_id i)),
      (''case_id'', JStr (ti_case_id i)), (''case_hash'', JStr (ti_case_hash i)),
      (''proposal_id'', JStr (ti_proposal_id i)), (''proposal_hash'', JStr (ti_proposal_hash i)),
      (''approval_event_id'', JStr (ti_approval_event_id i)), (''approval_actor'', JStr (ti_approval_actor i)),
      (''approval_hash'', JStr (ti_approval_hash i)), (''risk_policy_hash'', JStr (ti_risk_policy_hash i)),
      (''account_snapshot_hash'', JStr (ti_account_snapshot_hash i)), (''environment'', JStr (ti_environment i)),
      (''account_authority'', JStr (ti_account_authority i)), (''symbol'', JStr (ti_symbol i)),
      (''side'', JStr (ti_side i)), (''order_type'', JStr (ti_order_type i)), (''quantity'', JFloat (ti_quantity i)),
      (''price'', JFloat (ti_price i)), (''leverage'', JInt (ti_leverage i)), (''stop_loss'', JFloat (ti_stop_loss i)),
      (''take_profit_1'', JFloat (ti_take_profit_1 i)), (''take_profit_2'', jopt JFloat (ti_take_profit_2 i)),
      (''created_at_ms'', JInt (ti_created_at_ms i)), (''expires_at_ms'', JInt (ti_expires_at_ms i)),
      (''idempotency_key'', JStr (ti_idempotency_key i)), (''client_order_id'', JStr (ti_client_order_id i))]"

definition canonical_execution_identity :: "hasher \<Rightarrow> string \<Rightarrow> string \<Rightarrow> string \<Rightarrow> string \<times> string \<times> string" where
  "canonical_execution_identity H case_hash proposal_hash event_id =
     (let a = H (case_hash @ '':'' @ proposal_hash @ '':'' @ event_id)
      in (''intent_'' @ take 24 a, ''idem_'' @ take 24 a, ''cuid_v1_'' @ take 16 a))"

definition intent_digest :: "hasher \<Rightarrow> trade_intent \<Rightarrow> string" where
  "intent_digest H i = digest H (intent_json i)"

definition intent_validate :: "hasher \<Rightarrow> bool \<Rightarrow> trade_intent \<Rightarrow> trade_intent res" where
  "intent_validate H build i =
     (if \<not> intent_fields_ok i then Inl (ValueError ''validation error'')
      else if ti_expires_at_ms i \<le> ti_created_at_ms i then Inl (ValueError ''intent chronology invalid'')
      else if (ti_intent_id i, ti_idempotency_key i, ti_client_order_id i)
                \<noteq> canonical_execution_identity H (ti_case_hash i) (ti_proposal_hash i) (ti_approval_event_id i)
      then Inl (ValueError ''trade intent canonical identity mismatch'')
      else if build \<and> ti_intent_hash i = [] then Inr (i\<lparr>ti_intent_hash := intent_digest H i\<rparr>)
      else if ti_intent_hash i \<noteq> intent_digest H i then Inl (ValueError ''trade intent hash mismatch'')
      else Inr i)"

definition intent_verify :: "hasher \<Rightarrow> trade_intent \<Rightarrow> trade_intent res" where
  "intent_verify H i = intent_validate H False i"

section \<open>Executable fields\<close>

record executable =
  ex_symbol :: string
  ex_side :: string
  ex_order_type :: string
  ex_price :: flt
  ex_quantity :: flt
  ex_leverage :: int
  ex_stop_loss :: flt
  ex_take_profit_1 :: flt
  ex_take_profit_2 :: "flt option"
  ex_risk_policy_hash :: string
  ex_environment :: string
  ex_account_authority :: string

definition executable_json :: "executable \<Rightarrow> json" where
  "executable_json x = JObj
     [(''symbol'', JStr (ex_symbol x)), (''side'', JStr (ex_side x)), (''order_type'', JStr (ex_order_type x)),
      (''price'', JFloat (ex_price x)), (''quantity'', JFloat (ex_quantity x)), (''leverage'', JInt (ex_leverage x)),
      (''stop_loss'', JFloat (ex_stop_loss x)), (''take_profit_1'', JFloat (ex_take_profit_1 x)),
      (''take_profit_2'', jopt JFloat (ex_take_profit_2 x)), (''risk_policy_hash'', JStr (ex_risk_policy_hash x)),
      (''environment'', JStr (ex_environment x)), (''account_authority'', JStr (ex_account_authority x))]"

text \<open>\<open>Decimal\<close> division in the default context: 28 significant digits, ties to even; then
  \<open>quantize\<close> to four places towards zero, which raises when the result needs more than 28 digits.\<close>

definition dec28 :: "rat \<Rightarrow> rat" where
  "dec28 q = (if q = 0 then 0 else let e = ilog10 \<bar>q\<bar> - 27 in of_int (rne (q * 10 powi (- e))) * 10 powi e)"

definition order_quantity :: "rat \<Rightarrow> rat \<Rightarrow> rat res" where
  "order_quantity notional price =
     (let n = \<lfloor>dec28 (decimal_of_float notional / decimal_of_float price) * 10000\<rfloor>
      in if 10 ^ 28 \<le> n then Inl InvalidOperation else Inr (of_int n / 10000))"

definition order_side :: "case_package \<Rightarrow> string" where
  "order_side c = (if cp_direction c = ''SHORT'' then ''SELL'' else ''BUY'')"

definition account_authority_ok :: "account_snapshot \<Rightarrow> bool" where
  "account_authority_ok a =
     (if as_environment a = ''TESTNET''
      then as_credential_namespace a = ''BINANCE_TESTNET'' \<and> as_rest_base_url a = testnet_url
      else as_environment a = ''DRY_RUN'' \<and> as_credential_namespace a = ''NONE'' \<and> as_rest_base_url a = ''local://paper'')"

definition entry_mid :: "trade_proposal \<Rightarrow> flt" where
  "entry_mid p = py_round (quot (tp_entry_low p + tp_entry_high p) (lit 2)) 2"

definition compile_executable_intent_fields ::
  "hasher \<Rightarrow> case_package \<Rightarrow> trade_proposal \<Rightarrow> account_snapshot \<Rightarrow> risk_policy option \<Rightarrow> executable res" where
  "compile_executable_intent_fields H c p a policy =
     bindR (case_verify H c) (\<lambda>_. bindR (proposal_verify H p) (\<lambda>_. bindR (snapshot_verify H a) (\<lambda>_.
       if tp_case_id p \<noteq> cp_case_id c \<or> tp_case_hash p \<noteq> cp_case_hash c
       then Inl (ExecutionBlocked ''EXECUTABLE_CASE_BINDING_MISMATCH'')
       else if (case policy of None \<Rightarrow> False | Some pol \<Rightarrow> tp_risk_policy_hash p \<noteq> policy_hash H pol)
       then Inl (ExecutionBlocked ''RISK_POLICY_HASH_MISMATCH'')
       else if tp_action p \<notin> {''OPEN_LONG'', ''OPEN_SHORT'', ''ADD''}
       then Inl (ExecutionBlocked ''UNSUPPORTED_EXECUTABLE_ACTION'')
       else if tp_action p = ''OPEN_LONG'' \<and> order_side c \<noteq> ''BUY''
               \<or> tp_action p = ''OPEN_SHORT'' \<and> order_side c \<noteq> ''SELL''
       then Inl (ExecutionBlocked ''EXECUTABLE_DIRECTION_MISMATCH'')
       else if \<not> account_authority_ok a then Inl (ExecutionBlocked ''EXECUTABLE_ACCOUNT_AUTHORITY_MISMATCH'')
       else if entry_mid p \<le> 0 \<or> \<not> (tp_entry_low p \<le> entry_mid p \<and> entry_mid p \<le> tp_entry_high p)
       then Inl (ExecutionBlocked ''EXECUTABLE_PRICE_INVALID'')
       else bindR (order_quantity (fval (tp_recommended_notional_usdt p)) (fval (entry_mid p))) (\<lambda>q.
         if rnd64 q \<le> 0 then Inl (ExecutionBlocked ''computed order quantity must be positive'')
         else Inr \<lparr>ex_symbol = cp_symbol c, ex_side = order_side c, ex_order_type = ''LIMIT'', ex_price = entry_mid p,
                   ex_quantity = rnd64 q, ex_leverage = tp_leverage p, ex_stop_loss = tp_stop_loss p,
                   ex_take_profit_1 = tp_take_profit_1 p,
                   ex_take_profit_2 = (if 0 < tp_take_profit_2 p then Some (tp_take_profit_2 p) else None),
                   ex_risk_policy_hash = tp_risk_policy_hash p, ex_environment = as_environment a,
                   ex_account_authority = as_account_id a\<rparr>))))"

section \<open>Shared tables\<close>

record snapshot_row =
  sr_snapshot_hash :: string
  sr_account_id :: string
  sr_observed_at_ms :: int
  sr_payload :: account_snapshot

record account_event =
  ae_snapshot_hash :: string
  ae_event_type :: string
  ae_observed_at_ms :: int

record intent_row =
  ir_intent_id :: string
  ir_intent_hash :: string
  ir_idempotency_key :: string
  ir_client_order_id :: string
  ir_approval_event_id :: string
  ir_proposal_hash :: string
  ir_case_hash :: string
  ir_status :: string
  ir_created_at_ms :: int
  ir_payload :: trade_intent

record intent_transition =
  it_intent_id :: string
  it_from_status :: "string option"
  it_to_status :: string
  it_reason :: string
  it_at_ms :: int

record market_row =
  mr_observation_hash :: string
  mr_payload :: market_observation

record authorization =
  au_authorization_id :: string
  au_authorization_hash :: string
  au_intent_id :: string
  au_intent_hash :: string
  au_proposal_hash :: string
  au_case_hash :: string
  au_approval_event_id :: string
  au_approval_hash :: string
  au_risk_policy_hash :: string
  au_account_snapshot_hash :: string
  au_market_observation_hash :: string
  au_execution_compilation_hash :: string
  au_environment :: string
  au_validated_at_ms :: int
  au_expires_at_ms :: int
  au_validator_version :: string

record authorization_row =
  az_authorization_id :: string
  az_authorization_hash :: string
  az_intent_id :: string
  az_status :: string
  az_payload :: authorization

record claim_row =
  cl_intent_id :: string
  cl_authorization_id :: string
  cl_claimed_at_ms :: int

record order_row =
  od_order_id :: string
  od_intent_id :: string
  od_client_order_id :: string
  od_symbol :: string
  od_side :: string
  od_status :: string
  od_requested_qty :: flt
  od_filled_qty :: flt
  od_avg_price :: flt
  od_stop_price :: "flt option"
  od_is_protective :: bool
  od_reduce_only :: bool
  od_exchange_time_ms :: int
  od_receipt_time_ms :: int
  od_payload :: json

record owner_row =
  ow_owner_key :: string
  ow_intent_id :: string
  ow_intent_hash :: string
  ow_symbol :: string
  ow_position_side :: string
  ow_protective_client_id :: "string option"
  ow_exchange_id :: "string option"
  ow_status :: string
  ow_quantity :: flt
  ow_generation :: int
  ow_created_at_ms :: int
  ow_updated_at_ms :: int
  ow_confirmed_at_ms :: int

record exec_db =
  live_account_snapshots :: "snapshot_row list"
  live_account_events :: "account_event list"
  live_trade_intents :: "intent_row list"
  live_intent_transitions :: "intent_transition list"
  live_execution_market_observations :: "market_row list"
  live_pre_execution_authorizations :: "authorization_row list"
  live_execution_claims :: "claim_row list"
  live_execution_orders :: "order_row list"
  live_protection_owners :: "owner_row list"

definition empty_exec_db :: exec_db where
  "empty_exec_db =
     \<lparr>live_account_snapshots = [], live_account_events = [], live_trade_intents = [], live_intent_transitions = [],
      live_execution_market_observations = [], live_pre_execution_authorizations = [], live_execution_claims = [],
      live_execution_orders = [], live_protection_owners = []\<rparr>"

end
