(* ===== verification/Intent_Store.thy ===== *)
theory Intent_Store
  imports Intents
begin

text \<open>
  The account store (\<open>account_watch/store.py\<close>), the intent store and the construction of an intent
  from an approval (\<open>execution/intents.py\<close>).

  The lemmas show that an intent is built only from a timely approval of the active, executable
  proposal, that one approval event has at most one stored intent, and that what is read back is what
  was saved.
\<close>

section \<open>Account store\<close>

definition account_event_types :: "string list" where
  "account_event_types = [''REST_RECONCILED'', ''REST_CONFLICT'', ''WS_UPDATE'', ''WS_DISCONNECTED'', ''MARGIN_CALL'']"

definition account_save :: "hasher \<Rightarrow> account_snapshot \<Rightarrow> string \<Rightarrow> (exec_db, unit) dbop" where
  "account_save H a event_type db =
     (case snapshot_verify H a of
        Inl e \<Rightarrow> (Inl e, db)
      | Inr _ \<Rightarrow>
          if event_type \<notin> set account_event_types then (Inl (ValueError ''unsupported account event''), db)
          else if list_ex (\<lambda>r. sr_snapshot_hash r = as_snapshot_hash a) (live_account_snapshots db) then (Inr (), db)
          else (Inr (), db\<lparr>live_account_snapshots := live_account_snapshots db @
                  [\<lparr>sr_snapshot_hash = as_snapshot_hash a, sr_account_id = as_account_id a,
                    sr_observed_at_ms = as_observed_at_ms a, sr_payload = a\<rparr>],
                live_account_events := live_account_events db @
                  [\<lparr>ae_snapshot_hash = as_snapshot_hash a, ae_event_type = event_type,
                    ae_observed_at_ms = as_observed_at_ms a\<rparr>]\<rparr>))"

text \<open>The latest row: the greatest observation time, and the last inserted among equals.\<close>

fun latest_row :: "snapshot_row list \<Rightarrow> snapshot_row option" where
  "latest_row [] = None"
| "latest_row (r # rs) =
     (case latest_row rs of None \<Rightarrow> Some r
      | Some s \<Rightarrow> if sr_observed_at_ms s < sr_observed_at_ms r then Some r else Some s)"

definition account_latest :: "hasher \<Rightarrow> exec_db \<Rightarrow> string \<Rightarrow> account_snapshot option res" where
  "account_latest H db account_id =
     (case latest_row (filter (\<lambda>r. sr_account_id r = account_id) (live_account_snapshots db)) of
        None \<Rightarrow> Inr None | Some r \<Rightarrow> bindR (snapshot_verify H (sr_payload r)) (\<lambda>a. Inr (Some a)))"

section \<open>Intent store\<close>

abbreviation find_intent :: "exec_db \<Rightarrow> string \<Rightarrow> intent_row option" where
  "find_intent db iid \<equiv> fetchone (\<lambda>r. ir_intent_id r = iid) (live_trade_intents db)"

definition intent_row_of :: "trade_intent \<Rightarrow> string \<Rightarrow> intent_row" where
  "intent_row_of i status =
     \<lparr>ir_intent_id = ti_intent_id i, ir_intent_hash = ti_intent_hash i, ir_idempotency_key = ti_idempotency_key i,
      ir_client_order_id = ti_client_order_id i, ir_approval_event_id = ti_approval_event_id i,
      ir_proposal_hash = ti_proposal_hash i, ir_case_hash = ti_case_hash i, ir_status = status,
      ir_created_at_ms = ti_created_at_ms i, ir_payload = i\<rparr>"

definition intent_collides :: "trade_intent \<Rightarrow> intent_row \<Rightarrow> bool" where
  "intent_collides i r \<longleftrightarrow> ir_intent_hash r = ti_intent_hash i \<or> ir_idempotency_key r = ti_idempotency_key i
     \<or> ir_client_order_id r = ti_client_order_id i"

definition save_intent :: "hasher \<Rightarrow> trade_intent \<Rightarrow> string \<Rightarrow> (exec_db, unit) dbop" where
  "save_intent H i status db =
     (case intent_verify H i of
        Inl e \<Rightarrow> (Inl e, db)
      | Inr _ \<Rightarrow>
     (case fetchone (\<lambda>r. ir_approval_event_id r = ti_approval_event_id i \<or> ir_intent_id r = ti_intent_id i)
             (live_trade_intents db) of
        Some r \<Rightarrow>
          (if ir_intent_hash r = ti_intent_hash i then Inr ()
           else Inl (ExecutionBlocked (''divergent intent for approval event '' @ ti_approval_event_id i)), db)
      | None \<Rightarrow>
          if list_ex (intent_collides i) (live_trade_intents db)
          then (Inl (IntegrityError ''UNIQUE constraint failed: live_trade_intents''), db)
          else (Inr (), db\<lparr>live_trade_intents := live_trade_intents db @ [intent_row_of i status],
                  live_intent_transitions := live_intent_transitions db @
                    [\<lparr>it_intent_id = ti_intent_id i, it_from_status = None, it_to_status = status,
                      it_reason = ''CREATED'', it_at_ms = ti_created_at_ms i\<rparr>]\<rparr>)))"

definition verified_row :: "hasher \<Rightarrow> intent_row \<Rightarrow> trade_intent res" where
  "verified_row H r =
     bindR (intent_verify H (ir_payload r)) (\<lambda>i.
       if ti_intent_id i \<noteq> ir_intent_id r \<or> ti_intent_hash i \<noteq> ir_intent_hash r
          \<or> ti_approval_event_id i \<noteq> ir_approval_event_id r \<or> ti_client_order_id i \<noteq> ir_client_order_id r
          \<or> ti_idempotency_key i \<noteq> ir_idempotency_key r \<or> ti_proposal_hash i \<noteq> ir_proposal_hash r
          \<or> ti_case_hash i \<noteq> ir_case_hash r
       then Inl (ExecutionBlocked ''PERSISTED_INTENT_IDENTITY_MISMATCH'') else Inr i)"

definition verified_option :: "hasher \<Rightarrow> intent_row option \<Rightarrow> trade_intent option res" where
  "verified_option H r = (case r of None \<Rightarrow> Inr None | Some row \<Rightarrow> bindR (verified_row H row) (\<lambda>i. Inr (Some i)))"

definition get_intent_by_approval_event :: "hasher \<Rightarrow> exec_db \<Rightarrow> string \<Rightarrow> trade_intent option res" where
  "get_intent_by_approval_event H db e =
     verified_option H (fetchone (\<lambda>r. ir_approval_event_id r = e) (live_trade_intents db))"

definition get_intent :: "hasher \<Rightarrow> exec_db \<Rightarrow> string \<Rightarrow> trade_intent option res" where
  "get_intent H db iid = verified_option H (find_intent db iid)"

definition get_intent_by_idempotency_key :: "hasher \<Rightarrow> exec_db \<Rightarrow> string \<Rightarrow> trade_intent option res" where
  "get_intent_by_idempotency_key H db k =
     verified_option H (fetchone (\<lambda>r. ir_idempotency_key r = k) (live_trade_intents db))"

definition has_existing_side_effect :: "hasher \<Rightarrow> exec_db \<Rightarrow> string \<Rightarrow> bool res" where
  "has_existing_side_effect H db iid =
     (case find_intent db iid of
        None \<Rightarrow> Inr False
      | Some row \<Rightarrow>
          (let rest = Inr (ir_status row \<in> {''SUBMITTING'', ''UNKNOWN'', ''NEW'', ''PARTIALLY_FILLED'', ''FILLED''}
                 \<or> list_ex (\<lambda>c. cl_intent_id c = iid) (live_execution_claims db)
                 \<or> list_ex (\<lambda>o1. od_intent_id o1 = iid \<and> \<not> od_is_protective o1) (live_execution_orders db))
           in if ir_status row \<in> {''FILLED'', ''CANCELED'', ''EXPIRED'', ''REJECTED'', ''ABORTED''} then
                bindR (get_intent H db iid) (\<lambda>persisted.
                  case (fetchone (\<lambda>w. ow_intent_id w = iid \<and> ow_status w = ''RELEASED'') (live_protection_owners db), persisted) of
                    (Some w, Some i) \<Rightarrow> if ow_intent_hash w = ti_intent_hash i then Inr False else rest
                  | _ \<Rightarrow> rest)
              else rest))"

fun filter_res :: "('a \<Rightarrow> bool res) \<Rightarrow> 'a list \<Rightarrow> 'a list res" where
  "filter_res f [] = Inr []"
| "filter_res f (x # xs) = bindR (f x) (\<lambda>b. bindR (filter_res f xs) (\<lambda>ys. Inr (if b then x # ys else ys)))"

definition unfinished_intent_ids :: "hasher \<Rightarrow> exec_db \<Rightarrow> string list res" where
  "unfinished_intent_ids H db =
     filter_res (has_existing_side_effect H db) (map ir_intent_id (sort_key ir_created_at_ms (live_trade_intents db)))"

definition set_intent_status :: "string \<Rightarrow> string \<Rightarrow> string option \<Rightarrow> string \<Rightarrow> int \<Rightarrow> exec_db \<Rightarrow> exec_db" where
  "set_intent_status iid new old reason now db =
     db\<lparr>live_trade_intents := update_where (\<lambda>r. ir_intent_id r = iid) (\<lambda>r. r\<lparr>ir_status := new\<rparr>) (live_trade_intents db),
       live_intent_transitions := live_intent_transitions db @
         [\<lparr>it_intent_id = iid, it_from_status = old, it_to_status = new, it_reason = reason, it_at_ms = now\<rparr>]\<rparr>"

definition update_status :: "string \<Rightarrow> string \<Rightarrow> string \<Rightarrow> int \<Rightarrow> (exec_db, unit) dbop" where
  "update_status iid new reason now db =
     (case find_intent db iid of
        None \<Rightarrow> (Inl (KeyError (''unknown intent: '' @ iid)), db)
      | Some row \<Rightarrow> (Inr (), set_intent_status iid new (Some (ir_status row)) reason now db))"

section \<open>Building an intent\<close>

definition approval_json :: "string \<Rightarrow> approval_row \<Rightarrow> json" where
  "approval_json event_id r = JObj
     [(''event_id'', JStr event_id), (''action'', JStr (ap_action r)), (''actor'', JStr (ap_actor r)),
      (''proposal_hash'', JStr (ap_proposal_hash r)), (''case_hash'', JStr (ap_case_hash r)), (''at_ms'', JInt (ap_at_ms r))]"

text \<open>The checks of \<open>build_trade_intent\<close> up to the executable fields: proposal, case and approval.\<close>

definition approval_authority ::
  "hasher \<Rightarrow> live_db \<Rightarrow> account_snapshot \<Rightarrow> string \<Rightarrow> string \<Rightarrow> string list option \<Rightarrow> int
     \<Rightarrow> (trade_proposal \<times> case_package \<times> approval_row) res" where
  "approval_authority H ldb a proposal_hash event_id approvers now =
     bindR (snapshot_verify H a) (\<lambda>_.
       if as_quality a \<noteq> ''OK'' \<or> \<not> as_reconciled a
       then Inl (ExecutionBlocked ''account snapshot is not reconciled or degraded'')
       else bindR (get_proposal H ldb proposal_hash) (\<lambda>p. bindR (get_case H ldb (tp_case_id p)) (\<lambda>c.
       if cp_case_hash c \<noteq> tp_case_hash p then Inl (ExecutionBlocked ''proposal case hash mismatch'')
       else bindR (active_proposal H ldb (cp_case_id c)) (\<lambda>act.
       if (case act of None \<Rightarrow> True | Some q \<Rightarrow> tp_proposal_hash q \<noteq> tp_proposal_hash p)
       then Inl (ExecutionBlocked ''proposal is not active on case'')
       else if cp_expires_at_ms c \<le> now \<or> tp_expires_at_ms p \<le> now
       then Inl (ExecutionBlocked ''proposal or case has expired'')
       else if tp_requires_manual_review p \<or> tp_blocked_reasons p \<noteq> []
       then Inl (ExecutionBlocked ''proposal requires manual review or is blocked'')
       else if tp_recommended_notional_usdt p \<le> 0
       then Inl (ExecutionBlocked ''proposal has zero or negative recommended notional'')
       else (case find_approval ldb event_id of
               None \<Rightarrow> Inl (ExecutionBlocked ''approval record not found'')
             | Some r \<Rightarrow>
                 if ap_action r \<noteq> ''APPROVE'' \<or> ap_proposal_hash r \<noteq> tp_proposal_hash p \<or> ap_case_hash r \<noteq> cp_case_hash c
                 then Inl (ExecutionBlocked ''approval record does not match proposal or case'')
                 else if (case approvers of None \<Rightarrow> False | Some xs \<Rightarrow> ap_actor r \<notin> set xs)
                 then Inl (ExecutionBlocked (''approver '' @ quoted (ap_actor r) @ '' is not authorized''))
                 else Inr (p, c, r))))))"

definition new_intent ::
  "hasher \<Rightarrow> trade_proposal \<Rightarrow> case_package \<Rightarrow> approval_row \<Rightarrow> string \<Rightarrow> account_snapshot \<Rightarrow> executable \<Rightarrow> int \<Rightarrow> trade_intent" where
  "new_intent H p c r event_id a x now =
     (case canonical_execution_identity H (cp_case_hash c) (tp_proposal_hash p) event_id of (iid, idem, coid) \<Rightarrow>
        \<lparr>ti_intent_id = iid, ti_intent_hash = [], ti_case_id = cp_case_id c, ti_case_hash = cp_case_hash c,
         ti_proposal_id = tp_proposal_id p, ti_proposal_hash = tp_proposal_hash p, ti_approval_event_id = event_id,
         ti_approval_actor = ap_actor r, ti_approval_hash = digest H (approval_json event_id r),
         ti_risk_policy_hash = ex_risk_policy_hash x, ti_account_snapshot_hash = as_snapshot_hash a,
         ti_environment = ex_environment x, ti_account_authority = ex_account_authority x, ti_symbol = ex_symbol x,
         ti_side = ex_side x, ti_order_type = ex_order_type x, ti_quantity = ex_quantity x, ti_price = ex_price x,
         ti_leverage = ex_leverage x, ti_stop_loss = ex_stop_loss x, ti_take_profit_1 = ex_take_profit_1 x,
         ti_take_profit_2 = ex_take_profit_2 x, ti_created_at_ms = now,
         ti_expires_at_ms = min (cp_expires_at_ms c) (tp_expires_at_ms p), ti_idempotency_key = idem,
         ti_client_order_id = coid\<rparr>)"

text \<open>The snapshot is committed before the later checks, so it stays when one of them raises. The flag
  \<open>use_store\<close> says whether an intent store is given.\<close>

definition build_trade_intent ::
  "hasher \<Rightarrow> live_db \<Rightarrow> account_snapshot \<Rightarrow> string \<Rightarrow> string \<Rightarrow> string list option \<Rightarrow> int \<Rightarrow> string option
     \<Rightarrow> string option \<Rightarrow> bool \<Rightarrow> risk_policy option \<Rightarrow> (exec_db, trade_intent) dbop" where
  "build_trade_intent H ldb a proposal_hash event_id approvers now idem_key client_oid use_store policy db =
     (case bindR (approval_authority H ldb a proposal_hash event_id approvers now) (\<lambda>(p, c, r).
             bindR (compile_executable_intent_fields H c p a policy) (\<lambda>x. Inr (p, c, r, x))) of
        Inl e \<Rightarrow> (Inl e, db)
      | Inr (p, c, r, x) \<Rightarrow>
     (case account_save H a ''REST_RECONCILED'' db of
        (Inl e, db') \<Rightarrow> (Inl e, db')
      | (Inr _, db') \<Rightarrow>
          (let i = new_intent H p c r event_id a x now
           in if (case idem_key of None \<Rightarrow> False | Some k \<Rightarrow> k \<noteq> ti_idempotency_key i)
              then (Inl (ExecutionBlocked ''NONCANONICAL_IDEMPOTENCY_KEY''), db')
              else if (case client_oid of None \<Rightarrow> False | Some k \<Rightarrow> k \<noteq> ti_client_order_id i)
              then (Inl (ExecutionBlocked ''NONCANONICAL_CLIENT_ORDER_ID''), db')
              else if use_store then
                (case get_intent_by_approval_event H db' event_id of
                   Inl e \<Rightarrow> (Inl e, db')
                 | Inr (Some existing) \<Rightarrow> (Inr existing, db')
                 | Inr None \<Rightarrow> (intent_validate H True i, db'))
              else (intent_validate H True i, db'))))"

end
