(* ===== verification/Approval_Records.thy ===== *)
theory Approval_Records
  imports Approval_Leases
begin

text \<open>
  The approval records as evidence. Only \<open>record_callback\<close> adds a record and no call rewrites the
  decision of one (the review leases are the only columns that change), so a record always carries the
  state its action stands for. The execution side relies on it: it reads a record, not the case state.
\<close>

definition record_ok :: "approval_row \<Rightarrow> bool" where
  "record_ok a \<longleftrightarrow> action_state (ap_action a) = Some (ap_result_state a)"

definition records_ok :: "live_db \<Rightarrow> bool" where
  "records_ok db \<longleftrightarrow> (\<forall>a \<in> set (approval_records db). record_ok a)"

lemma record_ok_core [simp]: "record_ok (core a) = record_ok a"
  by (simp add: record_ok_def)

lemma records_ok_core: "records_ok (core_db db) = records_ok db"
  by (simp add: records_ok_def)

lemma records_ok_lease: "records_ok db \<Longrightarrow> core_db db' = core_db db \<Longrightarrow> records_ok db'"
  using records_ok_core [of db] records_ok_core [of db'] by simp

lemma records_ok_cong: "approval_records db' = approval_records db \<Longrightarrow> records_ok db' = records_ok db"
  by (simp add: records_ok_def)

lemma records_ok_moved [simp]: "records_ok (moved db cid old new now cb) = records_ok db"
  by (rule records_ok_cong) simp

lemma records_ok_close: "records_ok db \<Longrightarrow> records_ok (close_reviews P db)"
  by (erule records_ok_lease) simp

lemma save_proposal_records: "approval_records (snd (save_proposal H p token now db)) = approval_records db"
  using save_proposal_effect [of H p token now db]
  by (auto simp: insert_proposal_def activated_def split: option.splits if_splits)

lemma expire_cases_records:
  assumes "live_inv H db" and "records_ok db"
  shows "records_ok (snd (expire_cases H now db))"
proof -
  let ?P = "\<lambda>db. live_inv H db \<and> records_ok db"
  have "?P (close_reviews Q (moved db (lc_case_id row) (lc_state row) EXPIRED now None))"
    if "?P db" "find_case db (lc_case_id row) = Some row" "allowed_edge (lc_state row) EXPIRED" for db row Q
    using that live_inv_close live_inv_moved [of H db "lc_case_id row" row] records_ok_close by simp
  then show ?thesis using expire_cases_rule [of ?P H now db] assms by simp
qed

lemma queued_codex_reviews_records:
  assumes "live_inv H db" and "records_ok db"
  shows "records_ok (snd (queued_codex_reviews now db))"
proof -
  let ?P = "\<lambda>db. live_inv H db \<and> records_ok db"
  have "?P (moved db (lc_case_id row) (lc_state row) MANUAL now None)"
    if "?P db" "find_case db (lc_case_id row) = Some row" "allowed_edge (lc_state row) MANUAL" for db row
    using that live_inv_moved [of H db "lc_case_id row" row] by simp
  moreover have "?P (close_reviews Q db)" if "?P db" for db Q
    using that live_inv_close records_ok_close by simp
  ultimately show ?thesis using queued_codex_reviews_rule [of ?P H now db] assms by simp
qed

lemma callback_live_decides:
  assumes "callback_live H e act actor ph ch now db = Inr (db', out)"
  shows "approval_records db' = approval_records db \<or>
    (\<exists>s. action_state act = Some s \<and> approval_records db' = approval_records db @ [new_approval e act actor ph ch now s])"
  using assms unfolding callback_live_def
  by (cases "action_state act") (auto simp: result_simps transition_row_iff split: if_splits option.splits)

lemma record_callback_records:
  assumes "records_ok db"
  shows "records_ok (snd (record_callback H e act actor ph ch now db))"
proof (cases "callback_live H e act actor ph ch now db")
  case (Inr y)
  obtain db' out where y: "y = (db', out)" by fastforce
  have "records_ok db'"
    using callback_live_decides [of H e act actor ph ch now db db' out] Inr y assms
    by (auto simp: records_ok_def record_ok_def new_approval_def)
  with assms Inr y show ?thesis by (auto simp: record_callback_def split: option.splits)
qed (use assms in \<open>simp add: record_callback_def split: option.splits\<close>)

lemma claim_codex_review_records: "records_ok db \<Longrightarrow> records_ok (snd (claim_codex_review cid now lease token db))"
  by (auto simp: claim_codex_review_def Let_def core_def
      intro!: records_ok_lease [of db] core_db_update_where split: option.splits list.splits)

lemma renew_codex_review_records: "records_ok db \<Longrightarrow> records_ok (snd (renew_codex_review cid token now lease db))"
  by (auto simp: renew_codex_review_def Let_def core_def intro!: records_ok_lease [of db] core_db_update_where)

lemma release_codex_review_records: "records_ok db \<Longrightarrow> records_ok (snd (release_codex_review cid token db))"
  by (auto simp: release_codex_review_def core_def intro!: records_ok_lease [of db] core_db_update_where)

lemma exec_records:
  assumes "live_inv H db" and "records_ok db"
  shows "records_ok (exec H t cmd db)"
proof (cases cmd)
  case (SaveCase c)
  then show ?thesis using assms save_case_effect [of H c db] by (auto simp: records_ok_def added_case_def)
next
  case (SaveAnalysis r role)
  then show ?thesis
    using assms by (auto simp: records_ok_def save_analysis_def transaction_def save_analysis_body_def Let_def
        split: prod.splits sum.splits option.splits if_splits)
next
  case (SaveProposal p token)
  then show ?thesis using assms save_proposal_records by (simp add: records_ok_def)
next
  case (Transition cid new token)
  then show ?thesis
    using assms by (auto simp: transition_def run_tx_def result_simps transition_row_iff split: sum.splits option.splits)
next
  case (MarkReview cid token)
  then show ?thesis using assms by (simp add: mark_codex_review_processed_def records_ok_close)
qed (use assms in \<open>simp_all add: expire_cases_records queued_codex_reviews_records record_callback_records
       claim_codex_review_records renew_codex_review_records release_codex_review_records\<close>)

interpretation records: invariant_system "store_step H" "\<lambda>s. live_inv H (snd s) \<and> records_ok (snd s)" for H :: hasher
  by unfold_locales (auto elim!: store_stepE intro: exec_inv exec_records)

lemma reachable_records: "store_reachable H t db \<Longrightarrow> records_ok db"
  using records.steps_inv live_inv_empty
  by (fastforce simp: store_reachable_def records_ok_def empty_live_db_def)

text \<open>An APPROVE record for a proposal of a case is the case's decision: the case is approved.\<close>

lemma approve_record_decides:
  assumes "store_reachable H t db" and "a \<in> set (approval_records db)" and "ap_action a = ''APPROVE''"
    and "of_case db cid a"
  shows "case_state db cid = Some APPROVED"
proof -
  have "ap_result_state a = APPROVED"
    using reachable_records [OF assms(1)] assms(2,3) by (auto simp: records_ok_def record_ok_def action_state_def)
  then show ?thesis
    using reachable_inv [OF assms(1)] assms(2,4) unfolding live_inv_def single_ok_def final_record_def
    by (metis terminal.simps)
qed

end
