(* ===== verification/Intent_Safety.thy ===== *)
theory Intent_Safety
  imports Intent_Store Approval_Records
begin

text \<open>
  What an intent rests on. An intent is built only in a journal where the case is approved and its
  active proposal is executable, from a record of an allowed actor; its identity is a function of the
  approval; and its quantity does not exceed the approved notional.
\<close>

section \<open>Verified intents\<close>

lemma intent_verify_iff:
  "intent_verify H i = Inr i' \<longleftrightarrow> i' = i \<and> intent_fields_ok i \<and> ti_created_at_ms i < ti_expires_at_ms i
     \<and> (ti_intent_id i, ti_idempotency_key i, ti_client_order_id i)
         = canonical_execution_identity H (ti_case_hash i) (ti_proposal_hash i) (ti_approval_event_id i)
     \<and> ti_intent_hash i = intent_digest H i"
  by (auto simp: intent_verify_def intent_validate_def split: if_splits)

lemma intent_build_verifies:
  assumes "intent_validate H True i = Inr i'" and "ti_intent_hash i = []"
  shows "intent_verify H i' = Inr i' \<and> i' = i\<lparr>ti_intent_hash := intent_digest H i\<rparr>"
proof -
  have "intent_digest H (i\<lparr>ti_intent_hash := h\<rparr>) = intent_digest H i" for h
    by (simp add: intent_digest_def intent_json_def)
  then show ?thesis
    using assms by (auto simp: intent_validate_def intent_verify_iff intent_fields_ok_def split: if_splits)
qed

lemma verified_row_ok:
  "verified_row H r = Inr i \<Longrightarrow> intent_verify H i = Inr i \<and> i = ir_payload r \<and> ti_intent_id i = ir_intent_id r
     \<and> ti_intent_hash i = ir_intent_hash r \<and> ti_approval_event_id i = ir_approval_event_id r"
  by (auto simp: verified_row_def result_simps intent_verify_iff split: if_splits)

lemma get_by_approval_ok:
  assumes "get_intent_by_approval_event H db e = Inr (Some i)"
  shows "intent_verify H i = Inr i \<and> ti_approval_event_id i = e"
proof -
  obtain r where r: "fetchone (\<lambda>r. ir_approval_event_id r = e) (live_trade_intents db) = Some r" "verified_row H r = Inr i"
    using assms by (auto simp: get_intent_by_approval_event_def verified_option_def result_simps split: option.splits)
  then show ?thesis using verified_row_ok [OF r(2)] fetchone_Some [OF r(1)] by auto
qed

section \<open>The authority of an intent\<close>

lemma approval_authority_ok:
  assumes "approval_authority H ldb a ph e approvers now = Inr (p, c, r)"
  shows "as_quality a = ''OK'' \<and> as_reconciled a \<and> get_proposal H ldb ph = Inr p \<and> get_case H ldb (tp_case_id p) = Inr c
    \<and> cp_case_hash c = tp_case_hash p
    \<and> (\<exists>q. active_proposal H ldb (cp_case_id c) = Inr (Some q) \<and> tp_proposal_hash q = tp_proposal_hash p)
    \<and> now < cp_expires_at_ms c \<and> now < tp_expires_at_ms p \<and> \<not> tp_requires_manual_review p
    \<and> tp_blocked_reasons p = [] \<and> \<not> tp_recommended_notional_usdt p \<le> 0 \<and> find_approval ldb e = Some r
    \<and> ap_action r = ''APPROVE'' \<and> ap_proposal_hash r = tp_proposal_hash p \<and> ap_case_hash r = cp_case_hash c
    \<and> (\<forall>xs. approvers = Some xs \<longrightarrow> ap_actor r \<in> set xs)"
  using assms unfolding approval_authority_def
  by (auto simp: result_simps split: if_splits option.splits)

lemma build_trade_intent_ok:
  assumes "build_trade_intent H ldb a ph e approvers now ik co use_store policy db = (Inr i, db')"
  obtains p c r x where "approval_authority H ldb a ph e approvers now = Inr (p, c, r)"
    and "compile_executable_intent_fields H c p a policy = Inr x"
    and "use_store \<and> get_intent_by_approval_event H db' e = Inr (Some i)
       \<or> intent_validate H True (new_intent H p c r e a x now) = Inr i"
    and "\<not> use_store \<longrightarrow> intent_validate H True (new_intent H p c r e a x now) = Inr i"
proof -
  from assms obtain p c r x where ok: "approval_authority H ldb a ph e approvers now = Inr (p, c, r)"
    "compile_executable_intent_fields H c p a policy = Inr x"
    by (auto simp: build_trade_intent_def result_simps split: sum.splits)
  show ?thesis
    by (rule that [OF ok]; use assms ok in \<open>auto simp: build_trade_intent_def Let_def split: sum.splits prod.splits if_splits option.splits\<close>)
qed

lemma new_intent_fields [simp]:
  "ti_intent_hash (new_intent H p c r e a x now) = []" "ti_approval_event_id (new_intent H p c r e a x now) = e"
  "ti_proposal_hash (new_intent H p c r e a x now) = tp_proposal_hash p"
  "ti_case_hash (new_intent H p c r e a x now) = cp_case_hash c"
  "ti_approval_actor (new_intent H p c r e a x now) = ap_actor r"
  "ti_account_snapshot_hash (new_intent H p c r e a x now) = as_snapshot_hash a"
  "ti_created_at_ms (new_intent H p c r e a x now) = now"
  "ti_expires_at_ms (new_intent H p c r e a x now) = min (cp_expires_at_ms c) (tp_expires_at_ms p)"
  "ti_quantity (new_intent H p c r e a x now) = ex_quantity x" "ti_price (new_intent H p c r e a x now) = ex_price x"
  "ti_leverage (new_intent H p c r e a x now) = ex_leverage x" "ti_side (new_intent H p c r e a x now) = ex_side x"
  "ti_stop_loss (new_intent H p c r e a x now) = ex_stop_loss x"
  by (simp_all add: new_intent_def split: prod.splits)

lemma active_row_of:
  assumes inv: "live_inv H ldb" and r: "find_case ldb cid = Some r"
    and act: "active_proposal H ldb cid = Inr (Some q)" and p: "find_proposal ldb (tp_proposal_hash q) = Some p"
  shows "active_row ldb r = Some p"
proof -
  obtain p' where p': "active_row ldb r = Some p'" "pr_payload p' = q"
    using act r by (auto simp: active_proposal_def result_simps proposal_verify_iff split: option.splits)
  then obtain h where h: "find_proposal ldb h = Some p'" by (auto simp: active_row_def split: option.splits)
  then have "p' = proposal_row_of (pr_payload p')" and "pr_proposal_hash p' = h"
    using inv fetchone_Some [OF h] by (auto simp: live_inv_def rows_ok_def proposal_row_ok_def)
  then have "h = tp_proposal_hash q" using p'(2) proposal_row_of_fields(1) by metis
  with h p p'(1) show ?thesis by simp
qed

section \<open>The executable quantity\<close>

lemma ilog10_lower:
  assumes "0 < q"
  shows "10 powi (ilog10 q) \<le> q"
proof -
  obtain n d where nd: "quotient_of q = (n, d)" by (cases "quotient_of q")
  have d: "0 < d" using nd by (rule quotient_of_denom_pos)
  have q: "q = of_int n / of_int d" using nd by (rule quotient_of_div)
  have n: "0 < n" using assms d q by (simp add: zero_less_divide_iff)
  define a where "a = floorlog 10 (nat n)"
  define b where "b = floorlog 10 (nat d)"
  have pow: "10 ^ (floorlog 10 (nat m) - 1) \<le> m \<and> m < 10 ^ floorlog 10 (nat m) \<and> 0 < floorlog 10 (nat m)"
    if "0 < m" for m :: int
    using floorlog_bounds [of "nat m" 10] that by (auto simp: nat_less_iff le_nat_iff floorlog_def split: if_splits)
  have na: "(10::rat) ^ (a - 1) \<le> of_int n \<and> 0 < a"
    using pow [OF n] unfolding a_def [symmetric] by (metis of_int_le_iff of_int_numeral of_int_power)
  have db: "of_int d < (10::rat) ^ b"
    using pow [OF d] unfolding b_def [symmetric] by (metis of_int_less_iff of_int_numeral of_int_power)
  have tenth: "(10::rat) ^ a / 10 = 10 ^ (a - 1)" using na by (cases a) simp_all
  have "(10 ^ a / 10) / 10 ^ b \<le> (of_int n :: rat) / of_int d"
    by (rule frac_le) (use n d na db tenth in simp_all)
  then have "(10::rat) powi (int a - int b - 1) \<le> q" by (simp add: q power_int_diff)
  then show ?thesis by (simp add: ilog10_def nd Let_def a_def [symmetric] b_def [symmetric])
qed

text \<open>Rounding to 28 significant digits moves a positive number up by at most half a unit of its last
  digit.\<close>

lemma dec28_le:
  assumes "0 < q"
  shows "dec28 q \<le> q * (1 + 1 / 10 ^ 27)"
proof -
  define e where "e = ilog10 q - 27"
  have c: "(10::rat) powi e * 10 powi (- e) = 1" by (simp add: power_int_minus)
  have "of_int (rne (q * 10 powi (- e))) \<le> q * 10 powi (- e) + 1 / 2" using rne_near [of "q * 10 powi (- e)"] by linarith
  then have "of_int (rne (q * 10 powi (- e))) * 10 powi e \<le> (q * 10 powi (- e) + 1 / 2) * 10 powi e"
    by (rule mult_right_mono) simp
  also have "\<dots> = q * ((10::rat) powi e * 10 powi (- e)) + 10 powi e / 2" by (simp add: algebra_simps)
  finally have up: "dec28 q \<le> q + (10::rat) powi e / 2" using assms by (simp add: c dec28_def Let_def e_def [symmetric])
  have "(10::rat) powi e = 10 powi (ilog10 q) / 10 ^ 27" by (simp add: e_def power_int_diff)
  then have "(10::rat) powi e \<le> q / 10 ^ 27" using ilog10_lower [OF assms] by (simp add: divide_right_mono)
  then have "(10::rat) powi e / 2 \<le> q / 10 ^ 27" using assms by (simp add: field_simps)
  then have "q + (10::rat) powi e / 2 \<le> q + q / 10 ^ 27" by (rule add_left_mono)
  also have "\<dots> = q * (1 + 1 / 10 ^ 27)" by (simp add: distrib_left)
  finally show ?thesis using up by (rule order_trans [rotated])
qed

text \<open>The decimal text of a positive float is positive.\<close>

lemma shortest_from_pos:
  assumes "0 < q" and "0 < p"
  shows "0 < fst (shortest_from q p n)"
  using assms(2)
proof (induction n arbitrary: p)
  case 0
  define e where "e = ilog10 q - int p + 1"
  have "(10::rat) powi (ilog10 q) * 10 powi (- e) \<le> q * 10 powi (- e)"
    by (rule mult_right_mono) (use ilog10_lower [OF assms(1)] in simp_all)
  moreover have "(10::rat) powi (ilog10 q) * 10 powi (- e) = 10 powi (int (p - 1))"
    using 0 by (simp add: e_def power_int_add [symmetric])
  moreover have "(1::rat) \<le> 10 powi (int (p - 1))" by (simp add: power_int_of_nat)
  ultimately have "1 \<le> q * 10 powi (- e)" by linarith
  then have "rne 1 \<le> rne (q * 10 powi (- e))" by (rule rne_mono)
  then show ?case using rne_of_int [of 1] by (simp add: e_def [symmetric])
next
  case (Suc n)
  have "0 < m" if "rval (of_int m * 10 powi e) = q" for m e :: int
  proof (rule ccontr)
    assume "\<not> 0 < m"
    then have "of_int m * (10::rat) powi e \<le> 0" by (simp add: mult_le_0_iff)
    then have "rval (of_int m * 10 powi e) \<le> rval 0" by (rule rval_mono)
    with that assms(1) show False by simp
  qed
  then have "0 < m" if "dec_digits q p = Some (m, e)" for m e
    using that by (auto simp: dec_digits_def Let_def split: if_splits)
  then show ?case using Suc by (auto split: option.splits)
qed

lemma decimal_of_float_pos:
  assumes "0 < q"
  shows "0 < decimal_of_float q"
proof -
  obtain m e where s: "shortest q = (m, e)" by fastforce
  then have "0 < m" using shortest_from_pos [OF assms, of 1 16] by (simp add: shortest_def)
  then show ?thesis using assms s by (simp add: decimal_of_float_def)
qed

lemma order_quantity_bound:
  assumes "order_quantity n p = Inr q" and pos: "0 < decimal_of_float n" "0 < decimal_of_float p"
  shows "q * decimal_of_float p \<le> decimal_of_float n * (1 + 1 / 10 ^ 27) \<and> (\<exists>k::int. q = of_int k / 10000)"
proof -
  let ?n = "decimal_of_float n" and ?p = "decimal_of_float p"
  have q: "q = of_int \<lfloor>dec28 (?n / ?p) * 10000\<rfloor> / 10000"
    using assms(1) by (auto simp: order_quantity_def Let_def split: if_splits)
  then have "q * 10000 \<le> dec28 (?n / ?p) * 10000" using of_int_floor_le [of "dec28 (?n / ?p) * 10000"] by simp
  then have "q \<le> dec28 (?n / ?p)" by simp
  also have "\<dots> \<le> ?n / ?p * (1 + 1 / 10 ^ 27)" by (rule dec28_le) (use pos in simp)
  finally have "q * ?p \<le> ?n / ?p * (1 + 1 / 10 ^ 27) * ?p" by (rule mult_right_mono) (use pos in simp)
  also have "\<dots> = ?n * (1 + 1 / 10 ^ 27)" using pos by (simp add: field_simps)
  finally show ?thesis using q by blast
qed

lemma compile_executable_ok:
  assumes "compile_executable_intent_fields H c p a policy = Inr x"
  obtains q where "order_quantity (fval (tp_recommended_notional_usdt p)) (fval (entry_mid p)) = Inr q"
    and "ex_quantity x = rnd64 q" and "\<not> rnd64 q \<le> 0" and "proposal_verify H p = Inr p"
    and "\<not> entry_mid p \<le> 0" and "tp_entry_low p \<le> entry_mid p \<and> entry_mid p \<le> tp_entry_high p"
    and "ex_price x = entry_mid p \<and> ex_stop_loss x = tp_stop_loss p \<and> ex_leverage x = tp_leverage p
      \<and> ex_side x = order_side c \<and> ex_symbol x = cp_symbol c \<and> ex_risk_policy_hash x = tp_risk_policy_hash p"
    and "tp_action p = ''OPEN_LONG'' \<longrightarrow> order_side c = ''BUY''" and "tp_action p = ''OPEN_SHORT'' \<longrightarrow> order_side c = ''SELL''"
    and "tp_case_hash p = cp_case_hash c"
  using assms unfolding compile_executable_intent_fields_def
  by (auto simp: result_simps proposal_verify_iff split: if_splits)

section \<open>Properties\<close>


text \<open>C4: the executable order stays inside what was approved. Its quantity is a whole number of lots of
  0.0001, and at its limit price, which lies in the approved entry range, it is worth no more than the
  approved notional, up to the rounding of the 28-digit decimal division; stop, leverage and risk policy
  are the proposal's and the side is the one of the approved direction.\<close>

theorem executable_within_notional:
  assumes "compile_executable_intent_fields H c p a policy = Inr x"
  shows "\<exists>k::int. ex_quantity x = rnd64 (of_int k / 10000) \<and> 0 < k
    \<and> of_int k / 10000 * decimal_of_float (fval (ex_price x))
        \<le> decimal_of_float (fval (tp_recommended_notional_usdt p)) * (1 + 1 / 10 ^ 27)
    \<and> tp_entry_low p \<le> ex_price x \<and> ex_price x \<le> tp_entry_high p
    \<and> ex_stop_loss x = tp_stop_loss p \<and> ex_leverage x = tp_leverage p \<and> ex_risk_policy_hash x = tp_risk_policy_hash p
    \<and> (tp_action p = ''OPEN_LONG'' \<longrightarrow> ex_side x = ''BUY'') \<and> (tp_action p = ''OPEN_SHORT'' \<longrightarrow> ex_side x = ''SELL'')"
proof -
  obtain q where q: "order_quantity (fval (tp_recommended_notional_usdt p)) (fval (entry_mid p)) = Inr q"
    "ex_quantity x = rnd64 q" "\<not> rnd64 q \<le> 0" "proposal_verify H p = Inr p" "\<not> entry_mid p \<le> 0"
    and mid: "tp_entry_low p \<le> entry_mid p \<and> entry_mid p \<le> tp_entry_high p"
    and x: "ex_price x = entry_mid p \<and> ex_stop_loss x = tp_stop_loss p \<and> ex_leverage x = tp_leverage p
      \<and> ex_side x = order_side c \<and> ex_symbol x = cp_symbol c \<and> ex_risk_policy_hash x = tp_risk_policy_hash p"
    and side: "tp_action p = ''OPEN_LONG'' \<longrightarrow> order_side c = ''BUY''" "tp_action p = ''OPEN_SHORT'' \<longrightarrow> order_side c = ''SELL''"
    using assms by (rule compile_executable_ok)
  obtain n where n: "tp_recommended_notional_usdt p = Fin n" "0 \<le> n"
    using q(4) Nonnegative_Fin by (fastforce simp: proposal_verify_iff proposal_fields_ok_def)
  obtain h where "tp_entry_high p = Fin h"
    using q(4) Nonnegative_Fin by (fastforce simp: proposal_verify_iff proposal_fields_ok_def)
  then obtain m where m: "entry_mid p = Fin m" "0 < m" using mid q(5) by (cases "entry_mid p") (auto simp: zero_flt_def)
  have "0 < q"
  proof (rule ccontr)
    assume "\<not> 0 < q"
    then have "rnd64 q \<le> rnd64 0" by (intro rnd64_mono) simp
    with q(3) show False by (simp add: zero_flt_def)
  qed
  then have "n \<noteq> 0" using q(1) n by (auto simp: order_quantity_def decimal_of_float_def dec28_def)
  then have "q * decimal_of_float m \<le> decimal_of_float n * (1 + 1 / 10 ^ 27) \<and> (\<exists>k::int. q = of_int k / 10000)"
    using order_quantity_bound [of n m q] decimal_of_float_pos [of n] decimal_of_float_pos [OF m(2)] q(1) n m(1) by simp
  then obtain k :: int where k: "q = of_int k / 10000" "q * decimal_of_float m \<le> decimal_of_float n * (1 + 1 / 10 ^ 27)" by blast
  then have "0 < k" using \<open>0 < q\<close> by simp
  moreover have "ex_quantity x = rnd64 (of_int k / 10000)" using q(2) k(1) by (simp only:)
  moreover have "of_int k / 10000 * decimal_of_float (fval (ex_price x))
      \<le> decimal_of_float (fval (tp_recommended_notional_usdt p)) * (1 + 1 / 10 ^ 27)"
    using k(2) x n m unfolding k(1) by (simp only: fval.simps)
  ultimately show ?thesis using x side mid by (intro exI [of _ k]) (simp only: simp_thms)
qed

section \<open>A concrete intent\<close>

definition sample_account :: account_snapshot where
  "sample_account =
     \<lparr>as_snapshot_hash = hash_a, as_account_id = ''acct-1'', as_environment = ''DRY_RUN'', as_credential_namespace = ''NONE'',
      as_rest_base_url = ''local://paper'', as_observed_at_ms = 1000, as_last_rest_at_ms = 1000, as_stream_connected = True,
      as_reconciled = True, as_conflict_count = 0, as_equity_usdt = Fin 1000, as_available_balance_usdt = Fin 1000,
      as_wallet_balance_usdt = Fin 1000, as_margin_used_usdt = Fin 0, as_daily_loss_usdt = Fin 0, as_drawdown_pct = Fin 0,
      as_peak_equity_usdt = Fin 1000, as_positions = [], as_orders = [], as_quality = ''OK''\<rparr>"

lemma sample_account_verify [simp]: "snapshot_verify const_hash sample_account = Inr sample_account"
  unfolding snapshot_verify_iff snapshot_digest_def digest_const
  by (simp add: sample_account_def snapshot_fields_ok_def Nonnegative_def one_flt_def)

lemma sample_quantity: "order_quantity 50 100 = Inr (1 / 2)"
  by code_simp

lemma sample_mid: "entry_mid sample_proposal = Fin 100"
proof -
  have "py_round (Fin 100) 2 = Fin 100" using rne_of_int [of 10000] by simp
  moreover have "quot (Fin 100 + Fin 100) (lit 2) = Fin 100" by simp
  ultimately show ?thesis by (simp only: entry_mid_def) (simp add: sample_proposal_def)
qed

lemma sample_quantity_positive: "Positive (Fin (1 / 2))"
  by (simp add: Positive_def)

lemma sample_lot: "Fin (1 / 2) \<le> 0 \<longleftrightarrow> False"
  by (simp add: zero_flt_def)

definition sample_executable :: executable where
  "sample_executable =
     \<lparr>ex_symbol = ''BTCUSDT'', ex_side = ''BUY'', ex_order_type = ''LIMIT'', ex_price = Fin 100, ex_quantity = Fin (1 / 2),
      ex_leverage = 2, ex_stop_loss = Fin 50, ex_take_profit_1 = Fin 110, ex_take_profit_2 = Some (Fin 120),
      ex_risk_policy_hash = hash_a, ex_environment = ''DRY_RUN'', ex_account_authority = ''acct-1''\<rparr>"

lemma sample_executable_compile:
  "compile_executable_intent_fields const_hash sample_case sample_proposal sample_account None = Inr sample_executable"
  unfolding compile_executable_intent_fields_def sample_mid
  by (simp add: sample_quantity sample_lot)
    (simp add: sample_proposal_def sample_case_def sample_account_def sample_executable_def order_side_def
      account_authority_ok_def)

theorem executable_within_notional_witness:
  "\<exists>k::int. ex_quantity sample_executable = rnd64 (of_int k / 10000) \<and> 0 < k
    \<and> of_int k / 10000 * decimal_of_float (fval (ex_price sample_executable))
        \<le> decimal_of_float (fval (tp_recommended_notional_usdt sample_proposal)) * (1 + 1 / 10 ^ 27)
    \<and> ex_side sample_executable = ''BUY''"
proof -
  have "tp_action sample_proposal = ''OPEN_LONG''" by (simp add: sample_proposal_def)
  with executable_within_notional [OF sample_executable_compile] show ?thesis by metis
qed

lemma sample_journal:
  "get_proposal const_hash sample_approved hash_a = Inr sample_proposal"
  "get_case const_hash sample_approved ''case-1'' = Inr sample_case"
  "active_proposal const_hash sample_approved ''case-1'' = Inr (Some sample_proposal)"
  "find_approval sample_approved ''event-1'' = Some sample_record" "ap_action sample_record = ''APPROVE''"
  "ap_proposal_hash sample_record = hash_a" "ap_case_hash sample_record = hash_a" "ap_actor sample_record = ''alice''"
proof -
  have t: "trade_proposals sample_approved = [proposal_row_of sample_proposal]"
    "approval_records sample_approved = [sample_record]"
    by (simp_all add: sample_approved_def sample_waiting_eq record_callback_def callback_live_def sample_row_def
        action_state_def transition_row_def allowed_edge_def not_approvable_def update_where_def sample_record_def)
  show "get_proposal const_hash sample_approved hash_a = Inr sample_proposal" by (simp add: get_proposal_def t)
  show "get_case const_hash sample_approved ''case-1'' = Inr sample_case"
    by (simp add: get_case_def sample_approved_cases sample_row_def)
  show "active_proposal const_hash sample_approved ''case-1'' = Inr (Some sample_proposal)"
    by (simp add: active_proposal_def sample_approved_cases sample_row_def active_row_def t)
  show "find_approval sample_approved ''event-1'' = Some sample_record" "ap_action sample_record = ''APPROVE''"
    "ap_proposal_hash sample_record = hash_a" "ap_case_hash sample_record = hash_a" "ap_actor sample_record = ''alice''"
    by (simp_all add: t sample_record_def new_approval_def)
qed

lemma sample_authority_ok:
  "approval_authority const_hash sample_approved sample_account hash_a ''event-1'' (Some [''alice'']) 2000 =
     Inr (sample_proposal, sample_case, sample_record)"
proof -
  have q: "as_quality sample_account = ''OK''" "as_reconciled sample_account" by (simp_all add: sample_account_def)
  show ?thesis unfolding approval_authority_def by (simp add: sample_journal q)
qed

definition sample_intent :: trade_intent where
  "sample_intent = (new_intent const_hash sample_proposal sample_case sample_record ''event-1'' sample_account sample_executable 2000)
     \<lparr>ti_intent_hash := hash_a\<rparr>"

lemma sample_intent_validate:
  "intent_validate const_hash True
     (new_intent const_hash sample_proposal sample_case sample_record ''event-1'' sample_account sample_executable 2000)
     = Inr sample_intent"
proof -
  have "intent_fields_ok (new_intent const_hash sample_proposal sample_case sample_record ''event-1'' sample_account sample_executable 2000)"
    by (simp add: intent_fields_ok_def new_intent_def canonical_execution_identity_def sample_executable_def sample_account_def
        sample_quantity_positive [unfolded Positive_def] Positive_def hash_a_def const_hash_def is_hash_a [unfolded hash_a_def])
  then show ?thesis
    by (simp add: intent_validate_def intent_digest_def sample_intent_def)
      (simp add: new_intent_def canonical_execution_identity_def Let_def)
qed

lemma sample_build:
  "build_trade_intent const_hash sample_approved sample_account hash_a ''event-1'' (Some [''alice'']) 2000 None None False
     None empty_exec_db = (Inr sample_intent, snd (account_save const_hash sample_account ''REST_RECONCILED'' empty_exec_db))"
  by (simp add: build_trade_intent_def sample_authority_ok sample_executable_compile account_save_def account_event_types_def
      empty_exec_db_def sample_intent_validate Let_def)


end
