(* ===== verification/Authorization.thy ===== *)
theory Authorization
  imports Intent_Safety
begin

text \<open>
  Pre-execution authorizations (\<open>execution/authorization.py\<close>): the short-lived receipt that binds an
  intent to the account snapshot and market observation it was validated against, and the store that
  issues, loads, claims and refreshes it. A claim is the right to place the entry order of an intent.
\<close>

section \<open>Receipts\<close>

definition authorization_values :: "authorization \<Rightarrow> (string \<times> json) list" where
  "authorization_values u =
     [(''intent_id'', JStr (au_intent_id u)), (''intent_hash'', JStr (au_intent_hash u)),
      (''proposal_hash'', JStr (au_proposal_hash u)), (''case_hash'', JStr (au_case_hash u)),
      (''approval_event_id'', JStr (au_approval_event_id u)), (''approval_hash'', JStr (au_approval_hash u)),
      (''risk_policy_hash'', JStr (au_risk_policy_hash u)), (''account_snapshot_hash'', JStr (au_account_snapshot_hash u)),
      (''market_observation_hash'', JStr (au_market_observation_hash u)),
      (''execution_compilation_hash'', JStr (au_execution_compilation_hash u)), (''environment'', JStr (au_environment u)),
      (''validated_at_ms'', JInt (au_validated_at_ms u)), (''expires_at_ms'', JInt (au_expires_at_ms u))]"

definition authorization_json :: "authorization \<Rightarrow> json" where
  "authorization_json u = JObj ((''authorization_id'', JStr (au_authorization_id u)) # authorization_values u
     @ [(''validator_version'', JStr (au_validator_version u))])"

definition authorization_fields_ok :: "authorization \<Rightarrow> bool" where
  "authorization_fields_ok u \<longleftrightarrow> is_hash (au_intent_hash u) \<and> is_hash (au_proposal_hash u) \<and> is_hash (au_case_hash u)
     \<and> is_hash (au_approval_hash u) \<and> is_hash (au_risk_policy_hash u) \<and> is_hash (au_account_snapshot_hash u)
     \<and> is_hash (au_market_observation_hash u) \<and> is_hash (au_execution_compilation_hash u) \<and> au_environment u = ''TESTNET''
     \<and> au_validator_version u \<in> {''PRE_EXECUTION_VALIDATOR_R2'', ''PRE_EXECUTION_VALIDATOR_R3''}"

definition authorization_validate :: "hasher \<Rightarrow> bool \<Rightarrow> authorization \<Rightarrow> authorization res" where
  "authorization_validate H build u =
     (if \<not> authorization_fields_ok u then Inl (ValueError ''validation error'')
      else if \<not> (0 \<le> au_validated_at_ms u \<and> au_validated_at_ms u < au_expires_at_ms u)
      then Inl (ValueError ''authorization chronology invalid'')
      else if build \<and> au_authorization_hash u = [] then Inr (u\<lparr>au_authorization_hash := digest H (authorization_json u)\<rparr>)
      else if au_authorization_hash u \<noteq> digest H (authorization_json u) then Inl (ValueError ''authorization hash mismatch'')
      else Inr u)"

definition authorization_verify :: "hasher \<Rightarrow> authorization \<Rightarrow> authorization res" where
  "authorization_verify H u = authorization_validate H False u"

section \<open>Issue\<close>

abbreviation find_authorization :: "exec_db \<Rightarrow> string \<Rightarrow> authorization_row option" where
  "find_authorization db aid \<equiv> fetchone (\<lambda>r. az_authorization_id r = aid) (live_pre_execution_authorizations db)"

abbreviation find_claim :: "exec_db \<Rightarrow> string \<Rightarrow> claim_row option" where
  "find_claim db iid \<equiv> fetchone (\<lambda>c. cl_intent_id c = iid) (live_execution_claims db)"

definition authorization_row_of :: "authorization \<Rightarrow> string \<Rightarrow> string \<Rightarrow> authorization_row" where
  "authorization_row_of u iid status =
     \<lparr>az_authorization_id = au_authorization_id u, az_authorization_hash = au_authorization_hash u, az_intent_id = iid,
      az_status = status, az_payload = u\<rparr>"

definition authorization_collides :: "authorization \<Rightarrow> exec_db \<Rightarrow> bool" where
  "authorization_collides u db \<longleftrightarrow> list_ex (\<lambda>r. az_authorization_id r = au_authorization_id u
     \<or> az_authorization_hash r = au_authorization_hash u) (live_pre_execution_authorizations db)"

definition add_market :: "market_observation \<Rightarrow> exec_db \<Rightarrow> exec_db" where
  "add_market m db =
     (if list_ex (\<lambda>r. mr_observation_hash r = mo_observation_hash m) (live_execution_market_observations db) then db
      else db\<lparr>live_execution_market_observations := live_execution_market_observations db @
             [\<lparr>mr_observation_hash = mo_observation_hash m, mr_payload = m\<rparr>]\<rparr>)"

definition issued :: "hasher \<Rightarrow> trade_intent \<Rightarrow> account_snapshot \<Rightarrow> market_observation \<Rightarrow> executable \<Rightarrow> int \<Rightarrow> int \<Rightarrow> authorization" where
  "issued H i a m x now expires =
     (let u = \<lparr>au_authorization_id = [], au_authorization_hash = [], au_intent_id = ti_intent_id i,
               au_intent_hash = ti_intent_hash i, au_proposal_hash = ti_proposal_hash i, au_case_hash = ti_case_hash i,
               au_approval_event_id = ti_approval_event_id i, au_approval_hash = ti_approval_hash i,
               au_risk_policy_hash = ti_risk_policy_hash i, au_account_snapshot_hash = as_snapshot_hash a,
               au_market_observation_hash = mo_observation_hash m,
               au_execution_compilation_hash = digest H (executable_json x), au_environment = ''TESTNET'',
               au_validated_at_ms = now, au_expires_at_ms = expires,
               au_validator_version = ''PRE_EXECUTION_VALIDATOR_R3''\<rparr>
      in u\<lparr>au_authorization_id := ''auth_'' @ take 32 (digest H (JObj (authorization_values u)))\<rparr>)"

definition issue_body :: "trade_intent \<Rightarrow> market_observation \<Rightarrow> authorization \<Rightarrow> int \<Rightarrow> (exec_db, unit) dbop" where
  "issue_body i m u now db =
     (case find_intent db (ti_intent_id i) of
        None \<Rightarrow> (Inl (ExecutionBlocked ''AUTHORIZATION_INTENT_NOT_PERSISTED''), db)
      | Some row \<Rightarrow>
          if ir_intent_hash row \<noteq> ti_intent_hash i then (Inl (ExecutionBlocked ''AUTHORIZATION_INTENT_NOT_PERSISTED''), db)
          else if ir_status row \<notin> {''PENDING_VALIDATION'', ''AUTHORIZED'', ''VALIDATED''}
          then (Inl (ExecutionBlocked ''INTENT_NOT_ELIGIBLE_FOR_AUTHORIZATION''), db)
          else (let db1 = add_market m db;
                    db2 = (if authorization_collides u db1 then db1
                           else db1\<lparr>live_pre_execution_authorizations := live_pre_execution_authorizations db1 @
                                   [authorization_row_of u (ti_intent_id i) ''ISSUED'']\<rparr>)
                in (Inr (), set_intent_status (ti_intent_id i) ''AUTHORIZED'' (Some (ir_status row))
                              ''PRE_EXECUTION_VALIDATED'' now db2)))"

text \<open>The snapshot is saved in its own transaction before the receipt, so it stays when the second one
  raises.\<close>

definition issue ::
  "hasher \<Rightarrow> trade_intent \<Rightarrow> account_snapshot \<Rightarrow> market_observation \<Rightarrow> executable \<Rightarrow> int \<Rightarrow> int \<Rightarrow> (exec_db, authorization) dbop" where
  "issue H i a m x now expires db =
     (case bindR (snapshot_verify H a) (\<lambda>_. bindR (market_verify H m) (\<lambda>_.
             authorization_validate H True (issued H i a m x now expires))) of
        Inl e \<Rightarrow> (Inl e, db)
      | Inr u \<Rightarrow>
     (case account_save H a ''REST_RECONCILED'' db of
        (Inl e, db1) \<Rightarrow> (Inl e, db1)
      | (Inr _, db1) \<Rightarrow>
     (case transaction (issue_body i m u now) db1 of
        (Inl e, db2) \<Rightarrow> (Inl e, db2)
      | (Inr _, db2) \<Rightarrow> (Inr u, db2))))"

section \<open>Load\<close>

definition authorization_bound :: "authorization \<Rightarrow> trade_intent \<Rightarrow> account_snapshot \<Rightarrow> market_observation \<Rightarrow> bool" where
  "authorization_bound u i a m \<longleftrightarrow> as_snapshot_hash a = au_account_snapshot_hash u
     \<and> mo_observation_hash m = au_market_observation_hash u \<and> ti_intent_hash i = au_intent_hash u
     \<and> ti_environment i = au_environment u \<and> ti_proposal_hash i = au_proposal_hash u \<and> ti_case_hash i = au_case_hash u
     \<and> ti_approval_event_id i = au_approval_event_id u \<and> ti_approval_hash i = au_approval_hash u
     \<and> ti_risk_policy_hash i = au_risk_policy_hash u"

definition load_body ::
  "hasher \<Rightarrow> exec_db \<Rightarrow> string \<Rightarrow> (authorization \<times> trade_intent \<times> account_snapshot \<times> market_observation) res" where
  "load_body H db aid =
     (case find_authorization db aid of
        None \<Rightarrow> Inl (ExecutionBlocked ''AUTHORIZATION_NOT_FOUND'')
      | Some row \<Rightarrow>
     bindR (authorization_verify H (az_payload row)) (\<lambda>u.
       if au_authorization_id u \<noteq> aid \<or> au_authorization_hash u \<noteq> az_authorization_hash row \<or> au_intent_id u \<noteq> az_intent_id row
       then Inl (ExecutionBlocked ''AUTHORIZATION_HASH_MISMATCH'')
       else (case (fetchone (\<lambda>r. sr_snapshot_hash r = au_account_snapshot_hash u) (live_account_snapshots db),
                   fetchone (\<lambda>r. mr_observation_hash r = au_market_observation_hash u) (live_execution_market_observations db)) of
               (Some arow, Some mrow) \<Rightarrow>
                 bindR (snapshot_verify H (sr_payload arow)) (\<lambda>a. bindR (market_verify H (mr_payload mrow)) (\<lambda>m.
                 bindR (get_intent H db (au_intent_id u)) (\<lambda>oi.
                   case oi of
                     None \<Rightarrow> Inl (ExecutionBlocked ''AUTHORIZATION_INTENT_NOT_PERSISTED'')
                   | Some i \<Rightarrow>
                       if authorization_bound u i a m then Inr (u, i, a, m)
                       else Inl (ExecutionBlocked ''AUTHORIZATION_BINDING_MISMATCH''))))
             | _ \<Rightarrow> Inl (ExecutionBlocked ''AUTHORIZATION_OBSERVATION_NOT_FOUND''))))"

text \<open>Every exception but \<open>ExecutionBlocked\<close> is turned into a hash mismatch.\<close>

definition load ::
  "hasher \<Rightarrow> exec_db \<Rightarrow> string \<Rightarrow> (authorization \<times> trade_intent \<times> account_snapshot \<times> market_observation) res" where
  "load H db aid =
     (case load_body H db aid of
        Inl (ExecutionBlocked e) \<Rightarrow> Inl (ExecutionBlocked e)
      | Inl _ \<Rightarrow> Inl (ExecutionBlocked ''AUTHORIZATION_HASH_MISMATCH'')
      | Inr r \<Rightarrow> Inr r)"

definition for_claimed_intent :: "exec_db \<Rightarrow> string \<Rightarrow> string res" where
  "for_claimed_intent db iid =
     (case find_claim db iid of None \<Rightarrow> Inl (ExecutionBlocked ''AUTHORIZATION_REQUIRED'') | Some c \<Rightarrow> Inr (cl_authorization_id c))"

section \<open>Claim and refresh\<close>

definition set_authorization_status :: "string \<Rightarrow> string \<Rightarrow> exec_db \<Rightarrow> exec_db" where
  "set_authorization_status aid status db = db\<lparr>live_pre_execution_authorizations :=
     update_where (\<lambda>r. az_authorization_id r = aid) (\<lambda>r. r\<lparr>az_status := status\<rparr>) (live_pre_execution_authorizations db)\<rparr>"

definition claim :: "authorization \<Rightarrow> int \<Rightarrow> (exec_db, bool) dbop" where
  "claim u now db =
     (case find_claim db (au_intent_id u) of
        Some _ \<Rightarrow> (Inr False, db)
      | None \<Rightarrow>
     (case (find_intent db (au_intent_id u), find_authorization db (au_authorization_id u)) of
        (Some row, Some receipt) \<Rightarrow>
          if ir_intent_hash row \<noteq> au_intent_hash u \<or> az_authorization_hash receipt \<noteq> au_authorization_hash u
             \<or> ir_status row \<noteq> ''AUTHORIZED'' \<or> az_status receipt \<noteq> ''ISSUED''
          then (Inl (ExecutionBlocked ''AUTHORIZATION_NOT_VALIDATED''), db)
          else (Inr True,
                set_intent_status (au_intent_id u) ''SUBMITTING'' (Some ''AUTHORIZED'') ''AUTHORIZATION_CLAIMED'' now
                  (set_authorization_status (au_authorization_id u) ''CLAIMED''
                    (db\<lparr>live_execution_claims := live_execution_claims db @
                       [\<lparr>cl_intent_id = au_intent_id u, cl_authorization_id = au_authorization_id u, cl_claimed_at_ms = now\<rparr>]\<rparr>)))
      | _ \<Rightarrow> (Inl (ExecutionBlocked ''AUTHORIZATION_NOT_VALIDATED''), db)))"

definition refreshed :: "hasher \<Rightarrow> authorization \<Rightarrow> account_snapshot \<Rightarrow> market_observation \<Rightarrow> executable \<Rightarrow> int \<Rightarrow> authorization" where
  "refreshed H u a m x now =
     (let v = u\<lparr>au_account_snapshot_hash := as_snapshot_hash a, au_market_observation_hash := mo_observation_hash m,
               au_execution_compilation_hash := digest H (executable_json x), au_validated_at_ms := now,
               au_validator_version := ''PRE_EXECUTION_VALIDATOR_R3'', au_authorization_hash := []\<rparr>
      in v\<lparr>au_authorization_id := ''auth_'' @ take 32 (digest H (JObj (authorization_values v
              @ [(''validator_version'', JStr (au_validator_version v))])))\<rparr>)"

definition claim_owned :: "authorization \<Rightarrow> exec_db \<Rightarrow> bool" where
  "claim_owned u db \<longleftrightarrow>
     (case find_claim db (au_intent_id u) of None \<Rightarrow> False | Some c \<Rightarrow> cl_authorization_id c = au_authorization_id u)
     \<and> (case find_intent db (au_intent_id u) of None \<Rightarrow> False
        | Some r \<Rightarrow> ir_intent_hash r = au_intent_hash u \<and> ir_status r = ''SUBMITTING'')
     \<and> (case find_authorization db (au_authorization_id u) of None \<Rightarrow> False
        | Some r \<Rightarrow> az_authorization_hash r = au_authorization_hash u \<and> az_status r = ''CLAIMED'')
     \<and> \<not> list_ex (\<lambda>o1. od_intent_id o1 = au_intent_id u \<and> \<not> od_is_protective o1) (live_execution_orders db)"

definition log_transition :: "string \<Rightarrow> string option \<Rightarrow> string \<Rightarrow> string \<Rightarrow> int \<Rightarrow> exec_db \<Rightarrow> exec_db" where
  "log_transition iid old new reason now db = db\<lparr>live_intent_transitions := live_intent_transitions db @
     [\<lparr>it_intent_id = iid, it_from_status = old, it_to_status = new, it_reason = reason, it_at_ms = now\<rparr>]\<rparr>"

definition refresh_body :: "authorization \<Rightarrow> market_observation \<Rightarrow> authorization \<Rightarrow> int \<Rightarrow> (exec_db, unit) dbop" where
  "refresh_body previous m u now db =
     (if \<not> claim_owned previous db then (Inl (ExecutionBlocked ''AUTHORIZATION_CLAIM_OWNERSHIP_LOST''), db)
      else (let db1 = add_market m db;
                log = log_transition (au_intent_id previous) (Some ''SUBMITTING'') ''SUBMITTING'' ''FRESH_PLACEMENT_AUTHORITY'' now
            in if au_authorization_id u = au_authorization_id previous then (Inr (), log db1)
               else if authorization_collides u db1
               then (Inl (IntegrityError ''UNIQUE constraint failed: live_pre_execution_authorizations''), db1)
               else (let db2 = db1\<lparr>live_pre_execution_authorizations := live_pre_execution_authorizations db1 @
                                 [authorization_row_of u (au_intent_id previous) ''CLAIMED'']\<rparr>;
                         db3 = set_authorization_status (au_authorization_id previous) ''SUPERSEDED'' db2
                     in (Inr (), log (db3\<lparr>live_execution_claims :=
                           update_where (\<lambda>c. cl_intent_id c = au_intent_id previous)
                             (\<lambda>c. c\<lparr>cl_authorization_id := au_authorization_id u\<rparr>) (live_execution_claims db3)\<rparr>)))))"

definition refresh_claimed ::
  "hasher \<Rightarrow> authorization \<Rightarrow> account_snapshot \<Rightarrow> market_observation \<Rightarrow> executable \<Rightarrow> int \<Rightarrow> (exec_db, authorization) dbop" where
  "refresh_claimed H previous a m x now db =
     (if \<not> (au_validated_at_ms previous \<le> now \<and> now < au_expires_at_ms previous)
      then (Inl (ExecutionBlocked ''AUTHORIZATION_EXPIRED''), db)
      else
     (case bindR (snapshot_verify H a) (\<lambda>_. bindR (market_verify H m) (\<lambda>_.
             authorization_validate H True (refreshed H previous a m x now))) of
        Inl e \<Rightarrow> (Inl e, db)
      | Inr u \<Rightarrow>
     (case account_save H a ''REST_RECONCILED'' db of
        (Inl e, db1) \<Rightarrow> (Inl e, db1)
      | (Inr _, db1) \<Rightarrow>
     (case transaction (refresh_body previous m u now) db1 of
        (Inl e, db2) \<Rightarrow> (Inl e, db2)
      | (Inr _, db2) \<Rightarrow> (Inr u, db2)))))"

end
