(* ===== verification/Protective_Fields.thy ===== *)
theory Protective_Fields
  imports Authorization
begin

text \<open>
  Reading a provider's order document (\<open>execution/protection.py\<close>, the \<open>parse_\<close> and \<open>protective_\<close>
  functions). A field may come under a primary name, an alias or both; a missing, malformed or
  contradictory field is refused and never replaced by a default. A document is a \<open>json\<close> value; object
  keys are distinct, as in a Python dict.
\<close>

section \<open>Decimal text\<close>

text \<open>The numbers the \<open>Decimal\<close> constructor accepts: sign, digits with an optional point, optional
  exponent; underscores are dropped and blanks around the text stripped. \<open>None\<close> stands for a text it
  refuses and for infinities and NaN, which the caller refuses with the same error. The exponent
  limits are those of the C implementation.\<close>

definition is_digit :: "char \<Rightarrow> bool" where
  "is_digit c = (let n = of_char c :: nat in 48 \<le> n \<and> n \<le> 57)"

definition digits_value :: "string \<Rightarrow> int" where
  "digits_value s = foldl (\<lambda>v c. 10 * v + (of_char c - 48)) 0 s"

definition split_sign :: "string \<Rightarrow> int \<times> string" where
  "split_sign s = (case s of [] \<Rightarrow> (1, [])
     | c # cs \<Rightarrow> if c = CHR ''-'' then (- 1, cs) else if c = CHR ''+'' then (1, cs) else (1, s))"

definition parse_exponent :: "string \<Rightarrow> int option" where
  "parse_exponent s =
     (case s of [] \<Rightarrow> Some 0
      | c # cs \<Rightarrow>
          if c = CHR ''e'' \<or> c = CHR ''E'' then
            (case split_sign cs of (sg, ds) \<Rightarrow> if ds \<noteq> [] \<and> list_all is_digit ds then Some (sg * digits_value ds) else None)
          else None)"

definition parse_decimal :: "string \<Rightarrow> rat option" where
  "parse_decimal text =
     (case split_sign (filter (\<lambda>c. c \<noteq> CHR ''_'') (py_strip text)) of (sg, body) \<Rightarrow>
        let whole = takeWhile is_digit body; rest = dropWhile is_digit body;
            frac = (case rest of c # cs \<Rightarrow> if c = CHR ''.'' then takeWhile is_digit cs else [] | [] \<Rightarrow> []);
            tail = (case rest of c # cs \<Rightarrow> if c = CHR ''.'' then dropWhile is_digit cs else rest | [] \<Rightarrow> [])
        in if whole @ frac = [] then None
           else (case parse_exponent tail of
                   None \<Rightarrow> None
                 | Some e \<Rightarrow>
                     let m = digits_value (whole @ frac); k = e - int (length frac)
                     in if k < - 1999999999999999997 \<or> 999999999999999999 < k + int (length (show_int m)) - 1 then None
                        else Some (of_int (sg * m) * 10 powi k)))"

section \<open>Fields\<close>

abbreviation contract_mismatch :: "pyerr + 'a" where
  "contract_mismatch \<equiv> Inl (ExecutionBlocked ''PROTECTION_CONTRACT_MISMATCH'')"

definition order_id_char :: "char \<Rightarrow> bool" where
  "order_id_char c = (let n = of_char c :: nat
     in 65 \<le> n \<and> n \<le> 90 \<or> 97 \<le> n \<and> n \<le> 122 \<or> 48 \<le> n \<and> n \<le> 57 \<or> n = 95 \<or> n = 45)"

definition exchange_identifier :: "json \<Rightarrow> string res" where
  "exchange_identifier v =
     (case v of
        JInt n \<Rightarrow> if 0 < n then Inr (show_int n) else Inl (ExecutionBlocked ''PROTECTION_ORDER_ID_INVALID'')
      | JStr s \<Rightarrow>
          if py_lower s \<notin> {''none'', ''null''} \<and> s \<noteq> [] \<and> length s \<le> 128 \<and> list_all order_id_char s \<and> s \<noteq> ''0''
          then Inr s else Inl (ExecutionBlocked ''PROTECTION_ORDER_ID_INVALID'')
      | _ \<Rightarrow> Inl (ExecutionBlocked ''PROTECTION_ORDER_ID_INVALID''))"

fun exchange_identifiers :: "(string \<times> json) list \<Rightarrow> string list \<Rightarrow> string list res" where
  "exchange_identifiers kvs [] = Inr []"
| "exchange_identifiers kvs (f # fs) =
     (case map_of kvs f of
        None \<Rightarrow> exchange_identifiers kvs fs
      | Some v \<Rightarrow> bindR (exchange_identifier v) (\<lambda>x. bindR (exchange_identifiers kvs fs) (\<lambda>xs. Inr (x # xs))))"

definition parse_protective_exchange_id :: "json \<Rightarrow> string res" where
  "parse_protective_exchange_id raw =
     (case raw of
        JObj kvs \<Rightarrow> bindR (exchange_identifiers kvs [''algoId'', ''orderId'']) (\<lambda>ids.
          case ids of
            [] \<Rightarrow> Inl (ExecutionBlocked ''PROTECTION_ORDER_ID_INVALID'')
          | x # xs \<Rightarrow> if list_all (\<lambda>y. y = x) xs then Inr x else Inl (ExecutionBlocked ''PROTECTION_ORDER_ID_CONFLICT''))
      | _ \<Rightarrow> Inl (ExecutionBlocked ''PROTECTION_ORDER_ID_INVALID''))"

definition parse_protective_bool :: "json \<Rightarrow> bool res" where
  "parse_protective_bool v =
     (case v of
        JBool b \<Rightarrow> Inr b
      | JStr s \<Rightarrow> if py_lower s \<in> {''true'', ''false''} then Inr (py_lower s = ''true'') else contract_mismatch
      | _ \<Rightarrow> contract_mismatch)"

definition parse_canonical_numeric :: "json \<Rightarrow> rat res" where
  "parse_canonical_numeric v =
     (case v of
        JInt n \<Rightarrow> Inr (of_int n)
      | JFloat x \<Rightarrow> (case x of Fin q \<Rightarrow> Inr (decimal_of_float q) | _ \<Rightarrow> contract_mismatch)
      | JStr s \<Rightarrow> (case parse_decimal s of None \<Rightarrow> contract_mismatch | Some d \<Rightarrow> Inr d)
      | _ \<Rightarrow> contract_mismatch)"

text \<open>The shared shape of the field readers: parse what is present, primary first, and require that
  both names agree.\<close>

definition aliased_field :: "(json \<Rightarrow> 'a res) \<Rightarrow> json \<Rightarrow> string \<Rightarrow> string option \<Rightarrow> 'a res" where
  "aliased_field parse raw primary alias =
     (case raw of
        JObj kvs \<Rightarrow>
          (case (map_of kvs primary, case alias of None \<Rightarrow> None | Some a \<Rightarrow> map_of kvs a) of
             (None, None) \<Rightarrow> contract_mismatch
           | (Some p, None) \<Rightarrow> parse p
           | (None, Some a) \<Rightarrow> parse a
           | (Some p, Some a) \<Rightarrow> bindR (parse p) (\<lambda>x. bindR (parse a) (\<lambda>y. if x \<noteq> y then contract_mismatch else Inr x)))
      | _ \<Rightarrow> contract_mismatch)"

definition protective_numeric_field :: "json \<Rightarrow> string \<Rightarrow> string option \<Rightarrow> flt res" where
  "protective_numeric_field raw primary alias =
     bindR (aliased_field parse_canonical_numeric raw primary alias) (\<lambda>d. Inr (rnd64 d))"

definition parse_text :: "string list option \<Rightarrow> json \<Rightarrow> string res" where
  "parse_text allowed v =
     (case v of
        JStr s \<Rightarrow> if (case allowed of None \<Rightarrow> True | Some xs \<Rightarrow> s \<in> set xs) then Inr s else contract_mismatch
      | _ \<Rightarrow> contract_mismatch)"

definition protective_text_field :: "json \<Rightarrow> string \<Rightarrow> string option \<Rightarrow> string list option \<Rightarrow> string res" where
  "protective_text_field raw primary alias allowed = aliased_field (parse_text allowed) raw primary alias"

definition protective_status_field :: "json \<Rightarrow> string \<Rightarrow> string option \<Rightarrow> string list \<Rightarrow> string res" where
  "protective_status_field raw primary alias allowed = protective_text_field raw primary alias (Some allowed)"

definition protective_bool_field :: "json \<Rightarrow> string \<Rightarrow> string option \<Rightarrow> bool res" where
  "protective_bool_field raw primary alias = aliased_field parse_protective_bool raw primary alias"

section \<open>Reading numbers back\<close>

lemma digits_value_append [simp]: "digits_value (xs @ [c]) = 10 * digits_value xs + (of_char c - 48)"
  by (simp add: digits_value_def)

lemma digit_char_ok:
  assumes "n < 10"
  shows "is_digit (digit_char n)" "of_char (digit_char n) - 48 = int n"
proof -
  have "of_char (digit_char n) = 48 + n" using assms by simp
  moreover have "of_char (digit_char n) = int (of_char (digit_char n))" by (rule of_nat_of_char [symmetric])
  ultimately show "is_digit (digit_char n)" "of_char (digit_char n) - 48 = int n"
    using assms by (simp_all add: is_digit_def)
qed

lemma show_nat_digits: "show_nat n \<noteq> [] \<and> list_all is_digit (show_nat n) \<and> digits_value (show_nat n) = int n"
proof (induction n rule: show_nat.induct)
  case (1 n)
  show ?case
  proof (cases "n < 10")
    case True
    then show ?thesis
      by (subst (1 2 3) show_nat.simps) (simp add: digits_value_def digit_char_ok del: digit_char.simps)
  next
    case False
    have m: "n mod 10 < 10" by simp
    have "10 * int (n div 10) + int (n mod 10) = int n" by presburger
    then show ?thesis
      using 1 False
      by (subst (1 2 3) show_nat.simps) (simp add: digit_char_ok [OF m] del: digit_char.simps)
  qed
qed

text \<open>A number printed as text reads back as the number, so a provider may send it either way.\<close>

lemma parse_decimal_show_nat:
  assumes "int (length (show_nat n)) \<le> 10 ^ 18"
  shows "parse_decimal (show_nat n) = Some (of_nat n)"
proof -
  have d: "show_nat n \<noteq> []" "list_all is_digit (show_nat n)" "digits_value (show_nat n) = int n"
    using show_nat_digits by auto
  have c: "\<not> is_space x \<and> x \<noteq> CHR ''_'' \<and> x \<noteq> CHR ''-'' \<and> x \<noteq> CHR ''+''" if "x \<in> set (show_nat n)" for x
    using d(2) that by (auto simp: list_all_iff is_digit_def is_space_def Let_def)
  obtain x xs where x: "show_nat n = x # xs" using d(1) by (cases "show_nat n") auto
  have "dropWhile is_space (show_nat n) = show_nat n" using c x by (cases "show_nat n") auto
  moreover have "dropWhile is_space (rev (show_nat n)) = rev (show_nat n)"
    using c d(1) by (cases "rev (show_nat n)") (auto simp: rev_eq_Cons_iff)
  ultimately have strip: "py_strip (show_nat n) = show_nat n" by (simp add: py_strip_def)
  have flt: "filter (\<lambda>c. c \<noteq> CHR ''_'') (show_nat n) = show_nat n" using c by (simp add: filter_id_conv)
  have sgn: "split_sign (show_nat n) = (1, show_nat n)" using c x by (auto simp: split_sign_def)
  have tw: "takeWhile is_digit (show_nat n) = show_nat n" "dropWhile is_digit (show_nat n) = []"
    using d(2) by (simp_all add: list_all_iff takeWhile_eq_all_conv dropWhile_eq_Nil_conv)
  have "show_int (int n) = show_nat n" by (simp add: show_int_def)
  then show ?thesis
    using assms d(1) by (simp add: parse_decimal_def strip flt sgn tw parse_exponent_def d(3) Let_def)
qed

section \<open>Order identifiers\<close>

lemma exchange_identifier_simps:
  "exchange_identifier (JInt n) = Inr x \<longleftrightarrow> 0 < n \<and> x = show_int n"
  "exchange_identifier (JStr s) = Inr x \<longleftrightarrow> x = s \<and> py_lower s \<notin> {''none'', ''null''} \<and> s \<noteq> [] \<and> length s \<le> 128
     \<and> list_all order_id_char s \<and> s \<noteq> ''0''"
  by (auto simp: exchange_identifier_def)

lemma show_int_pos: "0 < n \<Longrightarrow> show_int n \<noteq> [] \<and> show_int n \<noteq> ''0''"
  using show_nat_digits [of "nat n"] by (auto simp: show_int_def digits_value_def)

lemma exchange_identifier_ok:
  assumes "exchange_identifier v = Inr x"
  shows "x \<noteq> [] \<and> x \<noteq> ''0''"
proof (cases v)
  case (JInt n)
  then have n: "0 < n" and x: "x = show_int n" using assms by (simp_all only: exchange_identifier_simps)
  show ?thesis unfolding x using show_int_pos [OF n] .
next
  case (JStr s)
  then have "x = s \<and> s \<noteq> [] \<and> s \<noteq> ''0''" using assms by (simp only: exchange_identifier_simps simp_thms)
  then show ?thesis by (simp only: simp_thms)
qed (use assms in \<open>simp_all add: exchange_identifier_def\<close>)

lemma parse_exchange_id_iff:
  "parse_protective_exchange_id (JObj kvs) = Inr x \<longleftrightarrow>
     (map_of kvs ''algoId'' \<noteq> None \<or> map_of kvs ''orderId'' \<noteq> None)
     \<and> (\<forall>v. map_of kvs ''algoId'' = Some v \<longrightarrow> exchange_identifier v = Inr x)
     \<and> (\<forall>v. map_of kvs ''orderId'' = Some v \<longrightarrow> exchange_identifier v = Inr x)"
proof -
  have v: "(\<exists>e. r = Inl e) \<or> (\<exists>y. r = Inr y)" for r :: "string res" by (cases r) simp_all
  show ?thesis
    by (cases "map_of kvs ''algoId''"; cases "map_of kvs ''orderId''")
      (use v [of "exchange_identifier (the (map_of kvs ''algoId''))"] v [of "exchange_identifier (the (map_of kvs ''orderId''))"]
        in \<open>auto simp: parse_protective_exchange_id_def split: if_splits\<close>)
qed

lemma parse_exchange_id_str:
  "parse_protective_exchange_id (JObj [(''algoId'', JStr s)]) = Inr x \<Longrightarrow> x = s \<and> s \<noteq> []"
  using exchange_identifier_ok by (auto simp: parse_exchange_id_iff exchange_identifier_def split: if_splits)

section \<open>Properties\<close>

text \<open>A field of a provider document counts only if it is there: reading it under a name and an alias
  succeeds with a value exactly when at least one of the two is present and every one that is present
  parses to that value; so a missing, malformed or contradictory field is always refused.\<close>

theorem aliased_field_iff:
  "aliased_field parse (JObj kvs) primary (Some alias) = Inr x \<longleftrightarrow>
     (\<exists>f \<in> {primary, alias}. map_of kvs f \<noteq> None)
     \<and> (\<forall>f \<in> {primary, alias}. \<forall>v. map_of kvs f = Some v \<longrightarrow> parse v = Inr x)"
  by (cases "map_of kvs primary"; cases "map_of kvs alias") (auto simp: aliased_field_def result_simps)

theorem aliased_field_iff_witness:
  "aliased_field parse_protective_bool (JObj [(''closePosition'', JBool True), (''close'', JStr ''true'')]) ''closePosition'' (Some ''close'') = Inr True"
  unfolding aliased_field_iff by (simp add: parse_protective_bool_def py_lower_def lower_char_def)

text \<open>Numbers survive the way through text: a natural number sent as a JSON string reads as the same
  value as the JSON number itself, for every text short enough for the decimal exponent limit.\<close>

theorem numeric_text_roundtrip:
  assumes "int (length (show_nat n)) \<le> 10 ^ 18"
  shows "parse_canonical_numeric (JStr (show_nat n)) = parse_canonical_numeric (JInt (int n))"
  by (simp add: parse_canonical_numeric_def parse_decimal_show_nat [OF assms])

theorem numeric_text_roundtrip_witness:
  "parse_canonical_numeric (JStr (show_nat 60250)) = parse_canonical_numeric (JInt 60250)"
proof -
  have "length (show_nat 60250) = 5" by (simp add: show_nat.simps)
  then show ?thesis using numeric_text_roundtrip [of 60250] by simp
qed

end
