(* ===== verification/Protection.thy ===== *)
theory Protection
  imports Protective_Fields
begin

text \<open>
  Ownership of protective stops (\<open>execution/protection.py\<close>, class \<open>ProtectionStore\<close>). An owner row is a
  small state machine: RESERVED before any stop, PENDING\_CONFIRMATION once a client id is handed out,
  ACTIVE when the exchange confirmed the stop, CANCEL\_PENDING while a cancel is on its way,
  TERMINAL\_CONFIRMED when the stop is known to be gone, and RELEASED when the position is flat. A
  partial unique index admits one row per symbol outside RELEASED.

  Operations that first read the owner in one connection and then write in another are given with the
  owner they read as an argument of the second part, so that the steps of other processes in between
  are covered.
\<close>

section \<open>Owners\<close>

definition risk_statuses :: "string list" where
  "risk_statuses = [''RESERVED'', ''PENDING_CONFIRMATION'', ''ACTIVE'', ''CANCEL_PENDING'', ''TERMINAL_CONFIRMED'']"

definition owner_key :: "hasher \<Rightarrow> trade_intent \<Rightarrow> string" where
  "owner_key H i = H (ti_intent_hash i @ '':'' @ ti_symbol i @ '':'' @ ti_side i @ '':BOTH:STOP:1'')"

abbreviation find_owner :: "exec_db \<Rightarrow> string \<Rightarrow> owner_row option" where
  "find_owner db k \<equiv> fetchone (\<lambda>w. ow_owner_key w = k) (live_protection_owners db)"

definition owner_identity :: "trade_intent \<Rightarrow> owner_row \<Rightarrow> bool" where
  "owner_identity i w \<longleftrightarrow> (ow_intent_id w, ow_intent_hash w, ow_symbol w, ow_position_side w)
     = (ti_intent_id i, ti_intent_hash i, ti_symbol i, ''BOTH'')"

definition get_owner :: "hasher \<Rightarrow> exec_db \<Rightarrow> trade_intent \<Rightarrow> owner_row option res" where
  "get_owner H db i =
     (case find_owner db (owner_key H i) of
        None \<Rightarrow> Inr None
      | Some w \<Rightarrow> if owner_identity i w then Inr (Some w) else Inl (ExecutionBlocked ''PROTECTION_OWNER_IDENTITY_MISMATCH''))"

definition new_owner :: "hasher \<Rightarrow> trade_intent \<Rightarrow> int \<Rightarrow> owner_row" where
  "new_owner H i now =
     \<lparr>ow_owner_key = owner_key H i, ow_intent_id = ti_intent_id i, ow_intent_hash = ti_intent_hash i,
      ow_symbol = ti_symbol i, ow_position_side = ''BOTH'', ow_protective_client_id = None, ow_exchange_id = None,
      ow_status = ''RESERVED'', ow_quantity = Fin 0, ow_generation = 0, ow_created_at_ms = now, ow_updated_at_ms = now,
      ow_confirmed_at_ms = 0\<rparr>"

definition reserve_owner :: "hasher \<Rightarrow> trade_intent \<Rightarrow> int \<Rightarrow> (exec_db, owner_row) dbop" where
  "reserve_owner H i now db =
     (if list_ex (\<lambda>w. ow_symbol w = ti_symbol i \<and> ow_position_side w = ''BOTH'' \<and> ow_status w \<in> set risk_statuses
                    \<and> ow_owner_key w \<noteq> owner_key H i) (live_protection_owners db)
      then (Inl (ExecutionBlocked ''PROTECTION_OWNER_CONFLICT''), db)
      else (case find_owner db (owner_key H i) of
              None \<Rightarrow> (Inr (new_owner H i now),
                       db\<lparr>live_protection_owners := live_protection_owners db @ [new_owner H i now]\<rparr>)
            | Some w \<Rightarrow>
                if \<not> owner_identity i w then (Inl (ExecutionBlocked ''PROTECTION_OWNER_IDENTITY_MISMATCH''), db)
                else if ow_status w = ''RELEASED'' then (Inl (ExecutionBlocked ''PROTECTION_OWNER_RELEASED''), db)
                else (Inr w, db)))"

definition update_owners :: "(owner_row \<Rightarrow> bool) \<Rightarrow> (owner_row \<Rightarrow> owner_row) \<Rightarrow> exec_db \<Rightarrow> exec_db" where
  "update_owners P f db = db\<lparr>live_protection_owners := update_where P f (live_protection_owners db)\<rparr>"

section \<open>A stop and its client id\<close>

definition stop_client_id :: "hasher \<Rightarrow> string \<Rightarrow> int \<Rightarrow> string" where
  "stop_client_id H key generation = ''bqa_stop_'' @ take 26 (H (key @ '':'' @ show_int generation))"

definition next_client_id_tx :: "hasher \<Rightarrow> owner_row \<Rightarrow> int \<Rightarrow> flt \<Rightarrow> (exec_db, string) dbop" where
  "next_client_id_tx H w now quantity db =
     (let generation = ow_generation w + 1; cid = stop_client_id H (ow_owner_key w) generation
      in (case fetchone (\<lambda>r. ow_owner_key r = ow_owner_key w \<and> ow_status r = ''RESERVED'') (live_protection_owners db) of
            None \<Rightarrow> (Inl (ExecutionBlocked ''PROTECTION_OWNER_CHANGED''), db)
          | Some r \<Rightarrow>
              if ow_generation r \<noteq> ow_generation w \<or> ow_protective_client_id r \<noteq> None
              then (Inl (ExecutionBlocked ''PROTECTION_OWNER_CHANGED''), db)
              else if list_ex (\<lambda>o1. ow_protective_client_id o1 = Some cid) (live_protection_owners db)
              then (Inl (IntegrityError ''UNIQUE constraint failed: live_protection_owners.protective_client_id''), db)
              else (Inr cid, update_owners (\<lambda>r. ow_owner_key r = ow_owner_key w)
                     (\<lambda>r. r\<lparr>ow_generation := generation, ow_protective_client_id := Some cid, ow_exchange_id := None,
                            ow_status := ''PENDING_CONFIRMATION'', ow_quantity := quantity, ow_confirmed_at_ms := 0,
                            ow_updated_at_ms := now\<rparr>) db)))"

definition next_client_id_checked :: "hasher \<Rightarrow> owner_row option \<Rightarrow> int \<Rightarrow> flt \<Rightarrow> (exec_db, string) dbop" where
  "next_client_id_checked H owner now quantity db =
     (case owner of
        None \<Rightarrow> (Inl (ExecutionBlocked ''PROTECTION_OWNER_MISSING''), db)
      | Some w \<Rightarrow>
          if ow_status w \<notin> {''RESERVED'', ''PENDING_CONFIRMATION'', ''ACTIVE''}
          then (Inl (ExecutionBlocked ''PROTECTION_OWNER_MISSING''), db)
          else if ow_protective_client_id w \<noteq> None then (Inl (ExecutionBlocked ''PROTECTION_STOP_UNCERTAIN''), db)
          else next_client_id_tx H w now quantity db)"

definition next_client_id :: "hasher \<Rightarrow> trade_intent \<Rightarrow> int \<Rightarrow> flt \<Rightarrow> (exec_db, string) dbop" where
  "next_client_id H i now quantity db =
     (case get_owner H db i of Inl e \<Rightarrow> (Inl e, db) | Inr w \<Rightarrow> next_client_id_checked H w now quantity db)"

text \<open>The \<open>UPDATE ... WHERE\<close> of the remaining operations: the row of the intent with the given client id,
  in one of the given states.\<close>

definition owned_stop :: "hasher \<Rightarrow> trade_intent \<Rightarrow> string \<Rightarrow> string set \<Rightarrow> owner_row \<Rightarrow> bool" where
  "owned_stop H i cid statuses w \<longleftrightarrow> ow_owner_key w = owner_key H i \<and> ow_intent_id w = ti_intent_id i
     \<and> ow_intent_hash w = ti_intent_hash i \<and> ow_status w \<in> statuses \<and> ow_protective_client_id w = Some cid"

definition unset_or :: "string \<Rightarrow> string option \<Rightarrow> bool" where
  "unset_or xid v \<longleftrightarrow> v = None \<or> v = Some xid"

definition guarded_update ::
  "(owner_row \<Rightarrow> bool) \<Rightarrow> (owner_row \<Rightarrow> owner_row) \<Rightarrow> (exec_db \<Rightarrow> exec_db res) \<Rightarrow> (exec_db, unit) dbop" where
  "guarded_update P f rest db =
     (if rowcount P (live_protection_owners db) \<noteq> 1 then (Inl (ExecutionBlocked ''PROTECTION_OWNER_CHANGED''), db)
      else (case rest (update_owners P f db) of Inl e \<Rightarrow> (Inl e, db) | Inr db' \<Rightarrow> (Inr (), db')))"

definition valid_exchange_id :: "string \<Rightarrow> string res" where
  "valid_exchange_id xid = parse_protective_exchange_id (JObj [(''algoId'', JStr xid)])"

definition pending_exchange_id :: "hasher \<Rightarrow> trade_intent \<Rightarrow> string \<Rightarrow> string \<Rightarrow> int \<Rightarrow> (exec_db, unit) dbop" where
  "pending_exchange_id H i cid xid now db =
     (case valid_exchange_id xid of
        Inl e \<Rightarrow> (Inl e, db)
      | Inr _ \<Rightarrow> guarded_update (\<lambda>w. owned_stop H i cid {''PENDING_CONFIRMATION''} w \<and> unset_or xid (ow_exchange_id w))
                   (\<lambda>w. w\<lparr>ow_exchange_id := Some xid, ow_updated_at_ms := now\<rparr>) Inr db)"

definition begin_cancellation :: "hasher \<Rightarrow> trade_intent \<Rightarrow> string \<Rightarrow> string \<Rightarrow> int \<Rightarrow> (exec_db, unit) dbop" where
  "begin_cancellation H i cid xid now db =
     guarded_update (\<lambda>w. owned_stop H i cid {''ACTIVE'', ''PENDING_CONFIRMATION''} w \<and> unset_or xid (ow_exchange_id w))
       (\<lambda>w. w\<lparr>ow_status := ''CANCEL_PENDING'', ow_exchange_id := Some xid, ow_confirmed_at_ms := 0, ow_updated_at_ms := now\<rparr>)
       Inr db"

section \<open>Confirming a stop\<close>

definition opposite_side :: "string \<Rightarrow> string" where
  "opposite_side s = (if s = ''BUY'' then ''SELL'' else ''BUY'')"

definition stop_order :: "trade_intent \<Rightarrow> string \<Rightarrow> string \<Rightarrow> flt \<Rightarrow> int \<Rightarrow> json \<Rightarrow> order_row" where
  "stop_order i cid xid quantity now doc =
     \<lparr>od_order_id = xid, od_intent_id = ti_intent_id i, od_client_order_id = cid, od_symbol = ti_symbol i,
      od_side = opposite_side (ti_side i), od_status = ''NEW'', od_requested_qty = quantity, od_filled_qty = Fin 0,
      od_avg_price = Fin 0, od_stop_price = Some (ti_stop_loss i), od_is_protective = True, od_reduce_only = True,
      od_exchange_time_ms = now, od_receipt_time_ms = now, od_payload = doc\<rparr>"

text \<open>\<open>INSERT ... ON CONFLICT(order_id) DO UPDATE\<close>: an existing row keeps its other columns; a new row
  must not repeat a client order id.\<close>

definition upsert_order ::
  "order_row \<Rightarrow> (order_row \<Rightarrow> order_row) \<Rightarrow> exec_db \<Rightarrow> exec_db res" where
  "upsert_order o1 f db =
     (if list_ex (\<lambda>r. od_order_id r = od_order_id o1) (live_execution_orders db)
      then Inr (db\<lparr>live_execution_orders :=
                   update_where (\<lambda>r. od_order_id r = od_order_id o1) f (live_execution_orders db)\<rparr>)
      else if list_ex (\<lambda>r. od_client_order_id r = od_client_order_id o1) (live_execution_orders db)
      then Inl (IntegrityError ''UNIQUE constraint failed: live_execution_orders.client_order_id'')
      else Inr (db\<lparr>live_execution_orders := live_execution_orders db @ [o1]\<rparr>))"

definition record_order :: "trade_intent \<Rightarrow> string \<Rightarrow> string \<Rightarrow> flt \<Rightarrow> int \<Rightarrow> json option \<Rightarrow> exec_db \<Rightarrow> exec_db res" where
  "record_order i cid xid quantity now confirmed db =
     (case confirmed of
        None \<Rightarrow> Inr db
      | Some doc \<Rightarrow>
          if (case fetchone (\<lambda>r. od_order_id r = xid) (live_execution_orders db) of
                None \<Rightarrow> False
              | Some r \<Rightarrow> (od_intent_id r, od_client_order_id r) \<noteq> (ti_intent_id i, cid))
          then Inl (ExecutionBlocked ''PROTECTION_ORDER_OWNER_CONFLICT'')
          else upsert_order (stop_order i cid xid quantity now doc)
                 (\<lambda>r. r\<lparr>od_requested_qty := quantity, od_status := ''NEW'', od_payload := doc, od_receipt_time_ms := now\<rparr>) db)"

definition record_stop ::
  "hasher \<Rightarrow> trade_intent \<Rightarrow> string \<Rightarrow> string \<Rightarrow> flt \<Rightarrow> int \<Rightarrow> json option \<Rightarrow> (exec_db, unit) dbop" where
  "record_stop H i cid xid quantity now confirmed db =
     (case valid_exchange_id xid of
        Inl e \<Rightarrow> (Inl e, db)
      | Inr _ \<Rightarrow>
          if \<not> isfinite quantity \<or> quantity \<le> 0 then (Inl (ExecutionBlocked ''PROTECTION_STOP_INVALID''), db)
          else guarded_update
                 (\<lambda>w. owned_stop H i cid {''ACTIVE'', ''PENDING_CONFIRMATION''} w \<and> unset_or xid (ow_exchange_id w))
                 (\<lambda>w. w\<lparr>ow_exchange_id := Some xid, ow_quantity := quantity, ow_status := ''ACTIVE'',
                        ow_confirmed_at_ms := now, ow_updated_at_ms := now\<rparr>)
                 (record_order i cid xid quantity now confirmed) db)"

section \<open>Ending a stop\<close>

definition set_stop_status :: "trade_intent \<Rightarrow> string \<Rightarrow> string \<Rightarrow> string \<Rightarrow> exec_db \<Rightarrow> exec_db" where
  "set_stop_status i cid xid status db = db\<lparr>live_execution_orders :=
     update_where (\<lambda>r. od_order_id r = xid \<and> od_intent_id r = ti_intent_id i \<and> od_client_order_id r = cid \<and> od_is_protective r)
       (\<lambda>r. r\<lparr>od_status := status\<rparr>) (live_execution_orders db)\<rparr>"

definition confirm_terminal :: "hasher \<Rightarrow> trade_intent \<Rightarrow> string \<Rightarrow> string \<Rightarrow> string \<Rightarrow> int \<Rightarrow> (exec_db, unit) dbop" where
  "confirm_terminal H i cid xid status now db =
     (if status \<notin> {''CANCELED'', ''EXPIRED'', ''NOT_FOUND''} then (Inl (ExecutionBlocked ''PROTECTION_TERMINAL_INVALID''), db)
      else (case valid_exchange_id xid of
        Inl e \<Rightarrow> (Inl e, db)
      | Inr _ \<Rightarrow> guarded_update
          (\<lambda>w. owned_stop H i cid {''ACTIVE'', ''PENDING_CONFIRMATION'', ''CANCEL_PENDING''} w \<and> ow_exchange_id w = Some xid)
          (\<lambda>w. w\<lparr>ow_status := ''TERMINAL_CONFIRMED'', ow_confirmed_at_ms := now, ow_updated_at_ms := now\<rparr>)
          (\<lambda>db. Inr (set_stop_status i cid xid status db)) db))"

definition clear_stop :: "hasher \<Rightarrow> trade_intent \<Rightarrow> string \<Rightarrow> string \<Rightarrow> int \<Rightarrow> bool \<Rightarrow> (exec_db, unit) dbop" where
  "clear_stop H i cid xid now cancelled_order db =
     guarded_update (\<lambda>w. owned_stop H i cid {''TERMINAL_CONFIRMED''} w \<and> ow_exchange_id w = Some xid)
       (\<lambda>w. w\<lparr>ow_protective_client_id := None, ow_exchange_id := None, ow_quantity := Fin 0, ow_status := ''RESERVED'',
              ow_confirmed_at_ms := 0, ow_updated_at_ms := now\<rparr>)
       (\<lambda>db. Inr (if cancelled_order then set_stop_status i cid xid ''CANCELED'' db else db)) db"

definition entry_pending :: "string \<Rightarrow> exec_db \<Rightarrow> bool" where
  "entry_pending iid db = list_ex (\<lambda>r. od_intent_id r = iid \<and> \<not> od_is_protective r
     \<and> od_status r \<in> {''SUBMITTING'', ''UNKNOWN'', ''NEW'', ''PARTIALLY_FILLED''}) (live_execution_orders db)"

text \<open>Reading the current row of an owner that is gone would raise \<open>TypeError\<close>; no operation deletes a
  row.\<close>

definition release_flat_tx :: "string \<Rightarrow> string \<Rightarrow> int \<Rightarrow> (exec_db, unit) dbop" where
  "release_flat_tx iid key now db =
     (if entry_pending iid db then (Inr (), db)
      else (case find_owner db key of
              None \<Rightarrow> (Inl (TypeError ''NoneType is not subscriptable''), db)
            | Some w \<Rightarrow>
                if ow_status w \<noteq> ''TERMINAL_CONFIRMED''
                   \<and> (ow_protective_client_id w \<noteq> None \<or> ow_exchange_id w \<noteq> None
                      \<or> ow_status w \<notin> {''RESERVED'', ''RELEASED''})
                then (Inl (ExecutionBlocked ''PROTECTION_REMOTE_STATE_UNCERTAIN''), db)
                else (Inr (), update_owners (\<lambda>w. ow_owner_key w = key)
                       (\<lambda>w. w\<lparr>ow_status := ''RELEASED'', ow_exchange_id := None, ow_protective_client_id := None,
                              ow_quantity := Fin 0, ow_updated_at_ms := now\<rparr>) db)))"

definition release_flat :: "hasher \<Rightarrow> trade_intent \<Rightarrow> int \<Rightarrow> (exec_db, unit) dbop" where
  "release_flat H i now db =
     (case get_owner H db i of
        Inl e \<Rightarrow> (Inl e, db)
      | Inr None \<Rightarrow> (Inr (), db)
      | Inr (Some w) \<Rightarrow> release_flat_tx (ti_intent_id i) (ow_owner_key w) now db)"

end
