(* ===== verification/Dry_Run.thy ===== *)
theory Dry_Run
  imports Protection
begin

text \<open>
  The simulated execution backend (\<open>execution/backend.py\<close>, class \<open>DryRunExecutionBackend\<close>). An entry is
  filled at once at its own price and gets a reduce-only stop of the filled size; reconciliation keeps
  the stop at the size of what is really open.
\<close>

section \<open>Reports and order rows\<close>

record execution_report =
  er_intent_id :: string
  er_status :: string
  er_order_id :: string
  er_client_order_id :: string
  er_requested_qty :: flt
  er_filled_qty :: flt
  er_avg_price :: flt
  er_protective_stop_id :: "string option"
  er_reason :: string
  er_raw :: "json option"

abbreviation find_order :: "exec_db \<Rightarrow> string \<Rightarrow> order_row option" where
  "find_order db coid \<equiv> fetchone (\<lambda>r. od_client_order_id r = coid) (live_execution_orders db)"

abbreviation find_stop :: "exec_db \<Rightarrow> string \<Rightarrow> order_row option" where
  "find_stop db iid \<equiv> fetchone (\<lambda>r. od_intent_id r = iid \<and> od_is_protective r) (live_execution_orders db)"

definition insert_order :: "order_row \<Rightarrow> exec_db \<Rightarrow> exec_db res" where
  "insert_order o1 db =
     (if list_ex (\<lambda>r. od_order_id r = od_order_id o1 \<or> od_client_order_id r = od_client_order_id o1) (live_execution_orders db)
      then Inl (IntegrityError ''UNIQUE constraint failed: live_execution_orders'')
      else Inr (db\<lparr>live_execution_orders := live_execution_orders db @ [o1]\<rparr>))"

definition report_of :: "trade_intent \<Rightarrow> order_row \<Rightarrow> string option \<Rightarrow> string \<Rightarrow> execution_report" where
  "report_of i r stop reason =
     \<lparr>er_intent_id = ti_intent_id i, er_status = od_status r, er_order_id = od_order_id r,
      er_client_order_id = od_client_order_id r, er_requested_qty = od_requested_qty r, er_filled_qty = od_filled_qty r,
      er_avg_price = od_avg_price r, er_protective_stop_id = stop, er_reason = reason, er_raw = None\<rparr>"

section \<open>Submission\<close>

definition sim_entry :: "trade_intent \<Rightarrow> int \<Rightarrow> order_row" where
  "sim_entry i now =
     \<lparr>od_order_id = ''sim-'' @ ti_intent_id i, od_intent_id = ti_intent_id i, od_client_order_id = ti_client_order_id i,
      od_symbol = ti_symbol i, od_side = ti_side i, od_status = ''FILLED'', od_requested_qty = ti_quantity i,
      od_filled_qty = ti_quantity i, od_avg_price = ti_price i, od_stop_price = None, od_is_protective = False,
      od_reduce_only = False, od_exchange_time_ms = now, od_receipt_time_ms = now,
      od_payload = JObj [(''dry_run'', JBool True), (''filled'', JBool True)]\<rparr>"

definition sim_stop_id :: "trade_intent \<Rightarrow> string" where
  "sim_stop_id i = ''sim-stop-'' @ ti_intent_id i"

definition sim_stop :: "trade_intent \<Rightarrow> string \<Rightarrow> flt \<Rightarrow> int \<Rightarrow> json \<Rightarrow> order_row" where
  "sim_stop i coid quantity now doc = stop_order i coid (sim_stop_id i) quantity now doc"

definition submit_stop_payload :: "trade_intent \<Rightarrow> json" where
  "submit_stop_payload i = JObj [(''dry_run'', JBool True), (''type'', JStr ''STOP_MARKET''), (''stopPrice'', JFloat (ti_stop_loss i))]"

definition submit_intent :: "trade_intent \<Rightarrow> int \<Rightarrow> (exec_db, execution_report) dbop" where
  "submit_intent i now db =
     (case check_capability ''DRY_RUN'' ''SUBMIT_INTENT'' [] ''NONE'' [] of
        Inl e \<Rightarrow> (Inl e, db)
      | Inr _ \<Rightarrow>
     (case find_order db (ti_client_order_id i) of
        Some r \<Rightarrow> (Inr (report_of i r (Some (sim_stop_id i)) ''IDEMPOTENT_REPLAY''), db)
      | None \<Rightarrow>
     (case bindR (insert_order (sim_entry i now) db)
             (insert_order (sim_stop i (''bqa-stop-'' @ take 16 (ti_client_order_id i)) (ti_quantity i) now
                (submit_stop_payload i))) of
        Inl e \<Rightarrow> (Inl e, db)
      | Inr db' \<Rightarrow> (Inr (report_of i (sim_entry i now) (Some (sim_stop_id i)) ''FILLED''), db'))))"

section \<open>Reconciliation\<close>

text \<open>\<open>int(x)\<close> of a float, and \<open>f"{n:04d}"\<close>.\<close>

definition py_int :: "flt \<Rightarrow> int res" where
  "py_int x = (case x of Fin q \<Rightarrow> Inr (if 0 \<le> q then \<lfloor>q\<rfloor> else \<lceil>q\<rceil>)
     | NaN \<Rightarrow> Inl (ValueError ''cannot convert float NaN to integer'') | _ \<Rightarrow> Inl OverflowError)"

definition pad4 :: "int \<Rightarrow> string" where
  "pad4 n = (let d = show_nat (nat \<bar>n\<bar>); sg = (if n < 0 then ''-'' else [])
             in sg @ replicate (4 - length d - length sg) (CHR ''0'') @ d)"

definition reconcile_stop_coid :: "trade_intent \<Rightarrow> flt \<Rightarrow> string res" where
  "reconcile_stop_coid i target =
     bindR (py_int (target * Fin 1000)) (\<lambda>n. Inr (''bqa-stop-'' @ take 12 (ti_client_order_id i) @ ''-'' @ pad4 n))"

definition reconcile_stop_payload :: "trade_intent \<Rightarrow> flt \<Rightarrow> json" where
  "reconcile_stop_payload i target = JObj [(''dry_run'', JBool True), (''type'', JStr ''STOP_MARKET''),
     (''stopPrice'', JFloat (ti_stop_loss i)), (''quantity'', JFloat target)]"

text \<open>\<open>UPDATE ... SET client_order_id=?\<close> by primary key, under the UNIQUE constraint of that column.\<close>

definition resize_stop :: "trade_intent \<Rightarrow> string \<Rightarrow> flt \<Rightarrow> int \<Rightarrow> string \<Rightarrow> exec_db \<Rightarrow> exec_db res" where
  "resize_stop i coid target now oid db =
     (if list_ex (\<lambda>r. od_order_id r \<noteq> oid \<and> od_client_order_id r = coid) (live_execution_orders db)
      then Inl (IntegrityError ''UNIQUE constraint failed: live_execution_orders.client_order_id'')
      else Inr (db\<lparr>live_execution_orders := update_where (\<lambda>r. od_order_id r = oid)
             (\<lambda>r. r\<lparr>od_requested_qty := target, od_status := ''NEW'', od_client_order_id := coid,
                    od_receipt_time_ms := now, od_payload := reconcile_stop_payload i target\<rparr>)
             (live_execution_orders db)\<rparr>))"

definition cancel_stop :: "string \<Rightarrow> exec_db \<Rightarrow> exec_db" where
  "cancel_stop oid db = db\<lparr>live_execution_orders :=
     update_where (\<lambda>r. od_order_id r = oid) (\<lambda>r. r\<lparr>od_status := ''CANCELED''\<rparr>) (live_execution_orders db)\<rparr>"

definition reconcile_tx :: "trade_intent \<Rightarrow> flt \<Rightarrow> int \<Rightarrow> (exec_db, string option) dbop" where
  "reconcile_tx i target now db =
     (let stop = find_stop db (ti_intent_id i)
      in if target \<le> 0 then
           (case stop of None \<Rightarrow> (Inr None, db) | Some r \<Rightarrow> (Inr None, cancel_stop (od_order_id r) db))
         else
           (case reconcile_stop_coid i target of
              Inl e \<Rightarrow> (Inl e, db)
            | Inr coid \<Rightarrow>
           (case stop of
              None \<Rightarrow>
                (case insert_order (sim_stop i coid target now (reconcile_stop_payload i target)) db of
                   Inl e \<Rightarrow> (Inl e, db) | Inr db' \<Rightarrow> (Inr (Some (sim_stop_id i)), db'))
            | Some r \<Rightarrow>
                if \<not> feq (od_requested_qty r) target \<or> od_status r = ''CANCELED'' then
                  (case resize_stop i coid target now (od_order_id r) db of
                     Inl e \<Rightarrow> (Inl e, db) | Inr db' \<Rightarrow> (Inr (Some (od_order_id r)), db'))
                else (Inr (Some (od_order_id r)), db))))"

definition open_quantity ::
  "flt option \<Rightarrow> (string \<Rightarrow> string \<Rightarrow> flt option) option \<Rightarrow> trade_intent \<Rightarrow> flt \<Rightarrow> flt" where
  "open_quantity open_position provider i filled =
     (case open_position of
        Some q \<Rightarrow> q
      | None \<Rightarrow> (case provider of None \<Rightarrow> filled
                 | Some p \<Rightarrow> (case p (ti_symbol i) (ti_side i) of None \<Rightarrow> filled | Some q \<Rightarrow> q)))"

definition target_quantity :: "flt \<Rightarrow> flt \<Rightarrow> flt \<Rightarrow> flt" where
  "target_quantity open_qty filled quantity = pymin (pymin open_qty filled) quantity"

definition not_found_report :: "trade_intent \<Rightarrow> execution_report" where
  "not_found_report i =
     \<lparr>er_intent_id = ti_intent_id i, er_status = ''NOT_FOUND'', er_order_id = [], er_client_order_id = ti_client_order_id i,
      er_requested_qty = ti_quantity i, er_filled_qty = Fin 0, er_avg_price = Fin 0, er_protective_stop_id = None,
      er_reason = ''ORDER_NOT_FOUND'', er_raw = None\<rparr>"

definition reconcile_intent ::
  "(string \<Rightarrow> string \<Rightarrow> flt option) option \<Rightarrow> trade_intent \<Rightarrow> int \<Rightarrow> flt option \<Rightarrow> (exec_db, execution_report) dbop" where
  "reconcile_intent provider i now open_position db =
     (case find_order db (ti_client_order_id i) of
        None \<Rightarrow> (Inr (not_found_report i), db)
      | Some r \<Rightarrow>
     (case reconcile_tx i (target_quantity (open_quantity open_position provider i (od_filled_qty r)) (od_filled_qty r)
             (ti_quantity i)) now db of
        (Inl e, db') \<Rightarrow> (Inl e, db')
      | (Inr stop, db') \<Rightarrow> (Inr (report_of i r stop ''RECONCILED''), db')))"

end
