(* ===== verification/Validator.thy ===== *)
theory Validator
  imports Dry_Run
begin

text \<open>
  The gate in front of every order (\<open>execution/validator.py\<close>). \<open>validate\<close> re-reads the journal, the
  stored snapshot, the kill switch and the providers and answers with the first reason to refuse;
  \<open>authorize\<close> turns a valid answer into a short-lived authorization. The stages below are the blocks
  of \<open>validate\<close> in their order; a stage yields the empty text when nothing is wrong. The tactical
  providers are parameters that may raise.
\<close>

section \<open>Configuration and stages\<close>

record validator_config =
  vc_risk_policy :: risk_policy
  vc_supervisor_policy :: supervisor_policy
  vc_tactical_validity :: "(string \<Rightarrow> int \<Rightarrow> bool res) option"
  vc_tactical_case :: "(string \<Rightarrow> int \<Rightarrow> case_package res) option"
  vc_max_market_staleness_ms :: int
  vc_max_account_staleness_ms :: int
  vc_max_spread_bps :: flt
  vc_max_price_drift_bps :: flt

record validation_result =
  vr_is_valid :: bool
  vr_reason :: string

definition and_then :: "string res \<Rightarrow> string res \<Rightarrow> string res" where
  "and_then s k = bindR s (\<lambda>r. if r = [] then k else Inr r)"

fun first_of :: "(bool \<times> string) list \<Rightarrow> string" where
  "first_of [] = []"
| "first_of ((c, r) # xs) = (if c then r else first_of xs)"

fun catch_key :: "'a res \<Rightarrow> 'a option res" where
  "catch_key (Inl (KeyError k)) = Inr None"
| "catch_key (Inl e) = Inl e"
| "catch_key (Inr x) = Inr (Some x)"

section \<open>Intent, proposal, case and approval\<close>

definition intent_stage :: "hasher \<Rightarrow> kill_state \<Rightarrow> trade_intent \<Rightarrow> int \<Rightarrow> string" where
  "intent_stage H kill i now = first_of
     [(\<not> is_ok (intent_verify H i), ''INTENT_HASH_MISMATCH''), (ti_expires_at_ms i \<le> now, ''INTENT_EXPIRED''),
      (\<not> allows_new_risk kill, ''KILL_SWITCH_ACTIVE'')]"

definition lookup_authority :: "hasher \<Rightarrow> live_db \<Rightarrow> trade_intent \<Rightarrow> (trade_proposal \<times> case_package) option res" where
  "lookup_authority H ldb i = catch_key (bindR (get_proposal H ldb (ti_proposal_hash i)) (\<lambda>p.
     bindR (get_case H ldb (ti_case_id i)) (\<lambda>c. Inr (p, c))))"

definition proposal_stage :: "hasher \<Rightarrow> live_db \<Rightarrow> trade_intent \<Rightarrow> trade_proposal \<Rightarrow> case_package \<Rightarrow> int \<Rightarrow> string res" where
  "proposal_stage H ldb i p c now =
     and_then (Inr (first_of
       [(cp_case_hash c \<noteq> ti_case_hash i, ''CASE_HASH_MISMATCH''),
        (tp_proposal_id p \<noteq> ti_proposal_id i, ''PROPOSAL_ID_MISMATCH''),
        (tp_proposal_hash p \<noteq> ti_proposal_hash i, ''PROPOSAL_HASH_MISMATCH''),
        (cp_expires_at_ms c \<le> now \<or> tp_expires_at_ms p \<le> now, ''PROPOSAL_OR_CASE_EXPIRED''),
        (tp_requires_manual_review p \<or> tp_blocked_reasons p \<noteq> [], ''PROPOSAL_BLOCKED'')]))
     (bindR (active_proposal H ldb (cp_case_id c)) (\<lambda>act. Inr
       (if (case act of None \<Rightarrow> True | Some q \<Rightarrow> tp_proposal_hash q \<noteq> tp_proposal_hash p) then ''PROPOSAL_NOT_ACTIVE'' else [])))"

definition approval_stage :: "hasher \<Rightarrow> live_db \<Rightarrow> trade_intent \<Rightarrow> string" where
  "approval_stage H ldb i =
     (case find_approval ldb (ti_approval_event_id i) of
        None \<Rightarrow> ''APPROVAL_RECORD_NOT_FOUND''
      | Some r \<Rightarrow> first_of
          [(ap_action r \<noteq> ''APPROVE'', ''APPROVAL_NOT_APPROVED''),
           (ap_actor r \<noteq> ti_approval_actor i, ''APPROVAL_ACTOR_MISMATCH''),
           (ap_proposal_hash r \<noteq> ti_proposal_hash i, ''APPROVAL_PROPOSAL_HASH_MISMATCH''),
           (ap_case_hash r \<noteq> ti_case_hash i, ''APPROVAL_CASE_HASH_MISMATCH''),
           (digest H (approval_json (ti_approval_event_id i) r) \<noteq> ti_approval_hash i, ''APPROVAL_HASH_MISMATCH'')])"

section \<open>The executable contract\<close>

definition opt_feq :: "flt option \<Rightarrow> flt option \<Rightarrow> bool" where
  "opt_feq x y = (case (x, y) of (None, None) \<Rightarrow> True | (Some a, Some b) \<Rightarrow> feq a b | _ \<Rightarrow> False)"

definition executable_matches :: "trade_intent \<Rightarrow> executable \<Rightarrow> bool" where
  "executable_matches i x \<longleftrightarrow> ti_symbol i = ex_symbol x \<and> ti_side i = ex_side x \<and> ti_order_type i = ex_order_type x
     \<and> feq (ti_price i) (ex_price x) \<and> feq (ti_quantity i) (ex_quantity x) \<and> ti_leverage i = ex_leverage x
     \<and> feq (ti_stop_loss i) (ex_stop_loss x) \<and> feq (ti_take_profit_1 i) (ex_take_profit_1 x)
     \<and> opt_feq (ti_take_profit_2 i) (ex_take_profit_2 x) \<and> ti_risk_policy_hash i = ex_risk_policy_hash x
     \<and> ti_environment i = ex_environment x \<and> ti_account_authority i = ex_account_authority x"

definition contract_stage ::
  "hasher \<Rightarrow> risk_policy \<Rightarrow> exec_db \<Rightarrow> trade_intent \<Rightarrow> trade_proposal \<Rightarrow> case_package \<Rightarrow> string" where
  "contract_stage H pol db i p c =
     (if tp_risk_policy_hash p \<noteq> policy_hash H pol \<or> ti_risk_policy_hash i \<noteq> policy_hash H pol then ''RISK_POLICY_HASH_MISMATCH''
      else (case fetchone (\<lambda>r. sr_snapshot_hash r = ti_account_snapshot_hash i) (live_account_snapshots db) of
              None \<Rightarrow> ''COMPILE_ACCOUNT_SNAPSHOT_NOT_FOUND''
            | Some row \<Rightarrow>
           (case snapshot_verify H (sr_payload row) of
              Inl e \<Rightarrow> ''EXECUTABLE_COMPILATION_INVALID''
            | Inr s \<Rightarrow>
                if as_snapshot_hash s \<noteq> ti_account_snapshot_hash i then ''COMPILE_ACCOUNT_SNAPSHOT_HASH_MISMATCH''
                else (case compile_executable_intent_fields H c p s (Some pol) of
                        Inl e \<Rightarrow> ''EXECUTABLE_COMPILATION_INVALID''
                      | Inr x \<Rightarrow> if executable_matches i x then [] else ''EXECUTABLE_CONTRACT_MISMATCH''))))"

section \<open>Account\<close>

definition account_stage :: "hasher \<Rightarrow> validator_config \<Rightarrow> trade_intent \<Rightarrow> account_snapshot \<Rightarrow> int \<Rightarrow> string" where
  "account_stage H cfg i a now = first_of
     [(\<not> is_ok (snapshot_verify H a), ''ACCOUNT_SNAPSHOT_HASH_MISMATCH''),
      (as_environment a \<noteq> ti_environment i, ''ACCOUNT_ENVIRONMENT_MISMATCH''),
      (as_account_id a \<noteq> ti_account_authority i, ''ACCOUNT_AUTHORITY_MISMATCH''),
      (\<not> as_reconciled a \<or> as_quality a \<noteq> ''OK'', ''ACCOUNT_UNRECONCILED''),
      (list_ex (\<lambda>p. po_symbol p \<noteq> ti_symbol i \<and> \<not> feq (po_quantity p) 0) (as_positions a), ''UNCONFIGURED_POSITION_SYMBOL''),
      (ti_environment i = ''TESTNET'' \<and> \<not> as_stream_connected a, ''ACCOUNT_STREAM_DISCONNECTED''),
      (vc_max_account_staleness_ms cfg < now - as_observed_at_ms a, ''ACCOUNT_SNAPSHOT_STALE''),
      (now < as_observed_at_ms a, ''ACCOUNT_SNAPSHOT_FUTURE''),
      (ti_risk_policy_hash i \<noteq> policy_hash H (vc_risk_policy cfg), ''RISK_POLICY_HASH_MISMATCH'')]"

section \<open>Risk limits\<close>

definition intent_notional :: "trade_intent \<Rightarrow> flt" where
  "intent_notional i = ti_quantity i * ti_price i"

definition margin_required :: "trade_intent \<Rightarrow> flt" where
  "margin_required i = quot (intent_notional i) (float_of_int (ti_leverage i))"

definition trade_risk_cap :: "risk_policy \<Rightarrow> trade_proposal \<Rightarrow> account_snapshot \<Rightarrow> flt" where
  "trade_risk_cap pol p a =
     pymin (pymin (tp_risk_budget_usdt p) (rp_max_trade_risk_usdt pol)) (as_equity_usdt a * rp_max_trade_risk_pct pol)"

definition daily_loss_limit :: "validator_config \<Rightarrow> account_snapshot \<Rightarrow> flt" where
  "daily_loss_limit cfg a = pymin (sp_daily_loss_cap_usdt (vc_supervisor_policy cfg))
     (as_equity_usdt a * rp_max_daily_loss_pct (vc_risk_policy cfg))"

definition drawdown_limit :: "validator_config \<Rightarrow> flt" where
  "drawdown_limit cfg = pymin (sp_drawdown_cap_pct (vc_supervisor_policy cfg)) (rp_drawdown_kill_pct (vc_risk_policy cfg))"

definition epsilon9 :: flt where
  "epsilon9 = lit (1 / 10 ^ 9)"

text \<open>The block that recomputes the loss headroom; a \<open>ValueError\<close> becomes a reason.\<close>

definition headroom_stage :: "validator_config \<Rightarrow> account_snapshot \<Rightarrow> flt \<Rightarrow> string res" where
  "headroom_stage cfg a max_loss =
     (case remaining_loss_headroom (as_equity_usdt a) (as_peak_equity_usdt a) (as_daily_loss_usdt a)
             (daily_loss_limit cfg a) (drawdown_limit cfg) of
        Inl (ValueError e) \<Rightarrow> Inr ''ACCOUNT_EQUITY_INCONSISTENT''
      | Inl e \<Rightarrow> Inl e
      | Inr (remaining_daily, remaining_drawdown) \<Rightarrow>
          bindR (fdiv (as_equity_usdt a) (as_peak_equity_usdt a)) (\<lambda>ratio. Inr (first_of
            [(lit (1 / 10 ^ 8) < \<bar>(Fin 1 - ratio) - as_drawdown_pct a\<bar>, ''ACCOUNT_EQUITY_INCONSISTENT''),
             (remaining_daily + epsilon9 < max_loss, ''DAILY_LOSS_HEADROOM_EXCEEDED''),
             (remaining_drawdown + epsilon9 < max_loss, ''DRAWDOWN_HEADROOM_EXCEEDED'')])))"

definition risk_stage ::
  "validator_config \<Rightarrow> trade_intent \<Rightarrow> trade_proposal \<Rightarrow> case_package \<Rightarrow> account_snapshot \<Rightarrow> string res" where
  "risk_stage cfg i p c a =
     (let pol = vc_risk_policy cfg; notional = intent_notional i; margin = margin_required i
      in and_then (Inr (first_of
           [(rp_max_notional_usdt pol < notional, ''MAX_NOTIONAL_CAP_EXCEEDED''),
            (rp_max_leverage pol < ti_leverage i, ''MAX_LEVERAGE_EXCEEDED''),
            (as_available_balance_usdt a < margin, ''INSUFFICIENT_MARGIN''),
            (as_equity_usdt a * rp_max_margin_utilization pol < as_margin_used_usdt a + margin, ''MARGIN_UTILIZATION_CAP_EXCEEDED'')]))
         (bindR (worst_case_loss_rate (ti_price i) (ti_stop_loss i) pol (cp_funding_rate c)) (\<lambda>rate.
            let max_loss = notional * rate
            in and_then (Inr (first_of
                 [(trade_risk_cap pol p a + epsilon9 < max_loss, ''TRADE_RISK_CAP_EXCEEDED''),
                  (daily_loss_limit cfg a \<le> as_daily_loss_usdt a, ''DAILY_LOSS_CAP_REACHED''),
                  (drawdown_limit cfg \<le> as_drawdown_pct a, ''DRAWDOWN_CAP_REACHED'')]))
               (headroom_stage cfg a max_loss))))"

section \<open>Exposure, open orders and positions\<close>

definition has_symbol_position :: "trade_intent \<Rightarrow> account_snapshot \<Rightarrow> bool" where
  "has_symbol_position i a = list_ex (\<lambda>p. po_symbol p = ti_symbol i \<and> \<not> feq (po_quantity p) 0) (as_positions a)"

definition new_open_positions :: "trade_intent \<Rightarrow> account_snapshot \<Rightarrow> int" where
  "new_open_positions i a = int (length (open_positions (as_positions a))) + (if has_symbol_position i a then 0 else 1)"

fun order_reason :: "trade_intent \<Rightarrow> account_order list \<Rightarrow> string" where
  "order_reason i [] = []"
| "order_reason i (o1 # os) =
     (if ao_symbol o1 = ti_symbol i \<and> ao_side o1 \<noteq> ti_side i \<and> ao_status o1 \<in> {''NEW'', ''PARTIALLY_FILLED''}
      then ''OPEN_ORDER_CONFLICT''
      else if ao_client_order_id o1 = ti_client_order_id i \<and> ao_status o1 \<in> {''NEW'', ''PARTIALLY_FILLED'', ''FILLED''}
      then ''DUPLICATE_CLIENT_ORDER_ID_ON_EXCHANGE''
      else order_reason i os)"

definition opposite_position :: "trade_intent \<Rightarrow> position \<Rightarrow> bool" where
  "opposite_position i p \<longleftrightarrow> po_symbol p = ti_symbol i
     \<and> (ti_side i = ''BUY'' \<and> po_quantity p < 0 \<or> ti_side i = ''SELL'' \<and> 0 < po_quantity p)"

definition exposure_stage :: "risk_policy \<Rightarrow> trade_intent \<Rightarrow> account_snapshot \<Rightarrow> string" where
  "exposure_stage pol i a =
     (let early = first_of
        [(as_equity_usdt a * rp_max_symbol_exposure_pct pol
            < exposure (symbol_positions (ti_symbol i) (as_positions a)) + intent_notional i, ''SYMBOL_EXPOSURE_CAP_EXCEEDED''),
         (as_equity_usdt a * rp_max_portfolio_exposure_pct pol < exposure (as_positions a) + intent_notional i,
            ''PORTFOLIO_EXPOSURE_CAP_EXCEEDED''),
         (rp_max_simultaneous_positions pol < new_open_positions i a, ''SIMULTANEOUS_POSITIONS_LIMIT_EXCEEDED'')]
      in if early \<noteq> [] then early
         else if order_reason i (as_orders a) \<noteq> [] then order_reason i (as_orders a)
         else first_of
           [(list_ex (opposite_position i) (as_positions a), ''CONFLICTING_POSITION_EXISTS''),
            (has_symbol_position i a, ''CURRENT_POSITION_OWNER_CONFLICT'')])"

section \<open>Market\<close>

definition allowed_drift :: "validator_config \<Rightarrow> trade_proposal \<Rightarrow> flt" where
  "allowed_drift cfg p = pymin (pymin (vc_max_price_drift_bps cfg)
       (if feq (tp_allowed_price_drift_bps p) 0 then vc_max_price_drift_bps cfg else tp_allowed_price_drift_bps p))
     (rp_allowed_price_drift_bps (vc_risk_policy cfg))"

definition spread_limit :: "validator_config \<Rightarrow> flt" where
  "spread_limit cfg = pymin (vc_max_spread_bps cfg) (rp_max_spread_bps (vc_risk_policy cfg))"

definition market_stage ::
  "hasher \<Rightarrow> validator_config \<Rightarrow> trade_intent \<Rightarrow> trade_proposal \<Rightarrow> market_observation \<Rightarrow> int \<Rightarrow> string res" where
  "market_stage H cfg i p m now =
     and_then (Inr (first_of
       [(mo_symbol m \<noteq> ti_symbol i, ''MARKET_SYMBOL_MISMATCH''),
        (\<not> is_ok (market_verify H m), ''MARKET_OBSERVATION_HASH_MISMATCH''),
        (now < mo_receipt_timestamp_ms m \<or> now < mo_source_timestamp_ms m, ''MARKET_DATA_FUTURE''),
        (vc_max_market_staleness_ms cfg < now - mo_receipt_timestamp_ms m, ''MARKET_DATA_STALE'')]))
     (and_then (Inr (freshness_reason m now (vc_max_market_staleness_ms cfg)))
     (and_then (Inr (first_of [(spread_limit cfg < mo_spread_bps m, ''SPREAD_TOO_WIDE'')]))
     (bindR (fdiv \<bar>mo_mark_price m - ti_price i\<bar> (ti_price i)) (\<lambda>d. Inr (first_of
       [(allowed_drift cfg p < d * Fin 10000, ''PRICE_DRIFT_EXCEEDED'')])))))"

section \<open>Duplicates and tactical validity\<close>

definition duplicate_stage :: "hasher \<Rightarrow> exec_db \<Rightarrow> trade_intent \<Rightarrow> string res" where
  "duplicate_stage H db i =
     bindR (get_intent_by_idempotency_key H db (ti_idempotency_key i)) (\<lambda>existing. Inr (first_of
       [(case existing of None \<Rightarrow> False | Some e \<Rightarrow> ti_intent_id e \<noteq> ti_intent_id i, ''DUPLICATE_IDEMPOTENCY_KEY''),
        (list_ex (\<lambda>r. ir_client_order_id r = ti_client_order_id i \<and> ir_intent_id r \<noteq> ti_intent_id i) (live_trade_intents db),
         ''DUPLICATE_CLIENT_ORDER_ID_LOCAL'')]))"

definition tactical_case_ok :: "risk_policy \<Rightarrow> case_package \<Rightarrow> case_package \<Rightarrow> int \<Rightarrow> bool" where
  "tactical_case_ok pol c t now \<longleftrightarrow> cp_symbol t = cp_symbol c \<and> cp_direction t = cp_direction c
     \<and> cp_strategy t = cp_strategy c \<and> cp_strategy_version t = cp_strategy_version c \<and> cp_data_quality t = ''OK''
     \<and> cp_veto_reasons t = [] \<and> cp_source_errors t = [] \<and> cp_observed_at_ms t \<le> now \<and> now < cp_expires_at_ms t
     \<and> now - cp_observed_at_ms t \<le> rp_max_staleness_ms pol"

definition tactical_case_reason :: "hasher \<Rightarrow> validator_config \<Rightarrow> trade_intent \<Rightarrow> case_package \<Rightarrow> int \<Rightarrow> string" where
  "tactical_case_reason H cfg i c now =
     (case vc_tactical_case cfg of
        None \<Rightarrow> []
      | Some f \<Rightarrow>
          (case bindR (f (ti_symbol i) now) (case_verify H) of
             Inl e \<Rightarrow> ''TACTICAL_VALIDITY_UNAVAILABLE''
           | Inr t \<Rightarrow> if tactical_case_ok (vc_risk_policy cfg) c t now then [] else ''TACTICAL_VALIDITY_INVALID''))"

definition tactical_validity_reason :: "validator_config \<Rightarrow> trade_intent \<Rightarrow> int \<Rightarrow> string" where
  "tactical_validity_reason cfg i now =
     (case vc_tactical_validity cfg of
        None \<Rightarrow> if ti_environment i = ''TESTNET'' then ''TACTICAL_VALIDITY_UNAVAILABLE'' else []
      | Some f \<Rightarrow>
          (case f (ti_symbol i) now of
             Inl e \<Rightarrow> ''TACTICAL_VALIDITY_UNAVAILABLE''
           | Inr b \<Rightarrow> if b then [] else ''TACTICAL_VALIDITY_INVALID''))"

definition tactical_stage :: "hasher \<Rightarrow> validator_config \<Rightarrow> trade_intent \<Rightarrow> case_package \<Rightarrow> int \<Rightarrow> string" where
  "tactical_stage H cfg i c now =
     (if tactical_case_reason H cfg i c now \<noteq> [] then tactical_case_reason H cfg i c now
      else tactical_validity_reason cfg i now)"

section \<open>The gate\<close>

definition later_stages ::
  "hasher \<Rightarrow> validator_config \<Rightarrow> live_db \<Rightarrow> exec_db \<Rightarrow> trade_intent \<Rightarrow> trade_proposal \<Rightarrow> case_package \<Rightarrow> market_observation
     \<Rightarrow> account_snapshot \<Rightarrow> int \<Rightarrow> string res" where
  "later_stages H cfg ldb db i p c m a now =
     and_then (proposal_stage H ldb i p c now)
     (and_then (Inr (approval_stage H ldb i))
     (and_then (Inr (contract_stage H (vc_risk_policy cfg) db i p c))
     (and_then (Inr (account_stage H cfg i a now))
     (and_then (risk_stage cfg i p c a)
     (and_then (Inr (exposure_stage (vc_risk_policy cfg) i a))
     (and_then (market_stage H cfg i p m now)
     (and_then (duplicate_stage H db i)
       (Inr (tactical_stage H cfg i c now)))))))))"

definition refusal ::
  "hasher \<Rightarrow> validator_config \<Rightarrow> kill_state \<Rightarrow> live_db \<Rightarrow> exec_db \<Rightarrow> trade_intent \<Rightarrow> market_observation \<Rightarrow> account_snapshot
     \<Rightarrow> int \<Rightarrow> string res" where
  "refusal H cfg kill ldb db i m a now =
     and_then (Inr (intent_stage H kill i now))
     (bindR (lookup_authority H ldb i) (\<lambda>found.
        case found of
          None \<Rightarrow> Inr ''PROPOSAL_OR_CASE_NOT_FOUND''
        | Some (p, c) \<Rightarrow> later_stages H cfg ldb db i p c m a now))"

definition validate ::
  "hasher \<Rightarrow> validator_config \<Rightarrow> kill_state \<Rightarrow> live_db \<Rightarrow> exec_db \<Rightarrow> trade_intent \<Rightarrow> market_observation \<Rightarrow> account_snapshot
     \<Rightarrow> int \<Rightarrow> validation_result res" where
  "validate H cfg kill ldb db i m a now =
     bindR (refusal H cfg kill ldb db i m a now) (\<lambda>r.
       Inr (if r = [] then \<lparr>vr_is_valid = True, vr_reason = ''OK''\<rparr> else \<lparr>vr_is_valid = False, vr_reason = r\<rparr>))"

section \<open>Authorization\<close>

definition component_times :: "market_observation \<Rightarrow> int list" where
  "component_times m = List.map_filter id
     [mo_mark_source_timestamp_ms m, mo_mark_receipt_timestamp_ms m, mo_book_source_timestamp_ms m,
      mo_book_receipt_timestamp_ms m, mo_kline_source_timestamp_ms m, mo_kline_receipt_timestamp_ms m]"

definition authorization_expiry ::
  "validator_config \<Rightarrow> trade_intent \<Rightarrow> market_observation \<Rightarrow> account_snapshot \<Rightarrow> int \<Rightarrow> int option \<Rightarrow> int" where
  "authorization_expiry cfg i m a now limit =
     foldl min (ti_expires_at_ms i)
       ([now + 5000, case limit of None \<Rightarrow> ti_expires_at_ms i | Some t \<Rightarrow> t]
        @ map (\<lambda>t. t + vc_max_market_staleness_ms cfg) (component_times m)
        @ [as_observed_at_ms a + vc_max_account_staleness_ms cfg])"

definition authorize ::
  "hasher \<Rightarrow> validator_config \<Rightarrow> kill_state \<Rightarrow> live_db \<Rightarrow> string \<Rightarrow> market_observation \<Rightarrow> account_snapshot \<Rightarrow> int
     \<Rightarrow> int option \<Rightarrow> (exec_db, authorization) dbop" where
  "authorize H cfg kill ldb iid m a now limit db =
     (case bindR (get_intent H db iid) (\<lambda>oi.
             case oi of
               None \<Rightarrow> Inl (ExecutionBlocked ''AUTHORIZATION_INTENT_NOT_PERSISTED'')
             | Some i \<Rightarrow>
                 bindR (validate H cfg kill ldb db i m a now) (\<lambda>result.
                   if \<not> vr_is_valid result then Inl (ExecutionBlocked (vr_reason result))
                   else if ti_environment i \<noteq> ''TESTNET'' then Inl (ExecutionBlocked ''TESTNET_AUTHORIZATION_REQUIRED'')
                   else bindR (get_proposal H ldb (ti_proposal_hash i)) (\<lambda>p. bindR (get_case H ldb (ti_case_id i)) (\<lambda>c.
                     bindR (compile_executable_intent_fields H c p a (Some (vc_risk_policy cfg))) (\<lambda>x. Inr (i, x)))))) of
        Inl e \<Rightarrow> (Inl e, db)
      | Inr (i, x) \<Rightarrow> issue H i a m x now (authorization_expiry cfg i m a now limit) db)"

end
