(* ===== verification/Signed_Client.thy ===== *)
theory Signed_Client
  imports Protective_Fields
begin

text \<open>
  The signed exchange client (\<open>execution/binance_signed.py\<close>). The transport, the wall clock and the
  HMAC signature of a query are parameters: \<open>sx_http\<close> answers a request in a state of the outside
  world, with the JSON text of the answer already decoded. Every method is modelled but
  \<open>realized_pnl\<close>, which no execution path calls.
\<close>

section \<open>Client and transport\<close>

record credential_authority =
  ca_environment :: string
  ca_credential_namespace :: string
  ca_rest_base_url :: string

record signed_client =
  sc_base_url :: string
  sc_api_key :: string
  sc_api_secret :: string
  sc_recv_window_ms :: int
  sc_environment :: string
  sc_credential_namespace :: string

definition authority :: "signed_client \<Rightarrow> credential_authority" where
  "authority cl = \<lparr>ca_environment = sc_environment cl, ca_credential_namespace = sc_credential_namespace cl,
     ca_rest_base_url = sc_base_url cl\<rparr>"

record http_request =
  hr_method :: string
  hr_url :: string
  hr_params :: "(string \<times> json) list"
  hr_signature :: "string option"

text \<open>An answer: an empty body, a JSON body, a body that is no JSON; an HTTP error with its status and
  the decoded error document, if there is one; no answer at all.\<close>

datatype http_reply =
    EmptyReply
  | JsonReply json
  | BadReply
  | HttpFailure int "json option"
  | Unreachable

record 'w signed_exchange =
  sx_client :: signed_client
  sx_sign :: "string \<Rightarrow> (string \<times> json) list \<Rightarrow> string"
  sx_time :: "'w \<Rightarrow> int \<times> 'w"
  sx_http :: "http_request \<Rightarrow> 'w \<Rightarrow> http_reply \<times> 'w"

section \<open>Requests\<close>

definition require_mutation_authority :: "signed_client \<Rightarrow> unit res" where
  "require_mutation_authority cl =
     bindR (check_capability (sc_environment cl) ''SIGNED_MUTATION'' (sc_environment cl) (sc_credential_namespace cl) (sc_base_url cl))
       (\<lambda>_. if py_upper (sc_environment cl) \<noteq> ''TESTNET''
            then Inl (ExecutionBlocked (''signed client mutation requires TESTNET environment, got '' @ quoted (sc_environment cl)))
            else Inr ())"

text \<open>\<open>d[k] = v\<close> of a Python dict, as an association list in insertion order.\<close>

definition dict_set :: "string \<Rightarrow> json \<Rightarrow> (string \<times> json) list \<Rightarrow> (string \<times> json) list" where
  "dict_set k v kvs = (if list_ex (\<lambda>p. fst p = k) kvs then map (\<lambda>p. if fst p = k then (k, v) else p) kvs else kvs @ [(k, v)])"

definition error_code :: "json option \<Rightarrow> int option" where
  "error_code body =
     (case body of
        Some (JObj kvs) \<Rightarrow> (case map_of kvs ''code'' of Some (JInt n) \<Rightarrow> Some n | _ \<Rightarrow> None)
      | _ \<Rightarrow> None)"

definition signed_reply :: "http_reply \<Rightarrow> json res" where
  "signed_reply r =
     (case r of
        EmptyReply \<Rightarrow> Inr (JObj [])
      | JsonReply v \<Rightarrow> Inr v
      | BadReply \<Rightarrow> Inl (BinanceExecutionError ''Binance request failed'' None)
      | HttpFailure status body \<Rightarrow>
          Inl (BinanceExecutionError (''Binance request failed: HTTP '' @ show_int status) (error_code body))
      | Unreachable \<Rightarrow> Inl (BinanceExecutionError ''Binance request failed'' None))"

definition signed_request ::
  "'w signed_exchange \<Rightarrow> string \<Rightarrow> string \<Rightarrow> (string \<times> json) list \<Rightarrow> 'w \<Rightarrow> json res \<times> 'w" where
  "signed_request X verb path params w =
     (let cl = sx_client X
      in case (if py_upper verb \<noteq> ''GET'' then require_mutation_authority cl else Inr ()) of
           Inl e \<Rightarrow> (Inl e, w)
         | Inr _ \<Rightarrow>
             (case sx_time X w of (now, w1) \<Rightarrow>
                (let payload = dict_set ''recvWindow'' (JInt (sc_recv_window_ms cl)) (dict_set ''timestamp'' (JInt now) params)
                 in (case sx_http X \<lparr>hr_method = verb, hr_url = rstrip (CHR ''/'') (sc_base_url cl) @ path, hr_params = payload,
                                    hr_signature = Some (sx_sign X (sc_api_secret cl) payload)\<rparr> w1 of
                       (r, w2) \<Rightarrow> (signed_reply r, w2)))))"

definition user_stream_reply :: "http_reply \<Rightarrow> (string \<times> json) list res" where
  "user_stream_reply r =
     (case r of
        EmptyReply \<Rightarrow> Inr []
      | JsonReply (JObj kvs) \<Rightarrow> Inr kvs
      | JsonReply v \<Rightarrow> Inl (BinanceExecutionError ''invalid Binance user stream response'' None)
      | BadReply \<Rightarrow> Inl (BinanceExecutionError ''Binance user stream request failed'' None)
      | HttpFailure status body \<Rightarrow>
          Inl (BinanceExecutionError (''Binance user stream request failed: HTTP '' @ show_int status) None)
      | Unreachable \<Rightarrow> Inl (BinanceExecutionError ''Binance user stream request failed'' None))"

definition api_key_request :: "'w signed_exchange \<Rightarrow> string \<Rightarrow> string \<Rightarrow> 'w \<Rightarrow> (string \<times> json) list res \<times> 'w" where
  "api_key_request X verb path w =
     (let cl = sx_client X
      in case require_mutation_authority cl of
           Inl e \<Rightarrow> (Inl e, w)
         | Inr _ \<Rightarrow>
             (case sx_http X \<lparr>hr_method = verb, hr_url = rstrip (CHR ''/'') (sc_base_url cl) @ path, hr_params = [],
                             hr_signature = None\<rparr> w of
                (r, w1) \<Rightarrow> (user_stream_reply r, w1)))"

section \<open>Endpoints\<close>

definition symbol_params :: "string option \<Rightarrow> (string \<times> json) list" where
  "symbol_params s = (case s of None \<Rightarrow> [] | Some x \<Rightarrow> if x = [] then [] else [(''symbol'', JStr x)])"

definition account_information :: "'w signed_exchange \<Rightarrow> 'w \<Rightarrow> json res \<times> 'w" where
  "account_information X = signed_request X ''GET'' ''/fapi/v3/account'' []"

definition balances :: "'w signed_exchange \<Rightarrow> 'w \<Rightarrow> json res \<times> 'w" where
  "balances X = signed_request X ''GET'' ''/fapi/v3/balance'' []"

definition open_orders :: "'w signed_exchange \<Rightarrow> string option \<Rightarrow> 'w \<Rightarrow> json res \<times> 'w" where
  "open_orders X s = signed_request X ''GET'' ''/fapi/v1/openOrders'' (symbol_params s)"

definition query_order_by_client_id :: "'w signed_exchange \<Rightarrow> string \<Rightarrow> string \<Rightarrow> 'w \<Rightarrow> json res \<times> 'w" where
  "query_order_by_client_id X s coid =
     signed_request X ''GET'' ''/fapi/v1/order'' [(''symbol'', JStr s), (''origClientOrderId'', JStr coid)]"

definition query_protective_order :: "'w signed_exchange \<Rightarrow> string \<Rightarrow> 'w \<Rightarrow> json res \<times> 'w" where
  "query_protective_order X aid = signed_request X ''GET'' ''/fapi/v1/algoOrder'' [(''algoId'', JStr aid)]"

definition open_protective_orders :: "'w signed_exchange \<Rightarrow> string option \<Rightarrow> 'w \<Rightarrow> json res \<times> 'w" where
  "open_protective_orders X s = signed_request X ''GET'' ''/fapi/v1/openAlgoOrders'' (symbol_params s)"

definition start_user_stream :: "'w signed_exchange \<Rightarrow> 'w \<Rightarrow> string res \<times> 'w" where
  "start_user_stream X w =
     (case api_key_request X ''POST'' ''/fapi/v1/listenKey'' w of
        (Inl e, w1) \<Rightarrow> (Inl e, w1)
      | (Inr kvs, w1) \<Rightarrow>
          (case map_of kvs ''listenKey'' of
             Some (JStr k) \<Rightarrow> (if k = [] then Inl (BinanceExecutionError ''invalid Binance user stream response'' None) else Inr k, w1)
           | _ \<Rightarrow> (Inl (BinanceExecutionError ''invalid Binance user stream response'' None), w1)))"

definition keepalive_user_stream :: "'w signed_exchange \<Rightarrow> string \<Rightarrow> 'w \<Rightarrow> unit res \<times> 'w" where
  "keepalive_user_stream X key w =
     (case api_key_request X ''PUT'' ''/fapi/v1/listenKey'' w of (r, w1) \<Rightarrow> (bindR r (\<lambda>_. Inr ()), w1))"

definition close_user_stream :: "'w signed_exchange \<Rightarrow> string \<Rightarrow> 'w \<Rightarrow> unit res \<times> 'w" where
  "close_user_stream X key w =
     (case api_key_request X ''DELETE'' ''/fapi/v1/listenKey'' w of (r, w1) \<Rightarrow> (bindR r (\<lambda>_. Inr ()), w1))"

definition change_leverage :: "'w signed_exchange \<Rightarrow> string \<Rightarrow> int \<Rightarrow> 'w \<Rightarrow> json res \<times> 'w" where
  "change_leverage X s leverage =
     signed_request X ''POST'' ''/fapi/v1/leverage'' [(''symbol'', JStr s), (''leverage'', JInt leverage)]"

definition change_margin_type :: "'w signed_exchange \<Rightarrow> string \<Rightarrow> string \<Rightarrow> 'w \<Rightarrow> json res \<times> 'w" where
  "change_margin_type X s margin_type =
     signed_request X ''POST'' ''/fapi/v1/marginType'' [(''symbol'', JStr s), (''marginType'', JStr margin_type)]"

definition position_mode :: "'w signed_exchange \<Rightarrow> 'w \<Rightarrow> json res \<times> 'w" where
  "position_mode X = signed_request X ''GET'' ''/fapi/v1/positionSide/dual'' []"

definition place_order :: "'w signed_exchange \<Rightarrow> (string \<times> json) list \<Rightarrow> 'w \<Rightarrow> json res \<times> 'w" where
  "place_order X params = signed_request X ''POST'' ''/fapi/v1/order'' params"

definition test_order :: "'w signed_exchange \<Rightarrow> (string \<times> json) list \<Rightarrow> 'w \<Rightarrow> json res \<times> 'w" where
  "test_order X params = signed_request X ''POST'' ''/fapi/v1/order/test'' params"

definition query_order :: "'w signed_exchange \<Rightarrow> string \<Rightarrow> string \<Rightarrow> 'w \<Rightarrow> json res \<times> 'w" where
  "query_order X s oid = signed_request X ''GET'' ''/fapi/v1/order'' [(''symbol'', JStr s), (''orderId'', JStr oid)]"

definition cancel_order :: "'w signed_exchange \<Rightarrow> string \<Rightarrow> string \<Rightarrow> 'w \<Rightarrow> json res \<times> 'w" where
  "cancel_order X s oid = signed_request X ''DELETE'' ''/fapi/v1/order'' [(''symbol'', JStr s), (''orderId'', JStr oid)]"

definition positions :: "'w signed_exchange \<Rightarrow> string option \<Rightarrow> 'w \<Rightarrow> json list res \<times> 'w" where
  "positions X s w =
     (case signed_request X ''GET'' ''/fapi/v3/positionRisk'' (symbol_params s) w of
        (Inl e, w1) \<Rightarrow> (Inl e, w1)
      | (Inr v, w1) \<Rightarrow> (Inr (case v of JArr xs \<Rightarrow> xs | _ \<Rightarrow> [v]), w1))"

definition place_protective_order :: "'w signed_exchange \<Rightarrow> (string \<times> json) list \<Rightarrow> 'w \<Rightarrow> json res \<times> 'w" where
  "place_protective_order X params = signed_request X ''POST'' ''/fapi/v1/algoOrder'' params"

definition cancel_protective_order :: "'w signed_exchange \<Rightarrow> string \<Rightarrow> string \<Rightarrow> 'w \<Rightarrow> json res \<times> 'w" where
  "cancel_protective_order X s aid = signed_request X ''DELETE'' ''/fapi/v1/algoOrder'' [(''algoId'', JStr aid)]"

definition create_testnet_signed_client ::
  "(string \<Rightarrow> string option) \<Rightarrow> string \<Rightarrow> int \<Rightarrow> string option \<Rightarrow> string option \<Rightarrow> signed_client res" where
  "create_testnet_signed_client getenv base_url recv_window api_key api_secret =
     (let key = (case api_key of Some k \<Rightarrow> k | None \<Rightarrow> (case getenv ''BINANCE_TESTNET_API_KEY'' of Some k \<Rightarrow> k | None \<Rightarrow> []));
          secret = (case api_secret of Some k \<Rightarrow> k | None \<Rightarrow> (case getenv ''BINANCE_TESTNET_API_SECRET'' of Some k \<Rightarrow> k | None \<Rightarrow> []))
      in if py_lower (rstrip (CHR ''/'') base_url) \<noteq> ''https://testnet.binancefuture.com''
         then Inl (BinanceExecutionError (''invalid testnet endpoint: '' @ base_url) None)
         else if key = [] \<or> secret = []
         then Inl (BinanceExecutionError ''missing required BINANCE_TESTNET_API_KEY or BINANCE_TESTNET_API_SECRET'' None)
         else Inr \<lparr>sc_base_url = base_url, sc_api_key = key, sc_api_secret = secret, sc_recv_window_ms = recv_window,
                   sc_environment = ''TESTNET'', sc_credential_namespace = ''BINANCE_TESTNET''\<rparr>)"

section \<open>Lemmas\<close>

text \<open>A request other than GET reaches the transport only with the testnet authority.\<close>

lemma signed_request_blocked:
  assumes "py_upper verb \<noteq> ''GET''" and "require_mutation_authority (sx_client X) = Inl e"
  shows "signed_request X verb path params w = (Inl e, w)"
  using assms by (simp add: signed_request_def)

end
