(* ===== verification/Json_Values.thy ===== *)
theory Json_Values
  imports Validator Signed_Client
begin

text \<open>
  What the code does with the values of a parsed JSON document: \<open>dict.get\<close>, \<open>str\<close>, \<open>bool\<close>, \<open>float\<close> and \<open>int\<close>,
  with the exceptions of Python. The testnet backend, the account watch and the market stream read the exchange's
  documents through these functions.
\<close>

section \<open>Values of a JSON document\<close>

fun dict_get :: "json \<Rightarrow> string \<Rightarrow> json option" where
  "dict_get (JObj kvs) k = map_of kvs k"
| "dict_get _ k = None"

fun is_dict :: "json \<Rightarrow> bool" where
  "is_dict (JObj kvs) = True"
| "is_dict _ = False"

text \<open>\<open>str(v)\<close>; the text of a list or an object is a parameter.\<close>

definition json_str :: "(json \<Rightarrow> string) \<Rightarrow> json \<Rightarrow> string" where
  "json_str repr v =
     (case v of
        JStr s \<Rightarrow> s
      | JInt n \<Rightarrow> show_int n
      | JBool b \<Rightarrow> if b then ''True'' else ''False''
      | JNull \<Rightarrow> ''None''
      | JFloat x \<Rightarrow> float_repr x
      | _ \<Rightarrow> repr v)"

fun truthy :: "json \<Rightarrow> bool" where
  "truthy JNull = False"
| "truthy (JBool b) = b"
| "truthy (JInt n) = (n \<noteq> 0)"
| "truthy (JFloat x) = (\<not> feq x 0)"
| "truthy (JStr s) = (s \<noteq> [])"
| "truthy (JArr xs) = (xs \<noteq> [])"
| "truthy (JObj kvs) = (kvs \<noteq> [])"

text \<open>\<open>float(text)\<close>: underscores only between digits, \<open>inf\<close>, \<open>infinity\<close> and \<open>nan\<close> in any case, otherwise a
  decimal number rounded to the nearest binary64 value.\<close>

fun underscores_ok :: "bool \<Rightarrow> string \<Rightarrow> bool" where
  "underscores_ok after [] = True"
| "underscores_ok after (c # cs) =
     (if c = CHR ''_'' then after \<and> (case cs of [] \<Rightarrow> False | d # ds \<Rightarrow> is_digit d) \<and> underscores_ok False cs
      else underscores_ok (is_digit c) cs)"

definition float_body :: "string \<Rightarrow> rat option" where
  "float_body body =
     (let whole = takeWhile is_digit body; rest = dropWhile is_digit body;
          frac = (case rest of c # cs \<Rightarrow> if c = CHR ''.'' then takeWhile is_digit cs else [] | [] \<Rightarrow> []);
          tail = (case rest of c # cs \<Rightarrow> if c = CHR ''.'' then dropWhile is_digit cs else rest | [] \<Rightarrow> [])
      in if whole @ frac = [] then None
         else (case parse_exponent tail of
                 None \<Rightarrow> None
               | Some e \<Rightarrow> Some (of_int (digits_value (whole @ frac)) * 10 powi (e - int (length frac)))))"

definition float_text :: "string \<Rightarrow> flt option" where
  "float_text text =
     (if \<not> underscores_ok False (py_strip text) then None
      else (case split_sign (filter (\<lambda>c. c \<noteq> CHR ''_'') (py_strip text)) of (sg, body) \<Rightarrow>
        if py_lower body \<in> {''inf'', ''infinity''} then Some (if sg < 0 then NInf else PInf)
        else if py_lower body = ''nan'' then Some NaN
        else map_option (\<lambda>q. rnd64 (of_int sg * q)) (float_body body)))"

definition py_float :: "json \<Rightarrow> flt res" where
  "py_float v =
     (case v of
        JFloat x \<Rightarrow> Inr x
      | JInt n \<Rightarrow> (case rnd64 (of_int n) of Fin q \<Rightarrow> Inr (Fin q) | _ \<Rightarrow> Inl OverflowError)
      | JBool b \<Rightarrow> Inr (Fin (if b then 1 else 0))
      | JStr s \<Rightarrow> (case float_text s of None \<Rightarrow> Inl (ValueError ''could not convert string to float'') | Some x \<Rightarrow> Inr x)
      | _ \<Rightarrow> Inl (TypeError ''float() argument must be a string or a real number''))"

definition int_text :: "string \<Rightarrow> int option" where
  "int_text text =
     (if \<not> underscores_ok False (py_strip text) then None
      else (case split_sign (filter (\<lambda>c. c \<noteq> CHR ''_'') (py_strip text)) of (sg, body) \<Rightarrow>
        if body \<noteq> [] \<and> list_all is_digit body then Some (sg * digits_value body) else None))"

definition json_int :: "json \<Rightarrow> int res" where
  "json_int v =
     (case v of
        JInt n \<Rightarrow> Inr n
      | JBool b \<Rightarrow> Inr (if b then 1 else 0)
      | JFloat x \<Rightarrow> py_int x
      | JStr s \<Rightarrow> (case int_text s of None \<Rightarrow> Inl (ValueError ''invalid literal for int()'') | Some n \<Rightarrow> Inr n)
      | _ \<Rightarrow> Inl (TypeError ''int() argument must be a string or a real number''))"

definition get_or :: "json \<Rightarrow> string \<Rightarrow> json \<Rightarrow> json" where
  "get_or raw k d = (case dict_get raw k of None \<Rightarrow> d | Some v \<Rightarrow> v)"

text \<open>\<open>v.get(k, d)\<close> and \<open>v[k]\<close> of a value that may not be a dict, and the elements of \<open>for x in v\<close>.\<close>

definition get_attr :: "json \<Rightarrow> string \<Rightarrow> json \<Rightarrow> json res" where
  "get_attr v k d = (if is_dict v then Inr (get_or v k d) else Inl (AttributeError ''get''))"

definition item_of :: "json \<Rightarrow> string \<Rightarrow> json res" where
  "item_of v k =
     (if is_dict v then (case dict_get v k of None \<Rightarrow> Inl (KeyError k) | Some x \<Rightarrow> Inr x)
      else Inl (TypeError ''indices must be integers''))"

fun iterate :: "json \<Rightarrow> json list res" where
  "iterate (JArr xs) = Inr xs"
| "iterate (JObj kvs) = Inr (map (\<lambda>kv. JStr (fst kv)) kvs)"
| "iterate (JStr s) = Inr (map (\<lambda>c. JStr [c]) s)"
| "iterate _ = Inl (TypeError ''object is not iterable'')"

definition float_at :: "json \<Rightarrow> string \<Rightarrow> json \<Rightarrow> flt res" where
  "float_at v k d = bindR (get_attr v k d) py_float"

text \<open>\<open>part in s\<close> on strings.\<close>

definition contains :: "string \<Rightarrow> string \<Rightarrow> bool" where
  "contains part s = list_ex (\<lambda>i. take (length part) (drop i s) = part) [0..<Suc (length s)]"

fun map_res :: "('a \<Rightarrow> 'b res) \<Rightarrow> 'a list \<Rightarrow> 'b list res" where
  "map_res f [] = Inr []"
| "map_res f (x # xs) = bindR (f x) (\<lambda>y. bindR (map_res f xs) (\<lambda>ys. Inr (y # ys)))"

end
