(* ===== verification/Testnet_Backend.thy ===== *)
theory Testnet_Backend
  imports Actions Json_Values
begin

text \<open>
  The testnet execution backend (\<open>execution/backend.py\<close>, class \<open>TestnetExecutionBackend\<close>): the only
  code of the repository that sends an order to an exchange. An action of the backend works on the
  execution tables, the kill switch and the outside world (exchange, clock, providers), may raise, and
  keeps every effect made before the exception. One call is one worker's run; the interleaving of
  several workers on the tables is the subject of the theory \<open>Execution_Safety\<close>.
\<close>

section \<open>Actions\<close>

record 'w backend =
  bk_hash :: hasher
  bk_exchange :: "'w signed_exchange"
  bk_policy :: supervisor_policy
  bk_validator :: "validator_config option"
  bk_journal :: "'w \<Rightarrow> live_db"
  bk_clock :: "'w \<Rightarrow> int \<times> 'w"
  bk_account :: "('w \<Rightarrow> account_snapshot option res \<times> 'w) option"
  bk_market :: "(int \<Rightarrow> 'w \<Rightarrow> market_observation option res \<times> 'w) option"
  bk_repr :: "json \<Rightarrow> string"

record 'w backend_state =
  bs_db :: exec_db
  bs_kill :: kill_state
  bs_world :: 'w

type_synonym ('w, 'a) act = "('w backend_state, 'a) dbop"

definition db_op :: "(exec_db, 'a) dbop \<Rightarrow> ('w, 'a) act" where
  "db_op f s = (case f (bs_db s) of (r, db) \<Rightarrow> (r, s\<lparr>bs_db := db\<rparr>))"

definition db_read :: "(exec_db \<Rightarrow> 'a res) \<Rightarrow> ('w, 'a) act" where
  "db_read f s = (f (bs_db s), s)"

definition world_op :: "('w \<Rightarrow> 'a res \<times> 'w) \<Rightarrow> ('w, 'a) act" where
  "world_op f s = (case f (bs_world s) of (r, w) \<Rightarrow> (r, s\<lparr>bs_world := w\<rparr>))"

definition clock_ms :: "'w backend \<Rightarrow> ('w, int) act" where
  "clock_ms B = world_op (\<lambda>w. case bk_clock B w of (t, w') \<Rightarrow> (Inr t, w'))"

definition journal_read :: "'w backend \<Rightarrow> (live_db \<Rightarrow> 'a res) \<Rightarrow> ('w, 'a) act" where
  "journal_read B f s = (f (bk_journal B (bs_world s)), s)"

section \<open>Values\<close>

definition py_str :: "'w backend \<Rightarrow> json \<Rightarrow> string" where
  "py_str B v = json_str (bk_repr B) v"

section \<open>Authority\<close>

definition check_client_authority :: "'w backend \<Rightarrow> ('w, unit) act" where
  "check_client_authority B =
     (let a = authority (sx_client (bk_exchange B))
      in sbind (lift_res (check_capability (ca_environment a) ''SUBMIT_INTENT'' (ca_environment a) (ca_credential_namespace a)
                  (ca_rest_base_url a)))
           (\<lambda>_. check (ca_environment a = ''TESTNET'') ''TESTNET_CREDENTIAL_AUTHORITY_REQUIRED''))"

definition testnet_submit_intent :: "'w backend \<Rightarrow> trade_intent \<Rightarrow> ('w, execution_report) act" where
  "testnet_submit_intent B i =
     sbind (check_client_authority B) (\<lambda>_. blocked ''AUTHORIZATION_REQUIRED: submit a persisted authorization ID'')"

definition active_receipt :: "'w backend \<Rightarrow> authorization \<Rightarrow> ('w, int) act" where
  "active_receipt B u =
     sbind (clock_ms B) (\<lambda>now.
       sbind (check (au_validated_at_ms u \<le> now \<and> now < au_expires_at_ms u \<and> au_expires_at_ms u \<le> au_validated_at_ms u + 5000)
                ''AUTHORIZATION_EXPIRED'') (\<lambda>_.
       sbind (with_state (\<lambda>s. check (allows_new_risk (bs_kill s)) ''KILL_SWITCH_ACTIVE'')) (\<lambda>_.
       sbind (check_client_authority B) (\<lambda>_. ret now))))"

definition run_validator :: "'w backend \<Rightarrow> validator_config \<Rightarrow> trade_intent \<Rightarrow> market_observation \<Rightarrow> account_snapshot \<Rightarrow> int
    \<Rightarrow> ('w, unit) act" where
  "run_validator B cfg i m a now =
     sbind (with_state (\<lambda>s. lift_res (validate (bk_hash B) cfg (bs_kill s) (bk_journal B (bs_world s)) (bs_db s) i m a now)))
       (\<lambda>r. check (vr_is_valid r) (vr_reason r))"

definition client_matches_account :: "'w backend \<Rightarrow> account_snapshot \<Rightarrow> bool" where
  "client_matches_account B a \<longleftrightarrow>
     (let c = authority (sx_client (bk_exchange B))
      in ca_environment c = as_environment a \<and> ca_credential_namespace c = as_credential_namespace a
         \<and> ca_rest_base_url c = as_rest_base_url a)"

definition recompile :: "'w backend \<Rightarrow> trade_intent \<Rightarrow> account_snapshot \<Rightarrow> risk_policy option \<Rightarrow> ('w, executable) act" where
  "recompile B i a policy =
     sbind (journal_read B (\<lambda>ldb. get_case (bk_hash B) ldb (ti_case_id i))) (\<lambda>c.
     sbind (journal_read B (\<lambda>ldb. get_proposal (bk_hash B) ldb (ti_proposal_hash i))) (\<lambda>p.
     lift_res (compile_executable_intent_fields (bk_hash B) c p a policy)))"

text \<open>The forced observation of the account and the market; a provider that raises gives no authority.\<close>

definition placement_account :: "('w \<Rightarrow> account_snapshot option res \<times> 'w) \<Rightarrow> ('w, account_snapshot option) act" where
  "placement_account f = on_error (world_op f) (\<lambda>_. blocked ''ACCOUNT_RECONCILIATION_FAILED'')"

definition placement_market :: "(int \<Rightarrow> 'w \<Rightarrow> market_observation option res \<times> 'w) \<Rightarrow> int \<Rightarrow> ('w, market_observation option) act" where
  "placement_market f now = on_error (world_op (f now)) (\<lambda>_. blocked ''MARKET_DATA_UNAVAILABLE'')"

text \<open>The part of \<open>_fresh_placement_authority\<close> behind the two observations.\<close>

definition placement_validated ::
  "'w backend \<Rightarrow> validator_config \<Rightarrow> authorization \<Rightarrow> trade_intent \<Rightarrow> bool \<Rightarrow> int \<Rightarrow> int \<Rightarrow> account_snapshot \<Rightarrow> market_observation
     \<Rightarrow> ('w, authorization) act" where
  "placement_validated B cfg u i claimed started now a m =
     sbind (check (started \<le> as_last_rest_at_ms a) ''PLACEMENT_REST_SNAPSHOT_NOT_CURRENT'') (\<lambda>_.
     sbind (check (client_matches_account B a) ''AUTHORIZATION_CLIENT_ENVIRONMENT_MISMATCH'') (\<lambda>_.
     sbind (run_validator B cfg i m a now) (\<lambda>_.
     sbind (recompile B i a (Some (vc_risk_policy cfg))) (\<lambda>x.
     sbind (check (digest (bk_hash B) (executable_json x) = au_execution_compilation_hash u) ''AUTHORIZATION_COMPILATION_MISMATCH'') (\<lambda>_.
     sbind (active_receipt B u) (\<lambda>_.
       if claimed then db_op (refresh_claimed (bk_hash B) u a m x now)
       else with_state (\<lambda>s. db_op (authorize (bk_hash B) cfg (bs_kill s) (bk_journal B (bs_world s)) (ti_intent_id i) m a now
                         (Some (au_expires_at_ms u))))))))))"

definition fresh_placement_authority ::
  "'w backend \<Rightarrow> authorization \<Rightarrow> trade_intent \<Rightarrow> bool \<Rightarrow> ('w, authorization) act" where
  "fresh_placement_authority B u i claimed =
     sbind (active_receipt B u) (\<lambda>started.
     (case (bk_validator B, bk_account B, bk_market B) of
        (Some cfg, Some account_provider, Some market_provider) \<Rightarrow>
          sbind (placement_account account_provider) (\<lambda>account.
          sbind (active_receipt B u) (\<lambda>now.
          sbind (placement_market market_provider now) (\<lambda>market.
          (case account of
             None \<Rightarrow> blocked ''ACCOUNT_RECONCILIATION_FAILED''
           | Some a \<Rightarrow>
               (case market of
                  None \<Rightarrow> blocked ''MARKET_DATA_UNAVAILABLE''
                | Some m \<Rightarrow> placement_validated B cfg u i claimed started now a m)))))
      | _ \<Rightarrow> blocked ''PLACEMENT_ACCOUNT_PROVIDER_REQUIRED''))"

section \<open>Tripping the kill switch\<close>

definition trip_observation :: "'w backend \<Rightarrow> int \<Rightarrow> kill_observation" where
  "trip_observation B now =
     (let a = authority (sx_client (bk_exchange B))
      in \<lparr>ko_account_snapshot_hash = replicate 64 (CHR ''0''), ko_environment = ca_environment a,
          ko_credential_namespace = ca_credential_namespace a, ko_rest_url = ca_rest_base_url a, ko_observed_at_ms = now,
          ko_last_reconciled_at_ms = now, ko_reconciled = True, ko_equity_usdt = Fin 1000, ko_daily_loss_usdt = Fin 0,
          ko_drawdown_pct = Fin 0, ko_order_conflicts = 0, ko_protective_missing_since_ms = Some (now - 20000)\<rparr>)"

text \<open>The model refuses a negative observation time; the reason given by the caller is not used.\<close>

definition trip_kill_switch :: "'w backend \<Rightarrow> int \<Rightarrow> ('w, unit) act" where
  "trip_kill_switch B now =
     (if now < 0 then raise (ValueError ''validation error'')
      else (\<lambda>s. (Inr (), s\<lparr>bs_kill := snd (evaluate (bk_policy B) (trip_observation B now) now (bs_kill s))\<rparr>)))"

definition trip_and_raise :: "'w backend \<Rightarrow> int \<Rightarrow> pyerr \<Rightarrow> ('w, 'a) act" where
  "trip_and_raise B now e = sbind (trip_kill_switch B now) (\<lambda>_. raise e)"

section \<open>The open position\<close>

definition one_way_mode :: "json \<Rightarrow> bool" where
  "one_way_mode v =
     (case v of JBool b \<Rightarrow> \<not> b | JInt n \<Rightarrow> n = 0 | JFloat x \<Rightarrow> feq x 0 | JStr s \<Rightarrow> s \<in> {''false'', ''False''} | _ \<Rightarrow> False)"

fun scan_positions :: "'w backend \<Rightarrow> string \<Rightarrow> string \<Rightarrow> flt option \<Rightarrow> json list \<Rightarrow> flt option res" where
  "scan_positions B symb side found [] = Inr found"
| "scan_positions B symb side found (row # rows) =
     (if \<not> is_dict row \<or> dict_get row ''symbol'' \<noteq> Some (JStr symb) then scan_positions B symb side found rows
      else bindR (py_float (get_or row ''positionAmt'' (JFloat (Fin 0)))) (\<lambda>amt.
        if \<not> isfinite amt then Inl (BinanceExecutionError ''invalid position quantity'' None)
        else if py_str B (get_or row ''positionSide'' (JStr ''BOTH'')) \<noteq> ''BOTH'' \<or> found \<noteq> None
        then Inl (BinanceExecutionError ''ambiguous position side'' None)
        else scan_positions B symb side (Some (pymax (Fin 0) (if side = ''BUY'' then amt else - amt))) rows))"

definition query_positions :: "'w backend \<Rightarrow> string \<Rightarrow> string \<Rightarrow> ('w, flt) act" where
  "query_positions B symb side =
     sbind (world_op (position_mode (bk_exchange B))) (\<lambda>mode.
       (case dict_get mode ''dualSidePosition'' of
          None \<Rightarrow> raise (BinanceExecutionError (''unparseable position mode response: '' @ bk_repr B mode) None)
        | Some v \<Rightarrow>
            if \<not> one_way_mode v then raise (BinanceExecutionError ''unsupported hedge position mode'' None)
            else sbind (world_op (positions (bk_exchange B) (Some symb))) (\<lambda>rows.
                 sbind (lift_res (scan_positions B symb side None rows)) (\<lambda>found.
                   case found of
                     None \<Rightarrow> raise (BinanceExecutionError ''position row missing'' None)
                   | Some q \<Rightarrow> ret q))))"

definition query_open_position :: "'w backend \<Rightarrow> string \<Rightarrow> string \<Rightarrow> int \<Rightarrow> ('w, flt) act" where
  "query_open_position B symb side now =
     on_error (query_positions B symb side)
       (\<lambda>e. trip_and_raise B now (ExecutionBlocked (''position query uncertainty: '' @ err_str e)))"

section \<open>Claimed intents\<close>

definition approval_matches :: "hasher \<Rightarrow> live_db \<Rightarrow> trade_intent \<Rightarrow> bool" where
  "approval_matches H ldb i =
     (case find_approval ldb (ti_approval_event_id i) of
        None \<Rightarrow> False
      | Some r \<Rightarrow> ap_action r = ''APPROVE'' \<and> ap_actor r = ti_approval_actor i \<and> ap_proposal_hash r = ti_proposal_hash i
          \<and> ap_case_hash r = ti_case_hash i \<and> digest H (approval_json (ap_event_id r) r) = ti_approval_hash i)"

definition require_claimed_intent :: "'w backend \<Rightarrow> trade_intent \<Rightarrow> ('w, unit) act" where
  "require_claimed_intent B i =
     sbind (db_read (\<lambda>db. for_claimed_intent db (ti_intent_id i))) (\<lambda>aid.
     sbind (db_read (\<lambda>db. load (bk_hash B) db aid)) (\<lambda>(u, persisted, account, market).
     sbind (check (ti_intent_hash persisted = ti_intent_hash i \<and> bk_validator B \<noteq> None) ''AUTHORIZATION_INTENT_MISMATCH'') (\<lambda>_.
     sbind (with_state (\<lambda>s. check (approval_matches (bk_hash B) (bk_journal B (bs_world s)) i) ''APPROVAL_AUTHORITY_MISMATCH'')) (\<lambda>_.
     sbind (check_client_authority B) (\<lambda>_.
     sbind (check (client_matches_account B account) ''AUTHORIZATION_CLIENT_ENVIRONMENT_MISMATCH'') (\<lambda>_.
     sbind (recompile B i account None) (\<lambda>x.
     check (digest (bk_hash B) (executable_json x) = au_execution_compilation_hash u \<and> executable_matches i x)
       ''EXECUTABLE_CONTRACT_MISMATCH'')))))))"

section \<open>Protective stops\<close>

definition contract_ok :: "trade_intent \<Rightarrow> json \<Rightarrow> string \<Rightarrow> string option \<Rightarrow> flt option \<Rightarrow> string list \<Rightarrow> string \<Rightarrow> flt \<Rightarrow> flt \<Rightarrow> bool" where
  "contract_ok i raw client_id exchange_id expected allowed parsed_id quantity stop \<longleftrightarrow>
     client_id \<noteq> [] \<and> dict_get raw ''clientAlgoId'' = Some (JStr client_id)
     \<and> (case exchange_id of None \<Rightarrow> True | Some x \<Rightarrow> parsed_id = x)
     \<and> dict_get raw ''symbol'' = Some (JStr (ti_symbol i)) \<and> dict_get raw ''side'' = Some (JStr (opposite_side (ti_side i)))
     \<and> dict_get raw ''algoType'' = Some (JStr ''CONDITIONAL'') \<and> dict_get raw ''workingType'' = Some (JStr ''MARK_PRICE'')
     \<and> protective_bool_field raw ''priceProtect'' None = Inr True \<and> protective_bool_field raw ''closePosition'' None = Inr False
     \<and> dict_get raw ''positionSide'' = Some (JStr ''BOTH'') \<and> protective_bool_field raw ''reduceOnly'' None = Inr True
     \<and> isfinite stop \<and> feq stop (ti_stop_loss i) \<and> isfinite quantity \<and> 0 < quantity \<and> quantity \<le> ti_quantity i
     \<and> (case expected of None \<Rightarrow> True | Some q \<Rightarrow> feq quantity q)"

text \<open>Every exception of the field readers is an \<open>ExecutionBlocked\<close> and makes the contract invalid.\<close>

definition validate_protective_contract ::
  "trade_intent \<Rightarrow> json \<Rightarrow> string \<Rightarrow> string option \<Rightarrow> flt option \<Rightarrow> string list \<Rightarrow> (string \<times> flt) res" where
  "validate_protective_contract i raw client_id exchange_id expected allowed =
     bindR (parse_protective_exchange_id raw) (\<lambda>parsed_id.
       case bindR (protective_numeric_field raw ''quantity'' (Some ''origQty'')) (\<lambda>quantity.
              bindR (protective_numeric_field raw ''triggerPrice'' (Some ''stopPrice'')) (\<lambda>stop.
              bindR (protective_status_field raw ''algoStatus'' (Some ''status'') allowed) (\<lambda>_.
              bindR (protective_text_field raw ''orderType'' (Some ''type'') (Some [''STOP_MARKET''])) (\<lambda>_. Inr (quantity, stop))))) of
         Inl e \<Rightarrow> contract_mismatch
       | Inr (quantity, stop) \<Rightarrow>
           if contract_ok i raw client_id exchange_id expected allowed parsed_id quantity stop then Inr (parsed_id, quantity)
           else contract_mismatch)"

definition stop_statuses :: "string list" where
  "stop_statuses = [''NEW'', ''CANCELED'', ''EXPIRED'']"

definition query_exact_protection ::
  "'w backend \<Rightarrow> trade_intent \<Rightarrow> string \<Rightarrow> string \<Rightarrow> flt \<Rightarrow> bool \<Rightarrow> ('w, json option \<times> string) act" where
  "query_exact_protection B i cid xid quantity allow_absent =
     sbind (on_error (sbind (world_op (query_protective_order (bk_exchange B) xid)) (\<lambda>raw. ret (Some raw)))
              (\<lambda>e. case e of
                     BinanceExecutionError msg code \<Rightarrow> if allow_absent \<and> code = Some (- 2013) then ret None else raise e
                   | _ \<Rightarrow> raise e))
       (\<lambda>answer.
          case answer of
            None \<Rightarrow> ret (None, ''NOT_FOUND'')
          | Some raw \<Rightarrow>
              sbind (lift_res (validate_protective_contract i raw cid (Some xid) (Some quantity) stop_statuses)) (\<lambda>_.
              sbind (lift_res (protective_status_field raw ''algoStatus'' (Some ''status'') stop_statuses)) (\<lambda>status.
              ret (Some raw, status))))"

definition cancel_protective_stop :: "'w backend \<Rightarrow> trade_intent \<Rightarrow> string \<Rightarrow> string \<Rightarrow> int \<Rightarrow> ('w, unit) act" where
  "cancel_protective_stop B i cid xid now =
     on_error
       (sbind (db_read (\<lambda>db. get_owner (bk_hash B) db i)) (\<lambda>owner.
          case owner of
            None \<Rightarrow> blocked ''PROTECTION_OWNER_MISSING''
          | Some w \<Rightarrow>
              sbind (db_op (begin_cancellation (bk_hash B) i cid xid now)) (\<lambda>_.
              sbind (world_op (cancel_protective_order (bk_exchange B) (ti_symbol i) xid)) (\<lambda>_.
              sbind (query_exact_protection B i cid xid (ow_quantity w) True) (\<lambda>(raw, status).
              if status = ''NEW'' then blocked ''PROTECTION_CANCELLATION_UNCERTAIN''
              else db_op (confirm_terminal (bk_hash B) i cid xid status now))))))
       (\<lambda>_. trip_and_raise B now (ExecutionBlocked ''PROTECTION_CANCELLATION_UNCERTAIN''))"

definition stop_params :: "trade_intent \<Rightarrow> string \<Rightarrow> flt \<Rightarrow> (string \<times> json) list" where
  "stop_params i cid quantity =
     [(''algoType'', JStr ''CONDITIONAL''), (''positionSide'', JStr ''BOTH''), (''symbol'', JStr (ti_symbol i)),
      (''side'', JStr (opposite_side (ti_side i))), (''type'', JStr ''STOP_MARKET''), (''triggerPrice'', JFloat (ti_stop_loss i)),
      (''closePosition'', JStr ''false''), (''quantity'', JFloat quantity), (''reduceOnly'', JStr ''true''),
      (''workingType'', JStr ''MARK_PRICE''), (''priceProtect'', JStr ''TRUE''), (''clientAlgoId'', JStr cid)]"

text \<open>The body of \<open>_place_protective_stop\<close> behind the size check: reserve a client id, post, remember the
  exchange id, query it back, compare with the position again and only then confirm.\<close>

definition install_stop :: "'w backend \<Rightarrow> trade_intent \<Rightarrow> flt \<Rightarrow> int \<Rightarrow> ('w, string) act" where
  "install_stop B i quantity now =
     sbind (db_op (next_client_id (bk_hash B) i now quantity)) (\<lambda>cid.
     sbind (world_op (place_protective_order (bk_exchange B) (stop_params i cid quantity))) (\<lambda>raw_stop.
     sbind (lift_res (parse_protective_exchange_id raw_stop)) (\<lambda>stop_id.
     sbind (db_op (pending_exchange_id (bk_hash B) i cid stop_id now)) (\<lambda>_.
     sbind (world_op (query_protective_order (bk_exchange B) stop_id)) (\<lambda>confirmed.
     sbind (lift_res (validate_protective_contract i confirmed cid (Some stop_id) (Some quantity) [''NEW''])) (\<lambda>_.
     sbind (query_open_position B (ti_symbol i) (ti_side i) now) (\<lambda>current.
     sbind (check (\<not> current < quantity) ''PROTECTION_POSITION_CHANGED'') (\<lambda>_.
     sbind (db_op (record_stop (bk_hash B) i cid stop_id quantity now (Some confirmed))) (\<lambda>_.
     ret stop_id)))))))))"

definition place_protective_stop :: "'w backend \<Rightarrow> trade_intent \<Rightarrow> flt \<Rightarrow> int \<Rightarrow> ('w, string) act" where
  "place_protective_stop B i target now =
     on_error
       (sbind (require_claimed_intent B i) (\<lambda>_.
        sbind (query_open_position B (ti_symbol i) (ti_side i) now) (\<lambda>current.
          let quantity = pymin (pymin target (ti_quantity i)) current
          in if quantity \<le> 0 then blocked ''PROTECTION_POSITION_FLAT'' else install_stop B i quantity now)))
       (\<lambda>e. trip_and_raise B now (ExecutionBlocked (''failed to place required protective stop: '' @ err_str e)))"

section \<open>Reconciling the stop with the position\<close>

definition owner_or_blocked :: "'w backend \<Rightarrow> trade_intent \<Rightarrow> ('w, owner_row) act" where
  "owner_or_blocked B i =
     sbind (db_read (\<lambda>db. get_owner (bk_hash B) db i)) (\<lambda>owner.
       case owner of None \<Rightarrow> blocked ''PROTECTION_OWNER_MISSING'' | Some w \<Rightarrow> ret w)"

text \<open>A terminally confirmed stop: release the owner when the position is flat, else clear the stop and go
  on with the reserved owner. \<open>None\<close> is the early return.\<close>

definition settle_terminal :: "'w backend \<Rightarrow> trade_intent \<Rightarrow> owner_row \<Rightarrow> flt \<Rightarrow> int \<Rightarrow> ('w, owner_row option) act" where
  "settle_terminal B i w target now =
     (if ow_status w \<noteq> ''TERMINAL_CONFIRMED'' then ret (Some w)
      else if feq target 0 then sbind (db_op (release_flat (bk_hash B) i now)) (\<lambda>_. ret None)
      else (case (ow_protective_client_id w, ow_exchange_id w) of
              (Some cid, Some xid) \<Rightarrow>
                sbind (db_op (clear_stop (bk_hash B) i cid xid now False)) (\<lambda>_.
                sbind (owner_or_blocked B i) (\<lambda>w'. ret (Some w')))
            | _ \<Rightarrow> blocked ''PROTECTION_OWNER_MISSING''))"

text \<open>The stop an owner may have at the exchange, looked up by its exact id. The result is the owner to go
  on with and the confirmed document; \<open>None\<close> is the early return of a released owner.\<close>

definition confirm_remote :: "'w backend \<Rightarrow> trade_intent \<Rightarrow> owner_row \<Rightarrow> flt \<Rightarrow> int \<Rightarrow> ('w, (owner_row \<times> json option) option) act" where
  "confirm_remote B i w target now =
     (case ow_protective_client_id w of
        None \<Rightarrow> if ow_status w \<noteq> ''RESERVED'' then blocked ''PROTECTION_STOP_UNCERTAIN'' else ret (Some (w, None))
      | Some cid \<Rightarrow>
          (case ow_exchange_id w of
             None \<Rightarrow> blocked ''PROTECTION_STOP_UNCERTAIN''
           | Some xid \<Rightarrow>
               sbind (query_exact_protection B i cid xid (ow_quantity w) (feq target 0)) (\<lambda>(confirmed, status).
               if status \<noteq> ''NEW'' then
                 sbind (db_op (confirm_terminal (bk_hash B) i cid xid status now)) (\<lambda>_.
                 if feq target 0 then sbind (db_op (release_flat (bk_hash B) i now)) (\<lambda>_. ret None)
                 else if ow_status w \<noteq> ''CANCEL_PENDING'' then blocked ''PROTECTION_ORDER_MISSING''
                 else sbind (db_op (clear_stop (bk_hash B) i cid xid now False)) (\<lambda>_.
                      sbind (owner_or_blocked B i) (\<lambda>w'. ret (Some (w', None)))))
               else if ow_status w = ''CANCEL_PENDING'' then blocked ''PROTECTION_CANCELLATION_UNCERTAIN''
               else ret (Some (w, confirmed)))))"

fun scan_algos :: "trade_intent \<Rightarrow> owner_row \<Rightarrow> flt \<Rightarrow> bool \<Rightarrow> json list \<Rightarrow> unit res" where
  "scan_algos i w target matched [] = Inr ()"
| "scan_algos i w target matched (algo # rest) =
     (if \<not> is_dict algo then Inl (ExecutionBlocked ''PROTECTION_ORDER_AMBIGUOUS'')
      else (case ow_protective_client_id w of
              Some cid \<Rightarrow>
                if dict_get algo ''clientAlgoId'' = Some (JStr cid) then
                  (if matched then Inl (ExecutionBlocked ''PROTECTION_ORDER_AMBIGUOUS'')
                   else bindR (if 0 < target then
                                 bindR (validate_protective_contract i algo cid (ow_exchange_id w) (Some (ow_quantity w)) [''NEW''])
                                   (\<lambda>_. Inr ())
                               else Inr ())
                          (\<lambda>_. scan_algos i w target True rest))
                else if 0 < target then Inl (ExecutionBlocked ''PROTECTION_ORDER_UNKNOWN'')
                else scan_algos i w target matched rest
            | None \<Rightarrow>
                if 0 < target then Inl (ExecutionBlocked ''PROTECTION_ORDER_UNKNOWN'')
                else scan_algos i w target matched rest))"

definition check_open_algos :: "'w backend \<Rightarrow> trade_intent \<Rightarrow> owner_row \<Rightarrow> flt \<Rightarrow> ('w, unit) act" where
  "check_open_algos B i w target =
     sbind (on_error (world_op (open_protective_orders (bk_exchange B) (Some (ti_symbol i))))
              (\<lambda>_. blocked ''protective query uncertainty'')) (\<lambda>algos.
       case algos of
         JArr xs \<Rightarrow> lift_res (scan_algos i w target False xs)
       | _ \<Rightarrow> blocked ''PROTECTION_ORDER_AMBIGUOUS'')"

text \<open>The tail: cancel and release when flat, confirm a stop of the right size, replace any other.\<close>

definition settle_stop :: "'w backend \<Rightarrow> trade_intent \<Rightarrow> owner_row \<Rightarrow> json option \<Rightarrow> flt \<Rightarrow> int \<Rightarrow> ('w, string option) act" where
  "settle_stop B i w confirmed target now =
     (case (confirmed, ow_protective_client_id w, ow_exchange_id w) of
        (Some doc, Some cid, Some xid) \<Rightarrow>
          if feq target 0 then
            sbind (cancel_protective_stop B i cid xid now) (\<lambda>_.
            sbind (db_op (release_flat (bk_hash B) i now)) (\<lambda>_. ret None))
          else if feq (ow_quantity w) target then
            sbind (db_op (record_stop (bk_hash B) i cid xid target now (Some doc))) (\<lambda>_. ret (Some xid))
          else
            sbind (cancel_protective_stop B i cid xid now) (\<lambda>_.
            sbind (db_op (clear_stop (bk_hash B) i cid xid now False)) (\<lambda>_.
            sbind (place_protective_stop B i target now) (\<lambda>stop_id. ret (Some stop_id))))
      | _ \<Rightarrow>
          if feq target 0 then sbind (db_op (release_flat (bk_hash B) i now)) (\<lambda>_. ret None)
          else sbind (place_protective_stop B i target now) (\<lambda>stop_id. ret (Some stop_id)))"

definition reconcile_owned :: "'w backend \<Rightarrow> trade_intent \<Rightarrow> owner_row \<Rightarrow> flt \<Rightarrow> int \<Rightarrow> ('w, string option) act" where
  "reconcile_owned B i w target now =
     sbind (settle_terminal B i w target now) (\<lambda>settled.
       case settled of
         None \<Rightarrow> ret None
       | Some w1 \<Rightarrow>
           sbind (check (ow_status w1 \<in> {''RESERVED'', ''PENDING_CONFIRMATION'', ''ACTIVE'', ''CANCEL_PENDING''})
                    ''PROTECTION_OWNER_MISSING'') (\<lambda>_.
           sbind (confirm_remote B i w1 target now) (\<lambda>remote.
             case remote of
               None \<Rightarrow> ret None
             | Some (w2, confirmed) \<Rightarrow>
                 sbind (check_open_algos B i w2 target) (\<lambda>_. settle_stop B i w2 confirmed target now))))"

definition block_uncertain :: "pyerr \<Rightarrow> pyerr" where
  "block_uncertain e = (case e of ExecutionBlocked m \<Rightarrow> e | _ \<Rightarrow> ExecutionBlocked ''PROTECTION_RECONCILIATION_UNCERTAIN'')"

definition reconcile_protective_stop :: "'w backend \<Rightarrow> trade_intent \<Rightarrow> flt \<Rightarrow> int \<Rightarrow> ('w, string option) act" where
  "reconcile_protective_stop B i filled now =
     sbind (require_claimed_intent B i) (\<lambda>_.
     sbind (db_read (\<lambda>db. get_owner (bk_hash B) db i)) (\<lambda>owner.
       case owner of
         None \<Rightarrow> trip_and_raise B now (ExecutionBlocked ''PROTECTION_OWNER_MISSING'')
       | Some w \<Rightarrow>
           if ow_status w = ''RELEASED'' then ret None
           else sbind (query_open_position B (ti_symbol i) (ti_side i) now) (\<lambda>current.
                  let target = pymax (pymin (pymin current filled) (ti_quantity i)) (Fin 0)
                  in on_error (reconcile_owned B i w target now) (\<lambda>e. trip_and_raise B now (block_uncertain e)))))"

section \<open>The entry order\<close>

definition entry_identity_ok :: "'w backend \<Rightarrow> trade_intent \<Rightarrow> json \<Rightarrow> bool" where
  "entry_identity_ok B i raw \<longleftrightarrow> is_dict raw \<and> (case dict_get raw ''orderId'' of None \<Rightarrow> False | Some v \<Rightarrow> truthy v)
     \<and> dict_get raw ''clientOrderId'' = Some (JStr (ti_client_order_id i)) \<and> dict_get raw ''symbol'' = Some (JStr (ti_symbol i))
     \<and> dict_get raw ''side'' = Some (JStr (ti_side i))
     \<and> (\<exists>st \<in> {''NEW'', ''PARTIALLY_FILLED'', ''FILLED'', ''CANCELED'', ''EXPIRED'', ''REJECTED''}.
          dict_get raw ''status'' = Some (JStr st))"

definition entry_order_id :: "'w backend \<Rightarrow> json \<Rightarrow> string" where
  "entry_order_id B raw = py_str B (get_or raw ''orderId'' (JStr []))"

definition entry_conflict :: "'w backend \<Rightarrow> trade_intent \<Rightarrow> json \<Rightarrow> exec_db \<Rightarrow> bool" where
  "entry_conflict B i raw db = list_ex (\<lambda>r. (od_client_order_id r = ti_client_order_id i \<or> od_order_id r = entry_order_id B raw)
     \<and> (od_intent_id r \<noteq> ti_intent_id i \<or> od_client_order_id r \<noteq> ti_client_order_id i \<or> od_order_id r \<noteq> entry_order_id B raw))
     (live_execution_orders db)"

text \<open>\<open>ValueError\<close> and \<open>TypeError\<close> are identity conflicts; a number too large for a float escapes as
  \<open>OverflowError\<close>.\<close>

definition verify_exchange_entry :: "'w backend \<Rightarrow> trade_intent \<Rightarrow> json \<Rightarrow> int \<Rightarrow> ('w, unit) act" where
  "verify_exchange_entry B i raw now =
     (let conflict = trip_and_raise B now (ExecutionBlocked ''ORDER_IDENTITY_CONFLICT'')
      in if \<not> entry_identity_ok B i raw then conflict
         else (case py_float (get_or raw ''executedQty'' (JInt 0)) of
                 Inl OverflowError \<Rightarrow> raise OverflowError
               | Inl e \<Rightarrow> conflict
               | Inr filled \<Rightarrow>
                   if \<not> isfinite filled \<or> \<not> (0 \<le> filled \<and> filled \<le> ti_quantity i + epsilon9) then conflict
                   else with_state (\<lambda>s. if entry_conflict B i raw (bs_db s) then conflict else ret ())))"

definition entry_row :: "'w backend \<Rightarrow> trade_intent \<Rightarrow> json \<Rightarrow> string \<Rightarrow> flt \<Rightarrow> flt \<Rightarrow> int \<Rightarrow> int \<Rightarrow> order_row" where
  "entry_row B i raw status filled avg exchange_time now =
     \<lparr>od_order_id = entry_order_id B raw, od_intent_id = ti_intent_id i, od_client_order_id = ti_client_order_id i,
      od_symbol = ti_symbol i, od_side = ti_side i, od_status = status, od_requested_qty = ti_quantity i, od_filled_qty = filled,
      od_avg_price = avg, od_stop_price = None, od_is_protective = False, od_reduce_only = False,
      od_exchange_time_ms = exchange_time, od_receipt_time_ms = now, od_payload = raw\<rparr>"

text \<open>SQLite stores NaN as NULL, which the column refuses.\<close>

definition null_refused :: "order_row \<Rightarrow> exec_db res \<Rightarrow> exec_db res" where
  "null_refused o1 r = (if od_avg_price o1 = NaN then Inl (IntegrityError ''NOT NULL constraint failed: live_execution_orders.avg_price'') else r)"

definition insert_entry :: "order_row \<Rightarrow> (exec_db, unit) dbop" where
  "insert_entry o1 db = (case null_refused o1 (insert_order o1 db) of Inl e \<Rightarrow> (Inl e, db) | Inr db' \<Rightarrow> (Inr (), db'))"

definition upsert_entry :: "order_row \<Rightarrow> (exec_db, unit) dbop" where
  "upsert_entry o1 db =
     (case null_refused o1
        (if list_ex (\<lambda>r. od_client_order_id r = od_client_order_id o1) (live_execution_orders db) then
           Inr (db\<lparr>live_execution_orders := update_where (\<lambda>r. od_client_order_id r = od_client_order_id o1)
             (\<lambda>r. r\<lparr>od_status := od_status o1, od_filled_qty := od_filled_qty o1, od_avg_price := od_avg_price o1,
                    od_exchange_time_ms := od_exchange_time_ms o1, od_receipt_time_ms := od_receipt_time_ms o1,
                    od_payload := od_payload o1\<rparr>) (live_execution_orders db)\<rparr>)
         else insert_order o1 db) of
        Inl e \<Rightarrow> (Inl e, db) | Inr db' \<Rightarrow> (Inr (), db'))"

text \<open>The fields the code reads from an accepted entry document.\<close>

definition entry_fields :: "'w backend \<Rightarrow> json \<Rightarrow> string \<Rightarrow> int \<Rightarrow> (string \<times> flt \<times> flt \<times> int) res" where
  "entry_fields B raw default_status now =
     bindR (py_float (get_or raw ''executedQty'' (JFloat (Fin 0)))) (\<lambda>filled.
     bindR (py_float (get_or raw ''avgPrice'' (JFloat (Fin 0)))) (\<lambda>avg.
     bindR (json_int (get_or raw ''updateTime'' (JInt now))) (\<lambda>t.
     Inr (py_str B (get_or raw ''status'' (JStr default_status)), filled, avg, t))))"

definition entry_report :: "trade_intent \<Rightarrow> string \<Rightarrow> string \<Rightarrow> flt \<Rightarrow> flt \<Rightarrow> string option \<Rightarrow> string \<Rightarrow> json option \<Rightarrow> execution_report" where
  "entry_report i status oid filled avg stop reason raw =
     \<lparr>er_intent_id = ti_intent_id i, er_status = status, er_order_id = oid, er_client_order_id = ti_client_order_id i,
      er_requested_qty = ti_quantity i, er_filled_qty = filled, er_avg_price = avg, er_protective_stop_id = stop,
      er_reason = reason, er_raw = raw\<rparr>"

section \<open>Reconciliation of a claimed intent\<close>

definition latest_reason :: "string \<Rightarrow> exec_db \<Rightarrow> string option" where
  "latest_reason iid db = map_option it_reason (List.find (\<lambda>t. it_intent_id t = iid) (rev (live_intent_transitions db)))"

definition proven_aborted :: "string \<Rightarrow> exec_db \<Rightarrow> bool" where
  "proven_aborted iid db \<longleftrightarrow> latest_reason iid db = Some ''PRE_ENTRY_ABORTED''
     \<and> \<not> list_ex (\<lambda>r. od_intent_id r = iid \<and> \<not> od_is_protective r) (live_execution_orders db)"

text \<open>The exchange proves that the entry does not exist: the claim is given back only for an abort that
  was recorded before any entry request.\<close>

definition absent_entry :: "'w backend \<Rightarrow> trade_intent \<Rightarrow> int \<Rightarrow> ('w, execution_report) act" where
  "absent_entry B i now =
     (let unknown = ret (entry_report i ''UNKNOWN'' [] (Fin 0) (Fin 0) None ''ENTRY_PROVEN_ABSENT_NO_NEW_PLACEMENT'' None)
      in with_state (\<lambda>s. if \<not> proven_aborted (ti_intent_id i) (bs_db s) then unknown
         else sbind (db_read (\<lambda>db. get_owner (bk_hash B) db i)) (\<lambda>owner.
                case owner of
                  None \<Rightarrow> unknown
                | Some w \<Rightarrow>
                    if ow_protective_client_id w \<noteq> None then unknown
                    else sbind (query_open_position B (ti_symbol i) (ti_side i) now) (\<lambda>q.
                           if feq q 0 then
                             sbind (db_op (release_flat (bk_hash B) i now)) (\<lambda>_.
                               ret (entry_report i ''ABORTED'' [] (Fin 0) (Fin 0) None ''PROVEN_PRE_ENTRY_ABORTED'' None))
                           else unknown))))"

definition live_stop :: "string \<Rightarrow> exec_db \<Rightarrow> bool" where
  "live_stop iid db = list_ex (\<lambda>r. od_intent_id r = iid \<and> od_is_protective r \<and> od_status r \<noteq> ''CANCELED'') (live_execution_orders db)"

definition observed_entry :: "'w backend \<Rightarrow> trade_intent \<Rightarrow> json \<Rightarrow> int \<Rightarrow> ('w, execution_report) act" where
  "observed_entry B i raw now =
     sbind (verify_exchange_entry B i raw now) (\<lambda>_.
     sbind (lift_res (entry_fields B raw ''UNKNOWN'' now)) (\<lambda>(status, filled, avg, t).
     sbind (db_op (upsert_entry (entry_row B i raw status filled avg t now))) (\<lambda>_.
     sbind (with_state (\<lambda>s.
              if 0 < filled \<or> live_stop (ti_intent_id i) (bs_db s) \<or> status \<in> {''CANCELED'', ''EXPIRED'', ''REJECTED''}
              then reconcile_protective_stop B i filled now else ret None))
       (\<lambda>stop. ret (entry_report i status (entry_order_id B raw) filled avg stop [] (Some raw))))))"

definition reconcile_authorized :: "'w backend \<Rightarrow> string \<Rightarrow> int \<Rightarrow> ('w, execution_report) act" where
  "reconcile_authorized B iid now =
     sbind (db_read (\<lambda>db. for_claimed_intent db iid)) (\<lambda>aid.
     sbind (db_read (\<lambda>db. load (bk_hash B) db aid)) (\<lambda>(u, i, account, market).
     sbind (require_claimed_intent B i) (\<lambda>_.
     (let a = authority (sx_client (bk_exchange B))
      in sbind (lift_res (check_capability (ca_environment a) ''RECONCILE_INTENT'' (ca_environment a) (ca_credential_namespace a)
                  (ca_rest_base_url a))) (\<lambda>_.
         sbind (on_error
                  (sbind (world_op (query_order_by_client_id (bk_exchange B) (ti_symbol i) (ti_client_order_id i)))
                     (\<lambda>raw. ret (Some raw)))
                  (\<lambda>e. case e of
                         BinanceExecutionError msg code \<Rightarrow>
                           if code = Some (- 2013) then ret None
                           else trip_and_raise B now (ExecutionBlocked ''ORDER_RECONCILIATION_UNCERTAIN'')
                       | _ \<Rightarrow> trip_and_raise B now (ExecutionBlocked ''ORDER_RECONCILIATION_UNCERTAIN'')))
           (\<lambda>answer. case answer of None \<Rightarrow> absent_entry B i now | Some raw \<Rightarrow> observed_entry B i raw now))))))"

section \<open>Submission\<close>

text \<open>A margin type that already is ISOLATED is recognised by the text of the exception.\<close>

definition set_margin_type :: "'w backend \<Rightarrow> trade_intent \<Rightarrow> ('w, unit) act" where
  "set_margin_type B i =
     on_error (sbind (world_op (change_margin_type (bk_exchange B) (ti_symbol i) ''ISOLATED'')) (\<lambda>_. ret ()))
       (\<lambda>e. if contains ''-4046'' (err_str e) then ret () else raise e)"

text \<open>Everything between the claim and the entry request; it ends with the authority to place.\<close>

definition pre_entry :: "'w backend \<Rightarrow> trade_intent \<Rightarrow> authorization \<Rightarrow> int \<Rightarrow> ('w, authorization) act" where
  "pre_entry B i u now =
     sbind (db_op (reserve_owner (bk_hash B) i now)) (\<lambda>_.
     sbind (active_receipt B u) (\<lambda>_.
     sbind (set_margin_type B i) (\<lambda>_.
     sbind (active_receipt B u) (\<lambda>_.
     sbind (world_op (change_leverage (bk_exchange B) (ti_symbol i) (ti_leverage i))) (\<lambda>_.
     sbind (fresh_placement_authority B u i True) (\<lambda>v.
     sbind (active_receipt B v) (\<lambda>t.
     sbind (db_read (\<lambda>db. load (bk_hash B) db (au_authorization_id v))) (\<lambda>(stored, stored_i, account, market).
     sbind (check (stored = v \<and> stored_i = i) ''AUTHORIZATION_BINDING_MISMATCH'') (\<lambda>_.
     (case bk_validator B of
        None \<Rightarrow> blocked ''AUTHORIZATION_REQUIRED''
      | Some cfg \<Rightarrow>
          sbind (run_validator B cfg i market account t) (\<lambda>_.
          sbind (db_read (\<lambda>db. for_claimed_intent db (ti_intent_id i))) (\<lambda>aid.
          sbind (check (aid = au_authorization_id v) ''AUTHORIZATION_CLAIM_OWNERSHIP_LOST'') (\<lambda>_. ret v)))))))))))))"

definition aborting :: "'w backend \<Rightarrow> trade_intent \<Rightarrow> ('w, 'a) act \<Rightarrow> ('w, 'a) act" where
  "aborting B i m =
     on_error m (\<lambda>e. sbind (clock_ms B) (\<lambda>t.
       sbind (db_op (update_status (ti_intent_id i) ''ABORTED'' ''PRE_ENTRY_ABORTED'' t)) (\<lambda>_. raise e)))"

definition entry_params :: "trade_intent \<Rightarrow> (string \<times> json) list" where
  "entry_params i =
     [(''symbol'', JStr (ti_symbol i)), (''side'', JStr (ti_side i)), (''type'', JStr (ti_order_type i)),
      (''quantity'', JFloat (ti_quantity i)), (''newClientOrderId'', JStr (ti_client_order_id i))]
     @ (if ti_order_type i = ''LIMIT'' then [(''price'', JFloat (ti_price i)), (''timeInForce'', JStr ''GTC'')] else [])"

text \<open>The entry request. Whatever it raises, the order is looked up by its client id before anything else;
  only the exchange's own answer that there is no such order counts as absence (\<open>None\<close>).\<close>

definition place_entry :: "'w backend \<Rightarrow> trade_intent \<Rightarrow> ('w, json option) act" where
  "place_entry B i =
     on_error (sbind (world_op (place_order (bk_exchange B) (entry_params i))) (\<lambda>raw. ret (Some raw)))
       (\<lambda>_. on_error (sbind (world_op (query_order_by_client_id (bk_exchange B) (ti_symbol i) (ti_client_order_id i)))
                         (\<lambda>raw. ret (Some raw)))
         (\<lambda>e. case e of
                BinanceExecutionError msg code \<Rightarrow>
                  if code = Some (- 2013) then ret None
                  else blocked (''Transport uncertainty: order submission timed out and query failed: '' @ err_str e)
              | _ \<Rightarrow> blocked (''Transport uncertainty: order submission timed out and query failed: '' @ err_str e)))"

definition placed_entry :: "'w backend \<Rightarrow> trade_intent \<Rightarrow> json \<Rightarrow> int \<Rightarrow> ('w, execution_report) act" where
  "placed_entry B i raw now =
     sbind (verify_exchange_entry B i raw now) (\<lambda>_.
     sbind (lift_res (entry_fields B raw ''NEW'' now)) (\<lambda>(status, filled, avg, t).
     sbind (db_op (insert_entry (entry_row B i raw status filled avg t now))) (\<lambda>_.
     sbind (if 0 < filled then reconcile_protective_stop B i filled now else ret None) (\<lambda>stop.
     ret (entry_report i status (entry_order_id B raw) filled avg stop [] (Some raw))))))"

text \<open>From a granted claim to the entry order.\<close>

definition submit_claimed :: "'w backend \<Rightarrow> trade_intent \<Rightarrow> authorization \<Rightarrow> int \<Rightarrow> ('w, execution_report) act" where
  "submit_claimed B i u now =
     sbind (aborting B i (pre_entry B i u now)) (\<lambda>v.
     sbind (active_receipt B v) (\<lambda>t.
     sbind (place_entry B i) (\<lambda>answer.
       case answer of
         None \<Rightarrow> ret (entry_report i ''ABORTED'' [] (Fin 0) (Fin 0) None ''TRANSPORT_FAILURE_PROVEN_ABSENT'' None)
       | Some raw \<Rightarrow> placed_entry B i raw t)))"

definition submit_authorized :: "'w backend \<Rightarrow> string \<Rightarrow> ('w, execution_report) act" where
  "submit_authorized B aid =
     sbind (db_read (\<lambda>db. load (bk_hash B) db aid)) (\<lambda>(u, i, account, market).
     sbind (db_read (\<lambda>db. has_existing_side_effect (bk_hash B) db (ti_intent_id i))) (\<lambda>existing.
       if existing then sbind (clock_ms B) (\<lambda>t. reconcile_authorized B (ti_intent_id i) t)
       else
         sbind (active_receipt B u) (\<lambda>_.
         sbind (fresh_placement_authority B u i False) (\<lambda>v.
         sbind (active_receipt B v) (\<lambda>t.
         sbind (db_op (claim v t)) (\<lambda>granted.
           if \<not> granted then blocked ''AUTHORIZATION_IN_FLIGHT_RECONCILIATION_REQUIRED''
           else submit_claimed B i v t))))))"

definition testnet_reconcile_intent :: "trade_intent \<Rightarrow> ('w, execution_report) act" where
  "testnet_reconcile_intent i = blocked ''AUTHORIZATION_REQUIRED: reconcile a persisted intent ID''"

end
