(* ===== verification/Execution_Safety.thy ===== *)
theory Execution_Safety
  imports Testnet_Backend
begin

text \<open>
  The execution tables as one transition system. \<open>exec_cmd\<close> lists every committed write of the
  intent store, the account store, the authorization store, the protection store and both
  backends; arguments read in an earlier connection (an owner, an intent, a receipt) are arbitrary, so the steps of
  several workers interleave freely. The invariant ties the tables together, and three observations
  are latched: the intent of an approval event, the claim of an intent, the release of an owner.
\<close>

section \<open>Steps\<close>

datatype exec_cmd =
    SaveAccount account_snapshot string
  | SaveIntent trade_intent string
  | UpdateStatus string string string
  | Issue trade_intent account_snapshot market_observation executable int
  | Claim authorization
  | Refresh authorization account_snapshot market_observation executable
  | ReserveOwner trade_intent
  | NextClientId owner_row flt
  | PendingExchangeId trade_intent string string
  | BeginCancellation trade_intent string string
  | RecordStop trade_intent string string flt "json option"
  | ConfirmTerminal trade_intent string string string
  | ClearStop trade_intent string string bool
  | ReleaseFlat string string
  | SubmitDry trade_intent
  | ReconcileDry trade_intent flt
  | InsertEntry order_row
  | UpsertEntry order_row

fun run_cmd :: "hasher \<Rightarrow> int \<Rightarrow> exec_cmd \<Rightarrow> exec_db \<Rightarrow> exec_db" where
  "run_cmd H t (SaveAccount a ev) db = snd (account_save H a ev db)"
| "run_cmd H t (SaveIntent i status) db = snd (save_intent H i status db)"
| "run_cmd H t (UpdateStatus iid new reason) db = snd (update_status iid new reason t db)"
| "run_cmd H t (Issue i a m x expires) db = snd (issue H i a m x t expires db)"
| "run_cmd H t (Claim u) db = snd (claim u t db)"
| "run_cmd H t (Refresh u a m x) db = snd (refresh_claimed H u a m x t db)"
| "run_cmd H t (ReserveOwner i) db = snd (reserve_owner H i t db)"
| "run_cmd H t (NextClientId w q) db = snd (next_client_id_tx H w t q db)"
| "run_cmd H t (PendingExchangeId i cid xid) db = snd (pending_exchange_id H i cid xid t db)"
| "run_cmd H t (BeginCancellation i cid xid) db = snd (begin_cancellation H i cid xid t db)"
| "run_cmd H t (RecordStop i cid xid q doc) db = snd (record_stop H i cid xid q t doc db)"
| "run_cmd H t (ConfirmTerminal i cid xid status) db = snd (confirm_terminal H i cid xid status t db)"
| "run_cmd H t (ClearStop i cid xid b) db = snd (clear_stop H i cid xid t b db)"
| "run_cmd H t (ReleaseFlat iid key) db = snd (release_flat_tx iid key t db)"
| "run_cmd H t (SubmitDry i) db = snd (submit_intent i t db)"
| "run_cmd H t (ReconcileDry i target) db = snd (reconcile_tx i target t db)"
| "run_cmd H t (InsertEntry o1) db = snd (insert_entry o1 db)"
| "run_cmd H t (UpsertEntry o1) db = snd (upsert_entry o1 db)"

inductive exec_step :: "hasher \<Rightarrow> exec_db \<Rightarrow> exec_db \<Rightarrow> bool" for H where
  commit: "exec_step H db (run_cmd H t cmd db)"

inductive_cases exec_stepE: "exec_step H db db'"

section \<open>What each write touches\<close>

text \<open>The effect of every write on a table is one of a few shapes, stated once per table.\<close>

lemma set_intent_status_tables [simp]:
  "live_account_snapshots (set_intent_status iid new old reason now db) = live_account_snapshots db"
  "live_execution_claims (set_intent_status iid new old reason now db) = live_execution_claims db"
  "live_execution_orders (set_intent_status iid new old reason now db) = live_execution_orders db"
  "live_protection_owners (set_intent_status iid new old reason now db) = live_protection_owners db"
  "live_pre_execution_authorizations (set_intent_status iid new old reason now db) = live_pre_execution_authorizations db"
  "live_trade_intents (set_intent_status iid new old reason now db) =
     update_where (\<lambda>r. ir_intent_id r = iid) (\<lambda>r. r\<lparr>ir_status := new\<rparr>) (live_trade_intents db)"
  by (simp_all add: set_intent_status_def)

lemma add_market_tables [simp]:
  "live_trade_intents (add_market m db) = live_trade_intents db"
  "live_execution_claims (add_market m db) = live_execution_claims db"
  "live_execution_orders (add_market m db) = live_execution_orders db"
  "live_protection_owners (add_market m db) = live_protection_owners db"
  "live_pre_execution_authorizations (add_market m db) = live_pre_execution_authorizations db"
  by (simp_all add: add_market_def)

lemma update_owners_tables [simp]:
  "live_trade_intents (update_owners P f db) = live_trade_intents db"
  "live_execution_claims (update_owners P f db) = live_execution_claims db"
  "live_execution_orders (update_owners P f db) = live_execution_orders db"
  "live_protection_owners (update_owners P f db) = update_where P f (live_protection_owners db)"
  by (simp_all add: update_owners_def)

lemma authorization_updates_tables [simp]:
  "live_trade_intents (set_authorization_status aid s db) = live_trade_intents db"
  "live_execution_claims (set_authorization_status aid s db) = live_execution_claims db"
  "live_execution_orders (set_authorization_status aid s db) = live_execution_orders db"
  "live_protection_owners (set_authorization_status aid s db) = live_protection_owners db"
  "live_trade_intents (log_transition iid old new reason now db) = live_trade_intents db"
  "live_execution_claims (log_transition iid old new reason now db) = live_execution_claims db"
  "live_execution_orders (log_transition iid old new reason now db) = live_execution_orders db"
  "live_protection_owners (log_transition iid old new reason now db) = live_protection_owners db"
  by (simp_all add: set_authorization_status_def log_transition_def)

lemma stop_order_tables [simp]:
  "live_trade_intents (set_stop_status i cid xid s db) = live_trade_intents db"
  "live_execution_claims (set_stop_status i cid xid s db) = live_execution_claims db"
  "live_protection_owners (set_stop_status i cid xid s db) = live_protection_owners db"
  "live_trade_intents (cancel_stop oid db) = live_trade_intents db"
  "live_execution_claims (cancel_stop oid db) = live_execution_claims db"
  "live_protection_owners (cancel_stop oid db) = live_protection_owners db"
  by (simp_all add: set_stop_status_def cancel_stop_def)

lemma order_writes_tables:
  "insert_order o1 db = Inr db' \<Longrightarrow> live_trade_intents db' = live_trade_intents db
     \<and> live_execution_claims db' = live_execution_claims db \<and> live_protection_owners db' = live_protection_owners db"
  "upsert_order o1 f db = Inr db' \<Longrightarrow> live_trade_intents db' = live_trade_intents db
     \<and> live_execution_claims db' = live_execution_claims db \<and> live_protection_owners db' = live_protection_owners db"
  "resize_stop i c q now oid db = Inr db' \<Longrightarrow> live_trade_intents db' = live_trade_intents db
     \<and> live_execution_claims db' = live_execution_claims db \<and> live_protection_owners db' = live_protection_owners db"
  "record_order i c x q now doc db = Inr db' \<Longrightarrow> live_trade_intents db' = live_trade_intents db
     \<and> live_execution_claims db' = live_execution_claims db \<and> live_protection_owners db' = live_protection_owners db"
  by (auto simp: insert_order_def upsert_order_def resize_stop_def record_order_def split: if_splits option.splits)

lemma account_save_tables [simp]:
  "live_trade_intents (snd (account_save H a ev db)) = live_trade_intents db"
  "live_execution_claims (snd (account_save H a ev db)) = live_execution_claims db"
  "live_execution_orders (snd (account_save H a ev db)) = live_execution_orders db"
  "live_protection_owners (snd (account_save H a ev db)) = live_protection_owners db"
  "live_pre_execution_authorizations (snd (account_save H a ev db)) = live_pre_execution_authorizations db"
  by (simp_all add: account_save_def split: sum.splits)

lemma image_update_where:
  assumes "\<And>r. k (f r) = k r"
  shows "k ` set (update_where P f rows) = k ` set rows"
proof -
  have "set (map k (update_where P f rows)) = set (map k rows)" by (subst update_where_keys) (simp_all add: assms)
  then show ?thesis by simp
qed

lemma transaction_cases:
  "snd (transaction body s) = s \<or> (\<exists>x s'. body s = (Inr x, s') \<and> snd (transaction body s) = s')"
  by (auto simp: transaction_def split: prod.splits sum.splits)

text \<open>The part of a guarded update behind the owner row writes orders only.\<close>

definition orders_only :: "(exec_db \<Rightarrow> exec_db res) \<Rightarrow> bool" where
  "orders_only rest \<longleftrightarrow> (\<forall>db db'. rest db = Inr db' \<longrightarrow> live_trade_intents db' = live_trade_intents db
     \<and> live_execution_claims db' = live_execution_claims db \<and> live_protection_owners db' = live_protection_owners db)"

lemma orders_only [simp]:
  "orders_only Inr" "orders_only (record_order i c x q now doc)" "orders_only (\<lambda>db. Inr (set_stop_status i cid xid s db))"
  "orders_only (\<lambda>db. Inr (if b then set_stop_status i cid xid s db else db))"
proof -
  show "orders_only (record_order i c x q now doc)" using order_writes_tables(4) unfolding orders_only_def by blast
qed (simp_all add: orders_only_def)

lemma guarded_update_cases [simp]:
  assumes "orders_only rest"
  shows "live_trade_intents (snd (guarded_update P f rest db)) = live_trade_intents db"
    and "live_execution_claims (snd (guarded_update P f rest db)) = live_execution_claims db"
  using assms by (auto simp: guarded_update_def orders_only_def split: sum.splits)

lemma guarded_update_owners:
  assumes "orders_only rest"
  shows "live_protection_owners (snd (guarded_update P f rest db)) = live_protection_owners db
      \<or> live_protection_owners (snd (guarded_update P f rest db)) = update_where P f (live_protection_owners db)"
  using assms by (auto simp: guarded_update_def orders_only_def split: sum.splits)

lemmas owner_ops = pending_exchange_id_def begin_cancellation_def record_stop_def confirm_terminal_def clear_stop_def

lemma owner_ops_frame [simp]:
  "live_trade_intents (snd (pending_exchange_id H i cid xid now db)) = live_trade_intents db"
  "live_execution_claims (snd (pending_exchange_id H i cid xid now db)) = live_execution_claims db"
  "live_trade_intents (snd (begin_cancellation H i cid xid now db)) = live_trade_intents db"
  "live_execution_claims (snd (begin_cancellation H i cid xid now db)) = live_execution_claims db"
  "live_trade_intents (snd (record_stop H i cid xid q now doc db)) = live_trade_intents db"
  "live_execution_claims (snd (record_stop H i cid xid q now doc db)) = live_execution_claims db"
  "live_trade_intents (snd (confirm_terminal H i cid xid st now db)) = live_trade_intents db"
  "live_execution_claims (snd (confirm_terminal H i cid xid st now db)) = live_execution_claims db"
  "live_trade_intents (snd (clear_stop H i cid xid now b db)) = live_trade_intents db"
  "live_execution_claims (snd (clear_stop H i cid xid now b db)) = live_execution_claims db"
  by (simp_all add: owner_ops split: sum.splits)

lemma reserve_frame [simp]:
  "live_trade_intents (snd (reserve_owner H i now db)) = live_trade_intents db"
  "live_execution_claims (snd (reserve_owner H i now db)) = live_execution_claims db"
  "live_trade_intents (snd (next_client_id_tx H w now q db)) = live_trade_intents db"
  "live_execution_claims (snd (next_client_id_tx H w now q db)) = live_execution_claims db"
  "live_trade_intents (snd (release_flat_tx iid key now db)) = live_trade_intents db"
  "live_execution_claims (snd (release_flat_tx iid key now db)) = live_execution_claims db"
  by (auto simp: reserve_owner_def next_client_id_tx_def release_flat_tx_def Let_def split: option.splits)

lemma dry_frame [simp]:
  "live_trade_intents (snd (submit_intent i now db)) = live_trade_intents db"
  "live_execution_claims (snd (submit_intent i now db)) = live_execution_claims db"
  "live_protection_owners (snd (submit_intent i now db)) = live_protection_owners db"
  "live_trade_intents (snd (reconcile_tx i target now db)) = live_trade_intents db"
  "live_execution_claims (snd (reconcile_tx i target now db)) = live_execution_claims db"
  "live_protection_owners (snd (reconcile_tx i target now db)) = live_protection_owners db"
  by (auto simp: submit_intent_def reconcile_tx_def Let_def result_simps
      dest!: order_writes_tables split: sum.splits option.splits)

lemma entry_frame [simp]:
  "live_trade_intents (snd (insert_entry o1 db)) = live_trade_intents db"
  "live_execution_claims (snd (insert_entry o1 db)) = live_execution_claims db"
  "live_protection_owners (snd (insert_entry o1 db)) = live_protection_owners db"
  "live_trade_intents (snd (upsert_entry o1 db)) = live_trade_intents db"
  "live_execution_claims (snd (upsert_entry o1 db)) = live_execution_claims db"
  "live_protection_owners (snd (upsert_entry o1 db)) = live_protection_owners db"
  by (auto simp: insert_entry_def upsert_entry_def null_refused_def dest!: order_writes_tables split: sum.splits if_splits)

section \<open>Intents\<close>

definition status_update :: "string \<Rightarrow> string \<Rightarrow> intent_row list \<Rightarrow> intent_row list" where
  "status_update iid new rows = update_where (\<lambda>r. ir_intent_id r = iid) (\<lambda>r. r\<lparr>ir_status := new\<rparr>) rows"

definition intent_fresh :: "trade_intent \<Rightarrow> intent_row \<Rightarrow> bool" where
  "intent_fresh i r \<longleftrightarrow> ir_approval_event_id r \<noteq> ti_approval_event_id i \<and> ir_intent_id r \<noteq> ti_intent_id i \<and> \<not> intent_collides i r"

definition intents_change :: "hasher \<Rightarrow> intent_row list \<Rightarrow> intent_row list \<Rightarrow> bool" where
  "intents_change H rows rows' \<longleftrightarrow> rows' = rows \<or> (\<exists>iid new. rows' = status_update iid new rows)
     \<or> (\<exists>i status. intent_verify H i = Inr i \<and> (\<forall>r \<in> set rows. intent_fresh i r) \<and> rows' = rows @ [intent_row_of i status])"

lemma save_intent_change:
  "intents_change H (live_trade_intents db) (live_trade_intents (snd (save_intent H i status db)))"
  by (auto simp: save_intent_def intents_change_def intent_fresh_def fetchone_None list_ex_iff intent_verify_iff
      split: sum.splits option.splits)

lemma issue_cases:
  "snd (issue H i a m x now expires db) = db
   \<or> snd (issue H i a m x now expires db) = snd (account_save H a ''REST_RECONCILED'' db)
   \<or> (\<exists>u. issue_body i m u now (snd (account_save H a ''REST_RECONCILED'' db)) = (Inr (), snd (issue H i a m x now expires db)))"
  by (auto simp: issue_def transaction_def split: sum.splits prod.splits)

lemma refresh_cases:
  "snd (refresh_claimed H v a m x now db) = db
   \<or> snd (refresh_claimed H v a m x now db) = snd (account_save H a ''REST_RECONCILED'' db)
   \<or> (\<exists>u. refresh_body v m u now (snd (account_save H a ''REST_RECONCILED'' db)) = (Inr (), snd (refresh_claimed H v a m x now db)))"
  by (auto simp: refresh_claimed_def transaction_def split: sum.splits prod.splits)

lemma issue_body_effect:
  assumes "issue_body i m u now db = (Inr y, db')"
  shows "live_trade_intents db' = status_update (ti_intent_id i) ''AUTHORIZED'' (live_trade_intents db)
    \<and> live_execution_claims db' = live_execution_claims db \<and> live_protection_owners db' = live_protection_owners db"
  using assms by (auto simp: issue_body_def Let_def status_update_def split: option.splits if_splits)

lemma refresh_body_effect:
  assumes "refresh_body v m u now db = (Inr y, db')"
  shows "live_trade_intents db' = live_trade_intents db \<and> live_protection_owners db' = live_protection_owners db
    \<and> (live_execution_claims db' = live_execution_claims db
       \<or> live_execution_claims db' = update_where (\<lambda>c. cl_intent_id c = au_intent_id v)
           (\<lambda>c. c\<lparr>cl_authorization_id := au_authorization_id u\<rparr>) (live_execution_claims db))"
  using assms by (auto simp: refresh_body_def Let_def split: if_splits)

lemma claim_effect:
  "live_protection_owners (snd (claim u now db)) = live_protection_owners db
   \<and> (snd (claim u now db) = db
     \<or> (\<forall>d \<in> set (live_execution_claims db). cl_intent_id d \<noteq> au_intent_id u)
       \<and> au_intent_id u \<in> ir_intent_id ` set (live_trade_intents db)
       \<and> live_trade_intents (snd (claim u now db)) = status_update (au_intent_id u) ''SUBMITTING'' (live_trade_intents db)
       \<and> live_execution_claims (snd (claim u now db)) = live_execution_claims db @
           [\<lparr>cl_intent_id = au_intent_id u, cl_authorization_id = au_authorization_id u, cl_claimed_at_ms = now\<rparr>])"
proof (cases "find_claim db (au_intent_id u)")
  case None
  then have n: "\<forall>d \<in> set (live_execution_claims db). cl_intent_id d \<noteq> au_intent_id u" by (simp add: fetchone_None)
  show ?thesis
  proof (cases "find_intent db (au_intent_id u)")
    case (Some row)
    then have "au_intent_id u \<in> ir_intent_id ` set (live_trade_intents db)" using fetchone_Some [OF Some] by force
    then show ?thesis using None Some n by (simp add: claim_def status_update_def split: option.splits)
  qed (use None in \<open>simp add: claim_def\<close>)
qed (simp add: claim_def)

lemma run_cmd_intents: "intents_change H (live_trade_intents db) (live_trade_intents (run_cmd H t cmd db))"
proof (cases cmd)
  case (UpdateStatus iid new reason)
  then show ?thesis
    by (auto simp: update_status_def intents_change_def status_update_def split: option.splits)
next
  case (Issue i a m x expires)
  then show ?thesis
    using issue_cases [of H i a m x t expires db] issue_body_effect by (fastforce simp: intents_change_def)
next
  case (Claim u)
  then show ?thesis using claim_effect [of u t db] by (auto simp: intents_change_def)
next
  case (Refresh v a m x)
  then show ?thesis
    using refresh_cases [of H v a m x t db] refresh_body_effect by (fastforce simp: intents_change_def)
qed (simp_all add: save_intent_change, simp_all add: intents_change_def)

definition intent_row_ok :: "hasher \<Rightarrow> intent_row \<Rightarrow> bool" where
  "intent_row_ok H r \<longleftrightarrow> r = intent_row_of (ir_payload r) (ir_status r) \<and> intent_verify H (ir_payload r) = Inr (ir_payload r)"

definition intents_ok :: "hasher \<Rightarrow> intent_row list \<Rightarrow> bool" where
  "intents_ok H rows \<longleftrightarrow> unique_on ir_intent_id rows \<and> unique_on ir_approval_event_id rows
     \<and> unique_on ir_idempotency_key rows \<and> unique_on ir_client_order_id rows
     \<and> (\<forall>r \<in> set rows. intent_row_ok H r)"

lemma intent_row_of_fields [simp]:
  "ir_intent_id (intent_row_of i s) = ti_intent_id i" "ir_intent_hash (intent_row_of i s) = ti_intent_hash i"
  "ir_idempotency_key (intent_row_of i s) = ti_idempotency_key i" "ir_client_order_id (intent_row_of i s) = ti_client_order_id i"
  "ir_approval_event_id (intent_row_of i s) = ti_approval_event_id i" "ir_payload (intent_row_of i s) = i"
  "ir_proposal_hash (intent_row_of i s) = ti_proposal_hash i" "ir_case_hash (intent_row_of i s) = ti_case_hash i"
  "ir_status (intent_row_of i s) = s"
  by (simp_all add: intent_row_of_def)

lemma intent_row_ok_status: "intent_row_ok H r \<Longrightarrow> intent_row_ok H (r\<lparr>ir_status := s\<rparr>)"
  by (cases r) (simp add: intent_row_ok_def intent_row_of_def)

lemma intent_row_ok_new: "intent_verify H i = Inr i \<Longrightarrow> intent_row_ok H (intent_row_of i s)"
  by (simp add: intent_row_ok_def)

lemma status_update_ok: "intents_ok H rows \<Longrightarrow> intents_ok H (status_update iid new rows)"
  unfolding intents_ok_def status_update_def
  by (auto simp: unique_on_update_where set_update_where intent_row_ok_status)

lemma intents_change_ok:
  assumes "intents_change H rows rows'" and "intents_ok H rows"
  shows "intents_ok H rows'"
  using assms(1) unfolding intents_change_def
proof (elim disjE exE conjE)
  fix i status assume new: "intent_verify H i = Inr i" "\<forall>r \<in> set rows. intent_fresh i r" "rows' = rows @ [intent_row_of i status]"
  then show ?thesis
    using assms(2) by (simp add: intents_ok_def unique_on_append intent_row_ok_new intent_fresh_def intent_collides_def)
qed (use assms(2) in \<open>simp_all add: status_update_ok\<close>)

text \<open>The intent of an approval event never changes once it is stored.\<close>

definition stored_intent :: "exec_db \<Rightarrow> string \<Rightarrow> trade_intent option" where
  "stored_intent db e = map_option ir_payload (fetchone (\<lambda>r. ir_approval_event_id r = e) (live_trade_intents db))"

lemma intents_change_latch:
  assumes "intents_change H rows rows'"
    and "fetchone (\<lambda>r. ir_approval_event_id r = e) rows = Some r"
  shows "\<exists>r'. fetchone (\<lambda>r. ir_approval_event_id r = e) rows' = Some r' \<and> ir_payload r' = ir_payload r"
  using assms by (auto simp: intents_change_def status_update_def fetchone_update_where fetchone_append)

section \<open>Claims\<close>

definition claims_change :: "intent_row list \<Rightarrow> claim_row list \<Rightarrow> claim_row list \<Rightarrow> bool" where
  "claims_change rows cs cs' \<longleftrightarrow> cs' = cs
     \<or> (\<exists>iid aid. cs' = update_where (\<lambda>c. cl_intent_id c = iid) (\<lambda>c. c\<lparr>cl_authorization_id := aid\<rparr>) cs)
     \<or> (\<exists>c. cs' = cs @ [c] \<and> (\<forall>d \<in> set cs. cl_intent_id d \<noteq> cl_intent_id c) \<and> cl_intent_id c \<in> ir_intent_id ` set rows)"

lemma run_cmd_claims:
  "claims_change (live_trade_intents db) (live_execution_claims db) (live_execution_claims (run_cmd H t cmd db))"
proof (cases cmd)
  case (SaveIntent i status)
  then show ?thesis by (auto simp: claims_change_def save_intent_def split: sum.splits option.splits)
next
  case (UpdateStatus iid new reason)
  then show ?thesis by (auto simp: claims_change_def update_status_def split: option.splits)
next
  case (Issue i a m x expires)
  then show ?thesis
    using issue_cases [of H i a m x t expires db] issue_body_effect by (fastforce simp: claims_change_def)
next
  case (Claim u)
  then show ?thesis using claim_effect [of u t db] unfolding claims_change_def run_cmd.simps by fastforce
next
  case (Refresh v a m x)
  then show ?thesis
    using refresh_cases [of H v a m x t db] refresh_body_effect by (fastforce simp: claims_change_def)
qed (simp_all add: claims_change_def)

definition claims_ok :: "intent_row list \<Rightarrow> claim_row list \<Rightarrow> bool" where
  "claims_ok rows cs \<longleftrightarrow> unique_on cl_intent_id cs \<and> cl_intent_id ` set cs \<subseteq> ir_intent_id ` set rows"

lemma intents_change_ids: "intents_change H rows rows' \<Longrightarrow> ir_intent_id ` set rows \<subseteq> ir_intent_id ` set rows'"
  by (auto simp: intents_change_def status_update_def image_update_where)

lemma claims_change_ok:
  assumes "claims_change rows cs cs'" and "claims_ok rows cs" and "ir_intent_id ` set rows \<subseteq> ir_intent_id ` set rows'"
  shows "claims_ok rows' cs'"
proof -
  have "unique_on cl_intent_id cs'" and "cl_intent_id ` set cs' \<subseteq> ir_intent_id ` set rows"
    using assms(1,2) unfolding claims_change_def claims_ok_def
    by (elim disjE exE conjE; simp add: unique_on_append unique_on_update_where image_update_where)+
  with assms(3) show ?thesis by (simp add: claims_ok_def subset_trans)
qed

lemma claims_change_latch: "claims_change rows cs cs' \<Longrightarrow> iid \<in> cl_intent_id ` set cs \<Longrightarrow> iid \<in> cl_intent_id ` set cs'"
  by (auto simp: claims_change_def image_update_where)

definition claimed :: "exec_db \<Rightarrow> string \<Rightarrow> unit option" where
  "claimed db iid = map_option (\<lambda>_. ()) (find_claim db iid)"

lemma claimed_iff: "claimed db iid = Some u \<longleftrightarrow> iid \<in> cl_intent_id ` set (live_execution_claims db)"
  by (cases "find_claim db iid") (auto simp: claimed_def fetchone_None dest: fetchone_Some)

section \<open>The system\<close>

definition tables_ok :: "hasher \<Rightarrow> exec_db \<Rightarrow> bool" where
  "tables_ok H db \<longleftrightarrow> intents_ok H (live_trade_intents db) \<and> claims_ok (live_trade_intents db) (live_execution_claims db)"

lemma run_cmd_tables_ok: "tables_ok H db \<Longrightarrow> tables_ok H (run_cmd H t cmd db)"
  unfolding tables_ok_def
  using intents_change_ok [OF run_cmd_intents] claims_change_ok [OF run_cmd_claims _ intents_change_ids [OF run_cmd_intents]]
  by blast

lemma tables_ok_empty: "tables_ok H empty_exec_db"
  by (simp add: tables_ok_def intents_ok_def claims_ok_def empty_exec_db_def unique_on_def)

interpretation intents: latched_system "exec_step H" "tables_ok H" stored_intent for H :: hasher
proof
  show "tables_ok H s'" if "tables_ok H s" "exec_step H s s'" for s s'
    using that by (auto elim!: exec_stepE intro: run_cmd_tables_ok)
  show "stored_intent s' e = Some i" if "tables_ok H s" "exec_step H s s'" "stored_intent s e = Some i" for s s' e i
    using that intents_change_latch [OF run_cmd_intents] by (fastforce elim!: exec_stepE simp: stored_intent_def)
qed

interpretation claims: latched_system "exec_step H" "tables_ok H" claimed for H :: hasher
proof
  show "claimed s' iid = Some u" if "tables_ok H s" "exec_step H s s'" "claimed s iid = Some u" for s s' iid u
    using that(2,3) claims_change_latch [OF run_cmd_claims] unfolding claimed_iff by (blast elim!: exec_stepE)
qed

definition exec_reachable :: "hasher \<Rightarrow> exec_db \<Rightarrow> bool" where
  "exec_reachable H db \<longleftrightarrow> (exec_step H)\<^sup>*\<^sup>* empty_exec_db db"

lemma exec_reachable_ok: "exec_reachable H db \<Longrightarrow> tables_ok H db"
  using intents.steps_inv tables_ok_empty by (auto simp: exec_reachable_def)

section \<open>Reading back\<close>

lemma verified_row_of: "intent_verify H i = Inr i \<Longrightarrow> verified_row H (intent_row_of i s) = Inr i"
  by (simp add: verified_row_def)

lemma verified_row_inv:
  assumes "intent_row_ok H r"
  shows "verified_row H r = Inr (ir_payload r)"
proof -
  have e: "intent_row_of (ir_payload r) (ir_status r) = r"
    by (rule sym) (use assms in \<open>simp only: intent_row_ok_def\<close>)
  have "intent_verify H (ir_payload r) = Inr (ir_payload r)" using assms by (simp only: intent_row_ok_def)
  from verified_row_of [OF this, of "ir_status r"] show ?thesis unfolding e .
qed

lemma intent_rows_ok: "tables_ok H db \<Longrightarrow> r \<in> set (live_trade_intents db) \<Longrightarrow> intent_row_ok H r"
  by (simp add: tables_ok_def intents_ok_def)

lemma get_intent_total:
  assumes "tables_ok H db"
  shows "get_intent H db iid = Inr (map_option ir_payload (find_intent db iid))"
    and "get_intent_by_approval_event H db e = Inr (stored_intent db e)"
proof -
  have v: "verified_row H r = Inr (ir_payload r)" if "fetchone P (live_trade_intents db) = Some r" for P r
    using verified_row_inv intent_rows_ok [OF assms] fetchone_Some [OF that] by blast
  show "get_intent H db iid = Inr (map_option ir_payload (find_intent db iid))"
    using v by (auto simp: get_intent_def verified_option_def split: option.splits)
  show "get_intent_by_approval_event H db e = Inr (stored_intent db e)"
    using v by (auto simp: get_intent_by_approval_event_def verified_option_def stored_intent_def split: option.splits)
qed

end
