(* ===== verification/Protection_Safety.thy ===== *)
theory Protection_Safety
  imports Execution_Safety
begin

text \<open>
  The protection owners as a state machine. \<open>owner_edge\<close> is the abstract life cycle of an owner;
  every write of the store either leaves a row alone, adds a reserved one where the symbol is free, or
  moves a row along an edge, keeping its identity and never lowering its generation. From that:
  one owner per symbol carries risk at any time, a released owner stays released, and a confirmed stop
  has an exchange id and a positive size.
\<close>

section \<open>The life cycle\<close>

definition owner_edge :: "string \<Rightarrow> string \<Rightarrow> bool" where
  "owner_edge s s' \<longleftrightarrow> (s, s') \<in>
     {(''RESERVED'', ''PENDING_CONFIRMATION''), (''RESERVED'', ''RELEASED''),
      (''PENDING_CONFIRMATION'', ''PENDING_CONFIRMATION''), (''PENDING_CONFIRMATION'', ''ACTIVE''),
      (''PENDING_CONFIRMATION'', ''CANCEL_PENDING''), (''PENDING_CONFIRMATION'', ''TERMINAL_CONFIRMED''),
      (''ACTIVE'', ''ACTIVE''), (''ACTIVE'', ''CANCEL_PENDING''), (''ACTIVE'', ''TERMINAL_CONFIRMED''),
      (''CANCEL_PENDING'', ''TERMINAL_CONFIRMED''), (''TERMINAL_CONFIRMED'', ''RESERVED''),
      (''TERMINAL_CONFIRMED'', ''RELEASED''), (''RELEASED'', ''RELEASED'')}"

definition at_risk :: "owner_row \<Rightarrow> bool" where
  "at_risk w \<longleftrightarrow> ow_status w \<in> set risk_statuses"

definition owner_shape :: "owner_row \<Rightarrow> bool" where
  "owner_shape w \<longleftrightarrow> ow_position_side w = ''BOTH'' \<and> 0 \<le> ow_generation w
     \<and> (at_risk w \<or> ow_status w = ''RELEASED'')
     \<and> (ow_status w \<in> {''RESERVED'', ''RELEASED''} \<longrightarrow> ow_protective_client_id w = None \<and> ow_exchange_id w = None)
     \<and> (ow_status w \<notin> {''RESERVED'', ''RELEASED''} \<longrightarrow> ow_protective_client_id w \<noteq> None)
     \<and> (ow_status w = ''ACTIVE'' \<longrightarrow> ow_exchange_id w \<noteq> None \<and> Positive (ow_quantity w))"

definition owner_move :: "owner_row \<Rightarrow> owner_row \<Rightarrow> bool" where
  "owner_move w w' \<longleftrightarrow> ow_owner_key w' = ow_owner_key w \<and> ow_intent_id w' = ow_intent_id w
     \<and> ow_intent_hash w' = ow_intent_hash w \<and> ow_symbol w' = ow_symbol w
     \<and> ow_generation w \<le> ow_generation w' \<and> owner_edge (ow_status w) (ow_status w') \<and> owner_shape w'"

definition symbol_free :: "owner_row list \<Rightarrow> owner_row \<Rightarrow> bool" where
  "symbol_free ws w \<longleftrightarrow> (\<forall>v \<in> set ws. ow_owner_key v \<noteq> ow_owner_key w \<and> (at_risk v \<longrightarrow> ow_symbol v \<noteq> ow_symbol w))"

definition owners_change :: "owner_row list \<Rightarrow> owner_row list \<Rightarrow> bool" where
  "owners_change ws ws' \<longleftrightarrow> ws' = ws
     \<or> (\<exists>P f. ws' = update_where P f ws \<and> (\<forall>w \<in> set ws. P w \<longrightarrow> owner_move w (f w)))
     \<or> (\<exists>w. ws' = ws @ [w] \<and> ow_status w = ''RESERVED'' \<and> owner_shape w \<and> symbol_free ws w)"

definition owners_ok :: "owner_row list \<Rightarrow> bool" where
  "owners_ok ws \<longleftrightarrow> unique_on ow_owner_key ws \<and> (\<forall>w \<in> set ws. owner_shape w)
     \<and> (\<forall>v \<in> set ws. \<forall>w \<in> set ws. at_risk v \<and> at_risk w \<and> ow_symbol v = ow_symbol w \<longrightarrow> v = w)"

lemma at_risk_status [simp]:
  "ow_status w = ''RESERVED'' \<Longrightarrow> at_risk w" "ow_status w = ''PENDING_CONFIRMATION'' \<Longrightarrow> at_risk w"
  "ow_status w = ''ACTIVE'' \<Longrightarrow> at_risk w" "ow_status w = ''CANCEL_PENDING'' \<Longrightarrow> at_risk w"
  "ow_status w = ''TERMINAL_CONFIRMED'' \<Longrightarrow> at_risk w" "ow_status w = ''RELEASED'' \<Longrightarrow> \<not> at_risk w"
  by (simp_all add: at_risk_def risk_statuses_def)

lemma edge_from_released: "owner_edge ''RELEASED'' s \<longleftrightarrow> s = ''RELEASED''"
  by (simp add: owner_edge_def)

lemma move_risk: "owner_shape w \<Longrightarrow> owner_move w w' \<Longrightarrow> at_risk w' \<Longrightarrow> at_risk w"
  by (cases "ow_status w = ''RELEASED''") (auto simp: owner_move_def owner_shape_def edge_from_released)

section \<open>Changes keep the table consistent\<close>

lemma update_where_elem:
  "v \<in> set (update_where P f ws) \<Longrightarrow> \<exists>w \<in> set ws. v = (if P w then f w else w)"
  by (auto simp: set_update_where)

lemma owners_update_ok:
  assumes ok: "owners_ok ws" and mv: "\<forall>w \<in> set ws. P w \<longrightarrow> owner_move w (f w)"
  shows "owners_ok (update_where P f ws)"
proof -
  let ?g = "\<lambda>w. if P w then f w else w"
  have w_shape: "owner_shape w" if "w \<in> set ws" for w using that ok by (simp add: owners_ok_def)
  have key: "ow_owner_key (?g w) = ow_owner_key w" and sym: "ow_symbol (?g w) = ow_symbol w"
    and shape: "owner_shape (?g w)" if "w \<in> set ws" for w
    using that mv w_shape [OF that] by (auto simp: owner_move_def)
  have risk: "at_risk w" if "w \<in> set ws" "at_risk (?g w)" for w
    using that mv move_risk [OF w_shape [OF that(1)], of "f w"] by (cases "P w") auto
  have "map ow_owner_key (update_where P f ws) = map ow_owner_key ws"
    unfolding update_where_def using key by simp
  then have u: "unique_on ow_owner_key (update_where P f ws)" using ok by (simp add: unique_on_def owners_ok_def)
  have s: "\<forall>v \<in> set (update_where P f ws). owner_shape v" using shape by (auto dest!: update_where_elem)
  have r: "v = v'" if v: "v \<in> set (update_where P f ws)" "v' \<in> set (update_where P f ws)" "at_risk v" "at_risk v'"
    "ow_symbol v = ow_symbol v'" for v v'
  proof -
    obtain w w' where w: "w \<in> set ws" "v = ?g w" "w' \<in> set ws" "v' = ?g w'" using v(1,2) by (auto dest!: update_where_elem)
    have "at_risk w" using risk [OF w(1)] v(3) unfolding w(2) by blast
    moreover have "at_risk w'" using risk [OF w(3)] v(4) unfolding w(4) by blast
    moreover have "ow_symbol w = ow_symbol w'" using v(5) unfolding w(2,4) sym [OF w(1)] sym [OF w(3)] .
    ultimately have "w = w'" using ok w(1,3) unfolding owners_ok_def by blast
    then show ?thesis using w by simp
  qed
  show ?thesis using u s r by (auto simp: owners_ok_def)
qed

lemma owners_change_ok:
  assumes "owners_change ws ws'" and "owners_ok ws"
  shows "owners_ok ws'"
  using assms(1) unfolding owners_change_def
proof (elim disjE exE conjE)
  fix w assume w: "ws' = ws @ [w]" "ow_status w = ''RESERVED''" "owner_shape w" "symbol_free ws w"
  then show ?thesis
    using assms(2) unfolding owners_ok_def symbol_free_def by (auto simp: unique_on_append)
qed (use assms(2) owners_update_ok in auto)

section \<open>Every write is a change\<close>

lemma owners_same: "owners_change ws ws"
  by (simp add: owners_change_def)

lemma owners_moved: "(\<And>w. w \<in> set ws \<Longrightarrow> P w \<Longrightarrow> owner_move w (f w)) \<Longrightarrow> owners_change ws (update_where P f ws)"
  unfolding owners_change_def by blast

lemma guarded_change:
  assumes "orders_only rest" and "\<And>w. w \<in> set (live_protection_owners db) \<Longrightarrow> P w \<Longrightarrow> owner_move w (f w)"
  shows "owners_change (live_protection_owners db) (live_protection_owners (snd (guarded_update P f rest db)))"
proof (cases "live_protection_owners (snd (guarded_update P f rest db)) = live_protection_owners db")
  case False
  then have "live_protection_owners (snd (guarded_update P f rest db)) = update_where P f (live_protection_owners db)"
    using guarded_update_owners [OF assms(1), of P f db] by blast
  then show ?thesis using owners_moved [of "live_protection_owners db" P f] assms(2) by simp
qed (simp add: owners_same)

lemma owners_ok_shape: "owners_ok ws \<Longrightarrow> w \<in> set ws \<Longrightarrow> owner_shape w"
  by (simp add: owners_ok_def)

lemma owner_moves:
  assumes "owner_shape w"
  shows "owned_stop H i cid {''PENDING_CONFIRMATION''} w
      \<Longrightarrow> owner_move w (w\<lparr>ow_exchange_id := Some xid, ow_updated_at_ms := now\<rparr>)"
    and "owned_stop H i cid {''ACTIVE'', ''PENDING_CONFIRMATION''} w
      \<Longrightarrow> owner_move w (w\<lparr>ow_status := ''CANCEL_PENDING'', ow_exchange_id := Some xid, ow_confirmed_at_ms := 0, ow_updated_at_ms := now\<rparr>)"
    and "owned_stop H i cid {''ACTIVE'', ''PENDING_CONFIRMATION''} w \<Longrightarrow> Positive q
      \<Longrightarrow> owner_move w (w\<lparr>ow_exchange_id := Some xid, ow_quantity := q, ow_status := ''ACTIVE'',
                         ow_confirmed_at_ms := now, ow_updated_at_ms := now\<rparr>)"
    and "owned_stop H i cid {''ACTIVE'', ''PENDING_CONFIRMATION'', ''CANCEL_PENDING''} w
      \<Longrightarrow> owner_move w (w\<lparr>ow_status := ''TERMINAL_CONFIRMED'', ow_confirmed_at_ms := now, ow_updated_at_ms := now\<rparr>)"
    and "owned_stop H i cid {''TERMINAL_CONFIRMED''} w
      \<Longrightarrow> owner_move w (w\<lparr>ow_protective_client_id := None, ow_exchange_id := None, ow_quantity := Fin 0, ow_status := ''RESERVED'',
              ow_confirmed_at_ms := 0, ow_updated_at_ms := now\<rparr>)"
  using assms by (auto simp: owner_move_def owner_shape_def owned_stop_def owner_edge_def)

lemma positive_quantity: "isfinite q \<Longrightarrow> \<not> q \<le> 0 \<Longrightarrow> Positive q"
  by (cases q) (auto simp: zero_flt_def Positive_def)

lemma reserve_change:
  assumes ok: "owners_ok (live_protection_owners db)"
  shows "owners_change (live_protection_owners db) (live_protection_owners (snd (reserve_owner H i now db)))"
proof (cases "find_owner db (owner_key H i)")
  case None
  have "symbol_free (live_protection_owners db) (new_owner H i now)"
    if "\<not> list_ex (\<lambda>w. ow_symbol w = ti_symbol i \<and> ow_position_side w = ''BOTH'' \<and> ow_status w \<in> set risk_statuses
                    \<and> ow_owner_key w \<noteq> owner_key H i) (live_protection_owners db)"
    unfolding symbol_free_def
  proof (intro ballI conjI impI)
    fix v assume v: "v \<in> set (live_protection_owners db)"
    show key: "ow_owner_key v \<noteq> ow_owner_key (new_owner H i now)" using None v by (simp add: fetchone_None new_owner_def)
    show "ow_symbol v \<noteq> ow_symbol (new_owner H i now)" if r: "at_risk v"
    proof
      assume "ow_symbol v = ow_symbol (new_owner H i now)"
      moreover have "ow_position_side v = ''BOTH''" using owners_ok_shape [OF ok v] by (simp add: owner_shape_def)
      ultimately show False
        using \<open>\<not> list_ex _ _\<close> v r key by (auto simp: list_ex_iff new_owner_def at_risk_def)
    qed
  qed
  moreover have "owner_shape (new_owner H i now)" "ow_status (new_owner H i now) = ''RESERVED''"
    by (simp_all add: owner_shape_def new_owner_def)
  ultimately show ?thesis using None unfolding reserve_owner_def owners_change_def by auto
qed (simp add: reserve_owner_def owners_same)

lemma owner_unique:
  assumes "owners_ok (live_protection_owners db)" and "find_owner db k = Some r"
    and "w \<in> set (live_protection_owners db)" and "ow_owner_key w = k"
  shows "w = r"
  using assms fetchone_Some [OF assms(2)] unique_onD unfolding owners_ok_def by metis

lemma next_client_id_change:
  assumes ok: "owners_ok (live_protection_owners db)"
  shows "owners_change (live_protection_owners db) (live_protection_owners (snd (next_client_id_tx H w now q db)))"
proof (cases "fetchone (\<lambda>r. ow_owner_key r = ow_owner_key w \<and> ow_status r = ''RESERVED'') (live_protection_owners db)")
  case None
  then show ?thesis by (simp add: next_client_id_tx_def Let_def owners_same)
next
  case (Some r)
  note r = fetchone_Some [OF Some]
  have mv: "owner_move v (v\<lparr>ow_generation := ow_generation w + 1, ow_protective_client_id := Some cid, ow_exchange_id := None,
                            ow_status := ''PENDING_CONFIRMATION'', ow_quantity := q, ow_confirmed_at_ms := 0,
                            ow_updated_at_ms := now\<rparr>)"
    if "v \<in> set (live_protection_owners db)" "ow_owner_key v = ow_owner_key w" "ow_generation r = ow_generation w" for v cid
  proof -
    have "v = r" using ok r that(1,2) unique_onD [of ow_owner_key "live_protection_owners db" v r]
      unfolding owners_ok_def by simp
    then show ?thesis using r that(3) owners_ok_shape [OF ok that(1)]
      by (simp add: owner_move_def owner_shape_def owner_edge_def)
  qed
  show ?thesis using Some mv by (auto simp: next_client_id_tx_def Let_def owners_same intro!: owners_moved)
qed

lemma release_change:
  assumes ok: "owners_ok (live_protection_owners db)"
  shows "owners_change (live_protection_owners db) (live_protection_owners (snd (release_flat_tx iid key now db)))"
proof (cases "find_owner db key")
  case None
  then show ?thesis by (simp add: release_flat_tx_def owners_same)
next
  case (Some r)
  have mv: "owner_move v (v\<lparr>ow_status := ''RELEASED'', ow_exchange_id := None, ow_protective_client_id := None,
                              ow_quantity := Fin 0, ow_updated_at_ms := now\<rparr>)"
    if "v \<in> set (live_protection_owners db)" "ow_owner_key v = key"
      "ow_status r = ''TERMINAL_CONFIRMED'' \<or> ow_status r \<in> {''RESERVED'', ''RELEASED''}" for v
  proof -
    have "v = r" using owner_unique [OF ok Some that(1,2)] .
    then show ?thesis using that(3) owners_ok_shape [OF ok that(1)]
      by (auto simp: owner_move_def owner_shape_def owner_edge_def)
  qed
  show ?thesis using Some mv by (auto simp: release_flat_tx_def owners_same intro!: owners_moved)
qed

lemma owner_ops_change:
  assumes ok: "owners_ok (live_protection_owners db)"
  shows "owners_change (live_protection_owners db) (live_protection_owners (snd (pending_exchange_id H i cid xid now db)))"
    and "owners_change (live_protection_owners db) (live_protection_owners (snd (begin_cancellation H i cid xid now db)))"
    and "owners_change (live_protection_owners db) (live_protection_owners (snd (record_stop H i cid xid q now doc db)))"
    and "owners_change (live_protection_owners db) (live_protection_owners (snd (confirm_terminal H i cid xid st now db)))"
    and "owners_change (live_protection_owners db) (live_protection_owners (snd (clear_stop H i cid xid now b db)))"
  by (auto simp: owner_ops owners_same positive_quantity split: sum.splits
      intro!: guarded_change owner_moves(1) [of _ H i cid] owner_moves(2) [of _ H i cid] owner_moves(3) [of _ H i cid]
        owner_moves(4) [of _ H i cid] owner_moves(5) [of _ H i cid] dest!: owners_ok_shape [OF ok])

lemma save_intent_owners [simp]: "live_protection_owners (snd (save_intent H i status db)) = live_protection_owners db"
  by (auto simp: save_intent_def split: sum.splits option.splits)

lemma update_status_owners [simp]: "live_protection_owners (snd (update_status iid new reason now db)) = live_protection_owners db"
  by (auto simp: update_status_def split: option.splits)

lemma issue_owners [simp]: "live_protection_owners (snd (issue H i a m x now expires db)) = live_protection_owners db"
  using issue_cases [of H i a m x now expires db] issue_body_effect by fastforce

lemma refresh_owners [simp]: "live_protection_owners (snd (refresh_claimed H v a m x now db)) = live_protection_owners db"
  using refresh_cases [of H v a m x now db] refresh_body_effect by fastforce

lemma claim_owners [simp]: "live_protection_owners (snd (claim u now db)) = live_protection_owners db"
  using claim_effect by blast

lemma run_cmd_owners:
  assumes "owners_ok (live_protection_owners db)"
  shows "owners_change (live_protection_owners db) (live_protection_owners (run_cmd H t cmd db))"
  using reserve_change [OF assms] next_client_id_change [OF assms] release_change [OF assms] owner_ops_change [OF assms]
  by (cases cmd) (simp_all add: owners_same)

section \<open>The system of owners\<close>

lemma owners_change_row:
  assumes "owners_change ws ws'" and "w \<in> set ws"
  shows "\<exists>w' \<in> set ws'. ow_owner_key w' = ow_owner_key w \<and> (w' = w \<or> owner_move w w')"
  using assms(1) unfolding owners_change_def
proof (elim disjE exE conjE)
  fix P f assume f: "ws' = update_where P f ws" "\<forall>w \<in> set ws. P w \<longrightarrow> owner_move w (f w)"
  show ?thesis
  proof (cases "P w")
    case True
    then have "f w \<in> set ws'" "owner_move w (f w)" using f assms(2) by (auto simp: set_update_where)
    then show ?thesis by (intro bexI [of _ "f w"]) (auto simp: owner_move_def)
  next
    case False
    then have "w \<in> set ws'" using f(1) assms(2) by (auto simp: set_update_where)
    then show ?thesis by blast
  qed
qed (use assms(2) in auto)

definition released :: "exec_db \<Rightarrow> string \<Rightarrow> unit option" where
  "released db k = (if \<exists>w \<in> set (live_protection_owners db). ow_owner_key w = k \<and> ow_status w = ''RELEASED'' then Some () else None)"

lemma released_step:
  assumes "owners_ok (live_protection_owners db)" and "released db k = Some v"
  shows "released (run_cmd H t cmd db) k = Some v"
proof -
  obtain w where w: "w \<in> set (live_protection_owners db)" "ow_owner_key w = k" "ow_status w = ''RELEASED''"
    using assms(2) by (auto simp: released_def split: if_splits)
  obtain w' where w': "w' \<in> set (live_protection_owners (run_cmd H t cmd db))" "ow_owner_key w' = k" "w' = w \<or> owner_move w w'"
    using owners_change_row [OF run_cmd_owners [OF assms(1), of H t cmd] w(1)] w(2) by auto
  then have "ow_status w' = ''RELEASED''" using w(3) by (auto simp: owner_move_def edge_from_released)
  then show ?thesis using w'(1,2) by (auto simp: released_def)
qed

interpretation owners: latched_system "exec_step H" "\<lambda>db. owners_ok (live_protection_owners db)" released for H :: hasher
proof
  show "owners_ok (live_protection_owners s')" if "owners_ok (live_protection_owners s)" "exec_step H s s'" for s s'
    using that owners_change_ok [OF run_cmd_owners] by (blast elim!: exec_stepE)
  show "released s' k = Some v" if "owners_ok (live_protection_owners s)" "exec_step H s s'" "released s k = Some v" for s s' k v
    using that released_step by (blast elim!: exec_stepE)
qed

lemma exec_reachable_owners: "exec_reachable H db \<Longrightarrow> owners_ok (live_protection_owners db)"
  using owners.steps_inv [of H empty_exec_db db] by (simp add: exec_reachable_def owners_ok_def empty_exec_db_def unique_on_def)

end
