(* ===== verification/Claim_Safety.thy ===== *)
theory Claim_Safety
  imports Protection_Safety
begin

text \<open>
  The properties of the execution tables that make an entry order happen at most once: a claim is
  granted once per intent whatever the workers do in between, the intent behind it never changes, a
  claimed intent is picked up by recovery until its protection is released, and refreshing the
  authority of a claim never prolongs it. The last section is about the protection owners.
\<close>

section \<open>A concrete run\<close>

definition sample_market :: market_observation where
  "sample_market =
     \<lparr>mo_symbol = ''BTCUSDT'', mo_mark_price = Fin 100, mo_best_bid = Fin 100, mo_best_ask = Fin 100,
      mo_kline_1m_close = Fin 100, mo_kline_1m_open_time_ms = 0, mo_kline_1m_close_time_ms = 1000,
      mo_source_timestamp_ms = 1000, mo_receipt_timestamp_ms = 1000, mo_mark_source_timestamp_ms = Some 1000,
      mo_mark_receipt_timestamp_ms = Some 1000, mo_book_source_timestamp_ms = Some 1000,
      mo_book_receipt_timestamp_ms = Some 1000, mo_kline_source_timestamp_ms = Some 1000,
      mo_kline_receipt_timestamp_ms = Some 1000, mo_stream_connected = True, mo_spread_bps = Fin 0,
      mo_observation_hash = hash_a\<rparr>"

lemma sample_market_verify [simp]: "market_verify const_hash sample_market = Inr sample_market"
  by (simp add: market_verify_iff market_fields_ok_def sample_market_def Positive_def Nonnegative_def)

lemma sample_intent_fields [simp]:
  "ti_intent_hash sample_intent = hash_a" "ti_approval_event_id sample_intent = ''event-1''"
  "ti_symbol sample_intent = ''BTCUSDT''" "ti_proposal_hash sample_intent = hash_a" "ti_case_hash sample_intent = hash_a"
  by (simp_all add: sample_intent_def new_intent_def canonical_execution_identity_def sample_executable_def Let_def)

lemma sample_intent_verify [simp]: "intent_verify const_hash sample_intent = Inr sample_intent"
proof -
  have "intent_fields_ok sample_intent"
    using sample_intent_validate by (auto simp: intent_validate_def intent_fields_ok_def Let_def sample_intent_def split: if_splits prod.splits)
  then show ?thesis
    by (simp add: intent_verify_iff intent_digest_def)
      (simp add: sample_intent_def new_intent_def canonical_execution_identity_def Let_def)
qed

definition sample_saved :: exec_db where
  "sample_saved = run_cmd const_hash 2000 (SaveIntent sample_intent ''PENDING_VALIDATION'') empty_exec_db"

definition sample_receipt :: authorization where
  "sample_receipt = (issued const_hash sample_intent sample_account sample_market sample_executable 2000 7000)
     \<lparr>au_authorization_hash := hash_a\<rparr>"

definition sample_issued :: exec_db where
  "sample_issued = run_cmd const_hash 2000 (Issue sample_intent sample_account sample_market sample_executable 7000) sample_saved"

definition sample_claimed :: exec_db where
  "sample_claimed = run_cmd const_hash 2000 (Claim sample_receipt) sample_issued"

lemma run_step: "exec_step H db (run_cmd H t cmd db)"
  by (rule exec_step.commit)

lemma steps_run: "(exec_step H)\<^sup>*\<^sup>* db db' \<Longrightarrow> (exec_step H)\<^sup>*\<^sup>* db (run_cmd H t cmd db')"
  by (erule rtranclp.rtrancl_into_rtrancl) (rule run_step)

lemma reachable_run: "exec_reachable H db \<Longrightarrow> exec_reachable H (run_cmd H t cmd db)"
  unfolding exec_reachable_def by (rule steps_run)

lemma reachable_empty: "exec_reachable H empty_exec_db"
  by (simp add: exec_reachable_def)

lemma reachable_steps: "exec_reachable H db \<Longrightarrow> (exec_step H)\<^sup>*\<^sup>* db db' \<Longrightarrow> exec_reachable H db'"
  by (simp add: exec_reachable_def)

lemma sample_reachable:
  "exec_reachable const_hash sample_saved" "exec_reachable const_hash sample_issued" "exec_reachable const_hash sample_claimed"
  unfolding sample_saved_def sample_issued_def sample_claimed_def by (intro reachable_run reachable_empty)+

lemma sample_saved_rows:
  "live_trade_intents sample_saved = [intent_row_of sample_intent ''PENDING_VALIDATION'']"
  "live_pre_execution_authorizations sample_saved = []" "live_execution_claims sample_saved = []"
  "live_execution_market_observations sample_saved = []" "live_account_snapshots sample_saved = []"
  "live_account_events sample_saved = []" "live_execution_orders sample_saved = []" "live_protection_owners sample_saved = []"
  by (simp_all add: sample_saved_def save_intent_def empty_exec_db_def)

lemma sample_receipt_built:
  "authorization_validate const_hash True (issued const_hash sample_intent sample_account sample_market sample_executable 2000 7000)
     = Inr sample_receipt"
proof -
  have "authorization_fields_ok (issued const_hash sample_intent sample_account sample_market sample_executable 2000 7000)"
    by (simp add: authorization_fields_ok_def issued_def Let_def sample_account_def sample_market_def)
      (simp add: sample_intent_def new_intent_def canonical_execution_identity_def sample_executable_def Let_def)
  then show ?thesis by (simp add: authorization_validate_def sample_receipt_def) (simp add: issued_def Let_def)
qed

lemma intent_row_of_status [simp]: "(intent_row_of i s)\<lparr>ir_status := s'\<rparr> = intent_row_of i s'"
  by (simp add: intent_row_of_def)

lemma sample_issue:
  "fst (issue const_hash sample_intent sample_account sample_market sample_executable 2000 7000 sample_saved) = Inr sample_receipt"
  "live_pre_execution_authorizations sample_issued = [authorization_row_of sample_receipt (ti_intent_id sample_intent) ''ISSUED'']"
  "live_trade_intents sample_issued = [intent_row_of sample_intent ''AUTHORIZED'']"
  "live_execution_claims sample_issued = []" "live_execution_orders sample_issued = []" "live_protection_owners sample_issued = []"
  by (simp_all add: sample_issued_def issue_def sample_receipt_built account_save_def account_event_types_def transaction_def
      issue_body_def sample_saved_rows add_market_def authorization_collides_def set_intent_status_def update_where_def Let_def)

lemma sample_intent_claim:
  "claim sample_receipt 2000 sample_issued = (Inr True, sample_claimed)"
  "live_execution_claims sample_claimed =
     [\<lparr>cl_intent_id = ti_intent_id sample_intent, cl_authorization_id = au_authorization_id sample_receipt, cl_claimed_at_ms = 2000\<rparr>]"
  "live_protection_owners sample_claimed = []" "live_execution_orders sample_claimed = []"
proof -
  have u: "au_intent_id sample_receipt = ti_intent_id sample_intent" "au_intent_hash sample_receipt = hash_a"
    by (simp_all add: sample_receipt_def issued_def Let_def)
  have e: "fst (claim sample_receipt 2000 sample_issued) = Inr True"
    by (simp add: claim_def sample_issue authorization_row_of_def u)
  then show "claim sample_receipt 2000 sample_issued = (Inr True, sample_claimed)"
    by (simp add: sample_claimed_def prod_eq_iff)
  show "live_execution_claims sample_claimed =
     [\<lparr>cl_intent_id = ti_intent_id sample_intent, cl_authorization_id = au_authorization_id sample_receipt, cl_claimed_at_ms = 2000\<rparr>]"
    "live_protection_owners sample_claimed = []" "live_execution_orders sample_claimed = []"
    by (simp_all add: sample_claimed_def claim_def sample_issue authorization_row_of_def u set_intent_status_def
        set_authorization_status_def)
qed

section \<open>Claims\<close>

lemma claim_True_claimed: "claim u now db = (Inr True, db') \<Longrightarrow> claimed db' (au_intent_id u) = Some ()"
  by (auto simp: claim_def claimed_def set_intent_status_def set_authorization_status_def fetchone_append
      split: option.splits if_splits)

lemma claim_reachable: "exec_reachable H db \<Longrightarrow> claim u now db = (r, db') \<Longrightarrow> exec_reachable H db'"
  using reachable_run [of H db now "Claim u"] by simp

lemma save_reachable: "exec_reachable H db \<Longrightarrow> save_intent H i status db = (r, db') \<Longrightarrow> exec_reachable H db'"
  using reachable_run [of H db 0 "SaveIntent i status"] by simp

text \<open>C11: the right to place the entry of an intent is granted at most once. After a successful claim,
  whatever committed writes of any worker follow, every later claim for the same intent, with whatever
  receipt, returns False and writes nothing.\<close>

theorem claim_at_most_once:
  assumes "exec_reachable H db" and "claim u now db = (Inr True, db1)"
    and "(exec_step H)\<^sup>*\<^sup>* db1 db2" and "au_intent_id v = au_intent_id u"
  shows "claim v t db2 = (Inr False, db2)"
proof -
  have "exec_reachable H db1" by (rule claim_reachable [OF assms(1,2)])
  then have "claimed db2 (au_intent_id u) = Some ()"
    using claims.steps_latch [OF assms(3) exec_reachable_ok claim_True_claimed [OF assms(2)]] by simp
  then show ?thesis using assms(4) by (auto simp: claimed_def claim_def split: option.splits)
qed

theorem claim_at_most_once_witness:
  "claim sample_receipt 9000 (run_cmd const_hash 8000 (UpdateStatus (ti_intent_id sample_intent) ''AUTHORIZED'' ''RETRY'') sample_claimed)
   = (Inr False, run_cmd const_hash 8000 (UpdateStatus (ti_intent_id sample_intent) ''AUTHORIZED'' ''RETRY'') sample_claimed)"
  by (rule claim_at_most_once [OF sample_reachable(2) sample_intent_claim(1) steps_run [OF rtranclp.rtrancl_refl] refl])

section \<open>Recovery\<close>

lemma filter_res_total:
  assumes "\<And>x. \<exists>b. f x = Inr b"
  shows "filter_res f xs = Inr (filter (\<lambda>x. f x = Inr True) xs)"
proof (induction xs)
  case (Cons x xs)
  obtain b where "f x = Inr b" using assms by blast
  then show ?case using Cons by (simp add: result_simps)
qed simp

lemma side_effect_total:
  assumes "tables_ok H db"
  shows "\<exists>b. has_existing_side_effect H db iid = Inr b"
  using get_intent_total(1) [OF assms, of iid]
  by (auto simp: has_existing_side_effect_def Let_def result_simps split: option.splits)

lemma claim_known: "tables_ok H db \<Longrightarrow> find_claim db iid = Some c \<Longrightarrow> iid \<in> ir_intent_id ` set (live_trade_intents db)"
  using fetchone_Some [of "\<lambda>c. cl_intent_id c = iid" "live_execution_claims db" c] unfolding tables_ok_def claims_ok_def by blast

lemma claimed_side_effect:
  assumes "tables_ok H db" and "find_claim db iid = Some c" and "\<forall>w \<in> set (live_protection_owners db). \<not> (ow_intent_id w = iid \<and> ow_status w = ''RELEASED'')"
  shows "has_existing_side_effect H db iid = Inr True"
proof -
  have c: "cl_intent_id c = iid" "c \<in> set (live_execution_claims db)" using fetchone_Some [OF assms(2)] by auto
  obtain r where r: "find_intent db iid = Some r" using claim_known [OF assms(1,2)] by (cases "find_intent db iid") (auto simp: fetchone_None)
  have n: "fetchone (\<lambda>w. ow_intent_id w = iid \<and> ow_status w = ''RELEASED'') (live_protection_owners db) = None"
    using assms(3) by (simp add: fetchone_None)
  have e: "list_ex (\<lambda>c. cl_intent_id c = iid) (live_execution_claims db)" using c by (auto simp: list_ex_iff)
  show ?thesis unfolding has_existing_side_effect_def r n using get_intent_total(1) [OF assms(1), of iid] e
    by (simp add: result_simps Let_def)
qed

text \<open>C12: recovery never forgets a claimed intent. In every reachable state the list of unfinished
  intents can be computed, and it contains each intent that was ever claimed until the protection
  owner of that intent has been released.\<close>

theorem claimed_stays_unfinished:
  assumes "exec_reachable H db" and "claim u now db = (Inr True, db1)" and "(exec_step H)\<^sup>*\<^sup>* db1 db2"
    and "\<forall>w \<in> set (live_protection_owners db2). \<not> (ow_intent_id w = au_intent_id u \<and> ow_status w = ''RELEASED'')"
  shows "\<exists>ids. unfinished_intent_ids H db2 = Inr ids \<and> au_intent_id u \<in> set ids"
proof -
  have r1: "exec_reachable H db1" by (rule claim_reachable [OF assms(1,2)])
  then have "claimed db2 (au_intent_id u) = Some ()"
    using claims.steps_latch [OF assms(3) exec_reachable_ok claim_True_claimed [OF assms(2)]] by simp
  then obtain c where c: "find_claim db2 (au_intent_id u) = Some c" by (auto simp: claimed_def)
  have ok: "tables_ok H db2" using exec_reachable_ok [OF reachable_steps [OF r1 assms(3)]] .
  show ?thesis
    using claim_known [OF ok c] filter_res_total [of "has_existing_side_effect H db2", OF side_effect_total [OF ok]] claimed_side_effect [OF ok c assms(4)]
    by (auto simp: unfinished_intent_ids_def)
qed

theorem claimed_stays_unfinished_witness:
  "\<exists>ids. unfinished_intent_ids const_hash sample_claimed = Inr ids \<and> ti_intent_id sample_intent \<in> set ids"
proof -
  have u: "au_intent_id sample_receipt = ti_intent_id sample_intent" by (simp add: sample_receipt_def issued_def Let_def)
  show ?thesis
    using claimed_stays_unfinished [OF sample_reachable(2) sample_intent_claim(1) rtranclp.rtrancl_refl] by (simp add: sample_intent_claim u)
qed

section \<open>Stored intents\<close>

text \<open>what is saved is what is read back. The first intent saved for an approval event is returned,
  verified and unchanged, by every later look-up of that event, after any further writes.\<close>

theorem saved_intent_read_back:
  assumes "exec_reachable H db" and "stored_intent db (ti_approval_event_id i) = None" and "find_intent db (ti_intent_id i) = None"
    and "save_intent H i status db = (Inr (), db1)" and "(exec_step H)\<^sup>*\<^sup>* db1 db2"
  shows "get_intent_by_approval_event H db2 (ti_approval_event_id i) = Inr (Some i)"
proof -
  have r1: "exec_reachable H db1" by (rule save_reachable [OF assms(1,4)])
  have "stored_intent db1 (ti_approval_event_id i) = Some i"
    using assms(2-4)
    by (auto simp: save_intent_def stored_intent_def fetchone_None fetchone_append dest!: fetchone_Some
        split: sum.splits option.splits if_splits)
  then have "stored_intent db2 (ti_approval_event_id i) = Some i"
    using intents.steps_latch [OF assms(5) exec_reachable_ok [OF r1]] by simp
  then show ?thesis using get_intent_total(2) [OF exec_reachable_ok [OF reachable_steps [OF r1 assms(5)]]] by simp
qed

theorem saved_intent_read_back_witness:
  "get_intent_by_approval_event const_hash sample_claimed ''event-1'' = Inr (Some sample_intent)"
proof -
  have s: "save_intent const_hash sample_intent ''PENDING_VALIDATION'' empty_exec_db = (Inr (), sample_saved)"
    by (simp add: sample_saved_def prod_eq_iff) (simp add: save_intent_def empty_exec_db_def)
  have "(exec_step const_hash)\<^sup>*\<^sup>* sample_saved sample_claimed"
    unfolding sample_claimed_def sample_issued_def by (intro steps_run rtranclp.rtrancl_refl)
  then show ?thesis
    using saved_intent_read_back [OF reachable_empty _ _ s] by (simp add: stored_intent_def empty_exec_db_def)
qed

section \<open>Refreshing a claim\<close>

lemma refresh_body_ok:
  assumes "refresh_body previous m u now db = (Inr (), db')" and "au_intent_id u = au_intent_id previous"
  shows "for_claimed_intent db' (au_intent_id u) = Inr (au_authorization_id u)" and "claim_owned previous db"
proof -
  have own: "claim_owned previous db" and e: "(Inr (), db') = refresh_body previous m u now db"
    using assms(1) by (auto simp: refresh_body_def split: if_splits)
  then obtain c where c: "find_claim db (au_intent_id previous) = Some c" "cl_authorization_id c = au_authorization_id previous"
    by (auto simp: claim_owned_def split: option.splits)
  have id: "cl_intent_id c = au_intent_id previous" using fetchone_Some [OF c(1)] by simp
  show "claim_owned previous db" by fact
  show "for_claimed_intent db' (au_intent_id u) = Inr (au_authorization_id u)"
    using e own c id assms(2)
    by (auto simp: refresh_body_def Let_def for_claimed_intent_def fetchone_update_where split: if_splits)
qed

text \<open>Refreshing the authority of a claim replaces the observations and nothing else. The new receipt
  keeps the intent, the approval and the deadline of the old one, is dated now, before that deadline,
  and becomes the receipt of the claim; no entry order exists at that moment.\<close>

theorem refresh_never_extends:
  assumes "refresh_claimed H u a m x now db = (Inr v, db')"
  shows "au_expires_at_ms v = au_expires_at_ms u \<and> au_validated_at_ms v = now \<and> now < au_expires_at_ms v
    \<and> au_intent_id v = au_intent_id u \<and> au_intent_hash v = au_intent_hash u
    \<and> au_approval_event_id v = au_approval_event_id u \<and> au_approval_hash v = au_approval_hash u
    \<and> for_claimed_intent db' (au_intent_id u) = Inr (au_authorization_id v)
    \<and> \<not> list_ex (\<lambda>o1. od_intent_id o1 = au_intent_id u \<and> \<not> od_is_protective o1) (live_execution_orders db)"
proof -
  have now: "au_validated_at_ms u \<le> now" "now < au_expires_at_ms u"
    and r: "authorization_validate H True (refreshed H u a m x now) = Inr v"
    and t: "refresh_body u m v now (snd (account_save H a ''REST_RECONCILED'' db)) = (Inr (), db')"
    using assms by (auto simp: refresh_claimed_def transaction_def result_simps split: if_splits sum.splits prod.splits)
  have "v = (refreshed H u a m x now)\<lparr>au_authorization_hash := digest H (authorization_json (refreshed H u a m x now))\<rparr>"
    using r by (auto simp: authorization_validate_def refreshed_def Let_def split: if_splits)
  then have v: "au_expires_at_ms v = au_expires_at_ms u" "au_validated_at_ms v = now" "au_intent_id v = au_intent_id u"
    "au_intent_hash v = au_intent_hash u" "au_approval_event_id v = au_approval_event_id u" "au_approval_hash v = au_approval_hash u"
    by (simp_all add: refreshed_def Let_def)
  have own: "claim_owned u (snd (account_save H a ''REST_RECONCILED'' db))" by (rule refresh_body_ok(2) [OF t v(3)])
  show ?thesis using v now refresh_body_ok(1) [OF t v(3)] own by (simp add: claim_owned_def)
qed

lemma sample_claimed_rows:
  "live_trade_intents sample_claimed = [intent_row_of sample_intent ''SUBMITTING'']"
  "live_pre_execution_authorizations sample_claimed = [authorization_row_of sample_receipt (ti_intent_id sample_intent) ''CLAIMED'']"
proof -
  have u: "au_intent_id sample_receipt = ti_intent_id sample_intent" "au_intent_hash sample_receipt = hash_a"
    by (simp_all add: sample_receipt_def issued_def Let_def)
  show "live_trade_intents sample_claimed = [intent_row_of sample_intent ''SUBMITTING'']"
    "live_pre_execution_authorizations sample_claimed = [authorization_row_of sample_receipt (ti_intent_id sample_intent) ''CLAIMED'']"
    by (simp_all add: sample_claimed_def claim_def sample_issue authorization_row_of_def u set_intent_status_def
        set_authorization_status_def update_where_def)
qed

theorem refresh_never_extends_witness:
  "\<exists>v db'. refresh_claimed const_hash sample_receipt sample_account sample_market sample_executable 3000 sample_claimed = (Inr v, db')
    \<and> au_expires_at_ms v = 7000 \<and> au_validated_at_ms v = 3000"
proof -
  let ?r = "refreshed const_hash sample_receipt sample_account sample_market sample_executable 3000"
  have f: "au_intent_id sample_receipt = ti_intent_id sample_intent" "au_intent_hash sample_receipt = hash_a"
    "au_authorization_hash sample_receipt = hash_a" "au_validated_at_ms sample_receipt = 2000" "au_expires_at_ms sample_receipt = 7000"
    "au_authorization_id ?r = au_authorization_id sample_receipt" "au_authorization_hash ?r = []" "au_expires_at_ms ?r = 7000" "au_validated_at_ms ?r = 3000"
    by (simp_all add: sample_receipt_def issued_def refreshed_def Let_def)
  have ok: "authorization_fields_ok ?r"
    using sample_receipt_built
    by (auto simp: authorization_validate_def authorization_fields_ok_def refreshed_def sample_receipt_def issued_def Let_def split: if_splits)
  have own: "claim_owned sample_receipt (snd (account_save const_hash sample_account ''REST_RECONCILED'' sample_claimed))"
    by (simp add: claim_owned_def sample_intent_claim sample_claimed_rows f authorization_row_of_def)
  have save: "\<exists>y. fst (account_save const_hash sample_account ''REST_RECONCILED'' sample_claimed) = Inr y"
    by (simp add: account_save_def account_event_types_def)
  have "\<exists>v db'. refresh_claimed const_hash sample_receipt sample_account sample_market sample_executable 3000 sample_claimed = (Inr v, db')"
    using save own unfolding refresh_claimed_def
    by (auto simp: f authorization_validate_def ok transaction_def refresh_body_def Let_def split: prod.splits sum.splits)
  then show ?thesis using refresh_never_extends f(5) by metis
qed

section \<open>Protection owners\<close>

text \<open>C13: one stop owner per symbol. In every reachable state at most one owner of a symbol carries risk,
  so the partial unique index on the owner table is never violated, and a confirmed (ACTIVE) stop has
  an exchange id, a client id and a positive size.\<close>

theorem one_owner_per_symbol:
  assumes "exec_reachable H db" and "v \<in> set (live_protection_owners db)" and "w \<in> set (live_protection_owners db)"
    and "ow_status v \<in> set risk_statuses" and "ow_status w \<in> set risk_statuses" and "ow_symbol v = ow_symbol w"
  shows "v = w \<and> (ow_status v = ''ACTIVE'' \<longrightarrow> ow_exchange_id v \<noteq> None \<and> ow_protective_client_id v \<noteq> None \<and> Positive (ow_quantity v))"
proof
  have ok: "owners_ok (live_protection_owners db)" by (rule exec_reachable_owners [OF assms(1)])
  show "v = w" using ok assms(2-6) unfolding owners_ok_def at_risk_def by blast
  show "ow_status v = ''ACTIVE'' \<longrightarrow> ow_exchange_id v \<noteq> None \<and> ow_protective_client_id v \<noteq> None \<and> Positive (ow_quantity v)"
    using owners_ok_shape [OF ok assms(2)] by (simp add: owner_shape_def)
qed

definition sample_owned :: exec_db where
  "sample_owned = run_cmd const_hash 2500 (ReserveOwner sample_intent) sample_claimed"

lemma sample_owner: "live_protection_owners sample_owned = [new_owner const_hash sample_intent 2500]"
  by (simp add: sample_owned_def reserve_owner_def sample_intent_claim)

lemma sample_owned_reachable: "exec_reachable const_hash sample_owned"
  unfolding sample_owned_def by (rule reachable_run [OF sample_reachable(3)])

theorem one_owner_per_symbol_witness:
  "\<exists>v. v \<in> set (live_protection_owners sample_owned) \<and> ow_status v \<in> set risk_statuses
     \<and> (ow_status v = ''ACTIVE'' \<longrightarrow> ow_exchange_id v \<noteq> None \<and> ow_protective_client_id v \<noteq> None \<and> Positive (ow_quantity v))"
proof (intro exI conjI)
  let ?v = "new_owner const_hash sample_intent 2500"
  show v: "?v \<in> set (live_protection_owners sample_owned)" "ow_status ?v \<in> set risk_statuses"
    by (simp_all add: sample_owner new_owner_def risk_statuses_def)
  show "ow_status ?v = ''ACTIVE'' \<longrightarrow> ow_exchange_id ?v \<noteq> None \<and> ow_protective_client_id ?v \<noteq> None \<and> Positive (ow_quantity ?v)"
    using one_owner_per_symbol [OF sample_owned_reachable v(1) v(1) v(2) v(2) refl] by blast
qed

text \<open>C14: owners follow their life cycle. Every committed write leaves an owner row unchanged or moves it
  along one edge of the abstract machine \<open>owner_edge\<close>, keeping its identity and never lowering its
  generation; no row disappears.\<close>

theorem owner_follows_lifecycle:
  assumes "exec_reachable H db" and "exec_step H db db'" and "w \<in> set (live_protection_owners db)"
  shows "\<exists>w' \<in> set (live_protection_owners db'). w' = w
    \<or> ow_owner_key w' = ow_owner_key w \<and> ow_intent_id w' = ow_intent_id w \<and> ow_intent_hash w' = ow_intent_hash w
      \<and> ow_symbol w' = ow_symbol w \<and> ow_generation w \<le> ow_generation w' \<and> owner_edge (ow_status w) (ow_status w')"
proof -
  have "owners_change (live_protection_owners db) (live_protection_owners db')"
    using assms(2) run_cmd_owners [OF exec_reachable_owners [OF assms(1)]] by (blast elim!: exec_stepE)
  from owners_change_row [OF this assms(3)] show ?thesis unfolding owner_move_def by blast
qed

theorem owner_follows_lifecycle_witness:
  "\<exists>w' \<in> set (live_protection_owners (run_cmd const_hash 2600 (NextClientId (new_owner const_hash sample_intent 2500) (Fin 1)) sample_owned)).
     w' = new_owner const_hash sample_intent 2500 \<or> owner_edge ''RESERVED'' (ow_status w')"
  using owner_follows_lifecycle [OF sample_owned_reachable run_step, of "new_owner const_hash sample_intent 2500" 2600
      "NextClientId (new_owner const_hash sample_intent 2500) (Fin 1)"] sample_owner
  by (auto simp: new_owner_def)

text \<open>A released owner is final. After its release no write of any worker takes it back: it can
  neither be reserved again nor get another stop client id.\<close>

theorem released_owner_final:
  assumes "exec_reachable H db" and "(exec_step H)\<^sup>*\<^sup>* db db'" and "w \<in> set (live_protection_owners db)"
    and "ow_status w = ''RELEASED''" and "owner_key H i = ow_owner_key w"
  shows "\<exists>e e'. fst (reserve_owner H i t db') = Inl (ExecutionBlocked e) \<and> fst (next_client_id H i t q db') = Inl (ExecutionBlocked e')"
proof -
  have "released db (ow_owner_key w) = Some ()" using assms(3,4) by (auto simp: released_def)
  then have "released db' (ow_owner_key w) = Some ()"
    using owners.steps_latch [OF assms(2) exec_reachable_owners [OF assms(1)]] by simp
  then obtain w' where w': "w' \<in> set (live_protection_owners db')" "ow_owner_key w' = ow_owner_key w" "ow_status w' = ''RELEASED''"
    by (auto simp: released_def split: if_splits)
  have ok: "owners_ok (live_protection_owners db')" by (rule exec_reachable_owners [OF reachable_steps [OF assms(1,2)]])
  obtain r where r: "find_owner db' (owner_key H i) = Some r"
    using w' assms(5) by (cases "find_owner db' (owner_key H i)") (auto simp: fetchone_None)
  have "w' = r" using owner_unique [OF ok r w'(1)] w'(2) assms(5) by simp
  then have "ow_status r = ''RELEASED''" using w'(3) by simp
  then show ?thesis using r by (simp add: reserve_owner_def next_client_id_def get_owner_def next_client_id_checked_def)
qed

theorem released_owner_final_witness:
  "\<exists>e e'. fst (reserve_owner const_hash sample_intent 9000
       (run_cmd const_hash 3000 (ReleaseFlat (ti_intent_id sample_intent) (owner_key const_hash sample_intent)) sample_owned))
       = Inl (ExecutionBlocked e)
     \<and> fst (next_client_id const_hash sample_intent 9000 (Fin 1)
       (run_cmd const_hash 3000 (ReleaseFlat (ti_intent_id sample_intent) (owner_key const_hash sample_intent)) sample_owned))
       = Inl (ExecutionBlocked e')"
proof -
  let ?c = "ReleaseFlat (ti_intent_id sample_intent) (owner_key const_hash sample_intent)"
  let ?w = "(new_owner const_hash sample_intent 2500)\<lparr>ow_status := ''RELEASED'', ow_exchange_id := None,
    ow_protective_client_id := None, ow_quantity := Fin 0, ow_updated_at_ms := 3000\<rparr>"
  have "live_execution_orders sample_owned = []" by (simp add: sample_owned_def reserve_owner_def sample_intent_claim)
  then have w: "?w \<in> set (live_protection_owners (run_cmd const_hash 3000 ?c sample_owned))"
    by (simp add: release_flat_tx_def entry_pending_def sample_owner new_owner_def update_where_def)
  show ?thesis
    by (rule released_owner_final [OF reachable_run [OF sample_owned_reachable] rtranclp.rtrancl_refl w])
      (simp_all add: new_owner_def)
qed

end
