(* ===== verification/Validator_Safety.thy ===== *)
theory Validator_Safety
  imports Claim_Safety
begin

text \<open>
  What a positive answer of the validator means. The stages are inverted one by one; together with
  the invariants of the approval journal they show that only an approved, unexpired, capped intent on
  a flat, fresh and reconciled account passes, and that the authorization issued for it is short-lived.
\<close>

section \<open>Inverting the stages\<close>

named_theorems stage_ok

lemma and_then_ok [stage_ok]: "and_then s k = Inr [] \<longleftrightarrow> s = Inr [] \<and> k = Inr []"
  by (cases s) (auto simp: and_then_def)

lemma first_of_ok [stage_ok]: "r \<noteq> [] \<Longrightarrow> first_of ((c, r) # xs) = [] \<longleftrightarrow> \<not> c \<and> first_of xs = []"
  by simp

declare first_of.simps(2) [simp del]

lemma is_ok_verify [stage_ok]: "is_ok r \<longleftrightarrow> (\<exists>x. r = Inr x)"
  by (cases r) simp_all

lemma catch_key_ok: "catch_key r = Inr (Some x) \<longleftrightarrow> r = Inr x"
  by (cases r rule: catch_key.cases) auto

lemma validate_ok:
  assumes "validate H cfg kill ldb db i m a now = Inr r" and "vr_is_valid r"
  obtains p c where "get_proposal H ldb (ti_proposal_hash i) = Inr p" and "get_case H ldb (ti_case_id i) = Inr c"
    and "intent_stage H kill i now = []" and "proposal_stage H ldb i p c now = Inr []" and "approval_stage H ldb i = []"
    and "contract_stage H (vc_risk_policy cfg) db i p c = []" and "account_stage H cfg i a now = []"
    and "risk_stage cfg i p c a = Inr []" and "exposure_stage (vc_risk_policy cfg) i a = []"
    and "market_stage H cfg i p m now = Inr []" and "duplicate_stage H db i = Inr []" and "tactical_stage H cfg i c now = []"
proof -
  have "refusal H cfg kill ldb db i m a now = Inr []"
    using assms by (auto simp: validate_def result_simps split: if_splits)
  then obtain p c where "lookup_authority H ldb i = Inr (Some (p, c))" "later_stages H cfg ldb db i p c m a now = Inr []"
    "intent_stage H kill i now = []"
    by (auto simp: refusal_def stage_ok result_simps split: option.splits)
  then show ?thesis
    using that by (auto simp: lookup_authority_def catch_key_ok later_stages_def stage_ok result_simps)
qed

lemma intent_stage_ok:
  "intent_stage H kill i now = [] \<longleftrightarrow> (\<exists>j. intent_verify H i = Inr j) \<and> now < ti_expires_at_ms i \<and> allows_new_risk kill"
  by (auto simp: intent_stage_def stage_ok)

lemma proposal_stage_ok:
  assumes "proposal_stage H ldb i p c now = Inr []"
  shows "cp_case_hash c = ti_case_hash i \<and> tp_proposal_hash p = ti_proposal_hash i \<and> now < cp_expires_at_ms c
    \<and> now < tp_expires_at_ms p \<and> \<not> tp_requires_manual_review p \<and> tp_blocked_reasons p = []
    \<and> (\<exists>q. active_proposal H ldb (cp_case_id c) = Inr (Some q) \<and> tp_proposal_hash q = tp_proposal_hash p)"
  using assms by (auto simp: proposal_stage_def stage_ok result_simps split: option.splits if_splits)

lemma approval_stage_ok:
  assumes "approval_stage H ldb i = []"
  shows "\<exists>r. find_approval ldb (ti_approval_event_id i) = Some r \<and> ap_action r = ''APPROVE'' \<and> ap_actor r = ti_approval_actor i
    \<and> ap_proposal_hash r = ti_proposal_hash i \<and> ap_case_hash r = ti_case_hash i"
  using assms by (auto simp: approval_stage_def stage_ok split: option.splits)

lemma account_stage_ok:
  assumes "account_stage H cfg i a now = []"
  shows "(\<exists>b. snapshot_verify H a = Inr b) \<and> as_environment a = ti_environment i \<and> as_account_id a = ti_account_authority i
    \<and> as_reconciled a \<and> as_quality a = ''OK'' \<and> as_observed_at_ms a \<le> now
    \<and> now - as_observed_at_ms a \<le> vc_max_account_staleness_ms cfg
    \<and> (\<forall>p \<in> set (as_positions a). po_symbol p \<noteq> ti_symbol i \<longrightarrow> feq (po_quantity p) 0)"
  using assms by (auto simp: account_stage_def stage_ok list_ex_iff)

lemma risk_stage_ok:
  assumes "risk_stage cfg i p c a = Inr []"
  shows "\<not> rp_max_notional_usdt (vc_risk_policy cfg) < intent_notional i \<and> ti_leverage i \<le> rp_max_leverage (vc_risk_policy cfg)
    \<and> \<not> as_available_balance_usdt a < margin_required i
    \<and> \<not> daily_loss_limit cfg a \<le> as_daily_loss_usdt a \<and> \<not> drawdown_limit cfg \<le> as_drawdown_pct a
    \<and> (\<exists>rate. worst_case_loss_rate (ti_price i) (ti_stop_loss i) (vc_risk_policy cfg) (cp_funding_rate c) = Inr rate
         \<and> \<not> trade_risk_cap (vc_risk_policy cfg) p a + epsilon9 < intent_notional i * rate)"
  using assms by (auto simp: risk_stage_def Let_def stage_ok result_simps)

lemma exposure_stage_ok:
  assumes "exposure_stage pol i a = []"
  shows "\<not> as_equity_usdt a * rp_max_symbol_exposure_pct pol
            < exposure (symbol_positions (ti_symbol i) (as_positions a)) + intent_notional i
    \<and> \<not> as_equity_usdt a * rp_max_portfolio_exposure_pct pol < exposure (as_positions a) + intent_notional i
    \<and> order_reason i (as_orders a) = [] \<and> \<not> has_symbol_position i a"
  using assms by (auto simp: exposure_stage_def Let_def stage_ok split: if_splits)

lemma market_stage_ok:
  assumes "market_stage H cfg i p m now = Inr []"
  shows "mo_symbol m = ti_symbol i \<and> (\<exists>n. market_verify H m = Inr n) \<and> mo_receipt_timestamp_ms m \<le> now
    \<and> \<not> is_stale m now (vc_max_market_staleness_ms cfg) \<and> \<not> spread_limit cfg < mo_spread_bps m
    \<and> (\<exists>d. fdiv \<bar>mo_mark_price m - ti_price i\<bar> (ti_price i) = Inr d \<and> \<not> allowed_drift cfg p < d * Fin 10000)"
  using assms by (auto simp: market_stage_def stage_ok is_stale_def result_simps)

lemma order_reason_ok:
  assumes "order_reason i os = []" and "x \<in> set os" and "ao_symbol x = ti_symbol i" and "ao_side x \<noteq> ti_side i"
  shows "ao_status x \<notin> {''NEW'', ''PARTIALLY_FILLED''}"
  using assms by (induction os) (auto split: if_splits)

section \<open>The journal behind a valid intent\<close>

lemma active_approval:
  assumes reach: "store_reachable H t ldb" and c: "get_case H ldb cid = Inr c"
    and q: "active_proposal H ldb (cp_case_id c) = Inr (Some q)"
    and r: "find_approval ldb e = Some r" "ap_action r = ''APPROVE''" "ap_proposal_hash r = tp_proposal_hash q"
  shows "case_state ldb cid = Some APPROVED \<and> cp_case_id c = cid"
proof -
  have inv: "live_inv H ldb" using reach by (rule reachable_inv)
  obtain crow where crow: "find_case ldb cid = Some crow" "lc_payload crow = c"
    using c by (auto simp: get_case_def case_verify_iff split: option.splits)
  then have cid: "cp_case_id c = cid" "lc_case_id crow = cid"
    using inv fetchone_Some [OF crow(1)] by (auto simp: live_inv_def rows_ok_def case_row_ok_def)
  obtain prow where prow: "active_row ldb crow = Some prow" "proposal_verify H (pr_payload prow) = Inr q"
    using q crow cid by (auto simp: active_proposal_def result_simps split: option.splits)
  obtain h where h: "lc_active_proposal_hash crow = Some h" "find_proposal ldb h = Some prow"
    using prow(1) by (auto simp: active_row_def split: option.splits)
  have p: "prow \<in> set (trade_proposals ldb)" "pr_proposal_hash prow = h" using fetchone_Some [OF h(2)] by auto
  have "active_ok ldb crow" using inv fetchone_Some [OF crow(1)] by (auto simp: live_inv_def rows_ok_def)
  then obtain p' where p': "p' \<in> set (trade_proposals ldb)" "pr_proposal_hash p' = h" "pr_case_id p' = cid"
    using h(1) cid by (auto simp: active_ok_def)
  have "proposal_row_ok H ldb prow" using inv p by (auto simp: live_inv_def rows_ok_def)
  then have "pr_proposal_hash prow = tp_proposal_hash q"
    using prow(2) by (auto simp: proposal_row_ok_def proposal_verify_iff) (metis proposal_row_of_fields(1))
  then have "of_case ldb cid r" using p p' r(3) by (auto simp: of_case_ex)
  moreover have "r \<in> set (approval_records ldb)" using fetchone_Some [OF r(1)] by simp
  ultimately show ?thesis using approve_record_decides [OF reach] r(2) cid by blast
qed

section \<open>Properties\<close>

lemma validated_case_approved:
  assumes "store_reachable H t ldb" and "get_case H ldb (ti_case_id i) = Inr c" and "proposal_stage H ldb i p c now = Inr []"
    and "approval_stage H ldb i = []"
  shows "case_state ldb (ti_case_id i) = Some APPROVED"
proof -
  obtain q where q: "active_proposal H ldb (cp_case_id c) = Inr (Some q)" "tp_proposal_hash q = ti_proposal_hash i"
    using proposal_stage_ok [OF assms(3)] by auto
  obtain ar where ar: "find_approval ldb (ti_approval_event_id i) = Some ar" "ap_action ar = ''APPROVE''"
    "ap_proposal_hash ar = ti_proposal_hash i" using approval_stage_ok [OF assms(4)] by auto
  show ?thesis using active_approval [OF assms(1,2) q(1) ar(1,2)] ar(3) q(2) by simp
qed

lemma validated_approved:
  assumes "store_reachable H t ldb" and "validate H cfg kill ldb db i m a now = Inr r" and "vr_is_valid r"
  shows "case_state ldb (ti_case_id i) = Some APPROVED \<and> allows_new_risk kill \<and> now < ti_expires_at_ms i"
  using assms(2,3) by (rule validate_ok) (use validated_case_approved [OF assms(1)] in \<open>auto simp: intent_stage_ok\<close>)


lemma foldl_min_le: "foldl min (x :: int) ys \<le> x \<and> (\<forall>y \<in> set ys. foldl min x ys \<le> y)"
proof (induction ys arbitrary: x)
  case (Cons y ys)
  then show ?case using Cons [of "min x y"] by auto
qed simp

lemma expiry_bounds:
  "authorization_expiry cfg i m a now limit \<le> ti_expires_at_ms i"
  "authorization_expiry cfg i m a now limit \<le> now + 5000"
  "t \<in> set (component_times m) \<Longrightarrow> authorization_expiry cfg i m a now limit \<le> t + vc_max_market_staleness_ms cfg"
  "authorization_expiry cfg i m a now limit \<le> as_observed_at_ms a + vc_max_account_staleness_ms cfg"
  "limit = Some l \<Longrightarrow> authorization_expiry cfg i m a now limit \<le> l"
  unfolding authorization_expiry_def
  using foldl_min_le [of "ti_expires_at_ms i" "[now + 5000, case limit of None \<Rightarrow> ti_expires_at_ms i | Some t \<Rightarrow> t]
        @ map (\<lambda>t. t + vc_max_market_staleness_ms cfg) (component_times m) @ [as_observed_at_ms a + vc_max_account_staleness_ms cfg]"]
  by auto

lemma issue_receipt:
  assumes "issue H i a m x now expires db = (Inr u, db')"
  shows "au_expires_at_ms u = expires \<and> au_validated_at_ms u = now \<and> now < expires \<and> au_intent_id u = ti_intent_id i
    \<and> au_intent_hash u = ti_intent_hash i"
proof -
  have "authorization_validate H True (issued H i a m x now expires) = Inr u"
    using assms by (auto simp: issue_def result_simps split: sum.splits prod.splits)
  then show ?thesis by (auto simp: authorization_validate_def issued_def Let_def split: if_splits)
qed

text \<open>C19: an authorization is short-lived. It is dated now and ends, after now, within five seconds, and
  never later than the intent, than any timestamp of the market observation plus the market staleness
  limit, than the account snapshot plus the account staleness limit, or than the caller's own limit; it is
  issued for the stored intent only while the kill switch is clear.\<close>

theorem authorization_short_lived:
  assumes "authorize H cfg kill ldb iid m a now limit db = (Inr u, db')"
  shows "au_validated_at_ms u = now \<and> now < au_expires_at_ms u \<and> au_expires_at_ms u \<le> now + 5000
    \<and> (\<forall>t \<in> set (component_times m). au_expires_at_ms u \<le> t + vc_max_market_staleness_ms cfg)
    \<and> au_expires_at_ms u \<le> as_observed_at_ms a + vc_max_account_staleness_ms cfg
    \<and> (\<forall>l. limit = Some l \<longrightarrow> au_expires_at_ms u \<le> l) \<and> allows_new_risk kill
    \<and> (\<exists>i. get_intent H db iid = Inr (Some i) \<and> au_expires_at_ms u \<le> ti_expires_at_ms i
         \<and> au_intent_id u = ti_intent_id i \<and> au_intent_hash u = ti_intent_hash i \<and> ti_environment i = ''TESTNET'')"
proof -
  obtain i x r where i: "get_intent H db iid = Inr (Some i)" and r: "validate H cfg kill ldb db i m a now = Inr r" "vr_is_valid r"
    and env: "ti_environment i = ''TESTNET''" and iss: "issue H i a m x now (authorization_expiry cfg i m a now limit) db = (Inr u, db')"
    using assms by (auto simp: authorize_def result_simps split: sum.splits option.splits if_splits)
  have "allows_new_risk kill" using r by (rule validate_ok) (simp add: intent_stage_ok)
  then show ?thesis using issue_receipt [OF iss] i env expiry_bounds by simp
qed

section \<open>A concrete testnet intent\<close>

definition tn_policy :: risk_policy where
  "tn_policy = sample_policy\<lparr>rp_max_trade_risk_usdt := Fin 64\<rparr>"

definition tn_config :: validator_config where
  "tn_config =
     \<lparr>vc_risk_policy = tn_policy,
      vc_supervisor_policy = default_supervisor_policy\<lparr>sp_daily_loss_cap_usdt := Fin 64, sp_drawdown_cap_pct := Fin (1/2)\<rparr>,
      vc_tactical_validity = Some (\<lambda>symbol now. Inr True), vc_tactical_case = None,
      vc_max_market_staleness_ms = 15000, vc_max_account_staleness_ms = 60000, vc_max_spread_bps = Fin 10,
      vc_max_price_drift_bps = Fin 50\<rparr>"

definition tn_account :: account_snapshot where
  "tn_account = sample_account\<lparr>as_environment := ''TESTNET'', as_credential_namespace := ''BINANCE_TESTNET'',
     as_rest_base_url := testnet_url, as_observed_at_ms := 2000, as_last_rest_at_ms := 2000\<rparr>"

definition tn_executable :: executable where
  "tn_executable = sample_executable\<lparr>ex_environment := ''TESTNET''\<rparr>"

definition tn_intent :: trade_intent where
  "tn_intent = sample_intent\<lparr>ti_environment := ''TESTNET''\<rparr>"

definition tn_saved :: exec_db where
  "tn_saved = run_cmd const_hash 2000 (SaveIntent tn_intent ''PENDING_VALIDATION'')
     (run_cmd const_hash 2000 (SaveAccount tn_account ''REST_RECONCILED'') empty_exec_db)"

lemma tn_account_verify [simp]: "snapshot_verify const_hash tn_account = Inr tn_account"
  using sample_account_verify unfolding snapshot_verify_iff snapshot_digest_def digest_const
  by (simp add: tn_account_def snapshot_fields_ok_def testnet_url_def rstrip_def)

lemma tn_intent_verify [simp]: "intent_verify const_hash tn_intent = Inr tn_intent"
  using sample_intent_verify unfolding intent_verify_iff intent_digest_def digest_const
  by (simp add: tn_intent_def intent_fields_ok_def)

lemma sample_intent_more:
  "ti_case_id sample_intent = ''case-1''" "ti_proposal_id sample_intent = ''proposal-1''" "ti_approval_actor sample_intent = ''alice''"
  "ti_approval_hash sample_intent = hash_a" "ti_risk_policy_hash sample_intent = hash_a" "ti_account_snapshot_hash sample_intent = hash_a"
  "ti_account_authority sample_intent = ''acct-1''" "ti_side sample_intent = ''BUY''" "ti_order_type sample_intent = ''LIMIT''"
  "ti_quantity sample_intent = Fin (1/2)" "ti_price sample_intent = Fin 100" "ti_leverage sample_intent = 2"
  "ti_stop_loss sample_intent = Fin 50" "ti_take_profit_1 sample_intent = Fin 110" "ti_take_profit_2 sample_intent = Some (Fin 120)"
  "ti_created_at_ms sample_intent = 2000" "ti_expires_at_ms sample_intent = 61000"
  by (simp_all add: sample_intent_def new_intent_def canonical_execution_identity_def sample_executable_def Let_def
      sample_record_def new_approval_def sample_account_def)

lemma tn_intent_fields [simp]:
  "ti_environment tn_intent = ''TESTNET''" "ti_intent_id tn_intent = ti_intent_id sample_intent" "ti_intent_hash tn_intent = hash_a"
  "ti_approval_event_id tn_intent = ''event-1''" "ti_symbol tn_intent = ''BTCUSDT''" "ti_proposal_hash tn_intent = hash_a"
  "ti_case_hash tn_intent = hash_a" "ti_case_id tn_intent = ''case-1''" "ti_proposal_id tn_intent = ''proposal-1''"
  "ti_approval_actor tn_intent = ''alice''" "ti_approval_hash tn_intent = hash_a" "ti_risk_policy_hash tn_intent = hash_a"
  "ti_account_snapshot_hash tn_intent = hash_a" "ti_account_authority tn_intent = ''acct-1''" "ti_side tn_intent = ''BUY''"
  "ti_order_type tn_intent = ''LIMIT''" "ti_quantity tn_intent = Fin (1/2)" "ti_price tn_intent = Fin 100" "ti_leverage tn_intent = 2"
  "ti_stop_loss tn_intent = Fin 50" "ti_take_profit_1 tn_intent = Fin 110" "ti_take_profit_2 tn_intent = Some (Fin 120)"
  "ti_expires_at_ms tn_intent = 61000"
  by (simp_all add: tn_intent_def sample_intent_more)

lemma policy_hash_const [simp]: "policy_hash const_hash pol = hash_a"
  by (simp add: policy_hash_def)

lemma tn_compile:
  "compile_executable_intent_fields const_hash sample_case sample_proposal tn_account (Some pol) = Inr tn_executable"
  unfolding compile_executable_intent_fields_def sample_mid
  by (simp add: sample_quantity sample_lot)
    (simp add: sample_proposal_def sample_case_def sample_account_def tn_account_def sample_executable_def tn_executable_def
      order_side_def account_authority_ok_def)

lemma tn_saved_rows:
  "live_trade_intents tn_saved = [intent_row_of tn_intent ''PENDING_VALIDATION'']"
  "live_account_snapshots tn_saved = [\<lparr>sr_snapshot_hash = hash_a, sr_account_id = ''acct-1'', sr_observed_at_ms = 2000, sr_payload = tn_account\<rparr>]"
  "live_pre_execution_authorizations tn_saved = []" "live_execution_claims tn_saved = []"
  "live_execution_market_observations tn_saved = []" "live_execution_orders tn_saved = []" "live_protection_owners tn_saved = []"
  by (simp_all add: tn_saved_def save_intent_def account_save_def account_event_types_def empty_exec_db_def)
    (simp_all add: tn_account_def sample_account_def)

lemma tn_saved_reachable: "exec_reachable const_hash tn_saved"
  unfolding tn_saved_def by (intro reachable_run reachable_empty)

lemma eps_nonneg: "\<exists>e. epsilon9 = Fin e \<and> 0 \<le> e"
proof -
  have b: "Fin 0 \<le> y \<Longrightarrow> y \<le> Fin 1 \<Longrightarrow> \<exists>e. y = Fin e \<and> 0 \<le> e" for y by (cases y) auto
  show ?thesis unfolding epsilon9_def by (rule b; rule rnd64_ge_f64 rnd64_le_f64; simp)
qed

lemma room:
  assumes "rnd64 c = Fin c" and "x \<le> c"
  shows "\<not> Fin c + epsilon9 < Fin x"
proof -
  obtain e where e: "epsilon9 = Fin e" "0 \<le> e" using eps_nonneg by blast
  have m: "rnd64 c \<le> rnd64 (c + e)" by (rule rnd64_mono) (use e in simp)
  have b: "Fin c \<le> y \<Longrightarrow> \<not> y < Fin x" for y using assms(2) by (cases y) (auto simp: less_flt_def)
  show ?thesis unfolding e using b m assms(1) by simp
qed

text \<open>The tables as far as the validator reads them: the intent, in any status, and the snapshot it was compiled with.\<close>

definition tn_ready :: "exec_db \<Rightarrow> bool" where
  "tn_ready db \<longleftrightarrow> (\<exists>status. live_trade_intents db = [intent_row_of tn_intent status])
     \<and> live_account_snapshots db = [\<lparr>sr_snapshot_hash = hash_a, sr_account_id = ''acct-1'', sr_observed_at_ms = 2000, sr_payload = tn_account\<rparr>]"

lemma tn_saved_ready: "tn_ready tn_saved"
  by (auto simp: tn_ready_def tn_saved_rows)

lemma tn_stages:
  assumes "tn_ready db"
  shows
  "intent_stage const_hash initial_kill_state tn_intent 2000 = []"
  "proposal_stage const_hash sample_approved tn_intent sample_proposal sample_case 2000 = Inr []"
  "approval_stage const_hash sample_approved tn_intent = []"
  "contract_stage const_hash tn_policy db tn_intent sample_proposal sample_case = []"
  "account_stage const_hash tn_config tn_intent tn_account 2000 = []"
  "exposure_stage tn_policy tn_intent tn_account = []"
  "duplicate_stage const_hash db tn_intent = Inr []" "tactical_stage const_hash tn_config tn_intent sample_case 2000 = []"
proof -
  have tn_rows: "\<exists>status. live_trade_intents db = [intent_row_of tn_intent status]"
    "live_account_snapshots db = [\<lparr>sr_snapshot_hash = hash_a, sr_account_id = ''acct-1'', sr_observed_at_ms = 2000, sr_payload = tn_account\<rparr>]"
    using assms by (simp_all add: tn_ready_def)
  show "intent_stage const_hash initial_kill_state tn_intent 2000 = []"
    by (simp add: intent_stage_ok allows_new_risk_def initial_kill_state_def)
  show "proposal_stage const_hash sample_approved tn_intent sample_proposal sample_case 2000 = Inr []"
    by (simp add: proposal_stage_def stage_ok sample_journal)
  show "approval_stage const_hash sample_approved tn_intent = []"
    by (simp add: approval_stage_def stage_ok sample_journal)
  have x: "executable_matches tn_intent tn_executable"
    by (simp add: executable_matches_def tn_executable_def sample_executable_def opt_feq_def feq_def)
  have s: "as_snapshot_hash tn_account = hash_a" "tp_risk_policy_hash sample_proposal = hash_a"
    by (simp_all add: tn_account_def sample_account_def sample_proposal_def)
  show "contract_stage const_hash tn_policy db tn_intent sample_proposal sample_case = []"
    by (simp add: contract_stage_def tn_rows(2) tn_compile x s)
  show "account_stage const_hash tn_config tn_intent tn_account 2000 = []"
    by (simp add: account_stage_def stage_ok tn_config_def) (simp add: tn_account_def sample_account_def)
  show "exposure_stage tn_policy tn_intent tn_account = []"
    by (simp add: exposure_stage_def stage_ok tn_account_def sample_account_def tn_policy_def sample_policy_def
        exposure_def symbol_positions_def open_positions_def new_open_positions_def has_symbol_position_def intent_notional_def flt_eval)
  show "duplicate_stage const_hash db tn_intent = Inr []"
    using tn_rows(1)
    by (auto simp: duplicate_stage_def get_intent_by_idempotency_key_def verified_option_def verified_row_of stage_ok)
  show "tactical_stage const_hash tn_config tn_intent sample_case 2000 = []"
    by (simp add: tactical_stage_def tactical_case_reason_def tactical_validity_reason_def tn_config_def)
qed

lemma tn_numbers:
  "intent_notional tn_intent = Fin 50" "margin_required tn_intent = Fin 25"
  "worst_case_loss_rate (Fin 100) (Fin 50) tn_policy None = Inr (Fin (1/2))"
  "trade_risk_cap tn_policy sample_proposal tn_account = Fin 32"
  "daily_loss_limit tn_config tn_account = Fin 64" "drawdown_limit tn_config = Fin (1/2)"
  by (simp_all add: intent_notional_def margin_required_def worst_case_loss_rate_def funding_charge_def abs_funding_def
      trade_risk_cap_def daily_loss_limit_def drawdown_limit_def tn_config_def tn_policy_def sample_policy_def tn_account_def
      sample_account_def sample_proposal_def flt_eval)

lemma tn_headroom: "headroom_stage tn_config tn_account (Fin 25) = Inr []"
proof -
  have f: "as_equity_usdt tn_account = Fin 1000" "as_peak_equity_usdt tn_account = Fin 1000" "as_daily_loss_usdt tn_account = Fin 0"
    "as_drawdown_pct tn_account = Fin 0" by (simp_all add: tn_account_def sample_account_def)
  have h: "remaining_loss_headroom (Fin 1000) (Fin 1000) (Fin 0) (Fin 64) (Fin (1/2)) = Inr (Fin 64, Fin 500)"
    by (simp add: remaining_loss_headroom_def flt_eval)
  have d: "fdiv (Fin 1000) (Fin 1000) = Inr (Fin 1)" by (simp add: flt_eval)
  have z: "\<bar>Fin 1 - Fin 1 - Fin 0\<bar> = Fin 0" by (simp add: flt_eval)
  have e: "Fin 0 \<le> lit (1 / 10 ^ 8)" by (rule rnd64_ge_f64) simp_all
  have l: "\<not> lit (1 / 10 ^ 8) < Fin 0" using e by (cases "lit (1 / 10 ^ 8)") (auto simp: less_flt_def)
  have r: "\<not> Fin 64 + epsilon9 < Fin 25" "\<not> Fin 500 + epsilon9 < Fin 25" by (rule room; simp)+
  show ?thesis
    unfolding headroom_stage_def f tn_numbers h
    by (simp only: sum.case prod.case d bindR.simps z) (simp add: stage_ok l r del: power_numeral)
qed

lemma tn_risk: "risk_stage tn_config tn_intent sample_proposal sample_case tn_account = Inr []"
proof -
  have f: "vc_risk_policy tn_config = tn_policy" "cp_funding_rate sample_case = None" "as_available_balance_usdt tn_account = Fin 1000"
    "as_margin_used_usdt tn_account = Fin 0" "as_equity_usdt tn_account = Fin 1000" "as_daily_loss_usdt tn_account = Fin 0"
    "as_drawdown_pct tn_account = Fin 0" "rp_max_notional_usdt tn_policy = Fin 1024" "rp_max_leverage tn_policy = 5"
    "rp_max_margin_utilization tn_policy = Fin (1/2)"
    by (simp_all add: tn_config_def sample_case_def tn_account_def sample_account_def tn_policy_def sample_policy_def)
  have m: "Fin 50 * Fin (1/2) = Fin 25" "Fin 1000 * Fin (1/2) = Fin 500" "Fin 0 + Fin 25 = Fin 25" by simp_all
  have r: "\<not> Fin 32 + epsilon9 < Fin 25" by (rule room) simp_all
  show ?thesis
    by (simp add: risk_stage_def Let_def stage_ok f tn_numbers m r tn_headroom)
qed

lemma tn_market: "market_stage const_hash tn_config tn_intent sample_proposal sample_market 2000 = Inr []"
proof -
  have l: "spread_limit tn_config = Fin 5" "allowed_drift tn_config sample_proposal = Fin 20"
    by (simp_all add: spread_limit_def allowed_drift_def tn_config_def tn_policy_def sample_policy_def sample_proposal_def flt_eval)
  have d: "fdiv \<bar>mo_mark_price sample_market - ti_price tn_intent\<bar> (ti_price tn_intent) = Inr (Fin 0)"
    by (simp add: sample_market_def flt_eval)
  have t: "vc_max_market_staleness_ms tn_config = 15000" by (simp add: tn_config_def)
  show ?thesis unfolding market_stage_def l d t
    by (simp add: stage_ok sample_market_verify) (simp add: sample_market_def freshness_reason_def market_components_def flt_eval)
qed

lemma tn_valid:
  assumes "tn_ready db"
  shows "validate const_hash tn_config initial_kill_state sample_approved db tn_intent sample_market tn_account 2000
     = Inr \<lparr>vr_is_valid = True, vr_reason = ''OK''\<rparr>"
proof -
  have "vc_risk_policy tn_config = tn_policy" by (simp add: tn_config_def)
  then show ?thesis
    by (simp add: validate_def refusal_def lookup_authority_def sample_journal later_stages_def and_then_def tn_stages [OF assms] tn_risk tn_market)
qed


definition tn_receipt :: authorization where
  "tn_receipt = (issued const_hash tn_intent tn_account sample_market tn_executable 2000 7000)\<lparr>au_authorization_hash := hash_a\<rparr>"

definition tn_issued :: exec_db where
  "tn_issued = run_cmd const_hash 2000 (Issue tn_intent tn_account sample_market tn_executable 7000) tn_saved"

lemma tn_receipt_built:
  "authorization_validate const_hash True (issued const_hash tn_intent tn_account sample_market tn_executable 2000 7000)
     = Inr tn_receipt"
proof -
  have "authorization_fields_ok (issued const_hash tn_intent tn_account sample_market tn_executable 2000 7000)"
    by (simp add: authorization_fields_ok_def issued_def Let_def tn_account_def sample_account_def sample_market_def)
  then show ?thesis by (simp add: authorization_validate_def tn_receipt_def) (simp add: issued_def Let_def)
qed

lemma tn_issue: "issue const_hash tn_intent tn_account sample_market tn_executable 2000 7000 tn_saved = (Inr tn_receipt, tn_issued)"
proof -
  have "as_snapshot_hash tn_account = hash_a" by (simp add: tn_account_def sample_account_def)
  then have "fst (issue const_hash tn_intent tn_account sample_market tn_executable 2000 7000 tn_saved) = Inr tn_receipt"
    by (simp add: issue_def tn_receipt_built account_save_def account_event_types_def transaction_def issue_body_def tn_saved_rows Let_def)
  then show ?thesis by (simp add: tn_issued_def prod_eq_iff)
qed

lemma tn_authorize:
  "authorize const_hash tn_config initial_kill_state sample_approved (ti_intent_id tn_intent) sample_market tn_account 2000 None tn_saved
     = (Inr tn_receipt, tn_issued)"
proof -
  have "authorization_expiry tn_config tn_intent sample_market tn_account 2000 None = 7000"
    by (simp add: authorization_expiry_def component_times_def map_filter_def sample_market_def tn_config_def tn_account_def sample_account_def)
  moreover have "get_intent const_hash tn_saved (ti_intent_id tn_intent) = Inr (Some tn_intent)"
    by (simp add: get_intent_def verified_option_def tn_saved_rows verified_row_of)
  ultimately show ?thesis
    by (simp add: authorize_def tn_valid [OF tn_saved_ready] sample_journal tn_compile tn_issue)
qed

theorem authorization_short_lived_witness:
  "au_validated_at_ms tn_receipt = 2000 \<and> 2000 < au_expires_at_ms tn_receipt \<and> au_expires_at_ms tn_receipt \<le> 7000"
  using authorization_short_lived [OF tn_authorize] by simp

end
