(* ===== verification/Dry_Run_Safety.thy ===== *)
theory Dry_Run_Safety
  imports Validator_Safety
begin

text \<open>
  The simulated backend keeps one stop per intent at the size of what is open, and the client ids it
  gives to resized stops can collide.
\<close>

section \<open>The stop after a reconciliation\<close>

lemma find_stop_resized:
  assumes "find_stop db iid = Some r"
    and "\<And>x. od_intent_id (f x) = od_intent_id x" and "\<And>x. od_is_protective (f x) = od_is_protective x"
  shows "fetchone (\<lambda>x. od_intent_id x = iid \<and> od_is_protective x)
      (update_where (\<lambda>x. od_order_id x = od_order_id r) f (live_execution_orders db)) = Some (f r)"
  using assms by (simp add: fetchone_update_where)

lemma reconcile_tx_flat:
  assumes "reconcile_tx i target now db = (Inr stop, db')" and "target \<le> 0"
  shows "stop = None \<and> (\<forall>r. find_stop db' (ti_intent_id i) = Some r \<longrightarrow> od_status r = ''CANCELED'')"
  using assms find_stop_resized [of "ti_intent_id i" db _ "\<lambda>r. r\<lparr>od_status := ''CANCELED''\<rparr>"]
  by (auto simp: reconcile_tx_def Let_def cancel_stop_def split: option.splits)

lemma reconcile_tx_open:
  assumes "reconcile_tx i target now db = (Inr stop, db')" and "\<not> target \<le> 0"
  shows "\<exists>r. find_stop db' (ti_intent_id i) = Some r \<and> stop = Some (od_order_id r)
     \<and> feq (od_requested_qty r) target \<and> od_status r \<noteq> ''CANCELED''"
proof -
  obtain coid where c: "reconcile_stop_coid i target = Inr coid"
    using assms by (auto simp: reconcile_tx_def Let_def split: sum.splits)
  have eq: "feq target target" using c by (auto simp: reconcile_stop_coid_def result_simps py_int_def feq_def split: flt.splits)
  show ?thesis
  proof (cases "find_stop db (ti_intent_id i)")
    case None
    then show ?thesis
      using assms c eq by (auto simp: reconcile_tx_def Let_def insert_order_def sim_stop_def stop_order_def fetchone_append
          split: sum.splits if_splits)
  next
    case (Some r)
    then show ?thesis
      using assms c eq find_stop_resized [OF Some]
      by (auto simp: reconcile_tx_def Let_def resize_stop_def split: sum.splits if_splits)
  qed
qed

lemma target_bounds:
  assumes "isfinite a" and "isfinite b" and "isfinite c"
  shows "target_quantity a b c \<le> a \<and> target_quantity a b c \<le> b \<and> target_quantity a b c \<le> c"
  using assms by (cases a; cases b; cases c) (auto simp: target_quantity_def pymin_def less_flt_def)

text \<open>after a reconciliation the simulated stop covers exactly what is open. With the target the
  smallest of the open position, the filled and the intended quantity: when it is not positive the
  report names no stop and the stop of the intent is canceled; otherwise the intent has a live stop of
  exactly that size, which the report names, and for finite quantities the size exceeds none of the
  three.\<close>

theorem reconcile_sizes_stop:
  fixes provider open_position i e
  defines "open_qty \<equiv> open_quantity open_position provider i (od_filled_qty e)"
  defines "target \<equiv> target_quantity open_qty (od_filled_qty e) (ti_quantity i)"
  assumes "find_order db (ti_client_order_id i) = Some e"
    and "reconcile_intent provider i now open_position db = (Inr rep, db')"
  shows "if target \<le> 0
    then er_protective_stop_id rep = None \<and> (\<forall>r. find_stop db' (ti_intent_id i) = Some r \<longrightarrow> od_status r = ''CANCELED'')
    else (\<exists>r. find_stop db' (ti_intent_id i) = Some r \<and> er_protective_stop_id rep = Some (od_order_id r)
         \<and> feq (od_requested_qty r) target \<and> od_status r \<noteq> ''CANCELED''
         \<and> (isfinite open_qty \<and> isfinite (od_filled_qty e) \<and> isfinite (ti_quantity i)
              \<longrightarrow> target \<le> open_qty \<and> target \<le> od_filled_qty e \<and> target \<le> ti_quantity i))"
proof -
  obtain stop where tx: "reconcile_tx i target now db = (Inr stop, db')" and rep: "er_protective_stop_id rep = stop"
    using assms(3,4) by (auto simp: reconcile_intent_def target_def open_qty_def report_of_def split: prod.splits sum.splits)
  show ?thesis
  proof (cases "target \<le> 0")
    case True
    then show ?thesis using reconcile_tx_flat [OF tx True] rep by simp
  next
    case False
    have b: "isfinite open_qty \<and> isfinite (od_filled_qty e) \<and> isfinite (ti_quantity i)
        \<longrightarrow> target \<le> open_qty \<and> target \<le> od_filled_qty e \<and> target \<le> ti_quantity i"
      unfolding target_def using target_bounds by blast
    from False show ?thesis using reconcile_tx_open [OF tx False] rep b by auto
  qed
qed

definition sample_submitted :: exec_db where
  "sample_submitted = snd (submit_intent tn_intent 3000 tn_saved)"

lemma tn_client_order_id: "ti_client_order_id tn_intent = ''cuid_v1_aaaaaaaaaaaaaaaa''"
  by (simp add: tn_intent_def sample_intent_def new_intent_def canonical_execution_identity_def Let_def const_hash_def hash_a_def
      numeral_eq_Suc)

lemma dry_run_capability: "check_capability ''DRY_RUN'' ''SUBMIT_INTENT'' [] ''NONE'' [] = Inr ()"
  by code_simp

lemma sample_submitted_orders:
  "live_execution_orders sample_submitted = [sim_entry tn_intent 3000,
     sim_stop tn_intent ''bqa-stop-cuid_v1_aaaaaaaa'' (Fin (1/2)) 3000 (submit_stop_payload tn_intent)]"
  by (simp add: sample_submitted_def submit_intent_def dry_run_capability tn_saved_rows insert_order_def sim_entry_def sim_stop_def
      stop_order_def sim_stop_id_def tn_client_order_id)

lemma sample_stop_coid: "reconcile_stop_coid tn_intent (Fin (1/4)) = Inr ''bqa-stop-cuid_v1_aaaa-0250''"
proof -
  have p: "pad4 250 = ''0250''" by code_simp
  have "\<lfloor>250 :: rat\<rfloor> = 250" by simp
  then show ?thesis by (simp add: reconcile_stop_coid_def py_int_def tn_client_order_id p)
qed

theorem reconcile_sizes_stop_witness:
  "\<exists>r rep db'. reconcile_intent None tn_intent 4000 (Some (Fin (1/4))) sample_submitted = (Inr rep, db')
     \<and> find_stop db' (ti_intent_id tn_intent) = Some r \<and> er_protective_stop_id rep = Some (od_order_id r)
     \<and> feq (od_requested_qty r) (Fin (1/4)) \<and> od_status r \<noteq> ''CANCELED''"
proof -
  let ?e = "sim_entry tn_intent 3000"
  have e: "find_order sample_submitted (ti_client_order_id tn_intent) = Some ?e"
    by (simp add: sample_submitted_orders sim_entry_def)
  have q: "od_filled_qty ?e = Fin (1/2)" by (simp add: sim_entry_def)
  have t: "target_quantity (open_quantity (Some (Fin (1/4))) None tn_intent (od_filled_qty ?e)) (od_filled_qty ?e) (ti_quantity tn_intent) = Fin (1/4)"
    by (simp add: target_quantity_def open_quantity_def q pymin_def less_flt_def)
  have "\<exists>stop db'. reconcile_tx tn_intent (Fin (1/4)) 4000 sample_submitted = (Inr stop, db')"
    by (simp add: reconcile_tx_def sample_stop_coid sample_submitted_orders resize_stop_def sim_entry_def sim_stop_def stop_order_def
        sim_stop_id_def tn_client_order_id zero_flt_def feq_def Let_def)
  then obtain rep db' where r: "reconcile_intent None tn_intent 4000 (Some (Fin (1/4))) sample_submitted = (Inr rep, db')"
    unfolding reconcile_intent_def e option.case t by auto
  have "\<not> Fin (1/4) \<le> 0" by (simp add: zero_flt_def)
  then show ?thesis using reconcile_sizes_stop [OF e r] r unfolding t by auto
qed

section \<open>Colliding client ids\<close>

text \<open>The client id of a resized stop is not unique. It is built from the first twelve characters of
  the entry's client id, eight of which are the constant prefix, and the quantity in thousandths: when
  the stop of one intent holds it, resizing the stop of any other intent with the same four characters
  to the same quantity raises \<open>IntegrityError\<close> and leaves that stop at its old size.\<close>

theorem stop_client_id_collides:
  assumes "take 12 (ti_client_order_id i) = take 12 (ti_client_order_id j)" and "reconcile_stop_coid i target = Inr c"
    and "x \<in> set (live_execution_orders db)" and "od_client_order_id x = c"
    and "find_stop db (ti_intent_id j) = Some r" and "od_order_id x \<noteq> od_order_id r"
    and "\<not> target \<le> 0" and "\<not> feq (od_requested_qty r) target"
  shows "reconcile_tx j target now db
    = (Inl (IntegrityError ''UNIQUE constraint failed: live_execution_orders.client_order_id''), db)"
proof -
  have c: "reconcile_stop_coid j target = Inr c" using assms(1,2) by (simp add: reconcile_stop_coid_def result_simps)
  have l: "list_ex (\<lambda>y. od_order_id y \<noteq> od_order_id r \<and> od_client_order_id y = c) (live_execution_orders db)"
    using assms(3,4,6) by (auto simp: list_ex_iff)
  show ?thesis using c l assms(5,7,8) by (simp add: reconcile_tx_def Let_def resize_stop_def)
qed

definition other_intent :: trade_intent where
  "other_intent = tn_intent\<lparr>ti_intent_id := ''intent-b'', ti_client_order_id := ''cuid_v1_aaaabbbbbbbbbbbb''\<rparr>"

definition two_stops :: exec_db where
  "two_stops = sample_submitted\<lparr>live_execution_orders := live_execution_orders sample_submitted @
     [sim_stop other_intent ''bqa-stop-cuid_v1_aaaa-0250'' (Fin (1/4)) 3500 (submit_stop_payload other_intent)]\<rparr>"

theorem stop_client_id_collides_witness:
  "reconcile_tx tn_intent (Fin (1/4)) 4000 two_stops
    = (Inl (IntegrityError ''UNIQUE constraint failed: live_execution_orders.client_order_id''), two_stops)"
proof (rule stop_client_id_collides [of other_intent])
  let ?x = "sim_stop other_intent ''bqa-stop-cuid_v1_aaaa-0250'' (Fin (1/4)) 3500 (submit_stop_payload other_intent)"
  let ?r = "sim_stop tn_intent ''bqa-stop-cuid_v1_aaaaaaaa'' (Fin (1/2)) 3000 (submit_stop_payload tn_intent)"
  show "take 12 (ti_client_order_id other_intent) = take 12 (ti_client_order_id tn_intent)"
    by (simp add: other_intent_def tn_client_order_id)
  show "reconcile_stop_coid other_intent (Fin (1/4)) = Inr ''bqa-stop-cuid_v1_aaaa-0250''"
    using sample_stop_coid by (simp add: reconcile_stop_coid_def other_intent_def tn_client_order_id result_simps)
  show "?x \<in> set (live_execution_orders two_stops)" by (simp add: two_stops_def)
  show "od_client_order_id ?x = ''bqa-stop-cuid_v1_aaaa-0250''" by (simp add: sim_stop_def stop_order_def)
  show "find_stop two_stops (ti_intent_id tn_intent) = Some ?r"
    by (simp add: two_stops_def sample_submitted_orders sim_entry_def sim_stop_def stop_order_def)
  have "ti_intent_id tn_intent \<noteq> ''intent-b''"
    by (simp add: sample_intent_def new_intent_def canonical_execution_identity_def Let_def)
  then show "od_order_id ?x \<noteq> od_order_id ?r" by (simp add: sim_stop_def stop_order_def sim_stop_id_def other_intent_def)
  show "\<not> Fin (1/4) \<le> 0" by (simp add: zero_flt_def)
  show "\<not> feq (od_requested_qty ?r) (Fin (1/4))" by (simp add: sim_stop_def stop_order_def feq_def)
qed

end
