(* ===== verification/Testnet_Runs.thy ===== *)
theory Testnet_Runs
  imports Dry_Run_Safety
begin

text \<open>
  Relations that every run of the testnet backend respects. A \<open>run_relation\<close> is reflexive and
  transitive; \<open>backend_relation\<close> adds that the
  single effects of a backend respect it, all HTTP requests but the entry order included, and
  \<open>full_relation\<close> includes the entry order. The lemmas are proved once per operation and then used for
  three relations: the tables move by committed steps only, a tripped kill switch stays tripped, and
  the log of entry requests does not grow.
\<close>

section \<open>Interfaces\<close>

definition entry_request :: "'w signed_exchange \<Rightarrow> http_request \<Rightarrow> bool" where
  "entry_request X q \<longleftrightarrow> hr_method q = ''POST'' \<and> hr_url q = rstrip (CHR ''/'') (sc_base_url (sx_client X)) @ ''/fapi/v1/order''"

locale backend_relation = run_relation P for P :: "'w backend_state \<Rightarrow> 'w backend_state \<Rightarrow> bool" +
  fixes B :: "'w backend"
  assumes rel_db: "P s (s\<lparr>bs_db := run_cmd (bk_hash B) t cmd (bs_db s)\<rparr>)"
    and rel_kill: "P s (s\<lparr>bs_kill := snd (evaluate (bk_policy B) ob t (bs_kill s))\<rparr>)"
    and rel_clock: "P s (s\<lparr>bs_world := snd (bk_clock B (bs_world s))\<rparr>)"
    and rel_account: "bk_account B = Some f \<Longrightarrow> P s (s\<lparr>bs_world := snd (f (bs_world s))\<rparr>)"
    and rel_market: "bk_market B = Some g \<Longrightarrow> P s (s\<lparr>bs_world := snd (g t (bs_world s))\<rparr>)"
    and rel_time: "P s (s\<lparr>bs_world := snd (sx_time (bk_exchange B) (bs_world s))\<rparr>)"
    and rel_http: "\<not> entry_request (bk_exchange B) q \<Longrightarrow> P s (s\<lparr>bs_world := snd (sx_http (bk_exchange B) q (bs_world s))\<rparr>)"
begin

section \<open>Single effects\<close>

lemma pres_reads: "pres (db_read f)" "pres (journal_read A g)"
  by (simp_all add: pres_def db_read_def journal_read_def rel_refl)

lemmas pres_basic = pres_statements pres_reads
lemmas pres_intros = pres_basic pres_sbind pres_on_error pres_with_state

lemma pres_db_op:
  assumes "\<And>db. \<exists>t cmd. snd (f db) = run_cmd (bk_hash B) t cmd db"
  shows "pres (db_op f)"
proof -
  have "P s (snd (db_op f s))" for s
  proof -
    obtain t cmd where e: "snd (f (bs_db s)) = run_cmd (bk_hash B) t cmd (bs_db s)" using assms by blast
    have "snd (db_op f s) = s\<lparr>bs_db := snd (f (bs_db s))\<rparr>" by (simp add: db_op_def split: prod.splits)
    then show ?thesis using rel_db [of s t cmd] e by simp
  qed
  then show ?thesis by (simp add: pres_def)
qed

lemma idle: "\<exists>t cmd. db = run_cmd (bk_hash B) t cmd db"
proof -
  have "run_cmd (bk_hash B) 0 (SaveAccount a ''none'') db = db" for a
    by (simp add: account_save_def account_event_types_def split: sum.splits)
  then show ?thesis by metis
qed

lemma command: "db' = run_cmd (bk_hash B) t cmd db \<Longrightarrow> \<exists>t cmd. db' = run_cmd (bk_hash B) t cmd db"
  by blast

lemma pres_writes:
  "pres (db_op (refresh_claimed (bk_hash B) u a m x t))" "pres (db_op (claim u t))" "pres (db_op (update_status iid new reason t))"
  "pres (db_op (reserve_owner (bk_hash B) i t))" "pres (db_op (pending_exchange_id (bk_hash B) i cid xid t))"
  "pres (db_op (begin_cancellation (bk_hash B) i cid xid t))" "pres (db_op (record_stop (bk_hash B) i cid xid q t doc))"
  "pres (db_op (confirm_terminal (bk_hash B) i cid xid st t))" "pres (db_op (clear_stop (bk_hash B) i cid xid t c))"
  "pres (db_op (insert_entry o1))" "pres (db_op (upsert_entry o1))"
  by (rule pres_db_op, rule command [where t = t], rule run_cmd.simps [symmetric])+

lemma pres_authorize: "pres (db_op (authorize (bk_hash B) cfg kill ldb iid m a t limit))"
proof (rule pres_db_op)
  fix db
  have "snd (authorize (bk_hash B) cfg kill ldb iid m a t limit db) = db
      \<or> (\<exists>i x e. snd (authorize (bk_hash B) cfg kill ldb iid m a t limit db) = snd (issue (bk_hash B) i a m x t e db))"
    by (auto simp: authorize_def split: sum.splits)
  then show "\<exists>t' cmd. snd (authorize (bk_hash B) cfg kill ldb iid m a t limit db) = run_cmd (bk_hash B) t' cmd db"
    using idle run_cmd.simps(4) by metis
qed

lemma pres_next_client_id: "pres (db_op (next_client_id (bk_hash B) i t q))"
proof (rule pres_db_op)
  fix db
  have "snd (next_client_id (bk_hash B) i t q db) = db \<or> (\<exists>w. snd (next_client_id (bk_hash B) i t q db) = snd (next_client_id_tx (bk_hash B) w t q db))"
    by (auto simp: next_client_id_def next_client_id_checked_def split: sum.splits option.splits)
  then show "\<exists>t' cmd. snd (next_client_id (bk_hash B) i t q db) = run_cmd (bk_hash B) t' cmd db"
    using idle run_cmd.simps(8) by metis
qed

lemma pres_release_flat: "pres (db_op (release_flat (bk_hash B) i t))"
proof (rule pres_db_op)
  fix db
  have "snd (release_flat (bk_hash B) i t db) = db \<or> (\<exists>iid k. snd (release_flat (bk_hash B) i t db) = snd (release_flat_tx iid k t db))"
    by (auto simp: release_flat_def split: sum.splits option.splits)
  then show "\<exists>t' cmd. snd (release_flat (bk_hash B) i t db) = run_cmd (bk_hash B) t' cmd db"
    using idle run_cmd.simps(14) by metis
qed

lemma pres_clock: "pres (clock_ms B)"
  using rel_clock by (simp add: pres_def clock_ms_def world_op_def case_prod_beta)

lemma pres_request:
  assumes "\<And>q t. hr_method q = verb \<Longrightarrow> hr_url q = rstrip (CHR ''/'') (sc_base_url (sx_client (bk_exchange B))) @ path
      \<Longrightarrow> P t (t\<lparr>bs_world := snd (sx_http (bk_exchange B) q (bs_world t))\<rparr>)"
  shows "pres (world_op (signed_request (bk_exchange B) verb path params))"
proof -
  have "P s (snd (world_op (signed_request (bk_exchange B) verb path params) s))" for s
  proof (cases "if py_upper verb \<noteq> ''GET'' then require_mutation_authority (sx_client (bk_exchange B)) else Inr ()")
    case (Inl e)
    then show ?thesis by (simp add: world_op_def signed_request_def Let_def rel_refl)
  next
    case (Inr y)
    obtain now w1 where t: "sx_time (bk_exchange B) (bs_world s) = (now, w1)" by fastforce
    let ?s = "s\<lparr>bs_world := w1\<rparr>"
    have "P s ?s" using rel_time [of s] t by simp
    moreover obtain q where q: "hr_method q = verb" "hr_url q = rstrip (CHR ''/'') (sc_base_url (sx_client (bk_exchange B))) @ path"
      "snd (world_op (signed_request (bk_exchange B) verb path params) s) = ?s\<lparr>bs_world := snd (sx_http (bk_exchange B) q (bs_world ?s))\<rparr>"
      using Inr t that [of "\<lparr>hr_method = verb, hr_url = rstrip (CHR ''/'') (sc_base_url (sx_client (bk_exchange B))) @ path,
          hr_params = dict_set ''recvWindow'' (JInt (sc_recv_window_ms (sx_client (bk_exchange B)))) (dict_set ''timestamp'' (JInt now) params),
          hr_signature = Some (sx_sign (bk_exchange B) (sc_api_secret (sx_client (bk_exchange B)))
            (dict_set ''recvWindow'' (JInt (sc_recv_window_ms (sx_client (bk_exchange B)))) (dict_set ''timestamp'' (JInt now) params)))\<rparr>"]
      by (simp add: world_op_def signed_request_def Let_def case_prod_beta)
    ultimately show ?thesis using assms [OF q(1,2), of ?s] rel_trans unfolding q(3) by blast
  qed
  then show ?thesis by (simp add: pres_def)
qed

lemma pres_other_request:
  assumes "verb \<noteq> ''POST'' \<or> path \<noteq> ''/fapi/v1/order''"
  shows "pres (world_op (signed_request (bk_exchange B) verb path params))"
  by (rule pres_request, rule rel_http) (use assms in \<open>auto simp: entry_request_def\<close>)

lemma pres_calls:
  "pres (world_op (position_mode (bk_exchange B)))" "pres (world_op (query_order_by_client_id (bk_exchange B) symb coid))"
  "pres (world_op (query_protective_order (bk_exchange B) xid))" "pres (world_op (open_protective_orders (bk_exchange B) sy))"
  "pres (world_op (change_leverage (bk_exchange B) symb l))" "pres (world_op (change_margin_type (bk_exchange B) symb mt))"
  "pres (world_op (place_protective_order (bk_exchange B) ps))" "pres (world_op (cancel_protective_order (bk_exchange B) symb xid))"
  unfolding position_mode_def query_order_by_client_id_def query_protective_order_def open_protective_orders_def change_leverage_def
    change_margin_type_def place_protective_order_def cancel_protective_order_def
  by (rule pres_other_request; simp)+

lemma pres_positions: "pres (world_op (positions (bk_exchange B) sy))"
proof -
  have "snd (world_op (positions (bk_exchange B) sy) s) = snd (world_op (signed_request (bk_exchange B) ''GET'' ''/fapi/v3/positionRisk'' (symbol_params sy)) s)" for s
    by (simp add: world_op_def positions_def split: prod.splits sum.splits)
  then show ?thesis using pres_other_request [of "''GET''" "''/fapi/v3/positionRisk''" "symbol_params sy"] by (simp add: pres_def)
qed

lemma pres_trip: "pres (trip_kill_switch B now)"
  using rel_kill rel_refl by (simp add: pres_def trip_kill_switch_def raise_def)

lemmas pres_effects = pres_intros pres_writes pres_authorize pres_next_client_id pres_release_flat pres_clock pres_calls pres_positions pres_trip

section \<open>Operations\<close>

lemma pres_authority: "pres (check_client_authority B)" "pres (active_receipt B u)" "pres (run_validator B cfg i m a t)"
  "pres (recompile B i a pol)"
  unfolding check_client_authority_def active_receipt_def run_validator_def recompile_def Let_def by (intro pres_effects)+

lemma pres_trip_and_raise: "pres (trip_and_raise B now e)"
  unfolding trip_and_raise_def by (intro pres_effects)

lemma pres_placement_validated: "pres (placement_validated B cfg u i cl started now a m)"
  unfolding placement_validated_def by (cases cl) (simp_all, (intro pres_effects pres_authority)+)

lemma pres_fresh: "pres (fresh_placement_authority B u i cl)"
proof -
  have a: "pres (world_op f)" if "bk_account B = Some f" for f
    using rel_account [OF that] by (simp add: pres_def world_op_def case_prod_beta)
  have m: "pres (world_op (g t))" if "bk_market B = Some g" for g t
    using rel_market [OF that] by (simp add: pres_def world_op_def case_prod_beta)
  show ?thesis
    unfolding fresh_placement_authority_def placement_account_def placement_market_def
    by (auto simp: a m intro!: pres_effects pres_authority pres_placement_validated split: option.splits)
qed

lemma pres_query_open_position: "pres (query_open_position B symb side now)"
  unfolding query_open_position_def query_positions_def
  by (auto intro!: pres_effects pres_trip_and_raise split: option.splits)

lemma pres_require_claimed: "pres (require_claimed_intent B i)"
  unfolding require_claimed_intent_def by (auto intro!: pres_effects pres_authority split: prod.splits)

lemma pres_query_exact: "pres (query_exact_protection B i cid xid q b)"
  unfolding query_exact_protection_def by (auto intro!: pres_effects split: option.splits pyerr.splits)

lemma pres_cancel_stop: "pres (cancel_protective_stop B i cid xid now)"
  unfolding cancel_protective_stop_def
  by (auto intro!: pres_effects pres_query_exact pres_trip_and_raise split: option.splits prod.splits)

lemma pres_place_stop: "pres (place_protective_stop B i target now)"
  unfolding place_protective_stop_def install_stop_def Let_def
  by (auto intro!: pres_effects pres_require_claimed pres_query_open_position pres_trip_and_raise)

lemma pres_owner: "pres (owner_or_blocked B i)"
  unfolding owner_or_blocked_def by (auto intro!: pres_effects split: option.splits)

lemma pres_settle_terminal: "pres (settle_terminal B i w target now)"
  unfolding settle_terminal_def by (auto intro!: pres_effects pres_owner split: option.splits)

lemma pres_confirm_remote: "pres (confirm_remote B i w target now)"
  unfolding confirm_remote_def by (auto intro!: pres_effects pres_owner pres_query_exact split: option.splits prod.splits)

lemma pres_check_open_algos: "pres (check_open_algos B i w target)"
  unfolding check_open_algos_def by (auto intro!: pres_effects split: json.splits)

lemma pres_settle_stop: "pres (settle_stop B i w confirmed target now)"
  unfolding settle_stop_def by (auto intro!: pres_effects pres_cancel_stop pres_place_stop split: option.splits)

lemma pres_reconcile_owned: "pres (reconcile_owned B i w target now)"
  unfolding reconcile_owned_def
  by (auto intro!: pres_effects pres_settle_terminal pres_confirm_remote pres_check_open_algos pres_settle_stop split: option.splits)

lemma pres_reconcile_stop: "pres (reconcile_protective_stop B i filled now)"
  unfolding reconcile_protective_stop_def Let_def
  by (auto intro!: pres_effects pres_require_claimed pres_query_open_position pres_reconcile_owned pres_trip_and_raise split: option.splits)

lemma pres_verify_entry: "pres (verify_exchange_entry B i raw now)"
  unfolding verify_exchange_entry_def Let_def
  by (auto intro!: pres_effects pres_trip_and_raise split: sum.splits pyerr.splits)

lemma pres_absent_entry: "pres (absent_entry B i now)"
  unfolding absent_entry_def Let_def by (auto intro!: pres_effects pres_query_open_position split: option.splits)

lemma pres_observed_entry: "pres (observed_entry B i raw now)"
  unfolding observed_entry_def by (auto intro!: pres_effects pres_verify_entry pres_reconcile_stop split: prod.splits)

lemma pres_reconcile_authorized: "pres (reconcile_authorized B iid now)"
  unfolding reconcile_authorized_def Let_def
  by (auto intro!: pres_effects pres_require_claimed pres_trip_and_raise pres_absent_entry pres_observed_entry
      split: prod.splits option.splits pyerr.splits)

lemma pres_pre_entry: "pres (aborting B i (pre_entry B i u now))"
  unfolding aborting_def pre_entry_def set_margin_type_def
  by (auto intro!: pres_effects pres_authority pres_fresh split: prod.splits option.splits)

lemma pres_placed_entry: "pres (placed_entry B i raw now)"
  unfolding placed_entry_def by (auto intro!: pres_effects pres_verify_entry pres_reconcile_stop split: prod.splits)

end

locale full_relation = backend_relation +
  assumes rel_entry: "P s (s\<lparr>bs_world := snd (sx_http (bk_exchange B) q (bs_world s))\<rparr>)"
begin

lemma pres_place_entry: "pres (place_entry B i)"
proof -
  have "pres (world_op (place_order (bk_exchange B) ps))" for ps
    unfolding place_order_def by (rule pres_request, rule rel_entry)
  then show ?thesis unfolding place_entry_def by (auto intro!: pres_effects split: pyerr.splits)
qed

lemma pres_submit_claimed: "pres (submit_claimed B i u now)"
  unfolding submit_claimed_def
  by (auto intro!: pres_effects pres_pre_entry pres_authority pres_place_entry pres_placed_entry split: option.splits)

lemma pres_submit_authorized: "pres (submit_authorized B aid)"
  unfolding submit_authorized_def
  by (auto intro!: pres_effects pres_authority pres_fresh pres_reconcile_authorized pres_submit_claimed split: prod.splits)

end

end
