(* ===== verification/Testnet_Safety.thy ===== *)
theory Testnet_Safety
  imports Testnet_Runs
begin

text \<open>
  The properties of the testnet backend: its writes are committed steps of the execution tables, one
  call sends at most one entry order and only for an intent it has just claimed, a stop that cannot be
  placed trips the kill switch, and a margin type that is already set aborts the submission.
\<close>

section \<open>The three relations\<close>

abbreviation table_steps :: "'w backend \<Rightarrow> 'w backend_state \<Rightarrow> 'w backend_state \<Rightarrow> bool" where
  "table_steps B s s' \<equiv> (exec_step (bk_hash B))\<^sup>*\<^sup>* (bs_db s) (bs_db s')"

interpretation steps: full_relation "table_steps B" B for B :: "'w backend"
  by unfold_locales (auto intro: r_into_rtranclp run_step)

abbreviation kill_kept :: "'w backend_state \<Rightarrow> 'w backend_state \<Rightarrow> bool" where
  "kill_kept s s' \<equiv> ks_is_killed (bs_kill s) \<longrightarrow> ks_is_killed (bs_kill s')"

interpretation kill: full_relation kill_kept B for B :: "'w backend"
  by unfold_locales (auto simp: evaluate_def latch_def Let_def)

text \<open>A backend whose transport keeps a log of the requests; everything else is the given backend.\<close>

definition log_exchange :: "'w signed_exchange \<Rightarrow> ('w \<times> http_request list) signed_exchange" where
  "log_exchange X =
     \<lparr>sx_client = sx_client X, sx_sign = sx_sign X,
      sx_time = (\<lambda>(w, l). case sx_time X w of (t, w') \<Rightarrow> (t, (w', l))),
      sx_http = (\<lambda>q (w, l). case sx_http X q w of (r, w') \<Rightarrow> (r, (w', l @ [q])))\<rparr>"

definition with_log :: "'w backend \<Rightarrow> ('w \<times> http_request list) backend" where
  "with_log B =
     \<lparr>bk_hash = bk_hash B, bk_exchange = log_exchange (bk_exchange B), bk_policy = bk_policy B, bk_validator = bk_validator B,
      bk_journal = (\<lambda>(w, l). bk_journal B w),
      bk_clock = (\<lambda>(w, l). case bk_clock B w of (t, w') \<Rightarrow> (t, (w', l))),
      bk_account = map_option (\<lambda>f (w, l). case f w of (r, w') \<Rightarrow> (r, (w', l))) (bk_account B),
      bk_market = map_option (\<lambda>g t (w, l). case g t w of (r, w') \<Rightarrow> (r, (w', l))) (bk_market B),
      bk_repr = bk_repr B\<rparr>"

definition entries :: "'w backend \<Rightarrow> ('w \<times> http_request list) backend_state \<Rightarrow> http_request list" where
  "entries B s = filter (entry_request (bk_exchange B)) (snd (bs_world s))"

lemma entry_request_log [simp]: "entry_request (bk_exchange (with_log B)) q = entry_request (bk_exchange B) q"
  by (simp add: entry_request_def with_log_def log_exchange_def)

lemma with_log_simps [simp]: "bk_hash (with_log B) = bk_hash B" "bk_exchange (with_log B) = log_exchange (bk_exchange B)"
  by (simp_all add: with_log_def)

interpretation log: backend_relation "\<lambda>s s'. entries B s' = entries B s" "with_log B" for B :: "'w backend"
proof
  fix q :: http_request and s :: "('w \<times> http_request list) backend_state"
  assume "\<not> entry_request (bk_exchange (with_log B)) q"
  then show "entries B (s\<lparr>bs_world := snd (sx_http (bk_exchange (with_log B)) q (bs_world s))\<rparr>) = entries B s"
    unfolding entry_request_log by (simp add: entries_def log_exchange_def case_prod_beta)
qed (auto simp: entries_def with_log_def log_exchange_def case_prod_beta)

section \<open>Steps\<close>


section \<open>The entry order\<close>

definition one_entry :: "'w backend \<Rightarrow> ('w \<times> http_request list, 'a) act \<Rightarrow> bool" where
  "one_entry B m \<longleftrightarrow> (\<forall>s. entries B (snd (m s)) = entries B s \<or> (\<exists>q. entries B (snd (m s)) = entries B s @ [q]))"

lemma one_entry_pres: "log.pres B m \<Longrightarrow> one_entry B m"
  by (simp add: one_entry_def log.pres_def)

lemma one_entry_before:
  assumes "log.pres B m" and "\<And>x. one_entry B (k x)"
  shows "one_entry B (sbind m k)"
  unfolding one_entry_def
proof
  fix s
  obtain r t where m: "m s = (r, t)" by fastforce
  have e: "entries B t = entries B s" using log.presD [OF assms(1) m] .
  show "entries B (snd (sbind m k s)) = entries B s \<or> (\<exists>q. entries B (snd (sbind m k s)) = entries B s @ [q])"
    using m assms(2) [unfolded one_entry_def, rule_format, of _ t] by (cases r) (simp_all add: sbind_def e)
qed

lemma one_entry_after:
  assumes "one_entry B m" and "\<And>x. log.pres B (k x)"
  shows "one_entry B (sbind m k)"
  unfolding one_entry_def
proof
  fix s
  obtain r t where m: "m s = (r, t)" by fastforce
  have e: "entries B t = entries B s \<or> (\<exists>q. entries B t = entries B s @ [q])"
    using assms(1) m unfolding one_entry_def by (metis snd_conv)
  have k: "entries B (snd (k x t)) = entries B t" for x using assms(2) by (simp add: log.pres_def)
  show "entries B (snd (sbind m k s)) = entries B s \<or> (\<exists>q. entries B (snd (sbind m k s)) = entries B s @ [q])"
    using m e by (cases r) (simp_all add: sbind_def k)
qed

lemma one_entry_error:
  assumes "one_entry B m" and "\<And>x. log.pres B (h x)"
  shows "one_entry B (on_error m h)"
  unfolding one_entry_def
proof
  fix s
  obtain r t where m: "m s = (r, t)" by fastforce
  have e: "entries B t = entries B s \<or> (\<exists>q. entries B t = entries B s @ [q])"
    using assms(1) m unfolding one_entry_def by (metis snd_conv)
  have h: "entries B (snd (h x t)) = entries B t" for x using assms(2) by (simp add: log.pres_def)
  show "entries B (snd (on_error m h s)) = entries B s \<or> (\<exists>q. entries B (snd (on_error m h s)) = entries B s @ [q])"
    using m e by (cases r) (simp_all add: on_error_def h)
qed

lemma one_entry_request: "one_entry B (world_op (signed_request (bk_exchange (with_log B)) verb path ps))"
  by (auto simp: one_entry_def world_op_def signed_request_def log_exchange_def entries_def Let_def split: prod.splits sum.splits)

lemma one_entry_place: "one_entry B (place_entry (with_log B) i)"
proof -
  have e: "log.pres B (on_error (sbind (world_op (query_order_by_client_id (bk_exchange (with_log B)) symb coid)) (\<lambda>raw. ret (Some raw))) h)"
    if "\<And>e. log.pres B (h e)" for symb coid h
    by (intro log.pres_on_error log.pres_sbind log.pres_calls log.pres_basic that)
  show ?thesis
    unfolding place_entry_def place_order_def
    by (intro one_entry_error one_entry_after one_entry_request log.pres_basic e) (auto intro!: log.pres_basic split: pyerr.splits)
qed

lemma one_entry_submit: "one_entry B (submit_claimed (with_log B) i u now)"
  unfolding submit_claimed_def
  by (intro one_entry_before [OF log.pres_pre_entry] one_entry_before [OF log.pres_authority(2)] one_entry_after [OF one_entry_place])
    (auto intro!: log.pres_basic log.pres_placed_entry split: option.splits)

lemma authorize_intent_id:
  assumes "authorize H cfg kl ldb iid m a now limit db = (Inr v, db')"
  shows "au_intent_id v = iid"
proof -
  obtain i x where i: "get_intent H db iid = Inr (Some i)"
    and iss: "issue H i a m x now (authorization_expiry cfg i m a now limit) db = (Inr v, db')"
    using assms by (auto simp: authorize_def result_simps split: sum.splits option.splits if_splits)
  have "ti_intent_id i = iid"
    using i by (auto simp: get_intent_def verified_option_def verified_row_def result_simps dest!: fetchone_Some split: option.splits if_splits)
  then show ?thesis using issue_receipt [OF iss] by simp
qed

lemma ends_authorize: "ends (db_op (authorize H cfg kl ldb iid m a now limit)) (\<lambda>v s. au_intent_id v = iid)"
  by (auto simp: ends_def db_op_def intro: authorize_intent_id split: prod.splits)

lemma fresh_intent_id: "ends (fresh_placement_authority B u i False) (\<lambda>v s. au_intent_id v = ti_intent_id i)"
  unfolding fresh_placement_authority_def placement_validated_def
  by (auto intro!: ends_intros ends_authorize split: option.splits)

lemma quiet_bind:
  assumes "log.pres B m" and "sbind m k s = (r, s')" and "entries B s' \<noteq> entries B s"
  obtains x t where "m s = (Inr x, t)" and "k x t = (r, s')" and "entries B t = entries B s"
proof (cases "m s")
  case (Pair y t)
  have e: "entries B t = entries B s" by (rule log.presD [OF assms(1) Pair])
  show ?thesis
  proof (cases y)
    case (Inl x)
    then show ?thesis using assms(2,3) Pair e by (simp add: sbind_def)
  next
    case (Inr x)
    then show ?thesis using assms(2) Pair e that by (simp add: sbind_def)
  qed
qed

text \<open>A call that sends an entry request went through the whole sequence: no earlier side effect, fresh
  authority for the same intent, and a granted claim.\<close>

lemma sending_run:
  assumes "submit_authorized (with_log B) aid s = (r, s')" and "entries B s' \<noteq> entries B s"
  obtains u i a m v t db3 s4 where "load (bk_hash B) (bs_db s) aid = Inr (u, i, a, m)"
    and "au_intent_id v = ti_intent_id i" and "(exec_step (bk_hash B))\<^sup>*\<^sup>* (bs_db s) db3"
    and "claim v t db3 = (Inr True, bs_db s4)" and "submit_claimed (with_log B) i v t s4 = (r, s')"
    and "entries B s4 = entries B s"
proof -
  let ?L = "with_log B" and ?H = "bk_hash B"
  obtain w where w: "load ?H (bs_db s) aid = Inr w"
    using assms by (cases "load ?H (bs_db s) aid") (auto simp: submit_authorized_def sbind_def db_read_def)
  obtain u i a m where ld: "load ?H (bs_db s) aid = Inr (u, i, a, m)" using w by (cases w) simp
  obtain existing where ex: "has_existing_side_effect ?H (bs_db s) (ti_intent_id i) = Inr existing"
    using assms ld by (cases "has_existing_side_effect ?H (bs_db s) (ti_intent_id i)") (auto simp: submit_authorized_def sbind_def db_read_def)
  have run: "(if existing then sbind (clock_ms ?L) (\<lambda>t. reconcile_authorized ?L (ti_intent_id i) t)
       else sbind (active_receipt ?L u) (\<lambda>_. sbind (fresh_placement_authority ?L u i False) (\<lambda>v.
         sbind (active_receipt ?L v) (\<lambda>t. sbind (db_op (claim v t)) (\<lambda>granted.
           if \<not> granted then blocked ''AUTHORIZATION_IN_FLIGHT_RECONCILIATION_REQUIRED'' else submit_claimed ?L i v t))))) s = (r, s')"
    using assms(1) ld ex by (simp add: submit_authorized_def sbind_def db_read_def)
  have "log.pres B (sbind (clock_ms ?L) (\<lambda>t. reconcile_authorized ?L (ti_intent_id i) t))"
    by (intro log.pres_sbind log.pres_clock log.pres_reconcile_authorized)
  from log.presD [OF this, of s r s'] have "\<not> existing" using run assms(2) by (cases existing) simp_all
  with run have "sbind (active_receipt ?L u) (\<lambda>_. sbind (fresh_placement_authority ?L u i False) (\<lambda>v.
         sbind (active_receipt ?L v) (\<lambda>t. sbind (db_op (claim v t)) (\<lambda>granted.
           if \<not> granted then blocked ''AUTHORIZATION_IN_FLIGHT_RECONCILIATION_REQUIRED'' else submit_claimed ?L i v t)))) s = (r, s')"
    by simp
  from quiet_bind [OF log.pres_authority(2) this assms(2)] obtain x1 s1 where
    1: "active_receipt ?L u s = (Inr x1, s1)" and run1: "sbind (fresh_placement_authority ?L u i False) (\<lambda>v.
         sbind (active_receipt ?L v) (\<lambda>t. sbind (db_op (claim v t)) (\<lambda>granted.
           if \<not> granted then blocked ''AUTHORIZATION_IN_FLIGHT_RECONCILIATION_REQUIRED'' else submit_claimed ?L i v t))) s1 = (r, s')"
    and q1: "entries B s1 = entries B s" .
  from quiet_bind [OF log.pres_fresh run1, unfolded q1, OF assms(2)] obtain v s2 where
    2: "fresh_placement_authority ?L u i False s1 = (Inr v, s2)" and run2: "sbind (active_receipt ?L v) (\<lambda>t. sbind (db_op (claim v t)) (\<lambda>granted.
           if \<not> granted then blocked ''AUTHORIZATION_IN_FLIGHT_RECONCILIATION_REQUIRED'' else submit_claimed ?L i v t)) s2 = (r, s')"
    and q2: "entries B s2 = entries B s" .
  from quiet_bind [OF log.pres_authority(2) run2, unfolded q2, OF assms(2)] obtain t s3 where
    3: "active_receipt ?L v s2 = (Inr t, s3)" and run3: "sbind (db_op (claim v t)) (\<lambda>granted. if \<not> granted then blocked ''AUTHORIZATION_IN_FLIGHT_RECONCILIATION_REQUIRED''
           else submit_claimed ?L i v t) s3 = (r, s')"
    and q3: "entries B s3 = entries B s" .
  from quiet_bind [where B = B, OF log.pres_writes(2) run3, unfolded q3, OF assms(2)] obtain g s4 where
    4: "db_op (claim v t) s3 = (Inr g, s4)" and run4: "(if \<not> g then blocked ''AUTHORIZATION_IN_FLIGHT_RECONCILIATION_REQUIRED'' else submit_claimed ?L i v t) s4 = (r, s')"
    and q4: "entries B s4 = entries B s" .
  have g: "g" using run4 q4 assms(2) by (cases g) (auto simp: raise_def)
  have "au_intent_id v = ti_intent_id i" using fresh_intent_id 2 unfolding ends_def by blast
  moreover have "(exec_step ?H)\<^sup>*\<^sup>* (bs_db s) (bs_db s3)"
    using steps.presD [OF steps.pres_authority(2) 1] steps.presD [OF steps.pres_fresh 2] steps.presD [OF steps.pres_authority(2) 3]
    by simp
  moreover have "claim v t (bs_db s3) = (Inr True, bs_db s4)" using 4 g by (auto simp: db_op_def split: prod.splits)
  moreover have "submit_claimed ?L i v t s4 = (r, s')" using run4 g by simp
  ultimately show ?thesis by (rule that [OF ld _ _ _ _ q4])
qed

text \<open>One call of \<open>submit_authorized\<close> sends at most one entry
  request, and only for an intent that nobody had claimed when the call began and that is claimed
  when it ends. Since a claim is never given back, no later call, of any worker, sends a second one.\<close>

lemma entry_claims:
  assumes "exec_reachable (bk_hash B) (bs_db s)" and "submit_authorized (with_log B) aid s = (r, s')"
  shows "entries B s' = entries B s
    \<or> (\<exists>q u i a m. entries B s' = entries B s @ [q] \<and> load (bk_hash B) (bs_db s) aid = Inr (u, i, a, m)
         \<and> claimed (bs_db s) (ti_intent_id i) = None \<and> claimed (bs_db s') (ti_intent_id i) = Some ())"
proof (cases "entries B s' = entries B s")
  case False
  let ?H = "bk_hash B"
  obtain u i a m v t db3 s4 where ld: "load ?H (bs_db s) aid = Inr (u, i, a, m)" and id: "au_intent_id v = ti_intent_id i"
    and ts: "(exec_step ?H)\<^sup>*\<^sup>* (bs_db s) db3" and cl: "claim v t db3 = (Inr True, bs_db s4)"
    and sub: "submit_claimed (with_log B) i v t s4 = (r, s')" and quiet: "entries B s4 = entries B s"
    using sending_run [OF assms(2) False] .
  have r3: "exec_reachable ?H db3" using reachable_steps [OF assms(1) ts] .
  have none: "claimed (bs_db s) (ti_intent_id i) = None"
  proof (rule ccontr)
    assume "claimed (bs_db s) (ti_intent_id i) \<noteq> None"
    then have "claimed db3 (au_intent_id v) = Some ()"
      using claims.steps_latch [OF ts exec_reachable_ok [OF assms(1)]] id by simp
    then show False using cl by (auto simp: claimed_def claim_def)
  qed
  have "(exec_step ?H)\<^sup>*\<^sup>* (bs_db s4) (bs_db s')" using steps.presD [OF steps.pres_submit_claimed sub] by simp
  then have some: "claimed (bs_db s') (ti_intent_id i) = Some ()"
    using claims.steps_latch [OF _ exec_reachable_ok [OF claim_reachable [OF r3 cl]] claim_True_claimed [OF cl]] id by simp
  have "\<exists>q. entries B s' = entries B s @ [q]"
    using one_entry_submit [of B i v t] sub quiet False unfolding one_entry_def by (metis snd_conv)
  then show ?thesis using ld none some by blast
qed simp

section \<open>The stop or the kill switch\<close>

lemma trip_kills:
  assumes "0 \<le> now" and "sp_protective_missing_grace_ms (bk_policy B) \<le> 20000"
  shows "\<not> allows_new_risk (bs_kill (snd (trip_and_raise B now e s)))"
proof -
  have "protection_overdue (bk_policy B) (trip_observation B now) now"
    using assms(2) by (simp add: protection_overdue_def trip_observation_def Let_def)
  then have "kill_reasons (bk_policy B) (trip_observation B now) now \<noteq> []" by (simp add: kill_reasons_def reason_when_def)
  then show ?thesis
    using assms(1) by (simp add: trip_and_raise_def sbind_def trip_kill_switch_def raise_def evaluate_latch allows_new_risk_def)
qed

lemma ends_trip: "ends (trip_and_raise B now e) Q"
  unfolding trip_and_raise_def by (intro ends_intros)

text \<open>The stop of an intent is recorded as confirmed, with a positive quantity.\<close>

definition active_stop :: "hasher \<Rightarrow> trade_intent \<Rightarrow> string \<Rightarrow> exec_db \<Rightarrow> bool" where
  "active_stop H i xid db \<longleftrightarrow> (\<exists>w \<in> set (live_protection_owners db). ow_owner_key w = owner_key H i \<and> ow_intent_id w = ti_intent_id i
     \<and> ow_status w = ''ACTIVE'' \<and> ow_exchange_id w = Some xid \<and> Positive (ow_quantity w))"

lemma record_order_owners: "record_order i cid xid q now doc db = Inr db' \<Longrightarrow> live_protection_owners db' = live_protection_owners db"
  by (auto simp: record_order_def upsert_order_def split: option.splits if_splits)

lemma recorded_active:
  assumes "record_stop H i cid xid q now doc db = (Inr (), db')"
  shows "active_stop H i xid db'"
proof -
  let ?P = "\<lambda>w. owned_stop H i cid {''ACTIVE'', ''PENDING_CONFIRMATION''} w \<and> unset_or xid (ow_exchange_id w)"
  let ?f = "\<lambda>w. w\<lparr>ow_exchange_id := Some xid, ow_quantity := q, ow_status := ''ACTIVE'', ow_confirmed_at_ms := now, ow_updated_at_ms := now\<rparr>"
  have q: "Positive q" and n: "rowcount ?P (live_protection_owners db) = 1"
    and o: "live_protection_owners db' = update_where ?P ?f (live_protection_owners db)"
    using assms record_order_owners by (auto simp: record_stop_def guarded_update_def positive_quantity split: sum.splits if_splits)
  from n obtain w where w: "w \<in> set (live_protection_owners db)" "?P w"
    using rowcount_pos [of ?P "live_protection_owners db"] by auto
  then have "?f w \<in> set (live_protection_owners db')" unfolding o set_update_where by force
  then show ?thesis unfolding active_stop_def by (rule bexI [rotated]) (use w(2) q in \<open>simp add: owned_stop_def\<close>)
qed

lemma ends_recorded:
  "ends (sbind (db_op (record_stop H i cid xid q now doc)) (\<lambda>_. ret xid)) (\<lambda>x s. active_stop H i x (bs_db s))"
  "ends (sbind (db_op (record_stop H i cid xid q now doc)) (\<lambda>_. ret (Some xid)))
     (\<lambda>r s. case r of None \<Rightarrow> flat | Some x \<Rightarrow> active_stop H i x (bs_db s))"
  by (auto simp: ends_def sbind_Inr ret_def db_op_def intro: recorded_active split: prod.splits)

lemma ends_place_stop: "ends (place_protective_stop B i target now) (\<lambda>x s. active_stop (bk_hash B) i x (bs_db s))"
proof -
  have "ends (install_stop B i q now) (\<lambda>x s. active_stop (bk_hash B) i x (bs_db s))" for q
    unfolding install_stop_def by (intro ends_recorded ends_intros)
  then show ?thesis
    unfolding place_protective_stop_def Let_def by (auto intro!: ends_on_error ends_intros ends_trip)
qed

text \<open>How the reconciliation of an owned stop ends: flat, or with a recorded stop.\<close>

definition flat_or_stop :: "hasher \<Rightarrow> trade_intent \<Rightarrow> flt \<Rightarrow> string option \<Rightarrow> 'w backend_state \<Rightarrow> bool" where
  "flat_or_stop H i target r s = (case r of None \<Rightarrow> feq target 0 | Some x \<Rightarrow> active_stop H i x (bs_db s))"

lemma ends_settle_stop: "ends (settle_stop B i w confirmed target now) (flat_or_stop (bk_hash B) i target)"
proof -
  have p: "ends (sbind (place_protective_stop B i target now) (\<lambda>x. ret (Some x))) (flat_or_stop (bk_hash B) i target)"
    by (rule ends_bind [OF ends_place_stop]) (simp add: flat_or_stop_def)
  have r: "ends (sbind (db_op (record_stop (bk_hash B) i cid xid q now doc)) (\<lambda>_. ret (Some xid))) (flat_or_stop (bk_hash B) i target)"
    for cid xid q doc using ends_recorded(2) [of "bk_hash B" i cid xid q now doc "feq target 0"] unfolding flat_or_stop_def .
  have n: "ends (ret None) (flat_or_stop (bk_hash B) i target)" if "feq target 0"
    using that by (simp add: ends_ret flat_or_stop_def)
  show ?thesis
    unfolding settle_stop_def by (auto intro!: p r intro: ends_intros n split: option.splits)
qed

lemma ends_early:
  "ends (settle_terminal B i w target now) (\<lambda>x s. x = None \<longrightarrow> feq target 0)"
  "ends (confirm_remote B i w target now) (\<lambda>x s. x = None \<longrightarrow> feq target 0)"
  unfolding settle_terminal_def confirm_remote_def
  by (auto intro!: ends_intros ends_ret split: option.splits prod.splits)

lemma ends_reconcile_owned: "ends (reconcile_owned B i w target now) (flat_or_stop (bk_hash B) i target)"
proof -
  have n: "ends (ret None) (flat_or_stop (bk_hash B) i target)" if "feq target 0"
    using that by (simp add: ends_ret flat_or_stop_def)
  show ?thesis
    unfolding reconcile_owned_def
    apply (rule ends_seq [OF ends_early(1)])
    subgoal for settled
      by (cases settled) (auto intro!: n ends_intros(1) [of _ _ "check _ _"] ends_seq [OF ends_early(2)] ends_settle_stop ends_intros(1) [of _ _ "check_open_algos _ _ _ _"] split: option.splits)
    done
qed

text \<open>An action that returns with \<open>Q\<close> or raises with the kill switch tripped.\<close>

definition kills_or :: "('w, 'a) act \<Rightarrow> ('a \<Rightarrow> 'w backend_state \<Rightarrow> bool) \<Rightarrow> bool" where
  "kills_or m Q \<longleftrightarrow> ends m Q \<and> (\<forall>s e s'. m s = (Inl e, s') \<longrightarrow> \<not> allows_new_risk (bs_kill s'))"

lemma kills_or_trip:
  assumes "0 \<le> now" and "sp_protective_missing_grace_ms (bk_policy B) \<le> 20000"
  shows "kills_or (trip_and_raise B now e) Q"
  unfolding kills_or_def using ends_trip trip_kills [OF assms] by (metis snd_conv)

lemma kills_or_on_error:
  assumes "ends m Q" and "\<And>e. kills_or (h e) Q"
  shows "kills_or (on_error m h) Q"
  using assms unfolding kills_or_def by (auto intro: ends_on_error simp: on_error_def split: prod.splits sum.splits)

lemma kills_or_D: "kills_or m Q \<Longrightarrow> m s = (r, s') \<Longrightarrow> case r of Inl e \<Rightarrow> \<not> allows_new_risk (bs_kill s') | Inr x \<Rightarrow> Q x s'"
  by (cases r) (auto simp: kills_or_def ends_def)


section \<open>The margin type\<close>

lemma contains_set: "contains part s \<Longrightarrow> set part \<subseteq> set s"
  unfolding contains_def list_ex_iff by (metis in_set_dropD in_set_takeD subsetI)

lemma show_nat_no_minus: "CHR ''-'' \<notin> set (show_nat n)"
  using show_nat_digits [of n] by (auto simp: list_all_iff is_digit_def)

lemma http_text_no_code: "0 \<le> st \<Longrightarrow> \<not> contains ''-4046'' (''Binance request failed: HTTP '' @ show_int st)"
  using contains_set [of "''-4046''" "''Binance request failed: HTTP '' @ show_int st"] show_nat_no_minus by (auto simp: show_int_def)

definition margin_url :: "'w backend \<Rightarrow> string" where
  "margin_url B = rstrip (CHR ''/'') (sc_base_url (sx_client (bk_exchange B))) @ ''/fapi/v1/marginType''"

text \<open>Every request for a margin type is answered by an HTTP error with the exchange's code for
  "no need to change the margin type".\<close>

definition margin_already_set :: "'w backend \<Rightarrow> bool" where
  "margin_already_set B \<longleftrightarrow> (\<forall>q w. hr_method q = ''POST'' \<and> hr_url q = margin_url B
     \<longrightarrow> (\<exists>st body. 0 \<le> st \<and> error_code body = Some (- 4046) \<and> fst (sx_http (bk_exchange B) q w) = HttpFailure st body))"

lemma ends_margin:
  assumes "require_mutation_authority (sx_client (bk_exchange B)) = Inr ()" and "margin_already_set B"
  shows "ends (set_margin_type (with_log B) i) (\<lambda>_ _. False)"
  unfolding ends_def
proof (intro allI impI notI)
  fix s y s'
  let ?X = "log_exchange (bk_exchange B)"
  assume run: "set_margin_type (with_log B) i s = (Inr y, s')"
  obtain r s1 where r: "world_op (change_margin_type ?X (ti_symbol i) ''ISOLATED'') s = (r, s1)" by fastforce
  obtain now w1 where t: "sx_time (bk_exchange B) (fst (bs_world s)) = (now, w1)" by fastforce
  have c: "sx_client ?X = sx_client (bk_exchange B)" by (simp add: log_exchange_def)
  have g: "(if py_upper ''POST'' \<noteq> ''GET'' then require_mutation_authority (sx_client (bk_exchange B)) else Inr ()) = Inr ()"
    using assms(1) by simp
  have "\<exists>q. r = signed_reply (fst (sx_http (bk_exchange B) q w1)) \<and> hr_method q = ''POST'' \<and> hr_url q = margin_url B"
    using r t unfolding world_op_def change_margin_type_def signed_request_def Let_def c g margin_url_def
    by (auto simp: log_exchange_def case_prod_beta split: prod.splits intro!: exI)
  then obtain q where q: "r = signed_reply (fst (sx_http (bk_exchange B) q w1))" "hr_method q = ''POST''" "hr_url q = margin_url B" by blast
  obtain st body where "0 \<le> st" "error_code body = Some (- 4046)" "fst (sx_http (bk_exchange B) q w1) = HttpFailure st body"
    using assms(2) q(2,3) unfolding margin_already_set_def by blast
  then have "0 \<le> st" "r = Inl (BinanceExecutionError (''Binance request failed: HTTP '' @ show_int st) (Some (- 4046)))"
    using q(1) by (simp_all add: signed_reply_def)
  then show False
    using run r http_text_no_code [of st] by (simp add: set_margin_type_def on_error_def sbind_def raise_def)
qed

text \<open>a symbol whose margin type is already ISOLATED cannot be traded. The exchange refuses the change
  with code -4046, which the client keeps in the code of its exception and not in its text; the backend
  looks for it in the text, does not find it and aborts. The submission of a claimed intent then always
  raises and sends no entry order, although nothing is wrong.\<close>

theorem isolated_margin_aborts:
  assumes "require_mutation_authority (sx_client (bk_exchange B)) = Inr ()" and "margin_already_set B"
    and "submit_claimed (with_log B) i u now s = (r, s')"
  shows "(\<exists>e. r = Inl e) \<and> entries B s' = entries B s"
proof -
  let ?L = "with_log B"
  have p: "ends (aborting ?L i (pre_entry ?L i u now)) (\<lambda>_ _. False)"
    unfolding aborting_def pre_entry_def
    by (rule ends_on_error, rule ends_intros(1), rule ends_intros(1), rule ends_never [OF ends_margin [OF assms(1,2)]]) (intro ends_intros)
  obtain e t where t: "aborting ?L i (pre_entry ?L i u now) s = (Inl e, t)"
    using p unfolding ends_def by (metis old.sum.exhaust surj_pair)
  then have "r = Inl e" "s' = t" using assms(3) by (simp_all add: submit_claimed_def sbind_def)
  then show ?thesis using log.presD [OF log.pres_pre_entry t] by simp
qed

end
