(* ===== verification/Testnet_Sample.thy ===== *)
theory Testnet_Sample
  imports Testnet_Safety
begin

text \<open>
  A complete submission of the testnet backend on concrete data: an authorized intent, a validator that
  accepts it, an exchange that answers. The run is followed with assertions on the state: \<open>runs P m x Q\<close>
  says that from every state whose tables have \<open>P\<close> and whose kill switch is clear the action returns \<open>x\<close>,
  with tables that have \<open>Q\<close> and the switch still clear. The theory holds the
  witnesses of the backend's properties.
\<close>

section \<open>Runs\<close>

abbreviation holds :: "(exec_db \<Rightarrow> bool) \<Rightarrow> 'w backend_state \<Rightarrow> bool" where
  "holds P s \<equiv> P (bs_db s) \<and> bs_kill s = initial_kill_state"

definition runs :: "(exec_db \<Rightarrow> bool) \<Rightarrow> ('w, 'a) act \<Rightarrow> 'a \<Rightarrow> (exec_db \<Rightarrow> bool) \<Rightarrow> bool" where
  "runs P m x Q \<longleftrightarrow> (\<forall>s. holds P s \<longrightarrow> (\<exists>s'. m s = (Inr x, s') \<and> holds Q s'))"

lemma runs_sbind: "runs P m x Q \<Longrightarrow> runs Q (k x) y R \<Longrightarrow> runs P (sbind m k) y R"
  unfolding runs_def sbind_Inr by blast

lemma runs_ret: "runs P (ret x) x P"
  by (simp add: runs_def ret_def)

lemma runs_check: "c \<Longrightarrow> runs P (check c r) () P"
  by (simp add: runs_def check_def ret_def)

lemma runs_lift: "r = Inr x \<Longrightarrow> runs P (lift_res r) x P"
  by (simp add: runs_def lift_res_def)

lemma runs_read: "(\<And>db. P db \<Longrightarrow> f db = Inr x) \<Longrightarrow> runs P (db_read f) x P"
  by (simp add: runs_def db_read_def)

lemma runs_journal: "(\<And>w. f (bk_journal B w) = Inr x) \<Longrightarrow> runs P (journal_read B f) x P"
  by (simp add: runs_def journal_read_def)

lemma runs_with_state: "(\<And>s. holds P s \<Longrightarrow> runs P (F s) x Q) \<Longrightarrow> runs P (with_state F) x Q"
  unfolding runs_def with_state_def by blast

lemma runs_on_error: "runs P m x Q \<Longrightarrow> runs P (on_error m h) x Q"
  unfolding runs_def on_error_def by fastforce

section \<open>The backend\<close>

definition tn_client :: signed_client where
  "tn_client = \<lparr>sc_base_url = testnet_url, sc_api_key = ''key'', sc_api_secret = ''secret'', sc_recv_window_ms = 5000,
     sc_environment = ''TESTNET'', sc_credential_namespace = ''BINANCE_TESTNET''\<rparr>"

definition tn_backend :: "(http_request \<Rightarrow> http_reply) \<Rightarrow> unit backend" where
  "tn_backend answer =
     \<lparr>bk_hash = const_hash,
      bk_exchange = \<lparr>sx_client = tn_client, sx_sign = (\<lambda>key params. ''signature''), sx_time = (\<lambda>w. (2000, w)),
                     sx_http = (\<lambda>q w. (answer q, w))\<rparr>,
      bk_policy = default_supervisor_policy, bk_validator = Some tn_config, bk_journal = (\<lambda>w. sample_approved),
      bk_clock = (\<lambda>w. (2000, w)), bk_account = Some (\<lambda>w. (Inr (Some tn_account), w)),
      bk_market = Some (\<lambda>t w. (Inr (Some sample_market), w)), bk_repr = (\<lambda>v. [])\<rparr>"

definition tn_tables :: "string \<Rightarrow> string \<Rightarrow> claim_row list \<Rightarrow> owner_row list \<Rightarrow> exec_db \<Rightarrow> bool" where
  "tn_tables status receipt claims owners db \<longleftrightarrow> live_trade_intents db = [intent_row_of tn_intent status]
     \<and> live_account_snapshots db = [\<lparr>sr_snapshot_hash = hash_a, sr_account_id = ''acct-1'', sr_observed_at_ms = 2000, sr_payload = tn_account\<rparr>]
     \<and> live_pre_execution_authorizations db = [authorization_row_of tn_receipt (ti_intent_id sample_intent) receipt]
     \<and> live_execution_market_observations db = [\<lparr>mr_observation_hash = mo_observation_hash sample_market, mr_payload = sample_market\<rparr>]
     \<and> live_execution_claims db = claims \<and> live_protection_owners db = owners \<and> live_execution_orders db = []"

lemma tn_tables_ready: "tn_tables status receipt claims owners db \<Longrightarrow> tn_ready db"
  by (auto simp: tn_tables_def tn_ready_def)

abbreviation tn_log :: "(http_request \<Rightarrow> http_reply) \<Rightarrow> (unit \<times> http_request list) backend" where
  "tn_log answer \<equiv> with_log (tn_backend answer)"

lemma tn_log_simps [simp]:
  "bk_hash (tn_backend f) = const_hash" "bk_validator (tn_log f) = Some tn_config" "bk_journal (tn_log f) w = sample_approved"
  "sx_client (log_exchange (bk_exchange (tn_backend f))) = tn_client" "bk_policy (tn_log f) = default_supervisor_policy"
  by (simp_all add: with_log_def tn_backend_def log_exchange_def case_prod_beta)

lemma tn_receipt_fields [simp]:
  "au_validated_at_ms tn_receipt = 2000" "au_expires_at_ms tn_receipt = 7000" "au_intent_id tn_receipt = ti_intent_id sample_intent"
  "au_intent_hash tn_receipt = hash_a" "au_authorization_hash tn_receipt = hash_a" "au_execution_compilation_hash tn_receipt = hash_a"
  by (simp_all add: tn_receipt_def issued_def Let_def)

lemma tn_capability:
  "check_capability ''TESTNET'' ''SUBMIT_INTENT'' ''TESTNET'' ''BINANCE_TESTNET'' testnet_url = Inr ()"
  "check_capability ''TESTNET'' ''SIGNED_MUTATION'' ''TESTNET'' ''BINANCE_TESTNET'' testnet_url = Inr ()"
  unfolding testnet_url_def by code_simp+

lemma runs_clock: "runs P (clock_ms (tn_log f)) 2000 P"
  by (simp add: runs_def clock_ms_def world_op_def with_log_def tn_backend_def case_prod_beta)

lemma runs_authority: "runs P (check_client_authority (tn_log f)) () P"
  unfolding check_client_authority_def Let_def
  by (rule runs_sbind [OF runs_lift runs_check]) (simp_all add: authority_def tn_client_def tn_capability)

lemma runs_active: "runs P (active_receipt (tn_log f) tn_receipt) 2000 P"
  unfolding active_receipt_def
  by (rule runs_sbind [OF runs_clock] runs_sbind [OF runs_check] runs_sbind [OF runs_with_state] runs_sbind [OF runs_authority] runs_ret
      runs_check | simp add: allows_new_risk_def initial_kill_state_def)+

lemma runs_validator:
  "runs (tn_tables a b c d) (run_validator (tn_log f) tn_config tn_intent sample_market tn_account 2000) () (tn_tables a b c d)"
  unfolding run_validator_def
  by (rule runs_sbind [OF runs_with_state [OF runs_lift]]) (auto simp: tn_valid tn_tables_ready intro: runs_check)

lemma runs_db: "(\<And>db. P db \<Longrightarrow> fst (f db) = Inr x \<and> Q (snd (f db))) \<Longrightarrow> runs P (db_op f) x Q"
  unfolding runs_def db_op_def by (auto split: prod.splits) (metis fst_conv snd_conv)+

lemma runs_recompile: "runs P (recompile (tn_log f) tn_intent tn_account (Some tn_policy)) tn_executable P"
  unfolding recompile_def
  by (rule runs_sbind [OF runs_journal] runs_lift | simp add: sample_journal tn_compile)+

lemma runs_provider: "runs P (on_error (world_op (\<lambda>(w, l). (Inr x, (w, l)))) h) x P"
  by (rule runs_on_error) (simp add: runs_def world_op_def case_prod_beta)

lemma runs_fresh:
  assumes "runs (tn_tables a b c d)
      (if cl then db_op (refresh_claimed const_hash tn_receipt tn_account sample_market tn_executable 2000)
       else db_op (authorize const_hash tn_config initial_kill_state sample_approved (ti_intent_id sample_intent) sample_market
              tn_account 2000 (Some 7000)) :: (unit \<times> http_request list, authorization) act) tn_receipt Q"
  shows "runs (tn_tables a b c d) (fresh_placement_authority (tn_log f) tn_receipt tn_intent cl) tn_receipt Q"
proof -
  let ?P = "tn_tables a b c d"
  have pol: "vc_risk_policy tn_config = tn_policy" by (simp add: tn_config_def)
  have m: "client_matches_account (tn_log f) tn_account" "2000 \<le> as_last_rest_at_ms tn_account"
    by (simp_all add: client_matches_account_def authority_def tn_client_def tn_account_def)
  have w: "runs ?P (with_state (\<lambda>s. db_op (authorize const_hash tn_config (bs_kill s) sample_approved (ti_intent_id sample_intent)
      sample_market tn_account 2000 (Some 7000))) :: (unit \<times> http_request list, authorization) act) tn_receipt Q" if "\<not> cl"
    using assms that by (intro runs_with_state) simp
  have v: "runs ?P (placement_validated (tn_log f) tn_config tn_receipt tn_intent cl 2000 2000 tn_account sample_market) tn_receipt Q"
    unfolding placement_validated_def pol
    by (intro runs_sbind [OF runs_check] runs_sbind [OF runs_validator] runs_sbind [OF runs_recompile] runs_sbind [OF runs_active])
      (use assms w m in \<open>simp_all split: if_splits\<close>)
  have pr: "bk_account (tn_log f) = Some (\<lambda>(w, l). case (Inr (Some tn_account), w) of (r, w') \<Rightarrow> (r, (w', l)))"
    "bk_market (tn_log f) = Some (\<lambda>t (w, l). case (Inr (Some sample_market), w) of (r, w') \<Rightarrow> (r, (w', l)))"
    by (simp_all add: with_log_def tn_backend_def)
  show ?thesis
    unfolding fresh_placement_authority_def pr tn_log_simps option.case prod.case placement_account_def placement_market_def
    by (rule runs_sbind [OF runs_active] runs_sbind [OF runs_provider])+ (use v in simp)
qed

section \<open>The tables on the way\<close>

lemma tn_hashes: "as_snapshot_hash tn_account = hash_a" "mo_observation_hash sample_market = hash_a"
  by (simp_all add: tn_account_def sample_account_def sample_market_def)

lemma tn_receipt_ok: "authorization_fields_ok tn_receipt"
  by (simp add: authorization_fields_ok_def tn_receipt_def issued_def Let_def tn_hashes)

lemma tn_receipt_verify: "authorization_verify const_hash tn_receipt = Inr tn_receipt"
  by (simp add: authorization_verify_def authorization_validate_def tn_receipt_ok)

lemma tn_load: "tn_tables a b c d db \<Longrightarrow> load const_hash db (au_authorization_id tn_receipt) = Inr (tn_receipt, tn_intent, tn_account, sample_market)"
  by (simp add: tn_tables_def load_def load_body_def authorization_row_of_def tn_receipt_verify get_intent_def verified_option_def
      verified_row_of authorization_bound_def tn_hashes) (simp add: tn_receipt_def issued_def Let_def tn_hashes)

lemma tn_no_effect: "tn_tables ''AUTHORIZED'' b [] d db \<Longrightarrow> has_existing_side_effect const_hash db (ti_intent_id sample_intent) = Inr False"
  by (simp add: tn_tables_def has_existing_side_effect_def Let_def)

lemma tn_authorize_again:
  assumes "tn_tables ''AUTHORIZED'' ''ISSUED'' [] [] db"
  shows "fst (authorize const_hash tn_config initial_kill_state sample_approved (ti_intent_id sample_intent) sample_market tn_account 2000 (Some 7000) db)
      = Inr tn_receipt
    \<and> tn_tables ''AUTHORIZED'' ''ISSUED'' [] [] (snd (authorize const_hash tn_config initial_kill_state sample_approved
        (ti_intent_id sample_intent) sample_market tn_account 2000 (Some 7000) db))"
proof -
  have e: "authorization_expiry tn_config tn_intent sample_market tn_account 2000 (Some 7000) = 7000"
    by (simp add: authorization_expiry_def component_times_def map_filter_def sample_market_def tn_config_def tn_account_def sample_account_def)
  have g: "get_intent const_hash db (ti_intent_id sample_intent) = Inr (Some tn_intent)"
    using assms by (simp add: tn_tables_def get_intent_def verified_option_def verified_row_of)
  show ?thesis
    using assms by (simp add: authorize_def g tn_valid [OF tn_tables_ready] sample_journal tn_compile e issue_def tn_receipt_built)
      (simp add: tn_tables_def account_save_def account_event_types_def transaction_def issue_body_def tn_hashes Let_def
        add_market_def authorization_collides_def authorization_row_of_def set_intent_status_def update_where_def)
qed

definition tn_claim :: claim_row where
  "tn_claim = \<lparr>cl_intent_id = ti_intent_id sample_intent, cl_authorization_id = au_authorization_id tn_receipt, cl_claimed_at_ms = 2000\<rparr>"

lemma tn_claims:
  assumes "tn_tables ''AUTHORIZED'' ''ISSUED'' [] [] db"
  shows "fst (claim tn_receipt 2000 db) = Inr True \<and> tn_tables ''SUBMITTING'' ''CLAIMED'' [tn_claim] [] (snd (claim tn_receipt 2000 db))"
  using assms by (simp add: tn_tables_def claim_def authorization_row_of_def set_intent_status_def set_authorization_status_def update_where_def tn_claim_def
      intent_row_of_def)

lemma tn_claimed_by: "tn_tables x y [tn_claim] z db \<Longrightarrow> for_claimed_intent db (ti_intent_id tn_intent) = Inr (au_authorization_id tn_receipt)"
  by (simp add: for_claimed_intent_def tn_tables_def tn_claim_def)

lemma tn_reserves:
  assumes "tn_tables ''SUBMITTING'' ''CLAIMED'' [tn_claim] [] db"
  shows "fst (reserve_owner const_hash tn_intent 2000 db) = Inr (new_owner const_hash tn_intent 2000)
    \<and> tn_tables ''SUBMITTING'' ''CLAIMED'' [tn_claim] [new_owner const_hash tn_intent 2000] (snd (reserve_owner const_hash tn_intent 2000 db))"
  using assms by (simp add: tn_tables_def reserve_owner_def)

lemma tn_refreshes:
  assumes "tn_tables ''SUBMITTING'' ''CLAIMED'' [tn_claim] ws db"
  shows "fst (refresh_claimed const_hash tn_receipt tn_account sample_market tn_executable 2000 db) = Inr tn_receipt
    \<and> tn_tables ''SUBMITTING'' ''CLAIMED'' [tn_claim] ws (snd (refresh_claimed const_hash tn_receipt tn_account sample_market tn_executable 2000 db))"
proof -
  have u: "authorization_validate const_hash True (refreshed const_hash tn_receipt tn_account sample_market tn_executable 2000) = Inr tn_receipt"
  proof -
    have r: "refreshed const_hash tn_receipt tn_account sample_market tn_executable 2000 = tn_receipt\<lparr>au_authorization_hash := []\<rparr>"
      by (simp add: refreshed_def Let_def tn_hashes) (simp add: tn_receipt_def issued_def Let_def tn_hashes)
    have "authorization_fields_ok (tn_receipt\<lparr>au_authorization_hash := []\<rparr>)" using tn_receipt_ok by (simp add: authorization_fields_ok_def)
    then show ?thesis unfolding r by (simp add: authorization_validate_def)
  qed
  show ?thesis
    using assms by (simp add: refresh_claimed_def u tn_tables_def account_save_def account_event_types_def transaction_def refresh_body_def tn_hashes Let_def
        claim_owned_def tn_claim_def add_market_def authorization_row_of_def log_transition_def)
qed

lemma runs_tables:
  "runs (tn_tables ''AUTHORIZED'' ''ISSUED'' [] []) (db_op (authorize const_hash tn_config initial_kill_state sample_approved
     (ti_intent_id sample_intent) sample_market tn_account 2000 (Some 7000))) tn_receipt (tn_tables ''AUTHORIZED'' ''ISSUED'' [] [])"
  "runs (tn_tables ''AUTHORIZED'' ''ISSUED'' [] []) (db_op (claim tn_receipt 2000)) True (tn_tables ''SUBMITTING'' ''CLAIMED'' [tn_claim] [])"
  "runs (tn_tables ''SUBMITTING'' ''CLAIMED'' [tn_claim] []) (db_op (reserve_owner const_hash tn_intent 2000)) (new_owner const_hash tn_intent 2000)
     (tn_tables ''SUBMITTING'' ''CLAIMED'' [tn_claim] [new_owner const_hash tn_intent 2000])"
  "runs (tn_tables ''SUBMITTING'' ''CLAIMED'' [tn_claim] ws) (db_op (refresh_claimed const_hash tn_receipt tn_account sample_market tn_executable 2000))
     tn_receipt (tn_tables ''SUBMITTING'' ''CLAIMED'' [tn_claim] ws)"
  by (rule runs_db, erule tn_authorize_again tn_claims tn_reserves tn_refreshes)+

section \<open>The submission\<close>

lemma tn_mutation: "require_mutation_authority tn_client = Inr ()"
proof -
  have "py_upper ''TESTNET'' = ''TESTNET''" by code_simp
  then show ?thesis by (simp add: require_mutation_authority_def tn_client_def tn_capability)
qed

text \<open>A request and its answer; a request of another method needs the mutation authority of the client.\<close>

definition tn_request :: "string \<Rightarrow> string \<Rightarrow> (string \<times> json) list \<Rightarrow> http_request" where
  "tn_request verb path params =
     \<lparr>hr_method = verb, hr_url = testnet_url @ path,
      hr_params = dict_set ''recvWindow'' (JInt 5000) (dict_set ''timestamp'' (JInt 2000) params), hr_signature = Some ''signature''\<rparr>"

lemma tn_signed_request:
  "world_op (signed_request (log_exchange (bk_exchange (tn_backend f))) verb path params) s
     = (signed_reply (f (tn_request verb path params)), s\<lparr>bs_world := ((), snd (bs_world s) @ [tn_request verb path params])\<rparr>)"
proof -
  have c: "sc_base_url tn_client = testnet_url" "sc_recv_window_ms tn_client = 5000" by (simp_all add: tn_client_def)
  have r: "rstrip (CHR ''/'') testnet_url = testnet_url" by (simp add: testnet_url_def rstrip_def)
  show ?thesis
    unfolding world_op_def signed_request_def Let_def tn_log_simps tn_mutation c r
    by (cases "bs_world s") (simp add: log_exchange_def tn_backend_def tn_request_def)
qed

lemma runs_request:
  "f (tn_request verb path params) = JsonReply v
     \<Longrightarrow> runs P (world_op (signed_request (log_exchange (bk_exchange (tn_backend f))) verb path params)) v P"
  by (simp add: runs_def tn_signed_request signed_reply_def)

definition tn_answer :: "http_request \<Rightarrow> http_reply" where
  "tn_answer q = (if hr_method q = ''POST'' then JsonReply (JObj []) else Unreachable)"

lemma runs_pre_entry:
  "runs (tn_tables ''SUBMITTING'' ''CLAIMED'' [tn_claim] []) (pre_entry (tn_log tn_answer) tn_intent tn_receipt 2000) tn_receipt
     (tn_tables ''SUBMITTING'' ''CLAIMED'' [tn_claim] [new_owner const_hash tn_intent 2000])"
proof -
  have post: "runs P (world_op (signed_request (log_exchange (bk_exchange (tn_backend tn_answer))) ''POST'' path params)) (JObj []) P" for P path params
    by (rule runs_request) (simp add: tn_answer_def tn_request_def)
  note load = runs_sbind [OF runs_read [OF tn_load]] and claimed = runs_sbind [OF runs_read [OF tn_claimed_by]]
  show ?thesis
    unfolding pre_entry_def set_margin_type_def change_margin_type_def change_leverage_def tn_log_simps with_log_simps option.case
    by (rule runs_sbind [OF runs_tables(3)], rule runs_sbind [OF runs_active],
        rule runs_sbind [OF runs_on_error [OF runs_sbind [OF post runs_ret]]], rule runs_sbind [OF runs_active], rule runs_sbind [OF post],
        rule runs_sbind [OF runs_fresh [where cl = True, unfolded if_True, OF runs_tables(4)]], rule runs_sbind [OF runs_active],
        rule load, assumption, simp only: prod.case, rule runs_sbind [OF runs_check], simp, rule runs_sbind [OF runs_validator],
        rule claimed, assumption, rule runs_sbind [OF runs_check], simp, rule runs_ret)
qed

text \<open>Every run that gets to the entry request leaves it in the log.\<close>

definition sends :: "(exec_db \<Rightarrow> bool) \<Rightarrow> (unit \<times> http_request list, 'a) act \<Rightarrow> bool" where
  "sends P m \<longleftrightarrow> (\<forall>s. holds P s \<longrightarrow> entries (tn_backend tn_answer) (snd (m s)) \<noteq> [])"

lemma sends_after: "runs P m x Q \<Longrightarrow> sends Q (k x) \<Longrightarrow> sends P (sbind m k)"
  unfolding sends_def runs_def sbind_def by fastforce

lemma sends_before:
  assumes "sends P m" and "\<And>x. log.pres (tn_backend tn_answer) (k x)"
  shows "sends P (sbind m k)"
  unfolding sends_def
proof (intro allI impI)
  fix s :: "(unit \<times> http_request list) backend_state"
  assume "holds P s"
  then have n: "entries (tn_backend tn_answer) (snd (m s)) \<noteq> []" using assms(1) by (simp add: sends_def)
  have "entries (tn_backend tn_answer) (snd (k x t)) = entries (tn_backend tn_answer) t" for x t
    using assms(2) by (simp add: log.pres_def)
  then show "entries (tn_backend tn_answer) (snd (sbind m k s)) \<noteq> []"
    using n by (cases "m s"; cases "fst (m s)") (simp_all add: sbind_def)
qed

lemma sends_place: "sends P (place_entry (tn_log tn_answer) tn_intent)"
proof -
  let ?q = "tn_request ''POST'' ''/fapi/v1/order'' (entry_params tn_intent)"
  have "entry_request (bk_exchange (tn_backend tn_answer)) ?q"
    by (simp add: entry_request_def tn_request_def tn_backend_def tn_client_def testnet_url_def rstrip_def)
  moreover have "tn_answer ?q = JsonReply (JObj [])" by (simp add: tn_answer_def tn_request_def)
  ultimately show ?thesis
    unfolding sends_def place_entry_def place_order_def on_error_def sbind_def with_log_simps tn_signed_request
    by (simp add: signed_reply_def ret_def entries_def)
qed

lemma sends_submission:
  "sends (tn_tables ''AUTHORIZED'' ''ISSUED'' [] []) (submit_authorized (tn_log tn_answer) (au_authorization_id tn_receipt))"
proof -
  have a: "runs P (aborting (tn_log tn_answer) tn_intent m) x Q" if "runs P m x Q" for P Q x and m :: "(unit \<times> http_request list, 'x) act"
    unfolding aborting_def by (rule runs_on_error [OF that])
  have c: "log.pres (tn_backend tn_answer) (case answer of
      None \<Rightarrow> ret (entry_report tn_intent ''ABORTED'' [] (Fin 0) (Fin 0) None ''TRANSPORT_FAILURE_PROVEN_ABSENT'' None)
    | Some raw \<Rightarrow> placed_entry (tn_log tn_answer) tn_intent raw t)" for answer t
    by (auto intro: log.pres_basic log.pres_placed_entry split: option.splits)
  have s: "sends (tn_tables ''SUBMITTING'' ''CLAIMED'' [tn_claim] []) (submit_claimed (tn_log tn_answer) tn_intent tn_receipt 2000)"
    unfolding submit_claimed_def
    by (rule sends_after [OF a [OF runs_pre_entry]], rule sends_after [OF runs_active], rule sends_before [OF sends_place c])
  note load = sends_after [OF runs_read [OF tn_load]] and fresh = runs_fresh [where cl = False, unfolded if_False, OF runs_tables(1)]
  show ?thesis
    unfolding submit_authorized_def with_log_simps tn_log_simps
    by (rule load, assumption, simp only: prod.case tn_intent_fields, rule sends_after [OF runs_read [OF tn_no_effect]], assumption,
        simp only: if_False, rule sends_after [OF runs_active], rule sends_after [OF fresh], rule sends_after [OF runs_active],
        rule sends_after [OF runs_tables(2)]) (simp add: s)
qed

definition tn_start :: "(unit \<times> http_request list) backend_state" where
  "tn_start = \<lparr>bs_db = tn_issued, bs_kill = initial_kill_state, bs_world = ((), [])\<rparr>"

lemma tn_issued_tables: "tn_tables ''AUTHORIZED'' ''ISSUED'' [] [] tn_issued"
  by (simp add: tn_issued_def tn_tables_def issue_def tn_receipt_built account_save_def account_event_types_def transaction_def issue_body_def tn_saved_rows
      tn_hashes Let_def add_market_def authorization_collides_def set_intent_status_def update_where_def)

lemma tn_issued_reachable: "exec_reachable const_hash tn_issued"
  unfolding tn_issued_def by (intro reachable_run tn_saved_reachable)

section \<open>A margin type that is already set\<close>

definition tn_refusal :: "http_request \<Rightarrow> http_reply" where
  "tn_refusal q = (if hr_url q = testnet_url @ ''/fapi/v1/marginType'' then HttpFailure 400 (Some (JObj [(''code'', JInt (- 4046))]))
     else Unreachable)"

theorem isolated_margin_aborts_witness:
  "\<exists>e. fst (submit_claimed (tn_log tn_refusal) tn_intent tn_receipt 2000 tn_start) = Inl e"
proof -
  have "rstrip (CHR ''/'') testnet_url = testnet_url" by (simp add: testnet_url_def rstrip_def)
  then have "margin_already_set (tn_backend tn_refusal)"
    by (simp add: margin_already_set_def margin_url_def tn_backend_def tn_client_def tn_refusal_def error_code_def)
  moreover have "require_mutation_authority (sx_client (bk_exchange (tn_backend tn_refusal))) = Inr ()"
    using tn_mutation by (simp add: tn_backend_def)
  ultimately show ?thesis using isolated_margin_aborts [OF _ _ surjective_pairing] by blast
qed

section \<open>The protective stop\<close>

definition tn_cid :: string where
  "tn_cid = ''bqa_stop_'' @ replicate 26 (CHR ''a'')"

definition tn_stop :: json where
  "tn_stop = JObj
     [(''algoId'', JInt 7), (''clientAlgoId'', JStr tn_cid), (''symbol'', JStr ''BTCUSDT''), (''side'', JStr ''SELL''),
      (''algoType'', JStr ''CONDITIONAL''), (''workingType'', JStr ''MARK_PRICE''), (''priceProtect'', JBool True),
      (''closePosition'', JBool False), (''positionSide'', JStr ''BOTH''), (''reduceOnly'', JBool True), (''algoStatus'', JStr ''NEW''),
      (''orderType'', JStr ''STOP_MARKET''), (''quantity'', JStr ''0.5''), (''triggerPrice'', JInt 50)]"

definition tn_market_open :: "http_request \<Rightarrow> http_reply" where
  "tn_market_open q =
     (if hr_url q = testnet_url @ ''/fapi/v1/positionSide/dual'' then JsonReply (JObj [(''dualSidePosition'', JBool False)])
      else if hr_url q = testnet_url @ ''/fapi/v3/positionRisk''
      then JsonReply (JArr [JObj [(''symbol'', JStr ''BTCUSDT''), (''positionAmt'', JFloat (Fin (1/2))), (''positionSide'', JStr ''BOTH'')]])
      else if hr_url q = testnet_url @ ''/fapi/v1/openAlgoOrders'' then JsonReply (JArr [])
      else if hr_url q = testnet_url @ ''/fapi/v1/algoOrder'' then JsonReply tn_stop
      else Unreachable)"

lemma tn_contract: "validate_protective_contract tn_intent tn_stop tn_cid (Some ''7'') (Some (Fin (1/2))) [''NEW''] = Inr (''7'', Fin (1/2))"
proof -
  have i: "parse_protective_exchange_id tn_stop = Inr ''7''" by code_simp
  have "parse_decimal ''0.5'' = Some (1/2)" by code_simp
  then have n: "protective_numeric_field tn_stop ''quantity'' (Some ''origQty'') = Inr (Fin (1/2))"
    "protective_numeric_field tn_stop ''triggerPrice'' (Some ''stopPrice'') = Inr (Fin 50)"
    by (simp_all add: protective_numeric_field_def aliased_field_def parse_canonical_numeric_def tn_stop_def)
  show ?thesis
    unfolding validate_protective_contract_def i n bindR.simps
    by (simp add: protective_status_field_def protective_text_field_def protective_bool_field_def aliased_field_def parse_text_def
        parse_protective_bool_def tn_stop_def contract_ok_def tn_cid_def opposite_side_def feq_def zero_flt_def)
qed

abbreviation tn_owned :: "owner_row \<Rightarrow> exec_db \<Rightarrow> bool" where
  "tn_owned w \<equiv> tn_tables ''SUBMITTING'' ''CLAIMED'' [tn_claim] [w]"

definition tn_pending :: "string option \<Rightarrow> owner_row" where
  "tn_pending xid = (new_owner const_hash tn_intent 2000)
     \<lparr>ow_generation := 1, ow_protective_client_id := Some tn_cid, ow_exchange_id := xid, ow_status := ''PENDING_CONFIRMATION'',
      ow_quantity := Fin (1/2)\<rparr>"

lemma tn_hash_prefix: "take 26 (const_hash x) = replicate 26 (CHR ''a'')"
  by (simp add: const_hash_def hash_a_def)

lemma runs_stop_tables:
  "runs (tn_owned (new_owner const_hash tn_intent 2000)) (db_op (next_client_id const_hash tn_intent 2000 (Fin (1/2)))) tn_cid
     (tn_owned (tn_pending None))"
  "runs (tn_owned (tn_pending None)) (db_op (pending_exchange_id const_hash tn_intent tn_cid ''7'' 2000)) () (tn_owned (tn_pending (Some ''7'')))"
  "runs (tn_owned (tn_pending (Some ''7''))) (db_op (record_stop const_hash tn_intent tn_cid ''7'' (Fin (1/2)) 2000 (Some tn_stop))) () (\<lambda>db. True)"
proof -
  have x: "valid_exchange_id ''7'' = Inr ''7''" by code_simp
  show "runs (tn_owned (new_owner const_hash tn_intent 2000)) (db_op (next_client_id const_hash tn_intent 2000 (Fin (1/2)))) tn_cid
     (tn_owned (tn_pending None))"
    by (rule runs_db) (simp add: next_client_id_def next_client_id_checked_def next_client_id_tx_def tn_tables_def get_owner_def new_owner_def
      owner_identity_def stop_client_id_def tn_hash_prefix tn_cid_def Let_def update_owners_def update_where_def tn_pending_def)
  show "runs (tn_owned (tn_pending None)) (db_op (pending_exchange_id const_hash tn_intent tn_cid ''7'' 2000)) () (tn_owned (tn_pending (Some ''7'')))"
    by (rule runs_db) (simp add: pending_exchange_id_def x guarded_update_def tn_tables_def rowcount_def owned_stop_def unset_or_def tn_pending_def
      new_owner_def update_owners_def update_where_def)
  show "runs (tn_owned (tn_pending (Some ''7''))) (db_op (record_stop const_hash tn_intent tn_cid ''7'' (Fin (1/2)) 2000 (Some tn_stop))) () (\<lambda>db. True)"
    by (rule runs_db) (simp add: record_stop_def x guarded_update_def tn_tables_def rowcount_def owned_stop_def unset_or_def tn_pending_def
      new_owner_def update_owners_def update_where_def record_order_def upsert_order_def zero_flt_def)
qed

lemma runs_answers:
  "runs P (world_op (position_mode (log_exchange (bk_exchange (tn_backend tn_market_open))))) (JObj [(''dualSidePosition'', JBool False)]) P"
  "runs P (world_op (positions (log_exchange (bk_exchange (tn_backend tn_market_open))) (Some ''BTCUSDT'')))
     [JObj [(''symbol'', JStr ''BTCUSDT''), (''positionAmt'', JFloat (Fin (1/2))), (''positionSide'', JStr ''BOTH'')]] P"
  "runs P (world_op (open_protective_orders (log_exchange (bk_exchange (tn_backend tn_market_open))) (Some ''BTCUSDT''))) (JArr []) P"
  "runs P (world_op (place_protective_order (log_exchange (bk_exchange (tn_backend tn_market_open))) ps)) tn_stop P"
  "runs P (world_op (query_protective_order (log_exchange (bk_exchange (tn_backend tn_market_open))) xid)) tn_stop P"
proof -
  have p: "world_op (positions X sy) s = (case world_op (signed_request X ''GET'' ''/fapi/v3/positionRisk'' (symbol_params sy)) s of
      (Inl e, t) \<Rightarrow> (Inl e, t) | (Inr v, t) \<Rightarrow> (Inr (case v of JArr xs \<Rightarrow> xs | _ \<Rightarrow> [v]), t))" for X sy and s :: "'w backend_state"
    by (simp add: world_op_def positions_def split: prod.splits sum.splits)
  show "runs P (world_op (positions (log_exchange (bk_exchange (tn_backend tn_market_open))) (Some ''BTCUSDT'')))
     [JObj [(''symbol'', JStr ''BTCUSDT''), (''positionAmt'', JFloat (Fin (1/2))), (''positionSide'', JStr ''BOTH'')]] P"
    unfolding runs_def p tn_signed_request by (simp add: tn_market_open_def tn_request_def signed_reply_def)
qed (unfold position_mode_def open_protective_orders_def place_protective_order_def query_protective_order_def,
     (rule runs_request, simp add: tn_market_open_def tn_request_def)+)

lemma runs_position: "runs P (query_open_position (tn_log tn_market_open) ''BTCUSDT'' ''BUY'' 2000) (Fin (1/2)) P"
proof -
  have s: "scan_positions (tn_log tn_market_open) ''BTCUSDT'' ''BUY'' None
      [JObj [(''symbol'', JStr ''BTCUSDT''), (''positionAmt'', JFloat (Fin (1/2))), (''positionSide'', JStr ''BOTH'')]] = Inr (Some (Fin (1/2)))"
    by (simp add: py_float_def get_or_def py_str_def json_str_def pymax_def less_flt_def)
  have m: "dict_get (JObj [(''dualSidePosition'', JBool False)]) ''dualSidePosition'' = Some (JBool False)" "one_way_mode (JBool False)"
    by (simp_all add: one_way_mode_def)
  show ?thesis
    unfolding query_open_position_def query_positions_def with_log_simps
    by (rule runs_on_error, rule runs_sbind [OF runs_answers(1)], simp only: m option.case not_True_eq_False if_False,
        rule runs_sbind [OF runs_answers(2)], rule runs_sbind [OF runs_lift [OF s]], simp only: option.case, rule runs_ret)
qed

lemma tn_matching:
  "approval_matches const_hash sample_approved tn_intent" "client_matches_account (tn_log f) tn_account" "executable_matches tn_intent tn_executable"
  by (simp_all add: approval_matches_def sample_journal client_matches_account_def authority_def tn_client_def tn_account_def
      executable_matches_def tn_executable_def sample_executable_def opt_feq_def feq_def)

lemma runs_required: "runs (tn_owned w) (require_claimed_intent (tn_log f) tn_intent) () (tn_owned w)"
proof -
  have c: "compile_executable_intent_fields const_hash sample_case sample_proposal tn_account None = Inr tn_executable"
    unfolding compile_executable_intent_fields_def sample_mid
    by (simp add: sample_quantity sample_lot)
      (simp add: sample_proposal_def sample_case_def sample_account_def tn_account_def sample_executable_def tn_executable_def
        order_side_def account_authority_ok_def)
  have r: "runs P (recompile (tn_log f) tn_intent tn_account None) tn_executable P" for P
    unfolding recompile_def by (rule runs_sbind [OF runs_journal] runs_lift | simp add: sample_journal c)+
  note found = runs_sbind [OF runs_read [OF tn_claimed_by]] and load = runs_sbind [OF runs_read [OF tn_load]]
  show ?thesis
    unfolding require_claimed_intent_def with_log_simps tn_log_simps
    by (rule found, assumption, rule load, assumption, simp only: prod.case, rule runs_sbind [OF runs_check], simp,
        rule runs_sbind [OF runs_with_state [OF runs_check]], simp add: tn_matching, rule runs_sbind [OF runs_authority],
        rule runs_sbind [OF runs_check], simp add: tn_matching, rule runs_sbind [OF r], rule runs_check, simp add: tn_matching)
qed

lemma tn_get_owner: "tn_owned (new_owner const_hash tn_intent 2000) db \<Longrightarrow> get_owner const_hash db tn_intent = Inr (Some (new_owner const_hash tn_intent 2000))"
  by (simp add: tn_tables_def get_owner_def new_owner_def owner_identity_def)

lemma runs_place_stop:
  "runs (tn_owned (new_owner const_hash tn_intent 2000)) (place_protective_stop (tn_log tn_market_open) tn_intent (Fin (1/2)) 2000) ''7'' (\<lambda>db. True)"
proof -
  have m: "pymin (pymin (Fin (1/2)) (Fin (1/2))) (Fin (1/2)) = Fin (1/2)" "\<not> Fin (1/2) \<le> 0"
    by (simp_all add: pymin_def zero_flt_def)
  have i: "parse_protective_exchange_id tn_stop = Inr ''7''" by code_simp
  have inst: "runs (tn_owned (new_owner const_hash tn_intent 2000)) (install_stop (tn_log tn_market_open) tn_intent (Fin (1/2)) 2000) ''7'' (\<lambda>db. True)"
    unfolding install_stop_def with_log_simps tn_log_simps tn_intent_fields
    by (rule runs_sbind [OF runs_stop_tables(1)], rule runs_sbind [OF runs_answers(4)], rule runs_sbind [OF runs_lift [OF i]],
        rule runs_sbind [OF runs_stop_tables(2)], rule runs_sbind [OF runs_answers(5)], rule runs_sbind [OF runs_lift [OF tn_contract]],
        rule runs_sbind [OF runs_position], rule runs_sbind [OF runs_check], simp add: less_flt_def, rule runs_sbind [OF runs_stop_tables(3)],
        rule runs_ret)
  show ?thesis
    unfolding place_protective_stop_def tn_intent_fields
    by (rule runs_on_error, rule runs_sbind [OF runs_required], rule runs_sbind [OF runs_position], simp only: Let_def m if_False, rule inst)
qed

lemma runs_reconcile_stop:
  "runs (tn_owned (new_owner const_hash tn_intent 2000)) (reconcile_protective_stop (tn_log tn_market_open) tn_intent (Fin (1/2)) 2000)
     (Some ''7'') (\<lambda>db. True)"
proof -
  let ?w = "new_owner const_hash tn_intent 2000"
  have w: "ow_status ?w = ''RESERVED''" "ow_protective_client_id ?w = None" "ow_exchange_id ?w = None" by (simp_all add: new_owner_def)
  have m: "pymax (pymin (pymin (Fin (1/2)) (Fin (1/2))) (Fin (1/2))) (Fin 0) = Fin (1/2)" "\<not> feq (Fin (1/2)) 0"
    by (simp_all add: pymin_def pymax_def less_flt_def feq_def zero_flt_def)
  have t: "runs P (settle_terminal (tn_log tn_market_open) tn_intent ?w (Fin (1/2)) 2000) (Some ?w) P"
    "runs P (confirm_remote (tn_log tn_market_open) tn_intent ?w (Fin (1/2)) 2000) (Some (?w, None)) P" for P
    by (simp_all add: settle_terminal_def confirm_remote_def w runs_ret)
  have a: "runs P (check_open_algos (tn_log tn_market_open) tn_intent ?w (Fin (1/2))) () P" for P
    unfolding check_open_algos_def with_log_simps tn_intent_fields
    by (rule runs_sbind [OF runs_on_error [OF runs_answers(3)]]) (simp add: runs_lift)
  have o: "runs (tn_owned ?w) (reconcile_owned (tn_log tn_market_open) tn_intent ?w (Fin (1/2)) 2000) (Some ''7'') (\<lambda>db. True)"
    unfolding reconcile_owned_def
    by (rule runs_sbind [OF t(1)], simp only: option.case, rule runs_sbind [OF runs_check], simp add: w, rule runs_sbind [OF t(2)],
        simp only: option.case prod.case, rule runs_sbind [OF a], simp only: settle_stop_def option.case prod.case m if_False,
        rule runs_sbind [OF runs_place_stop runs_ret])
  note owner = runs_sbind [OF runs_read [OF tn_get_owner]]
  show ?thesis
    unfolding reconcile_protective_stop_def with_log_simps tn_log_simps tn_intent_fields
    by (rule runs_sbind [OF runs_required], rule owner, assumption, simp only: option.case w, simp,
        rule runs_sbind [OF runs_position], simp only: Let_def m, rule runs_on_error [OF o])
qed

definition tn_holding :: "(unit \<times> http_request list) backend_state" where
  "tn_holding = tn_start\<lparr>bs_db := run_cmd const_hash 2000 (ReserveOwner tn_intent) (run_cmd const_hash 2000 (Claim tn_receipt) tn_issued)\<rparr>"

lemma tn_holding_owned: "holds (tn_owned (new_owner const_hash tn_intent 2000)) tn_holding"
  using tn_reserves [of "run_cmd const_hash 2000 (Claim tn_receipt) tn_issued"] tn_claims [OF tn_issued_tables]
  by (simp add: tn_holding_def tn_start_def)


end
