(* ===== verification/Position_Models.thy ===== *)
theory Position_Models
  imports Account Kill_Switch
begin

text \<open>
  Position observations and position events (\<open>position_supervisor/models.py\<close>): immutable records with a
  content hash. An observation is bound to one account of one environment; an event names its account
  by an authority key, the hash of the five fields that identify a position. Events written before
  that key existed have none of the five fields, which the model keeps as \<open>None\<close>.
\<close>

section \<open>Observations\<close>

record position_observation =
  pob_account_snapshot_hash :: string
  pob_market_source_hash :: string
  pob_environment :: string
  pob_credential_namespace :: string
  pob_symbol :: string
  pob_account_id :: string
  pob_position_side :: string
  pob_observed_at_ms :: int
  pob_quantity :: flt
  pob_previous_quantity :: flt
  pob_entry_price :: flt
  pob_mark_price :: flt
  pob_unrealized_pnl_usdt :: flt
  pob_realized_pnl_usdt :: flt
  pob_margin_usdt :: flt
  pob_stop_price :: flt
  pob_take_profit_price :: flt
  pob_funding_rate :: "flt option"
  pob_oi_change_pct :: "flt option"
  pob_volatility_percentile :: "flt option"
  pob_spread_bps :: "flt option"
  pob_tactical_regime :: "string option"
  pob_grid_boundary_breached :: bool
  pob_order_status :: string
  pob_order_filled_quantity :: flt
  pob_order_observed_at_ms :: int
  pob_evidence_id :: "string option"
  pob_signal_identity :: "string option"
  pob_prior_evidence_ids :: "string list"
  pob_prior_signal_identities :: "string list"
  pob_add_opportunity :: bool
  pob_observation_hash :: string

text \<open>The field types: closed sets of texts, non-negative times, floats that are numbers.\<close>

definition observation_fields_ok :: "position_observation \<Rightarrow> bool" where
  "observation_fields_ok s \<longleftrightarrow> pob_environment s \<in> {''DRY_RUN'', ''TESTNET''} \<and> pob_credential_namespace s \<noteq> []
     \<and> pob_position_side s = ''BOTH'' \<and> 0 \<le> pob_observed_at_ms s \<and> 0 \<le> pob_order_observed_at_ms s
     \<and> list_all isfinite [pob_quantity s, pob_previous_quantity s, pob_entry_price s, pob_mark_price s, pob_unrealized_pnl_usdt s,
          pob_realized_pnl_usdt s, pob_margin_usdt s, pob_stop_price s, pob_take_profit_price s, pob_order_filled_quantity s]
     \<and> list_all (opt_all isfinite) [pob_funding_rate s, pob_oi_change_pct s, pob_volatility_percentile s, pob_spread_bps s]"

definition observation_json :: "position_observation \<Rightarrow> json" where
  "observation_json s = JObj
     [(''account_snapshot_hash'', JStr (pob_account_snapshot_hash s)), (''market_source_hash'', JStr (pob_market_source_hash s)),
      (''environment'', JStr (pob_environment s)), (''credential_namespace'', JStr (pob_credential_namespace s)),
      (''symbol'', JStr (pob_symbol s)), (''account_id'', JStr (pob_account_id s)), (''position_side'', JStr (pob_position_side s)),
      (''observed_at_ms'', JInt (pob_observed_at_ms s)), (''quantity'', JFloat (pob_quantity s)),
      (''previous_quantity'', JFloat (pob_previous_quantity s)), (''entry_price'', JFloat (pob_entry_price s)),
      (''mark_price'', JFloat (pob_mark_price s)), (''unrealized_pnl_usdt'', JFloat (pob_unrealized_pnl_usdt s)),
      (''realized_pnl_usdt'', JFloat (pob_realized_pnl_usdt s)), (''margin_usdt'', JFloat (pob_margin_usdt s)),
      (''stop_price'', JFloat (pob_stop_price s)), (''take_profit_price'', JFloat (pob_take_profit_price s)),
      (''funding_rate'', jopt JFloat (pob_funding_rate s)), (''oi_change_pct'', jopt JFloat (pob_oi_change_pct s)),
      (''volatility_percentile'', jopt JFloat (pob_volatility_percentile s)), (''spread_bps'', jopt JFloat (pob_spread_bps s)),
      (''tactical_regime'', jopt JStr (pob_tactical_regime s)), (''grid_boundary_breached'', JBool (pob_grid_boundary_breached s)),
      (''order_status'', JStr (pob_order_status s)), (''order_filled_quantity'', JFloat (pob_order_filled_quantity s)),
      (''order_observed_at_ms'', JInt (pob_order_observed_at_ms s)), (''evidence_id'', jopt JStr (pob_evidence_id s)),
      (''signal_identity'', jopt JStr (pob_signal_identity s)), (''prior_evidence_ids'', jstrs (pob_prior_evidence_ids s)),
      (''prior_signal_identities'', jstrs (pob_prior_signal_identities s)), (''add_opportunity'', JBool (pob_add_opportunity s))]"

definition observation_authority_ok :: "position_observation \<Rightarrow> bool" where
  "observation_authority_ok s \<longleftrightarrow> \<not> (pob_environment s = ''DRY_RUN'' \<and> pob_credential_namespace s \<noteq> ''NONE''
     \<or> pob_environment s = ''TESTNET'' \<and> pob_credential_namespace s = ''NONE'')"

definition observation_validate :: "hasher \<Rightarrow> bool \<Rightarrow> position_observation \<Rightarrow> position_observation res" where
  "observation_validate H build s =
     (if \<not> observation_fields_ok s then Inl (ValueError ''validation error'')
      else if \<not> observation_authority_ok s then Inl (ValueError ''position observation account authority mismatch'')
      else if build \<and> pob_observation_hash s = [] then Inr (s\<lparr>pob_observation_hash := digest H (observation_json s)\<rparr>)
      else if pob_observation_hash s \<noteq> digest H (observation_json s) then Inl (ValueError ''observation hash mismatch'')
      else Inr s)"

definition observation_verify :: "hasher \<Rightarrow> position_observation \<Rightarrow> position_observation res" where
  "observation_verify H s = observation_validate H False s"

section \<open>Authority keys\<close>

definition position_authority_key :: "hasher \<Rightarrow> string \<Rightarrow> string \<Rightarrow> string \<Rightarrow> string \<Rightarrow> string \<Rightarrow> string res" where
  "position_authority_key H env ns account symb side =
     (if [] \<in> set [env, ns, account, symb, side] then Inl (ValueError ''position authority incomplete'')
      else Inr (digest H (JObj [(''environment'', JStr env), (''credential_namespace'', JStr ns), (''account_id'', JStr account),
                                (''symbol'', JStr symb), (''position_side'', JStr side)])))"

section \<open>Events\<close>

record position_event =
  pe_event_id :: string
  pe_event_hash :: string
  pe_trigger :: string
  pe_symbol :: string
  pe_source_hash :: string
  pe_environment :: "string option"
  pe_credential_namespace :: "string option"
  pe_account_id :: "string option"
  pe_position_side :: "string option"
  pe_position_authority_key :: "string option"
  pe_observed_at_ms :: int
  pe_details :: "(string \<times> json) list"

definition event_authority :: "position_event \<Rightarrow> string option list" where
  "event_authority e = [pe_environment e, pe_credential_namespace e, pe_account_id e, pe_position_side e, pe_position_authority_key e]"

definition authority_json :: "position_event \<Rightarrow> (string \<times> json) list" where
  "authority_json e = [(''environment'', jopt JStr (pe_environment e)), (''credential_namespace'', jopt JStr (pe_credential_namespace e)),
     (''account_id'', jopt JStr (pe_account_id e)), (''position_side'', jopt JStr (pe_position_side e)),
     (''position_authority_key'', jopt JStr (pe_position_authority_key e))]"

text \<open>The hashed document; the authority fields of an event that has none are left out.\<close>

definition event_json :: "position_event \<Rightarrow> json" where
  "event_json e = JObj ([(''schema_version'', JStr ''POSITION_EVENT_V1''), (''event_id'', JStr (pe_event_id e)),
     (''trigger'', JStr (pe_trigger e)), (''symbol'', JStr (pe_symbol e)), (''source_hash'', JStr (pe_source_hash e)),
     (''observed_at_ms'', JInt (pe_observed_at_ms e)), (''details'', JObj (pe_details e))]
     @ (if None \<notin> set (event_authority e) then authority_json e else []))"

definition opt_text :: "string option \<Rightarrow> string" where
  "opt_text x = (case x of None \<Rightarrow> [] | Some s \<Rightarrow> s)"

definition event_key :: "hasher \<Rightarrow> position_event \<Rightarrow> string res" where
  "event_key H e = position_authority_key H (opt_text (pe_environment e)) (opt_text (pe_credential_namespace e))
     (opt_text (pe_account_id e)) (pe_symbol e) (opt_text (pe_position_side e))"

definition event_authority_check :: "hasher \<Rightarrow> position_event \<Rightarrow> unit res" where
  "event_authority_check H e =
     (if set (event_authority e) \<noteq> {None} \<and> None \<in> set (event_authority e) then Inl (ValueError ''position event authority incomplete'')
      else if None \<in> set (event_authority e) then Inr ()
      else bindR (event_key H e) (\<lambda>k.
             if pe_position_authority_key e \<noteq> Some k then Inl (ValueError ''position event authority mismatch'') else Inr ()))"

text \<open>\<open>details\<close> is an arbitrary document; a NaN or infinity inside makes the hash raise.\<close>

definition event_validate :: "hasher \<Rightarrow> bool \<Rightarrow> position_event \<Rightarrow> position_event res" where
  "event_validate H build e =
     (if pe_observed_at_ms e < 0 then Inl (ValueError ''validation error'')
      else bindR (event_authority_check H e) (\<lambda>_.
           bindR (content_hash H (event_json e)) (\<lambda>expected.
             if build \<and> pe_event_hash e = [] then Inr (e\<lparr>pe_event_hash := expected\<rparr>)
             else if pe_event_hash e \<noteq> expected then Inl (ValueError ''event hash mismatch'')
             else Inr e)))"

definition event_build :: "hasher \<Rightarrow> position_event \<Rightarrow> position_event res" where
  "event_build H e =
     (if \<exists>x \<in> set (event_authority e). opt_text x = [] then Inl (ValueError ''position event authority incomplete'')
      else event_validate H True e)"

definition event_verify :: "hasher \<Rightarrow> position_event \<Rightarrow> position_event res" where
  "event_verify H e = event_validate H False e"

lemma observation_verify_iff:
  "observation_verify H s = Inr s' \<longleftrightarrow> s' = s \<and> observation_fields_ok s \<and> observation_authority_ok s
     \<and> pob_observation_hash s = digest H (observation_json s)"
  by (auto simp: observation_verify_def observation_validate_def split: if_splits)

lemma event_build_verifies:
  assumes "event_build H e = Inr e'" and "pe_event_hash e = []"
  shows "event_verify H e' = Inr e'"
proof -
  have "event_authority e' = event_authority e \<and> event_json e' = event_json e \<and> event_key H e' = event_key H e
      \<and> pe_position_authority_key e' = pe_position_authority_key e"
    if "e' = e\<lparr>pe_event_hash := x\<rparr>" for x
    using that by (simp add: event_authority_def event_json_def authority_json_def event_key_def)
  with assms show ?thesis
    by (auto simp: event_build_def event_verify_def event_validate_def event_authority_check_def result_simps split: if_splits)
qed

end
