(* ===== verification/Supervisor.thy ===== *)
theory Supervisor
  imports Position_Models Intents
begin

text \<open>
  The position supervisor (\<open>position_supervisor/supervisor.py\<close>), first part: its tables and
  \<open>PositionSupervisor.evaluate\<close>, which turns an observation of a position into life-cycle transitions and
  trigger events and queues one analysis dispatch per event. The whole evaluation is one
  \<open>BEGIN IMMEDIATE\<close> transaction. Event ids are random tokens, given as an argument.

  Text columns that hold canonical JSON are modelled by the record they encode, an empty text by \<open>None\<close>.
\<close>

section \<open>Tables\<close>

record event_row =
  ev_event_id :: string
  ev_event_hash :: string
  ev_trigger :: string
  ev_symbol :: string
  ev_source_hash :: string
  ev_observed_at_ms :: int
  ev_payload :: position_event
  ev_environment :: "string option"
  ev_credential_namespace :: "string option"
  ev_account_id :: "string option"
  ev_position_side :: "string option"
  ev_position_authority_key :: "string option"

record legacy_active_row =
  ac_symbol :: string
  ac_is_open :: int
  ac_last_opened_at_ms :: int

record legacy_lifecycle_row =
  ll_account_id :: string
  ll_symbol :: string
  ll_position_side :: string

record lifecycle_row =
  lf_environment :: string
  lf_credential_namespace :: string
  lf_account_id :: string
  lf_symbol :: string
  lf_position_side :: string
  lf_quantity :: flt
  lf_is_open :: bool
  lf_last_transition :: string
  lf_last_transition_at_ms :: int
  lf_observed_at_ms :: int
  lf_source_hash :: string

record dispatch_authority =
  da_event_id :: string
  da_event_hash :: string
  da_symbol :: string
  da_environment :: "string option"
  da_credential_namespace :: "string option"
  da_account_id :: "string option"
  da_position_side :: "string option"
  da_position_authority_key :: "string option"
  da_position_case_id :: string
  da_position_case_hash :: string
  da_lease_token :: string

record dispatch_row =
  di_event_id :: string
  di_event_hash :: string
  di_position_case_id :: string
  di_position_case_hash :: string
  di_position_case_json :: "case_package option"
  di_case_hash :: string
  di_dispatch_authority_json :: "dispatch_authority option"
  di_dispatch_authority_hash :: string
  di_analysis_admission_hash :: string
  di_analysis_completed :: bool
  di_symbol :: string
  di_state :: string
  di_retry_count :: int
  di_lease_token :: "string option"
  di_lease_expires_at_ms :: int
  di_created_at_ms :: int
  di_updated_at_ms :: int

text \<open>The account snapshots are a table of another component that may be missing (\<open>None\<close>).\<close>

record supervisor_db =
  live_position_events :: "event_row list"
  live_position_active :: "legacy_active_row list"
  live_position_lifecycle :: "legacy_lifecycle_row list"
  live_position_lifecycle_v2 :: "lifecycle_row list"
  live_position_observed_sources :: "string list"
  live_position_case_dispatches :: "dispatch_row list"
  sv_account_snapshots :: "snapshot_row list option"

definition empty_supervisor_db :: supervisor_db where
  "empty_supervisor_db =
     \<lparr>live_position_events = [], live_position_active = [], live_position_lifecycle = [], live_position_lifecycle_v2 = [],
      live_position_observed_sources = [], live_position_case_dispatches = [], sv_account_snapshots = None\<rparr>"

section \<open>Life cycle\<close>

definition lifecycle_key :: "position_observation \<Rightarrow> lifecycle_row \<Rightarrow> bool" where
  "lifecycle_key s r \<longleftrightarrow> (lf_environment r, lf_credential_namespace r, lf_account_id r, lf_symbol r, lf_position_side r)
     = (pob_environment s, pob_credential_namespace s, pob_account_id s, pob_symbol s, pob_position_side s)"

definition unbound_legacy_lifecycle :: "supervisor_db \<Rightarrow> string \<Rightarrow> string \<Rightarrow> string \<Rightarrow> string \<Rightarrow> string \<Rightarrow> bool" where
  "unbound_legacy_lifecycle db env ns account symb side \<longleftrightarrow> env = ''DRY_RUN'' \<and> ns = ''NONE''
     \<and> list_ex (\<lambda>o1. ll_account_id o1 = account \<and> ll_symbol o1 = symb \<and> ll_position_side o1 = side
          \<and> \<not> list_ex (\<lambda>r. lf_environment r = env \<and> lf_credential_namespace r = ns \<and> lf_account_id r = ll_account_id o1
               \<and> lf_symbol r = ll_symbol o1 \<and> lf_position_side r = ll_position_side o1) (live_position_lifecycle_v2 db))
        (live_position_lifecycle db)"

text \<open>\<open>ORDER BY observed_at_ms DESC, rowid DESC LIMIT 1\<close>.\<close>

fun latest_snapshot_row :: "string \<Rightarrow> snapshot_row list \<Rightarrow> snapshot_row option" where
  "latest_snapshot_row account [] = None"
| "latest_snapshot_row account (r # rs) =
     (case latest_snapshot_row account rs of
        None \<Rightarrow> if sr_account_id r = account then Some r else None
      | Some q \<Rightarrow> if sr_account_id r = account \<and> sr_observed_at_ms q < sr_observed_at_ms r then Some r else Some q)"

text \<open>The row of the old table, without an account, is taken over only when the store knows exactly one
  account and its latest snapshot is the one of the observation.\<close>

definition legacy_binding_ok :: "hasher \<Rightarrow> supervisor_db \<Rightarrow> position_observation \<Rightarrow> legacy_active_row \<Rightarrow> bool" where
  "legacy_binding_ok H db s old \<longleftrightarrow>
     (case sv_account_snapshots db of
        None \<Rightarrow> False
      | Some rows \<Rightarrow>
          length (remdups (map sr_account_id rows)) = 1
          \<and> (case latest_snapshot_row (pob_account_id s) rows of
               None \<Rightarrow> False
             | Some r \<Rightarrow>
                 (case snapshot_verify H (sr_payload r) of
                    Inl e \<Rightarrow> False
                  | Inr a \<Rightarrow> as_environment a = ''DRY_RUN'' \<and> as_credential_namespace a = ''NONE'' \<and> as_account_id a = pob_account_id s
                      \<and> as_snapshot_hash a = sr_snapshot_hash r \<and> as_snapshot_hash a = pob_account_snapshot_hash s
                      \<and> ac_is_open old \<in> {0, 1})))"

definition position_transitions :: "lifecycle_row option \<Rightarrow> bool \<Rightarrow> flt \<Rightarrow> string list" where
  "position_transitions active was_open quantity =
     (if was_open \<and> feq quantity 0 then [''POSITION_CLOSED'']
      else if \<not> was_open \<and> \<not> feq quantity 0 then [''POSITION_OPENED'']
      else (case active of
              None \<Rightarrow> []
            | Some r \<Rightarrow> if lf_quantity r * quantity < 0 then [''POSITION_CLOSED'', ''POSITION_OPENED''] else []))"

definition was_open :: "lifecycle_row option \<Rightarrow> legacy_active_row option \<Rightarrow> bool" where
  "was_open active old = (case active of Some r \<Rightarrow> lf_is_open r | None \<Rightarrow> (case old of Some q \<Rightarrow> ac_is_open q \<noteq> 0 | None \<Rightarrow> False))"

definition next_lifecycle :: "lifecycle_row option \<Rightarrow> legacy_active_row option \<Rightarrow> position_observation \<Rightarrow> int \<Rightarrow> lifecycle_row" where
  "next_lifecycle active old s now =
     (let open_before = was_open active old; ts = position_transitions active open_before (pob_quantity s)
      in \<lparr>lf_environment = pob_environment s, lf_credential_namespace = pob_credential_namespace s, lf_account_id = pob_account_id s,
          lf_symbol = pob_symbol s, lf_position_side = pob_position_side s, lf_quantity = pob_quantity s,
          lf_is_open = (\<not> feq (pob_quantity s) 0),
          lf_last_transition = (if ts \<noteq> [] then last ts
             else (case active of Some r \<Rightarrow> lf_last_transition r | None \<Rightarrow> if open_before then ''POSITION_OPENED'' else [])),
          lf_last_transition_at_ms = (if ts \<noteq> [] then now
             else (case active of
                     Some r \<Rightarrow> lf_last_transition_at_ms r
                   | None \<Rightarrow> (case old of Some q \<Rightarrow> if open_before then ac_last_opened_at_ms q else 0 | None \<Rightarrow> 0))),
          lf_observed_at_ms = pob_observed_at_ms s, lf_source_hash = pob_observation_hash s\<rparr>)"

definition upsert_lifecycle :: "position_observation \<Rightarrow> lifecycle_row \<Rightarrow> lifecycle_row list \<Rightarrow> lifecycle_row list" where
  "upsert_lifecycle s row rows =
     (if list_ex (lifecycle_key s) rows
      then update_where (lifecycle_key s) (\<lambda>r. r\<lparr>lf_quantity := lf_quantity row, lf_is_open := lf_is_open row,
             lf_last_transition := lf_last_transition row, lf_last_transition_at_ms := lf_last_transition_at_ms row,
             lf_observed_at_ms := lf_observed_at_ms row, lf_source_hash := lf_source_hash row\<rparr>) rows
      else rows @ [row])"

section \<open>Triggers\<close>

definition near :: "flt \<Rightarrow> flt \<Rightarrow> flt \<Rightarrow> flt \<Rightarrow> flt \<Rightarrow> bool" where
  "near a b level entry lim_pct \<longleftrightarrow> 0 < level \<and> 0 < entry \<and> quot \<bar>a - b\<bar> entry \<le> lim_pct"

definition shock :: "flt option \<Rightarrow> flt \<Rightarrow> bool" where
  "shock x bound = (case x of None \<Rightarrow> False | Some v \<Rightarrow> bound \<le> \<bar>v\<bar>)"

definition at_least :: "flt option \<Rightarrow> flt \<Rightarrow> bool" where
  "at_least x bound = (case x of None \<Rightarrow> False | Some v \<Rightarrow> bound \<le> v)"

definition regime_reversal :: "position_observation \<Rightarrow> bool" where
  "regime_reversal s \<longleftrightarrow> 0 < pob_quantity s \<and> pob_tactical_regime s = Some ''BEARISH''
     \<or> pob_quantity s < 0 \<and> pob_tactical_regime s = Some ''BULLISH''"

definition fresh_addition :: "position_observation \<Rightarrow> bool" where
  "fresh_addition s \<longleftrightarrow> pob_add_opportunity s
     \<and> (case pob_evidence_id s of None \<Rightarrow> False | Some x \<Rightarrow> x \<notin> set (pob_prior_evidence_ids s))
     \<and> (case pob_signal_identity s of None \<Rightarrow> False | Some x \<Rightarrow> x \<notin> set (pob_prior_signal_identities s))"

definition observed_triggers :: "supervisor_policy \<Rightarrow> position_observation \<Rightarrow> int \<Rightarrow> string list" where
  "observed_triggers p s now =
     reason_when (pob_order_status s = ''PARTIALLY_FILLED'' \<and> sp_stale_partial_fill_ms p \<le> now - pob_order_observed_at_ms s) ''PARTIAL_FILL_STALE''
     @ reason_when (near (pob_mark_price s) (pob_stop_price s) (pob_stop_price s) (pob_entry_price s) (sp_stop_near_pct p)) ''STOP_NEAR''
     @ reason_when (near (pob_take_profit_price s) (pob_mark_price s) (pob_take_profit_price s) (pob_entry_price s) (sp_tp_near_pct p)) ''TP_NEAR''
     @ reason_when (regime_reversal s) ''REGIME_REVERSAL''
     @ reason_when (shock (pob_oi_change_pct s) (sp_oi_shock_pct p)) ''OI_SHOCK''
     @ reason_when (shock (pob_funding_rate s) (sp_funding_shock_rate p)) ''FUNDING_SHOCK''
     @ reason_when (at_least (pob_volatility_percentile s) (sp_volatility_spike_percentile p)) ''VOLATILITY_SPIKE''
     @ reason_when (at_least (pob_spread_bps s) (sp_liquidity_deterioration_bps p)) ''LIQUIDITY_DETERIORATION''
     @ reason_when (pob_grid_boundary_breached s) ''GRID_BOUNDARY_BREACH''
     @ reason_when (fresh_addition s) ''ADD_OPPORTUNITY''"

section \<open>Events and dispatches\<close>

definition cooling :: "supervisor_policy \<Rightarrow> string \<Rightarrow> string \<Rightarrow> int \<Rightarrow> supervisor_db \<Rightarrow> bool" where
  "cooling p key trig now db \<longleftrightarrow> trig \<notin> {''POSITION_OPENED'', ''POSITION_CLOSED''}
     \<and> list_ex (\<lambda>r. ev_position_authority_key r = Some key \<and> ev_trigger r = trig \<and> now - ev_observed_at_ms r < sp_cooldown_ms p)
         (live_position_events db)"

definition new_event :: "position_observation \<Rightarrow> string \<Rightarrow> string \<Rightarrow> string \<Rightarrow> int \<Rightarrow> position_event" where
  "new_event s key token trig now =
     \<lparr>pe_event_id = ''pe-'' @ token, pe_event_hash = [], pe_trigger = trig, pe_symbol = pob_symbol s,
      pe_source_hash = pob_observation_hash s, pe_environment = Some (pob_environment s),
      pe_credential_namespace = Some (pob_credential_namespace s), pe_account_id = Some (pob_account_id s),
      pe_position_side = Some (pob_position_side s), pe_position_authority_key = Some key, pe_observed_at_ms = now,
      pe_details = [(''mark_price'', JFloat (pob_mark_price s)),
        (''quantity'', JFloat (if trig = ''POSITION_CLOSED'' then Fin 0 else pob_quantity s))]\<rparr>"

definition event_row_of :: "position_event \<Rightarrow> event_row" where
  "event_row_of e =
     \<lparr>ev_event_id = pe_event_id e, ev_event_hash = pe_event_hash e, ev_trigger = pe_trigger e, ev_symbol = pe_symbol e,
      ev_source_hash = pe_source_hash e, ev_observed_at_ms = pe_observed_at_ms e, ev_payload = e, ev_environment = pe_environment e,
      ev_credential_namespace = pe_credential_namespace e, ev_account_id = pe_account_id e, ev_position_side = pe_position_side e,
      ev_position_authority_key = pe_position_authority_key e\<rparr>"

definition insert_event :: "position_event \<Rightarrow> supervisor_db \<Rightarrow> supervisor_db res" where
  "insert_event e db =
     (if list_ex (\<lambda>r. ev_event_id r = pe_event_id e \<or> ev_event_hash r = pe_event_hash e) (live_position_events db)
      then Inl (IntegrityError ''UNIQUE constraint failed: live_position_events'')
      else Inr (db\<lparr>live_position_events := live_position_events db @ [event_row_of e]\<rparr>))"

definition blank_dispatch :: "position_event \<Rightarrow> int \<Rightarrow> dispatch_row" where
  "blank_dispatch e now =
     \<lparr>di_event_id = pe_event_id e, di_event_hash = pe_event_hash e, di_position_case_id = [], di_position_case_hash = [],
      di_position_case_json = None, di_case_hash = [], di_dispatch_authority_json = None, di_dispatch_authority_hash = [],
      di_analysis_admission_hash = [], di_analysis_completed = False, di_symbol = pe_symbol e, di_state = ''PENDING'', di_retry_count = 0,
      di_lease_token = None, di_lease_expires_at_ms = 0, di_created_at_ms = now, di_updated_at_ms = now\<rparr>"

definition queue_dispatch :: "position_event \<Rightarrow> int \<Rightarrow> supervisor_db \<Rightarrow> supervisor_db" where
  "queue_dispatch e now db =
     (if list_ex (\<lambda>r. di_event_id r = pe_event_id e \<or> di_event_hash r = pe_event_hash e) (live_position_case_dispatches db) then db
      else db\<lparr>live_position_case_dispatches := live_position_case_dispatches db @ [blank_dispatch e now]\<rparr>)"

fun emit_events ::
  "hasher \<Rightarrow> supervisor_policy \<Rightarrow> position_observation \<Rightarrow> string \<Rightarrow> int \<Rightarrow> (string \<times> string) list \<Rightarrow> supervisor_db
     \<Rightarrow> (position_event list \<times> supervisor_db) res" where
  "emit_events H p s key now [] db = Inr ([], db)"
| "emit_events H p s key now ((trig, token) # rest) db =
     (if cooling p key trig now db then emit_events H p s key now rest db
      else bindR (event_build H (new_event s key token trig now)) (\<lambda>e.
           bindR (insert_event e db) (\<lambda>db1.
           bindR (emit_events H p s key now rest (queue_dispatch e now db1)) (\<lambda>(es, db2). Inr (e # es, db2)))))"

section \<open>Evaluation\<close>

definition evaluate_known ::
  "hasher \<Rightarrow> supervisor_policy \<Rightarrow> position_observation \<Rightarrow> string \<Rightarrow> int \<Rightarrow> (string \<Rightarrow> string) \<Rightarrow> lifecycle_row option \<Rightarrow> legacy_active_row option
     \<Rightarrow> supervisor_db \<Rightarrow> (position_event list \<times> supervisor_db) res" where
  "evaluate_known H p s key now tokens active old db =
     (let ts = position_transitions active (was_open active old) (pob_quantity s);
          db1 = db\<lparr>live_position_lifecycle_v2 := upsert_lifecycle s (next_lifecycle active old s now) (live_position_lifecycle_v2 db),
                   live_position_observed_sources := live_position_observed_sources db @ [pob_observation_hash s]\<rparr>
      in emit_events H p s key now (map (\<lambda>t. (t, tokens t)) (ts @ observed_triggers p s now)) db1)"

definition evaluate_body ::
  "hasher \<Rightarrow> supervisor_policy \<Rightarrow> position_observation \<Rightarrow> string \<Rightarrow> int \<Rightarrow> (string \<Rightarrow> string) \<Rightarrow> supervisor_db
     \<Rightarrow> (position_event list \<times> supervisor_db) res" where
  "evaluate_body H p s key now tokens db =
     (if pob_observation_hash s \<in> set (live_position_observed_sources db) then Inr ([], db)
      else (case fetchone (lifecycle_key s) (live_position_lifecycle_v2 db) of
              Some r \<Rightarrow>
                if pob_observed_at_ms s < lf_observed_at_ms r then Inl (ValueError ''POSITION_OBSERVATION_OUT_OF_ORDER'')
                else evaluate_known H p s key now tokens (Some r) None db
            | None \<Rightarrow>
                if unbound_legacy_lifecycle db (pob_environment s) (pob_credential_namespace s) (pob_account_id s) (pob_symbol s) (pob_position_side s)
                then Inl (ValueError ''LEGACY_POSITION_LIFECYCLE_AUTHORITY_UNBOUND'')
                else (case (if pob_environment s = ''DRY_RUN'' \<and> pob_credential_namespace s = ''NONE''
                            then fetchone (\<lambda>q. ac_symbol q = pob_symbol s) (live_position_active db) else None) of
                        None \<Rightarrow> evaluate_known H p s key now tokens None None db
                      | Some old \<Rightarrow>
                          if \<not> legacy_binding_ok H db s old then Inl (ValueError ''LEGACY_POSITION_ACCOUNT_BINDING_REQUIRED'')
                          else evaluate_known H p s key now tokens None (Some old)
                                 (db\<lparr>live_position_active := filter (\<lambda>q. ac_symbol q \<noteq> pob_symbol s) (live_position_active db)\<rparr>))))"

definition evaluate_position ::
  "hasher \<Rightarrow> supervisor_policy \<Rightarrow> position_observation \<Rightarrow> int \<Rightarrow> (string \<Rightarrow> string) \<Rightarrow> (supervisor_db, position_event list) dbop" where
  "evaluate_position H p s now tokens db =
     (case bindR (observation_verify H s) (\<lambda>_.
           bindR (position_authority_key H (pob_environment s) (pob_credential_namespace s) (pob_account_id s) (pob_symbol s) (pob_position_side s))
             (\<lambda>key. evaluate_body H p s key now tokens db)) of
        Inl e \<Rightarrow> (Inl e, db)
      | Inr (es, db') \<Rightarrow> (Inr es, db'))"

definition current_quantity :: "supervisor_db \<Rightarrow> string \<Rightarrow> string \<Rightarrow> string \<Rightarrow> string \<Rightarrow> string \<Rightarrow> flt res" where
  "current_quantity db account symb env ns side =
     (if side \<noteq> ''BOTH'' then Inl (ValueError ''unsupported position side'')
      else Inr (case fetchone (\<lambda>r. lf_environment r = env \<and> lf_credential_namespace r = ns \<and> lf_account_id r = account
                        \<and> lf_symbol r = symb \<and> lf_position_side r = side) (live_position_lifecycle_v2 db) of
                  None \<Rightarrow> Fin 0 | Some r \<Rightarrow> lf_quantity r))"

definition event_from_row :: "hasher \<Rightarrow> event_row \<Rightarrow> position_event res" where
  "event_from_row H r =
     bindR (event_verify H (ev_payload r)) (\<lambda>e.
       if event_row_of e \<noteq> r then Inl (ValueError ''position event storage authority mismatch'') else Inr e)"

definition get_event :: "hasher \<Rightarrow> supervisor_db \<Rightarrow> string \<Rightarrow> position_event option res" where
  "get_event H db eid =
     (case fetchone (\<lambda>r. ev_event_id r = eid) (live_position_events db) of
        None \<Rightarrow> Inr None
      | Some r \<Rightarrow> bindR (event_from_row H r) (\<lambda>e. Inr (Some e)))"

definition get_dispatch :: "supervisor_db \<Rightarrow> string \<Rightarrow> dispatch_row option" where
  "get_dispatch db eid = fetchone (\<lambda>r. di_event_id r = eid) (live_position_case_dispatches db)"

end
