(* ===== verification/Dispatch.thy ===== *)
theory Dispatch
  imports Supervisor Actions
begin

text \<open>
  The position supervisor, second part: the analysis dispatches. Workers drain the queue under a lease:
  a row goes from PENDING to DISPATCHING with a random token and a deadline, the case to analyse is
  frozen into the row, an admission receipt is minted once, the analysis is called, and the row ends as
  DONE or FAILED\_CLOSED. Each database block of the code is one operation here; the loop that runs them
  one after another is in the theory \<open>Drain\<close>.

  The triggers of the table are part of the model: every UPDATE of a dispatch goes through
  \<open>dispatch_guard\<close>.
\<close>

section \<open>The triggers\<close>

text \<open>What one connection lets the completion trigger accept (\<open>db.create_function\<close>): the receipt, the
  authority, the lease and the case hash. \<open>None\<close>: the function does not exist on this connection.\<close>

type_synonym completion_capability = "(string \<times> string \<times> string option \<times> string) option"

definition admission_columns :: "dispatch_row \<Rightarrow> dispatch_authority option \<times> string \<times> string \<times> string \<times> string \<times> case_package option \<times> string" where
  "admission_columns r = (di_dispatch_authority_json r, di_dispatch_authority_hash r, di_analysis_admission_hash r, di_position_case_id r,
     di_position_case_hash r, di_position_case_json r, di_case_hash r)"

definition dispatch_guard :: "completion_capability \<Rightarrow> dispatch_row \<Rightarrow> dispatch_row \<Rightarrow> unit res" where
  "dispatch_guard capability old new =
     (if (di_event_id old, di_event_hash old, di_symbol old) \<noteq> (di_event_id new, di_event_hash new, di_symbol new)
      then Inl (IntegrityError ''DISPATCH_AUTHORITY_IMMUTABLE'')
      else if (di_analysis_admission_hash old \<noteq> [] \<or> di_dispatch_authority_hash old \<noteq> []) \<and> admission_columns old \<noteq> admission_columns new
      then Inl (IntegrityError ''DISPATCH_ADMISSION_IMMUTABLE'')
      else if di_analysis_completed old \<and> \<not> di_analysis_completed new then Inl (IntegrityError ''ANALYSIS_COMPLETION_IMMUTABLE'')
      else if di_state old \<noteq> ''DONE'' \<and> di_state new = ''DONE'' \<and> \<not> di_analysis_completed new
      then Inl (IntegrityError ''DONE_REQUIRES_ANALYSIS_COMPLETION'')
      else if \<not> di_analysis_completed old \<and> di_analysis_completed new
           \<and> (di_state old \<noteq> ''DISPATCHING'' \<or> di_state new \<noteq> ''DONE'' \<or> di_lease_token new \<noteq> None \<or> di_lease_expires_at_ms new \<noteq> 0
              \<or> capability \<noteq> Some (di_analysis_admission_hash old, di_dispatch_authority_hash old, di_lease_token old, di_case_hash old))
      then Inl (IntegrityError ''ANALYSIS_COMPLETION_REQUIRES_TERMINAL_AUTHORITY'')
      else Inr ())"

definition update_dispatches ::
  "completion_capability \<Rightarrow> (dispatch_row \<Rightarrow> bool) \<Rightarrow> (dispatch_row \<Rightarrow> dispatch_row) \<Rightarrow> supervisor_db \<Rightarrow> (nat \<times> supervisor_db) res" where
  "update_dispatches capability P f db =
     (case fetchone (\<lambda>r. P r \<and> \<not> is_ok (dispatch_guard capability r (f r))) (live_position_case_dispatches db) of
        Some r \<Rightarrow> bindR (dispatch_guard capability r (f r)) (\<lambda>_. Inr (0, db))
      | None \<Rightarrow> Inr (rowcount P (live_position_case_dispatches db),
                  db\<lparr>live_position_case_dispatches := update_where P f (live_position_case_dispatches db)\<rparr>))"

section \<open>Claiming\<close>

definition claimable :: "int \<Rightarrow> dispatch_row \<Rightarrow> bool" where
  "claimable now r \<longleftrightarrow> di_state r = ''PENDING'' \<or> di_state r = ''DISPATCHING'' \<and> di_lease_expires_at_ms r \<le> now"

text \<open>The oldest claimable row; rows of the same age are taken in the order of the table.\<close>

definition next_candidate :: "int \<Rightarrow> supervisor_db \<Rightarrow> dispatch_row option" where
  "next_candidate now db =
     (case sort_key di_created_at_ms (filter (claimable now) (live_position_case_dispatches db)) of [] \<Rightarrow> None | r # rs \<Rightarrow> Some r)"

datatype claim_result = NothingPending | GivenUp | Missed | Leased dispatch_row

definition close_row :: "int \<Rightarrow> dispatch_row \<Rightarrow> dispatch_row" where
  "close_row now r = r\<lparr>di_state := ''FAILED_CLOSED'', di_lease_token := None, di_updated_at_ms := now\<rparr>"

definition claim_dispatch :: "string \<Rightarrow> int \<Rightarrow> int \<Rightarrow> int \<Rightarrow> (supervisor_db, claim_result) dbop" where
  "claim_dispatch token now lease_ms max_retries db =
     (case next_candidate now db of
        None \<Rightarrow> (Inr NothingPending, db)
      | Some r \<Rightarrow>
          if di_analysis_admission_hash r \<noteq> [] \<and> \<not> di_analysis_completed r \<or> max_retries \<le> di_retry_count r then
            (case update_dispatches None (\<lambda>q. di_event_id q = di_event_id r) (close_row now) db of
               Inl e \<Rightarrow> (Inl e, db) | Inr (n, db') \<Rightarrow> (Inr GivenUp, db'))
          else
            (case update_dispatches None (\<lambda>q. di_event_id q = di_event_id r \<and> claimable now q)
                    (\<lambda>q. q\<lparr>di_state := ''DISPATCHING'', di_lease_token := Some token, di_lease_expires_at_ms := now + lease_ms,
                           di_retry_count := di_retry_count q + 1, di_updated_at_ms := now\<rparr>) db of
               Inl e \<Rightarrow> (Inl e, db)
             | Inr (n, db') \<Rightarrow> (Inr (if n = 1 then Leased r else Missed), db')))"

definition close_dispatch :: "bool \<Rightarrow> bool \<Rightarrow> string \<Rightarrow> string \<Rightarrow> int \<Rightarrow> (supervisor_db, unit) dbop" where
  "close_dispatch dispatching_only reset_lease eid token now db =
     (case update_dispatches None
             (\<lambda>r. di_event_id r = eid \<and> di_lease_token r = Some token \<and> (dispatching_only \<longrightarrow> di_state r = ''DISPATCHING''))
             (\<lambda>r. (close_row now r)\<lparr>di_lease_expires_at_ms := (if reset_lease then 0 else di_lease_expires_at_ms r)\<rparr>) db of
        Inl e \<Rightarrow> (Inl e, db) | Inr (n, db') \<Rightarrow> (Inr (), db'))"

definition requeue :: "bool \<Rightarrow> int \<Rightarrow> string \<Rightarrow> string \<Rightarrow> int \<Rightarrow> (supervisor_db, unit) dbop" where
  "requeue permanent max_retries eid token now db =
     (case update_dispatches None (\<lambda>r. di_event_id r = eid \<and> di_lease_token r = Some token)
             (\<lambda>r. r\<lparr>di_state := (if permanent \<or> max_retries \<le> di_retry_count r then ''FAILED_CLOSED'' else ''PENDING''),
                    di_lease_token := None, di_lease_expires_at_ms := 0, di_updated_at_ms := now\<rparr>) db of
        Inl e \<Rightarrow> (Inl e, db) | Inr (n, db') \<Rightarrow> (Inr (), db'))"

section \<open>Durable authority\<close>

definition case_linked :: "hasher \<Rightarrow> position_event \<Rightarrow> dispatch_row \<Rightarrow> case_package \<Rightarrow> unit res" where
  "case_linked H e r c =
     bindR (case_verify H c) (\<lambda>_.
       if cp_position_event_hash c \<noteq> Some (pe_event_hash e) then Inl (ValueError ''case event_hash linkage mismatch'')
       else if cp_case_id c \<noteq> ''pos-'' @ pe_event_id e then Inl (ValueError ''case_id linkage mismatch'')
       else if cp_symbol c \<noteq> pe_symbol e then Inl (ValueError ''case symbol mismatch'')
       else if di_position_case_hash r \<noteq> [] \<and> cp_case_hash c \<noteq> di_position_case_hash r then Inl (ValueError ''frozen case hash mismatch'')
       else if di_position_case_json r \<noteq> None \<and> di_position_case_json r \<noteq> Some c then Inl (ValueError ''frozen case json mismatch'')
       else Inr ())"

definition lease_held :: "dispatch_row \<Rightarrow> string \<Rightarrow> int option \<Rightarrow> unit res" where
  "lease_held r token check_now =
     (if di_lease_token r \<noteq> Some token then Inl (KeyError ''lease token mismatch'')
      else if di_state r \<noteq> ''DISPATCHING'' then Inl (KeyError ''dispatch state not DISPATCHING'')
      else (case check_now of
              None \<Rightarrow> Inr ()
            | Some now \<Rightarrow> if di_lease_expires_at_ms r \<le> now then Inl (KeyError ''lease expired'') else Inr ()))"

definition authority_key_matches :: "hasher \<Rightarrow> position_event \<Rightarrow> unit res" where
  "authority_key_matches H e =
     (if None \<notin> set [pe_environment e, pe_credential_namespace e, pe_account_id e, pe_position_side e] then
        bindR (event_key H e) (\<lambda>k. if pe_position_authority_key e \<noteq> Some k then Inl (ValueError ''position authority key mismatch'') else Inr ())
      else if pe_position_authority_key e \<noteq> None then Inl (ValueError ''position authority key mismatch'') else Inr ())"

definition verify_durable_authority ::
  "hasher \<Rightarrow> supervisor_db \<Rightarrow> string \<Rightarrow> string \<Rightarrow> string \<Rightarrow> string \<Rightarrow> case_package option \<Rightarrow> int option \<Rightarrow> (position_event \<times> dispatch_row) res" where
  "verify_durable_authority H db eid token event_hash symb pos_case check_now =
     (case (fetchone (\<lambda>r. ev_event_id r = eid) (live_position_events db), get_dispatch db eid) of
        (Some er, Some r) \<Rightarrow>
          bindR (event_from_row H er) (\<lambda>e.
            if pe_event_hash e \<noteq> event_hash then Inl (ValueError ''position event hash mismatch'')
            else if pe_symbol e \<noteq> symb then Inl (ValueError ''position event symbol mismatch'')
            else if (pe_event_id e, pe_event_hash e, pe_symbol e) \<noteq> (di_event_id r, di_event_hash r, di_symbol r)
            then Inl (ValueError ''event and dispatch identity mismatch'')
            else bindR (authority_key_matches H e) (\<lambda>_.
                 bindR (lease_held r token check_now) (\<lambda>_.
                 bindR (case pos_case of None \<Rightarrow> Inr () | Some c \<Rightarrow> case_linked H e r c) (\<lambda>_. Inr (e, r)))))
      | _ \<Rightarrow> Inl (ValueError ''position event or dispatch missing''))"

section \<open>Admission and completion\<close>

record analysis_admission =
  aa_authority_json :: dispatch_authority
  aa_authority_hash :: string
  aa_admission_hash :: string
  aa_case_json :: case_package
  aa_event_json :: position_event
  aa_provider_completed :: bool

definition dispatch_authority_of :: "position_event \<Rightarrow> case_package \<Rightarrow> string \<Rightarrow> dispatch_authority" where
  "dispatch_authority_of e c token =
     \<lparr>da_event_id = pe_event_id e, da_event_hash = pe_event_hash e, da_symbol = pe_symbol e, da_environment = pe_environment e,
      da_credential_namespace = pe_credential_namespace e, da_account_id = pe_account_id e, da_position_side = pe_position_side e,
      da_position_authority_key = pe_position_authority_key e, da_position_case_id = cp_case_id c, da_position_case_hash = cp_case_hash c,
      da_lease_token = token\<rparr>"

definition dispatch_authority_doc :: "dispatch_authority \<Rightarrow> json" where
  "dispatch_authority_doc a = JObj
     [(''schema_version'', JStr ''POSITION_DISPATCH_AUTHORITY_V1''), (''event_id'', JStr (da_event_id a)),
      (''event_hash'', JStr (da_event_hash a)), (''symbol'', JStr (da_symbol a)), (''environment'', jopt JStr (da_environment a)),
      (''credential_namespace'', jopt JStr (da_credential_namespace a)), (''account_id'', jopt JStr (da_account_id a)),
      (''position_side'', jopt JStr (da_position_side a)), (''position_authority_key'', jopt JStr (da_position_authority_key a)),
      (''position_case_id'', JStr (da_position_case_id a)), (''position_case_hash'', JStr (da_position_case_hash a)),
      (''lease_token'', JStr (da_lease_token a))]"

definition admission_hash :: "hasher \<Rightarrow> string \<Rightarrow> string" where
  "admission_hash H authority_hash = digest H (JObj
     [(''schema_version'', JStr ''POSITION_ANALYSIS_ADMISSION_V1''), (''dispatch_authority_hash'', JStr authority_hash)])"

definition verify_admission :: "hasher \<Rightarrow> dispatch_row \<Rightarrow> position_event \<Rightarrow> case_package \<Rightarrow> (dispatch_authority \<times> string \<times> string) res" where
  "verify_admission H r e c =
     (case di_dispatch_authority_json r of
        None \<Rightarrow> Inl (ValueError ''Expecting value'')
      | Some capsule \<Rightarrow>
          if da_lease_token capsule = [] then Inl (ValueError ''missing admitting lease'')
          else (let expected = dispatch_authority_of e c (da_lease_token capsule); ah = digest H (dispatch_authority_doc expected)
                in if capsule \<noteq> expected \<or> di_dispatch_authority_hash r \<noteq> ah \<or> di_analysis_admission_hash r \<noteq> admission_hash H ah
                   then Inl (ValueError ''analysis admission authority mismatch'')
                   else Inr (expected, ah, admission_hash H ah)))"

definition frozen_case :: "case_package \<Rightarrow> dispatch_row \<Rightarrow> bool" where
  "frozen_case c r \<longleftrightarrow> di_position_case_id r = cp_case_id c \<and> di_position_case_hash r = cp_case_hash c
     \<and> di_position_case_json r = Some c \<and> di_case_hash r = cp_case_hash c"

definition mint_body ::
  "hasher \<Rightarrow> string \<Rightarrow> string \<Rightarrow> string \<Rightarrow> string \<Rightarrow> case_package \<Rightarrow> int \<Rightarrow> int \<Rightarrow> supervisor_db \<Rightarrow> (analysis_admission \<times> supervisor_db) res" where
  "mint_body H eid token event_hash symb c now lease_ms db =
     bindR (verify_durable_authority H db eid token event_hash symb (Some c) (Some now)) (\<lambda>(e, r).
       if \<not> frozen_case c r then Inl (ValueError ''incomplete frozen case authority'')
       else if di_analysis_admission_hash r \<noteq> [] then
         bindR (verify_admission H r e c) (\<lambda>(a, ah, adm).
           if \<not> di_analysis_completed r then Inl (ValueError ''uncertain admitted analysis requires manual recovery'')
           else Inr (\<lparr>aa_authority_json = a, aa_authority_hash = ah, aa_admission_hash = adm, aa_case_json = c, aa_event_json = e,
                      aa_provider_completed = True\<rparr>, db))
       else if di_dispatch_authority_json r \<noteq> None \<or> di_dispatch_authority_hash r \<noteq> [] \<or> di_analysis_completed r
       then Inl (ValueError ''partial analysis admission'')
       else (let a = dispatch_authority_of e c token; ah = digest H (dispatch_authority_doc a); adm = admission_hash H ah
             in bindR (update_dispatches None
                  (\<lambda>q. di_event_id q = eid \<and> di_state q = ''DISPATCHING'' \<and> di_lease_token q = Some token \<and> now < di_lease_expires_at_ms q
                      \<and> di_analysis_admission_hash q = [] \<and> di_dispatch_authority_hash q = [] \<and> di_dispatch_authority_json q = None
                      \<and> frozen_case c q)
                  (\<lambda>q. q\<lparr>di_dispatch_authority_json := Some a, di_dispatch_authority_hash := ah, di_analysis_admission_hash := adm,
                         di_lease_expires_at_ms := now + lease_ms, di_updated_at_ms := now\<rparr>) db) (\<lambda>(n, db').
                if n \<noteq> 1 then Inl (KeyError ''analysis admission lease lost'')
                else Inr (\<lparr>aa_authority_json = a, aa_authority_hash = ah, aa_admission_hash = adm, aa_case_json = c, aa_event_json = e,
                           aa_provider_completed = False\<rparr>, db'))))"

definition mint_analysis_admission ::
  "hasher \<Rightarrow> string \<Rightarrow> string \<Rightarrow> string \<Rightarrow> string \<Rightarrow> case_package \<Rightarrow> int \<Rightarrow> int \<Rightarrow> (supervisor_db, analysis_admission) dbop" where
  "mint_analysis_admission H eid token event_hash symb c now lease_ms db =
     (case mint_body H eid token event_hash symb c now lease_ms db of Inl e \<Rightarrow> (Inl e, db) | Inr (a, db') \<Rightarrow> (Inr a, db'))"

definition complete_body ::
  "hasher \<Rightarrow> analysis_admission \<Rightarrow> string \<Rightarrow> int \<Rightarrow> supervisor_db \<Rightarrow> (position_event \<times> supervisor_db) res" where
  "complete_body H adm token now db =
     (let e0 = aa_event_json adm; c = aa_case_json adm
      in bindR (event_verify H e0) (\<lambda>_. bindR (case_verify H c) (\<lambda>_.
         bindR (verify_durable_authority H db (pe_event_id e0) token (pe_event_hash e0) (pe_symbol e0) (Some c) (Some now)) (\<lambda>(e, r).
         bindR (verify_admission H r e c) (\<lambda>current.
           if current \<noteq> (aa_authority_json adm, aa_authority_hash adm, aa_admission_hash adm) \<or> e \<noteq> e0 \<or> di_case_hash r \<noteq> cp_case_hash c
           then Inl (ValueError ''admitted analysis authority changed'')
           else bindR (update_dispatches (Some (aa_admission_hash adm, aa_authority_hash adm, Some token, cp_case_hash c))
                  (\<lambda>q. di_event_id q = pe_event_id e \<and> di_state q = ''DISPATCHING'' \<and> di_lease_token q = Some token
                      \<and> now < di_lease_expires_at_ms q \<and> frozen_case c q \<and> di_dispatch_authority_json q = Some (aa_authority_json adm)
                      \<and> di_dispatch_authority_hash q = aa_authority_hash adm \<and> di_analysis_admission_hash q = aa_admission_hash adm)
                  (\<lambda>q. q\<lparr>di_state := ''DONE'', di_analysis_completed := True, di_lease_token := None, di_lease_expires_at_ms := 0,
                         di_updated_at_ms := now\<rparr>) db) (\<lambda>(n, db').
                if n \<noteq> 1 then Inl (KeyError ''analysis completion lease lost'') else Inr (e, db')))))))"

definition complete_analysis :: "hasher \<Rightarrow> analysis_admission \<Rightarrow> string \<Rightarrow> int \<Rightarrow> (supervisor_db, position_event) dbop" where
  "complete_analysis H adm token now db =
     (case complete_body H adm token now db of Inl e \<Rightarrow> (Inl e, db) | Inr (ev, db') \<Rightarrow> (Inr ev, db'))"

end
