(* ===== verification/Drain.thy ===== *)
theory Drain
  imports Dispatch
begin

text \<open>
  The position supervisor, third part: \<open>drain_pending_dispatches\<close>, the loop of one worker, and \<open>process\<close>.
  The database blocks are those of the theory \<open>Dispatch\<close>; the clock, the random tokens, the waiting time for
  the write lock, the fresh market case and the analysis are parameters. The last two are calls into other
  code of the same process, so they work on the whole state: while an analysis is awaited, other tasks
  may use the database.

  The loop may run for ever on a state where the outside adds work as fast as it is done:
  \<open>drain_loop\<close> is a partial function, \<open>None\<close> when it does not return.
\<close>

section \<open>Position cases\<close>

definition position_case_from_event :: "hasher \<Rightarrow> case_package \<Rightarrow> position_event \<Rightarrow> case_package res" where
  "position_case_from_event H base e =
     (let ttl = max 60000 (cp_expires_at_ms base - cp_created_at_ms base); event_time = pe_observed_at_ms e
      in case_validate H True
        \<lparr>cp_case_id = ''pos-'' @ pe_event_id e, cp_case_hash = [], cp_created_at_ms = event_time, cp_observed_at_ms = event_time,
         cp_expires_at_ms = event_time + ttl, cp_symbol = cp_symbol base, cp_trigger = pe_trigger e, cp_strategy = cp_strategy base,
         cp_strategy_version = cp_strategy_version base, cp_direction = cp_direction base, cp_evidence_id = cp_evidence_id base,
         cp_snapshot_hash = cp_snapshot_hash base, cp_signal_identity = cp_signal_identity base, cp_source = ''POSITION_SUPERVISOR'',
         cp_source_receipts = [], cp_base_case_hash = Some (cp_case_hash base), cp_position_event_hash = Some (pe_event_hash e),
         cp_price = cp_price base, cp_entry_low = cp_entry_low base, cp_entry_high = cp_entry_high base, cp_stop_loss = cp_stop_loss base,
         cp_take_profit_1 = cp_take_profit_1 base, cp_take_profit_2 = cp_take_profit_2 base, cp_supports = [], cp_resistances = [],
         cp_atr = cp_atr base, cp_volatility_percentile = None, cp_volume = Fin 0, cp_regime_15m = ''UNKNOWN'', cp_regime_1h = ''UNKNOWN'',
         cp_regime_4h = ''UNKNOWN'', cp_funding_rate = None, cp_open_interest = None, cp_oi_1h_change = None, cp_oi_4h_change = None,
         cp_oi_12h_change = None, cp_basis_rate = None, cp_taker_ratio = None, cp_global_account_ratio = None,
         cp_top_trader_position_ratio = None, cp_top_trader_account_ratio = None, cp_spread_bps = cp_spread_bps base,
         cp_book_imbalance = None, cp_liquidity_usdt = cp_liquidity_usdt base, cp_liquidity_measure = ''UNKNOWN'', cp_reason_codes = [],
         cp_risk_codes = [], cp_veto_reasons = [], cp_entry_quality = ''UNKNOWN'', cp_grid_state = ''UNKNOWN'', cp_calibration = None,
         cp_account = None, cp_data_quality = cp_data_quality base, cp_missing_fields = [], cp_source_errors = []\<rparr>)"

text \<open>The case of an earlier attempt, read back from the row. All its exceptions are \<open>ValueError\<close>s.\<close>

definition stored_case :: "hasher \<Rightarrow> position_event \<Rightarrow> dispatch_row \<Rightarrow> case_package \<Rightarrow> case_package res" where
  "stored_case H e r c =
     bindR (case_verify H c) (\<lambda>_.
       if di_position_case_hash r \<noteq> [] \<and> cp_case_hash c \<noteq> di_position_case_hash r \<or> di_case_hash r \<noteq> [] \<and> cp_case_hash c \<noteq> di_case_hash r
       then Inl (ValueError ''stored case hash mismatch'')
       else if di_position_case_id r \<noteq> [] \<and> cp_case_id c \<noteq> di_position_case_id r then Inl (ValueError ''stored case id mismatch'')
       else if cp_position_event_hash c \<noteq> Some (pe_event_hash e) then Inl (ValueError ''event hash linkage mismatch'')
       else if cp_case_id c \<noteq> ''pos-'' @ pe_event_id e then Inl (ValueError ''case_id linkage mismatch'')
       else if cp_symbol c \<noteq> pe_symbol e then Inl (ValueError ''position case symbol mismatch'')
       else Inr c)"

definition freeze_case :: "string \<Rightarrow> string \<Rightarrow> string \<Rightarrow> string \<Rightarrow> case_package \<Rightarrow> int \<Rightarrow> (supervisor_db, nat) dbop" where
  "freeze_case eid event_hash symb token c now db =
     (case update_dispatches None
             (\<lambda>r. di_event_id r = eid \<and> di_event_hash r = event_hash \<and> di_symbol r = symb \<and> di_state r = ''DISPATCHING''
                \<and> di_lease_token r = Some token \<and> now < di_lease_expires_at_ms r \<and> di_position_case_json r = None)
             (\<lambda>r. r\<lparr>di_position_case_id := cp_case_id c, di_position_case_hash := cp_case_hash c, di_position_case_json := Some c,
                    di_case_hash := cp_case_hash c, di_updated_at_ms := now\<rparr>) db of
        Inl e \<Rightarrow> (Inl e, db) | Inr (n, db') \<Rightarrow> (Inr n, db'))"

section \<open>The worker\<close>

record 'w supervisor_state =
  sv_db :: supervisor_db
  sv_world :: 'w

type_synonym ('w, 'a) sact = "('w supervisor_state, 'a) dbop"

text \<open>What the worker is given: the hash, the random tokens, the optional lease clock, the milliseconds since
  the drain began, the milliseconds spent waiting for the write lock, the optional fresh market case, the optional
  analysis.\<close>

record 'w supervisor_env =
  se_hash :: hasher
  se_token :: "'w \<Rightarrow> string \<times> 'w"
  se_lease_clock :: "('w \<Rightarrow> int \<times> 'w) option"
  se_elapsed_ms :: "'w \<Rightarrow> int \<times> 'w"
  se_lock_wait_ms :: "'w \<Rightarrow> int \<times> 'w"
  se_fresh_market_case :: "(string \<Rightarrow> ('w, case_package) sact) option"
  se_analyze_case :: "(case_package \<Rightarrow> ('w, unit) sact) option"

definition in_db :: "(supervisor_db, 'a) dbop \<Rightarrow> ('w, 'a) sact" where
  "in_db m s = (case m (sv_db s) of (r, db') \<Rightarrow> (r, s\<lparr>sv_db := db'\<rparr>))"

definition ask_world :: "('w \<Rightarrow> 'a \<times> 'w) \<Rightarrow> ('w, 'a) sact" where
  "ask_world f s = (case f (sv_world s) of (x, w') \<Rightarrow> (Inr x, s\<lparr>sv_world := w'\<rparr>))"

definition lease_now_ms :: "'w supervisor_env \<Rightarrow> int \<Rightarrow> ('w, int) sact" where
  "lease_now_ms E now_ms =
     (case se_lease_clock E of
        Some clock \<Rightarrow> ask_world clock
      | None \<Rightarrow> sbind (ask_world (se_elapsed_ms E)) (\<lambda>d. ret (now_ms + d)))"

definition verify_now :: "'w supervisor_env \<Rightarrow> string \<Rightarrow> string \<Rightarrow> string \<Rightarrow> string \<Rightarrow> case_package option \<Rightarrow> ('w, position_event \<times> dispatch_row) sact" where
  "verify_now E eid token event_hash symb pos_case =
     with_state (\<lambda>s. lift_res (verify_durable_authority (se_hash E) (sv_db s) eid token event_hash symb pos_case None))"

text \<open>One round of the loop ends the loop (\<open>break\<close>) or goes on to the next one, possibly with an event that was
  dispatched.\<close>

datatype drain_outcome = Stop | Again "position_event option"

text \<open>The \<open>try\<close> blocks of the loop: a \<open>KeyError\<close> breaks, a cancellation escapes, every other exception closes the row
  and continues.\<close>

definition attempt :: "('w, unit) sact \<Rightarrow> ('w, 'a) sact \<Rightarrow> ('a \<Rightarrow> ('w, drain_outcome) sact) \<Rightarrow> ('w, drain_outcome) sact" where
  "attempt handler m k s =
     (case m s of
        (Inr x, s') \<Rightarrow> k x s'
      | (Inl e, s') \<Rightarrow>
          (case e of
             KeyError x \<Rightarrow> (Inr Stop, s')
           | CancelledError \<Rightarrow> (Inl CancelledError, s')
           | _ \<Rightarrow> sbind handler (\<lambda>_. ret (Again None)) s'))"

definition materialize :: "'w supervisor_env \<Rightarrow> (string \<Rightarrow> ('w, case_package) sact) \<Rightarrow> position_event \<Rightarrow> ('w, case_package) sact" where
  "materialize E fresh e =
     sbind (fresh (pe_symbol e)) (\<lambda>base.
     lift_res (bindR (case_verify (se_hash E) base) (\<lambda>_.
       if cp_symbol base \<noteq> pe_symbol e then Inl (ValueError ''FRESH_MARKET_CASE_SYMBOL_MISMATCH'')
       else bindR (position_case_from_event (se_hash E) base e) (case_verify (se_hash E)))))"

text \<open>Any exception of the materialisation gives the row back, except for the wrong symbol, which closes it. A
  cancellation is not an \<open>Exception\<close>.\<close>

definition attempt_fresh ::
  "int \<Rightarrow> string \<Rightarrow> string \<Rightarrow> int \<Rightarrow> ('w, case_package) sact \<Rightarrow> (case_package \<Rightarrow> ('w, drain_outcome) sact) \<Rightarrow> ('w, drain_outcome) sact" where
  "attempt_fresh max_retries eid token now_ms m k s =
     (case m s of
        (Inr c, s') \<Rightarrow> k c s'
      | (Inl e, s') \<Rightarrow>
          if e = CancelledError then (Inl e, s')
          else sbind (in_db (requeue (err_str e = ''FRESH_MARKET_CASE_SYMBOL_MISMATCH'') max_retries eid token now_ms)) (\<lambda>_. ret (Again None)) s')"

definition analyse_and_complete ::
  "'w supervisor_env \<Rightarrow> (case_package \<Rightarrow> ('w, unit) sact) \<Rightarrow> int \<Rightarrow> string \<Rightarrow> analysis_admission \<Rightarrow> ('w, position_event) sact" where
  "analyse_and_complete E analyze now_ms token adm =
     sbind (if aa_provider_completed adm then ret () else sbind (lift_res (case_verify (se_hash E) (aa_case_json adm))) analyze) (\<lambda>_.
     sbind (lease_now_ms E now_ms) (\<lambda>done_now.
     sbind (ask_world (se_lock_wait_ms E)) (\<lambda>wait.
     in_db (complete_analysis (se_hash E) adm token (done_now + wait)))))"

definition mint_and_run ::
  "'w supervisor_env \<Rightarrow> (case_package \<Rightarrow> ('w, unit) sact) \<Rightarrow> int \<Rightarrow> int \<Rightarrow> string \<Rightarrow> dispatch_row \<Rightarrow> case_package \<Rightarrow> ('w, drain_outcome) sact" where
  "mint_and_run E analyze now_ms lease_ms token row c =
     sbind (lease_now_ms E now_ms) (\<lambda>analysis_now.
     attempt (in_db (close_dispatch True False (di_event_id row) token now_ms))
       (sbind (ask_world (se_lock_wait_ms E)) (\<lambda>wait.
          in_db (mint_analysis_admission (se_hash E) (di_event_id row) token (di_event_hash row) (di_symbol row) c (analysis_now + wait) lease_ms)))
       (\<lambda>adm. attempt (in_db (close_dispatch True True (di_event_id row) token now_ms))
                (analyse_and_complete E analyze now_ms token adm) (\<lambda>ev. ret (Again (Some ev)))))"

definition freeze_and_run ::
  "'w supervisor_env \<Rightarrow> (string \<Rightarrow> ('w, case_package) sact) \<Rightarrow> (case_package \<Rightarrow> ('w, unit) sact) \<Rightarrow> int \<Rightarrow> int \<Rightarrow> int \<Rightarrow> string \<Rightarrow> dispatch_row
     \<Rightarrow> ('w, drain_outcome) sact" where
  "freeze_and_run E fresh analyze now_ms lease_ms max_retries token row =
     (let verify = verify_now E (di_event_id row) token (di_event_hash row) (di_symbol row);
          close = in_db (close_dispatch False False (di_event_id row) token now_ms)
      in attempt close (verify None) (\<lambda>(e, r).
         attempt_fresh max_retries (di_event_id row) token now_ms (materialize E fresh e) (\<lambda>c.
         attempt close (verify (Some c)) (\<lambda>_.
         sbind (lease_now_ms E now_ms) (\<lambda>freeze_now.
         sbind (in_db (freeze_case (di_event_id row) (di_event_hash row) (di_symbol row) token c freeze_now)) (\<lambda>n.
         if n \<noteq> 1 then ret Stop else mint_and_run E analyze now_ms lease_ms token row c))))))"

definition run_leased ::
  "'w supervisor_env \<Rightarrow> (string \<Rightarrow> ('w, case_package) sact) \<Rightarrow> (case_package \<Rightarrow> ('w, unit) sact) \<Rightarrow> int \<Rightarrow> int \<Rightarrow> int \<Rightarrow> string \<Rightarrow> dispatch_row
     \<Rightarrow> ('w, drain_outcome) sact" where
  "run_leased E fresh analyze now_ms lease_ms max_retries token row =
     (let close = in_db (close_dispatch False False (di_event_id row) token now_ms)
      in attempt close (verify_now E (di_event_id row) token (di_event_hash row) (di_symbol row) None) (\<lambda>(e, r).
         case di_position_case_json r of
           Some c \<Rightarrow> attempt close (lift_res (stored_case (se_hash E) e r c)) (mint_and_run E analyze now_ms lease_ms token row)
         | None \<Rightarrow> freeze_and_run E fresh analyze now_ms lease_ms max_retries token row))"

text \<open>One round: claim a row, then work on it.\<close>

definition drain_once ::
  "'w supervisor_env \<Rightarrow> (string \<Rightarrow> ('w, case_package) sact) \<Rightarrow> (case_package \<Rightarrow> ('w, unit) sact) \<Rightarrow> int \<Rightarrow> int \<Rightarrow> int \<Rightarrow> ('w, drain_outcome) sact" where
  "drain_once E fresh analyze now_ms lease_ms max_retries =
     sbind (ask_world (se_token E)) (\<lambda>token.
     sbind (lease_now_ms E now_ms) (\<lambda>claim_now.
     sbind (in_db (claim_dispatch token claim_now lease_ms max_retries)) (\<lambda>result.
       case result of
         NothingPending \<Rightarrow> ret Stop
       | GivenUp \<Rightarrow> ret (Again None)
       | Missed \<Rightarrow> ret (Again None)
       | Leased row \<Rightarrow> run_leased E fresh analyze now_ms lease_ms max_retries token row)))"

partial_function (option) drain_loop ::
  "('w, drain_outcome) sact \<Rightarrow> position_event list \<Rightarrow> 'w supervisor_state \<Rightarrow> (position_event list res \<times> 'w supervisor_state) option" where
  "drain_loop body events s =
     (case body s of (r, s') \<Rightarrow>
        (case r of
           Inl e \<Rightarrow> Some (Inl e, s')
         | Inr out \<Rightarrow>
             (case out of
                Stop \<Rightarrow> Some (Inr events, s')
              | Again x \<Rightarrow> drain_loop body (case x of None \<Rightarrow> events | Some e \<Rightarrow> events @ [e]) s')))"

definition drain_pending_dispatches ::
  "'w supervisor_env \<Rightarrow> int \<Rightarrow> int \<Rightarrow> int \<Rightarrow> 'w supervisor_state \<Rightarrow> (position_event list res \<times> 'w supervisor_state) option" where
  "drain_pending_dispatches E now_ms lease_ms max_retries s =
     (case (se_analyze_case E, se_fresh_market_case E) of
        (Some analyze, Some fresh) \<Rightarrow> drain_loop (drain_once E fresh analyze now_ms lease_ms max_retries) [] s
      | _ \<Rightarrow> Some (Inr [], s))"

text \<open>\<open>process\<close>: evaluate an observation, then drain with the default lease and retries.\<close>

definition process_observation ::
  "'w supervisor_env \<Rightarrow> supervisor_policy \<Rightarrow> position_observation \<Rightarrow> (string \<Rightarrow> string) \<Rightarrow> int \<Rightarrow> 'w supervisor_state
     \<Rightarrow> (position_event list res \<times> 'w supervisor_state) option" where
  "process_observation E p obs tokens now_ms s =
     (case in_db (evaluate_position (se_hash E) p obs now_ms tokens) s of
        (Inl e, s') \<Rightarrow> Some (Inl e, s')
      | (Inr events, s') \<Rightarrow>
          (case drain_pending_dispatches E now_ms 30000 3 s' of
             None \<Rightarrow> None
           | Some (Inl e, s'') \<Rightarrow> Some (Inl e, s'')
           | Some (Inr drained, s'') \<Rightarrow> Some (Inr events, s'')))"

end
