(* ===== verification/Executor.thy ===== *)
theory Executor
  imports Drain Testnet_Backend
begin

text \<open>
  The coordinator of one execution (\<open>execution/executor.py\<close>, class \<open>LiveExecutionService\<close>): it validates the
  intent, picks the backend, runs the mutation in a thread it cannot lose, records the report and hands
  a dry-run fill to the position supervisor.

  The state is that of the backend and the tables of the supervisor; both work in the same world. The market
  stream, the account watch and the providers of tactical inputs are parameters; the validator, the two backends, the intent
  store and the supervisor are the definitions of the other theories. The supervisor may loop, so a run has the value \<open>None\<close> when it
  does not return. The synchronous entry points only run the coroutines in an event loop of their own.
\<close>

section \<open>State and parameters\<close>

record 'w executor_state =
  xs_backend :: "'w backend_state"
  xs_supervisor :: supervisor_db

record 'w live_supervisor =
  sup_env :: "'w supervisor_env"
  sup_policy :: supervisor_policy
  sup_tokens :: "string \<Rightarrow> string"

record 'w live_execution =
  lx_hash :: hasher
  lx_journal :: "'w \<Rightarrow> live_db"
  lx_clock :: "'w \<Rightarrow> int \<times> 'w"
  lx_account :: "'w \<Rightarrow> account_snapshot option res \<times> 'w"
  lx_market :: "int \<Rightarrow> 'w \<Rightarrow> market_observation option res \<times> 'w"
  lx_validator :: validator_config
  lx_open_quantity :: "(string \<Rightarrow> string \<Rightarrow> flt option) option"
  lx_testnet_backend :: "'w backend option"
  lx_supervisor :: "'w live_supervisor option"
  lx_tactical_regime :: "(string \<Rightarrow> string option) option"
  lx_funding_rate :: "(string \<Rightarrow> flt option) option"
  lx_oi_change :: "(string \<Rightarrow> flt option) option"
  lx_volatility :: "(string \<Rightarrow> flt option) option"

text \<open>An action that may also fail to return.\<close>

type_synonym ('s, 'a) run = "'s \<Rightarrow> ('a res \<times> 's) option"

definition returning :: "('s, 'a) dbop \<Rightarrow> ('s, 'a) run" where
  "returning m s = Some (m s)"

definition then_run :: "('s, 'a) dbop \<Rightarrow> ('a \<Rightarrow> ('s, 'b) run) \<Rightarrow> ('s, 'b) run" where
  "then_run m k s = (case m s of (Inl e, s') \<Rightarrow> Some (Inl e, s') | (Inr x, s') \<Rightarrow> k x s')"

definition on_backend :: "('w, 'a) act \<Rightarrow> ('w executor_state, 'a) dbop" where
  "on_backend m s = (case m (xs_backend s) of (r, b) \<Rightarrow> (r, s\<lparr>xs_backend := b\<rparr>))"

text \<open>The supervisor's part of the state, in the world the backend left.\<close>

definition on_supervisor :: "('w supervisor_state, 'a) run \<Rightarrow> ('w executor_state, 'a) run" where
  "on_supervisor m s =
     (case m \<lparr>sv_db = xs_supervisor s, sv_world = bs_world (xs_backend s)\<rparr> of
        None \<Rightarrow> None
      | Some (r, t) \<Rightarrow> Some (r, \<lparr>xs_backend = (xs_backend s)\<lparr>bs_world := sv_world t\<rparr>, xs_supervisor = sv_db t\<rparr>))"

section \<open>Waiting for a mutation\<close>

text \<open>What may happen while the coordinator waits for its thread, before the thread is done: the coordinator is
  cancelled, or the task of the thread itself is cancelled, when the thread may (\<open>True\<close>) or may not have started.\<close>

datatype wait_event = Waiter_Cancelled | Task_Cancelled bool

fun await_owned_mutation :: "wait_event list \<Rightarrow> bool \<Rightarrow> ('s, 'a) dbop \<Rightarrow> ('s, 'a \<times> bool) dbop" where
  "await_owned_mutation [] cancelled m = sbind m (\<lambda>r. ret (r, cancelled))"
| "await_owned_mutation (Waiter_Cancelled # ws) cancelled m = await_owned_mutation ws True m"
| "await_owned_mutation (Task_Cancelled started # ws) cancelled m =
     (\<lambda>s. (Inl CancelledError, if started then snd (m s) else s))"

section \<open>The observation of a fill\<close>

definition provided :: "(string \<Rightarrow> 'a option) option \<Rightarrow> string \<Rightarrow> 'a option" where
  "provided f symb = Option.bind f (\<lambda>g. g symb)"

definition build_position_observation ::
  "'w live_execution \<Rightarrow> live_db \<Rightarrow> trade_intent \<Rightarrow> execution_report \<Rightarrow> account_snapshot \<Rightarrow> market_observation \<Rightarrow> int
     \<Rightarrow> position_observation res" where
  "build_position_observation E ldb i r a m now =
     bindR (catch_key (get_case (lx_hash E) ldb (ti_case_id i))) (\<lambda>c.
     bindR (fdiv (er_filled_qty r * er_avg_price r) (float_of_int (ti_leverage i))) (\<lambda>margin.
     observation_validate (lx_hash E) True
       \<lparr>pob_account_snapshot_hash = as_snapshot_hash a, pob_market_source_hash = mo_observation_hash m,
        pob_environment = as_environment a, pob_credential_namespace = as_credential_namespace a, pob_symbol = ti_symbol i,
        pob_account_id = as_account_id a, pob_position_side = ''BOTH'', pob_observed_at_ms = now,
        pob_quantity = (if ti_side i = ''BUY'' then er_filled_qty r else - er_filled_qty r),
        pob_previous_quantity = Fin 0, pob_entry_price = er_avg_price r, pob_mark_price = mo_mark_price m,
        pob_unrealized_pnl_usdt = Fin 0, pob_realized_pnl_usdt = Fin 0, pob_margin_usdt = margin,
        pob_stop_price = ti_stop_loss i, pob_take_profit_price = ti_take_profit_1 i,
        pob_funding_rate = provided (lx_funding_rate E) (ti_symbol i), pob_oi_change_pct = provided (lx_oi_change E) (ti_symbol i),
        pob_volatility_percentile = provided (lx_volatility E) (ti_symbol i), pob_spread_bps = Some (mo_spread_bps m),
        pob_tactical_regime = provided (lx_tactical_regime E) (ti_symbol i), pob_grid_boundary_breached = False,
        pob_order_status = er_status r, pob_order_filled_quantity = er_filled_qty r, pob_order_observed_at_ms = now,
        pob_evidence_id = map_option cp_evidence_id c, pob_signal_identity = map_option cp_signal_identity c,
        pob_prior_evidence_ids = [], pob_prior_signal_identities = [], pob_add_opportunity = False, pob_observation_hash = []\<rparr>))"

definition observe_fill ::
  "'w live_execution \<Rightarrow> trade_intent \<Rightarrow> execution_report \<Rightarrow> account_snapshot \<Rightarrow> market_observation \<Rightarrow> int \<Rightarrow> ('w, position_observation) act" where
  "observe_fill E i r a m now =
     with_state (\<lambda>s. lift_res (build_position_observation E (lx_journal E (bs_world s)) i r a m now))"

section \<open>After the mutation\<close>

text \<open>The report is recorded, a dry-run fill is supervised, and only then a cancellation is raised.\<close>

definition supervised :: "'w live_execution \<Rightarrow> trade_intent \<Rightarrow> execution_report \<Rightarrow> 'w live_supervisor option" where
  "supervised E i r = (if 0 < er_filled_qty r \<and> ti_environment i \<noteq> ''TESTNET'' then lx_supervisor E else None)"

definition give_back :: "execution_report \<Rightarrow> bool \<Rightarrow> ('w executor_state, execution_report) run" where
  "give_back r cancelled = returning (if cancelled then raise CancelledError else ret r)"

definition process_fill :: "'w live_supervisor \<Rightarrow> position_observation \<Rightarrow> int \<Rightarrow> ('w executor_state, position_event list) run" where
  "process_fill S obs now = on_supervisor (process_observation (sup_env S) (sup_policy S) obs (sup_tokens S) now)"

definition run_seq :: "('s, 'a) run \<Rightarrow> ('a \<Rightarrow> ('s, 'b) run) \<Rightarrow> ('s, 'b) run" where
  "run_seq m k s = (case m s of None \<Rightarrow> None | Some (Inl e, s') \<Rightarrow> Some (Inl e, s') | Some (Inr x, s') \<Rightarrow> k x s')"

definition settle_report ::
  "'w live_execution \<Rightarrow> trade_intent \<Rightarrow> string \<Rightarrow> int \<Rightarrow> (execution_report \<Rightarrow> ('w, position_observation option) act) \<Rightarrow> execution_report \<times> bool
     \<Rightarrow> ('w executor_state, execution_report) run" where
  "settle_report E i iid now observe rc =
     (let r = fst rc; finish = give_back r (snd rc)
      in then_run (on_backend (db_op (update_status iid (er_status r) (er_reason r) now))) (\<lambda>_.
           case supervised E i r of
             None \<Rightarrow> finish
           | Some S \<Rightarrow>
               then_run (on_backend (observe r)) (\<lambda>obs.
                 case obs of
                   None \<Rightarrow> finish
                 | Some ob \<Rightarrow> run_seq (process_fill S ob now) (\<lambda>_. finish))))"

section \<open>Reconciliation\<close>

definition now_or_clock :: "'w live_execution \<Rightarrow> int option \<Rightarrow> ('w, int) act" where
  "now_or_clock E now_ms =
     (case now_ms of Some t \<Rightarrow> ret t | None \<Rightarrow> world_op (\<lambda>w. case lx_clock E w of (t, w') \<Rightarrow> (Inr t, w')))"

definition known_intent :: "'w live_execution \<Rightarrow> string \<Rightarrow> ('w, trade_intent) act" where
  "known_intent E iid =
     sbind (db_read (\<lambda>db. get_intent (lx_hash E) db iid)) (\<lambda>found.
       case found of None \<Rightarrow> raise (KeyError (''unknown intent: '' @ iid)) | Some i \<Rightarrow> ret i)"

text \<open>\<open>None\<close> is the dry-run backend.\<close>

definition choose_backend :: "'w live_execution \<Rightarrow> trade_intent \<Rightarrow> 'w backend option res" where
  "choose_backend E i =
     (if ti_environment i = ''TESTNET'' then
        (case lx_testnet_backend E of
           None \<Rightarrow> Inl (ExecutionBlocked ''TESTNET backend is not configured'')
         | Some B \<Rightarrow> Inr (Some B))
      else Inr None)"

definition observe_latest :: "'w live_execution \<Rightarrow> trade_intent \<Rightarrow> int \<Rightarrow> execution_report \<Rightarrow> ('w, position_observation option) act" where
  "observe_latest E i now r =
     sbind (world_op (lx_market E now)) (\<lambda>market.
     sbind (world_op (lx_account E)) (\<lambda>account.
       case (market, account) of
         (Some m, Some a) \<Rightarrow> sbind (observe_fill E i r a m now) (\<lambda>ob. ret (Some ob))
       | _ \<Rightarrow> ret None))"

definition reconcile_mutation :: "'w live_execution \<Rightarrow> wait_event list \<Rightarrow> trade_intent \<Rightarrow> string \<Rightarrow> int \<Rightarrow> ('w, execution_report \<times> bool) act" where
  "reconcile_mutation E ws i iid now =
     sbind (lift_res (choose_backend E i)) (\<lambda>backend.
       await_owned_mutation ws False
         (case backend of
            Some B \<Rightarrow> reconcile_authorized B iid now
          | None \<Rightarrow> db_op (reconcile_intent (lx_open_quantity E) i now None)))"

definition reconcile_live_intent ::
  "'w live_execution \<Rightarrow> wait_event list \<Rightarrow> string \<Rightarrow> int option \<Rightarrow> ('w executor_state, execution_report) run" where
  "reconcile_live_intent E ws iid now_ms =
     then_run (on_backend (now_or_clock E now_ms)) (\<lambda>now.
     then_run (on_backend (known_intent E iid)) (\<lambda>i.
     then_run (on_backend (reconcile_mutation E ws i iid now)) (\<lambda>rc.
     settle_report E i iid now (observe_latest E i now) rc)))"

section \<open>Execution\<close>

definition aborted_report :: "trade_intent \<Rightarrow> string \<Rightarrow> string \<Rightarrow> execution_report" where
  "aborted_report i iid reason =
     \<lparr>er_intent_id = iid, er_status = ''ABORTED'', er_order_id = [], er_client_order_id = ti_client_order_id i,
      er_requested_qty = ti_quantity i, er_filled_qty = Fin 0, er_avg_price = Fin 0, er_protective_stop_id = None,
      er_reason = reason, er_raw = None\<rparr>"

definition abort_intent :: "trade_intent \<Rightarrow> string \<Rightarrow> string \<Rightarrow> int \<Rightarrow> ('w executor_state, execution_report) run" where
  "abort_intent i iid reason now =
     then_run (on_backend (db_op (update_status iid ''ABORTED'' reason now))) (\<lambda>_. returning (ret (aborted_report i iid reason)))"

definition gate :: "'w live_execution \<Rightarrow> trade_intent \<Rightarrow> market_observation \<Rightarrow> account_snapshot \<Rightarrow> int \<Rightarrow> ('w, validation_result) act" where
  "gate E i m a now =
     with_state (\<lambda>s. lift_res (validate (lx_hash E) (lx_validator E) (bs_kill s) (lx_journal E (bs_world s)) (bs_db s) i m a now))"

definition authorize_intent :: "'w live_execution \<Rightarrow> string \<Rightarrow> market_observation \<Rightarrow> account_snapshot \<Rightarrow> int \<Rightarrow> ('w, authorization) act" where
  "authorize_intent E iid m a now =
     with_state (\<lambda>s. db_op (authorize (lx_hash E) (lx_validator E) (bs_kill s) (lx_journal E (bs_world s)) iid m a now None))"

definition submit_mutation ::
  "'w live_execution \<Rightarrow> wait_event list \<Rightarrow> trade_intent \<Rightarrow> string \<Rightarrow> market_observation \<Rightarrow> account_snapshot \<Rightarrow> int
     \<Rightarrow> ('w, execution_report \<times> bool) act" where
  "submit_mutation E ws i iid m a now =
     sbind (lift_res (choose_backend E i)) (\<lambda>backend.
       case backend of
         Some B \<Rightarrow>
           sbind (authorize_intent E iid m a now) (\<lambda>u. await_owned_mutation ws False (submit_authorized B (au_authorization_id u)))
       | None \<Rightarrow>
           sbind (db_op (update_status iid ''SUBMITTING'' ''SUBMITTING_ORDER'' now)) (\<lambda>_.
           await_owned_mutation ws False (db_op (submit_intent i now))))"

definition execute_validated ::
  "'w live_execution \<Rightarrow> wait_event list \<Rightarrow> trade_intent \<Rightarrow> string \<Rightarrow> int \<Rightarrow> market_observation \<Rightarrow> account_snapshot
     \<Rightarrow> ('w executor_state, execution_report) run" where
  "execute_validated E ws i iid now m a =
     then_run (on_backend (gate E i m a now)) (\<lambda>v.
       if \<not> vr_is_valid v then abort_intent i iid (vr_reason v) now
       else then_run (on_backend (submit_mutation E ws i iid m a now)) (\<lambda>rc.
         settle_report E i iid now (\<lambda>r. sbind (observe_fill E i r a m now) (\<lambda>ob. ret (Some ob))) rc))"

definition execute_approved_intent ::
  "'w live_execution \<Rightarrow> wait_event list \<Rightarrow> string \<Rightarrow> int option \<Rightarrow> ('w executor_state, execution_report) run" where
  "execute_approved_intent E ws iid now_ms =
     then_run (on_backend (now_or_clock E now_ms)) (\<lambda>now.
     then_run (on_backend (known_intent E iid)) (\<lambda>i.
     then_run (on_backend (db_read (\<lambda>db. has_existing_side_effect (lx_hash E) db iid))) (\<lambda>existing.
       if existing then reconcile_live_intent E ws iid (Some now)
       else then_run (on_backend (world_op (lx_market E now))) (\<lambda>market.
         case market of
           None \<Rightarrow> abort_intent i iid ''MARKET_DATA_UNAVAILABLE'' now
         | Some m \<Rightarrow>
             then_run (on_backend (world_op (lx_account E))) (\<lambda>account.
               case account of
                 None \<Rightarrow> abort_intent i iid ''ACCOUNT_SNAPSHOT_UNAVAILABLE'' now
               | Some a \<Rightarrow> execute_validated E ws i iid now m a)))))"

end
