(* ===== verification/Executor_Safety.thy ===== *)
theory Executor_Safety
  imports Executor Testnet_Safety
begin

text \<open>
  What an execution guarantees. Cancelling the coordinator while it waits, however often, changes nothing but the
  answer: the state is the one of the run that was left alone. And an entry order reaches the exchange
  only for an intent that the validator accepted during the very call that sends it.
\<close>

section \<open>Cancellation\<close>

lemma await_cancelled:
  "await_owned_mutation (replicate n Waiter_Cancelled) c m = sbind m (\<lambda>r. ret (r, c \<or> 0 < n))"
  by (induction n arbitrary: c) simp_all

text \<open>The same run, except that a report may be replaced by a cancellation.\<close>

definition masks :: "'a res \<Rightarrow> 'a res \<Rightarrow> bool" where
  "masks r r' \<longleftrightarrow> r' = r \<or> (\<exists>x. r = Inr x) \<and> r' = Inl CancelledError"

definition masked_at :: "('a res \<times> 's) option \<Rightarrow> ('a res \<times> 's) option \<Rightarrow> bool" where
  "masked_at y y' \<longleftrightarrow> (case y of None \<Rightarrow> y' = None | Some (r, s') \<Rightarrow> (\<exists>r'. y' = Some (r', s') \<and> masks r r'))"

definition masked_run :: "('s, 'a) run \<Rightarrow> ('s, 'a) run \<Rightarrow> bool" where
  "masked_run m m' \<longleftrightarrow> (\<forall>s. masked_at (m s) (m' s))"

lemma masked_same: "masked_at y y"
  by (auto simp: masked_at_def masks_def split: option.splits prod.splits)

lemma masked_refl: "masked_run m m"
  by (simp add: masked_run_def masked_same)

lemma masked_then: "(\<And>x. masked_run (k x) (k' x)) \<Longrightarrow> masked_run (then_run m k) (then_run m k')"
  by (simp add: masked_run_def then_run_def masked_same split: prod.splits sum.splits)

lemma masked_seq: "(\<And>x. masked_run (k x) (k' x)) \<Longrightarrow> masked_run (run_seq m k) (run_seq m k')"
  by (simp add: masked_run_def run_seq_def masked_same split: prod.splits sum.splits option.splits)

lemma masked_give_back: "masked_run (give_back r False) (give_back r c)"
  by (simp add: masked_run_def masked_at_def give_back_def returning_def ret_def raise_def masks_def)

lemma masked_settle: "masked_run (settle_report E i iid now observe (r, False)) (settle_report E i iid now observe (r, c))"
  unfolding settle_report_def Let_def fst_conv snd_conv
  by (rule masked_then)
     (auto intro!: masked_then masked_seq masked_give_back masked_refl split: option.splits)

text \<open>An action that waits: its value carries whether a cancellation came in.\<close>

definition flags :: "bool \<Rightarrow> ('s, 'a \<times> bool) dbop \<Rightarrow> ('s, 'a \<times> bool) dbop \<Rightarrow> bool" where
  "flags c m m' \<longleftrightarrow> (\<exists>n. m = sbind n (\<lambda>r. ret (r, False)) \<and> m' = sbind n (\<lambda>r. ret (r, c)))"

lemma flags_await: "flags (0 < n) (await_owned_mutation [] False m) (await_owned_mutation (replicate n Waiter_Cancelled) False m)"
  by (auto simp: flags_def await_cancelled)

lemma sbind_assoc: "sbind m (\<lambda>x. sbind (k x) h) = sbind (sbind m k) h"
  by (rule ext) (auto simp: sbind_def split: prod.splits sum.splits)

lemma flags_sbind:
  assumes "\<And>x. flags c (k x) (k' x)"
  shows "flags c (sbind m k) (sbind m k')"
proof -
  obtain n where "\<And>x. k x = sbind (n x) (\<lambda>r. ret (r, False)) \<and> k' x = sbind (n x) (\<lambda>r. ret (r, c))"
    using assms unfolding flags_def by metis
  then have "sbind m k = sbind (sbind m n) (\<lambda>r. ret (r, False)) \<and> sbind m k' = sbind (sbind m n) (\<lambda>r. ret (r, c))"
    by (simp flip: sbind_assoc) (metis (no_types, lifting) ext)
  then show ?thesis unfolding flags_def by blast
qed

lemma masked_wait:
  assumes "flags c m m'" and "\<And>r. masked_run (k (r, False)) (k (r, c))"
  shows "masked_run (then_run (on_backend m) k) (then_run (on_backend m') k)"
proof -
  obtain n where "m = sbind n (\<lambda>r. ret (r, False))" "m' = sbind n (\<lambda>r. ret (r, c))" using assms(1) by (auto simp: flags_def)
  then have "then_run (on_backend m) k = then_run (on_backend n) (\<lambda>r. k (r, False))"
    "then_run (on_backend m') k = then_run (on_backend n) (\<lambda>r. k (r, c))"
    by (auto simp: fun_eq_iff then_run_def on_backend_def sbind_def ret_def split: prod.splits sum.splits)
  then show ?thesis using masked_then [of "\<lambda>r. k (r, False)" "\<lambda>r. k (r, c)"] assms(2) by simp
qed

lemma masked_reconcile:
  "masked_run (reconcile_live_intent E [] iid now) (reconcile_live_intent E (replicate n Waiter_Cancelled) iid now)"
  unfolding reconcile_live_intent_def reconcile_mutation_def
  by (intro masked_then masked_wait [OF flags_sbind [OF flags_await]] masked_settle)

text \<open>C34: cancelling the caller is equivalent to not cancelling it. However often the coordinator is cancelled while
  its request is in flight, an execution and a reconciliation leave exactly the state of the undisturbed run,
  raise what that run raises, and return its report or, instead of it, the cancellation; they fail to return only if it
  does.\<close>

theorem cancellation_is_invisible:
  "masked_run (execute_approved_intent E [] iid now) (execute_approved_intent E (replicate n Waiter_Cancelled) iid now)
   \<and> masked_run (reconcile_live_intent E [] iid now) (reconcile_live_intent E (replicate n Waiter_Cancelled) iid now)"
proof -
  have submit: "flags (0 < n) (submit_mutation E [] i iid m a t) (submit_mutation E (replicate n Waiter_Cancelled) i iid m a t)" for i m a t
    unfolding submit_mutation_def by (intro flags_sbind) (auto intro!: flags_sbind flags_await simp del: await_owned_mutation.simps split: option.splits)
  have "masked_run (execute_validated E [] i iid t m a) (execute_validated E (replicate n Waiter_Cancelled) i iid t m a)" for i t m a
    unfolding execute_validated_def by (auto intro!: masked_then masked_wait [OF submit] masked_settle masked_refl)
  then show ?thesis
    unfolding execute_approved_intent_def by (auto intro!: masked_then masked_refl masked_reconcile split: option.splits)
qed

section \<open>Validation before the entry\<close>

text \<open>A call that returns has passed, at some point of its run, a validation of the intent.\<close>

definition validation_point :: "'w backend \<Rightarrow> trade_intent \<Rightarrow> 'w backend_state \<Rightarrow> 'w backend_state \<Rightarrow> int \<Rightarrow> bool" where
  "validation_point B i s p t \<longleftrightarrow> table_steps B s p \<and>
     (\<exists>cfg m a v. bk_validator B = Some cfg \<and> vr_is_valid v
        \<and> validate (bk_hash B) cfg (bs_kill p) (bk_journal B (bs_world p)) (bs_db p) i m a t = Inr v)"

definition validates :: "'w backend \<Rightarrow> trade_intent \<Rightarrow> ('w, 'a) act \<Rightarrow> bool" where
  "validates B i m \<longleftrightarrow> (\<forall>s y s'. m s = (Inr y, s') \<longrightarrow> (\<exists>p t. validation_point B i s p t))"

lemma validation_point_after: "table_steps B s s1 \<Longrightarrow> validation_point B i s1 p t \<Longrightarrow> validation_point B i s p t"
  unfolding validation_point_def by (meson rtranclp_trans)

lemma validates_later:
  assumes "steps.pres B m" and "\<And>x. validates B i (k x)"
  shows "validates B i (sbind m k)"
  unfolding validates_def sbind_Inr using steps.presD [OF assms(1)] assms(2) validation_point_after unfolding validates_def by blast

lemma validates_here:
  assumes "bk_validator B = Some cfg"
  shows "validates B i (sbind (run_validator B cfg i m a t) k)"
proof -
  have "\<exists>v. vr_is_valid v \<and> validate (bk_hash B) cfg (bs_kill s) (bk_journal B (bs_world s)) (bs_db s) i m a t = Inr v"
    if "sbind (run_validator B cfg i m a t) k s = (Inr y, s')" for s y s'
    using that by (auto simp: run_validator_def check_def raise_def sbind_Inr with_state_def lift_res_def split: if_splits)
  then show ?thesis using assms unfolding validates_def validation_point_def by blast
qed

lemma validates_raise: "validates B i (raise e)"
  by (simp add: validates_def raise_def)

lemma validates_pre_entry: "validates B i (pre_entry B i u now)"
  unfolding pre_entry_def set_margin_type_def
  by (intro validates_later steps.pres_effects steps.pres_authority steps.pres_fresh)
     (auto intro!: validates_later steps.pres_effects validates_here validates_raise split: option.splits prod.splits)

lemma aborting_Inr: "aborting B i m s = (Inr v, s') \<Longrightarrow> m s = (Inr v, s')"
  by (auto simp: aborting_def on_error_result sbind_Inr raise_def)

lemma sent_entry_validated:
  assumes "submit_authorized (with_log B) aid s = (r, s')" and "entries B s' \<noteq> entries B s"
    and "load (bk_hash B) (bs_db s) aid = Inr (u, i, a, m)"
  shows "\<exists>p t. validation_point (with_log B) i s p t"
proof -
  obtain u' i' a' m' v t db3 s4 where ld: "load (bk_hash B) (bs_db s) aid = Inr (u', i', a', m')"
    and "au_intent_id v = ti_intent_id i'" and ts: "(exec_step (bk_hash B))\<^sup>*\<^sup>* (bs_db s) db3" and cl: "claim v t db3 = (Inr True, bs_db s4)"
    and sub: "submit_claimed (with_log B) i' v t s4 = (r, s')" and q: "entries B s4 = entries B s"
    using sending_run [OF assms(1,2)] .
  have i: "i' = i" using ld assms(3) by simp
  obtain v' s5 where "aborting (with_log B) i (pre_entry (with_log B) i v t) s4 = (Inr v', s5)"
    using quiet_bind [OF log.pres_pre_entry sub [unfolded submit_claimed_def i]] assms(2) q by metis
  from aborting_Inr [OF this] obtain p t' where p: "validation_point (with_log B) i s4 p t'"
    using validates_pre_entry [of "with_log B" i v t] unfolding validates_def by blast
  have "exec_step (bk_hash B) db3 (bs_db s4)"
    using exec_step.commit [of "bk_hash B" db3 t "Claim v"] cl by simp
  with ts have "table_steps (with_log B) s s4" by simp
  from validation_point_after [OF this p] show ?thesis by blast
qed

section \<open>The coordinator\<close>

text \<open>The services the coordinator asks do not send orders themselves.\<close>

definition quiet_services :: "('w \<times> http_request list) live_execution \<Rightarrow> bool" where
  "quiet_services E \<longleftrightarrow> (\<forall>w. snd (snd (lx_clock E w)) = snd w) \<and> (\<forall>w. snd (snd (lx_account E w)) = snd w)
     \<and> (\<forall>t w. snd (snd (lx_market E t w)) = snd w)"

lemma await_log: "log.pres B m \<Longrightarrow> log.pres B (await_owned_mutation ws c m)"
proof (induction ws arbitrary: c)
  case (Cons w ws)
  then show ?case by (cases w) (auto simp: log.pres_def)
qed (auto intro!: log.pres_intros)

lemma quiet_then:
  assumes "log.pres B m" and "then_run (on_backend m) k s = Some (r, s')" and "entries B (xs_backend s') \<noteq> entries B (xs_backend s)"
  obtains x t where "m (xs_backend s) = (Inr x, t)" and "k x (s\<lparr>xs_backend := t\<rparr>) = Some (r, s')" and "entries B t = entries B (xs_backend s)"
proof (cases "m (xs_backend s)")
  case (Pair y t)
  have e: "entries B t = entries B (xs_backend s)" by (rule log.presD [OF assms(1) Pair])
  show ?thesis
  proof (cases y)
    case (Inl x)
    then show ?thesis using assms(2,3) Pair e by (auto simp: then_run_def on_backend_def)
  next
    case (Inr x)
    then show ?thesis using assms(2) Pair e that by (simp add: then_run_def on_backend_def)
  qed
qed

lemma sbind_lift [simp]: "sbind (lift_res (Inr x)) k = k x"
  by (rule ext) (simp add: sbind_def lift_res_def)

lemma settle_update:
  assumes "settle_report E i iid now observe rc s = Some (r, s')" and "ti_environment i = ''TESTNET''"
  obtains y where "db_op (update_status iid (er_status (fst rc)) (er_reason (fst rc)) now) (xs_backend s) = (y, xs_backend s')"
proof -
  obtain y t where m: "db_op (update_status iid (er_status (fst rc)) (er_reason (fst rc)) now) (xs_backend s) = (y, t)" by fastforce
  have "supervised E i (fst rc) = None" using assms(2) by (simp add: supervised_def)
  then have "s' = s\<lparr>xs_backend := t\<rparr>"
    using assms(1) m
    by (cases y) (auto simp: settle_report_def Let_def then_run_def on_backend_def give_back_def returning_def ret_def raise_def split: if_splits)
  then show ?thesis using m that by simp
qed

lemma settle_quiet:
  assumes "settle_report E i iid now observe rc s = Some (r, s')" and "ti_environment i = ''TESTNET''"
  shows "entries B (xs_backend s') = entries B (xs_backend s) \<and> (exec_step H)\<^sup>*\<^sup>* (bs_db (xs_backend s)) (bs_db (xs_backend s'))"
proof (rule settle_update [OF assms], rule conjI)
  fix y assume m: "db_op (update_status iid (er_status (fst rc)) (er_reason (fst rc)) now) (xs_backend s) = (y, xs_backend s')"
  show "entries B (xs_backend s') = entries B (xs_backend s)" by (rule log.presD [OF log.pres_writes(3) m])
  show "(exec_step H)\<^sup>*\<^sup>* (bs_db (xs_backend s)) (bs_db (xs_backend s'))"
    using arg_cong [OF m, of "\<lambda>z. bs_db (snd z)"]
      run_step [of H "bs_db (xs_backend s)" now "UpdateStatus iid (er_status (fst rc)) (er_reason (fst rc))"]
    by (simp add: db_op_def case_prod_beta r_into_rtranclp)
qed

lemma reconcile_quiet:
  assumes "reconcile_live_intent E ws iid now s = Some (r, s')" and "quiet_services E" and "lx_testnet_backend E = Some (with_log B)"
    and "get_intent (lx_hash E) (bs_db (xs_backend s)) iid = Inr (Some i)" and "ti_environment i = ''TESTNET''" and "now = Some t"
  shows "entries B (xs_backend s') = entries B (xs_backend s)"
proof (rule ccontr)
  assume ne: "entries B (xs_backend s') \<noteq> entries B (xs_backend s)"
  have "then_run (on_backend (reconcile_mutation E ws i iid t)) (settle_report E i iid t (observe_latest E i t)) s = Some (r, s')"
    using assms(1,4,6)
    by (simp add: reconcile_live_intent_def then_run_def on_backend_def now_or_clock_def known_intent_def db_read_def ret_def sbind_def)
  moreover have "log.pres B (reconcile_mutation E ws i iid t)"
    using assms(3,5) by (simp add: reconcile_mutation_def choose_backend_def await_log log.pres_reconcile_authorized)
  ultimately obtain rc u where "settle_report E i iid t (observe_latest E i t) rc (s\<lparr>xs_backend := u\<rparr>) = Some (r, s')"
    "entries B u = entries B (xs_backend s)" using quiet_then [OF _ _ ne] by blast
  with settle_quiet [OF this(1) assms(5), of B] ne show False by simp
qed

section \<open>The intent of a receipt\<close>

text \<open>The intent stored under an id never changes.\<close>

definition intent_of_id :: "exec_db \<Rightarrow> string \<Rightarrow> trade_intent option" where
  "intent_of_id db iid = map_option ir_payload (find_intent db iid)"

interpretation intent_ids: latched_system "exec_step H" "tables_ok H" intent_of_id for H :: hasher
proof
  have "map_option ir_payload (fetchone (\<lambda>r. ir_intent_id r = iid) rows') = Some i"
    if "intents_change H rows rows'" "map_option ir_payload (fetchone (\<lambda>r. ir_intent_id r = iid) rows) = Some i" for rows rows' iid i
    using that by (auto simp: intents_change_def status_update_def fetchone_update_where fetchone_append)
  then show "intent_of_id s' iid = Some i" if "tables_ok H s" "exec_step H s s'" "intent_of_id s iid = Some i" for s s' iid i
    using that(2,3) run_cmd_intents unfolding intent_of_id_def by (blast elim!: exec_stepE)
qed

lemma get_intent_steps:
  assumes "exec_reachable H db" and "get_intent H db iid = Inr (Some i)" and "(exec_step H)\<^sup>*\<^sup>* db db'"
  shows "get_intent H db' iid = Inr (Some i)"
proof -
  have "intent_of_id db iid = Some i" using assms(2) get_intent_total(1) [OF exec_reachable_ok [OF assms(1)]] by (simp add: intent_of_id_def)
  from intent_ids.steps_latch [OF assms(3) exec_reachable_ok [OF assms(1)] this] show ?thesis
    using get_intent_total(1) [OF exec_reachable_ok [OF reachable_steps [OF assms(1,3)]]] by (simp add: intent_of_id_def)
qed

text \<open>No receipt of another intent has an id that a receipt of this intent may get: the ids are digests.\<close>

definition receipts_apart :: "hasher \<Rightarrow> trade_intent \<Rightarrow> exec_db \<Rightarrow> bool" where
  "receipts_apart H i db \<longleftrightarrow> (\<forall>a m x now e. \<forall>row \<in> set (live_pre_execution_authorizations db).
     az_authorization_id row = au_authorization_id (issued H i a m x now e) \<longrightarrow> az_intent_id row = ti_intent_id i)"

lemma issue_authorizations:
  assumes "issue H i a m x now e db = (Inr u, db')"
  shows "live_pre_execution_authorizations db' = live_pre_execution_authorizations db
       \<or> live_pre_execution_authorizations db' = live_pre_execution_authorizations db @ [authorization_row_of u (ti_intent_id i) ''ISSUED'']"
    and "au_authorization_id u = au_authorization_id (issued H i a m x now e)"
proof -
  have u: "authorization_validate H True (issued H i a m x now e) = Inr u"
    and b: "issue_body i m u now (snd (account_save H a ''REST_RECONCILED'' db)) = (Inr (), db')"
    using assms by (auto simp: issue_def transaction_def result_simps split: sum.splits prod.splits)
  show "au_authorization_id u = au_authorization_id (issued H i a m x now e)"
    using u by (auto simp: authorization_validate_def split: if_splits)
  show "live_pre_execution_authorizations db' = live_pre_execution_authorizations db
       \<or> live_pre_execution_authorizations db' = live_pre_execution_authorizations db @ [authorization_row_of u (ti_intent_id i) ''ISSUED'']"
    using b by (auto simp: issue_body_def Let_def split: option.splits if_splits)
qed

lemma issued_receipt_loads:
  assumes "issue H i a m x now e db = (Inr u, db')" and "receipts_apart H i db" and "load H db' (au_authorization_id u) = Inr (u', i', a', m')"
  shows "get_intent H db' (ti_intent_id i) = Inr (Some i')"
proof -
  obtain row where row: "find_authorization db' (au_authorization_id u) = Some row" and u': "au_intent_id u' = az_intent_id row"
    "get_intent H db' (au_intent_id u') = Inr (Some i')"
    using assms(3)
    by (auto simp: load_def load_body_def result_simps split: sum.splits pyerr.splits option.splits if_splits)
  have "az_intent_id row = ti_intent_id i"
    using fetchone_Some [OF row] issue_authorizations [OF assms(1)] assms(2)
    by (auto simp: receipts_apart_def authorization_row_of_def)
  then show ?thesis using u' by simp
qed

section \<open>No order without approval\<close>

definition wired :: "'w backend \<Rightarrow> ('w \<times> http_request list) live_execution \<Rightarrow> bool" where
  "wired B E \<longleftrightarrow> lx_testnet_backend E = Some (with_log B) \<and> lx_hash E = bk_hash B \<and> quiet_services E
     \<and> (\<forall>w. \<exists>t. store_reachable (bk_hash B) t (bk_journal B w))"

lemma await_effect: "snd (await_owned_mutation ws c m s) = s \<or> snd (await_owned_mutation ws c m s) = snd (m s)"
proof (induction ws arbitrary: c)
  case (Cons w ws)
  then show ?case by (cases w) auto
qed (auto simp: sbind_def ret_def split: prod.splits sum.splits)

text \<open>What comes before the authorization neither writes to the tables nor sends anything.\<close>

definition unmoved :: "'w backend \<Rightarrow> ('w \<times> http_request list) backend_state \<Rightarrow> ('w \<times> http_request list) backend_state \<Rightarrow> bool" where
  "unmoved B s s' \<longleftrightarrow> entries B s' = entries B s \<and> bs_db s' = bs_db s"

interpretation still: run_relation "unmoved B" for B :: "'w backend"
  by unfold_locales (simp_all add: unmoved_def)

lemma still_world: "(\<And>w. snd (snd (f w)) = snd w) \<Longrightarrow> still.pres B (world_op f)"
  unfolding still.pres_def by (simp add: world_op_def unmoved_def entries_def case_prod_beta)

lemma still_calls:
  assumes "quiet_services E"
  shows "still.pres B (now_or_clock E now)" "still.pres B (world_op (lx_market E t))" "still.pres B (world_op (lx_account E))"
    "still.pres B (gate E i m a t)"
proof -
  show "still.pres B (now_or_clock E now)"
    using assms by (auto simp: quiet_services_def now_or_clock_def case_prod_beta intro!: still_world still.pres_statements split: option.splits)
  show "still.pres B (gate E i m a t)" unfolding gate_def by (intro still.pres_rules)
qed (use assms in \<open>auto simp: quiet_services_def intro!: still_world\<close>)

definition leads :: "'w backend \<Rightarrow> ('w \<times> http_request list) backend_state
    \<Rightarrow> (('w \<times> http_request list) executor_state \<Rightarrow> bool) \<Rightarrow> (('w \<times> http_request list) executor_state, 'a) run \<Rightarrow> bool" where
  "leads B b G m \<longleftrightarrow> (\<forall>s r s'. unmoved B b (xs_backend s) \<longrightarrow> m s = Some (r, s') \<longrightarrow> entries B (xs_backend s') = entries B b \<or> G s')"

lemma leads_then:
  assumes "still.pres B m" and "\<And>x. leads B b G (k x)"
  shows "leads B b G (then_run (on_backend m) k)"
  unfolding leads_def
proof (intro allI impI)
  fix s r s' assume u: "unmoved B b (xs_backend s)" and run: "then_run (on_backend m) k s = Some (r, s')"
  obtain y t where m: "m (xs_backend s) = (y, t)" by fastforce
  have "unmoved B b t" by (rule still.rel_trans [OF u still.presD [OF assms(1) m]])
  moreover have "entries B (xs_backend s') = entries B b \<or> G s'" if "unmoved B b (xs_backend (s\<lparr>xs_backend := t\<rparr>))"
    "k x (s\<lparr>xs_backend := t\<rparr>) = Some (r, s')" for x
    using that assms(2) [of x] unfolding leads_def by blast
  ultimately show "entries B (xs_backend s') = entries B b \<or> G s'"
    using run m by (cases y) (auto simp: then_run_def on_backend_def unmoved_def)
qed

lemma leads_known:
  assumes "get_intent (lx_hash E) (bs_db b) iid = Inr (Some i)" and "leads B b G (k i)"
  shows "leads B b G (then_run (on_backend (known_intent E iid)) k)"
  using assms
  by (auto simp: leads_def then_run_def on_backend_def known_intent_def db_read_def sbind_def ret_def unmoved_def)

lemma leads_abort: "leads B b G (abort_intent i iid reason now)"
proof -
  have "entries B (xs_backend s') = entries B (xs_backend s)" if "abort_intent i iid reason now s = Some (r, s')" for s r s'
    using that log.presD [OF log.pres_writes(3) [of B iid "''ABORTED''" reason now], of "xs_backend s"]
    by (auto simp: abort_intent_def then_run_def on_backend_def returning_def ret_def split: prod.splits sum.splits)
  then show ?thesis by (auto simp: leads_def unmoved_def)
qed

text \<open>A submission inside an execution, with the state it started in.\<close>

lemma sending_mutation:
  assumes "lx_testnet_backend E = Some (with_log B)" and "ti_environment i = ''TESTNET''" and "lx_hash E = bk_hash B"
    and "then_run (on_backend (submit_mutation E ws i iid m a t)) (settle_report E i iid t observe) s = Some (r, s')"
    and "entries B (xs_backend s') \<noteq> entries B (xs_backend s)"
  obtains u b y b' where "authorize_intent E iid m a t (xs_backend s) = (Inr u, b)" and "entries B b = entries B (xs_backend s)"
    and "submit_authorized (with_log B) (au_authorization_id u) b = (y, b')"
    and "entries B (xs_backend s') = entries B b'" and "table_steps (with_log B) b' (xs_backend s')"
proof -
  let ?await = "\<lambda>u. await_owned_mutation ws False (submit_authorized (with_log B) (au_authorization_id u))"
  have sub: "submit_mutation E ws i iid m a t = sbind (authorize_intent E iid m a t) ?await"
    using assms(1,2) by (simp add: submit_mutation_def choose_backend_def)
  obtain z c where z: "sbind (authorize_intent E iid m a t) ?await (xs_backend s) = (z, c)" by fastforce
  have last: "entries B (xs_backend s') = entries B c \<and> table_steps (with_log B) c (xs_backend s')"
  proof (cases z)
    case (Inl e)
    then have "s' = s\<lparr>xs_backend := c\<rparr>" using assms(4) z by (simp add: sub then_run_def on_backend_def)
    then show ?thesis by simp
  next
    case (Inr rc)
    then have "settle_report E i iid t observe rc (s\<lparr>xs_backend := c\<rparr>) = Some (r, s')"
      using assms(4) z by (simp add: sub then_run_def on_backend_def)
    from settle_quiet [OF this assms(2)] show ?thesis by simp
  qed
  have "log.pres B (authorize_intent E iid m a t)"
    unfolding authorize_intent_def assms(3) by (rule log.pres_with_state) (use log.pres_authorize [of B] in simp)
  from quiet_bind [OF this z] obtain u b where u: "authorize_intent E iid m a t (xs_backend s) = (Inr u, b)" "?await u b = (z, c)"
    "entries B b = entries B (xs_backend s)" using assms(5) last by metis
  have "c = b \<or> c = snd (submit_authorized (with_log B) (au_authorization_id u) b)" using await_effect [of ws False _ b] u(2) by (metis snd_conv)
  then have "c = snd (submit_authorized (with_log B) (au_authorization_id u) b)" using assms(5) last u(3) by auto
  then show ?thesis using that [OF u(1,3)] last by (metis prod.collapse)
qed

definition submission :: "'w backend \<Rightarrow> ('w \<times> http_request list) live_execution \<Rightarrow> string \<Rightarrow> ('w \<times> http_request list) backend_state
    \<Rightarrow> ('w \<times> http_request list) executor_state \<Rightarrow> bool" where
  "submission B E iid b s' \<longleftrightarrow> (\<exists>t m a u c b1 y b2. unmoved B b c \<and> authorize_intent E iid m a t c = (Inr u, b1) \<and> entries B b1 = entries B c
     \<and> submit_authorized (with_log B) (au_authorization_id u) b1 = (y, b2) \<and> entries B (xs_backend s') = entries B b2
     \<and> table_steps (with_log B) b2 (xs_backend s'))"

lemma leads_submit:
  assumes "lx_testnet_backend E = Some (with_log B)" and "ti_environment i = ''TESTNET''" and "lx_hash E = bk_hash B"
  shows "leads B b (submission B E iid b) (then_run (on_backend (submit_mutation E ws i iid m a t)) (settle_report E i iid t observe))"
  unfolding leads_def
proof (intro allI impI)
  fix s r s' assume u: "unmoved B b (xs_backend s)"
    and run: "then_run (on_backend (submit_mutation E ws i iid m a t)) (settle_report E i iid t observe) s = Some (r, s')"
  show "entries B (xs_backend s') = entries B b \<or> submission B E iid b s'"
  proof (cases "entries B (xs_backend s') = entries B (xs_backend s)")
    case True
    then show ?thesis using u by (simp add: unmoved_def)
  next
    case False
    from sending_mutation [OF assms run False] u show ?thesis unfolding submission_def by metis
  qed
qed

lemma leads_reconcile:
  assumes "lx_testnet_backend E = Some (with_log B)" and "ti_environment i = ''TESTNET''" and "quiet_services E"
    and "get_intent (lx_hash E) (bs_db b) iid = Inr (Some i)"
  shows "leads B b G (reconcile_live_intent E ws iid (Some t))"
  using reconcile_quiet [OF _ assms(3,1) _ assms(2) refl] assms(4) by (auto simp: leads_def unmoved_def)

lemma leads_execute:
  assumes "lx_testnet_backend E = Some (with_log B)" and "ti_environment i = ''TESTNET''" and "lx_hash E = bk_hash B" and "quiet_services E"
    and "get_intent (lx_hash E) (bs_db b) iid = Inr (Some i)"
  shows "leads B b (submission B E iid b) (execute_approved_intent E ws iid now)"
proof -
  note calls = still_calls [OF assms(4)]
  have "still.pres B (db_read f)" for f by (simp add: still.pres_def db_read_def unmoved_def)
  moreover have "leads B b (submission B E iid b) (execute_validated E ws i iid t m a)" for t m a
    unfolding execute_validated_def by (rule leads_then [OF calls(4)]) (simp add: leads_abort leads_submit [OF assms(1-3)])
  ultimately show ?thesis
    unfolding execute_approved_intent_def
    by (intro leads_then calls leads_known [OF assms(5)])
       (auto intro!: leads_then calls leads_abort leads_reconcile [OF assms(1,2,4,5)] split: option.splits)
qed

lemma submission_issues:
  assumes "submission B E iid b s'" and "lx_hash E = bk_hash B" and "get_intent (bk_hash B) (bs_db b) iid = Inr (Some i)"
  obtains u b1 y b2 a m x t e where "issue (bk_hash B) i a m x t e (bs_db b) = (Inr u, bs_db b1)" and "entries B b1 = entries B b"
    and "submit_authorized (with_log B) (au_authorization_id u) b1 = (y, b2)"
    and "entries B (xs_backend s') = entries B b2" and "table_steps (with_log B) b2 (xs_backend s')"
proof -
  obtain t m a u c b1 y b2 where c: "unmoved B b c" and au: "authorize_intent E iid m a t c = (Inr u, b1)"
    and e1: "entries B b1 = entries B c" and sub: "submit_authorized (with_log B) (au_authorization_id u) b1 = (y, b2)"
    and e2: "entries B (xs_backend s') = entries B b2" and last: "table_steps (with_log B) b2 (xs_backend s')"
    using assms(1) unfolding submission_def by blast
  have db: "bs_db c = bs_db b" and ec: "entries B c = entries B b" using c by (simp_all add: unmoved_def)
  obtain x e where "issue (bk_hash B) i a m x t e (bs_db b) = (Inr u, bs_db b1)"
    using au assms(2,3)
    by (auto simp: authorize_intent_def with_state_def db_op_def authorize_def db result_simps split: prod.splits sum.splits option.splits if_splits)
  then show ?thesis using that e1 ec sub e2 last by simp
qed


end
