(* ===== verification/Executor_Sample.thy ===== *)
theory Executor_Sample
  imports Testnet_Sample Executor_Safety
begin

text \<open>
  A complete execution on the data of the testnet sample: the coordinator validates and authorizes the
  stored intent and the backend sends its entry order.
\<close>

definition tn_coordinator :: "(unit \<times> http_request list) live_execution" where
  "tn_coordinator =
     \<lparr>lx_hash = const_hash, lx_journal = (\<lambda>w. sample_approved), lx_clock = (\<lambda>w. (2000, w)),
      lx_account = (\<lambda>w. (Inr (Some tn_account), w)), lx_market = (\<lambda>t w. (Inr (Some sample_market), w)), lx_validator = tn_config,
      lx_open_quantity = None, lx_testnet_backend = Some (tn_log tn_answer), lx_supervisor = None, lx_tactical_regime = None,
      lx_funding_rate = None, lx_oi_change = None, lx_volatility = None\<rparr>"

definition tn_ready_state :: "(unit \<times> http_request list) executor_state" where
  "tn_ready_state =
     \<lparr>xs_backend = \<lparr>bs_db = tn_saved, bs_kill = initial_kill_state, bs_world = ((), [])\<rparr>, xs_supervisor = empty_supervisor_db\<rparr>"

lemma tn_wired: "wired (tn_backend tn_answer) tn_coordinator"
proof -
  have "\<exists>t. store_reachable const_hash t sample_approved" using sample_approved_reachable by blast
  then show ?thesis by (simp add: wired_def tn_coordinator_def quiet_services_def tn_backend_def)
qed

lemma tn_known: "get_intent const_hash tn_saved (ti_intent_id tn_intent) = Inr (Some tn_intent)"
  by (simp add: get_intent_def verified_option_def tn_saved_rows verified_row_of)

lemma tn_untouched: "has_existing_side_effect const_hash tn_saved (ti_intent_id tn_intent) = Inr False"
  by (simp add: has_existing_side_effect_def Let_def tn_saved_rows)

text \<open>The run up to the submission: the receipt is issued and the request starts from the state of the backend sample.\<close>

lemma tn_executes:
  "execute_approved_intent tn_coordinator [] (ti_intent_id tn_intent) None tn_ready_state =
     then_run (on_backend (sbind (submit_authorized (tn_log tn_answer) (au_authorization_id tn_receipt)) (\<lambda>r. ret (r, False))))
       (settle_report tn_coordinator tn_intent (ti_intent_id tn_intent) 2000
          (\<lambda>r. sbind (observe_fill tn_coordinator tn_intent r tn_account sample_market 2000) (\<lambda>ob. ret (Some ob))))
       (tn_ready_state\<lparr>xs_backend := tn_start\<rparr>)"
proof -
  let ?b = "xs_backend tn_ready_state"
  have env: "ti_environment tn_intent = ''TESTNET''" by (simp add: tn_intent_fields)
  have "gate tn_coordinator tn_intent sample_market tn_account 2000 ?b = (Inr \<lparr>vr_is_valid = True, vr_reason = ''OK''\<rparr>, ?b)"
    using tn_valid [OF tn_saved_ready] by (simp add: gate_def with_state_def lift_res_def tn_coordinator_def tn_ready_state_def)
  moreover have "authorize_intent tn_coordinator (ti_intent_id tn_intent) sample_market tn_account 2000 ?b = (Inr tn_receipt, tn_start)"
    using tn_authorize by (simp add: authorize_intent_def with_state_def db_op_def tn_coordinator_def tn_ready_state_def tn_start_def)
  moreover have "known_intent tn_coordinator (ti_intent_id tn_intent) ?b = (Inr tn_intent, ?b)"
    using tn_known by (simp add: known_intent_def db_read_def sbind_def ret_def tn_coordinator_def tn_ready_state_def)
  moreover have "db_read (\<lambda>db. has_existing_side_effect (lx_hash tn_coordinator) db (ti_intent_id tn_intent)) ?b = (Inr False, ?b)"
    using tn_untouched by (simp add: db_read_def tn_coordinator_def tn_ready_state_def)
  moreover have "now_or_clock tn_coordinator None ?b = (Inr 2000, ?b)" "world_op (lx_market tn_coordinator 2000) ?b = (Inr (Some sample_market), ?b)"
    "world_op (lx_account tn_coordinator) ?b = (Inr (Some tn_account), ?b)"
    by (simp_all add: now_or_clock_def world_op_def tn_coordinator_def)
  moreover have "choose_backend tn_coordinator tn_intent = Inr (Some (tn_log tn_answer))"
    by (simp add: choose_backend_def env) (simp add: tn_coordinator_def)
  ultimately show ?thesis
    by (simp add: execute_approved_intent_def execute_validated_def submit_mutation_def then_run_def on_backend_def sbind_def lift_res_def)
qed

lemma tn_run:
  obtains r s' where "execute_approved_intent tn_coordinator [] (ti_intent_id tn_intent) None tn_ready_state = Some (r, s')"
    and "entries (tn_backend tn_answer) (xs_backend s') \<noteq> []"
proof -
  let ?m = "submit_authorized (tn_log tn_answer) (au_authorization_id tn_receipt)"
  have env: "ti_environment tn_intent = ''TESTNET''" by (simp add: tn_intent_fields)
  obtain y b where m: "?m tn_start = (y, b)" by fastforce
  have n: "entries (tn_backend tn_answer) b \<noteq> []"
    using sends_submission [unfolded sends_def, rule_format, of tn_start] m tn_issued_tables by (simp add: tn_start_def)
  show ?thesis
  proof (cases y)
    case (Inl e)
    then show ?thesis using that [of "Inl e" "tn_ready_state\<lparr>xs_backend := b\<rparr>"] n m
      unfolding tn_executes by (simp add: then_run_def on_backend_def sbind_def)
  next
    case (Inr x)
    let ?settle = "settle_report tn_coordinator tn_intent (ti_intent_id tn_intent) 2000
      (\<lambda>r. sbind (observe_fill tn_coordinator tn_intent r tn_account sample_market 2000) (\<lambda>ob. ret (Some ob))) (x, False)
      (tn_ready_state\<lparr>xs_backend := b\<rparr>)"
    have "supervised tn_coordinator tn_intent x = None" by (simp add: supervised_def env)
    then have "?settle \<noteq> None"
      by (auto simp: settle_report_def Let_def then_run_def give_back_def returning_def split: prod.splits sum.splits)
    then obtain r s' where s': "?settle = Some (r, s')" by auto
    have "execute_approved_intent tn_coordinator [] (ti_intent_id tn_intent) None tn_ready_state = ?settle"
      using m Inr unfolding tn_executes by (simp add: then_run_def on_backend_def sbind_def ret_def)
    then show ?thesis using that [of r s'] s' settle_quiet [OF s' env, of "tn_backend tn_answer"] n by simp
  qed
qed


end
