(* ===== verification/Dispatch_Safety.thy ===== *)
theory Dispatch_Safety
  imports Drain
begin

text \<open>
  What holds of the supervisor's tables under every interleaving of workers. The committed database blocks
  of any number of evaluations and drains are commands, run one after another in any order and with
  any arguments. Seen from one dispatch row, a command is one move of a small state machine (\<open>row_move\<close>);
  the invariant of the rows, the admission that is never replaced and the measure that makes the
  drain end are read off its moves.
\<close>

section \<open>Commands\<close>

datatype dispatch_command =
    Observe position_observation int "string \<Rightarrow> string"
  | Claim string int int int
  | Freeze string string string string case_package int
  | Mint string string string string case_package int int
  | Complete analysis_admission string int
  | Close bool bool string string int
  | Requeue bool int string string int

fun run_dispatch :: "hasher \<Rightarrow> supervisor_policy \<Rightarrow> dispatch_command \<Rightarrow> supervisor_db \<Rightarrow> supervisor_db" where
  "run_dispatch H p (Observe obs now tokens) db = snd (evaluate_position H p obs now tokens db)"
| "run_dispatch H p (Claim token now lease_ms max_retries) db = snd (claim_dispatch token now lease_ms max_retries db)"
| "run_dispatch H p (Freeze eid eh symb token c now) db = snd (freeze_case eid eh symb token c now db)"
| "run_dispatch H p (Mint eid token eh symb c now lease_ms) db = snd (mint_analysis_admission H eid token eh symb c now lease_ms db)"
| "run_dispatch H p (Complete adm token now) db = snd (complete_analysis H adm token now db)"
| "run_dispatch H p (Close dispatching reset eid token now) db = snd (close_dispatch dispatching reset eid token now db)"
| "run_dispatch H p (Requeue permanent max_retries eid token now) db = snd (requeue permanent max_retries eid token now db)"

inductive dispatch_step :: "hasher \<Rightarrow> supervisor_policy \<Rightarrow> supervisor_db \<Rightarrow> supervisor_db \<Rightarrow> bool" for H p where
  command: "dispatch_step H p db (run_dispatch H p cmd db)"

inductive_cases dispatch_stepE: "dispatch_step H p db db'"

section \<open>Moves of one row\<close>

definition active :: "dispatch_row \<Rightarrow> bool" where
  "active r \<longleftrightarrow> di_state r = ''PENDING'' \<or> di_state r = ''DISPATCHING''"

text \<open>The columns a move may not touch: identity, frozen case, admission.\<close>

definition fixed_columns :: "dispatch_row \<Rightarrow> (string \<times> string \<times> string) \<times> dispatch_authority option \<times> string \<times> string \<times> string \<times> string \<times> case_package option \<times> string" where
  "fixed_columns r = ((di_event_id r, di_event_hash r, di_symbol r), admission_columns r)"

inductive row_move :: "hasher \<Rightarrow> dispatch_row \<Rightarrow> dispatch_row \<Rightarrow> bool" for H where
  lease: "active r \<Longrightarrow> r' = r\<lparr>di_state := ''DISPATCHING'', di_lease_token := Some token, di_lease_expires_at_ms := t,
            di_retry_count := di_retry_count r + 1, di_updated_at_ms := now\<rparr> \<Longrightarrow> row_move H r r'"
| freeze: "di_state r = ''DISPATCHING'' \<Longrightarrow> di_position_case_json r = None \<Longrightarrow>
     r' = r\<lparr>di_position_case_id := cp_case_id c, di_position_case_hash := cp_case_hash c, di_position_case_json := Some c,
            di_case_hash := cp_case_hash c, di_updated_at_ms := now\<rparr> \<Longrightarrow> row_move H r r'"
| mint: "di_state r = ''DISPATCHING'' \<Longrightarrow> di_lease_token r = Some token \<Longrightarrow> di_dispatch_authority_json r = None \<Longrightarrow> frozen_case c r \<Longrightarrow>
     (pe_event_id e, pe_event_hash e, pe_symbol e) = (di_event_id r, di_event_hash r, di_symbol r) \<Longrightarrow>
     a = dispatch_authority_of e c token \<Longrightarrow> ah = digest H (dispatch_authority_doc a) \<Longrightarrow>
     r' = r\<lparr>di_dispatch_authority_json := Some a, di_dispatch_authority_hash := ah, di_analysis_admission_hash := admission_hash H ah,
            di_lease_expires_at_ms := t, di_updated_at_ms := now\<rparr> \<Longrightarrow> row_move H r r'"
| finish: "di_state r = ''DISPATCHING'' \<Longrightarrow> di_dispatch_authority_json r \<noteq> None \<Longrightarrow>
     r' = r\<lparr>di_state := ''DONE'', di_analysis_completed := True, di_lease_token := None, di_lease_expires_at_ms := 0,
            di_updated_at_ms := now\<rparr> \<Longrightarrow> row_move H r r'"
| close: "active r \<or> di_lease_token r \<noteq> None \<Longrightarrow> r' = (close_row now r)\<lparr>di_lease_expires_at_ms := t\<rparr> \<Longrightarrow> row_move H r r'"
| give_back: "di_lease_token r \<noteq> None \<Longrightarrow> s \<in> {''PENDING'', ''FAILED_CLOSED''} \<Longrightarrow>
     r' = r\<lparr>di_state := s, di_lease_token := None, di_lease_expires_at_ms := 0, di_updated_at_ms := now\<rparr> \<Longrightarrow> row_move H r r'"

inductive_cases row_moveE: "row_move H r r'"

definition moved :: "hasher \<Rightarrow> dispatch_row \<Rightarrow> dispatch_row \<Rightarrow> bool" where
  "moved H r r' \<longleftrightarrow> r' = r \<or> row_move H r r'"

text \<open>A command that works on the dispatches moves each row at most once and leaves the other tables alone.\<close>

definition rows_moved :: "hasher \<Rightarrow> supervisor_db \<Rightarrow> supervisor_db \<Rightarrow> bool" where
  "rows_moved H db db' \<longleftrightarrow> db' = db\<lparr>live_position_case_dispatches := live_position_case_dispatches db'\<rparr>
     \<and> list_all2 (moved H) (live_position_case_dispatches db) (live_position_case_dispatches db')"

lemma rows_moved_refl [simp]: "rows_moved H db db"
  by (simp add: rows_moved_def moved_def list_all2_same)

lemma update_dispatches_Inr:
  assumes "update_dispatches cap P f db = Inr (n, db')"
  shows "db' = db\<lparr>live_position_case_dispatches := update_where P f (live_position_case_dispatches db)\<rparr>"
    and "n = rowcount P (live_position_case_dispatches db)"
    and "r \<in> set (live_position_case_dispatches db) \<Longrightarrow> P r \<Longrightarrow> dispatch_guard cap r (f r) = Inr ()"
  using assms
  by (auto simp: update_dispatches_def fetchone_None is_ok_iff result_simps split: option.splits dest!: fetchone_Some)

lemma rows_moved_update:
  assumes "update_dispatches cap P f db = Inr (n, db')"
    and "\<And>r. r \<in> set (live_position_case_dispatches db) \<Longrightarrow> P r \<Longrightarrow> row_move H r (f r)"
  shows "rows_moved H db db'"
  using assms(2)
  by (auto simp: update_dispatches_Inr(1) [OF assms(1)] rows_moved_def moved_def update_where_def list_all2_map2 list_all2_same)


lemma update_op_moves:
  assumes "\<And>r. r \<in> set (live_position_case_dispatches db) \<Longrightarrow> P r \<Longrightarrow> row_move H r (f r)"
  shows "rows_moved H db (snd (case update_dispatches cap P f db of Inl e \<Rightarrow> (Inl e, db) | Inr (n, db') \<Rightarrow> (Inr (g n), db')))"
proof (cases "update_dispatches cap P f db")
  case (Inr x)
  obtain n db' where "x = (n, db')" by (cases x)
  with Inr show ?thesis using rows_moved_update [OF _ assms] by simp
qed simp

abbreviation ids_unique :: "supervisor_db \<Rightarrow> bool" where
  "ids_unique db \<equiv> unique_on di_event_id (live_position_case_dispatches db)"

lemma next_candidate_Some:
  assumes "next_candidate now db = Some r"
  shows "r \<in> set (live_position_case_dispatches db) \<and> claimable now r"
proof -
  let ?xs = "sort_key di_created_at_ms (filter (claimable now) (live_position_case_dispatches db))"
  have "?xs = r # tl ?xs" using assms unfolding next_candidate_def by (cases ?xs) simp_all
  then have "r \<in> set ?xs" by (metis list.set_intros(1))
  then show ?thesis by simp
qed

lemma claimable_active: "claimable now r \<Longrightarrow> active r"
  by (auto simp: claimable_def active_def)

lemma close_row_lease: "(close_row now r)\<lparr>di_lease_expires_at_ms := di_lease_expires_at_ms r\<rparr> = close_row now r"
  by (cases r) (simp add: close_row_def)

lemma moved_ifI: "rows_moved H db (snd a) \<Longrightarrow> rows_moved H db (snd b) \<Longrightarrow> rows_moved H db (snd (if c then a else b))"
  by simp

lemma claim_moves:
  assumes "ids_unique db"
  shows "rows_moved H db (snd (claim_dispatch token now lease_ms max_retries db))"
proof (cases "next_candidate now db")
  case None
  then show ?thesis by (simp add: claim_dispatch_def)
next
  case (Some r)
  then have r: "r \<in> set (live_position_case_dispatches db)" "active r"
    using next_candidate_Some claimable_active by blast+
  have same: "q = r" if "q \<in> set (live_position_case_dispatches db)" and "di_event_id q = di_event_id r" for q
    using unique_onD [OF assms that(1) r(1)] that(2) by simp
  have close: "row_move H q (close_row now q)" if "q \<in> set (live_position_case_dispatches db)" "di_event_id q = di_event_id r" for q
    unfolding same [OF that] by (rule row_move.close [OF _ close_row_lease [symmetric]]) (simp add: r(2))
  have lease: "row_move H q (q\<lparr>di_state := ''DISPATCHING'', di_lease_token := Some token, di_lease_expires_at_ms := now + lease_ms,
      di_retry_count := di_retry_count q + 1, di_updated_at_ms := now\<rparr>)" if "di_event_id q = di_event_id r \<and> claimable now q" for q
    using that claimable_active by (intro row_move.lease [OF _ refl]) blast
  show ?thesis
    unfolding claim_dispatch_def Some option.case
    by (rule moved_ifI; rule update_op_moves) (rule close, assumption+, rule lease)
qed

lemma close_moves: "rows_moved H db (snd (close_dispatch dispatching reset eid token now db))"
  unfolding close_dispatch_def by (rule update_op_moves) (rule row_move.close [OF _ refl], simp)

lemma requeue_moves: "rows_moved H db (snd (requeue permanent max_retries eid token now db))"
  unfolding requeue_def by (rule update_op_moves) (rule row_move.give_back [OF _ _ refl], simp_all)

lemma freeze_moves: "rows_moved H db (snd (freeze_case eid eh symb token c now db))"
  unfolding freeze_case_def by (rule update_op_moves) (rule row_move.freeze [OF _ _ refl], simp_all)

text \<open>What a successful check of the durable authority says of the row.\<close>

lemma verify_durable_authority_Inr:
  assumes "verify_durable_authority H db eid token eh symb pos_case check_now = Inr (e, r)"
  shows "get_dispatch db eid = Some r" and "(pe_event_id e, pe_event_hash e, pe_symbol e) = (di_event_id r, di_event_hash r, di_symbol r)"
    and "di_event_id r = eid" and "di_lease_token r = Some token" and "di_state r = ''DISPATCHING''"
    and "check_now = Some now \<Longrightarrow> now < di_lease_expires_at_ms r"
    and "pos_case = Some c \<Longrightarrow> case_linked H e r c = Inr ()"
  using assms
  by (auto simp: verify_durable_authority_def result_simps get_dispatch_def lease_held_def split: option.splits if_splits
           dest!: fetchone_Some)

text \<open>A receipt is either the one of a completed analysis, and nothing is written, or a new one, written into a
  row that had none.\<close>

definition mint_where :: "string \<Rightarrow> string \<Rightarrow> case_package \<Rightarrow> int \<Rightarrow> dispatch_row \<Rightarrow> bool" where
  "mint_where eid token c now q \<longleftrightarrow> di_event_id q = eid \<and> di_state q = ''DISPATCHING'' \<and> di_lease_token q = Some token
     \<and> now < di_lease_expires_at_ms q \<and> di_analysis_admission_hash q = [] \<and> di_dispatch_authority_hash q = []
     \<and> di_dispatch_authority_json q = None \<and> frozen_case c q"

definition mint_set :: "hasher \<Rightarrow> position_event \<Rightarrow> case_package \<Rightarrow> string \<Rightarrow> int \<Rightarrow> int \<Rightarrow> dispatch_row \<Rightarrow> dispatch_row" where
  "mint_set H e c token now lease_ms q =
     (let a = dispatch_authority_of e c token; ah = digest H (dispatch_authority_doc a)
      in q\<lparr>di_dispatch_authority_json := Some a, di_dispatch_authority_hash := ah, di_analysis_admission_hash := admission_hash H ah,
           di_lease_expires_at_ms := now + lease_ms, di_updated_at_ms := now\<rparr>)"

lemma mint_body_Inr:
  assumes "mint_body H eid token eh symb c now lease_ms db = Inr (adm, db')"
  obtains (known) r where "get_dispatch db eid = Some r" and "aa_provider_completed adm" and "di_analysis_completed r" and "db' = db"
  | (fresh) e r where "get_dispatch db eid = Some r"
    and "(pe_event_id e, pe_event_hash e, pe_symbol e) = (di_event_id r, di_event_hash r, di_symbol r)"
    and "\<not> aa_provider_completed adm" and "aa_event_json adm = e" and "aa_case_json adm = c"
    and "case_linked H e r c = Inr ()" and "di_dispatch_authority_json r = None"
    and "update_dispatches None (mint_where eid token c now) (mint_set H e c token now lease_ms) db = Inr (1, db')"
proof -
  obtain e r where v: "verify_durable_authority H db eid token eh symb (Some c) (Some now) = Inr (e, r)"
    using assms by (auto simp: mint_body_def result_simps)
  note d = verify_durable_authority_Inr [OF v]
  show ?thesis
  proof (cases "di_analysis_admission_hash r = []")
    case False
    then show ?thesis using assms known [OF d(1)] by (auto simp: mint_body_def v result_simps split: if_splits)
  next
    case True
    have u: "update_dispatches None (mint_where eid token c now) (mint_set H e c token now lease_ms) db = Inr (1, db')"
        "\<not> aa_provider_completed adm" "aa_event_json adm = e" "aa_case_json adm = c" "di_dispatch_authority_json r = None"
      using assms True unfolding mint_body_def v mint_where_def [abs_def] mint_set_def [abs_def]
      by (auto simp: result_simps Let_def split: if_splits)
    show ?thesis using fresh [OF d(1,2) u(2,3,4) d(7) u(5,1)] by simp
  qed
qed

lemma mint_row_move:
  assumes "mint_where eid token c now r" and "(pe_event_id e, pe_event_hash e, pe_symbol e) = (di_event_id r, di_event_hash r, di_symbol r)"
  shows "row_move H r (mint_set H e c token now lease_ms r)"
  using assms unfolding mint_where_def mint_set_def Let_def by (intro row_move.mint [OF _ _ _ _ _ refl refl refl]) simp_all

lemma get_dispatch_same:
  assumes "ids_unique db" and "get_dispatch db eid = Some r" and "q \<in> set (live_position_case_dispatches db)" and "di_event_id q = eid"
  shows "q = r"
proof -
  have "r \<in> set (live_position_case_dispatches db)" and "di_event_id r = eid"
    using fetchone_Some [OF assms(2) [unfolded get_dispatch_def]] by blast+
  then show ?thesis using unique_onD [OF assms(1,3)] assms(4) by simp
qed

lemma mint_moves:
  assumes "ids_unique db"
  shows "rows_moved H db (snd (mint_analysis_admission H eid token eh symb c now lease_ms db))"
proof (cases "mint_body H eid token eh symb c now lease_ms db")
  case (Inl e)
  then show ?thesis by (simp add: mint_analysis_admission_def)
next
  case (Inr x)
  obtain adm db' where x: "x = (adm, db')" by (cases x)
  have "rows_moved H db db'"
  proof (rule mint_body_Inr [OF Inr [unfolded x]], goal_cases)
    case 1
    then show ?case by simp
  next
    case (2 e r)
    then show ?case
      using get_dispatch_same [OF assms 2(1)] by (intro rows_moved_update [OF 2(8)] mint_row_move) (auto simp: mint_where_def)
  qed
  then show ?thesis using Inr x by (simp add: mint_analysis_admission_def)
qed

lemma complete_moves: "rows_moved H db (snd (complete_analysis H adm token now db))"
proof (cases "complete_body H adm token now db")
  case (Inl e)
  then show ?thesis by (simp add: complete_analysis_def)
next
  case (Inr x)
  obtain ev db' where x: "x = (ev, db')" by (cases x)
  have "rows_moved H db db'" using Inr [unfolded x]
    by (auto simp: complete_body_def Let_def result_simps split: prod.splits if_splits elim!: rows_moved_update intro!: row_move.finish)
  then show ?thesis using Inr x by (simp add: complete_analysis_def)
qed

lemmas command_moves = claim_moves freeze_moves mint_moves complete_moves close_moves requeue_moves

lemma run_dispatch_moves:
  assumes "ids_unique db" and "\<nexists>obs now tokens. cmd = Observe obs now tokens"
  shows "rows_moved H db (run_dispatch H p cmd db)"
  using assms by (cases cmd) (auto intro: command_moves)

section \<open>Well-formed rows\<close>

text \<open>What every reader of a dispatch relies on: one of four states, a lease exactly while it is being worked on,
  a completed analysis exactly when it is DONE, the four case columns written together, the admission
  receipt computed from an authority over exactly this row and its frozen case.\<close>

definition receipt_ok :: "hasher \<Rightarrow> dispatch_row \<Rightarrow> dispatch_authority \<Rightarrow> bool" where
  "receipt_ok H r a \<longleftrightarrow> di_position_case_json r \<noteq> None
     \<and> di_dispatch_authority_hash r = digest H (dispatch_authority_doc a)
     \<and> di_analysis_admission_hash r = admission_hash H (digest H (dispatch_authority_doc a))
     \<and> (da_event_id a, da_event_hash a, da_symbol a) = (di_event_id r, di_event_hash r, di_symbol r)
     \<and> da_position_case_id a = di_position_case_id r \<and> da_position_case_hash a = di_position_case_hash r"

definition dispatch_ok :: "hasher \<Rightarrow> dispatch_row \<Rightarrow> bool" where
  "dispatch_ok H r \<longleftrightarrow> di_state r \<in> {''PENDING'', ''DISPATCHING'', ''DONE'', ''FAILED_CLOSED''}
     \<and> (di_lease_token r \<noteq> None \<longleftrightarrow> di_state r = ''DISPATCHING'') \<and> 0 \<le> di_retry_count r
     \<and> (di_analysis_completed r \<longleftrightarrow> di_state r = ''DONE'')
     \<and> (di_state r = ''DONE'' \<longrightarrow> di_dispatch_authority_json r \<noteq> None)
     \<and> (case di_position_case_json r of
          None \<Rightarrow> (di_position_case_id r, di_position_case_hash r, di_case_hash r) = ([], [], []) | Some c \<Rightarrow> frozen_case c r)
     \<and> (case di_dispatch_authority_json r of
          None \<Rightarrow> (di_dispatch_authority_hash r, di_analysis_admission_hash r) = ([], []) | Some a \<Rightarrow> receipt_ok H r a)"

definition known_event :: "supervisor_db \<Rightarrow> dispatch_row \<Rightarrow> bool" where
  "known_event db r \<longleftrightarrow> list_ex (\<lambda>e. (ev_event_id e, ev_event_hash e, ev_symbol e) = (di_event_id r, di_event_hash r, di_symbol r))
     (live_position_events db)"

definition dispatches_ok :: "hasher \<Rightarrow> supervisor_db \<Rightarrow> bool" where
  "dispatches_ok H db \<longleftrightarrow> ids_unique db \<and> unique_on ev_event_id (live_position_events db)
     \<and> list_all (\<lambda>r. dispatch_ok H r \<and> known_event db r) (live_position_case_dispatches db)"

lemma move_keeps_identity:
  "moved H r r' \<Longrightarrow> (di_event_id r', di_event_hash r', di_symbol r') = (di_event_id r, di_event_hash r, di_symbol r)"
  by (auto simp: moved_def close_row_def elim: row_moveE)

lemma move_keeps_ok:
  assumes "moved H r r'" and "dispatch_ok H r"
  shows "dispatch_ok H r'"
  using assms(1) unfolding moved_def
proof
  assume "row_move H r r'"
  then show ?thesis using assms(2)
  proof cases
    case (mint token c e a ah t now)
    then show ?thesis using assms(2)
      by (auto simp: dispatch_ok_def frozen_case_def receipt_ok_def dispatch_authority_of_def split: option.splits)
  qed (auto simp: dispatch_ok_def frozen_case_def receipt_ok_def active_def close_row_def split: option.splits)
qed (use assms(2) in simp)

lemma rows_moved_columns:
  assumes "rows_moved H db db'" and "\<And>r r'. moved H r r' \<Longrightarrow> k r' = k r"
  shows "map k (live_position_case_dispatches db') = map k (live_position_case_dispatches db)"
proof -
  have "list_all2 (\<lambda>x y. k x = k y) (live_position_case_dispatches db') (live_position_case_dispatches db)"
    using assms unfolding rows_moved_def list_all2_conv_all_nth by simp
  then show ?thesis by (simp add: list.rel_eq [symmetric] list_all2_map1 list_all2_map2)
qed

lemma rows_moved_events: "rows_moved H db db' \<Longrightarrow> live_position_events db' = live_position_events db"
  unfolding rows_moved_def by (metis supervisor_db.ext_inject supervisor_db.surjective supervisor_db.update_convs(6))

lemma rows_moved_origin:
  assumes "rows_moved H db db'" and "r' \<in> set (live_position_case_dispatches db')"
  shows "\<exists>r \<in> set (live_position_case_dispatches db). moved H r r'"
proof -
  have "list_all2 (moved H) (live_position_case_dispatches db) (live_position_case_dispatches db')"
    using assms(1) by (simp only: rows_moved_def)
  then show ?thesis using assms(2) by (auto simp: list_all2_conv_all_nth set_conv_nth)
qed

lemma rows_moved_ok:
  assumes "rows_moved H db db'" and "dispatches_ok H db"
  shows "dispatches_ok H db'"
proof -
  have ev: "live_position_events db' = live_position_events db" by (rule rows_moved_events [OF assms(1)])
  have "map di_event_id (live_position_case_dispatches db') = map di_event_id (live_position_case_dispatches db)"
    using rows_moved_columns [OF assms(1), of di_event_id] move_keeps_identity by blast
  moreover have "dispatch_ok H r' \<and> known_event db' r'" if r': "r' \<in> set (live_position_case_dispatches db')" for r'
  proof -
    obtain r where r: "r \<in> set (live_position_case_dispatches db)" "moved H r r'"
      using rows_moved_origin [OF assms(1) r'] by blast
    then have "dispatch_ok H r" "known_event db r" using assms(2) by (auto simp: dispatches_ok_def list_all_iff)
    then have "dispatch_ok H r'" and "known_event db r'"
      using move_keeps_ok [OF r(2)] by (simp_all only: known_event_def move_keeps_identity [OF r(2)])
    then show ?thesis by (simp only: known_event_def ev)
  qed
  ultimately show ?thesis using assms(2) by (simp add: dispatches_ok_def unique_on_def list_all_iff ev)
qed

section \<open>Evaluations\<close>

lemma emit_preserves:
  assumes "emit_events H p s key now trigs db = Inr (es, db')" and "Q db"
    and "\<And>db e trig token db1. \<lbrakk>Q db; \<not> cooling p key trig now db; event_build H (new_event s key token trig now) = Inr e;
           insert_event e db = Inr db1\<rbrakk> \<Longrightarrow> Q (queue_dispatch e now db1)"
  shows "Q db'"
  using assms(1,2)
proof (induction trigs arbitrary: db es)
  case Nil
  then show ?case by simp
next
  case (Cons x rest)
  obtain trig token where x: "x = (trig, token)" by (cases x)
  show ?case
  proof (cases "cooling p key trig now db")
    case True
    then show ?thesis using Cons.prems Cons.IH by (simp add: x)
  next
    case False
    then obtain e db1 es' where e: "event_build H (new_event s key token trig now) = Inr e" "insert_event e db = Inr db1"
        and rest: "emit_events H p s key now rest (queue_dispatch e now db1) = Inr (es', db')"
      using Cons.prems(1) by (auto simp: x result_simps)
    show ?thesis by (rule Cons.IH [OF rest]) (rule assms(3) [OF Cons.prems(2) False e])
  qed
qed


text \<open>An evaluation leaves the store alone or emits events after it noted the observation.\<close>

definition noted :: "position_observation \<Rightarrow> supervisor_db \<Rightarrow> supervisor_db \<Rightarrow> bool" where
  "noted s db db1 \<longleftrightarrow> live_position_events db1 = live_position_events db
     \<and> live_position_case_dispatches db1 = live_position_case_dispatches db
     \<and> live_position_observed_sources db1 = live_position_observed_sources db @ [pob_observation_hash s]
     \<and> pob_observation_hash s \<notin> set (live_position_observed_sources db)"

lemma evaluate_body_emits:
  assumes "evaluate_body H p s key now tokens db = Inr (es, db')"
  shows "db' = db \<and> es = [] \<and> pob_observation_hash s \<in> set (live_position_observed_sources db)
    \<or> (\<exists>trigs db1. emit_events H p s key now trigs db1 = Inr (es, db') \<and> noted s db db1)"
proof (cases "pob_observation_hash s \<in> set (live_position_observed_sources db)")
  case True
  then show ?thesis using assms by (simp add: evaluate_body_def)
next
  case False
  have known: "\<exists>trigs db1. emit_events H p s key now trigs db1 = Inr (es, db') \<and> noted s db db1"
    if "evaluate_known H p s key now tokens r old db0 = Inr (es, db')" "live_position_events db0 = live_position_events db"
       "live_position_case_dispatches db0 = live_position_case_dispatches db"
       "live_position_observed_sources db0 = live_position_observed_sources db" for r old db0
    using that False unfolding evaluate_known_def Let_def noted_def by (intro exI conjI) (assumption, simp_all)
  show ?thesis
    using assms False by (auto simp: evaluate_body_def split: option.splits if_splits dest: known)
qed

lemma evaluate_emits:
  assumes "snd (evaluate_position H p s now tokens db) \<noteq> db"
  obtains key trigs db1 es where "emit_events H p s key now trigs db1 = Inr (es, snd (evaluate_position H p s now tokens db))"
    and "noted s db db1"
proof -
  obtain key es where "evaluate_body H p s key now tokens db = Inr (es, snd (evaluate_position H p s now tokens db))"
    using assms by (auto simp: evaluate_position_def result_simps split: sum.splits)
  then show ?thesis using evaluate_body_emits assms that by blast
qed

lemma insert_event_Inr:
  assumes "insert_event e db = Inr db1"
  shows "db1 = db\<lparr>live_position_events := live_position_events db @ [event_row_of e]\<rparr>"
    and "r \<in> set (live_position_events db) \<Longrightarrow> ev_event_id r \<noteq> pe_event_id e"
  using assms by (auto simp: insert_event_def list_ex_iff split: if_splits)

lemma queue_event_ok:
  assumes "dispatches_ok H db" and "insert_event e db = Inr db1"
  shows "dispatches_ok H (queue_dispatch e now db1)"
proof -
  note i = insert_event_Inr [OF assms(2)]
  have known: "known_event db1 r" if "known_event db r" for r
    using that by (simp add: known_event_def i(1))
  have fresh: "di_event_id r \<noteq> pe_event_id e" if "r \<in> set (live_position_case_dispatches db)" for r
    using assms(1) that i(2) by (auto simp: dispatches_ok_def known_event_def list_all_iff list_ex_iff)
  have blank: "dispatch_ok H (blank_dispatch e now)" "known_event db1 (blank_dispatch e now)"
    by (simp_all add: dispatch_ok_def blank_dispatch_def known_event_def i(1) event_row_of_def)
  show ?thesis
    using assms(1) i(2) known fresh blank
    by (auto simp: dispatches_ok_def queue_dispatch_def unique_on_append list_all_iff known_event_def i(1) event_row_of_def
             blank_dispatch_def)
qed

lemma evaluate_ok:
  assumes "dispatches_ok H db"
  shows "dispatches_ok H (snd (evaluate_position H p s now tokens db))"
proof (cases "snd (evaluate_position H p s now tokens db) = db")
  case False
  then show ?thesis
  proof (rule evaluate_emits, goal_cases)
    case (1 key trigs db1 es)
    have "dispatches_ok H db1" using assms 1(2) by (simp add: dispatches_ok_def known_event_def noted_def)
    then show ?case by (rule emit_preserves [OF 1(1)]) (rule queue_event_ok)
  qed
qed (use assms in simp)

lemma run_dispatch_cases:
  assumes "ids_unique db"
  obtains (observe) s now tokens where "run_dispatch H p cmd db = snd (evaluate_position H p s now tokens db)"
  | (move) "rows_moved H db (run_dispatch H p cmd db)"
  using run_dispatch_moves [OF assms, of cmd] by (cases cmd) auto

lemma step_ok:
  assumes "dispatches_ok H db" and "dispatch_step H p db db'"
  shows "dispatches_ok H db'"
proof -
  obtain cmd where db': "db' = run_dispatch H p cmd db" using assms(2) by (rule dispatch_stepE)
  have "ids_unique db" using assms(1) by (simp add: dispatches_ok_def)
  then show ?thesis unfolding db'
    by (cases rule: run_dispatch_cases [of db H p cmd]) (simp_all add: assms(1) evaluate_ok rows_moved_ok [OF _ assms(1)])
qed

section \<open>What is never taken back\<close>

lemma fetchone_moved:
  "list_all2 (moved H) rows rows' \<Longrightarrow> fetchone (\<lambda>r. di_event_id r = eid) rows = Some r
     \<Longrightarrow> \<exists>r'. fetchone (\<lambda>r. di_event_id r = eid) rows' = Some r' \<and> moved H r r'"
proof (induction rule: list_all2_induct)
  case (Cons x xs y ys)
  then show ?case using move_keeps_identity [OF Cons.hyps(1)] by (auto split: if_splits)
qed simp

lemma moved_dispatch:
  assumes "rows_moved H db db'" and "get_dispatch db eid = Some r"
  obtains r' where "get_dispatch db' eid = Some r'" and "moved H r r'"
proof -
  have "list_all2 (moved H) (live_position_case_dispatches db) (live_position_case_dispatches db')"
    using assms(1) by (simp only: rows_moved_def)
  from fetchone_moved [OF this assms(2) [unfolded get_dispatch_def]] show ?thesis
    using that by (auto simp: get_dispatch_def)
qed

lemma evaluate_keeps_dispatch:
  assumes "get_dispatch db eid = Some r"
  shows "get_dispatch (snd (evaluate_position H p s now tokens db)) eid = Some r"
proof (cases "snd (evaluate_position H p s now tokens db) = db")
  case False
  then show ?thesis
  proof (rule evaluate_emits, goal_cases)
    case (1 key trigs db1 es)
    have "get_dispatch db1 eid = Some r" using assms 1(2) by (simp add: get_dispatch_def noted_def)
    then show ?case
      by (rule emit_preserves [OF 1(1)])
         (auto simp: get_dispatch_def queue_dispatch_def fetchone_append dest: insert_event_Inr(1))
  qed
qed (use assms in simp)

lemma step_dispatch:
  assumes "dispatches_ok H db" and "dispatch_step H p db db'" and "get_dispatch db eid = Some r"
  obtains r' where "get_dispatch db' eid = Some r'" and "moved H r r'" and "dispatch_ok H r"
proof -
  obtain cmd where db': "db' = run_dispatch H p cmd db" using assms(2) by (rule dispatch_stepE)
  have u: "ids_unique db" and r: "dispatch_ok H r"
    using assms(1,3) by (auto simp: dispatches_ok_def list_all_iff get_dispatch_def dest!: fetchone_Some)
  from u show ?thesis
  proof (cases rule: run_dispatch_cases [of db H p cmd])
    case (observe s now tokens)
    then show ?thesis using that [of r] evaluate_keeps_dispatch [OF assms(3)] r by (simp add: db' moved_def)
  next
    case move
    then show ?thesis using moved_dispatch [OF _ assms(3)] that r unfolding db' by blast
  qed
qed

definition admitted :: "supervisor_db \<Rightarrow> string \<Rightarrow> (dispatch_authority \<times> case_package option) option" where
  "admitted db eid = (case get_dispatch db eid of
     None \<Rightarrow> None
   | Some r \<Rightarrow> map_option (\<lambda>a. (a, di_position_case_json r)) (di_dispatch_authority_json r))"

definition settled :: "supervisor_db \<Rightarrow> string \<Rightarrow> string option" where
  "settled db eid = (case get_dispatch db eid of
     None \<Rightarrow> None
   | Some r \<Rightarrow> if di_state r \<in> {''DONE'', ''FAILED_CLOSED''} then Some (di_state r) else None)"

lemma move_keeps_admission:
  assumes "moved H r r'" and "dispatch_ok H r" and "di_dispatch_authority_json r = Some a"
  shows "di_dispatch_authority_json r' = Some a \<and> di_position_case_json r' = di_position_case_json r"
  using assms by (auto simp: moved_def close_row_def dispatch_ok_def receipt_ok_def elim!: row_moveE)

lemma move_keeps_settled:
  assumes "moved H r r'" and "dispatch_ok H r" and "di_state r \<in> {''DONE'', ''FAILED_CLOSED''}"
  shows "di_state r' = di_state r"
  using assms by (auto simp: moved_def active_def dispatch_ok_def elim!: row_moveE)

interpretation admissions: latched_system "dispatch_step H p" "dispatches_ok H" admitted for H :: hasher and p :: supervisor_policy
proof unfold_locales
  fix db db' eid v
  assume ok: "dispatches_ok H db" and st: "dispatch_step H p db db'"
  show "dispatches_ok H db'" by (rule step_ok [OF ok st])
  assume v: "admitted db eid = Some v"
  then obtain r where r: "get_dispatch db eid = Some r" by (auto simp: admitted_def split: option.splits)
  show "admitted db' eid = Some v"
    by (rule step_dispatch [OF ok st r]) (use v move_keeps_admission in \<open>auto simp: admitted_def r\<close>)
qed

interpretation settlements: latched_system "dispatch_step H p" "dispatches_ok H" settled for H :: hasher and p :: supervisor_policy
proof unfold_locales
  fix db db' eid v
  assume ok: "dispatches_ok H db" and st: "dispatch_step H p db db'" and v: "settled db eid = Some v"
  then obtain r where r: "get_dispatch db eid = Some r" by (auto simp: settled_def split: option.splits)
  show "settled db' eid = Some v"
    by (rule step_dispatch [OF ok st r]) (use v move_keeps_settled in \<open>auto simp: settled_def r split: if_splits\<close>)
qed

section \<open>Admissions along a run\<close>

text \<open>A command that hands out a new receipt: the licence to call the analysis for an event.\<close>

fun new_receipt :: "hasher \<Rightarrow> string \<Rightarrow> dispatch_command \<Rightarrow> supervisor_db \<Rightarrow> bool" where
  "new_receipt H eid (Mint eid' token eh symb c now lease_ms) db \<longleftrightarrow> eid' = eid
     \<and> (case fst (mint_analysis_admission H eid' token eh symb c now lease_ms db) of
          Inl e \<Rightarrow> False | Inr adm \<Rightarrow> \<not> aa_provider_completed adm)"
| "new_receipt H eid cmd db \<longleftrightarrow> False"

fun receipts :: "hasher \<Rightarrow> supervisor_policy \<Rightarrow> string \<Rightarrow> dispatch_command list \<Rightarrow> supervisor_db \<Rightarrow> nat" where
  "receipts H p eid [] db = 0"
| "receipts H p eid (cmd # cmds) db = (if new_receipt H eid cmd db then 1 else 0) + receipts H p eid cmds (run_dispatch H p cmd db)"

lemma mint_fresh_admits:
  assumes "ids_unique db" and "mint_body H eid token eh symb c now lease_ms db = Inr (adm, db')" and "\<not> aa_provider_completed adm"
  shows "admitted db eid = None" and "admitted db' eid = Some (dispatch_authority_of (aa_event_json adm) c token, Some c)"
proof -
  obtain e r where r: "get_dispatch db eid = Some r" and e: "aa_event_json adm = e" and none: "di_dispatch_authority_json r = None"
      and u: "update_dispatches None (mint_where eid token c now) (mint_set H e c token now lease_ms) db = Inr (1, db')"
    by (rule mint_body_Inr [OF assms(2)]) (use assms(3) in blast)+
  show "admitted db eid = None" using r none by (simp add: admitted_def)
  obtain q where q: "q \<in> set (live_position_case_dispatches db)" "mint_where eid token c now q"
    using update_dispatches_Inr(2) [OF u] rowcount_pos [of "mint_where eid token c now" "live_position_case_dispatches db"] by auto
  have "q = r" using get_dispatch_same [OF assms(1) r q(1)] q(2) by (simp add: mint_where_def)
  then have w: "mint_where eid token c now r" using q(2) by simp
  have keep: "di_event_id (mint_set H e c token now lease_ms x) = di_event_id x" for x by (simp add: mint_set_def Let_def)
  have "get_dispatch db' eid = Some (mint_set H e c token now lease_ms r)"
    using r w unfolding get_dispatch_def update_dispatches_Inr(1) [OF u]
    by (simp add: fetchone_update_where keep)
  then show "admitted db' eid = Some (dispatch_authority_of (aa_event_json adm) c token, Some c)"
    using w by (simp add: admitted_def mint_set_def Let_def e mint_where_def frozen_case_def)
qed

lemma new_receipt_admits:
  assumes "dispatches_ok H db" and "new_receipt H eid cmd db"
  shows "admitted db eid = None \<and> admitted (run_dispatch H p cmd db) eid \<noteq> None"
proof -
  obtain token eh symb c now lease_ms where cmd: "cmd = Mint eid token eh symb c now lease_ms" using assms(2) by (cases cmd) auto
  obtain adm db' where m: "mint_body H eid token eh symb c now lease_ms db = Inr (adm, db')" "\<not> aa_provider_completed adm"
    using assms(2) by (cases "mint_body H eid token eh symb c now lease_ms db") (auto simp: cmd mint_analysis_admission_def)
  have "ids_unique db" using assms(1) by (simp add: dispatches_ok_def)
  from mint_fresh_admits [OF this m] show ?thesis by (simp add: cmd mint_analysis_admission_def m(1))
qed

lemma receipts_none:
  "dispatches_ok H db \<Longrightarrow> admitted db eid \<noteq> None \<Longrightarrow> receipts H p eid cmds db = 0"
proof (induction cmds arbitrary: db)
  case (Cons cmd cmds)
  have st: "dispatch_step H p db (run_dispatch H p cmd db)" by (rule dispatch_step.command)
  have "admitted (run_dispatch H p cmd db) eid \<noteq> None"
    using Cons.prems(2) admissions.step_latch [OF Cons.prems(1) st] by fastforce
  then show ?case using Cons new_receipt_admits [OF Cons.prems(1)] step_ok [OF Cons.prems(1) st] by auto
qed simp

text \<open>C37: the analysis of a position event is licensed at most once. Along any sequence of committed
  commands, of any number of workers, with any lease tokens, clocks and retries, and whatever else
  is evaluated in between, at most one command hands out a new admission receipt for an event. A worker
  calls the analysis only on a new receipt, so a crash, an expired lease or a second worker never
  causes a second call.\<close>

theorem analysis_admitted_once:
  assumes "dispatches_ok H db"
  shows "receipts H p eid cmds db \<le> 1"
  using assms
proof (induction cmds arbitrary: db)
  case (Cons cmd cmds)
  have st: "dispatch_step H p db (run_dispatch H p cmd db)" by (rule dispatch_step.command)
  note ok = step_ok [OF Cons.prems st]
  show ?case
    using Cons.IH [OF ok] receipts_none [OF ok] new_receipt_admits [OF Cons.prems, of eid cmd p] by auto
qed simp

lemma reachable_dispatches_ok:
  assumes "(dispatch_step H p)\<^sup>*\<^sup>* empty_supervisor_db db"
  shows "dispatches_ok H db"
proof (rule admissions.steps_inv [OF assms])
  show "dispatches_ok H empty_supervisor_db"
    by (simp add: dispatches_ok_def empty_supervisor_db_def unique_on_def)
qed

text \<open>C39: the rows of the dispatch table keep their type. In every state that any interleaving of
  evaluations and drains reaches from an empty store, each dispatch is in one of its four
  states, holds a lease exactly while it is DISPATCHING, is completed exactly when it is DONE, has its
  four case columns written together and an admission receipt that hashes the authority over
  exactly its own event and frozen case; ids are unique and every dispatch has its event.\<close>

theorem dispatch_rows_well_formed:
  assumes "(dispatch_step H p)\<^sup>*\<^sup>* empty_supervisor_db db"
  shows "dispatches_ok H db"
  by (rule reachable_dispatches_ok [OF assms])

text \<open>a dispatch that ended stays as it ended. Once a dispatch is DONE or FAILED\_CLOSED, no later
  command of any worker changes its state, and an admission that was granted keeps its authority and
  its frozen case.\<close>

theorem dispatch_outcome_final:
  assumes "dispatches_ok H db" and "(dispatch_step H p)\<^sup>*\<^sup>* db db'"
  shows "(settled db eid = Some s \<longrightarrow> settled db' eid = Some s) \<and> (admitted db eid = Some a \<longrightarrow> admitted db' eid = Some a)"
  using settlements.steps_latch [OF assms(2,1)] admissions.steps_latch [OF assms(2,1)] by blast+

end
