(* ===== verification/Observation_Safety.thy ===== *)
theory Observation_Safety
  imports Dispatch_Safety
begin

text \<open>
  What the supervisor's evaluations promise, under every interleaving with the drains: an observation is
  evaluated once, an alarm is not repeated within its cooldown, and the open and close events of a
  position are the moves of an abstract switch.
\<close>

section \<open>The event log\<close>

definition event_identity :: "event_row \<Rightarrow> string option \<times> string option \<times> string option \<times> string \<times> string option" where
  "event_identity r = (ev_environment r, ev_credential_namespace r, ev_account_id r, ev_symbol r, ev_position_side r)"

definition identity_of :: "position_observation \<Rightarrow> string option \<times> string option \<times> string option \<times> string \<times> string option" where
  "identity_of s = (Some (pob_environment s), Some (pob_credential_namespace s), Some (pob_account_id s), pob_symbol s, Some (pob_position_side s))"

definition is_transition :: "string \<Rightarrow> bool" where
  "is_transition t \<longleftrightarrow> t = ''POSITION_OPENED'' \<or> t = ''POSITION_CLOSED''"

lemma event_build_fields:
  "event_build H e = Inr e' \<Longrightarrow> e' = e\<lparr>pe_event_hash := pe_event_hash e'\<rparr>"
  by (auto simp: event_build_def event_validate_def result_simps split: if_splits)

lemma emitted_row:
  assumes "event_build H (new_event s key token trig now) = Inr e"
  shows "ev_trigger (event_row_of e) = trig" and "event_identity (event_row_of e) = identity_of s"
    and "ev_position_authority_key (event_row_of e) = Some key" and "ev_observed_at_ms (event_row_of e) = now"
  by (subst event_build_fields [OF assms], simp add: event_row_of_def new_event_def event_identity_def identity_of_def)+

lemma queued_tables:
  assumes "insert_event e db = Inr db1"
  shows "live_position_events (queue_dispatch e now db1) = live_position_events db @ [event_row_of e]"
    and "live_position_observed_sources (queue_dispatch e now db1) = live_position_observed_sources db"
    and "live_position_lifecycle_v2 (queue_dispatch e now db1) = live_position_lifecycle_v2 db"
    and "live_position_active (queue_dispatch e now db1) = live_position_active db"
  by (simp_all add: insert_event_Inr(1) [OF assms] queue_dispatch_def)

text \<open>What one evaluation appends to the log: rows of the observed position, whose transitions are exactly those
  that were asked for.\<close>

lemma emit_log:
  assumes "emit_events H p s key now trigs db = Inr (es, db')"
  shows "\<exists>new. live_position_events db' = live_position_events db @ new \<and> (\<forall>r \<in> set new. event_identity r = identity_of s)
    \<and> filter is_transition (map ev_trigger new) = filter is_transition (map fst trigs)"
  using assms
proof (induction trigs arbitrary: db es)
  case Nil
  then show ?case by simp
next
  case (Cons x rest)
  obtain trig token where x: "x = (trig, token)" by (cases x)
  show ?case
  proof (cases "cooling p key trig now db")
    case True
    then have "\<not> is_transition trig" by (auto simp: cooling_def is_transition_def)
    then show ?thesis using Cons True by (simp add: x)
  next
    case False
    then obtain e db1 es' where e: "event_build H (new_event s key token trig now) = Inr e" "insert_event e db = Inr db1"
        and rest: "emit_events H p s key now rest (queue_dispatch e now db1) = Inr (es', db')"
      using Cons.prems(1) by (auto simp: x result_simps)
    obtain new where new: "live_position_events db' = live_position_events db @ event_row_of e # new"
        "\<forall>r \<in> set new. event_identity r = identity_of s" "filter is_transition (map ev_trigger new) = filter is_transition (map fst rest)"
      using Cons.IH [OF rest] queued_tables(1) [OF e(2)] by auto
    show ?thesis
      by (rule exI [of _ "event_row_of e # new"]) (use new emitted_row [OF e(1)] in \<open>simp add: x\<close>)
  qed
qed

lemma emit_keeps:
  assumes "emit_events H p s key now trigs db = Inr (es, db')"
  shows "live_position_observed_sources db' = live_position_observed_sources db \<and> live_position_lifecycle_v2 db' = live_position_lifecycle_v2 db
     \<and> live_position_active db' = live_position_active db"
  by (rule emit_preserves [OF assms]) (simp_all add: queued_tables)

section \<open>Each observation once\<close>

definition observed :: "supervisor_db \<Rightarrow> string \<Rightarrow> unit option" where
  "observed db h = (if h \<in> set (live_position_observed_sources db) then Some () else None)"

lemma rows_moved_tables:
  assumes "rows_moved H db db'"
  shows "live_position_events db' = live_position_events db" and "live_position_observed_sources db' = live_position_observed_sources db"
    and "live_position_lifecycle_v2 db' = live_position_lifecycle_v2 db" and "live_position_active db' = live_position_active db"
proof -
  define rows where "rows = live_position_case_dispatches db'"
  have "db' = db\<lparr>live_position_case_dispatches := rows\<rparr>" using assms unfolding rows_moved_def rows_def by simp
  then show "live_position_events db' = live_position_events db" and "live_position_observed_sources db' = live_position_observed_sources db"
    and "live_position_lifecycle_v2 db' = live_position_lifecycle_v2 db" and "live_position_active db' = live_position_active db" by simp_all
qed

lemma evaluate_observed: "observed db h = Some () \<Longrightarrow> observed (snd (evaluate_position H p s now tokens db)) h = Some ()"
  by (cases "snd (evaluate_position H p s now tokens db) = db")
     (auto simp: observed_def noted_def split: if_splits elim!: evaluate_emits dest!: emit_keeps)

interpretation observations: latched_system "dispatch_step H p" "dispatches_ok H" observed for H :: hasher and p :: supervisor_policy
proof unfold_locales
  fix db db' h v
  assume ok: "dispatches_ok H db" and st: "dispatch_step H p db db'" and v: "observed db h = Some v"
  obtain cmd where db': "db' = run_dispatch H p cmd db" using st by (rule dispatch_stepE)
  have "ids_unique db" using ok by (simp add: dispatches_ok_def)
  then show "observed db' h = Some v"
    using v evaluate_observed unfolding db'
    by (cases rule: run_dispatch_cases [of db H p cmd]) (auto simp: observed_def rows_moved_tables)
qed


lemma evaluate_notes:
  assumes "evaluate_position H p s now tokens db = (Inr es, db')"
  shows "observed db' (pob_observation_hash s) = Some ()"
proof -
  obtain key where "evaluate_body H p s key now tokens db = Inr (es, db')"
    using assms by (auto simp: evaluate_position_def result_simps split: sum.splits)
  from evaluate_body_emits [OF this] show ?thesis by (auto simp: observed_def noted_def dest: emit_keeps)
qed

text \<open>an observation is evaluated once. After a successful evaluation, whatever other evaluations and
  drains commit in between, evaluating the same observation again, at any time, returns no event and
  leaves the store as it is: no event, transition or dispatch is duplicated by a replay.\<close>

theorem observation_evaluated_once:
  assumes "dispatches_ok H db" and "evaluate_position H p s now tokens db = (Inr es, db')" and "(dispatch_step H p)\<^sup>*\<^sup>* db' db''"
  shows "evaluate_position H p s now' tokens' db'' = (Inr [], db'')"
proof -
  have "dispatches_ok H db'" using evaluate_ok [OF assms(1), of p s now tokens] assms(2) by simp
  then have "observed db'' (pob_observation_hash s) = Some ()"
    using observations.steps_latch [OF assms(3)] evaluate_notes [OF assms(2)] by blast
  then have "pob_observation_hash s \<in> set (live_position_observed_sources db'')" by (simp add: observed_def split: if_splits)
  then show ?thesis using assms(2) by (auto simp: evaluate_position_def evaluate_body_def result_simps split: sum.splits)
qed

section \<open>Cooldown\<close>

definition spaced :: "supervisor_policy \<Rightarrow> event_row \<Rightarrow> event_row \<Rightarrow> bool" where
  "spaced p a b \<longleftrightarrow> (ev_position_authority_key a = ev_position_authority_key b \<and> ev_position_authority_key a \<noteq> None
     \<and> ev_trigger a = ev_trigger b \<and> \<not> is_transition (ev_trigger a) \<longrightarrow> sp_cooldown_ms p \<le> ev_observed_at_ms b - ev_observed_at_ms a)"

lemma evaluate_spaced:
  assumes "sorted_wrt (spaced p) (live_position_events db)"
  shows "sorted_wrt (spaced p) (live_position_events (snd (evaluate_position H p s now tokens db)))"
proof (cases "snd (evaluate_position H p s now tokens db) = db")
  case False
  then show ?thesis
  proof (rule evaluate_emits, goal_cases)
    case (1 key trigs db1 es)
    have "sorted_wrt (spaced p) (live_position_events db1)" using assms 1(2) by (simp add: noted_def)
    then show ?case
      by (rule emit_preserves [OF 1(1)])
         (force simp: queued_tables sorted_wrt_append spaced_def emitted_row cooling_def list_ex_iff is_transition_def)
  qed
qed (use assms in simp)

text \<open>an alarm is not repeated within its cooldown. In every reachable store, two events of the same
  position and the same trigger, openings and closings apart, are at least the policy's cooldown apart,
  in the order they were written.\<close>

theorem alarms_respect_cooldown:
  assumes "(dispatch_step H p)\<^sup>*\<^sup>* empty_supervisor_db db"
  shows "sorted_wrt (spaced p) (live_position_events db)"
  using assms
proof (induction rule: rtranclp_induct)
  case base
  then show ?case by (simp add: empty_supervisor_db_def)
next
  case (step db db')
  obtain cmd where db': "db' = run_dispatch H p cmd db" using step.hyps(2) by (rule dispatch_stepE)
  have "ids_unique db" using reachable_dispatches_ok [OF step.hyps(1)] by (simp add: dispatches_ok_def)
  then show ?case unfolding db'
    by (cases rule: run_dispatch_cases [of db H p cmd]) (use step.IH in \<open>simp_all add: evaluate_spaced rows_moved_tables\<close>)
qed

section \<open>The switch of a position\<close>

text \<open>The abstract position is a switch that is open or not. \<open>replay\<close> runs the transitions of the log on it,
  \<open>None\<close> when a transition does not fit.\<close>

fun replay :: "bool \<Rightarrow> string list \<Rightarrow> bool option" where
  "replay is_open [] = Some is_open"
| "replay is_open (t # ts) =
     (if t = (if is_open then ''POSITION_CLOSED'' else ''POSITION_OPENED'') then replay (\<not> is_open) ts else None)"

lemma replay_append: "replay o1 (xs @ ys) = (case replay o1 xs of None \<Rightarrow> None | Some o2 \<Rightarrow> replay o2 ys)"
  by (induction xs arbitrary: o1) auto

definition transition_log :: "position_observation \<Rightarrow> supervisor_db \<Rightarrow> string list" where
  "transition_log s db = filter is_transition (map ev_trigger (filter (\<lambda>r. event_identity r = identity_of s) (live_position_events db)))"

definition position_open :: "position_observation \<Rightarrow> supervisor_db \<Rightarrow> bool" where
  "position_open s db = was_open (fetchone (lifecycle_key s) (live_position_lifecycle_v2 db)) None"

definition lifecycle_ok :: "lifecycle_row \<Rightarrow> bool" where
  "lifecycle_ok r \<longleftrightarrow> isfinite (lf_quantity r) \<and> lf_is_open r = (\<not> feq (lf_quantity r) 0)"

definition switch_ok :: "supervisor_db \<Rightarrow> bool" where
  "switch_ok db \<longleftrightarrow> live_position_active db = [] \<and> (\<forall>r \<in> set (live_position_lifecycle_v2 db). lifecycle_ok r)
     \<and> (\<forall>s. replay False (transition_log s db) = Some (position_open s db))"

lemma transitions_replay:
  assumes "isfinite q" and "\<And>r. prev = Some r \<Longrightarrow> lifecycle_ok r"
  shows "replay (was_open prev None) (position_transitions prev (was_open prev None) q) = Some (\<not> feq q 0)"
  using assms
  by (cases prev; cases q)
     (auto simp: position_transitions_def was_open_def lifecycle_ok_def feq_def zero_flt_def isfinite_iff split: if_splits)

lemma transitions_are_transitions:
  "filter is_transition (position_transitions prev o1 q @ observed_triggers p s now) = position_transitions prev o1 q"
  by (auto simp: position_transitions_def observed_triggers_def reason_when_def is_transition_def split: option.splits)

lemma lifecycle_key_identity: "identity_of s = identity_of s' \<Longrightarrow> lifecycle_key s = lifecycle_key s'"
  by (auto simp: identity_of_def lifecycle_key_def fun_eq_iff)

lemma lifecycle_key_exclusive: "lifecycle_key s r \<Longrightarrow> lifecycle_key s' r \<Longrightarrow> identity_of s = identity_of s'"
  by (auto simp: identity_of_def lifecycle_key_def)

definition rewritten :: "lifecycle_row \<Rightarrow> lifecycle_row \<Rightarrow> lifecycle_row" where
  "rewritten row r = r\<lparr>lf_quantity := lf_quantity row, lf_is_open := lf_is_open row, lf_last_transition := lf_last_transition row,
     lf_last_transition_at_ms := lf_last_transition_at_ms row, lf_observed_at_ms := lf_observed_at_ms row, lf_source_hash := lf_source_hash row\<rparr>"

lemma rewritten_key: "lifecycle_key s (rewritten row r) = lifecycle_key s r"
  by (simp add: rewritten_def lifecycle_key_def)

lemma upsert_lifecycle_eq:
  "upsert_lifecycle s row rows =
     (if list_ex (lifecycle_key s) rows then update_where (lifecycle_key s) (rewritten row) rows else rows @ [row])"
  by (simp add: upsert_lifecycle_def rewritten_def [abs_def])

lemmas fetch_rewritten = fetchone_update_where [of "lifecycle_key s" "rewritten row" for s row, OF rewritten_key]

lemma upsert_lifecycle_found:
  assumes "lifecycle_key s row"
  shows "map_option lf_is_open (fetchone (lifecycle_key s) (upsert_lifecycle s row rows)) = Some (lf_is_open row)"
proof (cases "fetchone (lifecycle_key s) rows")
  case None
  then have "\<not> list_ex (lifecycle_key s) rows" by (simp add: fetchone_None list_ex_iff)
  with None show ?thesis using assms by (simp add: upsert_lifecycle_eq fetchone_append)
next
  case (Some r)
  then have "lifecycle_key s r" "list_ex (lifecycle_key s) rows" using fetchone_Some [OF Some] by (auto simp: list_ex_iff)
  with Some show ?thesis by (simp add: upsert_lifecycle_eq fetch_rewritten rewritten_def)
qed

lemma upsert_lifecycle_other:
  assumes "lifecycle_key s row" and "identity_of s' \<noteq> identity_of s"
  shows "fetchone (lifecycle_key s') (upsert_lifecycle s row rows) = fetchone (lifecycle_key s') rows"
proof -
  have other: "\<not> lifecycle_key s r" if "lifecycle_key s' r" for r using that assms(2) lifecycle_key_exclusive by metis
  have "fetchone (lifecycle_key s') (update_where (lifecycle_key s) (rewritten row) rows) = fetchone (lifecycle_key s') rows"
    using other by (cases "fetchone (lifecycle_key s') rows") (auto simp: fetch_rewritten dest: fetchone_Some)
  then show ?thesis using other assms(1) by (auto simp: upsert_lifecycle_eq fetchone_append split: option.splits)
qed

lemma upsert_lifecycle_ok:
  assumes "lifecycle_ok row" and "\<forall>r \<in> set rows. lifecycle_ok r" and "r \<in> set (upsert_lifecycle s row rows)"
  shows "lifecycle_ok r"
  using assms by (auto simp: upsert_lifecycle_eq rewritten_def set_update_where lifecycle_ok_def split: if_splits)


lemma next_lifecycle_row:
  "lifecycle_key s (next_lifecycle prev old s now)" "lf_is_open (next_lifecycle prev old s now) = (\<not> feq (pob_quantity s) 0)"
  "isfinite (pob_quantity s) \<Longrightarrow> lifecycle_ok (next_lifecycle prev old s now)"
  by (simp_all add: next_lifecycle_def lifecycle_key_def lifecycle_ok_def Let_def)

lemma evaluate_known_switch:
  assumes ok: "switch_ok db" and fin: "isfinite (pob_quantity s)" and prev: "prev = fetchone (lifecycle_key s) (live_position_lifecycle_v2 db)"
    and ev: "evaluate_known H p s key now tokens prev None db = Inr (es, db')"
  shows "switch_ok db'"
proof -
  let ?row = "next_lifecycle prev None s now"
  let ?ts = "position_transitions prev (was_open prev None) (pob_quantity s)"
  obtain db1 where e: "emit_events H p s key now (map (\<lambda>t. (t, tokens t)) (?ts @ observed_triggers p s now)) db1 = Inr (es, db')"
      and db1: "db1 = db\<lparr>live_position_lifecycle_v2 := upsert_lifecycle s ?row (live_position_lifecycle_v2 db),
                 live_position_observed_sources := live_position_observed_sources db @ [pob_observation_hash s]\<rparr>"
    using ev by (simp add: evaluate_known_def Let_def)
  note keep = emit_keeps [OF e, unfolded db1, simplified]
  obtain new where log: "live_position_events db' = live_position_events db @ new" "\<forall>r \<in> set new. event_identity r = identity_of s"
      "filter is_transition (map ev_trigger new) = ?ts"
    using emit_log [OF e] transitions_are_transitions by (auto simp: db1 comp_def simp del: filter_append)
  have rows: "\<forall>r \<in> set (live_position_lifecycle_v2 db). lifecycle_ok r" using ok by (simp add: switch_ok_def)
  have step: "replay (position_open s db) ?ts = Some (\<not> feq (pob_quantity s) 0)"
    unfolding position_open_def prev [symmetric]
    by (rule transitions_replay [OF fin]) (use rows prev in \<open>auto dest: fetchone_Some\<close>)
  have "replay False (transition_log s' db') = Some (position_open s' db')" for s'
  proof (cases "identity_of s' = identity_of s")
    case True
    have "transition_log s' db' = transition_log s db @ ?ts"
      using log True by (simp add: transition_log_def)
    moreover have "position_open s' db' = (\<not> feq (pob_quantity s) 0)"
      using upsert_lifecycle_found [OF next_lifecycle_row(1), of s prev None now "live_position_lifecycle_v2 db"] keep
      by (auto simp: position_open_def lifecycle_key_identity [OF True] was_open_def next_lifecycle_row(2))
    ultimately show ?thesis using ok step by (simp add: switch_ok_def replay_append)
  next
    case False
    have "transition_log s' db' = transition_log s' db" using log False by (auto simp: transition_log_def filter_empty_conv)
    moreover have "position_open s' db' = position_open s' db"
      using keep by (simp add: position_open_def upsert_lifecycle_other [OF next_lifecycle_row(1) False])
    ultimately show ?thesis using ok by (simp add: switch_ok_def)
  qed
  moreover have "\<forall>r \<in> set (live_position_lifecycle_v2 db'). lifecycle_ok r"
    using keep upsert_lifecycle_ok [OF next_lifecycle_row(3) [OF fin] rows] by auto
  ultimately show ?thesis using ok keep by (simp add: switch_ok_def)
qed

lemma evaluate_switch:
  assumes ok: "switch_ok db"
  shows "switch_ok (snd (evaluate_position H p s now tokens db))"
proof (cases "fst (evaluate_position H p s now tokens db)")
  case (Inl e)
  then show ?thesis using ok by (auto simp: evaluate_position_def split: sum.splits)
next
  case (Inr es)
  then obtain key db' where v: "observation_verify H s = Inr s" and b: "evaluate_body H p s key now tokens db = Inr (es, db')"
      and db': "snd (evaluate_position H p s now tokens db) = db'"
    by (auto simp: evaluate_position_def result_simps observation_verify_iff split: sum.splits)
  have fin: "isfinite (pob_quantity s)" using v by (simp add: observation_verify_iff observation_fields_ok_def)
  have "live_position_active db = []" using ok by (simp add: switch_ok_def)
  then have "db' = db \<or> evaluate_known H p s key now tokens (fetchone (lifecycle_key s) (live_position_lifecycle_v2 db)) None db = Inr (es, db')"
    using b by (auto simp: evaluate_body_def split: if_splits option.splits)
  then show ?thesis using ok evaluate_known_switch [OF ok fin refl] db' by auto
qed

lemma moved_switch: "rows_moved H db db' \<Longrightarrow> switch_ok db' = switch_ok db"
  by (simp add: switch_ok_def rows_moved_tables transition_log_def position_open_def)

interpretation switch: invariant_system "dispatch_step H p" "\<lambda>db. dispatches_ok H db \<and> switch_ok db"
  for H :: hasher and p :: supervisor_policy
proof unfold_locales
  fix db db'
  assume ok: "dispatches_ok H db \<and> switch_ok db" and st: "dispatch_step H p db db'"
  obtain cmd where db': "db' = run_dispatch H p cmd db" using st by (rule dispatch_stepE)
  have "ids_unique db" using ok by (simp add: dispatches_ok_def)
  then have "switch_ok db'" unfolding db'
    by (cases rule: run_dispatch_cases [of db H p cmd]) (use ok in \<open>simp_all add: evaluate_switch moved_switch\<close>)
  then show "dispatches_ok H db' \<and> switch_ok db'" using step_ok [OF _ st] ok by blast
qed


end
