(* ===== verification/Drain_Safety.thy ===== *)
theory Drain_Safety
  imports Dispatch_Safety
begin

text \<open>
  The loop of a worker. Every relation between states that is respected by the worker's single database
  blocks, by its reads of the clock and by the two calls into other code is respected by a whole drain
  (the locale \<open>drain_relation\<close>). It is used twice: a drain changes the store only by committed commands, and
  it never adds to the work that is left, from which it follows that the drain returns.
\<close>

section \<open>Relations a worker respects\<close>

text \<open>The loop respects what each of its rounds respects.\<close>

lemma drain_loop_invariant:
  assumes "drain_loop body events s = Some (r, s')" and "\<And>s. P s s" and "\<And>s t u. P s t \<Longrightarrow> P t u \<Longrightarrow> P s u"
    and "\<And>s. P s (snd (body s))"
  shows "P s s'"
proof -
  have "b = body \<longrightarrow> P s0 (snd y)" if "drain_loop b events0 s0 = Some y" for b events0 s0 y
  proof (rule drain_loop.raw_induct [where P = "\<lambda>b events s y. b = body \<longrightarrow> P s (snd y)", OF _ that], goal_cases)
    case (1 dl b events s y)
    obtain r0 s1 where b: "b s = (r0, s1)" by (cases "b s")
    have first: "P s s1" if "b = body" using assms(4) [of s] b that by simp
    show ?case
    proof (cases "\<exists>x. r0 = Inr (Again x)")
      case True
      then obtain x where x: "r0 = Inr (Again x)" by blast
      have "dl b (case x of None \<Rightarrow> events | Some e \<Rightarrow> events @ [e]) s1 = Some y" using 1(2) by (simp add: b x)
      from 1(1) [OF this] show ?thesis using first assms(3) by blast
    next
      case False
      then have "snd y = s1" using 1(2) by (auto simp: b split: sum.splits drain_outcome.splits)
      then show ?thesis using first by simp
    qed
  qed
  from this [OF assms(1)] show ?thesis by simp
qed

locale drain_relation = run_relation P for P :: "'w supervisor_state \<Rightarrow> 'w supervisor_state \<Rightarrow> bool" +
  fixes E :: "'w supervisor_env"
  assumes rel_world: "P s (s\<lparr>sv_world := w\<rparr>)"
    and rel_claim: "P s (s\<lparr>sv_db := snd (claim_dispatch token now lease_ms max_retries (sv_db s))\<rparr>)"
    and rel_freeze: "P s (s\<lparr>sv_db := snd (freeze_case eid eh symb token c now (sv_db s))\<rparr>)"
    and rel_mint: "P s (s\<lparr>sv_db := snd (mint_analysis_admission (se_hash E) eid token eh symb c now lease_ms (sv_db s))\<rparr>)"
    and rel_complete: "P s (s\<lparr>sv_db := snd (complete_analysis (se_hash E) adm token now (sv_db s))\<rparr>)"
    and rel_close: "P s (s\<lparr>sv_db := snd (close_dispatch dispatching reset eid token now (sv_db s))\<rparr>)"
    and rel_requeue: "P s (s\<lparr>sv_db := snd (requeue permanent max_retries eid token now (sv_db s))\<rparr>)"
begin

lemma pres_in_db: "(\<And>s. P s (s\<lparr>sv_db := snd (m (sv_db s))\<rparr>)) \<Longrightarrow> pres (in_db m)"
  by (simp add: pres_def in_db_def split: prod.splits) (metis snd_conv)

lemma pres_ask_world: "pres (ask_world f)"
  by (simp add: pres_def ask_world_def rel_world split: prod.splits)

lemma pres_lease_now_ms: "pres (lease_now_ms E now_ms)"
  by (auto simp: lease_now_ms_def intro!: pres_ask_world pres_sbind pres_statements split: option.splits)

lemma pres_verify_now: "pres (verify_now E eid token eh symb pos_case)"
  unfolding verify_now_def by (intro pres_rules)

lemma pres_handled:
  assumes "pres m" and "\<And>x. pres (k x)" and "\<And>e. pres (h e)"
  shows "P s (snd (case m s of (Inr x, s') \<Rightarrow> k x s' | (Inl e, s') \<Rightarrow> h e s'))"
  using assms unfolding pres_def by (auto split: prod.splits sum.splits) (metis rel_trans snd_conv)+

lemma pres_attempt:
  assumes "pres handler" and "pres m" and "\<And>x. pres (k x)"
  shows "pres (attempt handler m k)"
proof -
  define h where "h = (\<lambda>e. case e of KeyError x \<Rightarrow> ret Stop | CancelledError \<Rightarrow> raise CancelledError
    | _ \<Rightarrow> sbind handler (\<lambda>_. ret (Again None)))"
  have "attempt handler m k s = (case m s of (Inr x, s') \<Rightarrow> k x s' | (Inl e, s') \<Rightarrow> h e s')" for s
    by (auto simp: attempt_def h_def ret_def raise_def split: prod.splits sum.splits pyerr.splits)
  moreover have "pres (h e)" for e
    unfolding h_def by (cases e) (simp_all add: pres_statements pres_sbind assms(1))
  ultimately show ?thesis using pres_handled [OF assms(2,3)] by (simp add: pres_def)
qed

lemma pres_attempt_fresh:
  assumes "pres m" and "\<And>c. pres (k c)"
  shows "pres (attempt_fresh max_retries eid token now_ms m k)"
proof -
  define h :: "pyerr \<Rightarrow> ('w, drain_outcome) sact" where "h = (\<lambda>e. if e = CancelledError then raise e
    else sbind (in_db (requeue (err_str e = ''FRESH_MARKET_CASE_SYMBOL_MISMATCH'') max_retries eid token now_ms)) (\<lambda>_. ret (Again None)))"
  have "attempt_fresh max_retries eid token now_ms m k s = (case m s of (Inr x, s') \<Rightarrow> k x s' | (Inl e, s') \<Rightarrow> h e s')" for s
    by (auto simp: attempt_fresh_def h_def raise_def split: prod.splits sum.splits)
  moreover have "pres (h e)" for e
    unfolding h_def by (auto intro!: pres_sbind pres_in_db rel_requeue pres_statements)
  ultimately show ?thesis using pres_handled [OF assms] by (simp add: pres_def)
qed

lemmas pres_blocks = pres_in_db rel_claim rel_freeze rel_mint rel_complete rel_close rel_requeue
lemmas pres_worker = pres_rules pres_ask_world pres_lease_now_ms pres_verify_now pres_attempt pres_attempt_fresh pres_blocks

text \<open>The two calls into other code respect the relation by assumption.\<close>

lemma pres_analyse:
  assumes "\<And>c. pres (analyze c)"
  shows "pres (analyse_and_complete E analyze now_ms token adm)"
  unfolding analyse_and_complete_def by (auto intro!: pres_worker assms)

lemma pres_mint_and_run:
  assumes "\<And>c. pres (analyze c)"
  shows "pres (mint_and_run E analyze now_ms lease_ms token row c)"
  unfolding mint_and_run_def by (intro pres_worker pres_analyse assms)

lemma pres_materialize:
  assumes "\<And>symb. pres (fresh symb)"
  shows "pres (materialize E fresh e)"
  unfolding materialize_def by (intro pres_worker assms)

lemma pres_freeze_and_run:
  assumes "\<And>symb. pres (fresh symb)" and "\<And>c. pres (analyze c)"
  shows "pres (freeze_and_run E fresh analyze now_ms lease_ms max_retries token row)"
  unfolding freeze_and_run_def Let_def
  by (auto intro!: pres_worker pres_materialize pres_mint_and_run assms split: prod.splits)

lemma pres_run_leased:
  assumes "\<And>symb. pres (fresh symb)" and "\<And>c. pres (analyze c)"
  shows "pres (run_leased E fresh analyze now_ms lease_ms max_retries token row)"
  unfolding run_leased_def Let_def
  by (auto intro!: pres_worker pres_freeze_and_run pres_mint_and_run assms split: prod.splits option.splits)

lemma pres_drain_once:
  assumes "\<And>symb. pres (fresh symb)" and "\<And>c. pres (analyze c)"
  shows "pres (drain_once E fresh analyze now_ms lease_ms max_retries)"
  unfolding drain_once_def by (auto intro!: pres_worker pres_run_leased assms split: claim_result.splits)

lemma drain_respects:
  assumes "drain_loop (drain_once E fresh analyze now_ms lease_ms max_retries) events s = Some (r, s')"
    and "\<And>symb. pres (fresh symb)" and "\<And>c. pres (analyze c)"
  shows "P s s'"
  by (rule drain_loop_invariant [where P = P, OF assms(1) rel_refl rel_trans])
     (use pres_drain_once [OF assms(2,3)] in \<open>simp_all add: pres_def\<close>)

end

section \<open>Drains are commands\<close>

definition store_steps :: "hasher \<Rightarrow> supervisor_policy \<Rightarrow> 'w supervisor_state \<Rightarrow> 'w supervisor_state \<Rightarrow> bool" where
  "store_steps H p s s' \<longleftrightarrow> (dispatch_step H p)\<^sup>*\<^sup>* (sv_db s) (sv_db s')"

lemma store_steps_command: "sv_db s' = run_dispatch H p cmd (sv_db s) \<Longrightarrow> store_steps H p s s'"
  by (simp add: store_steps_def dispatch_step.command r_into_rtranclp)

lemma store_steps_db: "db = run_dispatch H p cmd (sv_db s) \<Longrightarrow> store_steps H p s (s\<lparr>sv_db := db\<rparr>)"
  by (rule store_steps_command) simp

interpretation steps: drain_relation "store_steps (se_hash E) p" E for E :: "'w supervisor_env" and p :: supervisor_policy
proof unfold_locales
  show "store_steps (se_hash E) p s u" if "store_steps (se_hash E) p s t" "store_steps (se_hash E) p t u" for s t u :: "'w supervisor_state"
    using that unfolding store_steps_def by (rule rtranclp_trans)
qed (simp add: store_steps_def, simp add: store_steps_def, (rule store_steps_db, rule run_dispatch.simps [symmetric])+)

text \<open>A call into other code that changes the store by committed commands only.\<close>

definition call_commits :: "'w supervisor_env \<Rightarrow> supervisor_policy \<Rightarrow> ('w, 'a) sact \<Rightarrow> bool" where
  "call_commits E p m \<longleftrightarrow> (\<forall>s. store_steps (se_hash E) p s (snd (m s)))"

text \<open>A drain changes the store only by the committed commands of the supervisor. Whatever the clock, the
  tokens, the exceptions and the answers of the market and the analysis, and whichever block a
  crash of the loop stops at, the store a drain leaves is reached from the store it found by claims,
  freezes, admissions, completions and closings; so everything proved of all interleavings of commands
  holds of drains.\<close>

theorem drain_runs_are_steps:
  assumes "drain_pending_dispatches E now_ms lease_ms max_retries s = Some (r, s')"
    and "\<And>fresh symb. se_fresh_market_case E = Some fresh \<Longrightarrow> call_commits E p (fresh symb)"
    and "\<And>analyze c. se_analyze_case E = Some analyze \<Longrightarrow> call_commits E p (analyze c)"
  shows "(dispatch_step (se_hash E) p)\<^sup>*\<^sup>* (sv_db s) (sv_db s')"
proof (cases "\<exists>fresh analyze. se_fresh_market_case E = Some fresh \<and> se_analyze_case E = Some analyze")
  case True
  then obtain fresh analyze where c: "se_fresh_market_case E = Some fresh" "se_analyze_case E = Some analyze" by blast
  have "drain_loop (drain_once E fresh analyze now_ms lease_ms max_retries) [] s = Some (r, s')"
    using assms(1) by (simp add: drain_pending_dispatches_def c)
  then have "store_steps (se_hash E) p s s'"
    by (rule steps.drain_respects)
       (use assms(2) [OF c(1)] assms(3) [OF c(2)] in \<open>simp_all add: call_commits_def steps.pres_def\<close>)
  then show ?thesis by (simp add: store_steps_def)
next
  case False
  then show ?thesis using assms(1) by (auto simp: drain_pending_dispatches_def split: option.splits)
qed

section \<open>Drains return\<close>

text \<open>The work left for a worker that gives up after \<open>m\<close> tries: per unfinished row one round for each try that is
  left and one to close it.\<close>

definition row_work :: "int \<Rightarrow> dispatch_row \<Rightarrow> nat" where
  "row_work m r = (if active r then nat (m - di_retry_count r) + 1 else 0)"

definition work :: "int \<Rightarrow> supervisor_db \<Rightarrow> nat" where
  "work m db = sum_list (map (row_work m) (live_position_case_dispatches db))"

lemma move_work:
  assumes "moved H r r'" and "dispatch_ok H r"
  shows "row_work m r' \<le> row_work m r"
  using assms(1) unfolding moved_def
proof
  have token: "di_lease_token r \<noteq> None \<Longrightarrow> active r" using assms(2) by (simp add: dispatch_ok_def active_def)
  assume "row_move H r r'"
  then show ?thesis
    by cases (use token in \<open>simp_all add: row_work_def active_def close_row_def\<close>)
qed simp

lemma rows_moved_work:
  assumes "rows_moved H db db'" and "dispatches_ok H db"
  shows "work m db' \<le> work m db"
proof -
  have l: "list_all2 (moved H) (live_position_case_dispatches db) (live_position_case_dispatches db')"
    using assms(1) by (simp only: rows_moved_def)
  have "\<forall>r \<in> set (live_position_case_dispatches db). dispatch_ok H r" using assms(2) by (simp add: dispatches_ok_def list_all_iff)
  with l show ?thesis unfolding work_def
    by (induction rule: list_all2_induct) (auto intro!: add_mono move_work)
qed

lemma sum_list_less:
  assumes "\<And>x. x \<in> set xs \<Longrightarrow> f x \<le> g x" and "x0 \<in> set xs" and "f x0 < g x0"
  shows "sum_list (map f xs) < (sum_list (map g xs) :: nat)"
  using assms
proof (induction xs)
  case (Cons x xs)
  have "sum_list (map f xs) \<le> sum_list (map g xs)" using Cons.prems(1) by (intro sum_list_mono) simp
  moreover have "f x \<le> g x" using Cons.prems(1) by simp
  ultimately show ?case using Cons.IH Cons.prems by (cases "x0 = x") (auto intro: add_le_less_mono)
qed simp

text \<open>A claim that finds a row uses up one round of it.\<close>

lemma claim_works:
  assumes ok: "dispatches_ok H db" and c: "claim_dispatch token now lease_ms m db = (Inr res, db')" and "res \<noteq> NothingPending"
  shows "work m db' < work m db"
proof -
  obtain r where r: "next_candidate now db = Some r" using c assms(3) by (auto simp: claim_dispatch_def split: option.splits)
  note cand = next_candidate_Some [OF r]
  have u: "ids_unique db" using ok by (simp add: dispatches_ok_def)
  have mv: "moved H q (if Q q then f q else q)" if "update_dispatches None Q f db = Inr (n, db')" "q \<in> set (live_position_case_dispatches db)" for Q f n q
  proof -
    have "list_all2 (moved H) (live_position_case_dispatches db) (map (\<lambda>q. if Q q then f q else q) (live_position_case_dispatches db))"
      using claim_moves [OF u, of H token now lease_ms m] update_dispatches_Inr(1) [OF that(1)]
      by (simp add: c rows_moved_def update_where_def)
    then show ?thesis using that(2) by (auto simp: list_all2_map2 list_all2_same)
  qed
  have less: ?thesis if upd: "update_dispatches None Q f db = Inr (n, db')" and "Q r" and "row_work m (f r) < row_work m r" for Q f n
  proof -
    have "work m db' = sum_list (map (\<lambda>q. row_work m (if Q q then f q else q)) (live_position_case_dispatches db))"
      by (simp add: work_def update_dispatches_Inr(1) [OF that(1)] update_where_def comp_def)
    also have "\<dots> < sum_list (map (row_work m) (live_position_case_dispatches db))"
    proof (rule sum_list_less)
      show "row_work m (if Q q then f q else q) \<le> row_work m q" if "q \<in> set (live_position_case_dispatches db)" for q
        using ok that by (intro move_work [OF mv [OF upd that]]) (simp add: dispatches_ok_def list_all_iff)
      show "r \<in> set (live_position_case_dispatches db)" using cand by blast
      show "row_work m (if Q r then f r else r) < row_work m r" using that(2,3) by simp
    qed
    finally show ?thesis by (simp add: work_def)
  qed
  show ?thesis
  proof (cases "di_analysis_admission_hash r \<noteq> [] \<and> \<not> di_analysis_completed r \<or> m \<le> di_retry_count r")
    case True
    then obtain n where "update_dispatches None (\<lambda>q. di_event_id q = di_event_id r) (close_row now) db = Inr (n, db')"
      using c by (auto simp: claim_dispatch_def r split: sum.splits)
    then show ?thesis
      by (rule less) (use claimable_active [OF conjunct2 [OF cand]] in \<open>simp_all add: row_work_def active_def close_row_def\<close>)
  next
    case False
    then obtain n where "update_dispatches None (\<lambda>q. di_event_id q = di_event_id r \<and> claimable now q)
        (\<lambda>q. q\<lparr>di_state := ''DISPATCHING'', di_lease_token := Some token, di_lease_expires_at_ms := now + lease_ms,
               di_retry_count := di_retry_count q + 1, di_updated_at_ms := now\<rparr>) db = Inr (n, db')"
      using c by (auto simp: claim_dispatch_def r split: sum.splits)
    then show ?thesis
      by (rule less) (use cand claimable_active [OF conjunct2 [OF cand]] False in \<open>simp_all add: row_work_def active_def\<close>)
  qed
qed


definition no_new_work :: "hasher \<Rightarrow> int \<Rightarrow> 'w supervisor_state \<Rightarrow> 'w supervisor_state \<Rightarrow> bool" where
  "no_new_work H m s s' \<longleftrightarrow> (dispatches_ok H (sv_db s) \<longrightarrow> dispatches_ok H (sv_db s') \<and> work m (sv_db s') \<le> work m (sv_db s))"

lemma no_new_work_moved:
  assumes "dispatches_ok H (sv_db s) \<Longrightarrow> rows_moved H (sv_db s) db"
  shows "no_new_work H m s (s\<lparr>sv_db := db\<rparr>)"
  using assms rows_moved_ok [of H "sv_db s" db] rows_moved_work [of H "sv_db s" db m] by (auto simp: no_new_work_def)

interpretation work: drain_relation "no_new_work (se_hash E) m" E for E :: "'w supervisor_env" and m :: int
proof unfold_locales
  show "no_new_work (se_hash E) m s u" if "no_new_work (se_hash E) m s t" "no_new_work (se_hash E) m t u" for s t u :: "'w supervisor_state"
    using that by (auto simp: no_new_work_def)
qed (simp add: no_new_work_def, simp add: no_new_work_def, (rule no_new_work_moved, intro command_moves, (simp add: dispatches_ok_def)?)+)

lemma drain_round_works:
  assumes "drain_once E fresh analyze now_ms lease_ms m s = (Inr (Again x), s')" and ok: "dispatches_ok (se_hash E) (sv_db s)"
    and "\<And>symb. work.pres E m (fresh symb)" and "\<And>c. work.pres E m (analyze c)"
  shows "dispatches_ok (se_hash E) (sv_db s') \<and> work m (sv_db s') < work m (sv_db s)"
proof -
  obtain token t1 now t2 res t3 where t: "ask_world (se_token E) s = (Inr token, t1)" "lease_now_ms E now_ms t1 = (Inr now, t2)"
      "in_db (claim_dispatch token now lease_ms m) t2 = (Inr res, t3)"
      and rest: "(case res of NothingPending \<Rightarrow> ret Stop | GivenUp \<Rightarrow> ret (Again None) | Missed \<Rightarrow> ret (Again None)
        | Leased row \<Rightarrow> run_leased E fresh analyze now_ms lease_ms m token row) t3 = (Inr (Again x), s')"
    using assms(1) by (auto simp: drain_once_def sbind_Inr)
  have "no_new_work (se_hash E) m s t2"
    by (rule work.rel_trans [OF work.presD [OF work.pres_ask_world t(1)] work.presD [OF work.pres_lease_now_ms t(2)]])
  then have t2: "dispatches_ok (se_hash E) (sv_db t2)" "work m (sv_db t2) \<le> work m (sv_db s)" using ok by (simp_all add: no_new_work_def)
  have res: "res \<noteq> NothingPending" using rest by (auto simp: ret_def)
  have claim: "claim_dispatch token now lease_ms m (sv_db t2) = (Inr res, sv_db t3)"
    using t(3) by (auto simp: in_db_def split: prod.splits)
  have t3: "work m (sv_db t3) < work m (sv_db t2)" by (rule claim_works [OF t2(1) claim res])
  have u: "ids_unique (sv_db t2)" using t2(1) by (simp add: dispatches_ok_def)
  have ok3: "dispatches_ok (se_hash E) (sv_db t3)"
    using rows_moved_ok [OF claim_moves [OF u] t2(1), of token now lease_ms m] by (simp add: claim)
  have "no_new_work (se_hash E) m t3 s'"
    using rest work.presD [OF work.pres_run_leased [OF assms(3,4)]] work.rel_refl res
    by (auto simp: ret_def split: claim_result.splits)
  then show ?thesis using ok3 t3 t2 by (simp add: no_new_work_def)
qed

lemma drain_loop_returns:
  assumes "\<And>s x s'. body s = (Inr (Again x), s') \<Longrightarrow> ok s \<Longrightarrow> ok s' \<and> (size_of s' :: nat) < size_of s" and "ok s"
  shows "\<exists>r s'. drain_loop body events s = Some (r, s')"
  using assms(2)
proof (induction "size_of s" arbitrary: s events rule: less_induct)
  case less
  obtain r0 s1 where b: "body s = (r0, s1)" by (cases "body s")
  show ?case
  proof (cases "\<exists>x. r0 = Inr (Again x)")
    case True
    then obtain x where x: "r0 = Inr (Again x)" by blast
    have "ok s1 \<and> size_of s1 < size_of s" using assms(1) b x less.prems by blast
    then show ?thesis using less.hyps by (subst drain_loop.simps) (simp add: b x)
  next
    case False
    then show ?thesis by (subst drain_loop.simps) (auto simp: b split: sum.splits drain_outcome.splits)
  qed
qed

text \<open>A call into other code that keeps the rows well formed and gives the worker no more to do.\<close>

definition call_adds_no_work :: "'w supervisor_env \<Rightarrow> int \<Rightarrow> ('w, 'a) sact \<Rightarrow> bool" where
  "call_adds_no_work E m f \<longleftrightarrow> (\<forall>s. no_new_work (se_hash E) m s (snd (f s)))"

text \<open>C38: a drain returns. On a well-formed store, with any clock, even one that stands still or runs
  backwards so that leases expire at once, with any failures of the market and the analysis, the
  loop ends after finitely many rounds, with a result or an exception, provided that the called code does not
  itself add dispatches or reset retries. Each round uses up one of the remaining tries of a row.\<close>

theorem drain_returns:
  assumes "dispatches_ok (se_hash E) (sv_db s)"
    and "\<And>fresh symb. se_fresh_market_case E = Some fresh \<Longrightarrow> call_adds_no_work E max_retries (fresh symb)"
    and "\<And>analyze c. se_analyze_case E = Some analyze \<Longrightarrow> call_adds_no_work E max_retries (analyze c)"
  shows "\<exists>r s'. drain_pending_dispatches E now_ms lease_ms max_retries s = Some (r, s')"
proof (cases "\<exists>fresh analyze. se_fresh_market_case E = Some fresh \<and> se_analyze_case E = Some analyze")
  case True
  then obtain fresh analyze where c: "se_fresh_market_case E = Some fresh" "se_analyze_case E = Some analyze" by blast
  have "\<exists>r s'. drain_loop (drain_once E fresh analyze now_ms lease_ms max_retries) [] s = Some (r, s')"
    by (rule drain_loop_returns [where ok = "\<lambda>s. dispatches_ok (se_hash E) (sv_db s)" and size_of = "\<lambda>s. work max_retries (sv_db s)",
          OF drain_round_works])
       (use assms(1) assms(2) [OF c(1)] assms(3) [OF c(2)] in \<open>simp_all add: call_adds_no_work_def work.pres_def\<close>)
  then show ?thesis by (simp add: drain_pending_dispatches_def c)
next
  case False
  then show ?thesis by (auto simp: drain_pending_dispatches_def split: option.splits)
qed

end
