(* ===== verification/Supervisor_Sample.thy ===== *)
theory Supervisor_Sample
  imports Observation_Safety Drain_Safety Fixtures
begin

text \<open>
  A complete run of the position supervisor on concrete data: an observation of a newly opened position is
  evaluated, its event is queued, claimed, frozen, admitted, analysed and completed. The theory holds the
  witnesses of the supervisor's properties.
\<close>

section \<open>The observation and its event\<close>

definition sample_obs :: position_observation where
  "sample_obs =
     \<lparr>pob_account_snapshot_hash = hash_a, pob_market_source_hash = hash_a, pob_environment = ''DRY_RUN'',
      pob_credential_namespace = ''NONE'', pob_symbol = ''BTCUSDT'', pob_account_id = ''acct'', pob_position_side = ''BOTH'',
      pob_observed_at_ms = 1500, pob_quantity = Fin 1, pob_previous_quantity = Fin 0, pob_entry_price = Fin 100,
      pob_mark_price = Fin 100, pob_unrealized_pnl_usdt = Fin 0, pob_realized_pnl_usdt = Fin 0, pob_margin_usdt = Fin 0,
      pob_stop_price = Fin 0, pob_take_profit_price = Fin 0, pob_funding_rate = None, pob_oi_change_pct = None,
      pob_volatility_percentile = None, pob_spread_bps = None, pob_tactical_regime = None, pob_grid_boundary_breached = False,
      pob_order_status = ''NONE'', pob_order_filled_quantity = Fin 0, pob_order_observed_at_ms = 0, pob_evidence_id = None,
      pob_signal_identity = None, pob_prior_evidence_ids = [], pob_prior_signal_identities = [], pob_add_opportunity = False,
      pob_observation_hash = hash_a\<rparr>"

definition sample_opening :: position_event where
  "sample_opening = (new_event sample_obs hash_a ''t1'' ''POSITION_OPENED'' 1600)\<lparr>pe_event_hash := hash_a\<rparr>"

definition sample_tokens :: "string \<Rightarrow> string" where
  "sample_tokens t = ''t1''"

lemma sample_obs_verify [simp]: "observation_verify const_hash sample_obs = Inr sample_obs"
  unfolding observation_verify_iff digest_const
  by (simp add: sample_obs_def observation_fields_ok_def observation_authority_ok_def)

lemma sample_key [simp]:
  "position_authority_key const_hash (pob_environment sample_obs) (pob_credential_namespace sample_obs) (pob_account_id sample_obs)
     (pob_symbol sample_obs) (pob_position_side sample_obs) = Inr hash_a"
  by (simp add: position_authority_key_def sample_obs_def)

lemma content_hash_event [simp]: "content_hash const_hash (event_json (new_event sample_obs k t trig now)) = Inr hash_a"
  by (subst content_hash_finite) (simp_all add: event_json_def authority_json_def new_event_def event_authority_def sample_obs_def)

lemma new_event_fields [simp]:
  "pe_event_id (new_event s k t trig now) = ''pe-'' @ t" "pe_event_hash (new_event s k t trig now) = []"
  "pe_symbol (new_event s k t trig now) = pob_symbol s" "pe_observed_at_ms (new_event s k t trig now) = now"
  "pe_trigger (new_event s k t trig now) = trig" "pe_position_authority_key (new_event s k t trig now) = Some k"
  "pe_source_hash (new_event s k t trig now) = pob_observation_hash s"
  "pe_environment (new_event s k t trig now) = Some (pob_environment s)"
  "pe_credential_namespace (new_event s k t trig now) = Some (pob_credential_namespace s)"
  "pe_account_id (new_event s k t trig now) = Some (pob_account_id s)"
  "pe_position_side (new_event s k t trig now) = Some (pob_position_side s)"
  by (simp_all add: new_event_def)

lemma sample_obs_fields [simp]:
  "pob_environment sample_obs = ''DRY_RUN''" "pob_credential_namespace sample_obs = ''NONE''" "pob_account_id sample_obs = ''acct''"
  "pob_symbol sample_obs = ''BTCUSDT''" "pob_position_side sample_obs = ''BOTH''" "pob_observation_hash sample_obs = hash_a"
  "pob_quantity sample_obs = Fin 1" "pob_observed_at_ms sample_obs = 1500"
  by (simp_all add: sample_obs_def)

lemma sample_key_text [simp]: "position_authority_key const_hash ''DRY_RUN'' ''NONE'' ''acct'' ''BTCUSDT'' ''BOTH'' = Inr hash_a"
  using sample_key by simp

lemma sample_opening_build: "event_build const_hash (new_event sample_obs hash_a ''t1'' ''POSITION_OPENED'' 1600) = Inr sample_opening"
  by (simp add: event_build_def event_validate_def event_authority_check_def event_key_def event_authority_def opt_text_def
      sample_opening_def)

lemma sample_opening_fields [simp]:
  "pe_event_id sample_opening = ''pe-t1''" "pe_event_hash sample_opening = hash_a" "pe_symbol sample_opening = ''BTCUSDT''"
  "pe_observed_at_ms sample_opening = 1600" "pe_trigger sample_opening = ''POSITION_OPENED''"
  by (simp_all add: sample_opening_def)

lemma sample_opening_verify [simp]: "event_verify const_hash sample_opening = Inr sample_opening"
  using event_build_verifies [OF sample_opening_build] by simp

lemma sample_triggers [simp]: "observed_triggers default_supervisor_policy sample_obs 1600 = []"
  by (simp add: observed_triggers_def sample_obs_def reason_when_def near_def shock_def at_least_def regime_reversal_def
      fresh_addition_def default_supervisor_policy_def)

definition opened_db :: "dispatch_row list \<Rightarrow> supervisor_db" where
  "opened_db rows = empty_supervisor_db\<lparr>
     live_position_lifecycle_v2 := [next_lifecycle None None sample_obs 1600], live_position_observed_sources := [hash_a],
     live_position_events := [event_row_of sample_opening], live_position_case_dispatches := rows\<rparr>"

lemma sample_evaluation:
  "evaluate_position const_hash default_supervisor_policy sample_obs 1600 sample_tokens empty_supervisor_db
     = (Inr [sample_opening], opened_db [blank_dispatch sample_opening 1600])"
  by (simp add: evaluate_position_def evaluate_body_def evaluate_known_def empty_supervisor_db_def unbound_legacy_lifecycle_def
      position_transitions_def was_open_def feq_def zero_flt_def sample_tokens_def cooling_def sample_opening_build insert_event_def
      queue_dispatch_def opened_db_def upsert_lifecycle_def)

section \<open>The drain\<close>

definition sample_position_case :: case_package where
  "sample_position_case = sample_case\<lparr>cp_case_id := ''pos-pe-t1'', cp_created_at_ms := 1600, cp_observed_at_ms := 1600,
     cp_expires_at_ms := 121600, cp_trigger := ''POSITION_OPENED'', cp_source := ''POSITION_SUPERVISOR'', cp_base_case_hash := Some hash_a,
     cp_position_event_hash := Some hash_a, cp_entry_quality := ''UNKNOWN''\<rparr>"

lemma sample_position_case_verify [simp]: "case_verify const_hash sample_position_case = Inr sample_position_case"
  unfolding case_verify_iff case_digest_def digest_const
  by (simp add: sample_position_case_def sample_case_def case_fields_ok_def Positive_def Nonnegative_def)

lemma sample_position_case_built: "position_case_from_event const_hash sample_case sample_opening = Inr sample_position_case"
  by (simp add: position_case_from_event_def case_validate_def case_digest_def case_fields_ok_def Positive_def Nonnegative_def
      sample_case_def sample_position_case_def)

lemma sample_position_case_fields [simp]:
  "cp_case_id sample_position_case = ''pos-pe-t1''" "cp_case_hash sample_position_case = hash_a"
  "cp_position_event_hash sample_position_case = Some hash_a" "cp_symbol sample_position_case = ''BTCUSDT''"
  "cp_symbol sample_case = ''BTCUSDT''"
  by (simp_all add: sample_position_case_def sample_case_def)

definition sample_env :: "unit supervisor_env" where
  "sample_env = \<lparr>se_hash = const_hash, se_token = (\<lambda>w. (''lease'', w)), se_lease_clock = Some (\<lambda>w. (2000, w)),
     se_elapsed_ms = (\<lambda>w. (0, w)), se_lock_wait_ms = (\<lambda>w. (0, w)), se_fresh_market_case = Some (\<lambda>symb. ret sample_case),
     se_analyze_case = Some (\<lambda>c. ret ())\<rparr>"

definition leased_row :: dispatch_row where
  "leased_row = (blank_dispatch sample_opening 1600)\<lparr>di_state := ''DISPATCHING'', di_lease_token := Some ''lease'',
     di_lease_expires_at_ms := 32000, di_retry_count := 1, di_updated_at_ms := 2000\<rparr>"

definition frozen_row :: dispatch_row where
  "frozen_row = leased_row\<lparr>di_position_case_id := ''pos-pe-t1'', di_position_case_hash := hash_a,
     di_position_case_json := Some sample_position_case, di_case_hash := hash_a\<rparr>"

definition admitted_row :: dispatch_row where
  "admitted_row = frozen_row\<lparr>di_dispatch_authority_json := Some (dispatch_authority_of sample_opening sample_position_case ''lease''),
     di_dispatch_authority_hash := hash_a, di_analysis_admission_hash := hash_a\<rparr>"

definition done_row :: dispatch_row where
  "done_row = admitted_row\<lparr>di_state := ''DONE'', di_analysis_completed := True, di_lease_token := None, di_lease_expires_at_ms := 0\<rparr>"

definition sample_admission :: analysis_admission where
  "sample_admission = \<lparr>aa_authority_json = dispatch_authority_of sample_opening sample_position_case ''lease'', aa_authority_hash = hash_a,
     aa_admission_hash = hash_a, aa_case_json = sample_position_case, aa_event_json = sample_opening, aa_provider_completed = False\<rparr>"

lemmas sample_rows = leased_row_def frozen_row_def admitted_row_def done_row_def blank_dispatch_def

lemma update_sample:
  "P r \<Longrightarrow> dispatch_guard cap r (f r) = Inr () \<Longrightarrow> update_dispatches cap P f (opened_db [r]) = Inr (1, opened_db [f r])"
  by (simp add: update_dispatches_def opened_db_def update_where_def rowcount_def)

lemma supervisor_sample_claim:
  "claim_dispatch ''lease'' 2000 30000 3 (opened_db [blank_dispatch sample_opening 1600])
     = (Inr (Leased (blank_dispatch sample_opening 1600)), opened_db [leased_row])"
  by (simp add: claim_dispatch_def next_candidate_def claimable_def opened_db_def update_dispatches_def update_where_def rowcount_def
      dispatch_guard_def admission_columns_def sample_rows)

lemma sample_authority:
  "verify_durable_authority const_hash (opened_db [r]) ''pe-t1'' ''lease'' hash_a ''BTCUSDT'' c now = Inr (sample_opening, r)"
  if "di_event_id r = ''pe-t1''" "di_event_hash r = hash_a" "di_symbol r = ''BTCUSDT''" "lease_held r ''lease'' now = Inr ()"
     "\<And>x. c = Some x \<Longrightarrow> case_linked const_hash sample_opening r x = Inr ()"
proof -
  have "authority_key_matches const_hash sample_opening = Inr ()"
    by (simp add: authority_key_matches_def event_key_def sample_opening_def opt_text_def)
  then show ?thesis using that
    by (cases c) (simp_all add: verify_durable_authority_def opened_db_def get_dispatch_def event_from_row_def,
                  simp_all add: event_row_of_def)
qed

lemma sample_freeze:
  "freeze_case ''pe-t1'' hash_a ''BTCUSDT'' ''lease'' sample_position_case 2000 (opened_db [leased_row]) = (Inr 1, opened_db [frozen_row])"
  unfolding freeze_case_def
  by (subst update_sample) (simp_all add: dispatch_guard_def admission_columns_def sample_rows)

lemma sample_mint:
  "mint_analysis_admission const_hash ''pe-t1'' ''lease'' hash_a ''BTCUSDT'' sample_position_case 2000 30000 (opened_db [frozen_row])
     = (Inr sample_admission, opened_db [admitted_row])"
  unfolding mint_analysis_admission_def mint_body_def
  by (subst sample_authority, simp_all add: sample_rows lease_held_def case_linked_def frozen_case_def)
     (subst update_sample, simp_all add: dispatch_guard_def admission_columns_def sample_rows frozen_case_def sample_admission_def
        admission_hash_def Let_def)

lemma sample_complete:
  "complete_analysis const_hash sample_admission ''lease'' 2000 (opened_db [admitted_row]) = (Inr sample_opening, opened_db [done_row])"
  unfolding complete_analysis_def complete_body_def
  by (simp add: sample_admission_def, subst sample_authority)
     (simp_all add: sample_rows lease_held_def case_linked_def verify_admission_def admission_hash_def dispatch_authority_of_def,
      subst update_sample, simp_all add: dispatch_guard_def admission_columns_def sample_rows frozen_case_def sample_admission_def
        dispatch_authority_of_def)

lemma sample_env_actions [simp]:
  "se_hash sample_env = const_hash" "se_token sample_env = (\<lambda>w. (''lease'', w))" "se_lock_wait_ms sample_env = (\<lambda>w. (0, w))"
  "lease_now_ms sample_env now s = (Inr 2000, s)"
  by (simp_all add: sample_env_def lease_now_ms_def ask_world_def)

lemma sample_verify_now:
  "verify_now sample_env ''pe-t1'' ''lease'' hash_a ''BTCUSDT'' c \<lparr>sv_db = opened_db [leased_row], sv_world = ()\<rparr>
     = (Inr (sample_opening, leased_row), \<lparr>sv_db = opened_db [leased_row], sv_world = ()\<rparr>)"
  if "c = None \<or> c = Some sample_position_case"
  using that unfolding verify_now_def with_state_def lift_res_def
  by (auto simp: sample_rows lease_held_def case_linked_def intro!: sample_authority)

abbreviation sample_state :: "dispatch_row \<Rightarrow> unit supervisor_state" where
  "sample_state r \<equiv> \<lparr>sv_db = opened_db [r], sv_world = ()\<rparr>"

lemma sample_run_fields [simp]:
  "di_event_id (blank_dispatch sample_opening 1600) = ''pe-t1''" "di_event_hash (blank_dispatch sample_opening 1600) = hash_a"
  "di_symbol (blank_dispatch sample_opening 1600) = ''BTCUSDT''" "di_position_case_json leased_row = None"
  "aa_provider_completed sample_admission = False" "aa_case_json sample_admission = sample_position_case"
  by (simp_all add: sample_rows sample_admission_def)

lemma sample_finish:
  "mint_and_run sample_env (\<lambda>c. ret ()) 2000 30000 ''lease'' (blank_dispatch sample_opening 1600) sample_position_case (sample_state frozen_row)
     = (Inr (Again (Some sample_opening)), sample_state done_row)"
  by (simp add: mint_and_run_def analyse_and_complete_def attempt_def sbind_def in_db_def ask_world_def
      sample_mint sample_complete ret_def lift_res_def)

lemma sample_round:
  "drain_once sample_env (\<lambda>symb. ret sample_case) (\<lambda>c. ret ()) 2000 30000 3 (sample_state (blank_dispatch sample_opening 1600))
     = (Inr (Again (Some sample_opening)), sample_state done_row)"
  by (simp add: drain_once_def sbind_def ask_world_def in_db_def supervisor_sample_claim run_leased_def Let_def attempt_def sample_verify_now
      freeze_and_run_def attempt_fresh_def materialize_def lift_res_def sample_position_case_built sample_freeze sample_finish ret_def)

lemma sample_drain:
  "drain_pending_dispatches sample_env 2000 30000 3 (sample_state (blank_dispatch sample_opening 1600))
     = Some (Inr [sample_opening], sample_state done_row)"
proof -
  have stop: "drain_once sample_env (\<lambda>symb. ret sample_case) (\<lambda>c. ret ()) 2000 30000 3 (sample_state done_row) = (Inr Stop, sample_state done_row)"
    by (simp add: drain_once_def sbind_def ask_world_def in_db_def claim_dispatch_def next_candidate_def claimable_def opened_db_def
        sample_rows ret_def)
  have "drain_pending_dispatches sample_env 2000 30000 3 s = drain_loop (drain_once sample_env (\<lambda>symb. ret sample_case) (\<lambda>c. ret ()) 2000 30000 3) [] s" for s
    by (simp add: drain_pending_dispatches_def sample_env_def)
  then show ?thesis by (simp add: drain_loop.simps [of _ _ "sample_state r" for r] sample_round stop)
qed

section \<open>Witnesses\<close>

abbreviation sample_step :: "supervisor_db \<Rightarrow> supervisor_db \<Rightarrow> bool" where
  "sample_step \<equiv> dispatch_step const_hash default_supervisor_policy"

definition sample_commands :: "dispatch_command list" where
  "sample_commands =
     [Observe sample_obs 1600 sample_tokens, Claim ''lease'' 2000 30000 3,
      Freeze ''pe-t1'' hash_a ''BTCUSDT'' ''lease'' sample_position_case 2000,
      Mint ''pe-t1'' ''lease'' hash_a ''BTCUSDT'' sample_position_case 2000 30000, Complete sample_admission ''lease'' 2000]"

lemma step_by: "run_dispatch H p cmd db = db' \<Longrightarrow> dispatch_step H p db db'"
  using dispatch_step.command [of H p db cmd] by simp

lemma sample_steps:
  "sample_step empty_supervisor_db (opened_db [blank_dispatch sample_opening 1600])"
  "sample_step (opened_db [blank_dispatch sample_opening 1600]) (opened_db [leased_row])"
  "sample_step (opened_db [leased_row]) (opened_db [frozen_row])"
  "sample_step (opened_db [frozen_row]) (opened_db [admitted_row])"
  "sample_step (opened_db [admitted_row]) (opened_db [done_row])"
  by (rule step_by [of _ _ "sample_commands ! 0"], simp add: sample_commands_def sample_evaluation)
     (rule step_by [of _ _ "sample_commands ! 1"], simp add: sample_commands_def supervisor_sample_claim,
      rule step_by [of _ _ "sample_commands ! 2"], simp add: sample_commands_def sample_freeze,
      rule step_by [of _ _ "sample_commands ! 3"], simp add: sample_commands_def sample_mint,
      rule step_by [of _ _ "sample_commands ! 4"], simp add: sample_commands_def sample_complete)

lemmas one_step = r_into_rtranclp [where r = sample_step]

lemma sample_reach_after: "sample_step\<^sup>*\<^sup>* (opened_db [blank_dispatch sample_opening 1600]) (opened_db [done_row])"
  using sample_steps by (meson r_into_rtranclp rtranclp.rtrancl_into_rtrancl)

lemma sample_reach_admitted: "sample_step\<^sup>*\<^sup>* empty_supervisor_db (opened_db [admitted_row])"
  using sample_steps by (meson r_into_rtranclp rtranclp.rtrancl_into_rtrancl)

lemma sample_reach: "sample_step\<^sup>*\<^sup>* empty_supervisor_db (opened_db [done_row])"
  by (rule rtranclp.rtrancl_into_rtrancl [OF sample_reach_admitted sample_steps(5)])

lemma empty_store_ok: "dispatches_ok H empty_supervisor_db"
  by (rule reachable_dispatches_ok) (rule rtranclp.rtrancl_refl)

theorem analysis_admitted_once_witness:
  "dispatches_ok const_hash empty_supervisor_db
   \<and> receipts const_hash default_supervisor_policy ''pe-t1'' (sample_commands @ sample_commands) empty_supervisor_db \<le> 1
   \<and> receipts const_hash default_supervisor_policy ''pe-t1'' sample_commands empty_supervisor_db = 1"
proof -
  have "receipts const_hash default_supervisor_policy ''pe-t1'' sample_commands empty_supervisor_db = 1"
    by (simp add: sample_commands_def sample_evaluation supervisor_sample_claim sample_freeze sample_mint)
  then show ?thesis using empty_store_ok analysis_admitted_once [OF empty_store_ok] by blast
qed

theorem dispatch_rows_well_formed_witness:
  "sample_step\<^sup>*\<^sup>* empty_supervisor_db (opened_db [done_row]) \<and> dispatches_ok const_hash (opened_db [done_row])"
  using sample_reach dispatch_rows_well_formed [OF sample_reach] by blast

theorem dispatch_outcome_final_witness:
  "admitted (opened_db [admitted_row]) ''pe-t1'' = Some (dispatch_authority_of sample_opening sample_position_case ''lease'', Some sample_position_case)
   \<and> sample_step (opened_db [admitted_row]) (opened_db [done_row])
   \<and> admitted (opened_db [done_row]) ''pe-t1'' = Some (dispatch_authority_of sample_opening sample_position_case ''lease'', Some sample_position_case)"
proof -
  have "admitted (opened_db [admitted_row]) ''pe-t1'' = Some (dispatch_authority_of sample_opening sample_position_case ''lease'', Some sample_position_case)"
    by (simp add: admitted_def get_dispatch_def opened_db_def sample_rows)
  then show ?thesis
    using dispatch_outcome_final [OF reachable_dispatches_ok [OF sample_reach_admitted] one_step [OF sample_steps(5)]] sample_steps(5)
    by blast
qed

theorem observation_evaluated_once_witness:
  "evaluate_position const_hash default_supervisor_policy sample_obs 9999 sample_tokens (opened_db [done_row]) = (Inr [], opened_db [done_row])"
  using observation_evaluated_once [OF empty_store_ok sample_evaluation sample_reach_after] by simp

theorem alarms_respect_cooldown_witness:
  "sample_step\<^sup>*\<^sup>* empty_supervisor_db (opened_db [done_row])
   \<and> sorted_wrt (spaced default_supervisor_policy) (live_position_events (opened_db [done_row]))"
  using sample_reach alarms_respect_cooldown [OF sample_reach] by blast


theorem drain_runs_are_steps_witness:
  "sample_step\<^sup>*\<^sup>* (opened_db [blank_dispatch sample_opening 1600]) (opened_db [done_row])"
proof -
  have "(dispatch_step (se_hash sample_env) default_supervisor_policy)\<^sup>*\<^sup>* (sv_db (sample_state (blank_dispatch sample_opening 1600)))
      (sv_db (sample_state done_row))"
    by (rule drain_runs_are_steps [OF sample_drain]) (auto simp: sample_env_def call_commits_def ret_def store_steps_def)
  then show ?thesis by simp
qed

theorem drain_returns_witness:
  "\<exists>r s'. drain_pending_dispatches sample_env 2000 30000 3 (sample_state (blank_dispatch sample_opening 1600)) = Some (r, s')"
proof (rule drain_returns)
  show "dispatches_ok (se_hash sample_env) (sv_db (sample_state (blank_dispatch sample_opening 1600)))"
    using reachable_dispatches_ok [OF one_step [OF sample_steps(1)]] by simp
qed (auto simp: sample_env_def call_adds_no_work_def no_new_work_def ret_def)

end
