(* ===== verification/Live_Service.thy ===== *)
theory Live_Service
  imports Actions Approval_Store Risk
begin

text \<open>
  The service that takes a case from the market watch to a proposal that waits for approval
  (\<open>decision/service.py\<close>, class \<open>TacticalLiveService\<close>): it saves the case, calls the primary and, when the fusion
  asks for it, the secondary analysis, fuses, compiles, saves the proposal, notifies, and moves the case
  along its states; \<open>process_codex_reviews\<close> does the same for reviews that an approver asked for.

  The analyses and the notifier are calls into other code that may take long: they are actions on the whole
  state, so other tasks may use the journal meanwhile. The clock, the claim tokens and the timeout of
  the secondary are parameters. \<open>scan\<close> and \<open>run_assessment\<close>, which only turn assessments of the market
  watch into cases, and the wiring in \<open>from_config\<close> are not modelled.
\<close>

section \<open>State and parameters\<close>

record 'w service_state =
  ls_store :: live_db
  ls_world :: 'w

type_synonym ('w, 'a) lact = "('w service_state, 'a) dbop"

datatype analysis_mode = PRIMARY_MODE | SECONDARY_MODE

record 'w live_service =
  lv_hash :: hasher
  lv_clock :: "'w \<Rightarrow> int \<times> 'w"
  lv_token :: "'w \<Rightarrow> string \<times> 'w"
  lv_primary :: "case_package \<Rightarrow> analysis_mode \<Rightarrow> ('w, analysis_result) lact"
  lv_secondary :: "(case_package \<Rightarrow> analysis_mode \<Rightarrow> ('w, analysis_result) lact) option"
  lv_secondary_timeout_ms :: int
  lv_policy :: risk_policy
  lv_fusion :: decision_fusion
  lv_notifier :: "(trade_proposal \<Rightarrow> ('w, string) lact) option"

definition in_store :: "(live_db, 'a) dbop \<Rightarrow> ('w, 'a) lact" where
  "in_store m s = (case m (ls_store s) of (r, db') \<Rightarrow> (r, s\<lparr>ls_store := db'\<rparr>))"

definition read_store :: "(live_db \<Rightarrow> 'a res) \<Rightarrow> ('w, 'a) lact" where
  "read_store f s = (f (ls_store s), s)"

definition clock_ms :: "'w live_service \<Rightarrow> ('w, int) lact" where
  "clock_ms S s = (case lv_clock S (ls_world s) of (t, w') \<Rightarrow> (Inr t, s\<lparr>ls_world := w'\<rparr>))"

definition fresh_token :: "'w live_service \<Rightarrow> ('w, string) lact" where
  "fresh_token S s = (case lv_token S (ls_world s) of (t, w') \<Rightarrow> (Inr t, s\<lparr>ls_world := w'\<rparr>))"

text \<open>\<open>store.transition(case_id, state, clock_ms())\<close>.\<close>

definition move_case :: "'w live_service \<Rightarrow> string \<Rightarrow> live_state \<Rightarrow> string option \<Rightarrow> ('w, unit) lact" where
  "move_case S cid new token = sbind (clock_ms S) (\<lambda>t. in_store (\<lambda>db. transition db cid new t token))"

section \<open>Analysis\<close>

text \<open>\<open>except Exception\<close>: everything but a cancellation.\<close>

definition analyze_with ::
  "(case_package \<Rightarrow> analysis_mode \<Rightarrow> ('w, analysis_result) lact) \<Rightarrow> case_package \<Rightarrow> analysis_mode \<Rightarrow> ('w, analysis_result) lact" where
  "analyze_with backend c mode =
     on_error (sbind (backend c mode) (\<lambda>r. sbind (lift_res (verify_case r c)) (\<lambda>_. ret r)))
       (\<lambda>e. if e = CancelledError then raise e else ret (fail_closed c ''unavailable'' [] ''ANALYSIS_FAILED''))"

text \<open>\<open>except (ValueError, sqlite3.Error)\<close>.\<close>

fun store_error :: "pyerr \<Rightarrow> bool" where
  "store_error (ValueError m) = True"
| "store_error (IntegrityError m) = True"
| "store_error _ = False"

definition recover_state :: "'w live_service \<Rightarrow> string \<Rightarrow> live_state \<Rightarrow> ('w, unit) lact" where
  "recover_state S cid target =
     on_error
       (sbind (read_store (\<lambda>db. state_of db cid)) (\<lambda>st.
          if terminal st then ret () else move_case S cid target None))
       (\<lambda>e. if store_error e then ret () else raise e)"

text \<open>\<open>tuple(dict.fromkeys(...))\<close>: the first occurrences, in order.\<close>

definition first_occurrences :: "'a list \<Rightarrow> 'a list" where
  "first_occurrences xs = rev (remdups (rev xs))"

definition opt_list :: "'a option \<Rightarrow> 'a list" where
  "opt_list x = (case x of None \<Rightarrow> [] | Some v \<Rightarrow> [v])"

definition announce :: "'w live_service \<Rightarrow> case_package \<Rightarrow> trade_proposal \<Rightarrow> string option \<Rightarrow> ('w, trade_proposal) lact" where
  "announce S c p token =
     (case lv_notifier S of
        None \<Rightarrow> sbind (move_case S (cp_case_id c) MANUAL token) (\<lambda>_. ret p)
      | Some send \<Rightarrow>
          sbind (on_error (sbind (send p) (\<lambda>_. ret True)) (\<lambda>e. if e = CancelledError then raise e else ret False)) (\<lambda>sent.
            if sent then
              sbind (move_case S (cp_case_id c) NOTIFIED token) (\<lambda>_.
              sbind (move_case S (cp_case_id c) WAITING_APPROVAL token) (\<lambda>_. ret p))
            else sbind (move_case S (cp_case_id c) MANUAL token) (\<lambda>_. ret p)))"

definition analysis_hashes :: "hasher \<Rightarrow> analysis_result \<Rightarrow> analysis_result option \<Rightarrow> analysis_result \<Rightarrow> string list" where
  "analysis_hashes H primary secondary selected =
     first_occurrences ([result_hash H primary] @ map (result_hash H) (opt_list secondary) @ [result_hash H selected])"

definition finish_case ::
  "'w live_service \<Rightarrow> case_package \<Rightarrow> analysis_result \<Rightarrow> analysis_result option \<Rightarrow> bool \<Rightarrow> string option \<Rightarrow> ('w, trade_proposal) lact" where
  "finish_case S c primary secondary manual_codex_request token =
     (let H = lv_hash S
      in sbind (lift_res (fuse H (lv_fusion S) c primary secondary manual_codex_request)) (\<lambda>fused.
         let selected = fr_selected fused
         in sbind (if result_hash H selected \<notin> {result_hash H primary, case secondary of None \<Rightarrow> [] | Some s \<Rightarrow> result_hash H s}
                   then in_store (save_analysis H selected ''FUSED'') else ret ()) (\<lambda>_.
            sbind (clock_ms S) (\<lambda>t.
            sbind (lift_res (compile H (lv_policy S) c selected t (Some (analysis_hashes H primary secondary selected))
                     (fr_requires_manual_review fused))) (\<lambda>p.
            sbind (clock_ms S) (\<lambda>t.
            sbind (in_store (save_proposal H p token (Some t))) (\<lambda>_.
            sbind (move_case S (cp_case_id c) PLAN_READY token) (\<lambda>_.
            announce S c p token))))))))"

definition second_opinion :: "'w live_service \<Rightarrow> case_package \<Rightarrow> analysis_result \<Rightarrow> ('w, analysis_result option) lact" where
  "second_opinion S c primary =
     sbind (lift_res (needs_secondary (lv_hash S) (lv_fusion S) c primary False)) (\<lambda>needed.
       case lv_secondary S of
         Some backend \<Rightarrow>
           if needed then
             sbind (analyze_with backend c SECONDARY_MODE) (\<lambda>r.
             sbind (in_store (save_analysis (lv_hash S) r ''SECONDARY'')) (\<lambda>_. ret (Some r)))
           else ret None
       | None \<Rightarrow> ret None)"

definition decide_case :: "'w live_service \<Rightarrow> case_package \<Rightarrow> ('w, trade_proposal) lact" where
  "decide_case S c =
     sbind (analyze_with (lv_primary S) c PRIMARY_MODE) (\<lambda>primary.
     sbind (in_store (save_analysis (lv_hash S) primary ''PRIMARY'')) (\<lambda>_.
     sbind (second_opinion S c primary) (\<lambda>secondary.
     finish_case S c primary secondary False None)))"

definition analyze_case :: "'w live_service \<Rightarrow> case_package \<Rightarrow> ('w, trade_proposal option) lact" where
  "analyze_case S c =
     sbind (lift_res (case_verify (lv_hash S) c)) (\<lambda>_.
     sbind (clock_ms S) (\<lambda>now.
     sbind (in_store (expire_cases (lv_hash S) now)) (\<lambda>_.
     if now < cp_created_at_ms c \<or> cp_expires_at_ms c \<le> now \<or> rp_max_staleness_ms (lv_policy S) < now - cp_observed_at_ms c
     then raise (ValueError ''STALE_CASE'')
     else sbind (in_store (save_case (lv_hash S) c)) (\<lambda>new.
       if \<not> new then read_store (\<lambda>db. active_proposal (lv_hash S) db (cp_case_id c))
       else sbind (in_store (\<lambda>db. transition db (cp_case_id c) LLM_ANALYZING now None)) (\<lambda>_.
         on_error (sbind (decide_case S c) (\<lambda>p. ret (Some p)))
           (\<lambda>e. if e = CancelledError then sbind (recover_state S (cp_case_id c) MANUAL) (\<lambda>_. raise e)
                else if store_error e then
                  sbind (clock_ms S) (\<lambda>t.
                  sbind (recover_state S (cp_case_id c) (if cp_expires_at_ms c \<le> t then EXPIRED else MANUAL)) (\<lambda>_. ret None))
                else raise e))))))"

section \<open>Requested reviews\<close>

definition renew_claim :: "'w live_service \<Rightarrow> string \<Rightarrow> string \<Rightarrow> int \<Rightarrow> ('w, bool) lact" where
  "renew_claim S cid token lease_ms = sbind (clock_ms S) (\<lambda>t. in_store (renew_codex_review cid token t lease_ms))"

definition in_plan :: "live_state \<Rightarrow> bool" where
  "in_plan st \<longleftrightarrow> st = PLAN_READY \<or> st = NOTIFIED"

text \<open>The \<open>try\<close> block after the case was read: \<open>None\<close> for each \<open>continue\<close>. The code adds the proposal to its list just
  before the review is marked; marking raises for an empty token only, and a claim never has one.\<close>

definition review_case ::
  "'w live_service \<Rightarrow> (case_package \<Rightarrow> analysis_mode \<Rightarrow> ('w, analysis_result) lact) \<Rightarrow> string \<Rightarrow> string \<Rightarrow> int \<Rightarrow> case_package
     \<Rightarrow> ('w, trade_proposal option) lact" where
  "review_case S backend cid token lease_ms c =
     sbind (clock_ms S) (\<lambda>t.
     if cp_expires_at_ms c \<le> t then
       sbind (move_case S cid EXPIRED (Some token)) (\<lambda>_.
       sbind (in_store (mark_codex_review_processed cid token)) (\<lambda>_. ret None))
     else sbind (read_store (\<lambda>db. get_analysis db cid ''PRIMARY'')) (\<lambda>found.
       case found of
         None \<Rightarrow> ret None
       | Some primary \<Rightarrow>
           sbind (analyze_with backend c SECONDARY_MODE) (\<lambda>secondary.
           sbind (in_store (save_analysis (lv_hash S) secondary ''SECONDARY'')) (\<lambda>_.
           sbind (renew_claim S cid token lease_ms) (\<lambda>held.
           if \<not> held then ret None
           else sbind (finish_case S c primary (Some secondary) True (Some token)) (\<lambda>p.
                sbind (in_store (mark_codex_review_processed cid token)) (\<lambda>_. ret (Some p))))))))"

definition review_cancelled :: "'w live_service \<Rightarrow> string \<Rightarrow> string \<Rightarrow> int \<Rightarrow> ('w, unit) lact" where
  "review_cancelled S cid token lease_ms =
     sbind (read_store (\<lambda>db. state_of db cid)) (\<lambda>st.
       if \<not> in_plan st then ret ()
       else sbind (renew_claim S cid token lease_ms) (\<lambda>held. if held then move_case S cid MANUAL (Some token) else ret ()))"

text \<open>The handler of a \<open>ValueError\<close> reads the variable \<open>case\<close>, which may be unbound or, from the second review
  on, still hold the case of an earlier review.\<close>

definition review_failed :: "'w live_service \<Rightarrow> string \<Rightarrow> string \<Rightarrow> int \<Rightarrow> case_package option \<Rightarrow> ('w, unit) lact" where
  "review_failed S cid token lease_ms bound =
     sbind (renew_claim S cid token lease_ms) (\<lambda>held.
       if \<not> held then ret ()
       else sbind (clock_ms S) (\<lambda>t.
         case bound of
           None \<Rightarrow> raise (UnboundLocalError ''case'')
         | Some c \<Rightarrow>
             if cp_expires_at_ms c \<le> t then
               sbind (move_case S cid EXPIRED (Some token)) (\<lambda>_. in_store (mark_codex_review_processed cid token))
             else sbind (read_store (\<lambda>db. state_of db cid)) (\<lambda>st.
               if in_plan st then move_case S cid MANUAL (Some token) else ret ())))"

definition guarded_review ::
  "'w live_service \<Rightarrow> string \<Rightarrow> string \<Rightarrow> int \<Rightarrow> case_package option \<Rightarrow> ('w, trade_proposal option) lact \<Rightarrow> ('w, trade_proposal option) lact" where
  "guarded_review S cid token lease_ms bound m =
     on_error m (\<lambda>e. case e of
         CancelledError \<Rightarrow> sbind (review_cancelled S cid token lease_ms) (\<lambda>_. raise CancelledError)
       | ValueError msg \<Rightarrow> sbind (review_failed S cid token lease_ms bound) (\<lambda>_. ret None)
       | _ \<Rightarrow> raise e)"

text \<open>\<open>try ... finally\<close>: the last action runs in any case; its own exception wins.\<close>

definition finally_do :: "('s, 'a) dbop \<Rightarrow> ('s, unit) dbop \<Rightarrow> ('s, 'a) dbop" where
  "finally_do m f s = (case m s of (r, s') \<Rightarrow> (case f s' of (Inl e, s'') \<Rightarrow> (Inl e, s'') | (Inr _, s'') \<Rightarrow> (r, s'')))"

text \<open>One claimed review: the case bound afterwards and the proposal, if any.\<close>

definition review_claimed ::
  "'w live_service \<Rightarrow> (case_package \<Rightarrow> analysis_mode \<Rightarrow> ('w, analysis_result) lact) \<Rightarrow> string \<Rightarrow> string \<Rightarrow> int \<Rightarrow> case_package option
     \<Rightarrow> ('w, case_package option \<times> trade_proposal option) lact" where
  "review_claimed S backend cid token lease_ms bound =
     finally_do
       (with_state (\<lambda>s. case get_case (lv_hash S) (ls_store s) cid of
            Inl e \<Rightarrow> sbind (guarded_review S cid token lease_ms bound (raise e)) (\<lambda>p. ret (bound, p))
          | Inr c \<Rightarrow> sbind (guarded_review S cid token lease_ms (Some c) (review_case S backend cid token lease_ms c)) (\<lambda>p. ret (Some c, p))))
       (in_store (release_codex_review cid token))"

definition claim_review :: "'w live_service \<Rightarrow> string \<Rightarrow> int \<Rightarrow> ('w, string option) lact" where
  "claim_review S cid lease_ms =
     sbind (clock_ms S) (\<lambda>t. sbind (fresh_token S) (\<lambda>token. in_store (claim_codex_review cid t lease_ms token)))"

fun review_loop ::
  "'w live_service \<Rightarrow> (case_package \<Rightarrow> analysis_mode \<Rightarrow> ('w, analysis_result) lact) \<Rightarrow> string list \<Rightarrow> case_package option
     \<Rightarrow> trade_proposal list \<Rightarrow> ('w, trade_proposal list) lact" where
  "review_loop S backend [] bound ps = ret ps"
| "review_loop S backend (cid # cids) bound ps =
     (let lease_ms = lv_secondary_timeout_ms S + 30000
      in sbind (claim_review S cid lease_ms) (\<lambda>claim.
         case claim of
           None \<Rightarrow> review_loop S backend cids bound ps
         | Some token \<Rightarrow>
             sbind (review_claimed S backend cid token lease_ms bound) (\<lambda>(bound', p).
             review_loop S backend cids bound' (ps @ opt_list p))))"

definition process_codex_reviews :: "'w live_service \<Rightarrow> ('w, trade_proposal list) lact" where
  "process_codex_reviews S =
     sbind (clock_ms S) (\<lambda>t.
     sbind (in_store (expire_cases (lv_hash S) t)) (\<lambda>_.
     case lv_secondary S of
       None \<Rightarrow> ret []
     | Some backend \<Rightarrow>
         sbind (clock_ms S) (\<lambda>t.
         sbind (in_store (queued_codex_reviews t)) (\<lambda>cids. review_loop S backend cids None []))))"

end
