(* ===== verification/Service_Safety.thy ===== *)
theory Service_Safety
  imports Live_Service Approval_Safety
begin

text \<open>
  What the live service may do to the journal. Every run of \<open>analyze_case\<close> and of \<open>process_codex_reviews\<close> is a
  sequence of journal calls that draft proposals and never decide: the locale \<open>service_relation\<close> carries a
  relation over the whole service once its single calls respect it. The second part follows the state
  of one case through \<open>analyze_case\<close> with triples of the theory \<open>Actions\<close>.
\<close>

section \<open>Relations a run of the service respects\<close>

fun drafting :: "store_cmd \<Rightarrow> bool" where
  "drafting (RecordCallback e a actor ph ch) = False"
| "drafting (Transition cid new token) = (new \<noteq> APPROVED \<and> new \<noteq> REJECTED)"
| "drafting _ = True"

text \<open>The code the service calls respects a relation.\<close>

definition calls_respect :: "('w service_state \<Rightarrow> 'w service_state \<Rightarrow> bool) \<Rightarrow> 'w live_service \<Rightarrow> bool" where
  "calls_respect P S \<longleftrightarrow> (\<forall>c m s. P s (snd (lv_primary S c m s)))
     \<and> (\<forall>backend c m s. lv_secondary S = Some backend \<longrightarrow> P s (snd (backend c m s)))
     \<and> (\<forall>send p s. lv_notifier S = Some send \<longrightarrow> P s (snd (send p s)))"

locale service_relation = run_relation P for P :: "'w service_state \<Rightarrow> 'w service_state \<Rightarrow> bool" +
  fixes S :: "'w live_service"
  assumes rel_world: "P s (s\<lparr>ls_world := w\<rparr>)"
    and rel_store: "drafting cmd \<Longrightarrow> P s (s\<lparr>ls_store := exec (lv_hash S) t cmd (ls_store s)\<rparr>)"
begin

lemma pres_in_store:
  assumes "\<And>db. \<exists>t cmd. drafting cmd \<and> snd (m db) = exec (lv_hash S) t cmd db"
  shows "pres (in_store m)"
proof -
  have "P s (snd (in_store m s))" for s
  proof -
    obtain t cmd where "drafting cmd" "snd (m (ls_store s)) = exec (lv_hash S) t cmd (ls_store s)" using assms by blast
    moreover have "snd (in_store m s) = s\<lparr>ls_store := snd (m (ls_store s))\<rparr>" by (simp add: in_store_def split: prod.splits)
    ultimately show ?thesis using rel_store [of cmd s t] by simp
  qed
  then show ?thesis by (simp add: pres_def)
qed

lemma pres_store_calls:
  "pres (in_store (save_case (lv_hash S) c))" "pres (in_store (save_analysis (lv_hash S) r role))"
  "pres (in_store (save_proposal (lv_hash S) p token (Some t)))" "pres (in_store (expire_cases (lv_hash S) t))"
  "pres (in_store (queued_codex_reviews t))" "pres (in_store (claim_codex_review cid t lease tok))"
  "pres (in_store (renew_codex_review cid tok t lease))" "pres (in_store (release_codex_review cid tok))"
  "pres (in_store (mark_codex_review_processed cid tok))"
  "new \<noteq> APPROVED \<Longrightarrow> new \<noteq> REJECTED \<Longrightarrow> pres (in_store (\<lambda>db. transition db cid new t token))"
  by (rule pres_in_store, metis exec.simps drafting.simps)+

lemma pres_reads: "pres (read_store f)" "pres (clock_ms S)" "pres (fresh_token S)"
  by (simp_all add: pres_def read_store_def clock_ms_def fresh_token_def rel_refl rel_world split: prod.splits)

lemmas pres_basic = pres_statements pres_store_calls pres_reads
lemmas pres_intros = pres_basic pres_sbind pres_on_error pres_with_state

lemma pres_move_case: "new \<noteq> APPROVED \<Longrightarrow> new \<noteq> REJECTED \<Longrightarrow> pres (move_case S cid new token)"
  unfolding move_case_def by (intro pres_intros)

lemma pres_analyze_with: "(\<And>c m. pres (backend c m)) \<Longrightarrow> pres (analyze_with backend c mode)"
  unfolding analyze_with_def by (auto intro!: pres_intros)

lemma pres_recover_state: "target \<noteq> APPROVED \<Longrightarrow> target \<noteq> REJECTED \<Longrightarrow> pres (recover_state S cid target)"
  unfolding recover_state_def by (auto intro!: pres_intros pres_move_case)

lemma pres_announce:
  assumes "\<And>send p. lv_notifier S = Some send \<Longrightarrow> pres (send p)"
  shows "pres (announce S c p token)"
  unfolding announce_def by (auto intro!: pres_intros pres_move_case assms split: option.splits)

lemma pres_finish_case:
  assumes "\<And>send p. lv_notifier S = Some send \<Longrightarrow> pres (send p)"
  shows "pres (finish_case S c primary secondary mcr token)"
  unfolding finish_case_def Let_def by (auto intro!: pres_intros pres_move_case pres_announce assms)

lemma calls_pres:
  assumes "calls_respect P S"
  shows "pres (lv_primary S c m)" "lv_secondary S = Some backend \<Longrightarrow> pres (backend c m)" "lv_notifier S = Some send \<Longrightarrow> pres (send p)"
  using assms by (simp_all add: calls_respect_def pres_def)

lemma pres_analyze_case:
  assumes calls: "calls_respect P S"
  shows "pres (analyze_case S c)"
proof -
  note calls = calls_pres [OF calls]
  have "pres (decide_case S c)"
    unfolding decide_case_def second_opinion_def
    by (intro pres_sbind pres_basic pres_analyze_with calls(1) pres_finish_case calls(3))
       (auto intro!: pres_intros pres_analyze_with intro: calls(2) split: option.splits)
  then show ?thesis
    unfolding analyze_case_def by (auto intro!: pres_intros pres_recover_state split: if_splits)
qed

lemma pres_finally_do: "pres m \<Longrightarrow> pres f \<Longrightarrow> pres (finally_do m f)"
  unfolding pres_def finally_do_def by (auto split: prod.splits sum.splits) (metis rel_trans snd_conv)+

lemma pres_renew_claim: "pres (renew_claim S cid token lease_ms)"
  unfolding renew_claim_def by (intro pres_intros)

lemma pres_guarded_review: "pres m \<Longrightarrow> pres (guarded_review S cid token lease_ms bound m)"
  unfolding guarded_review_def review_cancelled_def review_failed_def
  by (auto intro!: pres_intros pres_renew_claim pres_move_case split: pyerr.splits option.splits)

lemma pres_review_case:
  assumes "lv_secondary S = Some backend" and calls: "calls_respect P S"
  shows "pres (review_case S backend cid token lease_ms c)"
  unfolding review_case_def using calls_pres [OF calls] assms(1)
  by (auto intro!: pres_intros pres_renew_claim pres_move_case pres_analyze_with pres_finish_case split: option.splits)

lemma pres_review_claimed:
  assumes "lv_secondary S = Some backend" and calls: "calls_respect P S"
  shows "pres (review_claimed S backend cid token lease_ms bound)"
  unfolding review_claimed_def using pres_review_case [OF assms]
  by (auto intro!: pres_finally_do pres_intros pres_guarded_review split: sum.splits)

lemma pres_review_loop:
  assumes "lv_secondary S = Some backend" and calls: "calls_respect P S"
  shows "pres (review_loop S backend cids bound ps)"
  by (induction cids arbitrary: bound ps)
     (auto simp: Let_def claim_review_def intro!: pres_intros pres_review_claimed [OF assms] split: option.splits)

lemma pres_process_codex_reviews:
  assumes calls: "calls_respect P S"
  shows "pres (process_codex_reviews S)"
  unfolding process_codex_reviews_def by (auto intro!: pres_intros pres_review_loop calls split: option.splits)

end

section \<open>The service drafts and never decides\<close>

inductive draft_step :: "hasher \<Rightarrow> live_db \<Rightarrow> live_db \<Rightarrow> bool" for H where
  draft: "drafting cmd \<Longrightarrow> draft_step H db (exec H t cmd db)"

inductive_cases draft_stepE: "draft_step H db db'"

definition decided_case :: "live_db \<Rightarrow> string \<Rightarrow> bool" where
  "decided_case db cid \<longleftrightarrow> case_state db cid \<in> {Some APPROVED, Some REJECTED}"

text \<open>What a draft may not touch: an undecided case stays undecided, and the approval records keep all but their
  lease columns.\<close>

definition undecided :: "hasher \<Rightarrow> live_db \<Rightarrow> string \<Rightarrow> live_db \<Rightarrow> bool" where
  "undecided H db0 cid db \<longleftrightarrow> live_inv H db \<and> map core (approval_records db) = map core (approval_records db0)
     \<and> (\<not> decided_case db0 cid \<longrightarrow> \<not> decided_case db cid)"

lemma drafting_service: "drafting cmd \<Longrightarrow> service_cmd cmd"
  by (cases cmd) auto

lemma core_db_tables:
  assumes "core_db db' = core_db db"
  shows "live_cases db' = live_cases db" and "map core (approval_records db') = map core (approval_records db)"
  using arg_cong [OF assms, of live_cases] arg_cong [OF assms, of approval_records] by (simp_all add: core_db_def)

lemma undecided_lease:
  assumes "undecided H db0 cid db" and "core_db db' = core_db db"
  shows "undecided H db0 cid db'"
proof -
  have "live_inv H db'" using live_inv_lease [OF _ assms(2)] assms(1) by (simp add: undecided_def)
  moreover have "case_state db' cid = case_state db cid" by (simp only: case_state_def core_db_tables(1) [OF assms(2)])
  ultimately show ?thesis using assms(1) core_db_tables(2) [OF assms(2)] by (simp only: undecided_def decided_case_def) blast
qed

lemma undecided_moved:
  assumes "undecided H db0 cid db" and "find_case db c = Some row" and "allowed_edge (lc_state row) new"
    and "new \<noteq> APPROVED" "new \<noteq> REJECTED"
  shows "undecided H db0 cid (moved db c (lc_state row) new now None)"
  using assms live_inv_moved [of H db c row "lc_state row" new now None]
  by (auto simp: undecided_def decided_case_def case_state_moved [OF assms(2)])

lemma undecided_inv: "undecided H db0 cid db \<Longrightarrow> live_inv H db"
  by (simp add: undecided_def)

lemma undecided_expire: "undecided H db0 cid db \<Longrightarrow> undecided H db0 cid (snd (expire_cases H now db))"
  by (rule expire_cases_rule [where P = "undecided H db0 cid", OF undecided_inv])
     (simp_all add: undecided_lease [OF undecided_moved core_close_reviews])

lemma undecided_queued: "undecided H db0 cid db \<Longrightarrow> undecided H db0 cid (snd (queued_codex_reviews now db))"
  by (rule queued_codex_reviews_rule [where P = "undecided H db0 cid", OF undecided_inv])
     (simp_all add: undecided_moved undecided_lease [OF _ core_close_reviews])

lemma undecided_cases:
  assumes "undecided H db0 cid db" and "live_inv H db'" and "approval_records db' = approval_records db"
    and "case_state db' cid = case_state db cid \<or> case_state db' cid = Some CASE_TRIGGERED"
  shows "undecided H db0 cid db'"
  using assms by (auto simp: undecided_def decided_case_def)

lemma undecided_save_case:
  assumes "undecided H db0 cid db"
  shows "undecided H db0 cid (snd (save_case H c db))"
  using save_case_effect [of H c db]
proof (elim disjE conjE)
  assume e: "snd (save_case H c db) = added_case db c" and n: "find_case db (cp_case_id c) = None"
  have "live_inv H (added_case db c)" using save_case_inv [OF undecided_inv [OF assms], of c] e by simp
  then show ?thesis unfolding e by (rule undecided_cases [OF assms]) (simp_all add: added_case_def [of db c] case_state_added [OF n, unfolded added_case_def])
qed (use assms in simp)

lemma save_analysis_tables: "live_cases (snd (save_analysis H r role db)) = live_cases db"
    "approval_records (snd (save_analysis H r role db)) = approval_records db"
  by (auto simp: save_analysis_def save_analysis_body_def transaction_def Let_def split: option.splits sum.splits if_splits prod.splits)

lemma save_proposal_tables: "case_state (snd (save_proposal H p token now db)) cid = case_state db cid"
    "approval_records (snd (save_proposal H p token now db)) = approval_records db"
  using save_proposal_effect [of H p token now db]
  by (auto simp: insert_proposal_def case_state_def [of "db\<lparr>trade_proposals := x\<rparr>" for x] case_state_def [of db] split: option.splits if_splits)

lemma transition_effect:
  "snd (transition db cid new now token) = db
     \<or> (\<exists>row. find_case db cid = Some row \<and> allowed_edge (lc_state row) new
          \<and> snd (transition db cid new now token) = moved db cid (lc_state row) new now None)"
  by (auto simp: transition_def run_tx_def result_simps transition_row_iff split: sum.splits option.splits)


lemma undecided_exec:
  assumes "drafting cmd" and u: "undecided H db0 cid db"
  shows "undecided H db0 cid (exec H t cmd db)"
proof -
  note inv = exec_inv [OF undecided_inv [OF u] drafting_service [OF assms(1)], of t]
  show ?thesis
  proof (cases cmd)
    case (SaveAnalysis r role)
    then show ?thesis
      using inv by (intro undecided_cases [OF u]) (simp_all add: save_analysis_tables case_state_def)
  next
    case (SaveProposal p token)
    then show ?thesis using inv by (intro undecided_cases [OF u]) (simp_all add: save_proposal_tables)
  next
    case (Transition c new token)
    then show ?thesis using assms(1) transition_effect [of db c new t token] u undecided_moved [OF u] by auto
  next
    case (ClaimReview c lease token)
    have "core_db (snd (claim_codex_review c t lease token db)) = core_db db"
      by (auto simp: claim_codex_review_def Let_def core_def intro!: core_db_update_where split: option.splits list.splits)
    then show ?thesis using undecided_lease [OF u] by (simp add: ClaimReview)
  next
    case (RenewReview c token lease)
    have "core_db (snd (renew_codex_review c token t lease db)) = core_db db"
      by (auto simp: renew_codex_review_def Let_def core_def intro!: core_db_update_where)
    then show ?thesis using undecided_lease [OF u] by (simp add: RenewReview)
  next
    case (ReleaseReview c token)
    have "core_db (snd (release_codex_review c token db)) = core_db db"
      by (auto simp: release_codex_review_def core_def intro!: core_db_update_where)
    then show ?thesis using undecided_lease [OF u] by (simp add: ReleaseReview)
  next
    case (MarkReview c token)
    have "core_db (snd (mark_codex_review_processed c token db)) = core_db db"
      by (simp add: mark_codex_review_processed_def)
    then show ?thesis using undecided_lease [OF u] by (simp add: MarkReview)
  qed (use assms in \<open>simp_all add: undecided_save_case undecided_expire undecided_queued\<close>)
qed

lemma drafts_undecided:
  assumes "(draft_step H)\<^sup>*\<^sup>* db db'" and "live_inv H db"
  shows "undecided H db cid db'"
  using assms(1)
proof (induction rule: rtranclp_induct)
  case base
  then show ?case using assms(2) by (simp add: undecided_def)
next
  case (step x y)
  then show ?case using undecided_exec by (auto elim!: draft_stepE)
qed

lemma drafts_final:
  assumes "(draft_step H)\<^sup>*\<^sup>* db db'" and "live_inv H db" and "final_state db cid = Some st"
  shows "final_state db' cid = Some st"
  using assms(1)
proof (induction rule: rtranclp_induct)
  case (step x y)
  have "live_inv H x" by (rule undecided_inv [OF drafts_undecided [OF step.hyps(1) assms(2)]])
  then show ?case using step exec_final by (auto elim!: draft_stepE)
qed (use assms(3) in simp)

definition drafts :: "hasher \<Rightarrow> 'w service_state \<Rightarrow> 'w service_state \<Rightarrow> bool" where
  "drafts H s s' \<longleftrightarrow> (draft_step H)\<^sup>*\<^sup>* (ls_store s) (ls_store s')"

interpretation drafts: service_relation "drafts (lv_hash S)" S for S :: "'w live_service"
proof unfold_locales
  show "drafts (lv_hash S) s u" if "drafts (lv_hash S) s t" "drafts (lv_hash S) t u" for s t u :: "'w service_state"
    using that unfolding drafts_def by (rule rtranclp_trans)
qed (simp_all add: drafts_def draft_step.draft r_into_rtranclp)


section \<open>Where a case ends\<close>

definition case_at :: "string \<Rightarrow> live_state \<Rightarrow> 'w service_state \<Rightarrow> bool" where
  "case_at cid st s \<longleftrightarrow> case_state (ls_store s) cid = Some st"

definition case_open :: "string \<Rightarrow> 'w service_state \<Rightarrow> bool" where
  "case_open cid s \<longleftrightarrow> case_at cid LLM_ANALYZING s \<or> case_at cid PLAN_READY s \<or> case_at cid NOTIFIED s"

definition same_store :: "'w service_state \<Rightarrow> 'w service_state \<Rightarrow> bool" where
  "same_store s s' \<longleftrightarrow> ls_store s' = ls_store s"

interpretation same: run_relation same_store
  by unfold_locales (simp_all add: same_store_def)

lemma triple_same:
  assumes "same.pres m"
  shows "triple (case_at cid st) m (\<lambda>_. case_at cid st) (\<lambda>_. case_at cid st)"
proof -
  have "ls_store s' = ls_store s" if "m s = (r, s')" for s r s' using same.presD [OF assms that] by (simp add: same_store_def)
  then show ?thesis unfolding triple_def case_at_def by metis
qed

lemma same_reads: "same.pres (clock_ms S)" "same.pres (read_store f)" "same.pres (fresh_token S)" "same.pres (lift_res r)" "same.pres (ret x)"
  by (simp_all add: same.pres_def same_store_def clock_ms_def read_store_def fresh_token_def lift_res_def ret_def split: prod.splits)

lemma same_analyze_with:
  assumes "\<And>c m. same.pres (backend c m)"
  shows "same.pres (analyze_with backend c mode)"
  unfolding analyze_with_def by (auto intro!: same.pres_rules assms)

lemma triple_in_store:
  assumes "\<And>db. case_state (snd (m db)) cid = case_state db cid"
  shows "triple (case_at cid st) (in_store m) (\<lambda>_. case_at cid st) (\<lambda>_. case_at cid st)"
proof -
  have "case_state (ls_store s') cid = case_state (ls_store s) cid" if "in_store m s = (r, s')" for s r s'
    using that assms [of "ls_store s"] by (auto simp: in_store_def split: prod.splits)
  then show ?thesis unfolding triple_def case_at_def by metis
qed

lemma triple_saves:
  "triple (case_at cid st) (in_store (save_analysis H r role)) (\<lambda>_. case_at cid st) (\<lambda>_. case_at cid st)"
  "triple (case_at cid st) (in_store (save_proposal H p token now)) (\<lambda>_. case_at cid st) (\<lambda>_. case_at cid st)"
  by (rule triple_in_store, simp add: save_analysis_tables case_state_def)
     (rule triple_in_store, simp add: save_proposal_tables)

lemma transition_to:
  assumes "case_state db cid = Some st"
  shows "transition db cid new now None = (if allowed_edge st new then (Inr (), moved db cid st new now None)
      else (Inl (ValueError ''invalid state transition''), db))"
proof -
  obtain row where "find_case db cid = Some row" "lc_state row = st" using assms by (auto simp: case_state_def)
  then show ?thesis by (simp add: transition_def run_tx_def check_claim_def transition_row_def moved_def)
qed

lemma triple_transition:
  "triple (case_at cid st) (in_store (\<lambda>db. transition db cid new now None)) (\<lambda>_. case_at cid new)
     (\<lambda>e s. case_at cid st s \<and> \<not> allowed_edge st new)"
proof -
  have "case_state (moved db cid st new now None) cid = Some new" if st: "case_state db cid = Some st" for db
  proof -
    obtain row where "find_case db cid = Some row" using st by (auto simp: case_state_def)
    from case_state_moved [OF this] show ?thesis by simp
  qed
  then show ?thesis
    by (auto simp: triple_def case_at_def in_store_def transition_to split: if_splits)
qed

lemma triple_move:
  "triple (case_at cid st) (move_case S cid new None) (\<lambda>_. case_at cid new) (\<lambda>e s. case_at cid st s \<and> \<not> allowed_edge st new)"
  unfolding move_case_def
proof (rule triple_sbind [OF _ triple_transition])
  have "same.pres (clock_ms S)" by (rule same_reads)
  moreover have "clock_ms S s \<noteq> (Inl e, s')" for s e s' by (simp add: clock_ms_def split: prod.splits)
  ultimately show "triple (case_at cid st) (clock_ms S) (\<lambda>_. case_at cid st) (\<lambda>e s. case_at cid st s \<and> \<not> allowed_edge st new)"
    using triple_same [of "clock_ms S" cid st] by (simp add: triple_def)
qed

lemma allowed_from_open:
  "st \<in> {LLM_ANALYZING, PLAN_READY, NOTIFIED} \<Longrightarrow> target \<in> {MANUAL, EXPIRED} \<Longrightarrow> allowed_edge st target \<and> \<not> terminal st"
  "allowed_edge CASE_TRIGGERED LLM_ANALYZING"
  by (auto simp: allowed_edge_def)

text \<open>Recovery always gets an open case to its target.\<close>

lemma triple_recover:
  assumes "target \<in> {MANUAL, EXPIRED}"
  shows "triple (case_open cid) (recover_state S cid target) (\<lambda>_. case_at cid target) (\<lambda>_ _. False)"
proof -
  have one: "triple (case_at cid st) (recover_state S cid target) (\<lambda>_. case_at cid target) (\<lambda>_ _. False)"
    if st: "st \<in> {LLM_ANALYZING, PLAN_READY, NOTIFIED}" for st
  proof -
    have read: "triple (case_at cid st) (read_store (\<lambda>db. state_of db cid)) (\<lambda>x s. x = st \<and> case_at cid st s) (\<lambda>_ _. False)"
      by (auto simp: triple_def read_store_def state_of_def case_at_def case_state_def split: option.splits)
    have "triple (\<lambda>s. x = st \<and> case_at cid st s) (if terminal x then ret () else move_case S cid target None)
        (\<lambda>_. case_at cid target) (\<lambda>_ _. False)" for x
      using allowed_from_open(1) [OF st assms] triple_move [of cid st S target] by (auto simp: triple_def)
    then show ?thesis unfolding recover_state_def
      by (intro triple_on_error [OF triple_sbind [OF read]] triple_weaken [OF triple_ret]) (auto simp: triple_def)
  qed
  show ?thesis using one unfolding triple_def case_open_def by blast
qed

abbreviation case_waits :: "string \<Rightarrow> 'w service_state \<Rightarrow> bool" where
  "case_waits cid s \<equiv> case_at cid WAITING_APPROVAL s \<or> case_at cid MANUAL s"

lemma triple_step:
  assumes "triple (case_at cid st) m (\<lambda>_. case_at cid st') (\<lambda>_. case_at cid st)" and "st \<in> {LLM_ANALYZING, PLAN_READY, NOTIFIED}"
    and "\<And>x. triple (case_at cid st') (k x) Q (\<lambda>_. case_open cid)"
  shows "triple (case_at cid st) (sbind m k) Q (\<lambda>_. case_open cid)"
  by (rule triple_sbind [OF triple_weaken [OF assms(1)] assms(3)]) (use assms(2) in \<open>auto simp: case_open_def\<close>)

lemma triple_move_step:
  assumes "st \<in> {LLM_ANALYZING, PLAN_READY, NOTIFIED}" and "\<And>x. triple (case_at cid new) (k x) Q (\<lambda>_. case_open cid)"
  shows "triple (case_at cid st) (sbind (move_case S cid new None) k) Q (\<lambda>_. case_open cid)"
  by (rule triple_step [OF triple_weaken [OF triple_move] assms]) auto

lemma same_calls:
  assumes "calls_respect same_store S"
  shows "same.pres (lv_primary S c m)" "lv_secondary S = Some backend \<Longrightarrow> same.pres (backend c m)"
    "lv_notifier S = Some send \<Longrightarrow> same.pres (send p)"
  using assms by (simp_all add: calls_respect_def same.pres_def)

lemma triple_announce:
  assumes "calls_respect same_store S"
  shows "triple (case_at (cp_case_id c) PLAN_READY) (announce S c p None) (\<lambda>_. case_waits (cp_case_id c)) (\<lambda>_. case_open (cp_case_id c))"
proof (cases "lv_notifier S")
  case None
  then show ?thesis by (auto simp: announce_def intro!: triple_move_step triple_ret)
next
  case (Some send)
  have "same.pres (on_error (sbind (send p) (\<lambda>_. ret True)) (\<lambda>e. if e = CancelledError then raise e else ret False))"
    by (auto intro!: same.pres_rules same_calls(3) [OF assms Some])
  from triple_same [OF this] show ?thesis
    unfolding announce_def Some option.case
    by (rule triple_step) (auto intro!: triple_move_step triple_ret triple_if)
qed

lemma triple_finish_case:
  assumes "calls_respect same_store S"
  shows "triple (case_at (cp_case_id c) LLM_ANALYZING) (finish_case S c primary secondary mcr None) (\<lambda>_. case_waits (cp_case_id c))
    (\<lambda>_. case_open (cp_case_id c))"
proof -
  have save: "triple (case_at cid st) (if b then in_store (save_analysis H r role) else ret ()) (\<lambda>_. case_at cid st) (\<lambda>_. case_at cid st)"
    for cid st b H r role
    using triple_saves(1) triple_same [OF same_reads(5)] by (rule triple_if)
  show ?thesis
    unfolding finish_case_def Let_def
    by (rule triple_step [OF triple_same [OF same_reads(4)]], simp, rule triple_step [OF save], simp,
        rule triple_step [OF triple_same [OF same_reads(1)]], simp, rule triple_step [OF triple_same [OF same_reads(4)]], simp,
        rule triple_step [OF triple_same [OF same_reads(1)]], simp, rule triple_step [OF triple_saves(2)], simp,
        rule triple_move_step, simp, rule triple_announce [OF assms])
qed

lemma triple_decide_case:
  assumes "calls_respect same_store S"
  shows "triple (case_at (cp_case_id c) LLM_ANALYZING) (decide_case S c) (\<lambda>_. case_waits (cp_case_id c)) (\<lambda>_. case_open (cp_case_id c))"
proof -
  note calls = same_calls [OF assms]
  let ?at = "case_at (cp_case_id c) LLM_ANALYZING"
  have second: "triple ?at (second_opinion S c primary) (\<lambda>_. ?at) (\<lambda>_. ?at)" for primary
    unfolding second_opinion_def
    by (rule triple_sbind [OF triple_same [OF same_reads(4)]])
       (auto intro!: triple_sbind [OF triple_saves(1)] triple_sbind [OF triple_same [OF same_analyze_with]] triple_ret intro: calls(2)
             split: option.splits)
  show ?thesis
    unfolding decide_case_def
    by (rule triple_step [OF triple_same [OF same_analyze_with [OF calls(1)]]], simp, rule triple_step [OF triple_saves(1)], simp,
        rule triple_step [OF second], simp, rule triple_finish_case [OF assms])
qed

lemma expire_cases_absent:
  assumes "live_inv H db" and "case_state db cid = None"
  shows "case_state (snd (expire_cases H now db)) cid = None"
proof -
  let ?P = "\<lambda>db. live_inv H db \<and> case_state db cid = None"
  have "?P (close_reviews Q (moved db (lc_case_id row) (lc_state row) EXPIRED now None))"
    if "?P db" "find_case db (lc_case_id row) = Some row" "allowed_edge (lc_state row) EXPIRED" for db row Q
  proof -
    have "lc_case_id row \<noteq> cid" using that by (auto simp: case_state_def)
    then have "case_state (moved db (lc_case_id row) (lc_state row) EXPIRED now None) cid = None"
      using that by (auto simp: case_state_moved [OF that(2)])
    then show ?thesis using that live_inv_close live_inv_moved [of H db "lc_case_id row" row "lc_state row" EXPIRED now None]
      by (simp add: case_state_def)
  qed
  then show ?thesis using expire_cases_rule [of ?P H now db] assms by simp
qed

definition case_new :: "string \<Rightarrow> 'w service_state \<Rightarrow> bool" where
  "case_new cid s \<longleftrightarrow> case_state (ls_store s) cid = None"

lemma save_case_new:
  assumes "case_state db (cp_case_id c) = None"
  shows "save_case H c db = (Inr b, db') \<Longrightarrow> b \<and> case_state db' (cp_case_id c) = Some CASE_TRIGGERED"
    and "save_case H c db = (Inl e, db') \<Longrightarrow> case_state db' (cp_case_id c) = None"
proof -
  have "find_case db (cp_case_id c) = None" using assms by (simp add: case_state_def)
  then show "save_case H c db = (Inr b, db') \<Longrightarrow> b \<and> case_state db' (cp_case_id c) = Some CASE_TRIGGERED"
    and "save_case H c db = (Inl e, db') \<Longrightarrow> case_state db' (cp_case_id c) = None"
    by (auto simp: save_case_def save_case_body_def transaction_def case_state_def fetchone_append split: sum.splits if_splits)
qed

lemma in_store_result: "in_store m s = (r, s') \<longleftrightarrow> (\<exists>db'. m (ls_store s) = (r, db') \<and> s' = s\<lparr>ls_store := db'\<rparr>)"
  by (auto simp: in_store_def split: prod.splits)

lemma triple_store_op:
  assumes "\<And>db x db'. A db \<Longrightarrow> m db = (Inr x, db') \<Longrightarrow> Q x db'" and "\<And>db e db'. A db \<Longrightarrow> m db = (Inl e, db') \<Longrightarrow> R e db'"
  shows "triple (\<lambda>s. A (ls_store s)) (in_store m) (\<lambda>x s. Q x (ls_store s)) (\<lambda>e s. R e (ls_store s))"
  using assms unfolding triple_def in_store_result by fastforce

lemma triple_save_case:
  "triple (case_new (cp_case_id c)) (in_store (save_case H c)) (\<lambda>b s. b \<and> case_at (cp_case_id c) CASE_TRIGGERED s) (\<lambda>_. case_new (cp_case_id c))"
  unfolding case_new_def [abs_def] case_at_def [abs_def] by (rule triple_store_op [OF save_case_new])

lemma triple_expire_new:
  "triple (\<lambda>s. live_inv H (ls_store s) \<and> case_new cid s) (in_store (expire_cases H now)) (\<lambda>_. case_new cid) (\<lambda>_. case_new cid)"
proof -
  have "case_state db' cid = None" if "live_inv H db \<and> case_state db cid = None" "expire_cases H now db = (r, db')" for db r db'
    using expire_cases_absent [of H db cid now] that by simp
  then show ?thesis unfolding case_new_def [abs_def] by (intro triple_store_op)
qed

definition settled_result :: "string \<Rightarrow> trade_proposal option \<Rightarrow> 'w service_state \<Rightarrow> bool" where
  "settled_result cid r s \<longleftrightarrow> (case r of Some p \<Rightarrow> case_waits cid s | None \<Rightarrow> case_at cid MANUAL s \<or> case_at cid EXPIRED s)"

definition settled_error :: "string \<Rightarrow> pyerr \<Rightarrow> 'w service_state \<Rightarrow> bool" where
  "settled_error cid e s \<longleftrightarrow> case_new cid s \<or> (if e = CancelledError then case_at cid MANUAL s else case_open cid s)"

lemma triple_decided:
  assumes "calls_respect same_store S"
  shows "triple (case_at (cp_case_id c) LLM_ANALYZING)
    (on_error (sbind (decide_case S c) (\<lambda>p. ret (Some p)))
       (\<lambda>e. if e = CancelledError then sbind (recover_state S (cp_case_id c) MANUAL) (\<lambda>_. raise e)
            else if store_error e then
              sbind (clock_ms S) (\<lambda>t.
              sbind (recover_state S (cp_case_id c) (if cp_expires_at_ms c \<le> t then EXPIRED else MANUAL)) (\<lambda>_. ret None))
            else raise e))
    (settled_result (cp_case_id c)) (settled_error (cp_case_id c))"
proof (rule triple_on_error)
  let ?cid = "cp_case_id c"
  show "triple (case_at ?cid LLM_ANALYZING) (sbind (decide_case S c) (\<lambda>p. ret (Some p))) (settled_result ?cid) (\<lambda>_. case_open ?cid)"
    by (rule triple_sbind [OF triple_decide_case [OF assms]]) (auto intro!: triple_ret simp: settled_result_def)
  have clock: "triple (case_open ?cid) (clock_ms S) (\<lambda>_. case_open ?cid) R" for R
    by (auto simp: triple_def clock_ms_def case_open_def case_at_def split: prod.splits)
  have rec: "triple (case_open ?cid) (sbind (recover_state S ?cid t) k) Q R"
    if "t \<in> {MANUAL, EXPIRED}" "triple (case_at ?cid t) (k ()) Q R" for t Q R and k :: "unit \<Rightarrow> ('a, 'b) lact"
    by (rule triple_sbind [OF triple_weaken [OF triple_recover [OF that(1)]]]) (use that(2) in auto)
  fix e
  show "triple (case_open ?cid)
      (if e = CancelledError then sbind (recover_state S ?cid MANUAL) (\<lambda>_. raise e)
       else if store_error e then
         sbind (clock_ms S) (\<lambda>t. sbind (recover_state S ?cid (if cp_expires_at_ms c \<le> t then EXPIRED else MANUAL)) (\<lambda>_. ret None))
       else raise e) (settled_result ?cid) (settled_error ?cid)"
    by (intro triple_if triple_sbind [OF clock] rec triple_raise triple_ret)
       (auto simp: settled_result_def settled_error_def split: if_splits)
qed


section \<open>A concrete service\<close>

text \<open>The primary model is cancelled while it works; the clock stands at 1000.\<close>

definition sample_service :: "unit live_service" where
  "sample_service =
     \<lparr>lv_hash = const_hash, lv_clock = (\<lambda>w. (1000, w)), lv_token = (\<lambda>w. (''token'', w)), lv_primary = (\<lambda>_ _. raise CancelledError),
      lv_secondary = None, lv_secondary_timeout_ms = 60000, lv_policy = sample_policy, lv_fusion = sample_fusion, lv_notifier = None\<rparr>"

definition sample_service_state :: "unit service_state" where
  "sample_service_state = \<lparr>ls_store = empty_live_db, ls_world = ()\<rparr>"

lemma sample_service_ok:
  "live_inv (lv_hash sample_service) (ls_store sample_service_state)" "case_new ''case-1'' sample_service_state"
  "run_relation P \<Longrightarrow> calls_respect P sample_service"
  using live_inv_empty [of const_hash]
  by (simp_all add: sample_service_def sample_service_state_def case_new_def case_state_def calls_respect_def raise_def run_relation_def)
     (simp add: empty_live_db_def)

lemma sample_case_observed: "cp_observed_at_ms sample_case = 1000"
  by (simp add: sample_case_def)

lemma sample_service_run:
  "fst (analyze_case sample_service sample_case sample_service_state) = Inl CancelledError"
  "case_at ''case-1'' MANUAL (snd (analyze_case sample_service sample_case sample_service_state))"
  by (simp_all add: analyze_case_def decide_case_def analyze_with_def recover_state_def move_case_def in_store_def read_store_def clock_ms_def
      sbind_def on_error_def ret_def raise_def lift_res_def sample_service_def sample_service_state_def sample_policy_def sample_case_observed
      empty_live_db_def save_case_def transaction_def save_case_body_def expire_cases_def run_tx_def transition_def check_claim_def
      transition_row_def allowed_edge_def update_where_def state_of_def case_at_def case_state_def Let_def)



end
