(* ===== verification/Callback.thy ===== *)
theory Callback
  imports Live_Service
begin

text \<open>
  The HTTP endpoint that receives the buttons of an approval card (\<open>approval/callback.py\<close>, function
  \<open>callback\<close> inside \<open>create_callback_app\<close>): size limit, signature, token, envelope, actor, then one call of
  \<open>record_callback\<close>. An \<open>HTTPException\<close> is the answer of the endpoint; any other exception is a server error.

  SHA-256 and the JSON parser are parameters; headers and bodies are byte strings, read as Latin-1 the way the
  web framework reads headers. The clock is a parameter too.
\<close>

section \<open>Requests\<close>

record callback_request =
  rq_chunks :: "string list"
  rq_timestamp :: string
  rq_nonce :: string
  rq_signature :: string

record 'w callback_app =
  cb_hash :: hasher
  cb_sha256 :: "string \<Rightarrow> string"
  cb_loads :: "string \<Rightarrow> json option"
  cb_clock :: "'w \<Rightarrow> int \<times> 'w"
  cb_verification_token :: string
  cb_signing_secret :: string
  cb_approvers :: "string list"
  cb_app_id :: string

datatype callback_reply = Challenge string | Recorded live_state bool

definition cb_now :: "'w callback_app \<Rightarrow> ('w, int) lact" where
  "cb_now C s = (case cb_clock C (ls_world s) of (t, w') \<Rightarrow> (Inr t, s\<lparr>ls_world := w'\<rparr>))"

definition http :: "int \<Rightarrow> string \<Rightarrow> ('w, 'a) lact" where
  "http code detail = raise (HTTPException code detail)"

definition http_unless :: "bool \<Rightarrow> int \<Rightarrow> string \<Rightarrow> ('w, unit) lact" where
  "http_unless c code detail = (if c then ret () else http code detail)"

section \<open>Body\<close>

text \<open>The loop over the stream: it stops as soon as more than 65536 bytes have come in.\<close>

fun read_chunks :: "int \<Rightarrow> string list \<Rightarrow> string list \<Rightarrow> ('w, string) lact" where
  "read_chunks seen chunks [] = ret (concat chunks)"
| "read_chunks seen chunks (c # cs) =
     (if 65536 < seen + int (length c) then http 413 ''callback too large''
      else read_chunks (seen + int (length c)) (chunks @ [c]) cs)"

definition parse_body :: "'w callback_app \<Rightarrow> string \<Rightarrow> ('w, (string \<times> json) list) lact" where
  "parse_body C raw = (case cb_loads C raw of Some (JObj kvs) \<Rightarrow> ret kvs | _ \<Rightarrow> http 400 ''invalid callback body'')"

section \<open>Signature\<close>

text \<open>\<open>str.isdigit\<close> on Latin-1 text also accepts the superscripts one, two and three, which \<open>int\<close> refuses; \<open>int\<close>
  also refuses more than 4300 digits.\<close>

definition decimal_digit :: "char \<Rightarrow> bool" where
  "decimal_digit c \<longleftrightarrow> CHR ''0'' \<le> c \<and> c \<le> CHR ''9''"

definition isdigit :: "string \<Rightarrow> bool" where
  "isdigit t \<longleftrightarrow> t \<noteq> [] \<and> list_all (\<lambda>c. decimal_digit c \<or> (of_char c :: int) \<in> {178, 179, 185}) t"

definition timestamp_value :: "string \<Rightarrow> int" where
  "timestamp_value t = foldl (\<lambda>n c. 10 * n + (of_char c - 48)) 0 t"

definition int_of_text :: "string \<Rightarrow> int res" where
  "int_of_text t = (if t \<noteq> [] \<and> list_all decimal_digit t \<and> length t \<le> 4300 then Inr (timestamp_value t)
     else Inl (ValueError ''invalid literal for int()''))"

text \<open>\<open>hmac.compare_digest\<close> on texts: both must be ASCII.\<close>

definition is_ascii :: "string \<Rightarrow> bool" where
  "is_ascii t \<longleftrightarrow> list_all (\<lambda>c. (of_char c :: int) < 128) t"

definition compare_digest :: "string \<Rightarrow> string \<Rightarrow> bool res" where
  "compare_digest a b = (if is_ascii a \<and> is_ascii b then Inr (a = b)
     else Inl (TypeError ''comparing strings with non-ASCII characters is not supported''))"

text \<open>\<open>str.encode\<close> of Latin-1 text: UTF-8.\<close>

definition encode :: "string \<Rightarrow> string" where
  "encode t = concat (map (\<lambda>c. if (of_char c :: nat) < 128 then [c]
     else [char_of (192 + (of_char c :: nat) div 64), char_of (128 + (of_char c :: nat) mod 64)]) t)"

definition check_signature :: "'w callback_app \<Rightarrow> callback_request \<Rightarrow> string \<Rightarrow> ('w, unit) lact" where
  "check_signature C q raw =
     (if cb_signing_secret C = [] then ret ()
      else if rq_timestamp q = [] \<or> rq_nonce q = [] \<or> rq_signature q = [] \<or> \<not> isdigit (rq_timestamp q)
      then http 401 ''invalid callback signature''
      else sbind (cb_now C) (\<lambda>now.
        sbind (lift_res (int_of_text (rq_timestamp q))) (\<lambda>t.
        if 300 < \<bar>now div 1000 - t\<bar> then http 401 ''stale callback signature''
        else sbind (lift_res (compare_digest (rq_signature q)
                     (cb_sha256 C (encode (rq_timestamp q) @ encode (rq_nonce q) @ encode (cb_signing_secret C) @ raw)))) (\<lambda>same.
          http_unless same 401 ''invalid callback signature''))))"

section \<open>Envelope\<close>

fun as_dict :: "json option \<Rightarrow> (string \<times> json) list option" where
  "as_dict (Some (JObj kvs)) = Some kvs"
| "as_dict _ = None"

fun as_text :: "json option \<Rightarrow> string option" where
  "as_text (Some (JStr t)) = Some t"
| "as_text _ = None"

text \<open>\<open>d.get(k) if isinstance(d, dict) else None\<close>.\<close>

definition sub_field :: "json option \<Rightarrow> string \<Rightarrow> json option" where
  "sub_field v k = Option.bind (as_dict v) (\<lambda>kvs. map_of kvs k)"

definition is_challenge :: "(string \<times> json) list \<Rightarrow> bool" where
  "is_challenge body \<longleftrightarrow> map_of body ''type'' = Some (JStr ''url_verification'')"

definition callback_token :: "(string \<times> json) list \<Rightarrow> string option" where
  "callback_token body =
     as_text (if is_challenge body then map_of body ''token'' else sub_field (map_of body ''header'') ''token'')"

definition check_token :: "'w callback_app \<Rightarrow> (string \<times> json) list \<Rightarrow> ('w, unit) lact" where
  "check_token C body =
     (case callback_token body of
        None \<Rightarrow> http 401 ''invalid verification token''
      | Some token \<Rightarrow>
          if cb_verification_token C = [] then http 401 ''invalid verification token''
          else sbind (lift_res (compare_digest token (cb_verification_token C))) (\<lambda>same.
            http_unless same 401 ''invalid verification token''))"

section \<open>Action\<close>

definition card_fields :: "string list" where
  "card_fields = [''action'', ''proposal_hash'', ''case_hash'']"

text \<open>The three texts of the button, when it has exactly these three.\<close>

definition card_value :: "(string \<times> json) list \<Rightarrow> (string \<times> string \<times> string) option" where
  "card_value value =
     (if set (map fst value) \<noteq> set card_fields then None
      else (case (as_text (map_of value ''action''), as_text (map_of value ''proposal_hash''), as_text (map_of value ''case_hash'')) of
              (Some action, Some ph, Some ch) \<Rightarrow> Some (action, ph, ch)
            | _ \<Rightarrow> None))"

definition record_action ::
  "'w callback_app \<Rightarrow> string \<Rightarrow> string \<Rightarrow> string \<times> string \<times> string \<Rightarrow> ('w, callback_reply) lact" where
  "record_action C event_id actor v =
     (case v of (action, ph, ch) \<Rightarrow>
        on_error
          (sbind (cb_now C) (\<lambda>now. sbind (in_store (record_callback (cb_hash C) event_id action actor ph ch now)) (\<lambda>(state, replay).
             ret (Recorded state replay))))
          (\<lambda>e. case e of
                 ValueError m \<Rightarrow> http 400 ''callback rejected''
               | KeyError k \<Rightarrow> http 400 ''callback rejected''
               | _ \<Rightarrow> raise e))"

definition handle_event :: "'w callback_app \<Rightarrow> (string \<times> json) list \<Rightarrow> string \<Rightarrow> ('w, callback_reply) lact" where
  "handle_event C body event_id =
     (case as_dict (map_of body ''event'') of
        None \<Rightarrow> http 400 ''invalid callback event''
      | Some event \<Rightarrow>
          (case as_text (sub_field (map_of event ''operator'') ''open_id'') of
             None \<Rightarrow> http 403 ''callback actor denied''
           | Some actor \<Rightarrow>
               if actor \<notin> set (cb_approvers C) then http 403 ''callback actor denied''
               else (case Option.bind (as_dict (sub_field (map_of event ''action'') ''value'')) card_value of
                  None \<Rightarrow> http 400 ''invalid callback action''
                | Some v \<Rightarrow> record_action C event_id actor v)))"

definition handle_body :: "'w callback_app \<Rightarrow> (string \<times> json) list \<Rightarrow> ('w, callback_reply) lact" where
  "handle_body C body =
     (if map_of body ''encrypt'' \<noteq> None then http 400 ''encrypted callbacks unsupported''
      else sbind (check_token C body) (\<lambda>_.
        if is_challenge body then
          (case as_text (map_of body ''challenge'') of
             None \<Rightarrow> http 400 ''invalid challenge''
           | Some c \<Rightarrow> ret (Challenge c))
        else (let header = map_of body ''header'' in
          case as_text (sub_field header ''event_id'') of
            None \<Rightarrow> http 400 ''invalid callback envelope''
          | Some event_id \<Rightarrow>
              if map_of body ''schema'' \<noteq> Some (JStr ''2.0'') \<or> sub_field header ''event_type'' \<noteq> Some (JStr ''card.action.trigger'')
              then http 400 ''invalid callback envelope''
              else if cb_app_id C \<noteq> [] \<and> sub_field header ''app_id'' \<noteq> Some (JStr (cb_app_id C)) then http 403 ''callback app denied''
              else handle_event C body event_id)))"

definition callback :: "'w callback_app \<Rightarrow> callback_request \<Rightarrow> ('w, callback_reply) lact" where
  "callback C q =
     sbind (read_chunks 0 [] (rq_chunks q)) (\<lambda>raw.
     sbind (check_signature C q raw) (\<lambda>_.
     sbind (parse_body C raw) (\<lambda>body. handle_body C body)))"

end
