(* ===== verification/Callback_Safety.thy ===== *)
theory Callback_Safety
  imports Callback Service_Safety
begin

text \<open>
  Who can decide a case over HTTP. A request that touches the journal carries the verification token, a fresh signature
  when a signing secret is configured, and the id of a configured approver, and what it does is one
  \<open>record_callback\<close> with the values of its body. Everything else leaves the journal alone.
\<close>

section \<open>Requests that act\<close>

fun recorded :: "callback_reply res \<Rightarrow> (live_state \<times> bool) option" where
  "recorded (Inr (Recorded st replay)) = Some (st, replay)"
| "recorded _ = None"

definition acted :: "'w service_state \<Rightarrow> callback_reply res \<Rightarrow> 'w service_state \<Rightarrow> bool" where
  "acted s r s' \<longleftrightarrow> ls_store s' \<noteq> ls_store s \<or> recorded r \<noteq> None"

lemma acted_bind:
  assumes "same.pres m" and "sbind m k s = (r, s')" and "acted s r s'"
  obtains x t where "m s = (Inr x, t)" and "k x t = (r, s')" and "ls_store t = ls_store s" and "acted t r s'"
proof (cases "m s")
  case (Pair y t)
  have e: "ls_store t = ls_store s" using same.presD [OF assms(1) Pair] by (simp add: same_store_def)
  show ?thesis using that assms(2,3) Pair e by (cases y) (auto simp: sbind_def acted_def)
qed

lemma acted_http [simp]: "http code detail s = (r, s') \<Longrightarrow> \<not> acted s r s'"
  by (auto simp: http_def raise_def acted_def)

lemma same_http: "same.pres (http code detail)" "same.pres (http_unless c code detail)"
  by (simp_all add: http_unless_def http_def same.pres_statements)

lemma same_read: "same.pres (read_chunks n cs ds)"
  by (induction n cs ds rule: read_chunks.induct) (auto simp: same_http same.pres_statements)

lemma same_cb_now: "same.pres (cb_now C)"
  by (simp add: same.pres_def same_store_def cb_now_def split: prod.splits)

lemma same_checks: "same.pres (check_signature C q raw)" "same.pres (parse_body C raw)" "same.pres (check_token C body)"
  unfolding check_signature_def parse_body_def check_token_def
  by (auto intro!: same.pres_rules same_cb_now same_http split: option.splits json.splits)

section \<open>What the checks establish\<close>

lemma read_chunks_result:
  "read_chunks n cs ds s = (Inr raw, s') \<Longrightarrow> raw = concat (cs @ ds) \<and> (ds \<noteq> [] \<longrightarrow> n + int (length (concat ds)) \<le> 65536)"
  by (induction n cs ds rule: read_chunks.induct) (auto simp: ret_def http_def raise_def split: if_splits)

definition signed_by :: "'w callback_app \<Rightarrow> callback_request \<Rightarrow> string \<Rightarrow> int \<Rightarrow> bool" where
  "signed_by C q raw now \<longleftrightarrow> cb_signing_secret C = []
     \<or> (rq_signature q = cb_sha256 C (encode (rq_timestamp q) @ encode (rq_nonce q) @ encode (cb_signing_secret C) @ raw)
        \<and> (\<exists>t. int_of_text (rq_timestamp q) = Inr t \<and> \<bar>now div 1000 - t\<bar> \<le> 300))"

lemma check_signature_result:
  "check_signature C q raw s = (Inr x, s') \<Longrightarrow> \<exists>now. signed_by C q raw now \<and> (cb_signing_secret C = [] \<or> now = fst (cb_clock C (ls_world s)))"
  by (auto simp: check_signature_def signed_by_def sbind_Inr ret_def http_def raise_def http_unless_def lift_res_def compare_digest_def
      cb_now_def split: if_splits prod.splits)

lemma check_token_result:
  "check_token C body s = (Inr x, s') \<Longrightarrow> callback_token body = Some (cb_verification_token C) \<and> cb_verification_token C \<noteq> []"
  by (auto simp: check_token_def sbind_Inr ret_def http_def raise_def http_unless_def lift_res_def compare_digest_def split: if_splits option.splits)

lemma parse_body_result: "parse_body C raw s = (Inr body, s') \<Longrightarrow> cb_loads C raw = Some (JObj body)"
  by (auto simp: parse_body_def ret_def http_def raise_def split: option.splits json.splits)

lemma record_action_result:
  assumes "record_action C event_id actor (action, ph, ch) s = (r, s')"
  shows "\<exists>now y. record_callback (cb_hash C) event_id action actor ph ch now (ls_store s) = (y, ls_store s')
    \<and> (\<forall>d. recorded r = Some d \<longrightarrow> y = Inr d)"
proof -
  obtain now w where now: "cb_clock C (ls_world s) = (now, w)" by fastforce
  obtain y db where y: "record_callback (cb_hash C) event_id action actor ph ch now (ls_store s) = (y, db)" by fastforce
  have "ls_store s' = db \<and> (\<forall>d. recorded r = Some d \<longrightarrow> y = Inr d)"
    using assms now y
    by (auto simp: record_action_def on_error_def sbind_def cb_now_def in_store_def ret_def raise_def http_def split: sum.splits pyerr.splits)
  then show ?thesis using y by blast
qed

text \<open>A timestamp that is a digit for \<open>isdigit\<close> but not for \<open>int\<close> is refused by an exception the endpoint does not
  handle, not by its answer 401.\<close>

lemma superscript_timestamp_uncaught:
  assumes "cb_signing_secret C \<noteq> []" and "rq_timestamp q = [char_of (178 :: nat)]" and "rq_nonce q \<noteq> []" and "rq_signature q \<noteq> []"
    and "rq_chunks q = []"
  shows "fst (callback C q s) = Inl (ValueError ''invalid literal for int()'')"
proof -
  have "isdigit [char_of (178 :: nat)]" "\<not> list_all decimal_digit [char_of (178 :: nat)]" by code_simp+
  then show ?thesis
    using assms by (simp add: callback_def check_signature_def sbind_def cb_now_def lift_res_def int_of_text_def ret_def split: prod.splits)
qed

section \<open>Authority\<close>

text \<open>The button of a body: the event, who pressed it, and the three texts of the card.\<close>

definition pressed :: "'w callback_app \<Rightarrow> (string \<times> json) list \<Rightarrow> string \<Rightarrow> string \<Rightarrow> string \<times> string \<times> string \<Rightarrow> bool" where
  "pressed C body event_id actor v \<longleftrightarrow> \<not> is_challenge body \<and> callback_token body = Some (cb_verification_token C)
     \<and> cb_verification_token C \<noteq> [] \<and> actor \<in> set (cb_approvers C)
     \<and> (cb_app_id C = [] \<or> sub_field (map_of body ''header'') ''app_id'' = Some (JStr (cb_app_id C)))
     \<and> sub_field (map_of body ''header'') ''event_id'' = Some (JStr event_id)
     \<and> (\<exists>event. map_of body ''event'' = Some (JObj event) \<and> sub_field (map_of event ''operator'') ''open_id'' = Some (JStr actor)
          \<and> Option.bind (as_dict (sub_field (map_of event ''action'') ''value'')) card_value = Some v)"

lemma as_Some: "as_text v = Some t \<longleftrightarrow> v = Some (JStr t)" "as_dict v = Some kvs \<longleftrightarrow> v = Some (JObj kvs)"
  by (cases v rule: as_text.cases; simp) (cases v rule: as_dict.cases; simp)

lemma handle_event_acts:
  assumes "handle_event C body event_id s = (r, s')" and "acted s r s'"
  obtains event actor v where "map_of body ''event'' = Some (JObj event)" and "sub_field (map_of event ''operator'') ''open_id'' = Some (JStr actor)"
    and "actor \<in> set (cb_approvers C)" and "Option.bind (as_dict (sub_field (map_of event ''action'') ''value'')) card_value = Some v"
    and "record_action C event_id actor v s = (r, s')"
  using assms by (auto simp: handle_event_def as_Some split: option.splits if_splits)

lemma handle_body_acts:
  assumes "handle_body C body s = (r, s')" and "acted s r s'"
  obtains event_id actor v t where "pressed C body event_id actor v" and "ls_store t = ls_store s" and "record_action C event_id actor v t = (r, s')"
proof -
  have ne: "map_of body ''encrypt'' = None" using assms by (auto simp: handle_body_def split: if_splits)
  from acted_bind [OF same_checks(3) assms(1) [unfolded handle_body_def ne, simplified] assms(2)] obtain x t where
    tok: "check_token C body s = (Inr x, t)" and st: "ls_store t = ls_store s" and act: "acted t r s'"
    and run: "(if is_challenge body then case as_text (map_of body ''challenge'') of None \<Rightarrow> http 400 ''invalid challenge'' | Some c \<Rightarrow> ret (Challenge c)
        else let header = map_of body ''header'' in
          case as_text (sub_field header ''event_id'') of None \<Rightarrow> http 400 ''invalid callback envelope''
          | Some event_id \<Rightarrow>
              if map_of body ''schema'' \<noteq> Some (JStr ''2.0'') \<or> sub_field header ''event_type'' \<noteq> Some (JStr ''card.action.trigger'')
              then http 400 ''invalid callback envelope''
              else if cb_app_id C \<noteq> [] \<and> sub_field header ''app_id'' \<noteq> Some (JStr (cb_app_id C)) then http 403 ''callback app denied''
              else handle_event C body event_id) t = (r, s')" by auto
  have nc: "\<not> is_challenge body"
    using run act by (auto simp: ret_def acted_def split: option.splits if_splits dest: acted_http)
  then obtain event_id where id: "sub_field (map_of body ''header'') ''event_id'' = Some (JStr event_id)"
    and app: "cb_app_id C = [] \<or> sub_field (map_of body ''header'') ''app_id'' = Some (JStr (cb_app_id C))"
    and ev: "handle_event C body event_id t = (r, s')"
    using run act by (auto simp: Let_def as_Some split: option.splits if_splits)
  obtain event actor v where "map_of body ''event'' = Some (JObj event)" "sub_field (map_of event ''operator'') ''open_id'' = Some (JStr actor)"
    "actor \<in> set (cb_approvers C)" "Option.bind (as_dict (sub_field (map_of event ''action'') ''value'')) card_value = Some v"
    "record_action C event_id actor v t = (r, s')" using handle_event_acts [OF ev act] .
  with that [of event_id actor v t] st id app nc check_token_result [OF tok] show ?thesis unfolding pressed_def by blast
qed


section \<open>A concrete request\<close>

text \<open>An approver presses the button of the sample proposal.\<close>

definition sample_body :: "(string \<times> json) list" where
  "sample_body =
     [(''schema'', JStr ''2.0''),
      (''header'', JObj [(''token'', JStr ''tok''), (''event_type'', JStr ''card.action.trigger''), (''event_id'', JStr ''event-1''),
                         (''app_id'', JStr ''app'')]),
      (''event'', JObj [(''operator'', JObj [(''open_id'', JStr ''alice'')]),
                        (''action'', JObj [(''value'', JObj [(''action'', JStr ''APPROVE''), (''proposal_hash'', JStr hash_a), (''case_hash'', JStr hash_a)])])])]"

definition sample_app :: "unit callback_app" where
  "sample_app =
     \<lparr>cb_hash = const_hash, cb_sha256 = (\<lambda>_. ''sig''), cb_loads = (\<lambda>_. Some (JObj sample_body)), cb_clock = (\<lambda>w. (1000, w)),
      cb_verification_token = ''tok'', cb_signing_secret = ''secret'', cb_approvers = [''alice''], cb_app_id = ''app''\<rparr>"

definition sample_request :: callback_request where
  "sample_request = \<lparr>rq_chunks = [''body''], rq_timestamp = ''1'', rq_nonce = ''n'', rq_signature = ''sig''\<rparr>"

lemma sample_app_fields [simp]:
  "cb_hash sample_app = const_hash" "cb_sha256 sample_app t = ''sig''" "cb_loads sample_app t = Some (JObj sample_body)"
  "cb_clock sample_app w = (1000, w)" "cb_verification_token sample_app = ''tok''" "cb_signing_secret sample_app = ''secret''"
  "cb_approvers sample_app = [''alice'']" "cb_app_id sample_app = ''app''"
  by (simp_all add: sample_app_def)

lemma sample_body_fields:
  "map_of sample_body ''type'' = None" "map_of sample_body ''encrypt'' = None" "map_of sample_body ''schema'' = Some (JStr ''2.0'')"
  "sub_field (map_of sample_body ''header'') ''token'' = Some (JStr ''tok'')"
  "sub_field (map_of sample_body ''header'') ''event_type'' = Some (JStr ''card.action.trigger'')"
  "sub_field (map_of sample_body ''header'') ''event_id'' = Some (JStr ''event-1'')"
  "sub_field (map_of sample_body ''header'') ''app_id'' = Some (JStr ''app'')"
  by (simp_all add: sample_body_def sub_field_def)

lemma sample_signature: "check_signature sample_app sample_request raw s = (Inr (), s)"
proof -
  have "isdigit ''1''" "int_of_text ''1'' = Inr 1" "compare_digest ''sig'' ''sig'' = Inr True" by code_simp+
  then show ?thesis
    by (simp add: check_signature_def sample_request_def sbind_def cb_now_def lift_res_def http_unless_def ret_def)
qed

lemma sample_button:
  "handle_event sample_app sample_body e s = record_action sample_app e ''alice'' (''APPROVE'', hash_a, hash_a) s"
  by (simp add: handle_event_def sub_field_def sample_body_def card_value_def card_fields_def)

lemma sample_handled: "handle_body sample_app sample_body s = record_action sample_app ''event-1'' ''alice'' (''APPROVE'', hash_a, hash_a) s"
proof -
  have "compare_digest ''tok'' ''tok'' = Inr True" by code_simp
  then have "check_token sample_app sample_body s = (Inr (), s)"
    by (simp add: check_token_def callback_token_def is_challenge_def sample_body_fields sbind_def lift_res_def http_unless_def ret_def)
  then show ?thesis
    by (simp add: handle_body_def sbind_def is_challenge_def sample_body_fields sample_button)
qed

lemma sample_press:
  "callback sample_app sample_request \<lparr>ls_store = sample_waiting, ls_world = ()\<rparr> = (Inr (Recorded APPROVED False), \<lparr>ls_store = sample_approved, ls_world = ()\<rparr>)"
proof -
  have "parse_body sample_app raw s = (Inr sample_body, s)" for raw s by (simp add: parse_body_def ret_def)
  moreover have "read_chunks 0 [] (rq_chunks sample_request) s = (Inr ''body'', s)" for s :: "unit service_state"
    by (simp add: sample_request_def ret_def)
  ultimately show ?thesis
    by (simp add: callback_def sbind_def sample_signature sample_handled record_action_def on_error_def cb_now_def in_store_def sample_callback ret_def)
qed


end
