(* ===== verification/Account_Watch.thy ===== *)
theory Account_Watch
  imports Actions Json_Values "HOL-Library.AList"
begin

text \<open>
  The account watch (\<open>account_watch/service.py\<close>, class \<open>AccountWatch\<close>): snapshots of the account from signed REST
  reads, events of the user stream applied on top of them, and the loss of the stream. A REST read is
  in flight while other threads apply events, so it is three actions here: \<open>rest_begin\<close> notes the generation of the state,
  \<open>rest_read\<close> asks the exchange and builds a snapshot, \<open>rest_commit\<close> stores it under the lock. Between
  them any other operation may run; each of the others runs under the lock and is one action.

  The signed client is the one of the theory \<open>Signed_Client\<close>; its transport and clock, and the parser of
  messages, are parameters. The loops that own the web socket and the listen key are not modelled, what they do
  with a connection and with a message is.
\<close>

section \<open>State\<close>

record 'w watch_config =
  wc_hash :: hasher
  wc_clock :: "'w \<Rightarrow> int \<times> 'w"
  wc_environment :: string
  wc_account_id :: string
  wc_signed_client :: "'w signed_exchange option"
  wc_repr :: "json \<Rightarrow> string"
  wc_loads :: "string \<Rightarrow> json option"

record simulated_account =
  sim_equity :: flt
  sim_available :: flt
  sim_wallet :: flt
  sim_margin :: flt
  sim_daily_loss :: flt
  sim_drawdown :: flt
  sim_positions :: "position list"
  sim_orders :: "account_order list"

record 'w watch_state =
  wt_stream_connected :: bool
  wt_reconciled :: bool
  wt_conflict_count :: int
  wt_last_rest_at_ms :: int
  wt_peak_equity_usdt :: flt
  wt_simulated :: simulated_account
  wt_latest_snapshot :: "account_snapshot option"
  wt_last_user_event_ms :: int
  wt_user_event_sources :: "(string \<times> (int \<times> string)) list"
  wt_state_generation :: int
  wt_db :: exec_db
  wt_world :: 'w

type_synonym ('w, 'a) wact = "('w watch_state, 'a) dbop"

definition ask :: "('w \<Rightarrow> 'a res \<times> 'w) \<Rightarrow> ('w, 'a) wact" where
  "ask f s = (case f (wt_world s) of (r, w') \<Rightarrow> (r, s\<lparr>wt_world := w'\<rparr>))"

definition change :: "('w watch_state \<Rightarrow> 'w watch_state) \<Rightarrow> ('w, unit) wact" where
  "change f s = (Inr (), f s)"

definition watch_now :: "'w watch_config \<Rightarrow> int option \<Rightarrow> ('w, int) wact" where
  "watch_now C now_ms = (case now_ms of Some t \<Rightarrow> ret t | None \<Rightarrow> ask (\<lambda>w. case wc_clock C w of (t, w') \<Rightarrow> (Inr t, w')))"

text \<open>\<open>AccountSnapshotV1.build\<close>.\<close>

definition build_snapshot :: "'w watch_config \<Rightarrow> account_snapshot \<Rightarrow> ('w, account_snapshot) wact" where
  "build_snapshot C a = lift_res (snapshot_validate (wc_hash C) True (a\<lparr>as_snapshot_hash := []\<rparr>))"

text \<open>\<open>store.save\<close>, then the snapshot becomes the latest one.\<close>

definition save_latest :: "'w watch_config \<Rightarrow> account_snapshot \<Rightarrow> string \<Rightarrow> ('w, unit) wact" where
  "save_latest C a event_type s =
     (case account_save (wc_hash C) a event_type (wt_db s) of
        (Inl e, db) \<Rightarrow> (Inl e, s\<lparr>wt_db := db\<rparr>)
      | (Inr _, db) \<Rightarrow> (Inr (), s\<lparr>wt_db := db, wt_latest_snapshot := Some a\<rparr>))"

definition default_simulation :: simulated_account where
  "default_simulation =
     \<lparr>sim_equity = Fin 1000, sim_available = Fin 1000, sim_wallet = Fin 1000, sim_margin = Fin 0, sim_daily_loss = Fin 0,
      sim_drawdown = Fin 0, sim_positions = [], sim_orders = []\<rparr>"

section \<open>Loss of the stream\<close>

definition mark_stream_disconnected :: "'w watch_config \<Rightarrow> int option \<Rightarrow> ('w, unit) wact" where
  "mark_stream_disconnected C now_ms =
     sbind (watch_now C now_ms) (\<lambda>now.
     sbind (change (\<lambda>s. s\<lparr>wt_state_generation := wt_state_generation s + 1, wt_stream_connected := False, wt_reconciled := False\<rparr>)) (\<lambda>_.
     with_state (\<lambda>s.
       case wt_latest_snapshot s of
         None \<Rightarrow> ret ()
       | Some a \<Rightarrow>
           sbind (build_snapshot C (a\<lparr>as_observed_at_ms := now, as_stream_connected := False, as_reconciled := False,
                    as_conflict_count := wt_conflict_count s, as_quality := ''STALE''\<rparr>)) (\<lambda>b.
           save_latest C b ''WS_DISCONNECTED''))))"

section \<open>Construction\<close>

text \<open>The authority a testnet watch demands of its signed client.\<close>

definition watch_authority_ok :: "'w signed_exchange option \<Rightarrow> bool" where
  "watch_authority_ok x \<longleftrightarrow>
     (case x of
        None \<Rightarrow> False
      | Some X \<Rightarrow>
          (let a = authority (sx_client X)
           in ca_environment a = ''TESTNET'' \<and> ca_credential_namespace a = ''BINANCE_TESTNET''
              \<and> py_lower (rstrip (CHR ''/'') (ca_rest_base_url a)) = testnet_url))"

definition watch_environment :: "string \<Rightarrow> 'w signed_exchange option \<Rightarrow> string res" where
  "watch_environment mode client =
     (if py_lower mode = ''testnet'' then
        (if client = None then Inl (ExecutionBlocked ''TESTNET mode requires a signed_client'')
         else if \<not> watch_authority_ok client then Inl (ExecutionBlocked ''AccountWatch signed client authority mismatch for TESTNET'')
         else Inr ''TESTNET'')
      else Inr ''DRY_RUN'')"

definition fresh_watch :: "exec_db \<Rightarrow> 'w \<Rightarrow> 'w watch_state" where
  "fresh_watch db w =
     \<lparr>wt_stream_connected = False, wt_reconciled = False, wt_conflict_count = 0, wt_last_rest_at_ms = 0, wt_peak_equity_usdt = Fin 1000,
      wt_simulated = default_simulation, wt_latest_snapshot = None, wt_last_user_event_ms = 0, wt_user_event_sources = [],
      wt_state_generation = 0, wt_db = db, wt_world = w\<rparr>"

definition restore_watch :: "'w watch_config \<Rightarrow> ('w, unit) wact" where
  "restore_watch C =
     with_state (\<lambda>s. sbind (lift_res (account_latest (wc_hash C) (wt_db s) (wc_account_id C))) (\<lambda>found.
       case found of
         None \<Rightarrow> ret ()
       | Some a \<Rightarrow>
           sbind (change (\<lambda>s. s\<lparr>wt_latest_snapshot := Some a, wt_peak_equity_usdt := as_peak_equity_usdt a,
                    wt_conflict_count := as_conflict_count a, wt_last_rest_at_ms := as_last_rest_at_ms a\<rparr>)) (\<lambda>_.
           if as_environment a = ''TESTNET'' \<and> (as_reconciled a \<or> as_stream_connected a)
           then sbind (watch_now C None) (\<lambda>t. mark_stream_disconnected C (Some t)) else ret ())))"

definition set_simulated_state :: "simulated_account \<Rightarrow> ('w, unit) wact" where
  "set_simulated_state a = change (\<lambda>s. s\<lparr>wt_simulated := a\<rparr>)"

section \<open>REST reconciliation\<close>

definition realized_pnl :: "'w signed_exchange \<Rightarrow> int \<Rightarrow> 'w \<Rightarrow> flt res \<times> 'w" where
  "realized_pnl X start w =
     (case signed_request X ''GET'' ''/fapi/v1/income'' [(''incomeType'', JStr ''REALIZED_PNL''), (''startTime'', JInt start), (''limit'', JInt 1000)] w of
        (Inl e, w') \<Rightarrow> (Inl e, w')
      | (Inr rows, w') \<Rightarrow>
          (bindR (iterate rows) (\<lambda>items. bindR (map_res (\<lambda>item. float_at item ''income'' (JFloat (Fin 0))) items) (\<lambda>xs. Inr (py_sum xs))), w'))"

definition positive_or_none :: "flt \<Rightarrow> flt option" where
  "positive_or_none x = (if 0 < x then Some x else None)"

abbreviation jzero :: json where
  "jzero \<equiv> JFloat (Fin 0)"

text \<open>One row of the positions: \<open>None\<close> for a flat one.\<close>

definition parse_position :: "'w watch_config \<Rightarrow> int \<Rightarrow> json \<Rightarrow> position option res" where
  "parse_position C now p =
     bindR (get_attr p ''positionSide'' (JStr ''BOTH'')) (\<lambda>side.
     if json_str (wc_repr C) side \<noteq> ''BOTH'' then Inl (ValueError ''UNSUPPORTED_HEDGE_POSITION_AUTHORITY'')
     else bindR (float_at p ''positionAmt'' jzero) (\<lambda>qty.
       if \<not> 0 < \<bar>qty\<bar> then Inr None
       else bindR (float_at p ''entryPrice'' jzero) (\<lambda>entry.
            bindR (float_at p ''markPrice'' (JFloat entry)) (\<lambda>mark.
            bindR (float_at p ''liquidationPrice'' jzero) (\<lambda>liq.
            bindR (item_of p ''symbol'') (\<lambda>symb.
            bindR (float_at p ''unRealizedProfit'' jzero) (\<lambda>upnl.
            bindR (bindR (get_attr p ''leverage'' (JInt 1)) json_int) (\<lambda>lev.
            bindR (get_attr p ''marginType'' (JStr ''ISOLATED'')) (\<lambda>mt.
            (let q = \<lparr>po_symbol = json_str (wc_repr C) symb, po_quantity = qty, po_entry_price = entry, po_mark_price = mark,
                      po_unrealized_pnl_usdt = upnl, po_leverage = max 1 lev, po_liquidation_price = positive_or_none liq,
                      po_margin_type = json_str (wc_repr C) mt, po_observed_at_ms = now\<rparr>
             in if position_ok q then Inr (Some q) else Inl (ValueError ''validation error'')))))))))))"

definition parse_order :: "'w watch_config \<Rightarrow> int \<Rightarrow> json \<Rightarrow> account_order res" where
  "parse_order C now r =
     bindR (float_at r ''origQty'' jzero) (\<lambda>qty.
     bindR (float_at r ''executedQty'' jzero) (\<lambda>filled.
     bindR (float_at r ''price'' jzero) (\<lambda>price.
     bindR (float_at r ''avgPrice'' jzero) (\<lambda>avg.
     bindR (float_at r ''stopPrice'' jzero) (\<lambda>stop.
     bindR (item_of r ''symbol'') (\<lambda>symb.
     bindR (item_of r ''orderId'') (\<lambda>oid.
     (let str = json_str (wc_repr C);
          status = str (get_or r ''status'' (JStr ''NEW''));
          q = \<lparr>ao_symbol = str symb, ao_order_id = str oid, ao_client_order_id = str (get_or r ''clientOrderId'' (JStr [])),
               ao_side = (if py_upper (str (get_or r ''side'' (JStr ''BUY''))) = ''SELL'' then ''SELL'' else ''BUY''),
               ao_status = (if status \<in> set order_statuses then status else ''NEW''),
               ao_order_type = str (get_or r ''type'' (JStr ''LIMIT'')), ao_quantity = qty, ao_filled_quantity = filled,
               ao_price = price, ao_average_price = avg, ao_reduce_only = truthy (get_or r ''reduceOnly'' (JBool False)),
               ao_stop_price = positive_or_none stop, ao_observed_at_ms = now\<rparr>
      in if account_order_ok q then Inr q else Inl (ValueError ''validation error'')))))))))"

definition drawdown_of :: "flt \<Rightarrow> flt \<Rightarrow> flt" where
  "drawdown_of peak equity = (if 0 < peak then pymax (Fin 0) (quot (peak - equity) peak) else Fin 0)"

text \<open>The fields both environments share.\<close>

definition rest_snapshot :: "'w watch_config \<Rightarrow> 'w watch_state \<Rightarrow> int \<Rightarrow> flt \<Rightarrow> flt \<Rightarrow> flt \<Rightarrow> flt \<Rightarrow> flt \<Rightarrow> flt \<Rightarrow> position list \<Rightarrow> account_order list
    \<Rightarrow> account_snapshot" where
  "rest_snapshot C s now equity available wallet margin daily_loss drawdown ps os =
     \<lparr>as_snapshot_hash = [], as_account_id = wc_account_id C, as_environment = wc_environment C,
      as_credential_namespace = (if wc_environment C = ''TESTNET'' then ''BINANCE_TESTNET'' else ''NONE''),
      as_rest_base_url = (if wc_environment C = ''TESTNET'' then testnet_url else ''local://paper''),
      as_observed_at_ms = now, as_last_rest_at_ms = now, as_stream_connected = wt_stream_connected s, as_reconciled = wt_reconciled s,
      as_conflict_count = wt_conflict_count s, as_equity_usdt = equity, as_available_balance_usdt = available, as_wallet_balance_usdt = wallet,
      as_margin_used_usdt = margin, as_daily_loss_usdt = daily_loss, as_drawdown_pct = pymin (Fin 1) drawdown,
      as_peak_equity_usdt = wt_peak_equity_usdt s, as_positions = ps, as_orders = os, as_quality = ''OK''\<rparr>"

definition raise_peak :: "flt \<Rightarrow> ('w, flt) wact" where
  "raise_peak equity s =
     (let peak = pymax (wt_peak_equity_usdt s) equity in (Inr (drawdown_of peak equity), s\<lparr>wt_peak_equity_usdt := peak\<rparr>))"

definition mark_reconciled :: "int \<Rightarrow> ('w, unit) wact" where
  "mark_reconciled now = change (\<lambda>s. s\<lparr>wt_last_rest_at_ms := now, wt_reconciled := True\<rparr>)"

definition read_testnet :: "'w watch_config \<Rightarrow> 'w signed_exchange \<Rightarrow> int \<Rightarrow> ('w, account_snapshot) wact" where
  "read_testnet C X now =
     sbind (ask (account_information X)) (\<lambda>info.
     sbind (ask (balances X)) (\<lambda>_.
     sbind (ask (positions X None)) (\<lambda>raw_positions.
     sbind (ask (open_orders X None)) (\<lambda>raw_orders.
     sbind (ask (realized_pnl X (now - now mod 86400000))) (\<lambda>pnl.
     sbind (lift_res (float_at info ''totalWalletBalance'' jzero)) (\<lambda>wallet.
     sbind (lift_res (float_at info ''totalMarginBalance'' (JFloat wallet))) (\<lambda>equity.
     sbind (lift_res (float_at info ''availableBalance'' jzero)) (\<lambda>available.
     sbind (lift_res (float_at info ''totalInitialMargin'' jzero)) (\<lambda>margin.
     sbind (raise_peak equity) (\<lambda>drawdown.
     sbind (lift_res (map_res (parse_position C now) raw_positions)) (\<lambda>ps.
     sbind (lift_res (bindR (iterate raw_orders) (map_res (parse_order C now)))) (\<lambda>os.
     sbind (mark_reconciled now) (\<lambda>_.
     with_state (\<lambda>s. build_snapshot C (rest_snapshot C s now equity available wallet margin \<bar>pymin (Fin 0) pnl\<bar> drawdown
                         (List.map_filter id ps) os)))))))))))))))"

definition read_dry :: "'w watch_config \<Rightarrow> int \<Rightarrow> ('w, account_snapshot) wact" where
  "read_dry C now =
     sbind (mark_reconciled now) (\<lambda>_.
     with_state (\<lambda>s. sbind (raise_peak (sim_equity (wt_simulated s))) (\<lambda>drawdown.
     with_state (\<lambda>s. let m = wt_simulated s in
       build_snapshot C (rest_snapshot C s now (sim_equity m) (sim_available m) (sim_wallet m) (sim_margin m) (sim_daily_loss m) drawdown
         (sim_positions m) (sim_orders m))))))"

definition rest_begin :: "'w watch_config \<Rightarrow> int option \<Rightarrow> ('w, int \<times> int) wact" where
  "rest_begin C now_ms = with_state (\<lambda>s. sbind (watch_now C now_ms) (\<lambda>now. ret (wt_state_generation s, now)))"

definition rest_read :: "'w watch_config \<Rightarrow> int \<Rightarrow> ('w, account_snapshot) wact" where
  "rest_read C now =
     (if wc_environment C = ''TESTNET'' then
        (case wc_signed_client C of
           None \<Rightarrow> raise (RuntimeError ''signed client required for TESTNET account reconciliation'')
         | Some X \<Rightarrow> read_testnet C X now)
      else read_dry C now)"

text \<open>A read during which the state moved on is not trusted: the latest snapshot stays, as a conflict.\<close>

definition rest_commit :: "'w watch_config \<Rightarrow> int \<Rightarrow> int \<Rightarrow> account_snapshot \<Rightarrow> ('w, account_snapshot) wact" where
  "rest_commit C generation now a =
     sbind (with_state (\<lambda>s.
       case wt_latest_snapshot s of
         Some latest \<Rightarrow>
           if wt_state_generation s \<noteq> generation then
             sbind (change (\<lambda>s. s\<lparr>wt_conflict_count := wt_conflict_count s + 1, wt_reconciled := False\<rparr>)) (\<lambda>_.
             with_state (\<lambda>s. build_snapshot C (latest\<lparr>as_reconciled := False,
               as_quality := (if as_quality latest = ''STALE'' then ''STALE'' else ''CONFLICT''), as_conflict_count := wt_conflict_count s,
               as_observed_at_ms := max (as_observed_at_ms latest) now, as_last_rest_at_ms := max (as_last_rest_at_ms latest) now\<rparr>)))
           else ret a
       | None \<Rightarrow> ret a)) (\<lambda>b.
     sbind (save_latest C b ''REST_RECONCILED'') (\<lambda>_. ret b))"

definition reconcile_rest :: "'w watch_config \<Rightarrow> int option \<Rightarrow> ('w, account_snapshot) wact" where
  "reconcile_rest C now_ms =
     sbind (rest_begin C now_ms) (\<lambda>(generation, now).
     sbind (rest_read C now) (\<lambda>a. rest_commit C generation now a))"

definition latest_snapshot :: "'w watch_config \<Rightarrow> ('w, account_snapshot option) wact" where
  "latest_snapshot C =
     with_state (\<lambda>s.
       case wt_latest_snapshot s of
         Some a \<Rightarrow> ret (Some a)
       | None \<Rightarrow> lift_res (account_latest (wc_hash C) (wt_db s) (wc_account_id C)))"

section \<open>User events\<close>

definition str_int :: "'w watch_config \<Rightarrow> json \<Rightarrow> int res" where
  "str_int C v = (case int_text (json_str (wc_repr C) v) of None \<Rightarrow> Inl (ValueError ''invalid literal for int()'') | Some n \<Rightarrow> Inr n)"

definition event_times :: "'w watch_config \<Rightarrow> json \<Rightarrow> (int \<times> int) res" where
  "event_times C payload =
     bindR (item_of payload ''E'') (\<lambda>e. bindR (str_int C e) (\<lambda>event_ms.
     bindR (str_int C (get_or payload ''T'' (JInt event_ms))) (\<lambda>tx_ms. Inr (event_ms, tx_ms))))"

definition event_source :: "'w watch_config \<Rightarrow> string \<Rightarrow> json \<Rightarrow> string" where
  "event_source C event_type payload =
     event_type @ '':'' @
     (case dict_get payload ''o'' of
        Some ord \<Rightarrow> if is_dict ord then json_str (wc_repr C) (get_or ord ''i'' JNull) else ''ACCOUNT''
      | None \<Rightarrow> ''ACCOUNT'')"

text \<open>The balances and positions of an \<open>ACCOUNT_UPDATE\<close>; a dict by symbol is an association list in insertion order.\<close>

fun wallet_after :: "flt \<Rightarrow> json list \<Rightarrow> flt res" where
  "wallet_after wallet [] = Inr wallet"
| "wallet_after wallet (b # bs) =
     (if \<not> is_dict b then Inl (TypeError ''invalid balance row'')
      else if dict_get b ''a'' = Some (JStr ''USDT'') then bindR (bindR (item_of b ''wb'') py_float) (\<lambda>x. wallet_after x bs)
      else wallet_after wallet bs)"

definition updated_position :: "'w watch_config \<Rightarrow> int \<Rightarrow> position option \<Rightarrow> string \<Rightarrow> flt \<Rightarrow> json \<Rightarrow> position res" where
  "updated_position C event_ms old symb qty item =
     bindR (float_at item ''ep'' (case old of Some p \<Rightarrow> JFloat (po_entry_price p) | None \<Rightarrow> JInt 0)) (\<lambda>entry.
     bindR (float_at item ''up'' (case old of Some p \<Rightarrow> JFloat (po_unrealized_pnl_usdt p) | None \<Rightarrow> JInt 0)) (\<lambda>upnl.
     (let mt = get_or item ''mt'' (JStr (case old of Some p \<Rightarrow> po_margin_type p | None \<Rightarrow> ''ISOLATED''));
          q = \<lparr>po_symbol = symb, po_quantity = qty, po_entry_price = entry,
               po_mark_price = (case old of Some p \<Rightarrow> po_mark_price p | None \<Rightarrow> entry), po_unrealized_pnl_usdt = upnl,
               po_leverage = (case old of Some p \<Rightarrow> po_leverage p | None \<Rightarrow> 1),
               po_liquidation_price = (case old of Some p \<Rightarrow> po_liquidation_price p | None \<Rightarrow> None),
               po_margin_type = py_upper (json_str (wc_repr C) mt), po_observed_at_ms = event_ms\<rparr>
      in if position_ok q then Inr q else Inl (ValueError ''validation error''))))"

fun positions_after :: "'w watch_config \<Rightarrow> int \<Rightarrow> (string \<times> position) list \<Rightarrow> json list \<Rightarrow> (string \<times> position) list res" where
  "positions_after C event_ms current [] = Inr current"
| "positions_after C event_ms current (item # items) =
     (if \<not> is_dict item then Inl (TypeError ''invalid position row'')
      else bindR (item_of item ''s'') (\<lambda>sv. bindR (bindR (item_of item ''pa'') py_float) (\<lambda>qty.
        let symb = json_str (wc_repr C) sv
        in if feq qty 0 then positions_after C event_ms (AList.delete symb current) items
           else bindR (updated_position C event_ms (map_of current symb) symb qty item) (\<lambda>q.
             positions_after C event_ms (AList.update symb q current) items))))"

definition by_key :: "('a \<Rightarrow> string) \<Rightarrow> 'a list \<Rightarrow> (string \<times> 'a) list" where
  "by_key k xs = foldl (\<lambda>d x. AList.update (k x) x d) [] xs"

definition as_rows :: "json \<Rightarrow> json list option" where
  "as_rows v = (case v of JArr xs \<Rightarrow> Some xs | _ \<Rightarrow> None)"

definition apply_account_update :: "'w watch_config \<Rightarrow> int \<Rightarrow> json \<Rightarrow> account_snapshot \<Rightarrow> account_snapshot res" where
  "apply_account_update C event_ms payload a =
     bindR (item_of payload ''a'') (\<lambda>acc.
     if \<not> is_dict acc then Inl (ValueError ''invalid account update'')
     else (case (as_rows (get_or acc ''B'' (JArr [])), as_rows (get_or acc ''P'' (JArr []))) of
        (Some bs, Some ps) \<Rightarrow>
          bindR (wallet_after (as_wallet_balance_usdt a) bs) (\<lambda>wallet.
          bindR (positions_after C event_ms (by_key po_symbol (as_positions a)) ps) (\<lambda>current.
          (let new = sort_key po_symbol (map snd current)
           in Inr (a\<lparr>as_wallet_balance_usdt := wallet,
                     as_equity_usdt := pymax (Fin 0) (wallet + py_sum (map po_unrealized_pnl_usdt new)), as_positions := new\<rparr>))))
      | _ \<Rightarrow> Inl (ValueError ''invalid account update rows'')))"

definition updated_order :: "'w watch_config \<Rightarrow> int \<Rightarrow> account_order option \<Rightarrow> string \<Rightarrow> string \<Rightarrow> json \<Rightarrow> account_order res" where
  "updated_order C event_ms old oid status ord =
     (let str = json_str (wc_repr C)
      in bindR (item_of ord ''q'') (\<lambda>qv. bindR (py_float qv) (\<lambda>quantity.
         bindR (item_of ord ''z'') (\<lambda>zv. bindR (py_float zv) (\<lambda>filled.
         bindR (item_of ord ''s'') (\<lambda>symb. bindR (item_of ord ''S'') (\<lambda>side.
         bindR (float_at ord ''p'' (case old of Some r \<Rightarrow> JFloat (ao_price r) | None \<Rightarrow> JInt 0)) (\<lambda>price.
         bindR (float_at ord ''ap'' (case old of Some r \<Rightarrow> JFloat (ao_average_price r) | None \<Rightarrow> JInt 0)) (\<lambda>avg.
         bindR (float_at ord ''sp'' (JInt 0)) (\<lambda>stop.
         (let r = \<lparr>ao_symbol = str symb, ao_order_id = oid, ao_client_order_id = str (get_or ord ''c'' (JStr [])),
                   ao_side = (if py_upper (str side) = ''SELL'' then ''SELL'' else ''BUY''), ao_status = status,
                   ao_order_type = str (get_or ord ''o'' (JStr ''UNKNOWN'')), ao_quantity = quantity, ao_filled_quantity = filled,
                   ao_price = price, ao_average_price = avg, ao_reduce_only = truthy (get_or ord ''R'' (JBool False)),
                   ao_stop_price = positive_or_none stop, ao_observed_at_ms = event_ms\<rparr>
          in if account_order_ok r then Inr r else Inl (ValueError ''validation error''))))))))))))"

definition apply_order_update :: "'w watch_config \<Rightarrow> int \<Rightarrow> json \<Rightarrow> account_snapshot \<Rightarrow> account_snapshot res" where
  "apply_order_update C event_ms payload a =
     bindR (item_of payload ''o'') (\<lambda>ord.
     if \<not> is_dict ord then Inl (ValueError ''invalid order update'')
     else bindR (item_of ord ''X'') (\<lambda>x.
       let raw = json_str (wc_repr C) x; status = (if raw = ''EXPIRED_IN_MATCH'' then ''EXPIRED'' else raw)
       in if status \<notin> set order_statuses then Inl (ValueError ''unsupported order status'')
          else bindR (item_of ord ''i'') (\<lambda>iv.
            let oid = json_str (wc_repr C) iv; old = by_key ao_order_id (as_orders a)
            in bindR (updated_order C event_ms (map_of old oid) oid status ord) (\<lambda>r.
               Inr (a\<lparr>as_orders := sort_key ao_order_id (map snd (AList.update oid r old))\<rparr>)))))"

definition apply_event :: "'w watch_config \<Rightarrow> string \<Rightarrow> int \<Rightarrow> json \<Rightarrow> account_snapshot \<Rightarrow> account_snapshot res" where
  "apply_event C event_type event_ms payload a =
     (let values = a\<lparr>as_observed_at_ms := max (as_observed_at_ms a) event_ms, as_stream_connected := True\<rparr>
      in bindR (if event_type = ''ACCOUNT_UPDATE'' then apply_account_update C event_ms payload values
                else apply_order_update C event_ms payload values) (\<lambda>b.
         snapshot_validate (wc_hash C) True (b\<lparr>as_snapshot_hash := []\<rparr>)))"

text \<open>\<open>except (KeyError, TypeError, ValueError, OverflowError)\<close>.\<close>

fun event_error :: "pyerr \<Rightarrow> bool" where
  "event_error (KeyError k) = True"
| "event_error (TypeError m) = True"
| "event_error (ValueError m) = True"
| "event_error OverflowError = True"
| "event_error _ = False"

definition drop_stream :: "'w watch_config \<Rightarrow> int \<Rightarrow> ('w, bool) wact" where
  "drop_stream C now = sbind (mark_stream_disconnected C (Some now)) (\<lambda>_. ret False)"

definition count_conflict :: "('w, unit) wact" where
  "count_conflict = change (\<lambda>s. s\<lparr>wt_conflict_count := wt_conflict_count s + 1\<rparr>)"

definition accept_event :: "'w watch_config \<Rightarrow> account_snapshot \<Rightarrow> string \<Rightarrow> int \<Rightarrow> string \<Rightarrow> ('w, bool) wact" where
  "accept_event C a source event_ms event_digest =
     sbind (save_latest C a ''WS_UPDATE'') (\<lambda>_.
     sbind (change (\<lambda>s. s\<lparr>wt_last_user_event_ms := max (wt_last_user_event_ms s) event_ms,
              wt_user_event_sources := AList.update source (event_ms, event_digest) (wt_user_event_sources s),
              wt_state_generation := wt_state_generation s + 1\<rparr>)) (\<lambda>_. ret True))"

definition event_out_of_order :: "'w watch_state \<Rightarrow> account_snapshot option \<Rightarrow> (int \<times> string) option \<Rightarrow> int \<Rightarrow> int \<Rightarrow> bool" where
  "event_out_of_order s snap prior event_ms tx_ms \<longleftrightarrow>
     \<not> wt_reconciled s
     \<or> (case snap of None \<Rightarrow> True | Some a \<Rightarrow> \<not> as_reconciled a \<or> event_ms < wt_last_user_event_ms s \<or> event_ms \<le> as_last_rest_at_ms a)
     \<or> (case prior of None \<Rightarrow> False | Some (t, d) \<Rightarrow> event_ms \<le> t) \<or> tx_ms < 0"

definition handle_known_event :: "'w watch_config \<Rightarrow> string \<Rightarrow> json \<Rightarrow> int \<Rightarrow> int \<Rightarrow> int \<Rightarrow> ('w, bool) wact" where
  "handle_known_event C event_type payload now event_ms tx_ms =
     sbind (latest_snapshot C) (\<lambda>snap.
     with_state (\<lambda>s.
       let source = event_source C event_type payload; event_digest = dumps payload; prior = map_of (wt_user_event_sources s) source
       in if prior = Some (event_ms, event_digest) then ret False
          else if event_out_of_order s snap prior event_ms tx_ms then sbind count_conflict (\<lambda>_. drop_stream C now)
          else (case snap of
                  None \<Rightarrow> drop_stream C now
                | Some a \<Rightarrow>
                    (case apply_event C event_type event_ms payload a of
                       Inl e \<Rightarrow> if event_error e then drop_stream C now else raise e
                     | Inr b \<Rightarrow> accept_event C b source event_ms event_digest))))"

definition handle_user_event :: "'w watch_config \<Rightarrow> json \<Rightarrow> int \<Rightarrow> ('w, bool) wact" where
  "handle_user_event C payload now =
     (if wc_environment C \<noteq> ''TESTNET'' \<or> \<not> is_dict payload then drop_stream C now
      else (case get_or payload ''e'' JNull of
          JArr xs \<Rightarrow> raise (TypeError ''unhashable type'')
        | JObj kvs \<Rightarrow> raise (TypeError ''unhashable type'')
        | JStr e \<Rightarrow>
            if e = ''listenKeyExpired'' then drop_stream C now
            else if e \<in> {''MARGIN_CALL'', ''ALGO_UPDATE''} then sbind count_conflict (\<lambda>_. drop_stream C now)
            else if e \<notin> {''ACCOUNT_UPDATE'', ''ORDER_TRADE_UPDATE''} then drop_stream C now
            else (case event_times C payload of
                    Inl err \<Rightarrow> if err = OverflowError then raise err else drop_stream C now
                  | Inr (event_ms, tx_ms) \<Rightarrow> handle_known_event C e payload now event_ms tx_ms)
        | _ \<Rightarrow> drop_stream C now))"

section \<open>The connection\<close>

text \<open>A REST repair over an open socket, and the messages that arrive on it.\<close>

definition show_connected :: "'w watch_config \<Rightarrow> ('w, unit) wact" where
  "show_connected C =
     sbind (change (\<lambda>s. s\<lparr>wt_stream_connected := True\<rparr>)) (\<lambda>_.
     with_state (\<lambda>s.
       case wt_latest_snapshot s of
         None \<Rightarrow> ret ()
       | Some a \<Rightarrow>
           sbind (build_snapshot C (a\<lparr>as_stream_connected := True\<rparr>)) (\<lambda>b.
           sbind (change (\<lambda>s. s\<lparr>wt_latest_snapshot := Some b\<rparr>)) (\<lambda>_. save_latest C b ''REST_RECONCILED''))))"

definition open_stream :: "'w watch_config \<Rightarrow> ('w, unit) wact" where
  "open_stream C =
     sbind (watch_now C None) (\<lambda>t.
     sbind (mark_stream_disconnected C (Some t)) (\<lambda>_.
     sbind (on_error (reconcile_rest C None)
              (\<lambda>e. if e = CancelledError then raise e else raise (RuntimeError ''account REST repair failed''))) (\<lambda>_.
     show_connected C)))"

text \<open>\<open>False\<close> for each \<open>break\<close>.\<close>

definition stream_message :: "'w watch_config \<Rightarrow> string \<Rightarrow> ('w, bool) wact" where
  "stream_message C message =
     on_error
       (case wc_loads C message of
          None \<Rightarrow> raise (ValueError ''JSONDecodeError'')
        | Some payload \<Rightarrow>
            if \<not> is_dict payload then ret True
            else sbind (watch_now C None) (\<lambda>t.
                 sbind (handle_user_event C payload t) (\<lambda>accepted.
                   if get_or payload ''e'' JNull = JStr ''listenKeyExpired'' then ret False
                   else with_state (\<lambda>s.
                     if \<not> accepted \<and> \<not> wt_reconciled s
                     then sbind (reconcile_rest C None) (\<lambda>_. sbind (show_connected C) (\<lambda>_. ret True))
                     else ret True))))
       (\<lambda>e. case e of
              ValueError m \<Rightarrow> sbind (watch_now C None) (\<lambda>t. drop_stream C t)
            | TypeError m \<Rightarrow> sbind (watch_now C None) (\<lambda>t. drop_stream C t)
            | _ \<Rightarrow> raise e)"

definition stop_watch :: "'w watch_config \<Rightarrow> ('w, unit) wact" where
  "stop_watch C = sbind (watch_now C None) (\<lambda>t. mark_stream_disconnected C (Some t))"

end
