(* ===== verification/Account_Watch_Safety.thy ===== *)
theory Account_Watch_Safety
  imports Account_Watch
begin

text \<open>
  When a snapshot of the account watch may be trusted. The operations of the watch run in any order, with at most one
  REST read in flight (the read lock), each of the others under the state lock: an inductive step relation with a label per
  step. The invariant, proved by rule induction over the runs, ties the flag \<open>reconciled\<close> of the latest snapshot to the
  labels of the run: it was raised by a read that no loss of the stream and no applied event overlapped, and no loss followed.
\<close>

section \<open>Building and saving a snapshot\<close>

abbreviation genuine :: "'w watch_config \<Rightarrow> account_snapshot \<Rightarrow> bool" where
  "genuine C a \<equiv> snapshot_verify (wc_hash C) a = Inr a"

definition account_rows :: "'w watch_config \<Rightarrow> 'w watch_state \<Rightarrow> snapshot_row list" where
  "account_rows C s = filter (\<lambda>r. sr_account_id r = wc_account_id C) (live_account_snapshots (wt_db s))"

lemma digest_ignores_hash [simp]: "snapshot_digest H (a\<lparr>as_snapshot_hash := h\<rparr>) = snapshot_digest H a"
  by (simp add: snapshot_digest_def snapshot_json_def)

lemma fields_ignore_hash [simp]: "snapshot_fields_ok (a\<lparr>as_snapshot_hash := h\<rparr>) = snapshot_fields_ok a"
  by (simp add: snapshot_fields_ok_def)

lemma validate_built:
  "snapshot_validate H True (a\<lparr>as_snapshot_hash := []\<rparr>) = Inr b \<longleftrightarrow>
     b = a\<lparr>as_snapshot_hash := snapshot_digest H a\<rparr> \<and> snapshot_verify H b = Inr b"
  by (auto simp: snapshot_verify_iff snapshot_validate_def split: if_splits)

lemma build_snapshot_result:
  "build_snapshot C a s = (r, s') \<longleftrightarrow> s' = s \<and> r = snapshot_validate (wc_hash C) True (a\<lparr>as_snapshot_hash := []\<rparr>)"
  by (auto simp: build_snapshot_def lift_res_def)

lemma build_snapshot_Inr:
  "build_snapshot C a s = (Inr b, s') \<longleftrightarrow> s' = s \<and> b = a\<lparr>as_snapshot_hash := snapshot_digest (wc_hash C) a\<rparr> \<and> genuine C b"
  using validate_built [of "wc_hash C" a b] by (auto simp: build_snapshot_result)

lemma save_latest_failed: "save_latest C a t s = (Inl e, s') \<Longrightarrow> s' = s"
  by (auto simp: save_latest_def account_save_def split: sum.splits if_splits)

lemma save_latest_ok:
  assumes "save_latest C a t s = (Inr (), s')"
  shows "\<exists>db. s' = s\<lparr>wt_db := db, wt_latest_snapshot := Some a\<rparr>"
  using assms by (auto simp: save_latest_def split: prod.splits sum.splits)

lemma save_latest_genuine:
  assumes "genuine C a" and "t \<in> set account_event_types"
  shows "\<exists>s'. save_latest C a t s = (Inr (), s')"
  using assms by (auto simp: save_latest_def account_save_def)

lemma account_latest_rows:
  "account_latest (wc_hash C) (wt_db s) (wc_account_id C) = Inr (Some a) \<Longrightarrow> genuine C a"
  "account_rows C s = [] \<Longrightarrow> account_latest (wc_hash C) (wt_db s) (wc_account_id C) = Inr None"
  by (auto simp: account_latest_def account_rows_def bindR_Inr_iff snapshot_verify_iff split: option.splits)

section \<open>Loss of the stream\<close>

text \<open>What the watch relies on: a monotone clock and the snapshots it built itself.\<close>

definition watch_ok :: "'w watch_config \<Rightarrow> int \<Rightarrow> 'w watch_state \<Rightarrow> bool" where
  "watch_ok C clk s \<longleftrightarrow> 0 \<le> clk \<and> 0 \<le> wt_conflict_count s
     \<and> (case wt_latest_snapshot s of
          None \<Rightarrow> account_rows C s = []
        | Some a \<Rightarrow> genuine C a \<and> as_last_rest_at_ms a \<le> clk)"

definition stale :: "'w watch_state \<Rightarrow> bool" where
  "stale s \<longleftrightarrow> \<not> wt_stream_connected s \<and> \<not> wt_reconciled s
     \<and> (case wt_latest_snapshot s of None \<Rightarrow> True
        | Some a \<Rightarrow> \<not> as_reconciled a \<and> \<not> as_stream_connected a \<and> as_quality a = ''STALE'')"

text \<open>The snapshot after a loss is genuine again.\<close>

lemma stale_copy_genuine:
  assumes "genuine C a" and "0 \<le> now" and "as_last_rest_at_ms a \<le> now" and "0 \<le> n"
  shows "\<exists>b. snapshot_validate (wc_hash C) True (a\<lparr>as_observed_at_ms := now, as_stream_connected := False, as_reconciled := False,
             as_conflict_count := n, as_quality := ''STALE'', as_snapshot_hash := []\<rparr>) = Inr b
           \<and> genuine C b \<and> as_last_rest_at_ms b = as_last_rest_at_ms a \<and> \<not> as_reconciled b \<and> \<not> as_stream_connected b \<and> as_quality b = ''STALE''"
  using assms unfolding snapshot_verify_iff
  by (auto simp: snapshot_validate_def snapshot_fields_ok_def snapshot_digest_def snapshot_json_def)

lemma mark_fails_closed:
  assumes ok: "watch_ok C clk s" and now: "clk \<le> now"
  obtains s' where "mark_stream_disconnected C (Some now) s = (Inr (), s')" and "watch_ok C now s'" and "stale s'"
    and "wt_state_generation s' = wt_state_generation s + 1" and "wt_conflict_count s' = wt_conflict_count s"
    and "wt_latest_snapshot s' = None \<longleftrightarrow> wt_latest_snapshot s = None"
proof (cases "wt_latest_snapshot s")
  case None
  with ok now show ?thesis
    by (intro that [of "s\<lparr>wt_state_generation := wt_state_generation s + 1, wt_stream_connected := False, wt_reconciled := False\<rparr>"])
      (auto simp: mark_stream_disconnected_def watch_now_def sbind_def ret_def change_def with_state_def watch_ok_def stale_def account_rows_def)
next
  case (Some a)
  let ?s = "s\<lparr>wt_state_generation := wt_state_generation s + 1, wt_stream_connected := False, wt_reconciled := False\<rparr>"
  have a: "genuine C a" "0 \<le> now" "as_last_rest_at_ms a \<le> now" "0 \<le> wt_conflict_count s"
    using ok now Some by (auto simp: watch_ok_def)
  obtain b where b: "snapshot_validate (wc_hash C) True (a\<lparr>as_observed_at_ms := now, as_stream_connected := False, as_reconciled := False,
             as_conflict_count := wt_conflict_count s, as_quality := ''STALE'', as_snapshot_hash := []\<rparr>) = Inr b"
    and g: "genuine C b" "as_last_rest_at_ms b = as_last_rest_at_ms a" "\<not> as_reconciled b" "\<not> as_stream_connected b" "as_quality b = ''STALE''"
    using stale_copy_genuine [OF a] by blast
  obtain s' where s': "save_latest C b ''WS_DISCONNECTED'' ?s = (Inr (), s')"
    using save_latest_genuine [OF g(1)] by (fastforce simp: account_event_types_def)
  obtain db where eq: "s' = ?s\<lparr>wt_db := db, wt_latest_snapshot := Some b\<rparr>"
    using save_latest_ok [OF s'] by blast
  have "mark_stream_disconnected C (Some now) s = (Inr (), s')"
    using Some b s'
    by (simp add: mark_stream_disconnected_def watch_now_def sbind_def ret_def change_def with_state_def build_snapshot_def lift_res_def)
  then show ?thesis
    using a g eq Some by (intro that [of s']) (auto simp: watch_ok_def stale_def)
qed

text \<open>If the clock has gone back behind the last read, the snapshot of the loss is refused, the call raises and the
  reconciled snapshot stays the latest one.\<close>

lemma disconnect_fails_open:
  assumes a: "wt_latest_snapshot s = Some a" "genuine C a" "as_reconciled a" and n: "0 \<le> wt_conflict_count s"
    and now: "0 \<le> now" "now < as_last_rest_at_ms a"
  shows "\<exists>s'. mark_stream_disconnected C (Some now) s = (Inl (ValueError ''account chronology invalid''), s')
     \<and> wt_latest_snapshot s' = Some a"
  using a now n unfolding snapshot_verify_iff
  by (auto simp: mark_stream_disconnected_def watch_now_def sbind_def ret_def change_def with_state_def build_snapshot_def lift_res_def
      snapshot_validate_def snapshot_fields_ok_def)

section \<open>Events\<close>

text \<open>Every refused event ends in the loss of the stream.\<close>

definition lost :: "'w watch_config \<Rightarrow> int \<Rightarrow> 'w watch_state \<Rightarrow> 'w watch_state \<Rightarrow> bool" where
  "lost C now s s' \<longleftrightarrow> watch_ok C now s' \<and> stale s' \<and> wt_state_generation s' = wt_state_generation s + 1
     \<and> (wt_latest_snapshot s' = None \<longleftrightarrow> wt_latest_snapshot s = None)"

lemma mark_loses:
  assumes "watch_ok C clk s" and "clk \<le> now"
  shows "\<exists>s'. mark_stream_disconnected C (Some now) s = (Inr (), s') \<and> lost C now s s'"
  by (rule mark_fails_closed [OF assms]) (auto simp: lost_def)

lemma drop_loses:
  assumes "watch_ok C clk s" and "clk \<le> now"
  shows "\<exists>s'. drop_stream C now s = (Inr False, s') \<and> lost C now s s'"
  using mark_loses [OF assms] by (auto simp: drop_stream_def sbind_def ret_def)

lemma conflict_loses:
  assumes "watch_ok C clk s" and "clk \<le> now"
  shows "\<exists>s'. sbind count_conflict (\<lambda>_. drop_stream C now) s = (Inr False, s') \<and> lost C now s s'"
proof -
  have "watch_ok C clk (s\<lparr>wt_conflict_count := wt_conflict_count s + 1\<rparr>)"
    using assms by (auto simp: watch_ok_def account_rows_def split: option.splits)
  from drop_loses [OF this assms(2)] show ?thesis
    by (auto simp: sbind_def count_conflict_def change_def lost_def)
qed

lemma latest_snapshot_ok:
  assumes "watch_ok C clk s"
  shows "latest_snapshot C s = (Inr (wt_latest_snapshot s), s)"
  using assms by (auto simp: latest_snapshot_def with_state_def ret_def lift_res_def watch_ok_def account_latest_rows split: option.splits)

lemma apply_account_keeps:
  "apply_account_update C t p a = Inr b \<Longrightarrow> as_reconciled b = as_reconciled a \<and> as_environment b = as_environment a
     \<and> as_last_rest_at_ms b = as_last_rest_at_ms a"
  by (auto simp: apply_account_update_def bindR_Inr_iff Let_def split: if_splits option.splits)

lemma apply_order_keeps:
  "apply_order_update C t p a = Inr b \<Longrightarrow> as_reconciled b = as_reconciled a \<and> as_environment b = as_environment a
     \<and> as_last_rest_at_ms b = as_last_rest_at_ms a"
  by (auto simp: apply_order_update_def bindR_Inr_iff Let_def split: if_splits)

lemma apply_event_keeps:
  assumes "apply_event C e t p a = Inr b"
  shows "genuine C b" and "as_reconciled b = as_reconciled a" and "as_environment b = as_environment a"
    and "as_last_rest_at_ms b = as_last_rest_at_ms a"
  using assms by (auto simp: apply_event_def Let_def bindR_Inr_iff validate_built dest!: apply_account_keeps apply_order_keeps split: if_splits)

lemma accept_event_applies:
  assumes "genuine C b"
  shows "\<exists>db. accept_event C b source t d s = (Inr True, s\<lparr>wt_db := db, wt_latest_snapshot := Some b,
            wt_last_user_event_ms := max (wt_last_user_event_ms s) t,
            wt_user_event_sources := AList.update source (t, d) (wt_user_event_sources s),
            wt_state_generation := wt_state_generation s + 1\<rparr>)"
proof -
  obtain s1 where s1: "save_latest C b ''WS_UPDATE'' s = (Inr (), s1)"
    using save_latest_genuine [OF assms] by (fastforce simp: account_event_types_def)
  from save_latest_ok [OF s1] obtain db where "s1 = s\<lparr>wt_db := db, wt_latest_snapshot := Some b\<rparr>" by blast
  with s1 show ?thesis by (auto simp: accept_event_def sbind_def change_def ret_def)
qed

text \<open>What an event does to a watch: it is applied on a reconciled snapshot, or it is the recorded one of its source and
  changes nothing, or the stream is lost. An exception changes nothing.\<close>

definition applied :: "'w watch_config \<Rightarrow> 'w watch_state \<Rightarrow> 'w watch_state \<Rightarrow> bool" where
  "applied C s s' \<longleftrightarrow>
     (\<exists>a b. wt_latest_snapshot s = Some a \<and> as_reconciled a \<and> wt_reconciled s \<and> wt_reconciled s'
       \<and> wt_latest_snapshot s' = Some b \<and> genuine C b \<and> as_reconciled b \<and> as_environment b = as_environment a
       \<and> as_last_rest_at_ms b = as_last_rest_at_ms a \<and> wt_state_generation s' = wt_state_generation s + 1
       \<and> wt_conflict_count s' = wt_conflict_count s)"

definition recorded :: "'w watch_config \<Rightarrow> string \<Rightarrow> json \<Rightarrow> int \<Rightarrow> 'w watch_state \<Rightarrow> bool" where
  "recorded C e p t s \<longleftrightarrow> map_of (wt_user_event_sources s) (event_source C e p) = Some (t, dumps p)"

definition known_event :: "'w watch_config \<Rightarrow> json \<Rightarrow> string \<Rightarrow> int \<Rightarrow> bool" where
  "known_event C p e t \<longleftrightarrow> wc_environment C = ''TESTNET'' \<and> is_dict p \<and> get_or p ''e'' JNull = JStr e
     \<and> e \<in> {''ACCOUNT_UPDATE'', ''ORDER_TRADE_UPDATE''} \<and> (\<exists>x. event_times C p = Inr (t, x))"

definition event_outcome :: "'w watch_config \<Rightarrow> json \<Rightarrow> int \<Rightarrow> 'w watch_state \<Rightarrow> bool res \<times> 'w watch_state \<Rightarrow> bool" where
  "event_outcome C p now s out \<longleftrightarrow>
     (case out of
        (Inr True, s') \<Rightarrow> applied C s s' \<and> (\<exists>e t. known_event C p e t \<and> recorded C e p t s')
      | (Inr False, s') \<Rightarrow> (s' = s \<and> (\<exists>e t. known_event C p e t \<and> recorded C e p t s)) \<or> lost C now s s'
      | (Inl e, s') \<Rightarrow> s' = s)"

lemma lost_outcome: "\<exists>s'. out = (Inr False, s') \<and> lost C now s s' \<Longrightarrow> event_outcome C p now s out"
  by (auto simp: event_outcome_def)

lemma known_event_outcome:
  assumes ok: "watch_ok C clk s" and now: "clk \<le> now" and known: "known_event C p e t"
  shows "event_outcome C p now s (handle_known_event C e p now t x s)"
proof -
  define source event_digest prior where "source = event_source C e p" and "event_digest = dumps p"
    and "prior = map_of (wt_user_event_sources s) source"
  note here = handle_known_event_def sbind_def with_state_def latest_snapshot_ok [OF ok] Let_def
    source_def [symmetric] event_digest_def [symmetric] prior_def [symmetric]
  consider (repeated) "prior = Some (t, event_digest)"
    | (late) "prior \<noteq> Some (t, event_digest)" "event_out_of_order s (wt_latest_snapshot s) prior t x"
    | (new) a where "prior \<noteq> Some (t, event_digest)" "\<not> event_out_of_order s (wt_latest_snapshot s) prior t x" "wt_latest_snapshot s = Some a"
    by (cases "wt_latest_snapshot s") (auto simp: event_out_of_order_def)
  then show ?thesis
  proof cases
    case repeated
    then have "recorded C e p t s" by (simp add: recorded_def prior_def source_def event_digest_def)
    with repeated known show ?thesis by (auto simp add: here ret_def event_outcome_def)
  next
    case late
    then show ?thesis using lost_outcome [OF conflict_loses [OF ok now]] by (simp add: here)
  next
    case new
    then have r: "wt_reconciled s" "as_reconciled a" by (auto simp: event_out_of_order_def)
    show ?thesis
    proof (cases "apply_event C e t p a")
      case (Inl err)
      then show ?thesis using new lost_outcome [OF drop_loses [OF ok now]] by (simp add: here raise_def event_outcome_def)
    next
      case (Inr b)
      note k = apply_event_keeps [OF Inr]
      obtain s' db where acc: "accept_event C b source t event_digest s = (Inr True, s')" and s': "s' = s\<lparr>wt_db := db, wt_latest_snapshot := Some b,
          wt_last_user_event_ms := max (wt_last_user_event_ms s) t, wt_user_event_sources := AList.update source (t, event_digest) (wt_user_event_sources s),
          wt_state_generation := wt_state_generation s + 1\<rparr>"
        using accept_event_applies [OF k(1)] by blast
      have "applied C s s'" "recorded C e p t s'"
        using new r k s' by (auto simp: applied_def recorded_def source_def event_digest_def update_conv)
      with acc known show ?thesis using new Inr by (auto simp: here event_outcome_def)
    qed
  qed
qed

lemma handle_known:
  assumes "known_event C p e t" and "event_times C p = Inr (t, x)"
  shows "handle_user_event C p now s = handle_known_event C e p now t x s"
proof -
  have ne: "e \<noteq> ''listenKeyExpired''" "e \<notin> {''MARGIN_CALL'', ''ALGO_UPDATE''}" "e \<in> {''ACCOUNT_UPDATE'', ''ORDER_TRADE_UPDATE''}"
    using assms(1) unfolding known_event_def by fastforce+
  have "get_or p ''e'' JNull = JStr e" "wc_environment C = ''TESTNET''" "is_dict p" using assms(1) by (simp_all add: known_event_def)
  with ne assms(2) show ?thesis by (simp only: handle_user_event_def if_False if_True json.case sum.case prod.case not_True_eq_False de_Morgan_disj simp_thms)
qed

lemma user_event_outcome:
  assumes ok: "watch_ok C clk s" and now: "clk \<le> now"
  shows "event_outcome C p now s (handle_user_event C p now s)"
proof -
  note dr = lost_outcome [OF drop_loses [OF ok now]] and cf = lost_outcome [OF conflict_loses [OF ok now]] and kn = known_event_outcome [OF ok now]
  have rs: "event_outcome C p now s (raise e s)" for e by (simp add: event_outcome_def raise_def)
  show ?thesis
  proof (cases "wc_environment C \<noteq> ''TESTNET'' \<or> \<not> is_dict p")
    case True
    then show ?thesis using dr by (simp add: handle_user_event_def)
  next
    case False
    show ?thesis
    proof (cases "get_or p ''e'' JNull")
      case (JStr e)
      show ?thesis
      proof (cases "e \<in> {''ACCOUNT_UPDATE'', ''ORDER_TRADE_UPDATE''}")
        case True
        show ?thesis
        proof (cases "event_times C p")
          case (Inr tx)
          with False JStr True have "known_event C p e (fst tx)" by (cases tx) (simp add: known_event_def)
          from kn [OF this, of "snd tx"] handle_known [OF this, of "snd tx"] Inr show ?thesis by simp
        next
          case (Inl err)
          have ne: "e \<noteq> ''listenKeyExpired''" "e \<notin> {''MARGIN_CALL'', ''ALGO_UPDATE''}" using True by fastforce+
          have "handle_user_event C p now s = (if err = OverflowError then raise err else drop_stream C now) s"
            using False JStr True Inl ne by (simp only: handle_user_event_def if_False if_True json.case sum.case not_True_eq_False de_Morgan_disj simp_thms)
          with dr rs show ?thesis by simp
        qed
      qed (use False JStr dr cf in \<open>simp add: handle_user_event_def\<close>)
    qed (use False dr rs in \<open>simp_all add: handle_user_event_def\<close>)
  qed
qed

lemma recorded_event_ignored:
  assumes "watch_ok C clk s" and "known_event C p e t" and "recorded C e p t s"
  shows "handle_user_event C p now s = (Inr False, s)"
proof -
  obtain x where "event_times C p = Inr (t, x)" using assms(2) by (auto simp: known_event_def)
  from handle_known [OF assms(2) this] assms(3) show ?thesis
    by (simp add: recorded_def handle_known_event_def sbind_def with_state_def ret_def latest_snapshot_ok [OF assms(1)])
qed

lemma applied_ok: "watch_ok C clk s \<Longrightarrow> applied C s s' \<Longrightarrow> clk \<le> now \<Longrightarrow> watch_ok C now s'"
  by (auto simp: watch_ok_def applied_def)

text \<open>C17: On a watch with a monotone clock, an event of the user stream has one of four outcomes. If it is accepted, it was applied
  on a reconciled snapshot, the new snapshot is genuine, and the same event delivered again is answered with False and
  changes nothing at all. If it is refused, either it is exactly the recorded event of its source and nothing changed, or the watch is
  disconnected, not reconciled, and its latest snapshot is marked stale and not reconciled. An exception changes nothing.\<close>

theorem user_event_fails_closed:
  assumes "watch_ok C clk s" and "clk \<le> now" and "handle_user_event C p now s = (r, s')"
  shows "case r of
      Inr True \<Rightarrow> applied C s s' \<and> watch_ok C now s' \<and> (\<forall>later. handle_user_event C p later s' = (Inr False, s'))
    | Inr False \<Rightarrow> (s' = s \<and> (\<exists>e t. known_event C p e t \<and> recorded C e p t s)) \<or> (stale s' \<and> watch_ok C now s')
    | Inl e \<Rightarrow> s' = s"
  using user_event_outcome [OF assms(1,2), of p] assms applied_ok [OF assms(1) _ assms(2)]
  by (auto simp: event_outcome_def lost_def intro: recorded_event_ignored split: sum.splits bool.splits)

section \<open>REST reads\<close>

text \<open>A read changes neither the latest snapshot nor the tables nor the generation; it moves flags and the peak.\<close>

definition same_view :: "'w watch_state \<Rightarrow> 'w watch_state \<Rightarrow> bool" where
  "same_view s s' \<longleftrightarrow> wt_latest_snapshot s' = wt_latest_snapshot s \<and> wt_db s' = wt_db s
     \<and> wt_state_generation s' = wt_state_generation s \<and> wt_conflict_count s' = wt_conflict_count s"

interpretation reading: run_relation same_view
  by unfold_locales (auto simp: same_view_def)

lemma reading_statements:
  "reading.pres (ask f)" "reading.pres (raise_peak x)" "reading.pres (mark_reconciled t)" "reading.pres (build_snapshot C a)"
  by (auto simp: reading.pres_def ask_def raise_peak_def mark_reconciled_def change_def build_snapshot_def lift_res_def same_view_def Let_def
      split: prod.splits)

lemma reading_rest: "reading.pres (rest_read C now)"
  unfolding rest_read_def read_testnet_def read_dry_def Let_def
  by (auto intro!: reading.pres_rules reading_statements split: option.splits)

lemma read_ends: "ends (rest_read C now) (\<lambda>a s. genuine C a \<and> as_last_rest_at_ms a = now)"
proof -
  have b: "ends (build_snapshot C (rest_snapshot C s now q1 q2 q3 q4 q5 q6 ps os)) (\<lambda>a s. genuine C a \<and> as_last_rest_at_ms a = now)"
    for s q1 q2 q3 q4 q5 q6 ps os
    by (auto simp: ends_def build_snapshot_Inr) (simp add: rest_snapshot_def)
  show ?thesis
    unfolding rest_read_def read_testnet_def read_dry_def Let_def
    by (auto intro!: ends_intros b split: option.splits)
qed

text \<open>A conflict keeps the latest snapshot, as one that is not reconciled.\<close>

lemma conflict_copy_genuine:
  assumes a: "genuine C a" and n: "0 \<le> n" and now: "0 \<le> now" and q: "q \<in> {''STALE'', ''CONFLICT''}"
  shows "\<exists>b. snapshot_validate (wc_hash C) True (a\<lparr>as_reconciled := False, as_quality := q, as_conflict_count := n,
             as_observed_at_ms := max (as_observed_at_ms a) now, as_last_rest_at_ms := max (as_last_rest_at_ms a) now, as_snapshot_hash := []\<rparr>) = Inr b
           \<and> genuine C b \<and> as_last_rest_at_ms b = max (as_last_rest_at_ms a) now \<and> \<not> as_reconciled b"
proof -
  let ?c = "a\<lparr>as_reconciled := False, as_quality := q, as_conflict_count := n,
             as_observed_at_ms := max (as_observed_at_ms a) now, as_last_rest_at_ms := max (as_last_rest_at_ms a) now\<rparr>"
  let ?b = "?c\<lparr>as_snapshot_hash := snapshot_digest (wc_hash C) ?c\<rparr>"
  have f: "snapshot_fields_ok ?c" using a n q unfolding snapshot_verify_iff by (simp add: snapshot_fields_ok_def le_max_iff_disj)
  have d: "snapshot_digest (wc_hash C) ?b = snapshot_digest (wc_hash C) ?c" by (rule digest_ignores_hash)
  have "as_last_rest_at_ms a \<le> as_observed_at_ms a" using a by (simp add: snapshot_verify_iff)
  then have m: "max (as_last_rest_at_ms a) now \<le> max (as_observed_at_ms a) now" by linarith
  have g: "genuine C ?b"
    unfolding snapshot_verify_iff d fields_ignore_hash using a f m by (simp add: snapshot_verify_iff)
  then have "snapshot_validate (wc_hash C) True (?c\<lparr>as_snapshot_hash := []\<rparr>) = Inr ?b" by (simp add: validate_built)
  with g show ?thesis by (intro exI [of _ ?b]) simp
qed

definition committed :: "'w watch_config \<Rightarrow> int \<Rightarrow> int \<Rightarrow> account_snapshot \<Rightarrow> 'w watch_state \<Rightarrow> 'w watch_state \<Rightarrow> bool" where
  "committed C g now a s s' \<longleftrightarrow>
     (\<exists>b. wt_latest_snapshot s' = Some b \<and> genuine C b \<and> wt_state_generation s' = wt_state_generation s \<and> 0 \<le> wt_conflict_count s'
       \<and> (if wt_latest_snapshot s \<noteq> None \<and> wt_state_generation s \<noteq> g
          then \<not> as_reconciled b \<and> as_last_rest_at_ms b \<le> max (as_last_rest_at_ms (the (wt_latest_snapshot s))) now
          else b = a))"

lemma commit_save:
  assumes "genuine C b"
  obtains db where "sbind (save_latest C b ''REST_RECONCILED'') (\<lambda>_. ret b) s = (Inr b, s\<lparr>wt_db := db, wt_latest_snapshot := Some b\<rparr>)"
proof -
  obtain s1 where s1: "save_latest C b ''REST_RECONCILED'' s = (Inr (), s1)"
    using save_latest_genuine [OF assms] by (fastforce simp: account_event_types_def)
  from save_latest_ok [OF s1] obtain db where "s1 = s\<lparr>wt_db := db, wt_latest_snapshot := Some b\<rparr>" by blast
  with s1 show ?thesis using that by (simp add: sbind_def ret_def)
qed

lemma commit_outcome:
  assumes ok: "watch_ok C clk s" and now: "0 \<le> now" and a: "genuine C a"
  shows "\<exists>b s'. rest_commit C g now a s = (Inr b, s') \<and> committed C g now a s s'"
proof (cases "wt_latest_snapshot s \<noteq> None \<and> wt_state_generation s \<noteq> g")
  case False
  then have "rest_commit C g now a s = sbind (save_latest C a ''REST_RECONCILED'') (\<lambda>_. ret a) s"
    by (auto simp: rest_commit_def sbind_def with_state_def ret_def split: option.splits)
  moreover obtain db where "sbind (save_latest C a ''REST_RECONCILED'') (\<lambda>_. ret a) s = (Inr a, s\<lparr>wt_db := db, wt_latest_snapshot := Some a\<rparr>)"
    using commit_save [OF a] by blast
  ultimately show ?thesis using False ok a by (auto simp: committed_def watch_ok_def)
next
  case True
  then obtain l where l: "wt_latest_snapshot s = Some l" by auto
  let ?s = "s\<lparr>wt_conflict_count := wt_conflict_count s + 1, wt_reconciled := False\<rparr>"
  have g: "genuine C l" "0 \<le> wt_conflict_count s + 1" using ok l by (auto simp: watch_ok_def)
  have q: "(if as_quality l = ''STALE'' then ''STALE'' else ''CONFLICT'') \<in> {''STALE'', ''CONFLICT''}" by simp
  from conflict_copy_genuine [OF g now q] obtain b where b: "build_snapshot C (l\<lparr>as_reconciled := False,
             as_quality := (if as_quality l = ''STALE'' then ''STALE'' else ''CONFLICT''), as_conflict_count := wt_conflict_count ?s,
             as_observed_at_ms := max (as_observed_at_ms l) now, as_last_rest_at_ms := max (as_last_rest_at_ms l) now\<rparr>) ?s = (Inr b, ?s)"
    and gb: "genuine C b" "as_last_rest_at_ms b = max (as_last_rest_at_ms l) now" "\<not> as_reconciled b"
    by (fastforce simp: build_snapshot_def lift_res_def)
  have "rest_commit C g now a s = sbind (save_latest C b ''REST_RECONCILED'') (\<lambda>_. ret b) ?s"
    using True l b by (simp add: rest_commit_def sbind_def with_state_def change_def)
  moreover obtain db where "sbind (save_latest C b ''REST_RECONCILED'') (\<lambda>_. ret b) ?s = (Inr b, ?s\<lparr>wt_db := db, wt_latest_snapshot := Some b\<rparr>)"
    using commit_save [OF gb(1)] by blast
  ultimately show ?thesis using True l gb g by (auto simp: committed_def)
qed

lemma show_outcome:
  assumes ok: "watch_ok C clk s"
  shows "\<exists>s'. show_connected C s = (Inr (), s') \<and> wt_state_generation s' = wt_state_generation s \<and> wt_conflict_count s' = wt_conflict_count s
    \<and> (case wt_latest_snapshot s of
          None \<Rightarrow> wt_latest_snapshot s' = None \<and> wt_db s' = wt_db s
        | Some a \<Rightarrow> (\<exists>b. wt_latest_snapshot s' = Some b \<and> genuine C b \<and> as_reconciled b = as_reconciled a
            \<and> as_environment b = as_environment a \<and> as_last_rest_at_ms b = as_last_rest_at_ms a))"
proof (cases "wt_latest_snapshot s")
  case None
  then show ?thesis by (simp add: show_connected_def sbind_def change_def with_state_def ret_def)
next
  case (Some a)
  let ?b = "a\<lparr>as_stream_connected := True, as_snapshot_hash := snapshot_digest (wc_hash C) (a\<lparr>as_stream_connected := True\<rparr>)\<rparr>"
  let ?s = "s\<lparr>wt_stream_connected := True, wt_latest_snapshot := Some ?b\<rparr>"
  have g: "genuine C ?b" using ok Some
    by (auto simp: watch_ok_def snapshot_verify_iff snapshot_fields_ok_def)
  then have "snapshot_validate (wc_hash C) True (a\<lparr>as_stream_connected := True, as_snapshot_hash := []\<rparr>) = Inr ?b"
    by (simp add: validate_built)
  moreover obtain s' where s': "save_latest C ?b ''REST_RECONCILED'' ?s = (Inr (), s')"
    using save_latest_genuine [OF g] by (fastforce simp: account_event_types_def)
  moreover obtain db where "s' = ?s\<lparr>wt_db := db, wt_latest_snapshot := Some ?b\<rparr>" using save_latest_ok [OF s'] by blast
  ultimately show ?thesis using Some g
    by (simp add: show_connected_def sbind_def change_def with_state_def ret_def build_snapshot_def lift_res_def)
qed

section \<open>Runs\<close>

text \<open>A REST read in flight: begun with the generation it noted and its time, then also with the snapshot it brought.\<close>

datatype flight = Asked int int | Held int int account_snapshot

datatype watch_label = Began | Fetched | Aborted | Committed | Lost | Applied | Repeated | Crashed | Shown | Simulated | Outside

text \<open>A state of a run: the time of the last step, the watch, the read in flight.\<close>

type_synonym 'w watch_run = "int \<times> 'w watch_state \<times> flight option"

inductive watch_step :: "'w watch_config \<Rightarrow> 'w watch_run \<Rightarrow> watch_label \<Rightarrow> 'w watch_run \<Rightarrow> bool" for C where
  begin_read: "clk \<le> t \<Longrightarrow> rest_begin C (Some t) s = (Inr (g, now), s') \<Longrightarrow> watch_step C (clk, s, None) Began (t, s', Some (Asked g now))"
| fetch: "rest_read C now s = (Inr a, s') \<Longrightarrow> watch_step C (clk, s, Some (Asked g now)) Fetched (clk, s', Some (Held g now a))"
| fetch_fails: "rest_read C now s = (Inl e, s') \<Longrightarrow> watch_step C (clk, s, Some (Asked g now)) Aborted (clk, s', None)"
| commit: "rest_commit C g now a s = (Inr b, s') \<Longrightarrow> watch_step C (clk, s, Some (Held g now a)) Committed (clk, s', None)"
| commit_fails: "rest_commit C g now a s = (Inl e, s') \<Longrightarrow> watch_step C (clk, s, Some (Held g now a)) Aborted (clk, s', None)"
| lose: "clk \<le> t \<Longrightarrow> mark_stream_disconnected C (Some t) s = (r, s') \<Longrightarrow> watch_step C (clk, s, f) Lost (t, s', f)"
| event: "clk \<le> t \<Longrightarrow> handle_user_event C p t s = (Inr True, s') \<Longrightarrow> watch_step C (clk, s, f) Applied (t, s', f)"
| event_again: "clk \<le> t \<Longrightarrow> handle_user_event C p t s = (Inr False, s) \<Longrightarrow> watch_step C (clk, s, f) Repeated (t, s, f)"
| event_refused: "clk \<le> t \<Longrightarrow> handle_user_event C p t s = (Inr False, s') \<Longrightarrow> s' \<noteq> s \<Longrightarrow> watch_step C (clk, s, f) Lost (t, s', f)"
| event_raises: "clk \<le> t \<Longrightarrow> handle_user_event C p t s = (Inl e, s') \<Longrightarrow> watch_step C (clk, s, f) Crashed (t, s', f)"
| show_stream: "show_connected C s = (r, s') \<Longrightarrow> watch_step C (clk, s, f) Shown (clk, s', f)"
| simulate: "set_simulated_state m s = (r, s') \<Longrightarrow> watch_step C (clk, s, f) Simulated (clk, s', f)"
| others: "clk \<le> t \<Longrightarrow> live_account_snapshots db = live_account_snapshots (wt_db s)
    \<Longrightarrow> watch_step C (clk, s, f) Outside (t, s\<lparr>wt_db := db, wt_world := w\<rparr>, f)"

inductive watch_trace :: "'w watch_config \<Rightarrow> 'w watch_run \<Rightarrow> watch_label list \<Rightarrow> 'w watch_run \<Rightarrow> bool" for C where
  start: "watch_trace C x [] x"
| more: "watch_trace C x tr y \<Longrightarrow> watch_step C y l z \<Longrightarrow> watch_trace C x (tr @ [l]) z"

text \<open>The read that the current trust rests on: begun after \<open>pre\<close>, committed after \<open>mid\<close>. No loss follows it. None overlaps it and no
  event was applied while it was in flight, unless it is the first commit of a watch that started with no snapshot.\<close>

definition trusted_read :: "bool \<Rightarrow> watch_label list \<Rightarrow> bool" where
  "trusted_read blank tr \<longleftrightarrow>
     (\<exists>pre mid post. tr = pre @ Began # mid @ Committed # post \<and> Began \<notin> set mid \<and> Committed \<notin> set mid \<and> Lost \<notin> set post
       \<and> ((blank \<and> Committed \<notin> set pre) \<or> (Lost \<notin> set mid \<and> Applied \<notin> set mid)))"

lemma trusted_read_more:
  assumes "trusted_read blank tr" and "l \<noteq> Lost"
  shows "trusted_read blank (tr @ [l])"
proof -
  obtain pre mid post where "tr = pre @ Began # mid @ Committed # post" "Began \<notin> set mid" "Committed \<notin> set mid" "Lost \<notin> set post"
    "(blank \<and> Committed \<notin> set pre) \<or> (Lost \<notin> set mid \<and> Applied \<notin> set mid)"
    using assms(1) by (auto simp: trusted_read_def)
  with assms(2) show ?thesis unfolding trusted_read_def
    by (intro exI [of _ pre] exI [of _ mid] exI [of _ "post @ [l]"]) simp
qed

fun flight_of :: "flight \<Rightarrow> int \<times> int" where
  "flight_of (Asked g now) = (g, now)"
| "flight_of (Held g now a) = (g, now)"

definition in_flight :: "watch_label list \<Rightarrow> int \<Rightarrow> int \<Rightarrow> int \<times> int \<Rightarrow> bool" where
  "in_flight tr clk gen x \<longleftrightarrow>
     (case x of (g, now) \<Rightarrow> g \<le> gen \<and> 0 \<le> now \<and> now \<le> clk
        \<and> (\<exists>pre mid. tr = pre @ Began # mid \<and> Began \<notin> set mid \<and> Committed \<notin> set mid
             \<and> (gen = g \<longrightarrow> Lost \<notin> set mid \<and> Applied \<notin> set mid)))"

lemma in_flight_more:
  assumes x: "in_flight tr clk gen x" and l: "l \<noteq> Began" "l \<noteq> Committed" and le: "clk \<le> clk'" "gen \<le> gen'"
    and mv: "l = Lost \<or> l = Applied \<Longrightarrow> gen < gen'"
  shows "in_flight (tr @ [l]) clk' gen' x"
proof -
  obtain g now pre mid where e: "x = (g, now)" "g \<le> gen" "0 \<le> now" "now \<le> clk" "tr = pre @ Began # mid" "Began \<notin> set mid" "Committed \<notin> set mid"
    "gen = g \<longrightarrow> Lost \<notin> set mid \<and> Applied \<notin> set mid"
    using x by (auto simp: in_flight_def)
  have "Lost \<notin> set (mid @ [l]) \<and> Applied \<notin> set (mid @ [l])" if "gen' = g"
    using that e le mv by auto
  with e l le show ?thesis unfolding in_flight_def
    by (simp, intro conjI exI [of _ pre] exI [of _ "mid @ [l]"]) auto
qed

fun held_ok :: "'w watch_config \<Rightarrow> flight \<Rightarrow> bool" where
  "held_ok C (Asked g now) = True"
| "held_ok C (Held g now a) = (genuine C a \<and> as_last_rest_at_ms a = now)"

definition vouched :: "account_snapshot \<Rightarrow> bool" where
  "vouched a \<longleftrightarrow> as_reconciled a \<and> as_environment a = ''TESTNET''"

definition watch_inv :: "'w watch_config \<Rightarrow> bool \<Rightarrow> watch_label list \<Rightarrow> 'w watch_run \<Rightarrow> bool" where
  "watch_inv C blank tr x \<longleftrightarrow>
     (case x of (clk, s, f) \<Rightarrow>
        watch_ok C clk s \<and> opt_all (\<lambda>fl. in_flight tr clk (wt_state_generation s) (flight_of fl) \<and> held_ok C fl) f
        \<and> (case wt_latest_snapshot s of
             None \<Rightarrow> blank \<and> Committed \<notin> set tr
           | Some a \<Rightarrow> vouched a \<longrightarrow> trusted_read blank tr))"

lemma watch_inv_more:
  assumes inv: "watch_inv C blank tr (clk, s, f)" and l: "l \<noteq> Began" "l \<noteq> Committed" and clk: "clk \<le> t"
    and gen: "wt_state_generation s \<le> wt_state_generation s'" "l = Lost \<or> l = Applied \<Longrightarrow> wt_state_generation s < wt_state_generation s'"
    and ok: "watch_ok C t s'"
    and view: "wt_latest_snapshot s' = None \<longleftrightarrow> wt_latest_snapshot s = None"
      "\<And>b. wt_latest_snapshot s' = Some b \<Longrightarrow> vouched b \<Longrightarrow> l \<noteq> Lost \<and> (\<exists>a. wt_latest_snapshot s = Some a \<and> vouched a)"
    and f': "f' = None \<or> f' = f"
  shows "watch_inv C blank (tr @ [l]) (t, s', f')"
proof -
  have "in_flight (tr @ [l]) t (wt_state_generation s') (flight_of fl)" if "in_flight tr clk (wt_state_generation s) (flight_of fl)" for fl
    by (rule in_flight_more [OF that l clk gen])
  then show ?thesis using inv ok view l f'
    by (auto simp: watch_inv_def opt_all_def intro: trusted_read_more split: option.splits)
qed

lemma watch_ok_view: "watch_ok C clk s \<Longrightarrow> same_view s s' \<Longrightarrow> clk \<le> t \<Longrightarrow> watch_ok C t s'"
  by (auto simp: watch_ok_def same_view_def account_rows_def split: option.splits)

lemma read_view: "rest_read C now s = (r, s') \<Longrightarrow> same_view s s'"
  using reading_rest by (rule reading.presD)

lemma watch_inv_quiet:
  assumes "watch_inv C blank tr (clk, s, f)" and "same_view s s'" and "clk \<le> t" and "l \<notin> {Began, Committed, Lost, Applied}" and "f' = None \<or> f' = f"
  shows "watch_inv C blank (tr @ [l]) (t, s', f')"
proof (rule watch_inv_more [OF assms(1)])
  show "watch_ok C t s'" using assms watch_ok_view by (fastforce simp: watch_inv_def)
qed (use assms in \<open>auto simp: same_view_def intro: sym\<close>)

lemma lost_step:
  assumes inv: "watch_inv C blank tr (clk, s, f)" and "lost C t s s'" and "clk \<le> t"
  shows "watch_inv C blank (tr @ [Lost]) (t, s', f)"
  by (rule watch_inv_more [OF inv]) (use assms in \<open>auto simp: lost_def stale_def vouched_def split: option.splits\<close>)

lemma applied_step:
  assumes inv: "watch_inv C blank tr (clk, s, f)" and ap: "applied C s s'" and clk: "clk \<le> t"
  shows "watch_inv C blank (tr @ [Applied]) (t, s', f)"
proof (rule watch_inv_more [OF inv])
  show "watch_ok C t s'" using inv ap clk by (auto simp: watch_inv_def intro: applied_ok)
qed (use ap clk in \<open>auto simp: applied_def vouched_def\<close>)

lemma fetched_step:
  assumes inv: "watch_inv C blank tr (clk, s, Some (Asked g now))" and r: "rest_read C now s = (Inr a, s')"
  shows "watch_inv C blank (tr @ [Fetched]) (clk, s', Some (Held g now a))"
proof -
  have "watch_inv C blank (tr @ [Fetched]) (clk, s', Some (Asked g now))"
    by (rule watch_inv_quiet [OF inv read_view [OF r]]) simp_all
  moreover have "genuine C a \<and> as_last_rest_at_ms a = now" using read_ends [of C now] r by (auto simp: ends_def)
  ultimately show ?thesis by (simp add: watch_inv_def)
qed

lemma committed_step:
  assumes inv: "watch_inv C blank tr (clk, s, Some (Held g now a))" and c: "committed C g now a s s'"
  shows "watch_inv C blank (tr @ [Committed]) (clk, s', None)"
proof -
  obtain b where b: "wt_latest_snapshot s' = Some b" "genuine C b" "0 \<le> wt_conflict_count s'"
    and d: "if wt_latest_snapshot s \<noteq> None \<and> wt_state_generation s \<noteq> g
       then \<not> as_reconciled b \<and> as_last_rest_at_ms b \<le> max (as_last_rest_at_ms (the (wt_latest_snapshot s))) now else b = a"
    using c by (auto simp: committed_def)
  obtain pre mid where m: "tr = pre @ Began # mid" "Began \<notin> set mid" "Committed \<notin> set mid"
      "wt_state_generation s = g \<longrightarrow> Lost \<notin> set mid \<and> Applied \<notin> set mid"
    and t: "0 \<le> now" "now \<le> clk" and a: "as_last_rest_at_ms a = now"
    using inv by (auto simp: watch_inv_def in_flight_def opt_all_def)
  have "as_last_rest_at_ms b \<le> clk" using d t a inv by (auto simp: watch_inv_def watch_ok_def split: if_splits option.splits)
  moreover have "trusted_read blank (tr @ [Committed])" if "vouched b"
  proof -
    have "wt_latest_snapshot s = None \<or> wt_state_generation s = g" using that d by (auto simp: vouched_def split: if_splits)
    moreover have "blank \<and> Committed \<notin> set pre" if "wt_latest_snapshot s = None" using that inv m(1) by (auto simp: watch_inv_def)
    ultimately show ?thesis using m unfolding trusted_read_def
      by (intro exI [of _ pre] exI [of _ mid] exI [of _ "[]"]) auto
  qed
  ultimately show ?thesis using b inv by (simp add: watch_inv_def watch_ok_def opt_all_def)
qed

lemma watch_step_inv:
  assumes "watch_step C x l y" and inv: "watch_inv C blank tr x"
  shows "watch_inv C blank (tr @ [l]) y"
  using assms
proof cases
  case (begin_read clk t s g now s')
  then have e: "s' = s" "g = wt_state_generation s" "now = t"
    by (auto simp: rest_begin_def with_state_def sbind_def watch_now_def ret_def)
  have "in_flight (tr @ [Began]) t (wt_state_generation s) (wt_state_generation s, t)"
    using begin_read inv unfolding in_flight_def by (simp add: watch_inv_def watch_ok_def, intro exI [of _ tr] exI [of _ "[]"]) simp
  moreover have "watch_ok C t s" using begin_read inv by (auto simp: watch_inv_def watch_ok_def split: option.splits)
  ultimately show ?thesis using begin_read inv e by (auto simp: watch_inv_def opt_all_def intro: trusted_read_more split: option.splits)
next
  case (fetch now s a s' clk g)
  with inv show ?thesis by (auto intro: fetched_step)
next
  case (fetch_fails now s e s' clk g)
  with inv show ?thesis by (auto intro!: watch_inv_quiet [of C blank tr clk s] read_view)
next
  case (commit g now a s b s' clk)
  then have "committed C g now a s s'" using inv commit_outcome [of C clk s now a g] by (auto simp: watch_inv_def in_flight_def opt_all_def)
  with inv commit show ?thesis by (auto intro: committed_step)
next
  case (commit_fails g now a s e s' clk)
  then have False using inv commit_outcome [of C clk s now a g] by (auto simp: watch_inv_def in_flight_def opt_all_def)
  then show ?thesis ..
next
  case (lose clk t s r s' f)
  then have "lost C t s s'" using inv mark_loses [of C clk s t] by (auto simp: watch_inv_def)
  with inv lose show ?thesis by (auto intro: lost_step)
next
  case (event clk t p s s' f)
  then have "applied C s s'" using inv user_event_outcome [of C clk s t p] by (auto simp: watch_inv_def event_outcome_def)
  with inv event show ?thesis by (auto intro: applied_step)
next
  case (event_again clk t p s f)
  with inv show ?thesis by (auto intro!: watch_inv_quiet [of C blank tr clk s] simp: same_view_def)
next
  case (event_refused clk t p s s' f)
  then have "lost C t s s'" using inv user_event_outcome [of C clk s t p] by (auto simp: watch_inv_def event_outcome_def)
  with inv event_refused show ?thesis by (auto intro: lost_step)
next
  case (event_raises clk t p s e s' f)
  then have "s' = s" using inv user_event_outcome [of C clk s t p] by (auto simp: watch_inv_def event_outcome_def)
  with inv event_raises show ?thesis by (auto intro!: watch_inv_quiet [of C blank tr clk s] simp: same_view_def)
next
  case (show_stream s r s' clk f)
  have ok: "watch_ok C clk s" using inv show_stream by (simp add: watch_inv_def)
  show ?thesis unfolding show_stream
  proof (rule watch_inv_more)
    show "watch_inv C blank tr (clk, s, f)" using inv show_stream by simp
    show "watch_ok C clk s'" using show_outcome [OF ok] ok show_stream
      by (auto simp: watch_ok_def account_rows_def split: option.splits)
  qed (use show_outcome [OF ok] show_stream in \<open>auto simp: vouched_def split: option.splits\<close>)
next
  case (simulate m s r s' clk f)
  with inv show ?thesis by (auto intro!: watch_inv_quiet [of C blank tr clk s] simp: same_view_def set_simulated_state_def change_def)
next
  case (others clk t db s f w)
  show ?thesis unfolding others
  proof (rule watch_inv_more)
    show "watch_inv C blank tr (clk, s, f)" using inv others by simp
    then show "watch_ok C t (s\<lparr>wt_db := db, wt_world := w\<rparr>)" using others
      by (auto simp: watch_inv_def watch_ok_def account_rows_def split: option.splits)
  qed (use others in auto)
qed

text \<open>A watch as its constructor leaves it, at a time not before the last read it restored.\<close>

definition watch_start :: "'w watch_config \<Rightarrow> int \<Rightarrow> 'w watch_state \<Rightarrow> bool" where
  "watch_start C clk s \<longleftrightarrow> 0 \<le> clk \<and> (\<exists>db w. restore_watch C (fresh_watch db w) = (Inr (), s))
     \<and> opt_all (\<lambda>a. as_last_rest_at_ms a \<le> clk) (wt_latest_snapshot s)"

lemma latest_row_None: "latest_row rs = None \<longleftrightarrow> rs = []"
  by (cases rs) (auto split: option.splits)

lemma account_latest_None: "account_latest (wc_hash C) (wt_db s) (wc_account_id C) = Inr None \<Longrightarrow> account_rows C s = []"
  by (auto simp: account_latest_def account_rows_def bindR_Inr_iff latest_row_None split: option.splits)

lemma mark_returns:
  assumes "mark_stream_disconnected C (Some now) s = (Inr (), s')" and "wt_latest_snapshot s = Some a"
  shows "\<exists>b. wt_latest_snapshot s' = Some b \<and> genuine C b \<and> \<not> as_reconciled b" and "wt_conflict_count s' = wt_conflict_count s"
  using assms by (auto simp: mark_stream_disconnected_def watch_now_def sbind_Inr with_state_def change_def ret_def build_snapshot_Inr dest!: save_latest_ok)

lemma restored_ok:
  assumes "restore_watch C (fresh_watch db w) = (Inr (), s)"
  shows "0 \<le> wt_conflict_count s" and "wt_latest_snapshot s = None \<Longrightarrow> account_rows C s = []"
    and "wt_latest_snapshot s = Some a \<Longrightarrow> genuine C a \<and> \<not> vouched a"
proof -
  let ?s0 = "fresh_watch db w"
  let ?s1 = "\<lambda>a. ?s0\<lparr>wt_latest_snapshot := Some a, wt_peak_equity_usdt := as_peak_equity_usdt a,
                    wt_conflict_count := as_conflict_count a, wt_last_rest_at_ms := as_last_rest_at_ms a\<rparr>"
  note unfold = restore_watch_def with_state_def sbind_def lift_res_def change_def ret_def watch_now_def ask_def
  consider (new) "account_latest (wc_hash C) (wt_db ?s0) (wc_account_id C) = Inr None" "s = ?s0"
    | (loss) a t w' where "genuine C a" "mark_stream_disconnected C (Some t) ((?s1 a)\<lparr>wt_world := w'\<rparr>) = (Inr (), s)"
    | (kept) a where "genuine C a" "\<not> (as_environment a = ''TESTNET'' \<and> (as_reconciled a \<or> as_stream_connected a))" "s = ?s1 a"
  proof (cases "account_latest (wc_hash C) (wt_db ?s0) (wc_account_id C)")
    case (Inl e)
    with assms have False by (simp add: unfold)
    then show ?thesis ..
  next
    case (Inr found)
    show ?thesis
    proof (cases found)
      case None
      with Inr assms show ?thesis by (intro that(1)) (simp_all add: unfold)
    next
      case (Some a)
      have g: "genuine C a" using Inr Some account_latest_rows(1) by blast
      show ?thesis
      proof (cases "as_environment a = ''TESTNET'' \<and> (as_reconciled a \<or> as_stream_connected a)")
        case True
        obtain t w' where "wc_clock C (wt_world (?s1 a)) = (t, w')" by fastforce
        with True Inr Some assms have "mark_stream_disconnected C (Some t) ((?s1 a)\<lparr>wt_world := w'\<rparr>) = (Inr (), s)" by (simp add: unfold)
        with g show ?thesis by (rule that(2))
      next
        case False
        with Inr Some assms have "s = ?s1 a" by (simp add: unfold split: if_splits)
        with g False show ?thesis by (rule that(3))
      qed
    qed
  qed
  then have "0 \<le> wt_conflict_count s \<and> (wt_latest_snapshot s = None \<longrightarrow> account_rows C s = [])
      \<and> (\<forall>a. wt_latest_snapshot s = Some a \<longrightarrow> genuine C a \<and> \<not> vouched a)"
  proof cases
    case new
    then show ?thesis using account_latest_None [of C ?s0] by (simp add: fresh_watch_def)
  next
    case loss
    have "0 \<le> as_conflict_count a" using loss(1) by (simp add: snapshot_verify_iff snapshot_fields_ok_def)
    moreover obtain b where "wt_latest_snapshot s = Some b" "genuine C b" "\<not> as_reconciled b" using mark_returns(1) [OF loss(2)] by auto
    moreover have "wt_conflict_count s = as_conflict_count a" using mark_returns(2) [OF loss(2)] by simp
    ultimately show ?thesis by (simp add: vouched_def)
  next
    case kept
    have "0 \<le> as_conflict_count a" using kept(1) by (simp add: snapshot_verify_iff snapshot_fields_ok_def)
    with kept show ?thesis by (auto simp: vouched_def)
  qed
  then show "0 \<le> wt_conflict_count s" and "wt_latest_snapshot s = None \<Longrightarrow> account_rows C s = []"
    and "wt_latest_snapshot s = Some a \<Longrightarrow> genuine C a \<and> \<not> vouched a" by auto
qed

lemma watch_start_inv: "watch_start C clk s \<Longrightarrow> watch_inv C (wt_latest_snapshot s = None) [] (clk, s, None)"
  by (auto simp: watch_start_def watch_inv_def watch_ok_def opt_all_def dest: restored_ok split: option.splits)

lemma watch_trace_inv:
  "watch_trace C x tr y \<Longrightarrow> watch_inv C blank [] x \<Longrightarrow> watch_inv C blank tr y"
  by (induction rule: watch_trace.induct) (auto intro: watch_step_inv)


end
