(* ===== verification/Account_Watch_Sample.thy ===== *)
theory Account_Watch_Sample
  imports Account_Watch_Safety Fixtures
begin

text \<open>
  A concrete testnet watch: an exchange that reports a wallet of 1000 USDT without positions or orders, one REST read, one
  account update on the stream. The hypotheses of the properties of \<open>Account_Watch_Safety\<close> hold on it.
\<close>

definition aw_client :: signed_client where
  "aw_client = \<lparr>sc_base_url = testnet_url, sc_api_key = ''key'', sc_api_secret = ''secret'', sc_recv_window_ms = 5000,
     sc_environment = ''TESTNET'', sc_credential_namespace = ''BINANCE_TESTNET''\<rparr>"

definition aw_exchange :: "unit signed_exchange" where
  "aw_exchange = \<lparr>sx_client = aw_client, sx_sign = (\<lambda>key params. ''signature''), sx_time = (\<lambda>w. (1000, w)),
     sx_http = (\<lambda>q w. (if hr_url q = testnet_url @ ''/fapi/v3/account''
       then JsonReply (JObj [(''totalWalletBalance'', JFloat (Fin 1000)), (''availableBalance'', JFloat (Fin 1000))]) else EmptyReply, w))\<rparr>"

definition aw_config :: "unit watch_config" where
  "aw_config = \<lparr>wc_hash = const_hash, wc_clock = (\<lambda>w. (1000, w)), wc_environment = ''TESTNET'', wc_account_id = ''ACCOUNT'',
     wc_signed_client = Some aw_exchange, wc_repr = (\<lambda>v. []), wc_loads = (\<lambda>m. None)\<rparr>"

definition aw_fresh :: "unit watch_state" where
  "aw_fresh = fresh_watch empty_exec_db ()"

definition aw_snapshot :: account_snapshot where
  "aw_snapshot = \<lparr>as_snapshot_hash = hash_a, as_account_id = ''ACCOUNT'', as_environment = ''TESTNET'',
     as_credential_namespace = ''BINANCE_TESTNET'', as_rest_base_url = testnet_url, as_observed_at_ms = 1000, as_last_rest_at_ms = 1000,
     as_stream_connected = False, as_reconciled = True, as_conflict_count = 0, as_equity_usdt = Fin 1000,
     as_available_balance_usdt = Fin 1000, as_wallet_balance_usdt = Fin 1000, as_margin_used_usdt = Fin 0, as_daily_loss_usdt = Fin 0,
     as_drawdown_pct = Fin 0, as_peak_equity_usdt = Fin 1000, as_positions = [], as_orders = [], as_quality = ''OK''\<rparr>"

definition aw_read :: "unit watch_state" where
  "aw_read = aw_fresh\<lparr>wt_last_rest_at_ms := 1000, wt_reconciled := True\<rparr>"

definition aw_event :: json where
  "aw_event = JObj [(''e'', JStr ''ACCOUNT_UPDATE''), (''E'', JStr ''1500''), (''T'', JStr ''1500''),
     (''a'', JObj [(''B'', JArr [JObj [(''a'', JStr ''USDT''), (''wb'', JFloat (Fin 900))]]), (''P'', JArr [])])]"

lemma aw_config_simps [simp]:
  "wc_hash aw_config = const_hash" "wc_environment aw_config = ''TESTNET''" "wc_account_id aw_config = ''ACCOUNT''"
  "wc_signed_client aw_config = Some aw_exchange" "wc_clock aw_config = (\<lambda>w. (1000, w))"
  by (simp_all add: aw_config_def)

lemma aw_request:
  "signed_request aw_exchange ''GET'' path params w =
     (Inr (if path = ''/fapi/v3/account'' then JObj [(''totalWalletBalance'', JFloat (Fin 1000)), (''availableBalance'', JFloat (Fin 1000))] else JObj []), w)"
proof -
  have r: "rstrip (CHR ''/'') testnet_url = testnet_url" by (simp add: testnet_url_def rstrip_def)
  have u: "py_upper ''GET'' = ''GET''" by (simp add: py_upper_def upper_char_def)
  show ?thesis by (simp add: signed_request_def aw_exchange_def aw_client_def r u Let_def signed_reply_def)
qed

lemma aw_answers:
  "account_information aw_exchange w = (Inr (JObj [(''totalWalletBalance'', JFloat (Fin 1000)), (''availableBalance'', JFloat (Fin 1000))]), w)"
  "balances aw_exchange w = (Inr (JObj []), w)" "positions aw_exchange None w = (Inr [JObj []], w)"
  "open_orders aw_exchange None w = (Inr (JObj []), w)" "realized_pnl aw_exchange t w = (Inr 0, w)"
  by (simp_all add: account_information_def balances_def positions_def open_orders_def realized_pnl_def aw_request)

lemma aw_fresh_simps [simp]:
  "aw_fresh\<lparr>wt_world := w\<rparr> = aw_fresh" "wt_latest_snapshot aw_fresh = None" "wt_state_generation aw_fresh = 0" "wt_world aw_fresh = ()"
  by (simp_all add: aw_fresh_def fresh_watch_def)

lemma aw_peak: "raise_peak (Fin 1000) aw_fresh = (Inr (Fin 0), aw_fresh)"
  by (simp add: raise_peak_def aw_fresh_def fresh_watch_def pymax_def drawdown_of_def zero_flt_def Let_def minus_flt_def)

lemma aw_builds:
  "build_snapshot aw_config (rest_snapshot aw_config aw_read 1000 (Fin 1000) (Fin 1000) (Fin 1000) (Fin 0) \<bar>pymin (Fin 0) 0\<bar> (Fin 0) [] []) aw_read
     = (Inr aw_snapshot, aw_read)"
proof -
  have "snapshot_validate const_hash True (aw_snapshot\<lparr>as_snapshot_hash := []\<rparr>) = Inr aw_snapshot"
    by (simp add: aw_snapshot_def snapshot_validate_def snapshot_fields_ok_def snapshot_digest_def testnet_url_def rstrip_def Nonnegative_def zero_flt_def one_flt_def)
  moreover have "rest_snapshot aw_config aw_read 1000 (Fin 1000) (Fin 1000) (Fin 1000) (Fin 0) \<bar>pymin (Fin 0) 0\<bar> (Fin 0) [] [] = aw_snapshot\<lparr>as_snapshot_hash := []\<rparr>"
    by (simp add: rest_snapshot_def aw_snapshot_def aw_read_def aw_fresh_def fresh_watch_def pymin_def zero_flt_def)
  ultimately show ?thesis by (simp add: build_snapshot_def lift_res_def)
qed

lemma aw_reads: "rest_read aw_config 1000 aw_fresh = (Inr aw_snapshot, aw_read)"
  by (simp add: rest_read_def read_testnet_def sbind_def ask_def aw_answers lift_res_def float_at_def get_attr_def get_or_def py_float_def
      aw_peak parse_position_def json_str_def mark_reconciled_def change_def with_state_def aw_read_def [symmetric] List.map_filter_def aw_builds)

lemma aw_genuine: "genuine aw_config aw_snapshot"
  using read_ends [of aw_config 1000] aw_reads unfolding ends_def by blast

lemma aw_start: "watch_start aw_config 0 aw_fresh"
proof -
  have "account_latest const_hash (wt_db aw_fresh) ''ACCOUNT'' = Inr None"
    by (simp add: account_latest_def aw_fresh_def fresh_watch_def empty_exec_db_def)
  then have "restore_watch aw_config aw_fresh = (Inr (), aw_fresh)"
    by (simp add: restore_watch_def with_state_def sbind_def lift_res_def ret_def)
  then show ?thesis unfolding aw_fresh_def watch_start_def by (auto simp: opt_all_def fresh_watch_def)
qed

text \<open>The state after the commit, and the account update on top of it.\<close>

definition aw_committed :: "unit watch_state" where
  "aw_committed = snd (rest_commit aw_config 0 1000 aw_snapshot aw_read)"

lemma aw_commits: "rest_commit aw_config 0 1000 aw_snapshot aw_read = (Inr aw_snapshot, aw_committed)"
  and aw_committed_simps: "\<exists>db. aw_committed = aw_read\<lparr>wt_db := db, wt_latest_snapshot := Some aw_snapshot\<rparr>"
proof -
  obtain db where "sbind (save_latest aw_config aw_snapshot ''REST_RECONCILED'') (\<lambda>_. ret aw_snapshot) aw_read
      = (Inr aw_snapshot, aw_read\<lparr>wt_db := db, wt_latest_snapshot := Some aw_snapshot\<rparr>)"
    using commit_save [OF aw_genuine] by blast
  moreover have "wt_latest_snapshot aw_read = None" by (simp add: aw_read_def)
  ultimately have "rest_commit aw_config 0 1000 aw_snapshot aw_read = (Inr aw_snapshot, aw_read\<lparr>wt_db := db, wt_latest_snapshot := Some aw_snapshot\<rparr>)"
    by (simp add: rest_commit_def with_state_def sbind_def ret_def)
  then show "rest_commit aw_config 0 1000 aw_snapshot aw_read = (Inr aw_snapshot, aw_committed)"
    "\<exists>db. aw_committed = aw_read\<lparr>wt_db := db, wt_latest_snapshot := Some aw_snapshot\<rparr>"
    by (auto simp: aw_committed_def)
qed

definition aw_updated :: account_snapshot where
  "aw_updated = aw_snapshot\<lparr>as_observed_at_ms := 1500, as_stream_connected := True, as_wallet_balance_usdt := Fin 900, as_equity_usdt := Fin 900\<rparr>"

lemma aw_times: "event_times aw_config aw_event = Inr (1500, 1500)"
proof -
  have "int_text ''1500'' = Some 1500" by code_simp
  then show ?thesis by (simp add: event_times_def item_of_def aw_event_def str_int_def json_str_def get_or_def)
qed

lemma aw_applies: "apply_event aw_config ''ACCOUNT_UPDATE'' 1500 aw_event aw_snapshot = Inr aw_updated"
proof -
  have e: "pymax (Fin 0) (Fin 900 + py_sum []) = Fin 900" by (simp add: pymax_def zero_flt_def)
  have "apply_account_update aw_config 1500 aw_event (aw_snapshot\<lparr>as_observed_at_ms := 1500, as_stream_connected := True\<rparr>)
      = Inr (aw_updated)"
    using e by (simp add: apply_account_update_def aw_event_def item_of_def get_or_def as_rows_def by_key_def py_float_def Let_def aw_updated_def aw_snapshot_def)
  moreover have "snapshot_validate const_hash True (aw_updated\<lparr>as_snapshot_hash := []\<rparr>) = Inr aw_updated"
    by (simp add: aw_updated_def aw_snapshot_def snapshot_validate_def snapshot_fields_ok_def snapshot_digest_def testnet_url_def rstrip_def
        Nonnegative_def zero_flt_def one_flt_def)
  ultimately show ?thesis by (simp add: apply_event_def Let_def) (simp add: aw_snapshot_def)
qed

lemma aw_event_known: "known_event aw_config aw_event ''ACCOUNT_UPDATE'' 1500"
  by (simp add: known_event_def aw_times) (simp add: aw_event_def get_or_def)

lemma aw_accepts: "\<exists>s. handle_user_event aw_config aw_event 1500 aw_committed = (Inr True, s) \<and> wt_latest_snapshot s = Some aw_updated"
proof -
  obtain db where c: "aw_committed = aw_read\<lparr>wt_db := db, wt_latest_snapshot := Some aw_snapshot\<rparr>" using aw_committed_simps by blast
  have g: "genuine aw_config aw_updated" using apply_event_keeps(1) [OF aw_applies] .
  have "latest_snapshot aw_config aw_committed = (Inr (Some aw_snapshot), aw_committed)"
    by (simp add: latest_snapshot_def with_state_def ret_def c)
  moreover have "\<not> event_out_of_order aw_committed (Some aw_snapshot) None 1500 1500" "wt_user_event_sources aw_committed = []"
    by (simp_all add: event_out_of_order_def c aw_read_def aw_snapshot_def aw_fresh_def fresh_watch_def)
  ultimately have "handle_known_event aw_config ''ACCOUNT_UPDATE'' aw_event 1500 1500 1500 aw_committed
      = accept_event aw_config aw_updated (event_source aw_config ''ACCOUNT_UPDATE'' aw_event) 1500 (dumps aw_event) aw_committed"
    by (simp add: handle_known_event_def sbind_def with_state_def Let_def aw_applies)
  then show ?thesis
    using handle_known [OF aw_event_known aw_times] accept_event_applies [OF g] by fastforce
qed


theorem user_event_fails_closed_witness:
  "\<exists>s. handle_user_event aw_config aw_event 1500 aw_committed = (Inr True, s) \<and> applied aw_config aw_committed s
     \<and> handle_user_event aw_config aw_event 2000 s = (Inr False, s)"
proof -
  obtain s where s: "handle_user_event aw_config aw_event 1500 aw_committed = (Inr True, s)" using aw_accepts by blast
  obtain db where c: "aw_committed = aw_read\<lparr>wt_db := db, wt_latest_snapshot := Some aw_snapshot\<rparr>" using aw_committed_simps by blast
  have "as_last_rest_at_ms aw_snapshot = 1000" "wt_conflict_count aw_read = 0"
    by (simp_all add: aw_snapshot_def aw_read_def aw_fresh_def fresh_watch_def)
  then have "watch_ok aw_config 1000 aw_committed" using aw_genuine by (simp add: watch_ok_def c)
  from user_event_fails_closed [OF this _ s] s show ?thesis by auto
qed

end
