(* ===== verification/Market_Stream.thy ===== *)
theory Market_Stream
  imports Json_Values
begin

text \<open>
  The market stream (\<open>live_market/service.py\<close>): the last mark price, order book and candle with the exchange's time and the time of receipt of
  each, what a message changes, and the observation built from them. \<open>json.loads\<close> and the content hash are parameters.
  The loop of \<open>run_stream\<close> appears as what it does on each of its events: a connection, a message, the end of a connection.
\<close>

datatype market_component = Mark | Book | Kline

record market_config =
  mc_symbol :: string
  mc_loads :: "string \<Rightarrow> json option"
  mc_hash :: hasher

record market_state =
  ms_mark_price :: flt
  ms_best_bid :: flt
  ms_best_ask :: flt
  ms_kline_close :: flt
  ms_kline_open_time :: int
  ms_kline_close_time :: int
  ms_source_timestamp_ms :: int
  ms_receipt_timestamp_ms :: int
  ms_component_times :: "market_component \<rightharpoonup> int \<times> int"
  ms_connected :: bool

definition fresh_market :: market_state where
  "fresh_market = \<lparr>ms_mark_price = 0, ms_best_bid = 0, ms_best_ask = 0, ms_kline_close = 0, ms_kline_open_time = 0, ms_kline_close_time = 0,
     ms_source_timestamp_ms = 0, ms_receipt_timestamp_ms = 0, ms_component_times = Map.empty, ms_connected = False\<rparr>"

definition int_or :: "int option \<Rightarrow> int \<Rightarrow> int" where
  "int_or x d = (case x of Some n \<Rightarrow> if n = 0 then d else n | None \<Rightarrow> d)"

definition update_simulated :: "flt \<Rightarrow> flt \<Rightarrow> flt \<Rightarrow> flt \<Rightarrow> int \<Rightarrow> int option \<Rightarrow> int option \<Rightarrow> market_state \<Rightarrow> market_state" where
  "update_simulated mark bid ask close now open_time close_time s =
     s\<lparr>ms_mark_price := mark, ms_best_bid := bid, ms_best_ask := ask, ms_kline_close := close, ms_kline_open_time := int_or open_time (now - 60000),
       ms_kline_close_time := int_or close_time now, ms_source_timestamp_ms := now, ms_receipt_timestamp_ms := now,
       ms_component_times := (\<lambda>_. Some (now, now)), ms_connected := True\<rparr>"

definition market_spread_bps :: "market_state \<Rightarrow> flt" where
  "market_spread_bps s =
     (let mid = quot (ms_best_bid s + ms_best_ask s) (Fin 2)
      in if 0 < mid then quot (ms_best_ask s - ms_best_bid s) mid * Fin 10000 else 0)"

text \<open>The keyword arguments of \<open>MarketObservationV1.build\<close>.\<close>

definition observed_market :: "market_config \<Rightarrow> market_state \<Rightarrow> market_observation" where
  "observed_market C s =
     (let times = ms_component_times s
      in \<lparr>mo_symbol = py_upper (mc_symbol C), mo_mark_price = ms_mark_price s, mo_best_bid = ms_best_bid s, mo_best_ask = ms_best_ask s,
          mo_kline_1m_close = ms_kline_close s, mo_kline_1m_open_time_ms = ms_kline_open_time s, mo_kline_1m_close_time_ms = ms_kline_close_time s,
          mo_source_timestamp_ms = ms_source_timestamp_ms s, mo_receipt_timestamp_ms = ms_receipt_timestamp_ms s,
          mo_mark_source_timestamp_ms = map_option fst (times Mark), mo_mark_receipt_timestamp_ms = map_option snd (times Mark),
          mo_book_source_timestamp_ms = map_option fst (times Book), mo_book_receipt_timestamp_ms = map_option snd (times Book),
          mo_kline_source_timestamp_ms = map_option fst (times Kline), mo_kline_receipt_timestamp_ms = map_option snd (times Kline),
          mo_stream_connected = ms_connected s, mo_spread_bps = pymax 0 (market_spread_bps s), mo_observation_hash = []\<rparr>)"

definition latest_observation :: "market_config \<Rightarrow> market_state \<Rightarrow> market_observation option res" where
  "latest_observation C s =
     (if ms_mark_price s \<le> 0 \<or> ms_best_bid s \<le> 0 \<or> ms_best_ask s \<le> 0 \<or> ms_kline_close s \<le> 0 then Inr None
      else bindR (market_validate (mc_hash C) True (observed_market C s)) (\<lambda>m. Inr (Some m)))"

section \<open>Messages\<close>

text \<open>What a well-formed message says: the values of one component and the exchange's time.\<close>

datatype quote = Mark_Quote (quote_mark: flt) | Book_Quote (quote_bid: flt) (quote_ask: flt) | Kline_Quote (quote_close: flt) (quote_open_ms: int) (quote_close_ms: int)

fun quote_component :: "quote \<Rightarrow> market_component" where
  "quote_component (Mark_Quote p) = Mark"
| "quote_component (Book_Quote b a) = Book"
| "quote_component (Kline_Quote c t u) = Kline"

text \<open>The lookup of the event type in a dict; a list or an object as a key raises.\<close>

definition component_of :: "json \<Rightarrow> market_component option res" where
  "component_of v =
     (case v of
        JStr e \<Rightarrow> Inr (if e = ''markPriceUpdate'' then Some Mark else if e = ''bookTicker'' then Some Book else if e = ''kline'' then Some Kline else None)
      | JArr xs \<Rightarrow> Inl (TypeError ''unhashable type: list'')
      | JObj kvs \<Rightarrow> Inl (TypeError ''unhashable type: dict'')
      | _ \<Rightarrow> Inr None)"

fun required_keys :: "market_component \<Rightarrow> string list" where
  "required_keys Mark = [''p'']"
| "required_keys Book = [''b'', ''a'']"
| "required_keys Kline = [''c'', ''t'', ''T'']"

fun read_quote :: "market_component \<Rightarrow> json \<Rightarrow> quote res" where
  "read_quote Mark v = bindR (bindR (item_of v ''p'') py_float) (\<lambda>p. Inr (Mark_Quote p))"
| "read_quote Book v = bindR (bindR (item_of v ''b'') py_float) (\<lambda>b. bindR (bindR (item_of v ''a'') py_float) (\<lambda>a. Inr (Book_Quote b a)))"
| "read_quote Kline v = bindR (bindR (item_of v ''c'') py_float) (\<lambda>c. bindR (bindR (item_of v ''t'') json_int) (\<lambda>t.
     bindR (bindR (item_of v ''T'') json_int) (\<lambda>u. Inr (Kline_Quote c t u))))"

text \<open>The message up to its exchange time: ignored, a quote with its time, or an exception.\<close>

definition read_message :: "market_config \<Rightarrow> string \<Rightarrow> (quote \<times> int) option res" where
  "read_message C raw =
     (case mc_loads C raw of
        None \<Rightarrow> Inl (ValueError ''JSONDecodeError'')
      | Some data \<Rightarrow>
          bindR (get_attr data ''data'' data) (\<lambda>payload.
          bindR (get_attr payload ''e'' JNull) (\<lambda>e.
          bindR (component_of e) (\<lambda>found.
          case found of
            None \<Rightarrow> Inr None
          | Some component \<Rightarrow>
              if dict_get payload ''E'' = None then Inr None
              else let values = (if component = Kline then get_or payload ''k'' (JObj []) else payload)
                   in if \<not> is_dict values \<or> (\<exists>k \<in> set (required_keys component). dict_get values k = None) then Inr None
                      else bindR (read_quote component values) (\<lambda>q.
                           bindR (bindR (item_of payload ''E'') json_int) (\<lambda>source. Inr (Some (q, source))))))))"

fun show_quote :: "quote \<Rightarrow> market_state \<Rightarrow> market_state" where
  "show_quote (Mark_Quote p) s = s\<lparr>ms_mark_price := p\<rparr>"
| "show_quote (Book_Quote b a) s = s\<lparr>ms_best_bid := b, ms_best_ask := a\<rparr>"
| "show_quote (Kline_Quote c t u) s = s\<lparr>ms_kline_close := c, ms_kline_open_time := t, ms_kline_close_time := u\<rparr>"

definition last_source :: "market_state \<Rightarrow> market_component \<Rightarrow> int" where
  "last_source s c = (case ms_component_times s c of Some (source, receipt) \<Rightarrow> source | None \<Rightarrow> 0)"

definition take_quote :: "quote \<Rightarrow> int \<Rightarrow> int \<Rightarrow> market_state \<Rightarrow> market_state" where
  "take_quote q source receipt s =
     (if receipt < source \<or> source < last_source s (quote_component q) then s
      else show_quote q (s\<lparr>ms_component_times := (ms_component_times s)(quote_component q \<mapsto> (source, receipt)), ms_source_timestamp_ms := source,
             ms_receipt_timestamp_ms := receipt\<rparr>))"

definition handle_message :: "market_config \<Rightarrow> string \<Rightarrow> int \<Rightarrow> market_state \<Rightarrow> market_state res" where
  "handle_message C raw receipt s =
     bindR (read_message C raw) (\<lambda>found. Inr (case found of None \<Rightarrow> s | Some (q, source) \<Rightarrow> take_quote q source receipt s))"

section \<open>Stream\<close>

datatype stream_event = Connected | Message string int | Ended

fun stream_step :: "market_config \<Rightarrow> stream_event \<Rightarrow> market_state \<Rightarrow> market_state" where
  "stream_step C Connected s = s\<lparr>ms_connected := True\<rparr>"
| "stream_step C (Message raw receipt) s = (case handle_message C raw receipt s of Inr t \<Rightarrow> t | Inl e \<Rightarrow> s\<lparr>ms_connected := False\<rparr>)"
| "stream_step C Ended s = s\<lparr>ms_connected := False\<rparr>"

definition run_stream :: "market_config \<Rightarrow> stream_event list \<Rightarrow> market_state \<Rightarrow> market_state" where
  "run_stream C events s = foldl (\<lambda>s e. stream_step C e s) s events"

end
