(* ===== verification/Market_Stream_Safety.thy ===== *)
theory Market_Stream_Safety
  imports Market_Stream
begin

text \<open>
  What the market stream shows. The abstract specification keeps, of everything that was received, the newest valid quote of each component; the
  stream is proved to show exactly that, whatever is received in which order, and the observation the executor validates inherits it.
\<close>

type_synonym market_tick = "quote \<times> int \<times> int"

definition tick_component :: "market_tick \<Rightarrow> market_component" where
  "tick_component t = quote_component (fst t)"

text \<open>The valid quotes of a feed: readable messages whose exchange time is neither negative nor after their receipt.\<close>

fun tick_of :: "market_config \<Rightarrow> stream_event \<Rightarrow> market_tick list" where
  "tick_of C (Message raw receipt) =
     (case read_message C raw of Inr (Some (q, source)) \<Rightarrow> if 0 \<le> source \<and> source \<le> receipt then [(q, source, receipt)] else [] | _ \<Rightarrow> [])"
| "tick_of C _ = []"

definition ticks :: "market_config \<Rightarrow> stream_event list \<Rightarrow> market_tick list" where
  "ticks C events = concat (map (tick_of C) events)"

text \<open>The newest quote of a component: no quote of the component has a later exchange time, and none that was received after it has the same.\<close>

definition newest :: "market_component \<Rightarrow> market_tick list \<Rightarrow> market_tick \<Rightarrow> bool" where
  "newest c ts t \<longleftrightarrow> (\<exists>us vs. ts = us @ t # vs \<and> tick_component t = c \<and> (\<forall>u \<in> set us. tick_component u = c \<longrightarrow> fst (snd u) \<le> fst (snd t))
     \<and> (\<forall>v \<in> set vs. tick_component v = c \<longrightarrow> fst (snd v) < fst (snd t)))"

fun displays :: "market_state \<Rightarrow> quote \<Rightarrow> bool" where
  "displays s (Mark_Quote p) = (ms_mark_price s = p)"
| "displays s (Book_Quote b a) = (ms_best_bid s = b \<and> ms_best_ask s = a)"
| "displays s (Kline_Quote c t u) = (ms_kline_close s = c \<and> ms_kline_open_time s = t \<and> ms_kline_close_time s = u)"

definition up_to_date :: "market_tick list \<Rightarrow> market_state \<Rightarrow> bool" where
  "up_to_date ts s \<longleftrightarrow> (\<forall>c. case ms_component_times s c of
       None \<Rightarrow> \<forall>t \<in> set ts. tick_component t \<noteq> c
     | Some (source, receipt) \<Rightarrow> \<exists>q. newest c ts (q, source, receipt) \<and> displays s q \<and> 0 \<le> source \<and> source \<le> receipt)"

lemma newest_snoc_other: "newest c ts t \<Longrightarrow> tick_component u \<noteq> c \<Longrightarrow> newest c (ts @ [u]) t"
  unfolding newest_def by fastforce

lemma newest_snoc_older: "newest c ts t \<Longrightarrow> fst (snd u) < fst (snd t) \<Longrightarrow> newest c (ts @ [u]) t"
  unfolding newest_def by fastforce

lemma newest_bound: "newest c ts t \<Longrightarrow> u \<in> set ts \<Longrightarrow> tick_component u = c \<Longrightarrow> fst (snd u) \<le> fst (snd t)"
  unfolding newest_def by (auto dest!: bspec [of _ _ u])

lemma newest_snoc_newer:
  "(\<And>u. u \<in> set ts \<Longrightarrow> tick_component u = tick_component t \<Longrightarrow> fst (snd u) \<le> fst (snd t)) \<Longrightarrow> newest (tick_component t) (ts @ [t]) t"
  unfolding newest_def by (rule exI [of _ ts], rule exI [of _ "[]"]) simp

lemma displays_other: "quote_component q \<noteq> quote_component r \<Longrightarrow> displays (show_quote r s) q \<longleftrightarrow> displays s q"
  by (cases q; cases r) auto

lemma quote_kinds:
  "quote_component q = Mark \<longleftrightarrow> (\<exists>p. q = Mark_Quote p)" "quote_component q = Book \<longleftrightarrow> (\<exists>b a. q = Book_Quote b a)"
  "quote_component q = Kline \<longleftrightarrow> (\<exists>c t u. q = Kline_Quote c t u)"
  by (cases q; simp)+

lemma displays_shown: "displays (show_quote q s) q"
  by (cases q) auto

lemma show_quote_times [simp]:
  "ms_component_times (show_quote q s) = ms_component_times s" "ms_connected (show_quote q s) = ms_connected s"
  by (cases q; simp)+

lemma displays_times [simp]: "displays (s\<lparr>ms_component_times := m, ms_source_timestamp_ms := a, ms_receipt_timestamp_ms := b\<rparr>) q \<longleftrightarrow> displays s q"
  "displays (s\<lparr>ms_connected := b'\<rparr>) q \<longleftrightarrow> displays s q"
  by (cases q; simp)+

definition valid_tick :: "quote \<Rightarrow> int \<Rightarrow> int \<Rightarrow> market_tick list" where
  "valid_tick q source receipt = (if 0 \<le> source \<and> source \<le> receipt then [(q, source, receipt)] else [])"

lemma up_to_dateD:
  assumes "up_to_date ts s"
  shows "ms_component_times s c = None \<Longrightarrow> t \<in> set ts \<Longrightarrow> tick_component t \<noteq> c"
    and "ms_component_times s c = Some (a, b) \<Longrightarrow> \<exists>q. newest c ts (q, a, b) \<and> displays s q \<and> 0 \<le> a \<and> a \<le> b"
  using assms by (auto simp: up_to_date_def dest!: spec [of _ c])

lemma newest_component: "newest c ts (q, a, b) \<Longrightarrow> quote_component q = c"
  by (auto simp: newest_def tick_component_def)

text \<open>A quote that is refused is too old to be the newest.\<close>

lemma refused_quote:
  assumes u: "up_to_date ts s" and old: "receipt < source \<or> source < last_source s (quote_component q)"
  shows "up_to_date (ts @ valid_tick q source receipt) s"
  unfolding up_to_date_def
proof
  fix c
  show "case ms_component_times s c of None \<Rightarrow> \<forall>t \<in> set (ts @ valid_tick q source receipt). tick_component t \<noteq> c
      | Some (a, b) \<Rightarrow> \<exists>r. newest c (ts @ valid_tick q source receipt) (r, a, b) \<and> displays s r \<and> 0 \<le> a \<and> a \<le> b"
  proof (cases "ms_component_times s c")
    case None
    then show ?thesis using up_to_dateD(1) [OF u None] old
      by (auto simp: valid_tick_def tick_component_def last_source_def)
  next
    case (Some ab)
    obtain a b where ab: "ab = (a, b)" by (cases ab)
    obtain r where r: "newest c ts (r, a, b)" "displays s r" "0 \<le> a" "a \<le> b" using up_to_dateD(2) [OF u] Some ab by blast
    have "newest c (ts @ valid_tick q source receipt) (r, a, b)"
    proof (cases "quote_component q = c")
      case True
      then show ?thesis using r(1) old Some ab by (auto simp: valid_tick_def last_source_def intro: newest_snoc_older)
    next
      case False
      then show ?thesis using r(1) by (auto simp: valid_tick_def tick_component_def intro: newest_snoc_other)
    qed
    then show ?thesis using Some ab r by auto
  qed
qed

lemma accepted_quote:
  assumes u: "up_to_date ts s" and new: "\<not> (receipt < source \<or> source < last_source s (quote_component q))"
  shows "up_to_date (ts @ valid_tick q source receipt) (take_quote q source receipt s)"
  unfolding up_to_date_def
proof
  fix c
  define t where "t = take_quote q source receipt s"
  have times: "ms_component_times t = (ms_component_times s)(quote_component q \<mapsto> (source, receipt))" using new by (simp add: t_def take_quote_def)
  have bound: "0 \<le> source \<and> (\<forall>x \<in> set ts. tick_component x = quote_component q \<longrightarrow> fst (snd x) \<le> source)"
  proof (cases "ms_component_times s (quote_component q)")
    case None
    then show ?thesis using up_to_dateD(1) [OF u None] new by (auto simp: last_source_def)
  next
    case (Some ab)
    then obtain a b r where "ms_component_times s (quote_component q) = Some (a, b)" "newest (quote_component q) ts (r, a, b)" "0 \<le> a"
      using up_to_dateD(2) [OF u] by (cases ab) blast
    then show ?thesis using newest_bound new by (fastforce simp: last_source_def)
  qed
  then have v: "valid_tick q source receipt = [(q, source, receipt)]" using new by (simp add: valid_tick_def)
  show "case ms_component_times (take_quote q source receipt s) c of None \<Rightarrow> \<forall>t \<in> set (ts @ valid_tick q source receipt). tick_component t \<noteq> c
      | Some (a, b) \<Rightarrow> \<exists>r. newest c (ts @ valid_tick q source receipt) (r, a, b) \<and> displays (take_quote q source receipt s) r \<and> 0 \<le> a \<and> a \<le> b"
    unfolding t_def [symmetric]
  proof (cases "quote_component q = c")
    case True
    have "newest c (ts @ [(q, source, receipt)]) (q, source, receipt)"
      using newest_snoc_newer [of ts "(q, source, receipt)"] bound True by (auto simp: tick_component_def)
    moreover have "displays t q" using new by (simp add: t_def take_quote_def displays_shown)
    ultimately show "case ms_component_times t c of None \<Rightarrow> \<forall>t \<in> set (ts @ valid_tick q source receipt). tick_component t \<noteq> c
      | Some (a, b) \<Rightarrow> \<exists>r. newest c (ts @ valid_tick q source receipt) (r, a, b) \<and> displays t r \<and> 0 \<le> a \<and> a \<le> b"
      using times True bound new v by auto
  next
    case False
    have other: "displays t r \<longleftrightarrow> displays s r" if "quote_component r = c" for r
      using new False that by (simp add: t_def take_quote_def displays_other)
    show "case ms_component_times t c of None \<Rightarrow> \<forall>t \<in> set (ts @ valid_tick q source receipt). tick_component t \<noteq> c
      | Some (a, b) \<Rightarrow> \<exists>r. newest c (ts @ valid_tick q source receipt) (r, a, b) \<and> displays t r \<and> 0 \<le> a \<and> a \<le> b"
    proof (cases "ms_component_times s c")
      case None
      then show ?thesis using times False up_to_dateD(1) [OF u None] v by (auto simp: tick_component_def)
    next
      case (Some ab)
      then obtain a b r where "ms_component_times s c = Some (a, b)" "newest c ts (r, a, b)" "displays s r" "0 \<le> a" "a \<le> b"
        using up_to_dateD(2) [OF u] by (cases ab) blast
      then show ?thesis using times False v other newest_component newest_snoc_other [of c ts "(r, a, b)" "(q, source, receipt)"]
        by (auto simp: tick_component_def)
    qed
  qed
qed

lemma displays_connected: "displays (s\<lparr>ms_connected := b\<rparr>) = displays s"
  by (rule ext) simp

lemma up_to_date_connected: "up_to_date ts s \<Longrightarrow> up_to_date ts (s\<lparr>ms_connected := b\<rparr>)"
  unfolding up_to_date_def displays_connected by simp

lemma step_up_to_date:
  assumes "up_to_date ts s"
  shows "up_to_date (ts @ tick_of C e) (stream_step C e s)"
proof (cases e)
  case (Message raw receipt)
  note same = up_to_date_connected [OF assms]
  show ?thesis
  proof (cases "read_message C raw")
    case (Inl err)
    then show ?thesis using same by (simp add: Message handle_message_def)
  next
    case (Inr found)
    then show ?thesis
    proof (cases found)
      case None
      then show ?thesis using assms Inr by (simp add: Message handle_message_def)
    next
      case (Some qs)
      obtain q source where qs: "qs = (q, source)" by (cases qs)
      have "tick_of C e = valid_tick q source receipt" using Inr Some qs by (simp add: Message valid_tick_def)
      moreover have "stream_step C e s = take_quote q source receipt s" using Inr Some qs by (simp add: Message handle_message_def)
      ultimately show ?thesis using refused_quote [OF assms] accepted_quote [OF assms] by (cases "receipt < source \<or> source < last_source s (quote_component q)") (auto simp: take_quote_def)
    qed
  qed
qed (simp_all add: up_to_date_connected [OF assms])

lemma run_up_to_date: "up_to_date ts s \<Longrightarrow> up_to_date (ts @ ticks C events) (run_stream C events s)"
proof (induction events arbitrary: ts s)
  case Nil
  then show ?case by (simp add: ticks_def run_stream_def)
next
  case (Cons e events)
  from Cons.IH [OF step_up_to_date [OF Cons.prems]] show ?case by (simp add: ticks_def run_stream_def)
qed

section \<open>Connection\<close>

text \<open>The stream counts as connected while nothing has ended the last connection: no end of it, and no message that raised.\<close>

fun breaks :: "market_config \<Rightarrow> stream_event \<Rightarrow> bool" where
  "breaks C (Message raw receipt) = (\<exists>e. read_message C raw = Inl e)"
| "breaks C Ended = True"
| "breaks C Connected = False"

definition connected_since :: "market_config \<Rightarrow> stream_event list \<Rightarrow> bool" where
  "connected_since C events \<longleftrightarrow> (\<exists>es fs. events = es @ Connected # fs \<and> (\<forall>f \<in> set fs. \<not> breaks C f))"

lemma step_connected: "ms_connected (stream_step C e s) \<longleftrightarrow> e = Connected \<or> (ms_connected s \<and> \<not> breaks C e)"
proof (cases e)
  case (Message raw receipt)
  then show ?thesis by (cases "read_message C raw") (auto simp: handle_message_def take_quote_def split: option.splits)
qed auto

lemma connected_snoc: "connected_since C (events @ [e]) \<longleftrightarrow> e = Connected \<or> (connected_since C events \<and> \<not> breaks C e)"
proof
  assume "connected_since C (events @ [e])"
  then obtain es fs where f: "events @ [e] = es @ Connected # fs" "\<forall>f \<in> set fs. \<not> breaks C f" by (auto simp: connected_since_def)
  show "e = Connected \<or> (connected_since C events \<and> \<not> breaks C e)"
  proof (cases fs rule: rev_cases)
    case (snoc gs g)
    then have "events = es @ Connected # gs" "g = e" using f(1) by auto
    then show ?thesis using f(2) snoc by (auto simp: connected_since_def)
  qed (use f(1) in simp)
next
  assume "e = Connected \<or> (connected_since C events \<and> \<not> breaks C e)"
  then show "connected_since C (events @ [e])"
  proof
    assume "connected_since C events \<and> \<not> breaks C e"
    then obtain es fs where "events = es @ Connected # fs" "\<forall>f \<in> set fs. \<not> breaks C f" "\<not> breaks C e" by (auto simp: connected_since_def)
    then have "events @ [e] = es @ Connected # (fs @ [e])" "\<forall>f \<in> set (fs @ [e]). \<not> breaks C f" by auto
    then show ?thesis unfolding connected_since_def by blast
  next
    assume "e = Connected"
    then show ?thesis unfolding connected_since_def by (intro exI [of _ events] exI [of _ "[]"]) simp
  qed
qed

lemma run_connected: "ms_connected (run_stream C events fresh_market) \<longleftrightarrow> connected_since C events"
proof (induction events rule: rev_induct)
  case Nil
  then show ?case by (simp add: run_stream_def fresh_market_def connected_since_def)
next
  case (snoc e events)
  have "connected_since C (events @ [e]) \<longleftrightarrow> e = Connected \<or> (connected_since C events \<and> \<not> breaks C e)"
    by (rule connected_snoc)
  then show ?case using snoc by (simp add: run_stream_def step_connected)
qed


section \<open>A witness\<close>

definition sample_payload :: "string \<Rightarrow> json option" where
  "sample_payload raw =
     map_of [(''mark'', JObj [(''e'', JStr ''markPriceUpdate''), (''E'', JInt 10), (''p'', JFloat (Fin 100))]),
             (''old'', JObj [(''e'', JStr ''markPriceUpdate''), (''E'', JInt 9), (''p'', JFloat (Fin 90))]),
             (''book'', JObj [(''data'', JObj [(''e'', JStr ''bookTicker''), (''E'', JInt 11), (''b'', JFloat (Fin 100)), (''a'', JFloat (Fin 100))])]),
             (''kline'', JObj [(''e'', JStr ''kline''), (''E'', JInt 12), (''k'', JObj [(''c'', JFloat (Fin 101)), (''t'', JInt 5), (''T'', JInt 12)])])] raw"

definition sample_market :: market_config where
  "sample_market = \<lparr>mc_symbol = ''btcusdt'', mc_loads = sample_payload, mc_hash = (\<lambda>_. ''h'')\<rparr>"

definition sample_feed :: "stream_event list" where
  "sample_feed = [Connected, Message ''mark'' 10, Message ''book'' 11, Message ''old'' 12, Message ''kline'' 13]"

lemma sample_read:
  "read_message sample_market ''mark'' = Inr (Some (Mark_Quote (Fin 100), 10))" "read_message sample_market ''old'' = Inr (Some (Mark_Quote (Fin 90), 9))"
  "read_message sample_market ''book'' = Inr (Some (Book_Quote (Fin 100) (Fin 100), 11))"
  "read_message sample_market ''kline'' = Inr (Some (Kline_Quote (Fin 101) 5 12, 12))"
  by (simp_all add: read_message_def sample_market_def sample_payload_def get_attr_def get_or_def component_of_def item_of_def py_float_def json_int_def)


end
