(* ===== verification/Ledger.thy ===== *)
theory Ledger
  imports Canonical "HOL-Library.AList"
begin

text \<open>
  The economic ledger of the simulator: the events of an account (\<open>economic/trade_event.py\<close>), its positions and its cash
  (\<open>economic/portfolio.py\<close>), and the funding cash flows (\<open>economic/funding.py\<close>). Amounts are binary64 values, so every
  sum and product rounds as in the code. A dict of positions is an association list in insertion order, because the
  equity adds the positions in that order; the metadata of an event is a map.

  A call that raises leaves the account as it was: each operation validates the new position and the new event before
  it assigns anything, and is a function that returns the event and the new account, or an exception.
\<close>

section \<open>Trade events\<close>

datatype trade_action = OPEN_LONG | CLOSE_LONG | OPEN_SHORT | CLOSE_SHORT | FUNDING_SETTLEMENT

record trade_event =
  te_timestamp_ms :: int
  te_action :: trade_action
  te_price :: flt
  te_quantity :: flt
  te_fee_usdt :: flt
  te_funding_usdt :: flt
  te_position_after :: flt
  te_cash_after :: flt
  te_realized_pnl_usdt :: flt
  te_trade_id :: string
  te_signal_id :: string
  te_observation_timestamp_ms :: "int option"
  te_decision_timestamp_ms :: "int option"
  te_order_timestamp_ms :: "int option"
  te_settlement_timestamp_ms :: "int option"
  te_metadata :: "string \<rightharpoonup> json"

definition finite_value :: "flt \<Rightarrow> string \<Rightarrow> unit res" where
  "finite_value x nm = require (isfinite x) (ValueError (nm @ '' must be finite''))"

definition all_finite :: "(string \<times> flt) list \<Rightarrow> unit res" where
  "all_finite xs = foldr (\<lambda>(nm, x) rest. bindR (finite_value x nm) (\<lambda>_. rest)) xs (Inr ())"

definition positive_ms :: "int option \<Rightarrow> string \<Rightarrow> unit res" where
  "positive_ms t nm = require (\<forall>x \<in> set_option t. 0 < x) (ValueError (nm @ '' must be a positive integer''))"

definition ms_order :: "string \<Rightarrow> string \<Rightarrow> int option \<Rightarrow> int option \<Rightarrow> string \<Rightarrow> unit res" where
  "ms_order later earlier t s verb =
     (case (t, s) of
        (Some x, Some y) \<Rightarrow> require (y \<le> x) (ValueError (later @ '' ('' @ show_int x @ '') cannot '' @ verb @ '' before '' @ earlier @ '' ('' @ show_int y @ '')''))
      | _ \<Rightarrow> Inr ())"

text \<open>\<open>TradeEvent.__post_init__\<close>.\<close>

definition trade_event_validate :: "trade_event \<Rightarrow> unit res" where
  "trade_event_validate e =
     bindR (require (0 < te_timestamp_ms e) (ValueError ''timestamp_ms must be a positive integer'')) (\<lambda>_.
     bindR (all_finite [(''price'', te_price e), (''quantity'', te_quantity e), (''fee_usdt'', te_fee_usdt e), (''funding_usdt'', te_funding_usdt e),
       (''position_after'', te_position_after e), (''cash_after'', te_cash_after e), (''realized_pnl_usdt'', te_realized_pnl_usdt e)]) (\<lambda>_.
     bindR (require (\<not> (te_price e \<le> 0 \<or> te_quantity e < 0 \<or> te_fee_usdt e < 0))
              (ValueError ''Event requires positive price and nonnegative quantity/fee'')) (\<lambda>_.
     bindR (if te_action e = FUNDING_SETTLEMENT
            then require (feq (te_fee_usdt e) 0 \<and> feq (te_realized_pnl_usdt e) 0) (ValueError ''Funding events cannot contain trading fees or realized PnL'')
            else require (\<not> (te_quantity e \<le> 0 \<or> \<not> feq (te_funding_usdt e) 0)) (ValueError ''Trade events require positive quantity and zero funding'')) (\<lambda>_.
     bindR (positive_ms (te_observation_timestamp_ms e) ''observation_timestamp_ms'') (\<lambda>_.
     bindR (positive_ms (te_decision_timestamp_ms e) ''decision_timestamp_ms'') (\<lambda>_.
     bindR (positive_ms (te_order_timestamp_ms e) ''order_timestamp_ms'') (\<lambda>_.
     bindR (positive_ms (te_settlement_timestamp_ms e) ''settlement_timestamp_ms'') (\<lambda>_.
     bindR (ms_order ''decision_timestamp_ms'' ''observation_timestamp_ms'' (te_decision_timestamp_ms e) (te_observation_timestamp_ms e) ''occur'') (\<lambda>_.
     bindR (ms_order ''order_timestamp_ms'' ''decision_timestamp_ms'' (te_order_timestamp_ms e) (te_decision_timestamp_ms e) ''occur'') (\<lambda>_.
     bindR (ms_order ''fill timestamp_ms'' ''order_timestamp_ms'' (Some (te_timestamp_ms e)) (te_order_timestamp_ms e) ''occur'') (\<lambda>_.
     ms_order ''settlement_timestamp_ms'' ''fill timestamp_ms'' (te_settlement_timestamp_ms e) (Some (te_timestamp_ms e)) ''occur'')))))))))))"

definition net_cashflow_usdt :: "trade_event \<Rightarrow> flt" where
  "net_cashflow_usdt e = te_realized_pnl_usdt e - te_fee_usdt e + te_funding_usdt e"

text \<open>\<open>==\<close> on the dictionaries of two events. Numbers compare by value, whatever their type.\<close>

fun number_of :: "json \<Rightarrow> flt option" where
  "number_of (JInt n) = Some (Fin (of_int n))"
| "number_of (JBool b) = Some (Fin (if b then 1 else 0))"
| "number_of (JFloat x) = Some x"
| "number_of _ = None"

definition value_eq :: "json \<Rightarrow> json \<Rightarrow> bool" where
  "value_eq u v \<longleftrightarrow> u = v \<or> (case (number_of u, number_of v) of (Some x, Some y) \<Rightarrow> feq x y | _ \<Rightarrow> False)"

definition metadata_eq :: "(string \<rightharpoonup> json) \<Rightarrow> (string \<rightharpoonup> json) \<Rightarrow> bool" where
  "metadata_eq m n \<longleftrightarrow> dom m = dom n \<and> (\<forall>k \<in> dom m. value_eq (the (m k)) (the (n k)))"

definition event_eq :: "trade_event \<Rightarrow> trade_event \<Rightarrow> bool" where
  "event_eq d e \<longleftrightarrow> te_timestamp_ms d = te_timestamp_ms e \<and> te_action d = te_action e \<and> feq (te_price d) (te_price e)
     \<and> feq (te_quantity d) (te_quantity e) \<and> feq (te_fee_usdt d) (te_fee_usdt e) \<and> feq (te_funding_usdt d) (te_funding_usdt e)
     \<and> feq (te_position_after d) (te_position_after e) \<and> feq (te_cash_after d) (te_cash_after e)
     \<and> feq (te_realized_pnl_usdt d) (te_realized_pnl_usdt e) \<and> te_trade_id d = te_trade_id e \<and> te_signal_id d = te_signal_id e
     \<and> te_observation_timestamp_ms d = te_observation_timestamp_ms e \<and> te_decision_timestamp_ms d = te_decision_timestamp_ms e
     \<and> te_order_timestamp_ms d = te_order_timestamp_ms e \<and> te_settlement_timestamp_ms d = te_settlement_timestamp_ms e
     \<and> metadata_eq (te_metadata d) (te_metadata e)"

section \<open>Portfolio\<close>

record ledger_position =
  lp_asset :: string
  lp_quantity :: flt
  lp_average_entry_price :: flt
  lp_entry_timestamp_ms :: int

definition ledger_position_validate :: "ledger_position \<Rightarrow> unit res" where
  "ledger_position_validate p =
     bindR (finite_value (lp_quantity p) ''quantity'') (\<lambda>_.
     bindR (finite_value (lp_average_entry_price p) ''average_entry_price'') (\<lambda>_.
     bindR (require (py_strip (lp_asset p) \<noteq> [] \<and> \<not> feq (lp_quantity p) 0 \<and> \<not> lp_average_entry_price p \<le> 0)
              (ValueError ''Position requires asset, nonzero quantity and positive entry price'')) (\<lambda>_.
     require (0 < lp_entry_timestamp_ms p) (ValueError ''entry_timestamp_ms must be a positive integer''))))"

definition unrealized_pnl :: "ledger_position \<Rightarrow> flt \<Rightarrow> flt res" where
  "unrealized_pnl p price =
     bindR (finite_value price ''current_price'') (\<lambda>_.
     bindR (require (\<not> price \<le> 0) (ValueError ''current_price must be positive'')) (\<lambda>_.
     (let result = lp_quantity p * (price - lp_average_entry_price p)
      in bindR (finite_value result ''unrealized_pnl'') (\<lambda>_. Inr result))))"

record portfolio =
  pf_initial_cash :: flt
  pf_cash :: flt
  pf_positions :: "(string \<times> ledger_position) list"
  pf_trade_history :: "trade_event list"

definition new_portfolio :: "flt \<Rightarrow> portfolio res" where
  "new_portfolio cash =
     bindR (finite_value cash ''initial_cash'') (\<lambda>_.
     bindR (require (\<not> cash \<le> 0) (ValueError ''initial_cash must be positive'')) (\<lambda>_.
     Inr \<lparr>pf_initial_cash = cash, pf_cash = cash, pf_positions = [], pf_trade_history = []\<rparr>))"

definition validate_event_input :: "portfolio \<Rightarrow> int \<Rightarrow> string \<Rightarrow> unit res" where
  "validate_event_input p t asset =
     bindR (require (0 < t) (ValueError ''timestamp_ms must be a positive integer'')) (\<lambda>_.
     bindR (require (pf_trade_history p \<noteq> [] \<longrightarrow> te_timestamp_ms (last (pf_trade_history p)) \<le> t) (ValueError ''Backwards ledger timestamp'')) (\<lambda>_.
     require (py_strip asset \<noteq> []) (ValueError ''asset cannot be empty'')))"

definition get_position_quantity :: "portfolio \<Rightarrow> string \<Rightarrow> flt" where
  "get_position_quantity p asset = (case map_of (pf_positions p) asset of Some q \<Rightarrow> lp_quantity q | None \<Rightarrow> 0)"

fun add_equity :: "(string \<rightharpoonup> flt) \<Rightarrow> flt \<Rightarrow> (string \<times> ledger_position) list \<Rightarrow> flt res" where
  "add_equity marks eq [] = Inr eq"
| "add_equity marks eq ((asset, pos) # rest) =
     (case marks asset of
        None \<Rightarrow> Inl (ValueError (''Missing mark price for '' @ asset))
      | Some price \<Rightarrow> bindR (unrealized_pnl pos price) (\<lambda>x. add_equity marks (eq + x) rest))"

definition total_equity :: "portfolio \<Rightarrow> (string \<rightharpoonup> flt) \<Rightarrow> flt res" where
  "total_equity p marks =
     bindR (add_equity marks (pf_cash p) (pf_positions p)) (\<lambda>eq. bindR (finite_value eq ''equity'') (\<lambda>_. Inr eq))"

text \<open>The position after a trade: its quantity, its entry price and the realized profit.\<close>

definition trade_direction :: "trade_action \<Rightarrow> flt" where
  "trade_direction a = (if a \<in> {OPEN_LONG, CLOSE_LONG} then Fin 1 else Fin (- 1))"

definition trade_effect :: "trade_action \<Rightarrow> flt \<Rightarrow> flt \<Rightarrow> flt \<Rightarrow> flt \<Rightarrow> (flt \<times> flt \<times> flt) res" where
  "trade_effect action curr_qty curr_entry price quantity =
     (let direction = trade_direction action
      in if action \<in> {OPEN_LONG, OPEN_SHORT} then
           (if curr_qty * direction < 0 then Inl (ValueError ''Close the opposite position before opening'')
            else let size = \<bar>curr_qty\<bar> + quantity
                 in if feq size \<bar>curr_qty\<bar> then Inl (ValueError ''Quantity increment is below floating-point resolution'')
                    else Inr (direction * size, curr_entry * quot \<bar>curr_qty\<bar> size + price * quot quantity size, 0))
         else
           (if curr_qty * direction \<le> 0 then Inl (ValueError ''Close action does not match an open position'')
            else if \<bar>curr_qty\<bar> < quantity then Inl (ValueError ''Close quantity exceeds the open position'')
            else let new_qty = direction * (\<bar>curr_qty\<bar> - quantity)
                 in if feq new_qty curr_qty then Inl (ValueError ''Close quantity is below floating-point resolution'')
                    else Inr (new_qty, curr_entry, direction * quantity * (price - curr_entry))))"

record trade_order =
  to_timestamp_ms :: int
  to_action :: trade_action
  to_asset :: string
  to_price :: flt
  to_quantity :: flt
  to_fee_usdt :: flt
  to_signal_id :: string
  to_trade_id :: string
  to_observation_timestamp_ms :: "int option"
  to_decision_timestamp_ms :: "int option"
  to_order_timestamp_ms :: "int option"
  to_settlement_timestamp_ms :: "int option"
  to_metadata :: "string \<rightharpoonup> json"

definition trade_event_of :: "trade_order \<Rightarrow> flt \<Rightarrow> flt \<Rightarrow> flt \<Rightarrow> trade_event" where
  "trade_event_of o1 new_qty new_cash realized =
     \<lparr>te_timestamp_ms = to_timestamp_ms o1, te_action = to_action o1, te_price = to_price o1, te_quantity = to_quantity o1,
      te_fee_usdt = to_fee_usdt o1, te_funding_usdt = 0, te_position_after = new_qty, te_cash_after = new_cash,
      te_realized_pnl_usdt = realized, te_trade_id = to_trade_id o1, te_signal_id = to_signal_id o1,
      te_observation_timestamp_ms = to_observation_timestamp_ms o1, te_decision_timestamp_ms = to_decision_timestamp_ms o1,
      te_order_timestamp_ms = to_order_timestamp_ms o1, te_settlement_timestamp_ms = to_settlement_timestamp_ms o1,
      te_metadata = (to_metadata o1)(''asset'' \<mapsto> JStr (to_asset o1))\<rparr>"

definition apply_trade :: "portfolio \<Rightarrow> trade_order \<Rightarrow> (trade_event \<times> portfolio) res" where
  "apply_trade p o1 =
     bindR (validate_event_input p (to_timestamp_ms o1) (to_asset o1)) (\<lambda>_.
     bindR (require (to_action o1 \<noteq> FUNDING_SETTLEMENT) (ValueError ''Use apply_funding for funding settlements'')) (\<lambda>_.
     bindR (all_finite [(''quantity'', to_quantity o1), (''price'', to_price o1), (''fee_usdt'', to_fee_usdt o1)]) (\<lambda>_.
     bindR (require (\<not> (to_quantity o1 \<le> 0 \<or> to_price o1 \<le> 0 \<or> to_fee_usdt o1 < 0))
              (ValueError ''Trade requires positive quantity/price and nonnegative fee'')) (\<lambda>_.
     (let current = map_of (pf_positions p) (to_asset o1);
          curr_qty = (case current of Some q \<Rightarrow> lp_quantity q | None \<Rightarrow> 0);
          curr_entry = (case current of Some q \<Rightarrow> lp_average_entry_price q | None \<Rightarrow> 0)
      in bindR (trade_effect (to_action o1) curr_qty curr_entry (to_price o1) (to_quantity o1)) (\<lambda>(new_qty, new_entry, realized).
         (let new_cash = pf_cash p + realized - to_fee_usdt o1;
              new_position = \<lparr>lp_asset = to_asset o1, lp_quantity = new_qty, lp_average_entry_price = new_entry,
                lp_entry_timestamp_ms = (case current of Some q \<Rightarrow> lp_entry_timestamp_ms q | None \<Rightarrow> to_timestamp_ms o1)\<rparr>;
              event = trade_event_of o1 new_qty new_cash realized
          in bindR (if feq new_qty 0 then Inr () else ledger_position_validate new_position) (\<lambda>_.
             bindR (trade_event_validate event) (\<lambda>_.
             Inr (event, p\<lparr>pf_positions := (if feq new_qty 0 then AList.delete (to_asset o1) (pf_positions p)
                                           else AList.update (to_asset o1) new_position (pf_positions p)),
                          pf_cash := new_cash, pf_trade_history := pf_trade_history p @ [event]\<rparr>))))))))))"

definition funding_event :: "portfolio \<Rightarrow> int \<Rightarrow> string \<Rightarrow> flt \<Rightarrow> flt \<Rightarrow> trade_event" where
  "funding_event p t asset cashflow mark_price =
     (let qty = get_position_quantity p asset
      in \<lparr>te_timestamp_ms = t, te_action = FUNDING_SETTLEMENT, te_price = mark_price, te_quantity = \<bar>qty\<bar>, te_fee_usdt = 0,
          te_funding_usdt = cashflow, te_position_after = qty, te_cash_after = pf_cash p + cashflow, te_realized_pnl_usdt = 0,
          te_trade_id = [], te_signal_id = [], te_observation_timestamp_ms = None, te_decision_timestamp_ms = None,
          te_order_timestamp_ms = None, te_settlement_timestamp_ms = None,
          te_metadata = [''asset'' \<mapsto> JStr asset, ''funding_cashflow'' \<mapsto> JFloat cashflow]\<rparr>)"

definition apply_funding :: "portfolio \<Rightarrow> int \<Rightarrow> string \<Rightarrow> flt \<Rightarrow> flt \<Rightarrow> (trade_event \<times> portfolio) res" where
  "apply_funding p t asset cashflow mark_price =
     bindR (validate_event_input p t asset) (\<lambda>_.
     bindR (finite_value cashflow ''cashflow_usdt'') (\<lambda>_.
     bindR (require (\<not> (feq (get_position_quantity p asset) 0 \<and> \<not> feq cashflow 0)) (ValueError ''Nonzero funding requires an open position'')) (\<lambda>_.
     (let event = funding_event p t asset cashflow mark_price
      in bindR (trade_event_validate event) (\<lambda>_.
         Inr (event, p\<lparr>pf_cash := te_cash_after event, pf_trade_history := pf_trade_history p @ [event]\<rparr>))))))"

section \<open>Restoring an account\<close>

definition replayed_order :: "trade_event \<Rightarrow> string \<Rightarrow> trade_order" where
  "replayed_order e asset =
     \<lparr>to_timestamp_ms = te_timestamp_ms e, to_action = te_action e, to_asset = asset, to_price = te_price e, to_quantity = te_quantity e,
      to_fee_usdt = te_fee_usdt e, to_signal_id = te_signal_id e, to_trade_id = te_trade_id e,
      to_observation_timestamp_ms = te_observation_timestamp_ms e, to_decision_timestamp_ms = te_decision_timestamp_ms e,
      to_order_timestamp_ms = te_order_timestamp_ms e, to_settlement_timestamp_ms = te_settlement_timestamp_ms e,
      to_metadata = (te_metadata e)(''asset'' := None)\<rparr>"

definition replay_event :: "portfolio \<Rightarrow> trade_event \<Rightarrow> portfolio res" where
  "replay_event p e =
     (case te_metadata e ''asset'' of
        Some (JStr asset) \<Rightarrow>
          if py_strip asset = [] then Inl (TypeError ''Restored event requires an asset string'')
          else bindR (if te_action e = FUNDING_SETTLEMENT
                      then apply_funding p (te_timestamp_ms e) asset (te_funding_usdt e) (te_price e)
                      else apply_trade p (replayed_order e asset)) (\<lambda>(actual, p').
               if event_eq actual e then Inr p' else Inl (ValueError ''Restored event disagrees with replayed ledger''))
      | _ \<Rightarrow> Inl (TypeError ''Restored event requires an asset string''))"

fun replay_events :: "portfolio \<Rightarrow> trade_event list \<Rightarrow> portfolio res" where
  "replay_events p [] = Inr p"
| "replay_events p (e # es) = bindR (replay_event p e) (\<lambda>p'. replay_events p' es)"

definition from_events :: "flt \<Rightarrow> trade_event list \<Rightarrow> portfolio res" where
  "from_events initial_cash events = bindR (new_portfolio initial_cash) (\<lambda>p. replay_events p events)"

section \<open>Funding\<close>

record funding_settlement =
  fs_timestamp_ms :: int
  fs_funding_rate :: flt
  fs_mark_price :: flt

definition calculate_cashflow :: "flt \<Rightarrow> flt \<Rightarrow> flt \<Rightarrow> flt" where
  "calculate_cashflow quantity mark_price rate =
     (if \<bar>quantity\<bar> < lit (1 / 10 ^ 12) then 0 else Fin (- 1) * quantity * mark_price * rate)"

definition accumulate_funding :: "flt \<Rightarrow> int \<Rightarrow> int \<Rightarrow> funding_settlement list \<Rightarrow> flt \<times> funding_settlement list" where
  "accumulate_funding quantity entry_ms exit_ms events =
     (if \<bar>quantity\<bar> < lit (1 / 10 ^ 12) \<or> exit_ms \<le> entry_ms then (0, [])
      else let settled = filter (\<lambda>e. entry_ms \<le> fs_timestamp_ms e \<and> fs_timestamp_ms e \<le> exit_ms) events
           in (foldl (\<lambda>total e. total + calculate_cashflow quantity (fs_mark_price e) (fs_funding_rate e)) 0 settled, settled))"

end
