(* ===== verification/Fee_Model.thy ===== *)
theory Fee_Model
  imports Ledger
begin

text \<open>
  Costs and sizes of simulated orders: the fee and slippage model (\<open>economic/fee_model.py\<close>), the signals and the trade policy
  that turns them into orders (\<open>economic/signal.py\<close>, \<open>economic/policy.py\<close>), each dataclass with its own validation.
\<close>

section \<open>Fees and slippage\<close>

datatype slippage_mode = ZERO | FIXED_BPS | SPREAD_AND_IMPACT

record fee_model =
  fm_maker_fee_rate :: flt
  fm_taker_fee_rate :: flt
  fm_slippage_mode :: slippage_mode
  fm_fixed_slippage_bps :: flt
  fm_impact_coefficient :: flt
  fm_max_slippage_bps :: "flt option"

definition finite_nonnegative :: "flt \<Rightarrow> bool" where
  "finite_nonnegative x \<longleftrightarrow> \<not> (\<not> isfinite x \<or> x < 0)"

definition fee_validate :: "fee_model \<Rightarrow> unit res" where
  "fee_validate F =
     bindR (require (finite_nonnegative (fm_maker_fee_rate F)) (ValueError ''maker_fee_rate must be finite and nonnegative'')) (\<lambda>_.
     bindR (require (finite_nonnegative (fm_taker_fee_rate F)) (ValueError ''taker_fee_rate must be finite and nonnegative'')) (\<lambda>_.
     bindR (require (finite_nonnegative (fm_fixed_slippage_bps F)) (ValueError ''fixed_slippage_bps must be finite and nonnegative'')) (\<lambda>_.
     bindR (require (finite_nonnegative (fm_impact_coefficient F)) (ValueError ''impact_coefficient must be finite and nonnegative'')) (\<lambda>_.
     bindR (require (opt_all finite_nonnegative (fm_max_slippage_bps F)) (ValueError ''max_slippage_bps must be finite and nonnegative'')) (\<lambda>_.
     bindR (require (\<not> Fin 10000 \<le> fm_fixed_slippage_bps F) (ValueError ''fixed_slippage_bps must be less than 10,000'')) (\<lambda>_.
     require (opt_all (\<lambda>x. \<not> Fin 10000 \<le> x) (fm_max_slippage_bps F)) (ValueError ''max_slippage_bps must be less than 10,000'')))))))"

definition check_reference :: "flt \<Rightarrow> unit res" where
  "check_reference price =
     require (\<not> (\<not> isfinite price \<or> price \<le> 0)) (ValueError (''reference_price must be positive; got '' @ float_repr price))"

definition spread_ok :: "flt option \<Rightarrow> bool" where
  "spread_ok spread \<longleftrightarrow> opt_all finite_nonnegative spread"

definition worst_case_price_bound :: "fee_model \<Rightarrow> flt \<Rightarrow> int \<Rightarrow> flt option \<Rightarrow> flt option res" where
  "worst_case_price_bound F price side spread =
     bindR (check_reference price) (\<lambda>_.
     bindR (require (side \<in> {-1, 1}) (ValueError (''side must be -1 or 1; got '' @ show_int side))) (\<lambda>_.
     bindR (require (spread_ok spread) (ValueError ''current_spread_bps must be finite and nonnegative when provided'')) (\<lambda>_.
     Inr (case fm_slippage_mode F of
            ZERO \<Rightarrow> Some price
          | FIXED_BPS \<Rightarrow> Some (price * (Fin 1 + quot (fm_fixed_slippage_bps F) (Fin 10000)))
          | SPREAD_AND_IMPACT \<Rightarrow> map_option (\<lambda>m. price * (Fin 1 + quot m (Fin 10000))) (fm_max_slippage_bps F)))))"

definition calculate_fee :: "fee_model \<Rightarrow> flt \<Rightarrow> bool \<Rightarrow> flt" where
  "calculate_fee F notional is_maker = \<bar>notional\<bar> * (if is_maker then fm_maker_fee_rate F else fm_taker_fee_rate F)"

definition calculate_slippage_bps :: "fee_model \<Rightarrow> flt \<Rightarrow> flt \<Rightarrow> flt option \<Rightarrow> flt \<Rightarrow> flt res" where
  "calculate_slippage_bps F quantity price spread volume =
     bindR (all_finite [(''quantity'', quantity), (''price'', price), (''bar_volume_base'', volume)]) (\<lambda>_.
     bindR (require (\<not> quantity < 0) (ValueError ''quantity must be nonnegative'')) (\<lambda>_.
     bindR (require (\<not> price \<le> 0) (ValueError ''price must be positive'')) (\<lambda>_.
     bindR (require (\<not> volume < 0) (ValueError ''bar_volume_base must be nonnegative'')) (\<lambda>_.
     case fm_slippage_mode F of
       ZERO \<Rightarrow> Inr 0
     | FIXED_BPS \<Rightarrow> Inr (fm_fixed_slippage_bps F)
     | SPREAD_AND_IMPACT \<Rightarrow>
         (case spread of
            None \<Rightarrow>
              (case fm_max_slippage_bps F of
                 None \<Rightarrow> Inl (ValueError ''SPREAD_AND_IMPACT requires causal current_spread_bps or a declared max_slippage_bps adverse scenario'')
               | Some m \<Rightarrow> Inr m)
          | Some s \<Rightarrow>
              bindR (require (finite_nonnegative s) (ValueError ''current_spread_bps must be finite and nonnegative'')) (\<lambda>_.
              (let half_spread = quot s (Fin 2);
                   impact = (if 0 < volume \<and> 0 < quantity then fm_impact_coefficient F * quot quantity volume * Fin 10000 else 0);
                   raw = half_spread + impact
               in Inr (case fm_max_slippage_bps F of Some m \<Rightarrow> pymin raw m | None \<Rightarrow> raw))))))))"

definition effective_fill_price :: "fee_model \<Rightarrow> flt \<Rightarrow> flt \<Rightarrow> int \<Rightarrow> bool \<Rightarrow> flt option \<Rightarrow> flt \<Rightarrow> flt res" where
  "effective_fill_price F price quantity side is_maker spread volume =
     bindR (check_reference price) (\<lambda>_.
     bindR (require (side \<in> {-1, 1}) (ValueError (''side must be -1 (SELL) or +1 (BUY); got '' @ show_int side))) (\<lambda>_.
     bindR (require (\<not> (\<not> isfinite quantity \<or> quantity \<le> 0)) (ValueError ''quantity must be finite and positive'')) (\<lambda>_.
     if is_maker then Inr price
     else bindR (calculate_slippage_bps F quantity price spread volume) (\<lambda>bps.
       (let factor = quot bps (Fin 10000); result = (if side = 1 then price * (Fin 1 + factor) else price * (Fin 1 - factor))
        in bindR (require (\<not> (\<not> isfinite result \<or> result \<le> 0)) (ValueError ''configured slippage produces a nonpositive fill price''))
             (\<lambda>_. Inr result))))))"

section \<open>Signals and policy\<close>

datatype order_type = MARKET | LIMIT

datatype sizing_type = FIXED_NOTIONAL | VOLATILITY_SCALED | RISK_FRACTION

record information_signal =
  is_signal_id :: string
  is_experiment_id :: string
  is_timestamp_ms :: int
  is_asset :: string
  is_direction :: int
  is_strength :: flt
  is_horizon_ms :: int
  is_metadata :: "string \<rightharpoonup> json"

definition signal_validate :: "information_signal \<Rightarrow> unit res" where
  "signal_validate s =
     bindR (require (is_signal_id s \<noteq> []) (ValueError ''signal_id cannot be empty'')) (\<lambda>_.
     bindR (require (is_experiment_id s \<noteq> []) (ValueError ''experiment_id cannot be empty'')) (\<lambda>_.
     bindR (require (0 < is_timestamp_ms s) (ValueError ''timestamp_ms must be positive'')) (\<lambda>_.
     bindR (require (is_direction s \<in> {-1, 0, 1}) (ValueError (''direction must be -1, 0, or 1; got '' @ show_int (is_direction s)))) (\<lambda>_.
     require (0 < is_horizon_ms s) (ValueError (''horizon_ms must be positive; got '' @ show_int (is_horizon_ms s)))))))"

definition is_actionable :: "information_signal \<Rightarrow> bool" where
  "is_actionable s \<longleftrightarrow> is_direction s \<noteq> 0 \<and> \<not> feq (is_strength s) 0"

record trade_policy =
  tr_policy_id :: string
  tr_name :: string
  tr_min_signal_strength :: flt
  tr_order_type :: order_type
  tr_limit_offset_bps :: flt
  tr_time_in_force_ms :: int
  tr_allowed_directions :: "int list"
  tr_stop_loss_pct :: "flt option"
  tr_take_profit_pct :: "flt option"
  tr_trailing_stop_pct :: "flt option"
  tr_decay_exit_on_signal_reversal :: bool
  tr_max_holding_ms :: int
  tr_ambiguous_exit_handling :: string
  tr_sizing_type :: sizing_type
  tr_target_notional :: flt
  tr_risk_fraction :: flt
  tr_max_leverage :: flt
  tr_max_gross_exposure_usdt :: flt
  tr_max_open_positions :: int
  tr_max_drawdown_stop_pct :: flt
  tr_min_volume_usdt_15m :: flt
  tr_max_spread_bps :: "flt option"
  tr_allowed_regimes :: "string list"

text \<open>The \<open>__post_init__\<close> of each rule, in the order the objects are built.\<close>

definition entry_rule_validate :: "trade_policy \<Rightarrow> unit res" where
  "entry_rule_validate P =
     bindR (finite_value (tr_min_signal_strength P) ''min_signal_strength'') (\<lambda>_.
     bindR (require (\<not> tr_min_signal_strength P < 0) (ValueError ''min_signal_strength must be nonnegative'')) (\<lambda>_.
     bindR (finite_value (tr_limit_offset_bps P) ''limit_offset_bps'') (\<lambda>_.
     bindR (require (0 < tr_time_in_force_ms P) (ValueError ''time_in_force_ms must be a positive integer'')) (\<lambda>_.
     bindR (require (tr_allowed_directions P \<noteq> []) (ValueError ''allowed_directions cannot be empty'')) (\<lambda>_.
     (case find (\<lambda>d. d \<notin> {1, -1}) (tr_allowed_directions P) of
        None \<Rightarrow> Inr () | Some d \<Rightarrow> Inl (ValueError (''invalid allowed direction: '' @ show_int d))))))))"

definition pct_validate :: "string \<Rightarrow> bool \<Rightarrow> flt option \<Rightarrow> unit res" where
  "pct_validate nm capped v =
     (case v of
        None \<Rightarrow> Inr ()
      | Some x \<Rightarrow>
          bindR (finite_value x nm) (\<lambda>_.
          require (\<not> (x \<le> 0 \<or> (capped \<and> Fin 1 < x))) (ValueError (nm @ (if capped then '' must be in (0, 1]'' else '' must be positive'')))))"

definition exit_rule_validate :: "trade_policy \<Rightarrow> unit res" where
  "exit_rule_validate P =
     bindR (pct_validate ''stop_loss_pct'' True (tr_stop_loss_pct P)) (\<lambda>_.
     bindR (pct_validate ''take_profit_pct'' False (tr_take_profit_pct P)) (\<lambda>_.
     bindR (pct_validate ''trailing_stop_pct'' True (tr_trailing_stop_pct P)) (\<lambda>_.
     bindR (require (0 < tr_max_holding_ms P) (ValueError ''max_holding_ms must be a positive integer'')) (\<lambda>_.
     require (tr_ambiguous_exit_handling P \<in> {''CONSERVATIVE_STOP_FIRST'', ''REJECT_AMBIGUOUS''})
       (ValueError (''unsupported ambiguous_exit_handling: '' @ tr_ambiguous_exit_handling P))))))"

definition sizing_validate :: "trade_policy \<Rightarrow> unit res" where
  "sizing_validate P =
     bindR (finite_value (tr_target_notional P) ''target_notional'') (\<lambda>_.
     bindR (require (\<not> tr_target_notional P \<le> 0) (ValueError ''target_notional must be positive'')) (\<lambda>_.
     bindR (finite_value (tr_risk_fraction P) ''risk_fraction'') (\<lambda>_.
     bindR (require (\<not> (tr_risk_fraction P \<le> 0 \<or> Fin 1 < tr_risk_fraction P)) (ValueError ''risk_fraction must be in (0, 1]'')) (\<lambda>_.
     bindR (finite_value (tr_max_leverage P) ''max_leverage'') (\<lambda>_.
     require (\<not> tr_max_leverage P \<le> 0) (ValueError ''max_leverage must be positive''))))))"

definition budget_validate :: "trade_policy \<Rightarrow> unit res" where
  "budget_validate P =
     bindR (finite_value (tr_max_gross_exposure_usdt P) ''max_gross_exposure_usdt'') (\<lambda>_.
     bindR (require (\<not> tr_max_gross_exposure_usdt P \<le> 0) (ValueError ''max_gross_exposure_usdt must be positive'')) (\<lambda>_.
     bindR (require (0 \<le> tr_max_open_positions P) (ValueError ''max_open_positions must be a nonnegative integer'')) (\<lambda>_.
     bindR (finite_value (tr_max_drawdown_stop_pct P) ''max_drawdown_stop_pct'') (\<lambda>_.
     require (\<not> (tr_max_drawdown_stop_pct P \<le> 0 \<or> Fin 1 < tr_max_drawdown_stop_pct P)) (ValueError ''max_drawdown_stop_pct must be in (0, 1]'')))))"

definition filter_validate :: "trade_policy \<Rightarrow> unit res" where
  "filter_validate P =
     bindR (finite_value (tr_min_volume_usdt_15m P) ''min_volume_usdt_15m'') (\<lambda>_.
     bindR (require (\<not> tr_min_volume_usdt_15m P < 0) (ValueError ''min_volume_usdt_15m cannot be negative'')) (\<lambda>_.
     (case tr_max_spread_bps P of
        None \<Rightarrow> Inr ()
      | Some x \<Rightarrow> bindR (finite_value x ''max_spread_bps'') (\<lambda>_. require (\<not> x < 0) (ValueError ''max_spread_bps cannot be negative'')))))"

definition policy_validate :: "trade_policy \<Rightarrow> unit res" where
  "policy_validate P =
     bindR (entry_rule_validate P) (\<lambda>_. bindR (exit_rule_validate P) (\<lambda>_. bindR (sizing_validate P) (\<lambda>_.
     bindR (budget_validate P) (\<lambda>_. bindR (filter_validate P) (\<lambda>_.
     bindR (require (tr_policy_id P \<noteq> []) (ValueError ''policy_id cannot be empty'')) (\<lambda>_.
     bindR (require (tr_name P \<noteq> []) (ValueError ''name cannot be empty'')) (\<lambda>_.
     require (\<not> (tr_sizing_type P = RISK_FRACTION \<and> (case tr_stop_loss_pct P of None \<Rightarrow> True | Some x \<Rightarrow> x \<le> 0)))
       (ValueError ''RISK_FRACTION sizing requires explicit positive stop_loss_pct in exit_rule''))))))))"

definition calculate_limit_price :: "trade_policy \<Rightarrow> flt \<Rightarrow> int \<Rightarrow> flt res" where
  "calculate_limit_price P price side =
     bindR (finite_value price ''reference_price'') (\<lambda>_.
     bindR (require (\<not> price \<le> 0) (ValueError ''reference_price must be positive'')) (\<lambda>_.
     (let offset = quot (tr_limit_offset_bps P) (Fin 10000)
      in if side = 1 then Inr (price * (Fin 1 - offset))
         else if side = -1 then Inr (price * (Fin 1 + offset))
         else Inl (ValueError (''side must be 1 or -1; got '' @ show_int side)))))"

definition spread_allowed :: "trade_policy \<Rightarrow> flt option \<Rightarrow> bool" where
  "spread_allowed P spread \<longleftrightarrow>
     (case tr_max_spread_bps P of
        Some m \<Rightarrow> (case spread of None \<Rightarrow> False | Some s \<Rightarrow> finite_nonnegative s \<and> \<not> m < s)
      | None \<Rightarrow> opt_all finite_nonnegative spread)"

definition volume_allowed :: "trade_policy \<Rightarrow> flt option \<Rightarrow> bool" where
  "volume_allowed P volume \<longleftrightarrow>
     (if 0 < tr_min_volume_usdt_15m P
      then (case volume of None \<Rightarrow> False | Some v \<Rightarrow> isfinite v \<and> \<not> v < tr_min_volume_usdt_15m P)
      else opt_all finite_nonnegative volume)"

definition should_enter :: "trade_policy \<Rightarrow> information_signal \<Rightarrow> flt option \<Rightarrow> flt option \<Rightarrow> string option \<Rightarrow> bool" where
  "should_enter P s spread volume regime \<longleftrightarrow>
     is_actionable s \<and> is_direction s \<in> set (tr_allowed_directions P) \<and> \<not> \<bar>is_strength s\<bar> < tr_min_signal_strength P
     \<and> spread_allowed P spread \<and> volume_allowed P volume
     \<and> \<not> (tr_allowed_regimes P \<noteq> [] \<and> (case regime of None \<Rightarrow> True | Some g \<Rightarrow> g \<notin> set (tr_allowed_regimes P)))"

definition leverage_cap :: "trade_policy \<Rightarrow> flt \<Rightarrow> flt" where
  "leverage_cap P equity = equity * tr_max_leverage P"

definition calculate_quantity :: "trade_policy \<Rightarrow> flt \<Rightarrow> flt \<Rightarrow> flt option \<Rightarrow> flt res" where
  "calculate_quantity P price equity atr =
     bindR (finite_value price ''current_price'') (\<lambda>_.
     if price \<le> 0 then Inr 0
     else bindR (finite_value equity ''portfolio_equity'') (\<lambda>_.
       if equity \<le> 0 then Inr 0
       else (case tr_sizing_type P of
           FIXED_NOTIONAL \<Rightarrow> Inr (quot (pymin (tr_target_notional P) (leverage_cap P equity)) price)
         | RISK_FRACTION \<Rightarrow>
             (case tr_stop_loss_pct P of
                None \<Rightarrow> Inl (ValueError ''RISK_FRACTION sizing requires explicit positive stop_loss_pct'')
              | Some sl \<Rightarrow>
                  if \<not> isfinite sl \<or> sl \<le> 0 then Inl (ValueError ''RISK_FRACTION sizing requires explicit positive stop_loss_pct'')
                  else Inr (quot (pymin (quot (equity * tr_risk_fraction P) sl) (leverage_cap P equity)) price))
         | VOLATILITY_SCALED \<Rightarrow>
             (case atr of
                None \<Rightarrow> Inl (ValueError ''VOLATILITY_SCALED sizing requires a finite positive current_atr'')
              | Some x \<Rightarrow>
                  if \<not> isfinite x \<or> x \<le> 0 then Inl (ValueError ''VOLATILITY_SCALED sizing requires a finite positive current_atr'')
                  else Inr (quot (pymin (quot (equity * tr_risk_fraction P) (pymax (lit (5 / 1000)) (quot x price))) (leverage_cap P equity)) price)))))"

end
