(* ===== verification/Execution_Model.thy ===== *)
theory Execution_Model
  imports Fee_Model
begin

text \<open>
  The execution model of the simulator (\<open>economic/execution_model.py\<close>): when, at which price and in which size an order fills on a
  series of candles (\<open>domain.py\<close>). Every outcome, filled or not, is an \<open>ExecutionResult\<close>, whose own validation may
  raise. The metadata of a result is a list of pairs in the order the code writes them. The order type is the enumeration, so
  the branch for an unsupported type does not arise.
\<close>

section \<open>Candles\<close>

record candle =
  cd_symbol :: string
  cd_open_time_ms :: int
  cd_close_time_ms :: int
  cd_open :: flt
  cd_high :: flt
  cd_low :: flt
  cd_close :: flt
  cd_volume :: flt
  cd_quote_volume :: flt
  cd_taker_buy_base_volume :: flt

definition candle_validate :: "candle \<Rightarrow> unit res" where
  "candle_validate c =
     bindR (require (cd_open_time_ms c < cd_close_time_ms c) (ValueError ''close_time_ms must be after open_time_ms'')) (\<lambda>_.
     bindR (all_finite [(''open'', cd_open c), (''high'', cd_high c), (''low'', cd_low c), (''close'', cd_close c), (''volume'', cd_volume c),
       (''quote_volume'', cd_quote_volume c), (''taker_buy_base_volume'', cd_taker_buy_base_volume c)]) (\<lambda>_.
     bindR (require (\<not> (pymin (cd_open c) (cd_close c) < cd_low c \<or> cd_high c < pymax (cd_open c) (cd_close c))) (ValueError ''invalid OHLC bounds'')) (\<lambda>_.
     require (\<not> (cd_high c < cd_low c \<or> pymin (pymin (cd_volume c) (cd_quote_volume c)) (cd_taker_buy_base_volume c) < 0)) (ValueError ''invalid candle''))))"

section \<open>Results\<close>

record execution_result =
  er_signal_timestamp_ms :: int
  er_order_timestamp_ms :: int
  er_fill_timestamp_ms :: int
  er_fill_price :: flt
  er_filled_quantity :: flt
  er_is_filled :: bool
  er_side :: int
  er_observation_timestamp_ms :: int
  er_decision_timestamp_ms :: int
  er_settlement_timestamp_ms :: int
  er_fee_usdt :: flt
  er_slippage_usdt :: flt
  er_rejection_reason :: "string option"
  er_metadata :: "(string \<times> json) list option"

definition result_validate :: "execution_result \<Rightarrow> execution_result res" where
  "result_validate r =
     bindR (require (er_observation_timestamp_ms r \<le> er_decision_timestamp_ms r \<and> er_decision_timestamp_ms r \<le> er_order_timestamp_ms r)
       (ValueError (''Timestamp ordering violation: observation ('' @ show_int (er_observation_timestamp_ms r) @ '') <= decision ('' @
          show_int (er_decision_timestamp_ms r) @ '') <= order ('' @ show_int (er_order_timestamp_ms r) @ '')''))) (\<lambda>_.
     if er_is_filled r then
       bindR (require (er_order_timestamp_ms r \<le> er_fill_timestamp_ms r \<and> er_fill_timestamp_ms r \<le> er_settlement_timestamp_ms r)
         (ValueError (''Timestamp ordering violation: order ('' @ show_int (er_order_timestamp_ms r) @ '') <= fill ('' @
            show_int (er_fill_timestamp_ms r) @ '') <= settlement ('' @ show_int (er_settlement_timestamp_ms r) @ '')''))) (\<lambda>_.
       bindR (finite_value (er_fill_price r) ''fill_price'') (\<lambda>_.
       bindR (finite_value (er_filled_quantity r) ''filled_quantity'') (\<lambda>_.
       bindR (require (\<not> er_fill_price r \<le> 0) (ValueError (''fill_price must be positive; got '' @ float_repr (er_fill_price r)))) (\<lambda>_.
       bindR (require (\<not> er_filled_quantity r \<le> 0) (ValueError (''filled_quantity must be positive; got '' @ float_repr (er_filled_quantity r)))) (\<lambda>_.
       Inr r)))))
     else
       bindR (require (er_order_timestamp_ms r \<le> er_fill_timestamp_ms r)
         (ValueError (''fill_timestamp_ms ('' @ show_int (er_fill_timestamp_ms r) @ '') cannot be before order_timestamp_ms ('' @
            show_int (er_order_timestamp_ms r) @ '')''))) (\<lambda>_. Inr r))"

section \<open>The model\<close>

record execution_model =
  em_fee_model :: fee_model
  em_decision_latency_ms :: int
  em_exchange_latency_ms :: int
  em_limit_fill_prob_on_touch :: flt
  em_order_submission_latency_ms :: int

definition execution_model_validate :: "execution_model \<Rightarrow> unit res" where
  "execution_model_validate M =
     require (0 \<le> em_order_submission_latency_ms M) (ValueError ''order_submission_latency_ms must be a nonnegative integer'')"

text \<open>\<open>_taker_fill_price\<close>: the price, the evidence of liquidity it rests on, or a reason to refuse.\<close>

definition taker_fill_price ::
  "execution_model \<Rightarrow> flt \<Rightarrow> flt \<Rightarrow> int \<Rightarrow> int \<Rightarrow> flt option \<Rightarrow> flt option \<Rightarrow> int option \<Rightarrow> flt option
     \<Rightarrow> (flt option \<times> string \<times> string option) res" where
  "taker_fill_price M price quantity side fill_ms spread liquidity available_at completed =
     (let F = em_fee_model M;
          priced = (\<lambda>sp volume source. bindR (effective_fill_price F price quantity side False sp volume) (\<lambda>x. Inr (Some x, source, None)))
      in if fm_slippage_mode F \<noteq> SPREAD_AND_IMPACT then priced spread 0 ''NOT_USED''
         else if feq (fm_impact_coefficient F) 0 then priced spread 0 ''NOT_REQUIRED_ZERO_IMPACT''
         else (case liquidity of
             Some v \<Rightarrow>
               (case available_at of
                  None \<Rightarrow> Inl AssertionError
                | Some t \<Rightarrow>
                    if fill_ms < t then Inr (None, ''FUTURE_LIQUIDITY_REJECTED'', Some ''CAUSAL_LIQUIDITY_NOT_YET_AVAILABLE'')
                    else priced spread v ''TIMESTAMPED_CAUSAL_LIQUIDITY'')
           | None \<Rightarrow>
               (case completed of
                  Some v \<Rightarrow>
                    if v \<le> 0 then Inr (None, ''COMPLETED_AT_FILL'', Some ''INSUFFICIENT_LIQUIDITY'')
                    else priced spread v ''COMPLETED_AT_FILL''
                | None \<Rightarrow>
                    if fm_max_slippage_bps F \<noteq> None then priced None 0 ''DECLARED_MAX_SLIPPAGE_SCENARIO''
                    else Inr (None, ''MISSING'', Some ''CAUSAL_LIQUIDITY_UNAVAILABLE''))))"

definition liquidity_cost_metadata ::
  "execution_model \<Rightarrow> string \<Rightarrow> flt option \<Rightarrow> int option \<Rightarrow> flt option \<Rightarrow> (string \<times> json) list" where
  "liquidity_cost_metadata M source liquidity available_at completed =
     (''liquidity_evidence'', JStr source) #
     (if source = ''TIMESTAMPED_CAUSAL_LIQUIDITY''
      then [(''causal_liquidity_volume_base'', jopt JFloat liquidity), (''causal_liquidity_available_at_ms'', jopt JInt available_at)]
      else if source = ''COMPLETED_AT_FILL'' then [(''completed_liquidity_volume_base'', jopt JFloat completed)]
      else if source = ''DECLARED_MAX_SLIPPAGE_SCENARIO''
      then [(''declared_max_slippage_bps'', jopt JFloat (fm_max_slippage_bps (em_fee_model M)))]
      else [])"

section \<open>Standing conditionals\<close>

datatype trigger_time = BAR_OPEN_KNOWN | INTRABAR_UNKNOWN

definition isclose :: "flt \<Rightarrow> flt \<Rightarrow> flt \<Rightarrow> bool" where
  "isclose x y tol \<longleftrightarrow> feq x y \<or> (isfinite x \<and> isfinite y \<and> \<bar>y - x\<bar> \<le> tol)"

definition conditional_result :: "int \<Rightarrow> int \<Rightarrow> int \<Rightarrow> execution_result" where
  "conditional_result armed fill_ms side =
     \<lparr>er_signal_timestamp_ms = armed, er_order_timestamp_ms = armed, er_fill_timestamp_ms = fill_ms, er_fill_price = 0, er_filled_quantity = 0,
      er_is_filled = False, er_side = side, er_observation_timestamp_ms = armed, er_decision_timestamp_ms = armed,
      er_settlement_timestamp_ms = fill_ms, er_fee_usdt = 0, er_slippage_usdt = 0, er_rejection_reason = None, er_metadata = None\<rparr>"

definition conditional_rejected :: "int \<Rightarrow> int \<Rightarrow> int \<Rightarrow> string \<Rightarrow> execution_result res" where
  "conditional_rejected armed fill_ms side reason =
     result_validate ((conditional_result armed fill_ms side)\<lparr>er_rejection_reason := Some reason\<rparr>)"

definition conditional_guards :: "int \<Rightarrow> int \<Rightarrow> flt \<Rightarrow> candle \<Rightarrow> trigger_time \<Rightarrow> flt option \<Rightarrow> unit res" where
  "conditional_guards armed observed price bar trigger spread =
     bindR (require (0 < armed) (ValueError ''armed_timestamp_ms must be a positive integer'')) (\<lambda>_.
     bindR (require (0 < observed) (ValueError ''trigger_observation_timestamp_ms must be a positive integer'')) (\<lambda>_.
     bindR (require (\<not> cd_open_time_ms bar < armed) (ValueError ''standing conditional must be armed no later than trigger bar open'')) (\<lambda>_.
     bindR (require (\<not> (\<not> isfinite price \<or> price \<le> 0)) (ValueError ''reference_price must be finite and positive'')) (\<lambda>_.
     bindR (require (spread_ok spread) (ValueError ''current_spread_bps must be finite and nonnegative when provided'')) (\<lambda>_.
     if trigger = BAR_OPEN_KNOWN then
       bindR (require (observed = cd_open_time_ms bar) (ValueError ''BAR_OPEN_KNOWN trigger must be observed at bar open'')) (\<lambda>_.
       require (isclose price (cd_open bar) (lit (1 / 10 ^ 12))) (ValueError ''BAR_OPEN_KNOWN trigger must use the actual bar open''))
     else require (observed = cd_close_time_ms bar) (ValueError ''INTRABAR_UNKNOWN trigger must be observed at bar close''))))))"

definition simulate_conditional_market_fill ::
  "execution_model \<Rightarrow> int \<Rightarrow> int \<Rightarrow> int \<Rightarrow> flt \<Rightarrow> flt \<Rightarrow> candle \<Rightarrow> trigger_time \<Rightarrow> flt option \<Rightarrow> execution_result res" where
  "simulate_conditional_market_fill M armed observed side quantity price bar trigger spread =
     (let F = em_fee_model M; adverse = (fm_slippage_mode F = SPREAD_AND_IMPACT)
      in bindR (conditional_guards armed observed price bar trigger spread) (\<lambda>_.
         if quantity \<le> 0 \<or> \<not> isfinite quantity then conditional_rejected armed observed side ''INVALID_QUANTITY''
         else if side \<notin> {-1, 1} then conditional_rejected armed observed side ''INVALID_SIDE''
         else if \<not> isfinite (cd_volume bar) \<or> cd_volume bar \<le> 0 then conditional_rejected armed observed side ''INSUFFICIENT_LIQUIDITY''
         else if adverse \<and> fm_max_slippage_bps F = None
         then Inl (ValueError ''SPREAD_AND_IMPACT standing conditionals require a declared max_slippage_bps adverse scenario'')
         else bindR (effective_fill_price F price quantity side False (if adverse then None else spread) (cd_volume bar)) (\<lambda>fill.
           result_validate ((conditional_result armed observed side)\<lparr>er_fill_price := fill, er_filled_quantity := quantity, er_is_filled := True,
             er_fee_usdt := calculate_fee F (fill * quantity) False, er_slippage_usdt := \<bar>fill - price\<bar> * quantity,
             er_metadata := Some [(''ref_price'', JFloat price), (''standing_order_armed_ms'', JInt armed),
               (''trigger_observation_timestamp_ms'', JInt observed),
               (''trigger_time_semantics'', JStr (if trigger = BAR_OPEN_KNOWN then ''BAR_OPEN_KNOWN'' else ''INTRABAR_UNKNOWN'')),
               (''spread_evidence'', JStr (if adverse then ''DECLARED_MAX_SLIPPAGE_SCENARIO'' else ''NOT_USED'')),
               (''causal_spread_bps'', jopt JFloat spread)]\<rparr>))))"

section \<open>Orders\<close>

record order_request =
  rq_signal_timestamp_ms :: int
  rq_side :: int
  rq_desired_quantity :: flt
  rq_order_type :: order_type
  rq_limit_price :: "flt option"
  rq_time_in_force_ms :: int
  rq_current_spread_bps :: "flt option"
  rq_observation_timestamp_ms :: "int option"
  rq_max_fill_notional :: "flt option"
  rq_open_price :: "flt option"
  rq_open_timestamp_ms :: "int option"
  rq_liquidity_volume_base :: "flt option"
  rq_liquidity_available_at_ms :: "int option"

definition positive_finite :: "flt \<Rightarrow> bool" where
  "positive_finite x \<longleftrightarrow> \<not> (\<not> isfinite x \<or> x \<le> 0)"

definition observed_ms :: "order_request \<Rightarrow> int" where
  "observed_ms q = (case rq_observation_timestamp_ms q of Some t \<Rightarrow> t | None \<Rightarrow> rq_signal_timestamp_ms q)"

definition request_guards :: "order_request \<Rightarrow> unit res" where
  "request_guards q =
     bindR (require (\<not> rq_signal_timestamp_ms q < observed_ms q)
       (ValueError (''observation_timestamp_ms ('' @ show_int (observed_ms q) @ '') cannot be after signal_timestamp_ms ('' @ show_int (rq_signal_timestamp_ms q) @ '')''))) (\<lambda>_.
     bindR (require (opt_all positive_finite (rq_max_fill_notional q)) (ValueError ''max_fill_notional must be finite and positive when provided'')) (\<lambda>_.
     bindR (require ((rq_open_price q = None) = (rq_open_timestamp_ms q = None))
       (ValueError ''observable opening executable price and timestamp must be provided together'')) (\<lambda>_.
     bindR (require (opt_all positive_finite (rq_open_price q)) (ValueError ''observable opening executable price must be finite and positive'')) (\<lambda>_.
     bindR (require (opt_all (\<lambda>t. 0 < t) (rq_open_timestamp_ms q)) (ValueError ''observable opening executable timestamp must be a positive integer'')) (\<lambda>_.
     bindR (require ((rq_liquidity_volume_base q = None) = (rq_liquidity_available_at_ms q = None))
       (ValueError ''causal liquidity value and availability timestamp are required together'')) (\<lambda>_.
     bindR (require (opt_all positive_finite (rq_liquidity_volume_base q)) (ValueError ''causal liquidity volume must be finite and positive'')) (\<lambda>_.
     require (opt_all (\<lambda>t. 0 < t) (rq_liquidity_available_at_ms q)) (ValueError ''causal liquidity availability timestamp must be a positive integer''))))))))"

definition decision_ms :: "execution_model \<Rightarrow> order_request \<Rightarrow> int" where
  "decision_ms M q = rq_signal_timestamp_ms q + em_decision_latency_ms M"

definition order_ms :: "execution_model \<Rightarrow> order_request \<Rightarrow> int" where
  "order_ms M q = decision_ms M q + em_order_submission_latency_ms M"

definition earliest_fill_ms :: "execution_model \<Rightarrow> order_request \<Rightarrow> int" where
  "earliest_fill_ms M q = order_ms M q + em_exchange_latency_ms M"

definition expiration_ms :: "execution_model \<Rightarrow> order_request \<Rightarrow> int" where
  "expiration_ms M q = order_ms M q + rq_time_in_force_ms q"

definition unfilled_result :: "execution_model \<Rightarrow> order_request \<Rightarrow> int \<Rightarrow> execution_result" where
  "unfilled_result M q t =
     \<lparr>er_signal_timestamp_ms = rq_signal_timestamp_ms q, er_order_timestamp_ms = order_ms M q, er_fill_timestamp_ms = t, er_fill_price = 0,
      er_filled_quantity = 0, er_is_filled = False, er_side = rq_side q, er_observation_timestamp_ms = observed_ms q,
      er_decision_timestamp_ms = decision_ms M q, er_settlement_timestamp_ms = t, er_fee_usdt = 0, er_slippage_usdt = 0,
      er_rejection_reason = None, er_metadata = None\<rparr>"

definition rejected :: "execution_model \<Rightarrow> order_request \<Rightarrow> int \<Rightarrow> string \<Rightarrow> (string \<times> json) list option \<Rightarrow> execution_result res" where
  "rejected M q t reason meta = result_validate ((unfilled_result M q t)\<lparr>er_rejection_reason := Some reason, er_metadata := meta\<rparr>)"

text \<open>The size of a fill under the reserved notional, and the fill itself.\<close>

definition capped_quantity :: "order_request \<Rightarrow> flt \<Rightarrow> flt \<times> bool" where
  "capped_quantity q price =
     (case rq_max_fill_notional q of
        Some m \<Rightarrow> if m < price * rq_desired_quantity q then (quot m price, True) else (rq_desired_quantity q, False)
      | None \<Rightarrow> (rq_desired_quantity q, False))"

definition filled_result :: "execution_model \<Rightarrow> order_request \<Rightarrow> int \<Rightarrow> flt \<Rightarrow> flt \<Rightarrow> (bool \<Rightarrow> (string \<times> json) list) \<Rightarrow> execution_result res" where
  "filled_result M q t reference price meta =
     (case capped_quantity q price of (quantity, capped) \<Rightarrow>
        result_validate ((unfilled_result M q t)\<lparr>er_fill_price := price, er_filled_quantity := quantity, er_is_filled := True,
          er_fee_usdt := calculate_fee (em_fee_model M) (price * quantity) False, er_slippage_usdt := \<bar>price - reference\<bar> * quantity,
          er_metadata := Some (meta capped)\<rparr>))"

definition size_metadata :: "order_request \<Rightarrow> bool \<Rightarrow> (string \<times> json) list" where
  "size_metadata q capped =
     [(''requested_quantity'', JFloat (rq_desired_quantity q)), (''max_fill_notional'', jopt JFloat (rq_max_fill_notional q)),
      (''notional_cap_applied'', JBool capped)]"

definition liquidity_metadata :: "execution_model \<Rightarrow> order_request \<Rightarrow> string \<Rightarrow> flt option \<Rightarrow> (string \<times> json) list" where
  "liquidity_metadata M q source completed =
     liquidity_cost_metadata M source (rq_liquidity_volume_base q) (rq_liquidity_available_at_ms q) completed"

definition spread_evidence :: "execution_model \<Rightarrow> order_request \<Rightarrow> string \<Rightarrow> string" where
  "spread_evidence M q source =
     (if fm_slippage_mode (em_fee_model M) = SPREAD_AND_IMPACT
      then (if source = ''DECLARED_MAX_SLIPPAGE_SCENARIO'' then ''DECLARED_MAX_SLIPPAGE_SCENARIO''
            else if rq_current_spread_bps q \<noteq> None then ''CAUSAL_SPREAD'' else ''DECLARED_MAX_SLIPPAGE_SCENARIO'')
      else ''NOT_USED'')"

definition market_fill :: "execution_model \<Rightarrow> order_request \<Rightarrow> candle \<Rightarrow> execution_result res" where
  "market_fill M q bar =
     (let earliest = earliest_fill_ms M q; at_open = (earliest \<le> cd_open_time_ms bar);
          reference = (if at_open then cd_open bar else cd_close bar);
          t = (if at_open then max earliest (cd_open_time_ms bar) else max earliest (cd_close_time_ms bar));
          completed = (if at_open then None else Some (cd_volume bar))
      in if (case completed of Some v \<Rightarrow> v \<le> 0 | None \<Rightarrow> False) then rejected M q t ''INSUFFICIENT_LIQUIDITY'' None
         else bindR (taker_fill_price M reference (rq_desired_quantity q) (rq_side q) t (rq_current_spread_bps q)
                       (rq_liquidity_volume_base q) (rq_liquidity_available_at_ms q) completed) (\<lambda>(price, source, refusal).
           case refusal of
             Some reason \<Rightarrow> rejected M q t reason (Some (liquidity_metadata M q source completed))
           | None \<Rightarrow>
               (case price of
                  None \<Rightarrow> Inl AssertionError
                | Some x \<Rightarrow> filled_result M q t reference x (\<lambda>capped.
                    [(''ref_price'', JFloat reference), (''candle_open_ms'', JInt (cd_open_time_ms bar)), (''spread_evidence'', JStr (spread_evidence M q source))]
                    @ liquidity_metadata M q source completed @ size_metadata q capped))))"

definition tick :: flt where
  "tick = lit (1 / 10 ^ 8)"

text \<open>The price at which an order can trade at the open of a bar, and the test against the limit.\<close>

definition opening_price :: "order_request \<Rightarrow> candle \<Rightarrow> flt res \<times> string" where
  "opening_price q bar =
     (if rq_open_timestamp_ms q = Some (cd_open_time_ms bar)
      then ((case rq_open_price q of None \<Rightarrow> Inl AssertionError | Some x \<Rightarrow> Inr x), ''TIMESTAMPED_EXECUTABLE_QUOTE'')
      else (Inr (cd_open bar), ''OHLC_OPEN''))"

definition within_limit :: "int \<Rightarrow> flt \<Rightarrow> flt \<Rightarrow> bool" where
  "within_limit side limit price \<longleftrightarrow> (side = 1 \<and> price \<le> limit + tick) \<or> (side = -1 \<and> limit - tick \<le> price)"

definition open_fill :: "execution_model \<Rightarrow> order_request \<Rightarrow> flt \<Rightarrow> candle \<Rightarrow> flt \<Rightarrow> string \<Rightarrow> execution_result res" where
  "open_fill M q limit bar opening evidence =
     (let t = cd_open_time_ms bar
      in bindR (taker_fill_price M opening (rq_desired_quantity q) (rq_side q) t (rq_current_spread_bps q)
                  (rq_liquidity_volume_base q) (rq_liquidity_available_at_ms q) None) (\<lambda>(price, source, refusal).
         case refusal of
           Some reason \<Rightarrow> rejected M q t reason (Some (liquidity_metadata M q source None))
         | None \<Rightarrow>
             (case price of
                None \<Rightarrow> Inl AssertionError
              | Some x \<Rightarrow>
                  if \<not> within_limit (rq_side q) limit x
                  then rejected M q t ''MARKETABLE_LIMIT_LIQUIDITY_INSUFFICIENT'' (Some (liquidity_metadata M q source None))
                  else filled_result M q t opening x (\<lambda>capped.
                    [(''limit_price'', JFloat limit), (''observable_open'', JFloat (cd_open bar)), (''opening_executable_price'', JFloat opening),
                     (''opening_executable_timestamp_ms'', JInt t), (''opening_price_evidence'', JStr evidence)]
                    @ liquidity_metadata M q source None @ [(''execution_time_semantics'', JStr ''BAR_OPEN_MARKETABLE'')] @ size_metadata q capped))))"

definition extreme :: "order_request \<Rightarrow> candle \<Rightarrow> flt" where
  "extreme q bar = (if rq_side q = 1 then cd_low bar else cd_high bar)"

definition traded_through :: "order_request \<Rightarrow> flt \<Rightarrow> candle \<Rightarrow> bool" where
  "traded_through q limit bar \<longleftrightarrow> (if rq_side q = 1 then cd_low bar < limit - tick else limit + tick < cd_high bar)"

definition exact_touch :: "order_request \<Rightarrow> flt \<Rightarrow> candle \<Rightarrow> bool" where
  "exact_touch q limit bar \<longleftrightarrow> \<bar>extreme q bar - limit\<bar> \<le> tick"

definition ambiguous_touch :: "execution_model \<Rightarrow> order_request \<Rightarrow> flt \<Rightarrow> candle \<Rightarrow> bool" where
  "ambiguous_touch M q limit bar \<longleftrightarrow>
     \<not> cd_volume bar \<le> 0 \<and> (traded_through q limit bar \<or> (exact_touch q limit bar \<and> Fin 1 \<le> em_limit_fill_prob_on_touch M))"

definition ambiguous_result :: "execution_model \<Rightarrow> order_request \<Rightarrow> flt \<Rightarrow> candle \<Rightarrow> execution_result res" where
  "ambiguous_result M q limit bar =
     rejected M q (min (expiration_ms M q) (cd_close_time_ms bar)) ''LIMIT_INTRABAR_TOUCH_AMBIGUOUS_NOT_TESTABLE''
       (Some [(''limit_price'', JFloat limit), (''observed_extreme'', JFloat (extreme q bar)), (''ambiguity_window_open_ms'', JInt (cd_open_time_ms bar)),
          (''ambiguity_window_close_ms'', JInt (cd_close_time_ms bar)), (''expiration_ms'', JInt (expiration_ms M q)),
          (''touch_kind'', JStr (if traded_through q limit bar then ''THROUGH'' else ''EXACT_TOUCH'')), (''execution_time_semantics'', JStr ''INTRABAR_UNKNOWN'')])"

fun limit_loop :: "execution_model \<Rightarrow> order_request \<Rightarrow> flt \<Rightarrow> candle list \<Rightarrow> execution_result res" where
  "limit_loop M q limit [] = rejected M q (expiration_ms M q) ''LIMIT_EXPIRED_UNFILLED'' None"
| "limit_loop M q limit (bar # bars) =
     (if expiration_ms M q < cd_open_time_ms bar then rejected M q (expiration_ms M q) ''LIMIT_EXPIRED_UNFILLED'' None
      else if cd_close_time_ms bar < earliest_fill_ms M q then limit_loop M q limit bars
      else if cd_open_time_ms bar < earliest_fill_ms M q then limit_loop M q limit bars
      else (case opening_price q bar of (opening, evidence) \<Rightarrow>
        bindR opening (\<lambda>price.
          if within_limit (rq_side q) limit price then open_fill M q limit bar price evidence
          else if ambiguous_touch M q limit bar then ambiguous_result M q limit bar
          else limit_loop M q limit bars)))"

definition simulate_order :: "execution_model \<Rightarrow> order_request \<Rightarrow> candle list \<Rightarrow> execution_result res" where
  "simulate_order M q candles =
     (let earliest = earliest_fill_ms M q
      in bindR (request_guards q) (\<lambda>_.
         if rq_desired_quantity q \<le> 0 then rejected M q earliest ''INVALID_QUANTITY'' None
         else if rq_side q \<notin> {1, -1} then rejected M q earliest ''INVALID_SIDE'' None
         else if candles = [] then rejected M q earliest ''NO_MARKET_DATA'' None
         else (case rq_order_type q of
             MARKET \<Rightarrow>
               (case find (\<lambda>bar. earliest \<le> cd_close_time_ms bar) candles of
                  None \<Rightarrow> rejected M q earliest ''MARKET_DATA_EXHAUSTED'' None
                | Some bar \<Rightarrow> market_fill M q bar)
           | LIMIT \<Rightarrow>
               (case rq_limit_price q of
                  None \<Rightarrow> rejected M q earliest ''INVALID_LIMIT_PRICE'' None
                | Some limit \<Rightarrow>
                    if limit \<le> 0 then rejected M q earliest ''INVALID_LIMIT_PRICE'' None
                    else if expiration_ms M q < earliest then rejected M q (expiration_ms M q) ''LIMIT_EXPIRED_UNFILLED'' None
                    else limit_loop M q limit candles))))"

end
