(* ===== verification/Simulator.thy ===== *)
theory Simulator
  imports Execution_Model Json_Values
begin

text \<open>
  The simulation engine (\<open>economic/simulator.py\<close>, \<open>EconomicSimulationEngine.simulate\<close>): the replay of signals and funding events over
  a series of candles, bar by bar, in the phases of the code: at the open, on the standing orders, inside the bar, at the close. The
  variables the closures share are one record. An exception ends the run, so every phase is a function from a state
  to a state or an exception. The remaining signals and funding events are the suffixes that the indices of the code point to,
  and the candles from the current bar on are an argument. The summary of the finished run (\<open>metrics.py\<close>) is not modelled: the
  run returns its final state, which holds everything the summary is computed from.
\<close>

section \<open>State\<close>

record sim_config =
  sg_policy :: trade_policy
  sg_model :: execution_model
  sg_initial_cash :: flt
  sg_repr :: "json \<Rightarrow> string"

record pending_fill =
  pe_fill_timestamp_ms :: int
  pe_action :: trade_action
  pe_asset :: string
  pe_price :: flt
  pe_quantity :: flt
  pe_fee_usdt :: flt
  pe_signal_id :: string
  pe_trade_id :: string
  pe_observation_timestamp_ms :: int
  pe_decision_timestamp_ms :: int
  pe_order_timestamp_ms :: int
  pe_settlement_timestamp_ms :: int
  pe_reservation_notional :: flt
  pe_metadata :: "string \<rightharpoonup> json"

record sim_state =
  ss_portfolio :: portfolio
  ss_signals :: "information_signal list"
  ss_funding :: "funding_settlement list"
  ss_peak_equity :: flt
  ss_max_dd_usdt :: flt
  ss_max_dd_pct :: flt
  ss_drawdown_halt :: bool
  ss_entry_time :: "int option"
  ss_entry_price :: "flt option"
  ss_peak_price :: "flt option"
  ss_trough_price :: "flt option"
  ss_trailing_armed :: "int option"
  ss_signal_id :: string
  ss_pending :: "pending_fill list"
  ss_equity_curve :: "(int \<times> flt) list"
  ss_notional_curve :: "(int \<times> flt) list"

text \<open>\<open>EconomicSimulationEngine.__init__\<close>.\<close>

definition engine_validate :: "sim_config \<Rightarrow> unit res" where
  "engine_validate G = require (isfinite (sg_initial_cash G) \<and> \<not> sg_initial_cash G \<le> 0) (ValueError ''initial_cash must be finite and positive'')"

definition dust :: flt where
  "dust = lit (1 / 10 ^ 12)"

definition position_of :: "sim_state \<Rightarrow> string \<Rightarrow> flt" where
  "position_of s symb = get_position_quantity (ss_portfolio s) symb"

definition has_position :: "sim_state \<Rightarrow> string \<Rightarrow> bool" where
  "has_position s symb \<longleftrightarrow> dust < \<bar>position_of s symb\<bar>"

section \<open>The closures\<close>

definition update_drawdown :: "sim_config \<Rightarrow> flt \<Rightarrow> sim_state \<Rightarrow> sim_state" where
  "update_drawdown G equity s =
     (let peak = pymax (ss_peak_equity s) equity; dd_usdt = peak - equity;
          dd_pct = (if 0 < peak then quot dd_usdt peak else 0);
          worst = pymax (ss_max_dd_pct s) dd_pct
      in s\<lparr>ss_peak_equity := peak, ss_max_dd_usdt := pymax (ss_max_dd_usdt s) dd_usdt, ss_max_dd_pct := worst,
           ss_drawdown_halt := ss_drawdown_halt s \<or> tr_max_drawdown_stop_pct (sg_policy G) \<le> worst\<rparr>)"

definition mark_equity :: "sim_state \<Rightarrow> string \<Rightarrow> flt \<Rightarrow> flt res" where
  "mark_equity s symb price = total_equity (ss_portfolio s) [symb \<mapsto> price]"

definition raise_on_causal_liquidity_rejection :: "execution_result \<Rightarrow> unit res" where
  "raise_on_causal_liquidity_rejection r =
     require (er_rejection_reason r \<notin> {Some ''CAUSAL_LIQUIDITY_UNAVAILABLE'', Some ''CAUSAL_LIQUIDITY_NOT_YET_AVAILABLE''})
       (ValueError ''SPREAD_AND_IMPACT requires causal current_spread_bps and timestamped liquidity available by fill, or a declared adverse scenario'')"

definition opens :: "trade_action \<Rightarrow> bool" where
  "opens a \<longleftrightarrow> a \<in> {OPEN_LONG, OPEN_SHORT}"

definition fill_order :: "pending_fill \<Rightarrow> string \<Rightarrow> trade_order" where
  "fill_order pf symb =
     \<lparr>to_timestamp_ms = pe_fill_timestamp_ms pf, to_action = pe_action pf, to_asset = symb, to_price = pe_price pf, to_quantity = pe_quantity pf,
      to_fee_usdt = pe_fee_usdt pf, to_signal_id = pe_signal_id pf, to_trade_id = pe_trade_id pf,
      to_observation_timestamp_ms = Some (pe_observation_timestamp_ms pf), to_decision_timestamp_ms = Some (pe_decision_timestamp_ms pf),
      to_order_timestamp_ms = Some (pe_order_timestamp_ms pf), to_settlement_timestamp_ms = Some (pe_settlement_timestamp_ms pf),
      to_metadata = pe_metadata pf\<rparr>"

definition track_trade :: "pending_fill \<Rightarrow> sim_state \<Rightarrow> sim_state" where
  "track_trade pf s =
     (if opens (pe_action pf)
      then s\<lparr>ss_entry_time := Some (pe_fill_timestamp_ms pf), ss_entry_price := Some (pe_price pf), ss_peak_price := Some (pe_price pf),
             ss_trough_price := Some (pe_price pf), ss_trailing_armed := Some (pe_fill_timestamp_ms pf), ss_signal_id := pe_signal_id pf\<rparr>
      else s\<lparr>ss_entry_time := None, ss_entry_price := None, ss_peak_price := None, ss_trough_price := None, ss_trailing_armed := None,
             ss_signal_id := []\<rparr>)"

definition apply_fill :: "sim_config \<Rightarrow> pending_fill \<Rightarrow> string \<Rightarrow> sim_state \<Rightarrow> sim_state res" where
  "apply_fill G pf symb s =
     bindR (apply_trade (ss_portfolio s) (fill_order pf symb)) (\<lambda>(_, p).
     (let s1 = track_trade pf (s\<lparr>ss_portfolio := p\<rparr>)
      in bindR (mark_equity s1 symb (pe_price pf)) (\<lambda>eq. Inr (update_drawdown G eq s1))))"

definition fill_info :: "execution_result \<Rightarrow> trade_action \<Rightarrow> string \<Rightarrow> string \<Rightarrow> string \<Rightarrow> flt \<Rightarrow> pending_fill" where
  "fill_info r action symb signal_id trade_id reservation =
     \<lparr>pe_fill_timestamp_ms = er_fill_timestamp_ms r, pe_action = action, pe_asset = symb, pe_price = er_fill_price r, pe_quantity = er_filled_quantity r,
      pe_fee_usdt = er_fee_usdt r, pe_signal_id = signal_id, pe_trade_id = trade_id,
      pe_observation_timestamp_ms = er_observation_timestamp_ms r, pe_decision_timestamp_ms = er_decision_timestamp_ms r,
      pe_order_timestamp_ms = er_order_timestamp_ms r, pe_settlement_timestamp_ms = er_settlement_timestamp_ms r,
      pe_reservation_notional = reservation, pe_metadata = (case er_metadata r of None \<Rightarrow> Map.empty | Some kvs \<Rightarrow> map_of kvs)\<rparr>"

definition fill_or_queue :: "sim_config \<Rightarrow> pending_fill \<Rightarrow> string \<Rightarrow> int \<Rightarrow> sim_state \<Rightarrow> sim_state res" where
  "fill_or_queue G pf symb now s =
     (if pe_fill_timestamp_ms pf \<le> now then apply_fill G pf symb s else Inr (s\<lparr>ss_pending := ss_pending s @ [pf]\<rparr>))"

definition market_exit :: "int \<Rightarrow> flt \<Rightarrow> int \<Rightarrow> flt option \<Rightarrow> order_request" where
  "market_exit side quantity trigger spread =
     \<lparr>rq_signal_timestamp_ms = trigger, rq_side = side, rq_desired_quantity = quantity, rq_order_type = MARKET, rq_limit_price = None,
      rq_time_in_force_ms = 60000, rq_current_spread_bps = spread, rq_observation_timestamp_ms = Some trigger, rq_max_fill_notional = None,
      rq_open_price = None, rq_open_timestamp_ms = None, rq_liquidity_volume_base = None, rq_liquidity_available_at_ms = None\<rparr>"

definition execute_exit ::
  "sim_config \<Rightarrow> candle list \<Rightarrow> string \<Rightarrow> trade_action \<Rightarrow> int \<Rightarrow> flt \<Rightarrow> int \<Rightarrow> string \<Rightarrow> string \<Rightarrow> flt option \<Rightarrow> sim_state \<Rightarrow> sim_state res" where
  "execute_exit G bars symb action side quantity trigger trade_id signal_id spread s =
     bindR (simulate_order (sg_model G) (market_exit side quantity trigger spread) bars) (\<lambda>r.
     bindR (raise_on_causal_liquidity_rejection r) (\<lambda>_.
     if \<not> er_is_filled r then Inr s
     else fill_or_queue G (fill_info r action symb signal_id trade_id 0) symb trigger s))"

definition execute_conditional_exit ::
  "sim_config \<Rightarrow> candle \<Rightarrow> trade_action \<Rightarrow> int \<Rightarrow> flt \<Rightarrow> int \<Rightarrow> int \<Rightarrow> flt \<Rightarrow> trigger_time \<Rightarrow> string \<Rightarrow> string \<Rightarrow> sim_state \<Rightarrow> sim_state res" where
  "execute_conditional_exit G bar action side quantity armed observed price trigger trade_id signal_id s =
     bindR (simulate_conditional_market_fill (sg_model G) armed observed side quantity price bar trigger None) (\<lambda>r.
     if \<not> er_is_filled r then Inr s
     else fill_or_queue G (fill_info r action (cd_symbol bar) signal_id trade_id 0) (cd_symbol bar) (cd_open_time_ms bar) s)"

definition has_pending_exit :: "sim_state \<Rightarrow> string \<Rightarrow> bool" where
  "has_pending_exit s symb \<longleftrightarrow> (\<exists>pf \<in> set (ss_pending s). pe_action pf \<in> {CLOSE_LONG, CLOSE_SHORT} \<and> pe_asset pf = symb)"

section \<open>Funding and pending fills\<close>

definition settle_funding :: "sim_config \<Rightarrow> string \<Rightarrow> bool \<Rightarrow> funding_settlement \<Rightarrow> sim_state \<Rightarrow> sim_state res" where
  "settle_funding G symb with_drawdown f s =
     (if has_position s symb then
        bindR (apply_funding (ss_portfolio s) (fs_timestamp_ms f) symb
                 (calculate_cashflow (position_of s symb) (fs_mark_price f) (fs_funding_rate f)) (fs_mark_price f)) (\<lambda>(_, p).
        (let s1 = s\<lparr>ss_portfolio := p\<rparr>
         in if with_drawdown then bindR (mark_equity s1 symb (fs_mark_price f)) (\<lambda>eq. Inr (update_drawdown G eq s1)) else Inr s1))
      else Inr s)"

fun funding_loop :: "sim_config \<Rightarrow> string \<Rightarrow> bool \<Rightarrow> (int \<Rightarrow> bool) \<Rightarrow> funding_settlement list \<Rightarrow> sim_state \<Rightarrow> sim_state res" where
  "funding_loop G symb with_drawdown due [] s = Inr (s\<lparr>ss_funding := []\<rparr>)"
| "funding_loop G symb with_drawdown due (f # fs) s =
     (if due (fs_timestamp_ms f) then bindR (settle_funding G symb with_drawdown f s) (\<lambda>s1. funding_loop G symb with_drawdown due fs s1)
      else Inr (s\<lparr>ss_funding := f # fs\<rparr>))"

definition settle_due :: "sim_config \<Rightarrow> string \<Rightarrow> bool \<Rightarrow> (int \<Rightarrow> bool) \<Rightarrow> sim_state \<Rightarrow> sim_state res" where
  "settle_due G symb with_drawdown due s = funding_loop G symb with_drawdown due (ss_funding s) s"

fun fill_loop :: "sim_config \<Rightarrow> string \<Rightarrow> (int \<Rightarrow> bool) \<Rightarrow> pending_fill list \<Rightarrow> pending_fill list \<Rightarrow> sim_state \<Rightarrow> sim_state res" where
  "fill_loop G symb due rem [] s = Inr (s\<lparr>ss_pending := rem\<rparr>)"
| "fill_loop G symb due rem (pf # pfs) s =
     (if due (pe_fill_timestamp_ms pf) then bindR (apply_fill G pf symb s) (\<lambda>s1. fill_loop G symb due rem pfs s1)
      else fill_loop G symb due (rem @ [pf]) pfs s)"

definition fill_due :: "sim_config \<Rightarrow> string \<Rightarrow> (int \<Rightarrow> bool) \<Rightarrow> sim_state \<Rightarrow> sim_state res" where
  "fill_due G symb due s = fill_loop G symb due [] (sort_key pe_fill_timestamp_ms (ss_pending s)) s"

section \<open>Signals\<close>

text \<open>\<open>float(metadata[k])\<close> with \<open>except (ValueError, TypeError)\<close>.\<close>

fun value_error :: "pyerr \<Rightarrow> bool" where
  "value_error (ValueError m) = True"
| "value_error (TypeError m) = True"
| "value_error _ = False"

definition meta_float :: "information_signal \<Rightarrow> string \<Rightarrow> flt option res" where
  "meta_float sig k =
     (case is_metadata sig k of
        None \<Rightarrow> Inr None
      | Some v \<Rightarrow> (case py_float v of Inr x \<Rightarrow> Inr (Some x) | Inl e \<Rightarrow> if value_error e then Inr (Some NaN) else Inl e))"

definition meta_int :: "information_signal \<Rightarrow> string \<Rightarrow> int option" where
  "meta_int sig k = (case is_metadata sig k of Some (JInt n) \<Rightarrow> Some n | _ \<Rightarrow> None)"

definition signal_volume :: "information_signal \<Rightarrow> candle option \<Rightarrow> candle \<Rightarrow> flt option res" where
  "signal_volume sig prev bar =
     (if is_metadata sig ''volume_usdt'' \<noteq> None then meta_float sig ''volume_usdt''
      else Inr (case prev of
          Some b \<Rightarrow>
            if cd_close_time_ms b \<le> cd_open_time_ms bar
            then Some (if 0 < cd_quote_volume b then cd_quote_volume b else if 0 < cd_volume b then cd_volume b * cd_close b else 0)
            else None
        | None \<Rightarrow> None))"

definition signal_regime :: "sim_config \<Rightarrow> information_signal \<Rightarrow> string option" where
  "signal_regime G sig = (case is_metadata sig ''regime'' of None \<Rightarrow> None | Some JNull \<Rightarrow> None | Some v \<Rightarrow> Some (json_str (sg_repr G) v))"

text \<open>The average true range of a signal: absent, a number, or unreadable, in which case the signal is dropped.\<close>

definition signal_atr :: "information_signal \<Rightarrow> flt option option res" where
  "signal_atr sig =
     (case is_metadata sig ''atr'' of
        None \<Rightarrow> Inr (Some None)
      | Some JNull \<Rightarrow> Inr (Some None)
      | Some v \<Rightarrow> (case py_float v of Inr x \<Rightarrow> Inr (Some (Some x)) | Inl e \<Rightarrow> if value_error e then Inr None else Inl e))"

definition reversal :: "sim_config \<Rightarrow> information_signal \<Rightarrow> flt \<Rightarrow> bool" where
  "reversal G sig qty \<longleftrightarrow> tr_decay_exit_on_signal_reversal (sg_policy G) \<and> ((0 < qty \<and> is_direction sig = -1) \<or> (qty < 0 \<and> is_direction sig = 1))"

definition reversal_exit :: "sim_config \<Rightarrow> candle list \<Rightarrow> candle \<Rightarrow> information_signal \<Rightarrow> sim_state \<Rightarrow> sim_state res" where
  "reversal_exit G bars bar sig s =
     (let qty = position_of s (cd_symbol bar)
      in if reversal G sig qty
         then bindR (meta_float sig ''spread_bps'') (\<lambda>spread.
                execute_exit G bars (cd_symbol bar) (if 0 < qty then CLOSE_LONG else CLOSE_SHORT) (if 0 < qty then -1 else 1) \<bar>qty\<bar> (cd_open_time_ms bar)
                  (''EXIT_REV_'' @ is_signal_id sig) (is_signal_id sig) spread s)
         else Inr s)"

definition open_count :: "sim_state \<Rightarrow> string \<Rightarrow> int" where
  "open_count s symb = (if has_position s symb then 1 else 0) + int (length (filter (\<lambda>pf. opens (pe_action pf)) (ss_pending s)))"

text \<open>The price an entry is reserved at: the limit, or the bound of the fee model.\<close>

definition entry_prices :: "sim_config \<Rightarrow> candle \<Rightarrow> int \<Rightarrow> flt option \<Rightarrow> (flt option \<times> flt option) res" where
  "entry_prices G bar side spread =
     (if tr_order_type (sg_policy G) = LIMIT
      then bindR (calculate_limit_price (sg_policy G) (cd_open bar) side) (\<lambda>x. Inr (Some x, Some x))
      else bindR (worst_case_price_bound (em_fee_model (sg_model G)) (cd_open bar) side spread) (\<lambda>x. Inr (None, x)))"

definition gross_exposure :: "sim_state \<Rightarrow> candle \<Rightarrow> flt \<Rightarrow> flt" where
  "gross_exposure s bar order_gross =
     \<bar>position_of s (cd_symbol bar)\<bar> * cd_open bar + py_sum (map pe_reservation_notional (filter (\<lambda>pf. opens (pe_action pf)) (ss_pending s))) + order_gross"

definition entry_order_request :: "sim_config \<Rightarrow> information_signal \<Rightarrow> int \<Rightarrow> flt \<Rightarrow> flt option \<Rightarrow> flt option \<Rightarrow> flt \<Rightarrow> flt option \<Rightarrow> int option \<Rightarrow> order_request" where
  "entry_order_request G sig side qty limit_at spread order_gross liquidity available =
     \<lparr>rq_signal_timestamp_ms = is_timestamp_ms sig, rq_side = side, rq_desired_quantity = qty, rq_order_type = tr_order_type (sg_policy G),
      rq_limit_price = limit_at, rq_time_in_force_ms = tr_time_in_force_ms (sg_policy G), rq_current_spread_bps = spread,
      rq_observation_timestamp_ms = Some (is_timestamp_ms sig), rq_max_fill_notional = Some order_gross, rq_open_price = None,
      rq_open_timestamp_ms = None, rq_liquidity_volume_base = liquidity, rq_liquidity_available_at_ms = available\<rparr>"

definition ambiguous_entry :: "candle \<Rightarrow> execution_result \<Rightarrow> pyerr" where
  "ambiguous_entry bar r =
     (let window = (\<lambda>k. case er_metadata r of None \<Rightarrow> ''None'' | Some kvs \<Rightarrow> (case map_of kvs k of Some (JInt n) \<Rightarrow> show_int n | _ \<Rightarrow> ''None''))
      in RuntimeError (''Ambiguous LIMIT entry touch ordering for '' @ cd_symbol bar @ '' bar ['' @ window ''ambiguity_window_open_ms'' @ '', '' @
           window ''ambiguity_window_close_ms'' @ '']; OHLC extrema cannot timestamp the fill''))"

definition route_entry :: "sim_config \<Rightarrow> candle list \<Rightarrow> candle \<Rightarrow> information_signal \<Rightarrow> int \<Rightarrow> flt \<Rightarrow> order_request \<Rightarrow> sim_state \<Rightarrow> sim_state res" where
  "route_entry G bars bar sig side order_gross q s =
     bindR (simulate_order (sg_model G) q bars) (\<lambda>r.
     bindR (raise_on_causal_liquidity_rejection r) (\<lambda>_.
     if er_rejection_reason r = Some ''LIMIT_INTRABAR_TOUCH_AMBIGUOUS_NOT_TESTABLE'' then Inl (ambiguous_entry bar r)
     else if er_is_filled r then
       (let pf = fill_info r (if side = 1 then OPEN_LONG else OPEN_SHORT) (cd_symbol bar) (is_signal_id sig) (''ORD_'' @ is_signal_id sig) order_gross
        in fill_or_queue G (pf\<lparr>pe_metadata := (pe_metadata pf)(''reservation_notional'' \<mapsto> JFloat order_gross)\<rparr>) (cd_symbol bar) (cd_open_time_ms bar) s)
     else Inr s))"

definition enter_sized :: "sim_config \<Rightarrow> candle list \<Rightarrow> candle \<Rightarrow> information_signal \<Rightarrow> flt option \<Rightarrow> flt \<Rightarrow> sim_state \<Rightarrow> sim_state res" where
  "enter_sized G bars bar sig spread qty s =
     (if qty \<le> 0 \<or> \<not> isfinite qty then Inr s
      else let side = (if is_direction sig = 1 then 1 else -1)
           in bindR (entry_prices G bar side spread) (\<lambda>(limit_at, ex_ante).
              case ex_ante of
                None \<Rightarrow> Inr s
              | Some price \<Rightarrow>
                  if \<not> isfinite price \<or> price \<le> 0 then Inr s
                  else let order_gross = qty * price
                       in if tr_max_gross_exposure_usdt (sg_policy G) < gross_exposure s bar order_gross then Inr s
                          else bindR (meta_float sig ''liquidity_volume_base'') (\<lambda>liquidity.
                               route_entry G bars bar sig side order_gross
                                 (entry_order_request G sig side qty limit_at spread order_gross liquidity (meta_int sig ''liquidity_available_at_ms'')) s)))"

definition try_entry :: "sim_config \<Rightarrow> candle option \<Rightarrow> candle list \<Rightarrow> candle \<Rightarrow> information_signal \<Rightarrow> sim_state \<Rightarrow> sim_state res" where
  "try_entry G prev bars bar sig s =
     bindR (meta_float sig ''spread_bps'') (\<lambda>spread.
     bindR (meta_float sig ''liquidity_volume_base'') (\<lambda>_.
     bindR (signal_volume sig prev bar) (\<lambda>volume.
     if \<not> should_enter (sg_policy G) sig spread volume (signal_regime G sig) then Inr s
     else bindR (mark_equity s (cd_symbol bar) (cd_close bar)) (\<lambda>equity.
       bindR (signal_atr sig) (\<lambda>atr.
       case atr of
         None \<Rightarrow> Inr s
       | Some x \<Rightarrow>
           (case calculate_quantity (sg_policy G) (cd_open bar) equity x of
              Inl (ValueError m) \<Rightarrow> Inr s
            | Inl e \<Rightarrow> Inl e
            | Inr qty \<Rightarrow> enter_sized G bars bar sig spread qty s))))))"

definition process_signal :: "sim_config \<Rightarrow> candle option \<Rightarrow> candle list \<Rightarrow> candle \<Rightarrow> information_signal \<Rightarrow> sim_state \<Rightarrow> sim_state res" where
  "process_signal G prev bars bar sig s =
     (if is_asset sig \<noteq> cd_symbol bar then Inr s
      else if has_position s (cd_symbol bar) \<and> \<not> has_pending_exit s (cd_symbol bar) then reversal_exit G bars bar sig s
      else if ss_drawdown_halt s then Inr s
      else if tr_max_open_positions (sg_policy G) \<le> open_count s (cd_symbol bar) then Inr s
      else try_entry G prev bars bar sig s)"

fun signal_loop :: "sim_config \<Rightarrow> candle option \<Rightarrow> candle list \<Rightarrow> candle \<Rightarrow> information_signal list \<Rightarrow> sim_state \<Rightarrow> sim_state res" where
  "signal_loop G prev bars bar [] s = Inr (s\<lparr>ss_signals := []\<rparr>)"
| "signal_loop G prev bars bar (sig # sigs) s =
     (if is_timestamp_ms sig \<le> cd_open_time_ms bar
      then bindR (process_signal G prev bars bar sig s) (\<lambda>s1. signal_loop G prev bars bar sigs s1)
      else Inr (s\<lparr>ss_signals := sig # sigs\<rparr>))"

section \<open>Standing exits\<close>

definition opt_or :: "flt option \<Rightarrow> flt \<Rightarrow> flt" where
  "opt_or x y = (case x of Some v \<Rightarrow> if feq v 0 then y else v | None \<Rightarrow> y)"

definition time_or :: "int option \<Rightarrow> int \<Rightarrow> int" where
  "time_or x y = (case x of Some v \<Rightarrow> if v = 0 then y else v | None \<Rightarrow> y)"

definition level_below :: "flt \<Rightarrow> flt \<Rightarrow> flt" where
  "level_below price pct = price * (Fin 1 - pct)"

definition level_above :: "flt \<Rightarrow> flt \<Rightarrow> flt" where
  "level_above price pct = price * (Fin 1 + pct)"

text \<open>The levels of a position: stop loss, trailing stop and target, each if the policy has it.\<close>

definition stop_level :: "trade_policy \<Rightarrow> bool \<Rightarrow> flt \<Rightarrow> flt option" where
  "stop_level P is_long entry = map_option (if is_long then level_below entry else level_above entry) (tr_stop_loss_pct P)"

definition trailing_level :: "trade_policy \<Rightarrow> bool \<Rightarrow> flt \<Rightarrow> sim_state \<Rightarrow> flt option" where
  "trailing_level P is_long entry s =
     map_option (if is_long then level_below (opt_or (ss_peak_price s) entry) else level_above (opt_or (ss_trough_price s) entry)) (tr_trailing_stop_pct P)"

definition target_level :: "trade_policy \<Rightarrow> bool \<Rightarrow> flt \<Rightarrow> flt option" where
  "target_level P is_long entry = map_option (if is_long then level_above entry else level_below entry) (tr_take_profit_pct P)"

definition adverse :: "bool \<Rightarrow> flt \<Rightarrow> flt \<Rightarrow> bool" where
  "adverse is_long price level \<longleftrightarrow> (if is_long then price \<le> level else level \<le> price)"

definition favourable :: "bool \<Rightarrow> flt \<Rightarrow> flt \<Rightarrow> bool" where
  "favourable is_long price level \<longleftrightarrow> (if is_long then level \<le> price else price \<le> level)"

definition signal_or_time :: "sim_state \<Rightarrow> int \<Rightarrow> string" where
  "signal_or_time s t = (if ss_signal_id s = [] then show_int t else ss_signal_id s)"

definition gap_trigger :: "sim_config \<Rightarrow> candle \<Rightarrow> bool \<Rightarrow> flt \<Rightarrow> int \<Rightarrow> sim_state \<Rightarrow> (string \<times> int) option" where
  "gap_trigger G bar is_long entry entry_time s =
     (let P = sg_policy G
      in if (case stop_level P is_long entry of Some l \<Rightarrow> adverse is_long (cd_open bar) l | None \<Rightarrow> False) then Some (''STOP_LOSS'', entry_time)
         else if (case trailing_level P is_long entry s of Some l \<Rightarrow> adverse is_long (cd_open bar) l | None \<Rightarrow> False)
         then Some (''TRAILING_STOP'', time_or (ss_trailing_armed s) entry_time)
         else if (case target_level P is_long entry of Some l \<Rightarrow> favourable is_long (cd_open bar) l | None \<Rightarrow> False) then Some (''TAKE_PROFIT'', entry_time)
         else None)"

definition conditional_exit ::
  "sim_config \<Rightarrow> candle \<Rightarrow> int \<Rightarrow> int \<Rightarrow> flt \<Rightarrow> trigger_time \<Rightarrow> string \<Rightarrow> sim_state \<Rightarrow> sim_state res" where
  "conditional_exit G bar armed observed price trigger trade_id s =
     (let qty = position_of s (cd_symbol bar)
      in execute_conditional_exit G bar (if 0 < qty then CLOSE_LONG else CLOSE_SHORT) (if 0 < qty then -1 else 1) \<bar>qty\<bar> armed observed price trigger
           trade_id (ss_signal_id s) s)"

definition gap_exit :: "sim_config \<Rightarrow> candle \<Rightarrow> sim_state \<Rightarrow> sim_state res" where
  "gap_exit G bar s =
     (if has_position s (cd_symbol bar) \<and> \<not> has_pending_exit s (cd_symbol bar) then
        (case (ss_entry_price s, ss_entry_time s) of
           (Some entry, Some entry_time) \<Rightarrow>
             (case gap_trigger G bar (0 < position_of s (cd_symbol bar)) entry entry_time s of
                Some (reason, armed) \<Rightarrow>
                  conditional_exit G bar armed (cd_open_time_ms bar) (cd_open bar) BAR_OPEN_KNOWN
                    (''EXIT_GAP_'' @ reason @ ''_'' @ signal_or_time s (cd_open_time_ms bar)) s
              | None \<Rightarrow> Inr s)
         | _ \<Rightarrow> Inr s)
      else Inr s)"

text \<open>The adverse stops touched by the bar, and the worse of them.\<close>

definition adverse_triggers :: "sim_config \<Rightarrow> candle \<Rightarrow> bool \<Rightarrow> flt \<Rightarrow> int \<Rightarrow> sim_state \<Rightarrow> (string \<times> flt \<times> int) list" where
  "adverse_triggers G bar is_long entry entry_time s =
     (let P = sg_policy G; worst = (if is_long then cd_low bar else cd_high bar)
      in (case stop_level P is_long entry of Some l \<Rightarrow> if adverse is_long worst l then [(''STOP_LOSS'', l, entry_time)] else [] | None \<Rightarrow> [])
         @ (case trailing_level P is_long entry s of
              Some l \<Rightarrow> if adverse is_long worst l then [(''TRAILING_STOP'', l, time_or (ss_trailing_armed s) entry_time)] else []
            | None \<Rightarrow> []))"

fun pick_worse :: "bool \<Rightarrow> (string \<times> flt \<times> int) \<Rightarrow> (string \<times> flt \<times> int) list \<Rightarrow> string \<times> flt \<times> int" where
  "pick_worse is_long best [] = best"
| "pick_worse is_long best (x # xs) =
     pick_worse is_long (if (if is_long then fst (snd x) < fst (snd best) else fst (snd best) < fst (snd x)) then x else best) xs"

definition target_trigger :: "sim_config \<Rightarrow> candle \<Rightarrow> bool \<Rightarrow> flt \<Rightarrow> int \<Rightarrow> (string \<times> flt \<times> int) option" where
  "target_trigger G bar is_long entry entry_time =
     (case target_level (sg_policy G) is_long entry of
        Some l \<Rightarrow> if favourable is_long (if is_long then cd_high bar else cd_low bar) l then Some (''TAKE_PROFIT'', l, entry_time) else None
      | None \<Rightarrow> None)"

definition choose_trigger :: "sim_config \<Rightarrow> candle \<Rightarrow> bool \<Rightarrow> flt \<Rightarrow> int \<Rightarrow> sim_state \<Rightarrow> (string \<times> flt \<times> int) option res" where
  "choose_trigger G bar is_long entry entry_time s =
     (case adverse_triggers G bar is_long entry entry_time s of
        x # xs \<Rightarrow>
          (case (pick_worse is_long x xs, target_trigger G bar is_long entry entry_time) of
             (chosen, None) \<Rightarrow> Inr (Some chosen)
           | ((reason, level, armed), Some _) \<Rightarrow>
               if tr_ambiguous_exit_handling (sg_policy G) = ''REJECT_AMBIGUOUS''
               then Inl (RuntimeError (''Ambiguous exit collision at bar close_time_ms='' @ show_int (cd_close_time_ms bar) @
                      '': both an adverse stop and Take Profit triggered in the same candle for '' @ cd_symbol bar))
               else Inr (Some (reason @ ''_COLLISION'', level, armed)))
      | [] \<Rightarrow> Inr (target_trigger G bar is_long entry entry_time))"

definition ambiguous_funding :: "sim_state \<Rightarrow> candle \<Rightarrow> funding_settlement option" where
  "ambiguous_funding s bar =
     find (\<lambda>f. cd_open_time_ms bar < fs_timestamp_ms f \<and> fs_timestamp_ms f \<le> cd_close_time_ms bar
             \<and> \<not> feq (calculate_cashflow (position_of s (cd_symbol bar)) (fs_mark_price f) (fs_funding_rate f)) 0) (ss_funding s)"

text \<open>The flag says whether a standing order was triggered in this bar.\<close>

definition standing_exit :: "sim_config \<Rightarrow> candle \<Rightarrow> sim_state \<Rightarrow> (bool \<times> sim_state) res" where
  "standing_exit G bar s =
     (if has_position s (cd_symbol bar) \<and> \<not> has_pending_exit s (cd_symbol bar) then
        (case (ss_entry_price s, ss_entry_time s) of
           (Some entry, Some entry_time) \<Rightarrow>
             if cd_open_time_ms bar < entry_time then Inr (False, s)
             else bindR (choose_trigger G bar (0 < position_of s (cd_symbol bar)) entry entry_time s) (\<lambda>chosen.
               case chosen of
                 None \<Rightarrow> Inr (False, s)
               | Some (reason, level, armed) \<Rightarrow>
                   (case ambiguous_funding s bar of
                      Some f \<Rightarrow> Inl (RuntimeError (''Ambiguous trigger/funding ordering for standing exit in '' @ cd_symbol bar @ '' bar ['' @
                        show_int (cd_open_time_ms bar) @ '', '' @ show_int (cd_close_time_ms bar) @ ''] with funding at '' @ show_int (fs_timestamp_ms f)))
                    | None \<Rightarrow>
                        bindR (conditional_exit G bar armed (cd_close_time_ms bar) level INTRABAR_UNKNOWN
                                 (''EXIT_'' @ reason @ ''_'' @ signal_or_time s (cd_close_time_ms bar)) s) (\<lambda>s1. Inr (True, s1))))
         | _ \<Rightarrow> Inr (False, s))
      else Inr (False, s))"

section \<open>Close of a bar\<close>

definition track_extremes :: "candle \<Rightarrow> bool \<Rightarrow> sim_state \<Rightarrow> sim_state" where
  "track_extremes bar triggered s =
     (case (ss_entry_price s, ss_entry_time s) of
        (Some entry, Some entry_time) \<Rightarrow>
          if \<not> triggered \<and> has_position s (cd_symbol bar) \<and> entry_time \<le> cd_open_time_ms bar \<and> \<not> has_pending_exit s (cd_symbol bar)
          then s\<lparr>ss_peak_price := Some (pymax (opt_or (ss_peak_price s) entry) (cd_high bar)),
                 ss_trough_price := Some (pymin (opt_or (ss_trough_price s) entry) (cd_low bar)), ss_trailing_armed := Some (cd_close_time_ms bar)\<rparr>
          else s
      | _ \<Rightarrow> s)"

definition close_expiry :: "sim_config \<Rightarrow> candle list \<Rightarrow> candle \<Rightarrow> bool \<Rightarrow> sim_state \<Rightarrow> sim_state res" where
  "close_expiry G bars bar triggered s =
     (if has_position s (cd_symbol bar) \<and> \<not> has_pending_exit s (cd_symbol bar) then
        (case (ss_entry_price s, ss_entry_time s) of
           (Some entry, Some entry_time) \<Rightarrow>
             (let qty = position_of s (cd_symbol bar)
              in bindR (if tr_max_holding_ms (sg_policy G) \<le> cd_close_time_ms bar - entry_time
                        then execute_exit G bars (cd_symbol bar) (if 0 < qty then CLOSE_LONG else CLOSE_SHORT) (if 0 < qty then -1 else 1) \<bar>qty\<bar>
                               (cd_close_time_ms bar) (''EXIT_MAX_HOLDING_'' @ signal_or_time s (cd_close_time_ms bar)) (ss_signal_id s) None s
                        else Inr s) (\<lambda>s1. Inr (track_extremes bar triggered s1)))
         | _ \<Rightarrow> Inr s)
      else Inr s)"

definition mark_close :: "sim_config \<Rightarrow> candle \<Rightarrow> sim_state \<Rightarrow> sim_state res" where
  "mark_close G bar s =
     bindR (mark_equity s (cd_symbol bar) (cd_close bar)) (\<lambda>equity.
     (let s1 = update_drawdown G equity s
      in Inr (s1\<lparr>ss_equity_curve := ss_equity_curve s1 @ [(cd_close_time_ms bar, equity)],
                 ss_notional_curve := ss_notional_curve s1 @ [(cd_close_time_ms bar, \<bar>position_of s1 (cd_symbol bar)\<bar> * cd_close bar)]\<rparr>)))"

section \<open>The run\<close>

definition step_bar :: "sim_config \<Rightarrow> candle option \<Rightarrow> candle \<Rightarrow> candle list \<Rightarrow> sim_state \<Rightarrow> sim_state res" where
  "step_bar G prev bar rest s =
     (let symb = cd_symbol bar; bars = bar # rest
      in bindR (settle_due G symb True (\<lambda>t. t \<le> cd_open_time_ms bar) s) (\<lambda>s.
         bindR (fill_due G symb (\<lambda>t. t \<le> cd_open_time_ms bar) s) (\<lambda>s.
         bindR (signal_loop G prev bars bar (ss_signals s) s) (\<lambda>s.
         bindR (gap_exit G bar s) (\<lambda>s.
         bindR (standing_exit G bar s) (\<lambda>(triggered, s).
         bindR (settle_due G symb True (\<lambda>t. t < cd_close_time_ms bar) s) (\<lambda>s.
         bindR (fill_due G symb (\<lambda>t. t < cd_close_time_ms bar) s) (\<lambda>s.
         bindR (settle_due G symb False (\<lambda>t. t = cd_close_time_ms bar) s) (\<lambda>s.
         bindR (close_expiry G bars bar triggered s) (\<lambda>s.
         bindR (fill_due G symb (\<lambda>t. t = cd_close_time_ms bar) s) (\<lambda>s.
         mark_close G bar s)))))))))))"

fun run_bars :: "sim_config \<Rightarrow> candle option \<Rightarrow> candle list \<Rightarrow> sim_state \<Rightarrow> sim_state res" where
  "run_bars G prev [] s = Inr s"
| "run_bars G prev (bar # rest) s = bindR (step_bar G prev bar rest s) (\<lambda>s1. run_bars G (Some bar) rest s1)"

definition start_state :: "sim_config \<Rightarrow> portfolio \<Rightarrow> information_signal list \<Rightarrow> funding_settlement list \<Rightarrow> sim_state" where
  "start_state G p signals funding =
     \<lparr>ss_portfolio = p, ss_signals = sort_key is_timestamp_ms signals, ss_funding = sort_key fs_timestamp_ms funding,
      ss_peak_equity = sg_initial_cash G, ss_max_dd_usdt = 0, ss_max_dd_pct = 0, ss_drawdown_halt = False, ss_entry_time = None,
      ss_entry_price = None, ss_peak_price = None, ss_trough_price = None, ss_trailing_armed = None, ss_signal_id = [], ss_pending = [],
      ss_equity_curve = [], ss_notional_curve = []\<rparr>"

definition simulate :: "sim_config \<Rightarrow> candle list \<Rightarrow> information_signal list \<Rightarrow> funding_settlement list \<Rightarrow> sim_state res" where
  "simulate G candles signals funding =
     bindR (new_portfolio (sg_initial_cash G)) (\<lambda>p. run_bars G None candles (start_state G p signals funding))"

end
