(* ===== verification/Ledger_Safety.thy ===== *)
theory Ledger_Safety
  imports Ledger
begin

text \<open>
  Properties of the ledger: an account is a function of its events. The accounts that can arise are an inductive
  predicate; restoring one from its history gives it back exactly, and whatever is restored is such an account.
\<close>

section \<open>Steps of an account\<close>

inductive ledger :: "portfolio \<Rightarrow> bool" where
  opened: "new_portfolio cash = Inr p \<Longrightarrow> ledger p"
| traded: "ledger p \<Longrightarrow> apply_trade p o1 = Inr (e, p') \<Longrightarrow> ledger p'"
| funded: "ledger p \<Longrightarrow> apply_funding p t asset cashflow mark_price = Inr (e, p') \<Longrightarrow> ledger p'"

lemma finite_value_simps [simp]:
  "finite_value x nm = Inr u \<longleftrightarrow> isfinite x" "all_finite [] = Inr ()"
  "all_finite ((nm, x) # xs) = Inr u \<longleftrightarrow> isfinite x \<and> all_finite xs = Inr u"
  by (auto simp: finite_value_def require_def all_finite_def bindR_Inr_iff simp del: bindR_require)

lemma require_Inr [simp]: "require c e = Inr u \<longleftrightarrow> c"
  by (simp add: require_def)

lemma feq_refl [simp]: "feq x x \<longleftrightarrow> x \<noteq> NaN"
  by (simp add: feq_def)

lemma finite_not_NaN: "isfinite x \<Longrightarrow> x \<noteq> NaN"
  by auto

text \<open>What an accepted event guarantees.\<close>

lemma trade_event_validate_finite:
  assumes "trade_event_validate e = Inr u"
  shows "0 < te_timestamp_ms e" and "isfinite (te_price e)" and "isfinite (te_quantity e)" and "isfinite (te_fee_usdt e)" and "isfinite (te_funding_usdt e)"
    and "isfinite (te_position_after e)" and "isfinite (te_cash_after e)" and "isfinite (te_realized_pnl_usdt e)"
  using assms by (auto simp: trade_event_validate_def bindR_Inr_iff simp del: bindR_require)

lemma event_eq_refl: "trade_event_validate e = Inr u \<Longrightarrow> event_eq e e"
  using trade_event_validate_finite [of e u] by (auto simp: event_eq_def metadata_eq_def value_eq_def finite_not_NaN)

definition current_entry :: "portfolio \<Rightarrow> string \<Rightarrow> flt" where
  "current_entry p asset = (case map_of (pf_positions p) asset of Some q \<Rightarrow> lp_average_entry_price q | None \<Rightarrow> 0)"

lemma apply_trade_Inr:
  assumes "apply_trade p o1 = Inr (e, p')"
  obtains q entry realized pos where
    "trade_effect (to_action o1) (get_position_quantity p (to_asset o1)) (current_entry p (to_asset o1)) (to_price o1) (to_quantity o1) = Inr (q, entry, realized)"
    "validate_event_input p (to_timestamp_ms o1) (to_asset o1) = Inr ()" "to_action o1 \<noteq> FUNDING_SETTLEMENT"
    "isfinite (to_quantity o1)" "isfinite (to_price o1)" "isfinite (to_fee_usdt o1)" "\<not> to_quantity o1 \<le> 0"
    "e = trade_event_of o1 q (pf_cash p + realized - to_fee_usdt o1) realized" "trade_event_validate e = Inr ()"
    "pos = \<lparr>lp_asset = to_asset o1, lp_quantity = q, lp_average_entry_price = entry,
       lp_entry_timestamp_ms = (case map_of (pf_positions p) (to_asset o1) of Some q \<Rightarrow> lp_entry_timestamp_ms q | None \<Rightarrow> to_timestamp_ms o1)\<rparr>"
    "feq q 0 \<or> ledger_position_validate pos = Inr ()"
    "p' = p\<lparr>pf_positions := (if feq q 0 then AList.delete (to_asset o1) (pf_positions p) else AList.update (to_asset o1) pos (pf_positions p)),
       pf_cash := pf_cash p + realized - to_fee_usdt o1, pf_trade_history := pf_trade_history p @ [e]\<rparr>"
  using assms
  by (auto simp: apply_trade_def bindR_Inr_iff Let_def get_position_quantity_def current_entry_def simp del: bindR_require split: if_splits)

lemma apply_funding_Inr:
  "apply_funding p t asset cf mark = Inr (e, p') \<longleftrightarrow>
     validate_event_input p t asset = Inr () \<and> isfinite cf \<and> \<not> (feq (get_position_quantity p asset) 0 \<and> \<not> feq cf 0)
     \<and> e = funding_event p t asset cf mark \<and> trade_event_validate e = Inr ()
     \<and> p' = p\<lparr>pf_cash := te_cash_after e, pf_trade_history := pf_trade_history p @ [e]\<rparr>"
  by (rule iffI) (clarsimp simp: apply_funding_def bindR_Inr_iff Let_def simp del: bindR_require)+

lemma valid_asset: "validate_event_input p t asset = Inr () \<Longrightarrow> py_strip asset \<noteq> []"
  by (auto simp: validate_event_input_def bindR_Inr_iff simp del: bindR_require)

section \<open>Replay\<close>

lemma ledger_replay_append: "replay_events p (es @ [e]) = bindR (replay_events p es) (\<lambda>q. replay_event q e)"
proof (induction es arbitrary: p)
  case Nil
  then show ?case by (cases "replay_event p e") auto
next
  case (Cons d es)
  then show ?case by (cases "replay_event p d") auto
qed

lemma trade_replayed:
  assumes "apply_trade p o1 = Inr (e, p')"
  shows "replay_event p e = Inr p'"
proof -
  from assms obtain q realized where e: "e = trade_event_of o1 q (pf_cash p + realized - to_fee_usdt o1) realized"
    and v: "trade_event_validate e = Inr ()" and a: "validate_event_input p (to_timestamp_ms o1) (to_asset o1) = Inr ()" "to_action o1 \<noteq> FUNDING_SETTLEMENT"
    by (rule apply_trade_Inr) blast
  have "replayed_order e (to_asset o1) = o1\<lparr>to_metadata := (to_metadata o1)(''asset'' := None)\<rparr>"
    by (simp add: e trade_event_of_def replayed_order_def)
  moreover have "apply_trade p (o1\<lparr>to_metadata := (to_metadata o1)(''asset'' := None)\<rparr>) = apply_trade p o1"
  proof -
    let ?o = "o1\<lparr>to_metadata := (to_metadata o1)(''asset'' := None)\<rparr>"
    have event: "trade_event_of ?o = trade_event_of o1" by (intro ext) (simp add: trade_event_of_def)
    have fields: "to_timestamp_ms ?o = to_timestamp_ms o1" "to_action ?o = to_action o1" "to_asset ?o = to_asset o1" "to_price ?o = to_price o1"
      "to_quantity ?o = to_quantity o1" "to_fee_usdt ?o = to_fee_usdt o1" by simp_all
    show ?thesis unfolding apply_trade_def event fields ..
  qed
  ultimately have "apply_trade p (replayed_order e (to_asset o1)) = Inr (e, p')" using assms by simp
  moreover have "te_metadata e ''asset'' = Some (JStr (to_asset o1))" "te_action e = to_action o1" by (simp_all add: e trade_event_of_def)
  ultimately show ?thesis using a valid_asset [OF a(1)] event_eq_refl [OF v] by (simp add: replay_event_def)
qed

lemma funding_replayed:
  assumes "apply_funding p t asset cf mark = Inr (e, p')"
  shows "replay_event p e = Inr p'"
proof -
  from assms have e: "e = funding_event p t asset cf mark" and v: "trade_event_validate e = Inr ()" and a: "validate_event_input p t asset = Inr ()"
    by (auto simp: apply_funding_Inr)
  have "te_metadata e ''asset'' = Some (JStr asset)" "te_action e = FUNDING_SETTLEMENT" "te_timestamp_ms e = t" "te_funding_usdt e = cf" "te_price e = mark"
    by (simp_all add: e funding_event_def Let_def)
  then show ?thesis using assms valid_asset [OF a] event_eq_refl [OF v] by (simp add: replay_event_def)
qed

lemma ledger_history:
  "ledger p \<Longrightarrow> bindR (new_portfolio (pf_initial_cash p)) (\<lambda>q. replay_events q (pf_trade_history p)) = Inr p"
proof (induction rule: ledger.induct)
  case (opened cash p)
  then show ?case by (auto simp: new_portfolio_def bindR_Inr_iff simp del: bindR_require)
next
  case (traded p o1 e p')
  have "pf_initial_cash p' = pf_initial_cash p" "pf_trade_history p' = pf_trade_history p @ [e]"
    using traded(2) by (auto elim!: apply_trade_Inr)
  with traded(3) trade_replayed [OF traded(2)] show ?case by (cases "new_portfolio (pf_initial_cash p)") (auto simp: ledger_replay_append)
next
  case (funded p t asset cf mark e p')
  then show ?case using funding_replayed [OF funded(2)]
    by (cases "new_portfolio (pf_initial_cash p)") (auto simp: apply_funding_Inr ledger_replay_append)
qed

lemma replay_sound:
  assumes "replay_event p e = Inr q"
  shows "(\<exists>o1 d. apply_trade p o1 = Inr (d, q) \<and> event_eq d e) \<or> (\<exists>t a c m d. apply_funding p t a c m = Inr (d, q) \<and> event_eq d e)"
  using assms unfolding replay_event_def
  by (auto simp: bindR_Inr_iff split: option.splits json.splits if_splits prod.splits)

lemma history_grows:
  "apply_trade p o1 = Inr (e, q) \<Longrightarrow> pf_trade_history q = pf_trade_history p @ [e] \<and> pf_initial_cash q = pf_initial_cash p"
  "apply_funding p t a c m = Inr (e, q) \<Longrightarrow> pf_trade_history q = pf_trade_history p @ [e] \<and> pf_initial_cash q = pf_initial_cash p"
  by (auto elim!: apply_trade_Inr simp: apply_funding_Inr)

lemma replays_sound:
  "replay_events p es = Inr q \<Longrightarrow> ledger p \<Longrightarrow>
     ledger q \<and> (\<exists>ds. pf_trade_history q = pf_trade_history p @ ds \<and> list_all2 event_eq ds es)"
proof (induction es arbitrary: p)
  case Nil
  then show ?case by simp
next
  case (Cons e es)
  then obtain p1 where p1: "replay_event p e = Inr p1" "replay_events p1 es = Inr q" by (auto simp: bindR_Inr_iff)
  obtain d where d: "ledger p1" "pf_trade_history p1 = pf_trade_history p @ [d]" "event_eq d e"
    using replay_sound [OF p1(1)] Cons.prems(2) history_grows by (blast intro: traded funded)
  from Cons.IH [OF p1(2) d(1)] d(2,3) show ?case by auto
qed

text \<open>C29: An account is determined by its history: every account that can arise from openings, trades and funding is restored exactly from its
  initial cash and its events, with the same cash, positions and history. And replay is verified: whatever list of events
  is accepted, the restored account is one that trades and funding produce, and its own events agree field by field with the given ones.\<close>

theorem ledger_replays:
  assumes "ledger p"
  shows "from_events (pf_initial_cash p) (pf_trade_history p) = Inr p
     \<and> (\<forall>cash es q. from_events cash es = Inr q \<longrightarrow> ledger q \<and> list_all2 event_eq (pf_trade_history q) es)"
proof (intro conjI allI impI)
  show "from_events (pf_initial_cash p) (pf_trade_history p) = Inr p"
    using ledger_history [OF assms] by (simp add: from_events_def)
next
  fix cash es q
  assume "from_events cash es = Inr q"
  then obtain r where r: "new_portfolio cash = Inr r" "replay_events r es = Inr q" by (auto simp: from_events_def bindR_Inr_iff)
  have "pf_trade_history r = []" using r(1) by (auto simp: new_portfolio_def bindR_Inr_iff simp del: bindR_require)
  with replays_sound [OF r(2) opened [OF r(1)]]
  show "ledger q" and "list_all2 event_eq (pf_trade_history q) es" by simp_all
qed

section \<open>Books and positions\<close>

definition last_position :: "trade_event list \<Rightarrow> string \<Rightarrow> flt" where
  "last_position es asset =
     (case filter (\<lambda>e. te_metadata e ''asset'' = Some (JStr asset)) es of [] \<Rightarrow> 0 | d # ds \<Rightarrow> te_position_after (last (d # ds)))"

lemma last_position_snoc:
  "last_position (es @ [e]) asset = (if te_metadata e ''asset'' = Some (JStr asset) then te_position_after e else last_position es asset)"
  by (auto simp: last_position_def split: list.splits) (metis append_Cons last_ConsL last_ConsR last_snoc list.distinct(1) list.inject neq_Nil_conv self_append_conv2)

definition books_ok :: "portfolio \<Rightarrow> bool" where
  "books_ok p \<longleftrightarrow> distinct (map fst (pf_positions p)) \<and> isfinite (pf_cash p)
     \<and> (\<forall>(k, q) \<in> set (pf_positions p). lp_asset q = k \<and> ledger_position_validate q = Inr () \<and> is_f64 (lp_quantity q))
     \<and> sorted (map te_timestamp_ms (pf_trade_history p))
     \<and> pf_cash p = (if pf_trade_history p = [] then pf_initial_cash p else te_cash_after (last (pf_trade_history p)))
     \<and> (\<forall>asset. get_position_quantity p asset = last_position (pf_trade_history p) asset)"

lemma quantity_update: "get_position_quantity (p\<lparr>pf_positions := AList.update a pos (pf_positions p), pf_cash := c, pf_trade_history := h\<rparr>) b
    = (if b = a then lp_quantity pos else get_position_quantity p b)"
  by (simp add: get_position_quantity_def update_conv)

lemma quantity_delete: "get_position_quantity (p\<lparr>pf_positions := AList.delete a (pf_positions p), pf_cash := c, pf_trade_history := h\<rparr>) b
    = (if b = a then 0 else get_position_quantity p b)"
  by (simp add: get_position_quantity_def delete_conv)

lemma feq_zero: "feq q 0 \<longleftrightarrow> q = 0"
  by (auto simp: feq_def zero_flt_def)

lemma trade_quantity:
  assumes "apply_trade p o1 = Inr (e, p')"
  shows "get_position_quantity p' b = (if b = to_asset o1 then te_position_after e else get_position_quantity p b)"
  using assms by (rule apply_trade_Inr) (auto simp: quantity_update quantity_delete feq_zero trade_event_of_def)

lemma effect_f64: "trade_effect a q entry price quantity = Inr (q', entry', r) \<Longrightarrow> is_f64 q'"
  by (auto simp: trade_effect_def Let_def split: if_splits)

lemma sorted_le_last: "sorted xs \<Longrightarrow> x \<in> set xs \<Longrightarrow> (x :: int) \<le> last xs"
  by (induction xs) (auto split: if_splits)

lemma in_update: "(k, r) \<in> set (AList.update a v xs) \<Longrightarrow> (k, r) \<in> set xs \<or> (k = a \<and> r = v)"
  by (induction xs) (auto split: if_splits)

lemma time_order: "validate_event_input p t a = Inr () \<Longrightarrow> sorted (map te_timestamp_ms (pf_trade_history p))
    \<Longrightarrow> te_timestamp_ms e = t \<Longrightarrow> sorted (map te_timestamp_ms (pf_trade_history p @ [e]))"
proof -
  assume v: "validate_event_input p t a = Inr ()" and s: "sorted (map te_timestamp_ms (pf_trade_history p))" and e: "te_timestamp_ms e = t"
  have "te_timestamp_ms d \<le> t" if "d \<in> set (pf_trade_history p)" for d
  proof -
    have "pf_trade_history p \<noteq> []" using that by auto
    moreover from this have "te_timestamp_ms (last (pf_trade_history p)) \<le> t"
      using v by (auto simp: validate_event_input_def bindR_Inr_iff simp del: bindR_require)
    moreover have "te_timestamp_ms d \<le> te_timestamp_ms (last (pf_trade_history p))"
      using sorted_le_last [OF s, of "te_timestamp_ms d"] that by (simp add: last_map calculation(1))
    ultimately show ?thesis by linarith
  qed
  with s e show ?thesis by (auto simp: sorted_append)
qed

lemma trade_keeps_books:
  assumes ok: "books_ok p" and t: "apply_trade p o1 = Inr (e, p')"
  shows "books_ok p'"
proof -
  from t obtain q entry realized pos where
    eff: "trade_effect (to_action o1) (get_position_quantity p (to_asset o1)) (current_entry p (to_asset o1)) (to_price o1) (to_quantity o1) = Inr (q, entry, realized)"
    and v: "validate_event_input p (to_timestamp_ms o1) (to_asset o1) = Inr ()"
    and e: "e = trade_event_of o1 q (pf_cash p + realized - to_fee_usdt o1) realized" "trade_event_validate e = Inr ()"
    and pos: "lp_asset pos = to_asset o1" "lp_quantity pos = q" "feq q 0 \<or> ledger_position_validate pos = Inr ()"
    and p': "p' = p\<lparr>pf_positions := (if feq q 0 then AList.delete (to_asset o1) (pf_positions p) else AList.update (to_asset o1) pos (pf_positions p)),
       pf_cash := pf_cash p + realized - to_fee_usdt o1, pf_trade_history := pf_trade_history p @ [e]\<rparr>"
    by (rule apply_trade_Inr) force
  have f: "te_timestamp_ms e = to_timestamp_ms o1" "te_cash_after e = pf_cash p + realized - to_fee_usdt o1"
    "te_metadata e ''asset'' = Some (JStr (to_asset o1))" by (simp_all add: e(1) trade_event_of_def)
  have pos_ok: "lp_asset r = k \<and> ledger_position_validate r = Inr () \<and> is_f64 (lp_quantity r)" if "(k, r) \<in> set (pf_positions p')" for k r
  proof -
    have "(k, r) \<in> set (pf_positions p) \<or> (\<not> feq q 0 \<and> k = to_asset o1 \<and> r = pos)"
      using that by (auto simp: p' AList.delete_eq split: if_splits dest: in_update)
    then show ?thesis using ok pos effect_f64 [OF eff] by (auto simp: books_ok_def)
  qed
  have "distinct (map fst (pf_positions p'))" using ok by (simp add: p' books_ok_def distinct_update distinct_delete)
  moreover have "isfinite (pf_cash p')" using trade_event_validate_finite(7) [OF e(2)] f by (simp add: p')
  moreover have "sorted (map te_timestamp_ms (pf_trade_history p'))" using time_order [OF v _ f(1)] ok by (simp add: p' books_ok_def)
  moreover have "get_position_quantity p' b = last_position (pf_trade_history p') b" for b
    using trade_quantity [OF t, of b] ok history_grows(1) [OF t] f(3) by (auto simp: last_position_snoc books_ok_def)
  ultimately show ?thesis using pos_ok f(2) by (auto simp: books_ok_def p')
qed

lemma funding_keeps_books:
  assumes ok: "books_ok p" and t: "apply_funding p t asset cf mark = Inr (e, p')"
  shows "books_ok p'"
proof -
  from t have v: "validate_event_input p t asset = Inr ()" and e: "e = funding_event p t asset cf mark" "trade_event_validate e = Inr ()"
    and p': "p' = p\<lparr>pf_cash := te_cash_after e, pf_trade_history := pf_trade_history p @ [e]\<rparr>"
    by (auto simp: apply_funding_Inr)
  have f: "te_timestamp_ms e = t" "te_metadata e ''asset'' = Some (JStr asset)" "te_position_after e = get_position_quantity p asset"
    by (simp_all add: e(1) funding_event_def Let_def)
  have "get_position_quantity p' b = last_position (pf_trade_history p') b" for b
    using ok f by (simp add: last_position_snoc books_ok_def p' get_position_quantity_def [of "p\<lparr>pf_cash := c, pf_trade_history := h\<rparr>" for c h])
      (simp add: get_position_quantity_def)
  moreover have "sorted (map te_timestamp_ms (pf_trade_history p'))" using time_order [OF v _ f(1)] ok by (simp add: p' books_ok_def)
  moreover have "isfinite (te_cash_after e)" using trade_event_validate_finite(7) [OF e(2)] .
  ultimately show ?thesis using ok by (simp add: books_ok_def p')
qed

lemma ledger_books: "ledger p \<Longrightarrow> books_ok p"
proof (induction rule: ledger.induct)
  case (opened cash p)
  then show ?case
    by (auto simp: new_portfolio_def bindR_Inr_iff books_ok_def get_position_quantity_def last_position_def simp del: bindR_require)
qed (auto intro: trade_keeps_books funding_keeps_books)

text \<open>C30: In every account that can arise the books agree: the cash is finite and is the cash recorded by the last event, the size of each position is the one
  recorded by the last event of its asset, every position has a finite nonzero size and a positive finite entry price under its own
  name, no asset has two positions, and the events are in order of time.\<close>

theorem ledger_books_agree: "ledger p \<Longrightarrow> books_ok p"
  by (rule ledger_books)

section \<open>Trades move a position one way\<close>

lemma abs_finite: "isfinite x \<Longrightarrow> is_f64 x \<Longrightarrow> \<exists>q. \<bar>x\<bar> = Fin q \<and> 0 \<le> q \<and> is_f64 (Fin q)"
  by (cases x) (auto simp del: is_f64.simps dest: is_f64_abs)

lemma direction_cases: "trade_direction a = Fin 1 \<or> trade_direction a = Fin (- 1)"
  by (simp add: trade_direction_def)

lemma direction_times:
  assumes "is_f64 x" and "d = Fin 1 \<or> d = Fin (- 1)"
  shows "d * x = (if d = Fin 1 then x else - x)"
  using assms by (cases x) (auto simp: rnd64_minus)

lemma grows: "is_f64 (Fin a) \<Longrightarrow> 0 < b \<Longrightarrow> Fin a \<le> Fin a + Fin b"
  by (simp add: rnd64_ge_f64 del: less_eq_flt.simps is_f64.simps)

lemma shrinks: "is_f64 (Fin a) \<Longrightarrow> 0 < b \<Longrightarrow> Fin a - Fin b \<le> Fin a"
  by (simp add: minus_flt_def rnd64_le_f64 del: less_eq_flt.simps is_f64.simps)

lemma shrinks_nonneg: "b \<le> a \<Longrightarrow> Fin 0 \<le> Fin a - Fin b"
  using rnd64_nonneg [of "a - b"] by (simp add: minus_flt_def zero_flt_def)

definition is_opening :: "trade_action \<Rightarrow> bool" where
  "is_opening a \<longleftrightarrow> a \<in> {OPEN_LONG, OPEN_SHORT}"

lemma effect_moves:
  assumes e: "trade_effect a q entry price quantity = Inr (q', entry', r)"
    and q: "isfinite q" "is_f64 q" and n: "isfinite quantity" "0 < quantity" and f: "isfinite q'"
  shows "if is_opening a then \<bar>q\<bar> < \<bar>q'\<bar> \<and> 0 < trade_direction a * q' \<and> 0 \<le> trade_direction a * q
         else \<bar>q'\<bar> < \<bar>q\<bar> \<and> 0 \<le> trade_direction a * q' \<and> 0 < trade_direction a * q"
proof -
  obtain x where x: "q = Fin x" using q(1) by (cases q) auto
  obtain b where b: "quantity = Fin b" "0 < b" using n by (cases quantity) (auto simp: zero_flt_def less_flt_def)
  obtain y where y: "q' = Fin y" using f by (cases q') auto
  have fx: "is_f64 (Fin \<bar>x\<bar>)" using q(2) x is_f64_abs [of q] by (simp del: is_f64.simps)
  have xd: "q * trade_direction a = (if trade_direction a = Fin 1 then q else - q)" "trade_direction a * q = (if trade_direction a = Fin 1 then q else - q)"
    using direction_times [OF q(2) direction_cases] direction_cases [of a] q(2) x by (auto simp: rnd64_minus)
  show ?thesis
  proof (cases "is_opening a")
    case True
    define size where "size = \<bar>q\<bar> + quantity"
    have s: "q' = trade_direction a * size" "\<not> feq size \<bar>q\<bar>" "\<not> q * trade_direction a < 0"
      using e True by (auto simp: trade_effect_def is_opening_def size_def Let_def split: if_splits)
    have q': "q' = (if trade_direction a = Fin 1 then size else - size)"
      using direction_times [of size "trade_direction a"] direction_cases s(1) by (simp add: size_def)
    then obtain z where z: "size = Fin z" "y = z \<or> y = - z" using y by (cases size) (auto split: if_splits)
    have "\<bar>x\<bar> \<le> z" using grows [OF fx b(2)] z(1) by (simp add: size_def x b)
    then have lt: "\<bar>x\<bar> < z" using s(2) z(1) by (auto simp: feq_def x)
    have "trade_direction a * q' = size"
      using direction_times [of q' "trade_direction a"] direction_cases [of a] q' s(1) by (auto simp: z)
    with lt True z y xd s(3) x show ?thesis by (auto simp: zero_flt_def less_flt_def split: if_splits)
  next
    case False
    define left where "left = \<bar>q\<bar> - quantity"
    have s: "q' = trade_direction a * left" "\<not> feq q' q" "\<not> q * trade_direction a \<le> 0" "\<not> \<bar>q\<bar> < quantity"
      using e False by (auto simp: trade_effect_def is_opening_def left_def Let_def split: if_splits)
    have q': "q' = (if trade_direction a = Fin 1 then left else - left)"
      using direction_times [of left "trade_direction a"] direction_cases s(1) by (simp add: left_def)
    then obtain z where z: "left = Fin z" using y by (cases left) (auto split: if_splits)
    have le: "z \<le> \<bar>x\<bar>" "0 \<le> z"
      using shrinks [OF fx b(2)] shrinks_nonneg [of b "\<bar>x\<bar>"] z s(4) by (auto simp: left_def x b less_flt_def not_less)
    have sx: "0 < (if trade_direction a = Fin 1 then x else - x)" using s(3) xd x by (auto simp: zero_flt_def split: if_splits)
    have "z \<noteq> \<bar>x\<bar>" using s(2) q' z sx x by (auto simp: feq_def split: if_splits)
    moreover have "trade_direction a * q' = left"
      using direction_times [of q' "trade_direction a"] direction_cases [of a] q' s(1) by (auto simp: z)
    ultimately show ?thesis using False z q' le sx xd x by (auto simp: zero_flt_def less_flt_def split: if_splits)
  qed
qed

text \<open>C31: A trade moves the position of its asset one way only. An opening trade enlarges it strictly on its own side, and never against an
  open position of the other side. A closing trade reduces it strictly without crossing zero, so a position never turns
  round without being flat in between. No other position moves, and the cash changes by the realized profit less the fee.\<close>

theorem trade_moves_one_way:
  assumes p: "ledger p" and t: "apply_trade p o1 = Inr (e, p')"
  shows "(let q = get_position_quantity p (to_asset o1); q' = get_position_quantity p' (to_asset o1); d = trade_direction (to_action o1)
          in if is_opening (to_action o1) then \<bar>q\<bar> < \<bar>q'\<bar> \<and> 0 < d * q' \<and> 0 \<le> d * q
             else \<bar>q'\<bar> < \<bar>q\<bar> \<and> 0 \<le> d * q' \<and> 0 < d * q)
    \<and> (\<forall>b. b \<noteq> to_asset o1 \<longrightarrow> get_position_quantity p' b = get_position_quantity p b)
    \<and> pf_cash p' = pf_cash p + te_realized_pnl_usdt e - to_fee_usdt o1"
proof -
  let ?q = "get_position_quantity p (to_asset o1)"
  have ok: "books_ok p" using p by (rule ledger_books)
  have "isfinite ?q \<and> is_f64 ?q"
  proof (cases "map_of (pf_positions p) (to_asset o1)")
    case (Some r)
    then have "ledger_position_validate r = Inr ()" "is_f64 (lp_quantity r)"
      using ok by (auto simp: books_ok_def dest: map_of_SomeD)
    with Some show ?thesis
      by (auto simp: get_position_quantity_def ledger_position_validate_def bindR_Inr_iff simp del: bindR_require)
  qed (simp add: get_position_quantity_def zero_flt_def)
  then have q: "isfinite ?q" "is_f64 ?q" by simp_all
  from t obtain q' entry realized where
    eff: "trade_effect (to_action o1) ?q (current_entry p (to_asset o1)) (to_price o1) (to_quantity o1) = Inr (q', entry, realized)"
    and n: "isfinite (to_quantity o1)" "\<not> to_quantity o1 \<le> 0"
    and e: "e = trade_event_of o1 q' (pf_cash p + realized - to_fee_usdt o1) realized" "trade_event_validate e = Inr ()"
    and cash: "pf_cash p' = pf_cash p + realized - to_fee_usdt o1"
    by (rule apply_trade_Inr) force
  have "0 < to_quantity o1" using n by (cases "to_quantity o1") (auto simp: zero_flt_def less_flt_def)
  moreover have "isfinite q'" using trade_event_validate_finite(6) [OF e(2)] by (simp add: e(1) trade_event_of_def)
  ultimately have "if is_opening (to_action o1) then \<bar>?q\<bar> < \<bar>q'\<bar> \<and> 0 < trade_direction (to_action o1) * q' \<and> 0 \<le> trade_direction (to_action o1) * ?q
         else \<bar>q'\<bar> < \<bar>?q\<bar> \<and> 0 \<le> trade_direction (to_action o1) * q' \<and> 0 < trade_direction (to_action o1) * ?q"
    using effect_moves [OF eff q n(1)] by blast
  moreover have "te_position_after e = q'" "te_realized_pnl_usdt e = realized" by (simp_all add: e(1) trade_event_of_def)
  ultimately show ?thesis using trade_quantity [OF t] cash by (simp add: Let_def)
qed

section \<open>A sample account\<close>

definition sample_opened :: portfolio where
  "sample_opened = \<lparr>pf_initial_cash = Fin 1000, pf_cash = Fin 1000, pf_positions = [], pf_trade_history = []\<rparr>"

definition sample_order :: trade_order where
  "sample_order = \<lparr>to_timestamp_ms = 5, to_action = OPEN_LONG, to_asset = ''BTCUSDT'', to_price = Fin 100, to_quantity = Fin 2, to_fee_usdt = Fin 1,
     to_signal_id = ''s'', to_trade_id = ''t'', to_observation_timestamp_ms = Some 3, to_decision_timestamp_ms = Some 4,
     to_order_timestamp_ms = Some 4, to_settlement_timestamp_ms = Some 5, to_metadata = Map.empty\<rparr>"

definition sample_event :: trade_event where
  "sample_event = trade_event_of sample_order (Fin 2) (Fin 999) (Fin 0)"

definition sample_traded :: portfolio where
  "sample_traded = sample_opened\<lparr>pf_positions := [(''BTCUSDT'', \<lparr>lp_asset = ''BTCUSDT'', lp_quantity = Fin 2, lp_average_entry_price = Fin 100,
     lp_entry_timestamp_ms = 5\<rparr>)], pf_cash := Fin 999, pf_trade_history := [sample_event]\<rparr>"

lemma sample_opens: "ledger sample_opened"
  by (rule opened [of "Fin 1000"]) (simp add: new_portfolio_def finite_value_def require_def sample_opened_def zero_flt_def)

lemma sample_trades: "apply_trade sample_opened sample_order = Inr (sample_event, sample_traded)"
proof -
  have s: "py_strip ''BTCUSDT'' = ''BTCUSDT''" by code_simp
  have eff: "trade_effect OPEN_LONG 0 0 (Fin 100) (Fin 2) = Inr (Fin 2, Fin 100, Fin 0)"
    by (simp add: trade_effect_def trade_direction_def Let_def zero_flt_def feq_def)
  have v: "trade_event_validate sample_event = Inr ()"
    by (simp add: trade_event_validate_def sample_event_def trade_event_of_def sample_order_def all_finite_def finite_value_def require_def zero_flt_def
        feq_def positive_ms_def ms_order_def less_flt_def)
  have c: "Fin 1000 + Fin 0 - Fin 1 = Fin 999" by (simp add: minus_flt_def)
  note fields = sample_order_def sample_opened_def
  show ?thesis using eff v c s
    by (simp add: apply_trade_def validate_event_input_def fields all_finite_def finite_value_def require_def zero_flt_def less_flt_def
        ledger_position_validate_def feq_def sample_traded_def)
      (simp add: sample_event_def fields Let_def require_def finite_value_def)
qed

lemma sample_ledger: "ledger sample_traded"
  by (rule traded [OF sample_opens sample_trades])

theorem ledger_replays_witness: "from_events (Fin 1000) [sample_event] = Inr sample_traded"
  using ledger_replays [OF sample_ledger] by (simp add: sample_traded_def sample_opened_def)

theorem ledger_books_agree_witness: "ledger sample_traded \<and> books_ok sample_traded"
  using ledger_books_agree [OF sample_ledger] sample_ledger by simp

theorem trade_moves_one_way_witness:
  "apply_trade sample_opened sample_order = Inr (sample_event, sample_traded)
     \<and> \<bar>get_position_quantity sample_opened ''BTCUSDT''\<bar> < \<bar>get_position_quantity sample_traded ''BTCUSDT''\<bar>"
  using trade_moves_one_way [OF sample_opens sample_trades] sample_trades by (simp add: Let_def is_opening_def sample_order_def)

end
