(* ===== verification/Fill_Safety.thy ===== *)
theory Fill_Safety
  imports Execution_Model Ledger_Safety
begin

text \<open>
  Properties of the execution model: slippage is never favourable and stays within the bound announced before the order, a
  fill respects latency, expiry, limit and reserved notional, and a fill depends on no data later than its own time.
\<close>

section \<open>Prices\<close>

lemma quot_mono: "0 < c \<Longrightarrow> a \<le> b \<Longrightarrow> quot (Fin a) (Fin c) \<le> quot (Fin b) (Fin c)"
  by (simp add: rnd64_mono divide_right_mono)

lemma plus_mono_right: "a \<le> b \<Longrightarrow> Fin x + Fin a \<le> Fin x + Fin b"
  by (simp add: rnd64_mono)

lemma times_mono_left: "0 \<le> x \<Longrightarrow> a \<le> b \<Longrightarrow> Fin x * Fin a \<le> Fin x * Fin b"
  by (simp add: rnd64_mono mult_left_mono)

definition proper_fees :: "fee_model \<Rightarrow> bool" where
  "proper_fees F \<longleftrightarrow> fee_validate F = Inr ()"

lemma proper_fees_bounds:
  assumes "proper_fees F"
  shows "finite_nonnegative (fm_fixed_slippage_bps F)" and "finite_nonnegative (fm_impact_coefficient F)" and "opt_all finite_nonnegative (fm_max_slippage_bps F)"
  using assms by (auto simp: proper_fees_def fee_validate_def bindR_Inr_iff simp del: bindR_require)

lemma finite_nonnegativeD: "finite_nonnegative x \<Longrightarrow> \<exists>q. x = Fin q \<and> 0 \<le> q"
  by (cases x) (auto simp: finite_nonnegative_def less_flt_def zero_flt_def)

lemma positive_finiteD: "\<not> (\<not> isfinite x \<or> x \<le> 0) \<Longrightarrow> \<exists>q. x = Fin q \<and> 0 < q"
  by (cases x) (auto simp: zero_flt_def)

lemma impact_nonneg:
  assumes "0 \<le> c" and "0 < v" and "0 < q"
  shows "Fin c * quot (Fin q) (Fin v) * Fin 10000 = NaN \<or> 0 \<le> Fin c * quot (Fin q) (Fin v) * Fin 10000"
proof -
  have "0 \<le> rnd64 (q / v)" using assms rnd64_nonneg [of "q / v"] by simp
  then consider "rnd64 (q / v) = PInf" | z where "rnd64 (q / v) = Fin z" "0 \<le> z" by (cases "rnd64 (q / v)") (auto simp: zero_flt_def)
  then show ?thesis
  proof cases
    case 1
    then show ?thesis using assms by (simp add: zero_flt_def)
  next
    case 2
    have "0 \<le> rnd64 (c * z)" using assms 2 rnd64_nonneg [of "c * z"] by simp
    then have "rnd64 (c * z) = PInf \<or> (\<exists>y. rnd64 (c * z) = Fin y \<and> 0 \<le> y)" by (cases "rnd64 (c * z)") (auto simp: zero_flt_def)
    then show ?thesis using 2 rnd64_nonneg by (auto simp: zero_flt_def)
  qed
qed

lemma nonneg_plus: "0 \<le> x \<Longrightarrow> (y = NaN \<or> 0 \<le> (y :: flt)) \<Longrightarrow> Fin x + y = NaN \<or> 0 \<le> Fin x + y"
  by (cases y) (auto simp: zero_flt_def intro: rnd64_nonneg [unfolded zero_flt_def])

lemma slippage_bounds:
  assumes F: "proper_fees F" and b: "calculate_slippage_bps F quantity price spread volume = Inr bps"
  shows "bps = NaN \<or> 0 \<le> bps"
    and "fm_slippage_mode F = SPREAD_AND_IMPACT \<Longrightarrow> fm_max_slippage_bps F = Some m \<Longrightarrow> bps = NaN \<or> bps \<le> m"
    and "fm_slippage_mode F = ZERO \<Longrightarrow> bps = 0" and "fm_slippage_mode F = FIXED_BPS \<Longrightarrow> bps = fm_fixed_slippage_bps F"
proof -
  note unfold = calculate_slippage_bps_def bindR_Inr_iff
  obtain fx where fx: "fm_fixed_slippage_bps F = Fin fx" "0 \<le> fx" using proper_fees_bounds(1) [OF F] finite_nonnegativeD by blast
  obtain c where c: "fm_impact_coefficient F = Fin c" "0 \<le> c" using proper_fees_bounds(2) [OF F] finite_nonnegativeD by blast
  have mx: "\<exists>q. m = Fin q \<and> 0 \<le> q" if "fm_max_slippage_bps F = Some m" for m
    using proper_fees_bounds(3) [OF F] that finite_nonnegativeD by (simp add: opt_all_def)
  show "fm_slippage_mode F = ZERO \<Longrightarrow> bps = 0" "fm_slippage_mode F = FIXED_BPS \<Longrightarrow> bps = fm_fixed_slippage_bps F"
    using b by (auto simp: unfold simp del: bindR_require)
  consider "fm_slippage_mode F \<noteq> SPREAD_AND_IMPACT" | "fm_slippage_mode F = SPREAD_AND_IMPACT" "spread = None"
    | s where "fm_slippage_mode F = SPREAD_AND_IMPACT" "spread = Some s" by (cases spread) auto
  then have "(bps = NaN \<or> 0 \<le> bps) \<and> (fm_slippage_mode F = SPREAD_AND_IMPACT \<longrightarrow> fm_max_slippage_bps F = Some m \<longrightarrow> bps = NaN \<or> bps \<le> m)"
  proof cases
    case 1
    then show ?thesis using b by (cases "fm_slippage_mode F") (auto simp: unfold zero_flt_def fx simp del: bindR_require)
  next
    case 2
    then show ?thesis using b mx by (auto simp: unfold zero_flt_def simp del: bindR_require split: option.splits)
  next
    case 3
    define impact where "impact = (if 0 < volume \<and> 0 < quantity then fm_impact_coefficient F * quot quantity volume * Fin 10000 else 0)"
    define raw where "raw = quot s (Fin 2) + impact"
    have s: "finite_nonnegative s" "isfinite quantity" "isfinite volume" and bps: "bps = (case fm_max_slippage_bps F of Some m \<Rightarrow> pymin raw m | None \<Rightarrow> raw)"
      using b 3 by (auto simp: unfold impact_def [symmetric] raw_def Let_def simp del: bindR_require split: option.splits)
    obtain q where q: "s = Fin q" "0 \<le> q" using finite_nonnegativeD [OF s(1)] by blast
    have i: "impact = NaN \<or> 0 \<le> impact"
      using impact_nonneg [OF c(2)] s(2,3) by (cases quantity; cases volume) (auto simp: impact_def c less_flt_def zero_flt_def)
    have "0 \<le> rnd64 (q / 2)" using q(2) rnd64_nonneg [of "q / 2"] by simp
    then have "rnd64 (q / 2) = PInf \<or> (\<exists>y. rnd64 (q / 2) = Fin y \<and> 0 \<le> y)" by (cases "rnd64 (q / 2)") (auto simp: zero_flt_def)
    then have raw: "raw = NaN \<or> 0 \<le> raw"
    proof
      assume "rnd64 (q / 2) = PInf"
      then show ?thesis using i by (cases impact) (auto simp: raw_def q zero_flt_def)
    next
      assume "\<exists>y. rnd64 (q / 2) = Fin y \<and> 0 \<le> y"
      then obtain y where y: "rnd64 (q / 2) = Fin y" "0 \<le> y" by blast
      show ?thesis using nonneg_plus [OF y(2) i] y(1) by (simp add: raw_def q)
    qed
    show ?thesis
    proof (cases "fm_max_slippage_bps F")
      case None
      then show ?thesis using raw bps by simp
    next
      case (Some k)
      then obtain z where "k = Fin z" "0 \<le> z" using mx by blast
      then show ?thesis using raw bps Some by (cases raw) (auto simp: pymin_def zero_flt_def less_flt_def split: if_splits)
    qed
  qed
  then show "bps = NaN \<or> 0 \<le> bps"
    and "fm_slippage_mode F = SPREAD_AND_IMPACT \<Longrightarrow> fm_max_slippage_bps F = Some m \<Longrightarrow> bps = NaN \<or> bps \<le> m" by auto
qed

lemma fill_price_cases:
  assumes "effective_fill_price F price quantity side maker spread volume = Inr x"
  obtains p where "price = Fin p" "0 < p" "side = 1 \<or> side = -1" "isfinite x" "maker \<Longrightarrow> x = price"
    "\<not> maker \<Longrightarrow> \<exists>bps. calculate_slippage_bps F quantity price spread volume = Inr bps
       \<and> x = (if side = 1 then price * (Fin 1 + quot bps (Fin 10000)) else price * (Fin 1 - quot bps (Fin 10000)))"
proof -
  have r: "\<not> (\<not> isfinite price \<or> price \<le> 0)" "side = 1 \<or> side = -1"
    using assms by (auto simp: effective_fill_price_def check_reference_def bindR_Inr_iff simp del: bindR_require)
  obtain p where p: "price = Fin p" "0 < p" using positive_finiteD [OF r(1)] by blast
  show ?thesis
  proof (rule that [OF p r(2)])
    show "isfinite x" "maker \<Longrightarrow> x = price"
      using assms r(1) by (auto simp: effective_fill_price_def bindR_Inr_iff Let_def simp del: bindR_require split: if_splits)
    show "\<exists>bps. calculate_slippage_bps F quantity price spread volume = Inr bps
       \<and> x = (if side = 1 then price * (Fin 1 + quot bps (Fin 10000)) else price * (Fin 1 - quot bps (Fin 10000)))" if "\<not> maker"
      using assms that by (auto simp: effective_fill_price_def bindR_Inr_iff Let_def simp del: bindR_require)
  qed
qed

text \<open>The factor of a finite slippage.\<close>

lemma slippage_factor:
  assumes "0 \<le> b"
  shows "quot (Fin b) (Fin 10000) = PInf \<or> (\<exists>f. quot (Fin b) (Fin 10000) = Fin f \<and> 0 \<le> f)"
proof -
  have "0 \<le> rnd64 (b / 10000)" using assms rnd64_nonneg [of "b / 10000"] by simp
  then show ?thesis by (cases "rnd64 (b / 10000)") (auto simp: zero_flt_def)
qed

lemma factor_ge_one: "0 \<le> f \<Longrightarrow> Fin 1 \<le> Fin 1 + Fin f"
  using rnd64_mono [of 1 "1 + f"] by simp

lemma factor_le_one: "0 \<le> f \<Longrightarrow> Fin 1 - Fin f \<le> Fin 1"
  using rnd64_mono [of "1 - f" 1] by (simp add: minus_flt_def)

lemma price_grows:
  assumes "is_f64 (Fin p)" and "0 < p" and "Fin 1 \<le> g"
  shows "Fin p \<le> Fin p * g"
proof (cases g)
  case (Fin h)
  then have "p \<le> p * h" using assms by (simp add: mult_le_cancel_left1)
  with assms(1) Fin show ?thesis by (simp add: rnd64_ge_f64 del: less_eq_flt.simps is_f64.simps)
qed (use assms in auto)

lemma price_shrinks:
  assumes "is_f64 (Fin p)" and "0 < p" and "g \<le> Fin 1"
  shows "Fin p * g \<le> Fin p"
proof (cases g)
  case (Fin h)
  then have "p * h \<le> p" using assms by (simp add: mult_le_cancel_left2)
  with assms(1) Fin show ?thesis by (simp add: rnd64_le_f64 del: less_eq_flt.simps is_f64.simps)
qed (use assms in auto)

text \<open>Slippage is adverse.\<close>

lemma fill_adverse:
  assumes F: "proper_fees F" and f64: "is_f64 price" and x: "effective_fill_price F price quantity side maker spread volume = Inr x"
  shows "(side = 1 \<longrightarrow> price \<le> x) \<and> (side = -1 \<longrightarrow> x \<le> price)"
proof -
  obtain p where p: "price = Fin p" "0 < p" "side = 1 \<or> side = -1" "isfinite x" "maker \<Longrightarrow> x = price"
    "\<not> maker \<Longrightarrow> \<exists>bps. calculate_slippage_bps F quantity price spread volume = Inr bps
       \<and> x = (if side = 1 then price * (Fin 1 + quot bps (Fin 10000)) else price * (Fin 1 - quot bps (Fin 10000)))"
    using x by (rule fill_price_cases) blast
  show ?thesis
  proof (cases maker)
    case True
    then show ?thesis using p by simp
  next
    case False
    then obtain bps where b: "calculate_slippage_bps F quantity price spread volume = Inr bps"
      and e: "x = (if side = 1 then price * (Fin 1 + quot bps (Fin 10000)) else price * (Fin 1 - quot bps (Fin 10000)))" using p(6) by blast
    have "bps = NaN \<or> 0 \<le> bps" using slippage_bounds(1) [OF F b] .
    then consider "bps = NaN" | "bps = PInf" | q where "bps = Fin q" "0 \<le> q" by (cases bps) (auto simp: zero_flt_def)
    then show ?thesis
    proof cases
      case 3
      from slippage_factor [OF 3(2)] show ?thesis
      proof
        assume "quot (Fin q) (Fin 10000) = PInf"
        then show ?thesis using e p 3(1) by (auto simp: minus_flt_def)
      next
        assume "\<exists>f. quot (Fin q) (Fin 10000) = Fin f \<and> 0 \<le> f"
        then obtain f where f: "quot bps (Fin 10000) = Fin f" "0 \<le> f" using 3(1) by auto
        show ?thesis unfolding e f(1)
          using price_grows [OF _ p(2) factor_ge_one [OF f(2)]] price_shrinks [OF _ p(2) factor_le_one [OF f(2)]] f64 p(1)
          by (auto simp del: less_eq_flt.simps is_f64.simps plus_flt.simps times_flt.simps)
      qed
    qed (use e p in \<open>auto simp: minus_flt_def\<close>)
  qed
qed

text \<open>The factor announced in advance, and that no slippage of a taker exceeds it.\<close>

definition bound_bps :: "fee_model \<Rightarrow> flt option" where
  "bound_bps F = (case fm_slippage_mode F of ZERO \<Rightarrow> Some 0 | FIXED_BPS \<Rightarrow> Some (fm_fixed_slippage_bps F) | SPREAD_AND_IMPACT \<Rightarrow> fm_max_slippage_bps F)"

lemma bound_bps_finite: "proper_fees F \<Longrightarrow> bound_bps F = Some m \<Longrightarrow> \<exists>q. m = Fin q \<and> 0 \<le> q"
  using proper_fees_bounds [of F] finite_nonnegativeD by (auto simp: bound_bps_def zero_flt_def opt_all_def split: slippage_mode.splits)

lemma slippage_le_bound:
  assumes "proper_fees F" and "calculate_slippage_bps F quantity price spread volume = Inr bps" and "bound_bps F = Some m"
  shows "bps = NaN \<or> bps \<le> m"
proof (cases "fm_slippage_mode F")
  case ZERO
  then show ?thesis using slippage_bounds(3) [OF assms(1,2)] assms(3) by (auto simp: bound_bps_def zero_flt_def)
next
  case FIXED_BPS
  then show ?thesis using slippage_bounds(4) [OF assms(1,2)] assms(3) bound_bps_finite [OF assms(1,3)] by (auto simp: bound_bps_def)
next
  case SPREAD_AND_IMPACT
  then show ?thesis using slippage_bounds(2) [OF assms(1,2)] assms(3) by (simp add: bound_bps_def)
qed

lemma worst_case_bound:
  assumes "worst_case_price_bound F price side spread = Inr (Some b)" and "is_f64 price"
  shows "\<exists>m. bound_bps F = Some m \<and> b = price * (Fin 1 + quot m (Fin 10000))"
proof -
  obtain p where p: "price = Fin p"
    using assms(1) by (cases price) (auto simp: worst_case_price_bound_def check_reference_def bindR_Inr_iff simp del: bindR_require)
  have "price * (Fin 1 + quot 0 (Fin 10000)) = price" using assms(2) p by (simp add: zero_flt_def)
  then show ?thesis using assms(1)
    by (auto simp: worst_case_price_bound_def bound_bps_def bindR_Inr_iff simp del: bindR_require split: slippage_mode.splits)
qed

text \<open>C27: The worst price announced before an order is submitted is never exceeded: whatever the quantity, the spread and the traded volume
  turn out to be, a fill against the reference price that succeeds is at most the announced bound, on both sides, for makers and
  takers. And slippage is never favourable: a buyer pays at least the reference price, a seller receives at most it.\<close>

theorem fill_within_announced_bound:
  assumes F: "proper_fees F" and f64: "is_f64 price" and bound: "worst_case_price_bound F price side spread0 = Inr (Some b)"
    and x: "effective_fill_price F price quantity side maker spread volume = Inr x"
  shows "x \<le> b \<and> (side = 1 \<longrightarrow> price \<le> x) \<and> (side = -1 \<longrightarrow> x \<le> price)"
proof -
  obtain m where m: "bound_bps F = Some m" and b: "b = price * (Fin 1 + quot m (Fin 10000))" using worst_case_bound [OF bound f64] by blast
  obtain z where z: "m = Fin z" "0 \<le> z" using bound_bps_finite [OF F m] by blast
  obtain p where p: "price = Fin p" "0 < p" "side = 1 \<or> side = -1" "isfinite x" "maker \<Longrightarrow> x = price"
    "\<not> maker \<Longrightarrow> \<exists>bps. calculate_slippage_bps F quantity price spread volume = Inr bps
       \<and> x = (if side = 1 then price * (Fin 1 + quot bps (Fin 10000)) else price * (Fin 1 - quot bps (Fin 10000)))"
    using x by (rule fill_price_cases) blast
  have "Fin 1 \<le> Fin 1 + quot m (Fin 10000)"
    using slippage_factor [OF z(2)] factor_ge_one z(1) by (auto simp del: less_eq_flt.simps(1) plus_flt.simps(1) quot.simps(1))
  then have ref: "price \<le> b" unfolding b using price_grows [OF _ p(2)] f64 p(1) by simp
  note adverse = fill_adverse [OF F f64 x]
  have "x \<le> b"
  proof (cases "side = 1 \<and> \<not> maker")
    case False
    then have "x \<le> price" using adverse p by auto
    then show ?thesis using ref flt_le_trans by blast
  next
    case True
    then obtain bps where bps: "calculate_slippage_bps F quantity price spread volume = Inr bps" "x = price * (Fin 1 + quot bps (Fin 10000))"
      using p(6) by auto
    have "bps \<noteq> NaN" using bps(2) p(1,4) by auto
    then have "0 \<le> bps" "bps \<le> m" using slippage_bounds(1) [OF F bps(1)] slippage_le_bound [OF F bps(1) m] by auto
    then obtain q where q: "bps = Fin q" "0 \<le> q" "q \<le> z" using z by (cases bps) (auto simp: zero_flt_def)
    from slippage_factor [OF q(2)] slippage_factor [OF z(2)] quot_mono [OF _ q(3), of 10000]
    consider "quot m (Fin 10000) = PInf" | f g where "quot bps (Fin 10000) = Fin f" "quot m (Fin 10000) = Fin g" "f \<le> g" "0 \<le> f"
      using q(1) z(1) by (auto simp del: quot.simps)
    then show ?thesis
    proof cases
      case 1
      then show ?thesis using b p(1,2,4) by (cases x) (auto simp del: quot.simps)
    next
      case 2
      have le: "Fin 1 + Fin f \<le> Fin 1 + Fin g" by (rule plus_mono_right [OF 2(3)])
      have fin: "Fin 1 + Fin f = PInf \<or> (\<exists>u. Fin 1 + Fin f = Fin u)" using factor_ge_one [OF 2(4)] by (cases "Fin 1 + Fin f") (auto simp del: plus_flt.simps)
      show ?thesis
      proof (cases "Fin 1 + Fin g")
        case (Fin v)
        then obtain u where u: "Fin 1 + Fin f = Fin u" "u \<le> v" using fin le by (auto simp del: plus_flt.simps)
        then show ?thesis using times_mono_left [of p u v] p(1,2) Fin 2 by (simp add: bps(2) b del: times_flt.simps plus_flt.simps less_eq_flt.simps)
      qed (use le fin 2 p b bps in \<open>auto simp del: plus_flt.simps simp: isfinite_iff\<close>)
    qed
  qed
  with adverse show ?thesis by blast
qed

section \<open>Orders\<close>

lemma result_validate_Inr:
  "result_validate r0 = Inr r \<Longrightarrow> r = r0 \<and> er_observation_timestamp_ms r \<le> er_decision_timestamp_ms r \<and> er_decision_timestamp_ms r \<le> er_order_timestamp_ms r
     \<and> (er_is_filled r \<longrightarrow> er_order_timestamp_ms r \<le> er_fill_timestamp_ms r \<and> er_fill_timestamp_ms r \<le> er_settlement_timestamp_ms r
          \<and> isfinite (er_fill_price r) \<and> isfinite (er_filled_quantity r) \<and> \<not> er_fill_price r \<le> 0 \<and> \<not> er_filled_quantity r \<le> 0)"
  by (auto simp: result_validate_def bindR_Inr_iff simp del: bindR_require split: if_splits)

lemma rejected_unfilled: "rejected M q t reason meta = Inr r \<Longrightarrow> \<not> er_is_filled r"
  by (auto simp: rejected_def unfilled_result_def dest: result_validate_Inr)

lemma filled_result_Inr:
  assumes "filled_result M q t reference x meta = Inr r"
  shows "er_is_filled r" and "er_fill_timestamp_ms r = t" and "er_settlement_timestamp_ms r = t" and "er_fill_price r = x" and "er_filled_quantity r = fst (capped_quantity q x)"
    and "er_observation_timestamp_ms r = observed_ms q" and "er_decision_timestamp_ms r = decision_ms M q" and "er_order_timestamp_ms r = order_ms M q"
    and "observed_ms q \<le> decision_ms M q" and "decision_ms M q \<le> order_ms M q" and "order_ms M q \<le> t" and "isfinite x"
  using assms by (auto simp: filled_result_def unfilled_result_def dest: result_validate_Inr split: prod.splits)

lemma market_fill_Inr:
  assumes "market_fill M q bar = Inr r" and "er_is_filled r"
  obtains t x reference meta where "filled_result M q t reference x meta = Inr r"
    "t = max (earliest_fill_ms M q) (if earliest_fill_ms M q \<le> cd_open_time_ms bar then cd_open_time_ms bar else cd_close_time_ms bar)"
  using assms rejected_unfilled unfolding market_fill_def Let_def
  by (auto simp: bindR_Inr_iff split: if_splits option.splits prod.splits)

lemma open_fill_Inr:
  assumes "open_fill M q limit bar opening evidence = Inr r" and "er_is_filled r"
  obtains x meta where "filled_result M q (cd_open_time_ms bar) opening x meta = Inr r" "within_limit (rq_side q) limit x"
proof -
  obtain price source refusal where t: "taker_fill_price M opening (rq_desired_quantity q) (rq_side q) (cd_open_time_ms bar) (rq_current_spread_bps q)
      (rq_liquidity_volume_base q) (rq_liquidity_available_at_ms q) None = Inr (price, source, refusal)"
    using assms(1) by (auto simp: open_fill_def Let_def bindR_Inr_iff)
  show thesis using assms t rejected_unfilled that
    by (cases refusal; cases price) (auto simp: open_fill_def Let_def split: if_splits)
qed

lemma limit_loop_Inr:
  assumes "limit_loop M q limit bars = Inr r" and "er_is_filled r"
  shows "\<exists>bar \<in> set bars. earliest_fill_ms M q \<le> cd_open_time_ms bar \<and> cd_open_time_ms bar \<le> expiration_ms M q
     \<and> (\<exists>x reference meta. filled_result M q (cd_open_time_ms bar) reference x meta = Inr r \<and> within_limit (rq_side q) limit x)"
  using assms(1)
proof (induction bars)
  case Nil
  then show ?case using assms(2) rejected_unfilled by auto
next
  case (Cons bar bars)
  let ?now = "\<not> expiration_ms M q < cd_open_time_ms bar \<and> \<not> cd_close_time_ms bar < earliest_fill_ms M q \<and> \<not> cd_open_time_ms bar < earliest_fill_ms M q"
  show ?case
  proof (cases "limit_loop M q limit bars = Inr r")
    case True
    from Cons.IH [OF this] show ?thesis by auto
  next
    case False
    with Cons.prems assms(2) have n: ?now and "\<exists>price evidence. open_fill M q limit bar price evidence = Inr r"
      by (auto simp: bindR_Inr_iff ambiguous_result_def dest: rejected_unfilled split: if_splits prod.splits)
    then obtain price evidence where "open_fill M q limit bar price evidence = Inr r" by blast
    from open_fill_Inr [OF this assms(2)] n show ?thesis by (metis list.set_intros(1) not_less)
  qed
qed

text \<open>The capped size never exceeds the requested one.\<close>

lemma capped_le:
  assumes "isfinite x" and "\<not> x \<le> 0" and "isfinite (rq_desired_quantity q)" and "is_f64 (rq_desired_quantity q)"
    and "opt_all is_f64 (rq_max_fill_notional q)" and "isfinite (fst (capped_quantity q x))" and "opt_all isfinite (rq_max_fill_notional q)"
  shows "fst (capped_quantity q x) \<le> rq_desired_quantity q"
proof (cases "capped_quantity q x")
  case (Pair n capped)
  obtain p where p: "x = Fin p" "0 < p" using assms(1,2) by (cases x) (auto simp: zero_flt_def)
  obtain d where d: "rq_desired_quantity q = Fin d" using assms(3) by (cases "rq_desired_quantity q") auto
  show ?thesis
  proof (cases capped)
    case False
    then have "n = Fin d" using Pair d by (auto simp: capped_quantity_def split: option.splits if_splits)
    then show ?thesis using Pair d by simp
  next
    case True
    then obtain m where m: "rq_max_fill_notional q = Some m" "m < x * rq_desired_quantity q" "n = quot m x"
      using Pair by (auto simp: capped_quantity_def split: option.splits if_splits)
    obtain k where k: "m = Fin k" "is_f64 (Fin k)" using assms(5,7) m(1) by (cases m) (auto simp: opt_all_def simp del: is_f64.simps)
    have "k < p * d"
    proof (rule ccontr)
      assume "\<not> k < p * d"
      then have "rnd64 (p * d) \<le> Fin k" using k(2) by (simp add: rnd64_le_f64 del: is_f64.simps)
      then show False using m(2) p(1) d k(1) by (simp add: less_flt_def)
    qed
    then have "k / p \<le> d" using p(2) by (simp add: field_simps)
    then show ?thesis using Pair m(3) k(1) p(1) d assms(4) by (simp add: rnd64_le_f64 del: is_f64.simps less_eq_flt.simps)
  qed
qed

text \<open>C28: A fill respects its order. It was observed, decided, ordered, filled and settled in this order of time, it happens no earlier than the order reaches
  the exchange, a limit order fills before it expires and at its limit up to one hundred-millionth, the price is positive,
  and the quantity is positive and at most the requested one, also when it is cut to the reserved notional.\<close>

theorem fill_respects_order:
  assumes f64: "is_f64 (rq_desired_quantity q)" "opt_all is_f64 (rq_max_fill_notional q)" "isfinite (rq_desired_quantity q)"
    and r: "simulate_order M q candles = Inr r" and filled: "er_is_filled r"
  shows "er_observation_timestamp_ms r \<le> er_decision_timestamp_ms r \<and> er_decision_timestamp_ms r \<le> er_order_timestamp_ms r
    \<and> er_order_timestamp_ms r \<le> er_fill_timestamp_ms r \<and> er_fill_timestamp_ms r \<le> er_settlement_timestamp_ms r
    \<and> er_order_timestamp_ms r + em_exchange_latency_ms M \<le> er_fill_timestamp_ms r
    \<and> (rq_order_type q = LIMIT \<longrightarrow> er_fill_timestamp_ms r \<le> er_order_timestamp_ms r + rq_time_in_force_ms q
         \<and> (\<exists>limit. rq_limit_price q = Some limit \<and> within_limit (rq_side q) limit (er_fill_price r)))
    \<and> 0 < er_fill_price r \<and> 0 < er_filled_quantity r \<and> er_filled_quantity r \<le> rq_desired_quantity q"
proof -
  have guards: "request_guards q = Inr ()" using r by (auto simp: simulate_order_def Let_def bindR_Inr_iff)
  then have notional: "opt_all isfinite (rq_max_fill_notional q)"
    by (auto simp: request_guards_def bindR_Inr_iff positive_finite_def opt_all_def simp del: bindR_require split: option.splits)
  obtain t x reference meta where f: "filled_result M q t reference x meta = Inr r" and t: "earliest_fill_ms M q \<le> t"
    and l: "rq_order_type q = LIMIT \<longrightarrow> t \<le> expiration_ms M q \<and> (\<exists>limit. rq_limit_price q = Some limit \<and> within_limit (rq_side q) limit x)"
  proof (cases "rq_order_type q")
    case MARKET
    then obtain bar where "market_fill M q bar = Inr r"
      using r filled rejected_unfilled by (auto simp: simulate_order_def Let_def guards split: if_splits option.splits)
    from market_fill_Inr [OF this filled] MARKET show ?thesis by (metis that max.cobounded1 order_type.distinct(1))
  next
    case LIMIT
    then obtain limit where "rq_limit_price q = Some limit" "limit_loop M q limit candles = Inr r"
      using r filled rejected_unfilled by (auto simp: simulate_order_def Let_def guards split: if_splits option.splits)
    with limit_loop_Inr [OF this(2) filled] show ?thesis by (metis that)
  qed
  note F = filled_result_Inr [OF f]
  have pos: "isfinite (er_filled_quantity r)" "\<not> er_fill_price r \<le> 0" "\<not> er_filled_quantity r \<le> 0"
    using f by (auto simp: filled_result_def unfilled_result_def dest: result_validate_Inr split: prod.splits)
  have "0 < er_fill_price r" "0 < er_filled_quantity r"
    using pos F(4,12) by (cases "er_fill_price r"; cases "er_filled_quantity r"; auto simp: zero_flt_def less_flt_def)+
  moreover have "er_filled_quantity r \<le> rq_desired_quantity q"
    using capped_le [OF _ _ f64(3,1,2) _ notional, of x] pos F(4,5,12) by simp
  ultimately show ?thesis using F t l by (auto simp: earliest_fill_ms_def expiration_ms_def)
qed

section \<open>No look-ahead\<close>

text \<open>Two candles that cannot be told apart at a time: the hours of trading are known, the opening price from the open on, the
  whole candle from its close on.\<close>

definition same_at :: "int \<Rightarrow> candle \<Rightarrow> candle \<Rightarrow> bool" where
  "same_at t c d \<longleftrightarrow> cd_open_time_ms d = cd_open_time_ms c \<and> cd_close_time_ms d = cd_close_time_ms c
     \<and> (cd_open_time_ms c \<le> t \<longrightarrow> cd_open d = cd_open c) \<and> (cd_close_time_ms c \<le> t \<longrightarrow> d = c)"

definition consecutive :: "candle list \<Rightarrow> bool" where
  "consecutive cs \<longleftrightarrow> sorted_wrt (\<lambda>c d. cd_close_time_ms c \<le> cd_open_time_ms d) cs"

lemma find_same_at:
  assumes "list_all2 (same_at t) cs ds" and "find (\<lambda>c. e \<le> cd_close_time_ms c) cs = Some c"
  shows "\<exists>d. find (\<lambda>c. e \<le> cd_close_time_ms c) ds = Some d \<and> same_at t c d"
  using assms by (induction rule: list_all2_induct) (auto simp: same_at_def split: if_splits)

lemma market_fill_causal:
  assumes r: "market_fill M q c = Inr r" and filled: "er_is_filled r" and late: "earliest_fill_ms M q \<le> cd_close_time_ms c"
    and same: "same_at (er_fill_timestamp_ms r) c d"
  shows "market_fill M q d = Inr r"
proof -
  from r filled obtain t x reference meta where f: "filled_result M q t reference x meta = Inr r"
    and t: "t = max (earliest_fill_ms M q) (if earliest_fill_ms M q \<le> cd_open_time_ms c then cd_open_time_ms c else cd_close_time_ms c)"
    by (rule market_fill_Inr)
  show ?thesis
  proof (cases "earliest_fill_ms M q \<le> cd_open_time_ms c")
    case True
    then have eqs: "cd_open_time_ms d = cd_open_time_ms c" "cd_open d = cd_open c" "(earliest_fill_ms M q \<le> cd_open_time_ms c) = True"
      using same t filled_result_Inr(2) [OF f] by (auto simp: same_at_def)
    have "market_fill M q d = market_fill M q c" unfolding market_fill_def Let_def eqs if_True ..
    with r show ?thesis by simp
  next
    case False
    then have "d = c" using same t filled_result_Inr(2) [OF f] late by (auto simp: same_at_def)
    with r show ?thesis by simp
  qed
qed

lemma open_fill_open:
  assumes "cd_open_time_ms d = cd_open_time_ms c" and "cd_open d = cd_open c"
  shows "open_fill M q limit d = open_fill M q limit c"
  by (intro ext) (unfold open_fill_def assms, rule refl)

lemma limit_loop_causal:
  assumes "list_all2 (same_at (er_fill_timestamp_ms r)) cs ds" and "consecutive cs" and "limit_loop M q limit cs = Inr r" and filled: "er_is_filled r"
  shows "limit_loop M q limit ds = Inr r"
  using assms(1-3)
proof (induction rule: list_all2_induct)
  case Nil
  then show ?case by simp
next
  case (Cons c cs d ds)
  have times: "cd_open_time_ms d = cd_open_time_ms c" "cd_close_time_ms d = cd_close_time_ms c" using Cons(1) by (auto simp: same_at_def)
  show ?case
  proof (cases "limit_loop M q limit cs = Inr r")
    case True
    then obtain b where "b \<in> set cs" and "\<exists>x reference meta. filled_result M q (cd_open_time_ms b) reference x meta = Inr r"
      using limit_loop_Inr [OF _ filled] by blast
    then have "cd_close_time_ms c \<le> er_fill_timestamp_ms r" using Cons.prems(1) filled_result_Inr(2) by (fastforce simp: consecutive_def)
    then have "d = c" using Cons(1) by (simp add: same_at_def)
    moreover have "limit_loop M q limit ds = Inr r" using Cons.IH Cons.prems(1) True by (simp add: consecutive_def)
    ultimately show ?thesis using Cons.prems(2) True by (auto simp: bindR_Inr_iff split: if_splits prod.splits)
  next
    case False
    with Cons.prems(2) filled obtain price evidence where o: "opening_price q c = (Inr price, evidence)" "within_limit (rq_side q) limit price"
        "open_fill M q limit c price evidence = Inr r" "\<not> expiration_ms M q < cd_open_time_ms c" "\<not> cd_close_time_ms c < earliest_fill_ms M q"
        "\<not> cd_open_time_ms c < earliest_fill_ms M q"
      by (auto simp: bindR_Inr_iff ambiguous_result_def dest: rejected_unfilled split: if_splits prod.splits)
    have "er_fill_timestamp_ms r = cd_open_time_ms c" using open_fill_Inr [OF o(3) filled] filled_result_Inr(2) by metis
    then have "cd_open d = cd_open c" using Cons(1) by (simp add: same_at_def)
    moreover from this have "opening_price q d = opening_price q c" by (simp add: opening_price_def times)
    ultimately show ?thesis using o times open_fill_open [OF times(1), of M q limit] by simp
  qed
qed

text \<open>C26: A simulated fill uses no information from after its own time. On a series of consecutive candles, if any of them is replaced by
  another one that cannot be told apart from it at the time of the fill (the trading hours agree, the opening price if the
  candle has opened by then, everything if it has closed), the order is filled with exactly the same result: price, quantity,
  fee, time and metadata do not depend on later prices, extremes or volumes, for market and limit orders alike.\<close>

theorem fill_has_no_lookahead:
  assumes "consecutive cs" and "simulate_order M q cs = Inr r" and filled: "er_is_filled r" and same: "list_all2 (same_at (er_fill_timestamp_ms r)) cs ds"
  shows "simulate_order M q ds = Inr r"
proof -
  have guards: "request_guards q = Inr ()" using assms(2) by (auto simp: simulate_order_def Let_def bindR_Inr_iff)
  have shape: "ds = [] \<longleftrightarrow> cs = []" using same by auto
  have pre: "\<not> rq_desired_quantity q \<le> 0" "rq_side q \<in> {1, -1}" "cs \<noteq> []"
    using assms(2) filled rejected_unfilled by (auto simp: simulate_order_def Let_def guards split: if_splits)
  show ?thesis
  proof (cases "rq_order_type q")
    case MARKET
    obtain c where c: "find (\<lambda>c. earliest_fill_ms M q \<le> cd_close_time_ms c) cs = Some c" "market_fill M q c = Inr r"
      using assms(2) MARKET pre filled rejected_unfilled by (auto simp: simulate_order_def Let_def guards split: option.splits)
    obtain d where d: "find (\<lambda>c. earliest_fill_ms M q \<le> cd_close_time_ms c) ds = Some d" "same_at (er_fill_timestamp_ms r) c d"
      using find_same_at [OF same c(1)] by blast
    have "earliest_fill_ms M q \<le> cd_close_time_ms c" using c(1) by (auto simp: find_Some_iff)
    from market_fill_causal [OF c(2) filled this d(2)] d(1) show ?thesis using MARKET pre shape by (simp add: simulate_order_def Let_def guards)
  next
    case LIMIT
    then obtain limit where l: "rq_limit_price q = Some limit" "\<not> limit \<le> 0" "\<not> expiration_ms M q < earliest_fill_ms M q" "limit_loop M q limit cs = Inr r"
      using assms(2) pre filled rejected_unfilled by (auto simp: simulate_order_def Let_def guards split: if_splits option.splits)
    from limit_loop_causal [OF same assms(1) l(4) filled] l(1-3) show ?thesis using LIMIT pre shape by (simp add: simulate_order_def Let_def guards)
  qed
qed

section \<open>A sample order\<close>

definition sample_fees :: fee_model where
  "sample_fees = \<lparr>fm_maker_fee_rate = Fin 0, fm_taker_fee_rate = Fin (1/2), fm_slippage_mode = FIXED_BPS, fm_fixed_slippage_bps = Fin 5000,
     fm_impact_coefficient = Fin 0, fm_max_slippage_bps = None\<rparr>"

definition sample_model :: execution_model where
  "sample_model = \<lparr>em_fee_model = sample_fees, em_decision_latency_ms = 500, em_exchange_latency_ms = 150, em_limit_fill_prob_on_touch = Fin (1/2),
     em_order_submission_latency_ms = 0\<rparr>"

definition sample_request :: order_request where
  "sample_request = \<lparr>rq_signal_timestamp_ms = 100, rq_side = 1, rq_desired_quantity = Fin 2, rq_order_type = LIMIT, rq_limit_price = Some (Fin 200),
     rq_time_in_force_ms = 60000, rq_current_spread_bps = None, rq_observation_timestamp_ms = None, rq_max_fill_notional = None,
     rq_open_price = None, rq_open_timestamp_ms = None, rq_liquidity_volume_base = None, rq_liquidity_available_at_ms = None\<rparr>"

definition sample_candle :: "flt \<Rightarrow> flt \<Rightarrow> candle" where
  "sample_candle close volume = \<lparr>cd_symbol = ''BTCUSDT'', cd_open_time_ms = 1000, cd_close_time_ms = 2000, cd_open = Fin 100, cd_high = Fin 300, cd_low = Fin 50,
     cd_close = close, cd_volume = volume, cd_quote_volume = 0, cd_taker_buy_base_volume = 0\<rparr>"

lemma sample_proper: "proper_fees sample_fees"
  by (simp add: proper_fees_def fee_validate_def sample_fees_def finite_nonnegative_def require_def opt_all_def zero_flt_def less_flt_def)

lemma three_halves: "rnd64 (3/2) = Fin (3/2)"
proof -
  have h: "of_int 3 * 2 powi (- 1) = (3/2 :: rat)" by (simp add: power_int_minus)
  have r: "rval (3/2) = 3/2" using rval_exact [of 3 "- 1"] unfolding h by simp
  have b: "(2::rat) \<le> 2 ^ 1024" using power_increasing [of 1 1024 "2::rat"] by simp
  show ?thesis using b by (simp add: rnd64_def r del: power_numeral)
qed

lemma sample_price: "effective_fill_price sample_fees (Fin 100) (Fin 2) 1 False None 0 = Inr (Fin 150)"
  by (simp add: effective_fill_price_def check_reference_def calculate_slippage_bps_def all_finite_def finite_value_def require_def sample_fees_def
      zero_flt_def less_flt_def three_halves Let_def)

lemma sample_bound: "worst_case_price_bound sample_fees (Fin 100) 1 None = Inr (Some (Fin 150))"
  by (simp add: worst_case_price_bound_def check_reference_def require_def spread_ok_def opt_all_def sample_fees_def zero_flt_def three_halves)

lemma sample_fills:
  "\<exists>r. simulate_order sample_model sample_request [sample_candle close volume] = Inr r \<and> er_is_filled r \<and> er_fill_price r = Fin 150 \<and> er_fill_timestamp_ms r = 1000"
proof -
  have times: "order_ms sample_model sample_request = 600" "earliest_fill_ms sample_model sample_request = 750" "expiration_ms sample_model sample_request = 60600"
    "decision_ms sample_model sample_request = 600" "observed_ms sample_request = 100"
    by (simp_all add: order_ms_def earliest_fill_ms_def expiration_ms_def decision_ms_def observed_ms_def sample_model_def sample_request_def)
  have guards: "request_guards sample_request = Inr ()"
    using times by (simp add: request_guards_def require_def opt_all_def) (simp add: sample_request_def)
  have taker: "taker_fill_price sample_model (Fin 100) (Fin 2) 1 1000 None None None None = Inr (Some (Fin 150), ''NOT_USED'', None)"
    using sample_price by (simp add: taker_fill_price_def sample_model_def sample_fees_def Let_def)
  obtain k where k: "tick = Fin k" "0 \<le> k"
    using rnd64_nonneg [of "1 / 10 ^ 8"] rnd64_mono [of "1 / 10 ^ 8" 1] by (cases tick) (auto simp: tick_def zero_flt_def)
  have "Fin 200 \<le> Fin 200 + tick" unfolding k(1) using rnd64_mono [of 200 "200 + k"] k(2) by simp
  then have within: "within_limit 1 (Fin 200) (Fin 100)" "within_limit 1 (Fin 200) (Fin 150)"
    by (auto simp: within_limit_def intro: flt_le_trans [of _ "Fin 200"])
  have fields: "rq_side sample_request = 1" "rq_desired_quantity sample_request = Fin 2" "rq_order_type sample_request = LIMIT"
    "rq_limit_price sample_request = Some (Fin 200)" "rq_current_spread_bps sample_request = None" "rq_liquidity_volume_base sample_request = None"
    "rq_liquidity_available_at_ms sample_request = None" "rq_max_fill_notional sample_request = None" "rq_open_timestamp_ms sample_request = None"
    by (simp_all add: sample_request_def)
  have c: "cd_open_time_ms (sample_candle close volume) = 1000" "cd_close_time_ms (sample_candle close volume) = 2000" "cd_open (sample_candle close volume) = Fin 100"
    by (simp_all add: sample_candle_def)
  have one: "simulate_order sample_model sample_request [sample_candle close volume]
      = open_fill sample_model sample_request (Fin 200) (sample_candle close volume) (Fin 100) ''OHLC_OPEN''"
    by (simp add: simulate_order_def guards fields times c within opening_price_def zero_flt_def Let_def)
  have two: "open_fill sample_model sample_request (Fin 200) (sample_candle close volume) (Fin 100) ''OHLC_OPEN'' = filled_result sample_model sample_request 1000 (Fin 100) (Fin 150) (\<lambda>capped.
      [(''limit_price'', JFloat (Fin 200)), (''observable_open'', JFloat (Fin 100)), (''opening_executable_price'', JFloat (Fin 100)),
       (''opening_executable_timestamp_ms'', JInt 1000), (''opening_price_evidence'', JStr ''OHLC_OPEN'')]
      @ liquidity_metadata sample_model sample_request ''NOT_USED'' None @ [(''execution_time_semantics'', JStr ''BAR_OPEN_MARKETABLE'')]
      @ size_metadata sample_request capped)"
    by (simp add: open_fill_def fields c taker within Let_def)
  show ?thesis unfolding one two
    by (simp add: filled_result_def capped_quantity_def fields unfilled_result_def times result_validate_def require_def finite_value_def zero_flt_def)
qed

theorem fill_within_announced_bound_witness: "Fin 150 \<le> Fin 150 \<and> Fin 100 \<le> Fin 150 \<and> effective_fill_price sample_fees (Fin 100) (Fin 2) 1 False None 0 = Inr (Fin 150)"
  using fill_within_announced_bound [OF sample_proper _ sample_bound sample_price] sample_price by simp

theorem fill_respects_order_witness:
  "\<exists>r. simulate_order sample_model sample_request [sample_candle (Fin 100) (Fin 1)] = Inr r \<and> er_fill_price r = Fin 150 \<and> er_filled_quantity r \<le> Fin 2"
proof -
  obtain r where r: "simulate_order sample_model sample_request [sample_candle (Fin 100) (Fin 1)] = Inr r" "er_is_filled r" "er_fill_price r = Fin 150"
    using sample_fills by blast
  have "er_filled_quantity r \<le> rq_desired_quantity sample_request"
    using fill_respects_order [OF _ _ _ r(1,2)] by (simp add: sample_request_def opt_all_def)
  with r show ?thesis by (simp add: sample_request_def)
qed

theorem fill_has_no_lookahead_witness:
  "\<exists>r. simulate_order sample_model sample_request [sample_candle (Fin 100) (Fin 1)] = Inr r \<and> er_is_filled r
     \<and> simulate_order sample_model sample_request [sample_candle (Fin 250) (Fin 7)] = Inr r"
proof -
  obtain r where r: "simulate_order sample_model sample_request [sample_candle (Fin 100) (Fin 1)] = Inr r" "er_is_filled r" "er_fill_timestamp_ms r = 1000"
    using sample_fills by blast
  have "list_all2 (same_at (er_fill_timestamp_ms r)) [sample_candle (Fin 100) (Fin 1)] [sample_candle (Fin 250) (Fin 7)]"
    by (simp add: same_at_def r(3) sample_candle_def)
  from fill_has_no_lookahead [OF _ r(1,2) this] r(1,2) show ?thesis by (simp add: consecutive_def)
qed

end
