(* ===== verification/Simulator_Safety.thy ===== *)
theory Simulator_Safety
  imports Simulator Fill_Safety "HOL-Library.Multiset"
begin

text \<open>
  Runs of the simulation engine. A relation between the states before and after a bar follows from the same relation for the few operations that
  change the state (\<open>sim_relation\<close>); it is interpreted for the ledger (every run leaves a portfolio whose books replay),
  for the drawdown record (the halt flag says exactly whether the recorded drawdown has reached the policy's stop), and for the halt (once it is
  set, no bar submits an entry).
\<close>

lemma bindR_InrE:
  assumes "bindR x f = Inr y"
  obtains a where "x = Inr a" "f a = Inr y"
  using assms by (auto simp: bindR_Inr_iff)

locale sim_relation =
  fixes K :: "sim_config \<Rightarrow> sim_state \<Rightarrow> sim_state \<Rightarrow> bool"
  assumes stays: "K G s s"
    and goes_on: "K G s t \<Longrightarrow> K G t u \<Longrightarrow> K G s u"
    and settles: "settle_funding G symb b f s = Inr t \<Longrightarrow> K G s t"
    and takes: "K G s (s\<lparr>ss_funding := fs\<rparr>)" "K G s (s\<lparr>ss_signals := sigs\<rparr>)"
    and fills: "fill_due G symb due s = Inr t \<Longrightarrow> K G s t"
    and exits: "fill_or_queue G pf symb now s = Inr t \<Longrightarrow> \<not> opens (pe_action pf) \<Longrightarrow> K G s t"
    and enters: "fill_or_queue G pf symb now s = Inr t \<Longrightarrow> \<not> ss_drawdown_halt s \<Longrightarrow> K G s t"
    and tracks: "K G s (track_extremes bar b s)"
    and marks: "mark_close G bar s = Inr t \<Longrightarrow> K G s t"
begin

lemma funding: "funding_loop G symb b due fs s = Inr t \<Longrightarrow> K G s t"
proof (induction fs arbitrary: s)
  case Nil
  then show ?case using takes(1) by auto
next
  case (Cons f fs)
  then show ?case by (auto simp: bindR_Inr_iff takes split: if_splits intro: goes_on settles)
qed

lemma settled: "settle_due G symb b due s = Inr t \<Longrightarrow> K G s t"
  by (simp add: settle_due_def funding)

lemma exited:
  "execute_exit G bars symb (if c then CLOSE_LONG else CLOSE_SHORT) side q now tid sid spread s = Inr t \<Longrightarrow> K G s t"
  by (auto simp: execute_exit_def bindR_Inr_iff stays fill_info_def opens_def split: if_splits intro: exits)

lemma conditionally_exited: "conditional_exit G bar armed seen price when tid s = Inr t \<Longrightarrow> K G s t"
  by (auto simp: conditional_exit_def execute_conditional_exit_def Let_def bindR_Inr_iff stays fill_info_def opens_def split: if_splits intro: exits)

lemma submitted: "route_entry G bars bar sig side gross q s = Inr t \<Longrightarrow> \<not> ss_drawdown_halt s \<Longrightarrow> K G s t"
  by (auto simp: route_entry_def Let_def bindR_Inr_iff stays split: if_splits intro: enters)

lemma entered: "enter_sized G bars bar sig spread qty s = Inr t \<Longrightarrow> \<not> ss_drawdown_halt s \<Longrightarrow> K G s t"
  by (auto simp: enter_sized_def Let_def bindR_Inr_iff stays split: if_splits prod.splits option.splits intro: submitted)

lemma tried: "try_entry G prev bars bar sig s = Inr t \<Longrightarrow> \<not> ss_drawdown_halt s \<Longrightarrow> K G s t"
  unfolding try_entry_def
  by (auto simp: stays elim!: bindR_InrE split: if_splits option.splits sum.splits pyerr.splits) (rule entered)

lemma signalled: "process_signal G prev bars bar sig s = Inr t \<Longrightarrow> K G s t"
  by (auto simp: process_signal_def reversal_exit_def Let_def bindR_Inr_iff stays split: if_splits
      intro: tried exited [where c = True, simplified] exited [where c = False, simplified])

lemma signals: "signal_loop G prev bars bar sigs s = Inr t \<Longrightarrow> K G s t"
proof (induction sigs arbitrary: s)
  case Nil
  then show ?case using takes(2) by auto
next
  case (Cons sig sigs)
  then show ?case by (auto simp: bindR_Inr_iff takes split: if_splits intro: goes_on signalled)
qed

lemma gapped: "gap_exit G bar s = Inr t \<Longrightarrow> K G s t"
  by (auto simp: gap_exit_def stays split: if_splits option.splits intro: conditionally_exited)

lemma stood: "standing_exit G bar s = Inr (b, t) \<Longrightarrow> K G s t"
  unfolding standing_exit_def
  by (auto simp: stays elim!: bindR_InrE split: if_splits option.splits prod.splits intro: conditionally_exited)

lemma expired: "close_expiry G bars bar b s = Inr t \<Longrightarrow> K G s t"
  by (auto simp: close_expiry_def stays tracks Let_def bindR_Inr_iff split: if_splits option.splits
      intro: goes_on [OF exited [where c = True, simplified] tracks] goes_on [OF exited [where c = False, simplified] tracks])

lemma stepped: "step_bar G prev bar rest s = Inr t \<Longrightarrow> K G s t"
  unfolding step_bar_def Let_def
  by (auto elim!: bindR_InrE) (meson goes_on settled fills signals gapped stood expired marks)

lemma ran: "run_bars G prev bars s = Inr t \<Longrightarrow> K G s t"
  by (induction bars arbitrary: prev s) (auto simp: stays bindR_Inr_iff intro: goes_on stepped)

end

section \<open>Books\<close>

lemma drawdown_fields [simp]:
  "ss_portfolio (update_drawdown G eq s) = ss_portfolio s" "ss_pending (update_drawdown G eq s) = ss_pending s"
  "ss_portfolio (track_trade pf s) = ss_portfolio s" "ss_pending (track_trade pf s) = ss_pending s"
  "ss_drawdown_halt (track_trade pf s) = ss_drawdown_halt s" "ss_max_dd_pct (track_trade pf s) = ss_max_dd_pct s"
  "ss_funding (track_extremes bar b s) = ss_funding s" "ss_portfolio (track_extremes bar b s) = ss_portfolio s" "ss_pending (track_extremes bar b s) = ss_pending s"
  "ss_drawdown_halt (track_extremes bar b s) = ss_drawdown_halt s" "ss_max_dd_pct (track_extremes bar b s) = ss_max_dd_pct s"
  by (simp_all add: update_drawdown_def track_trade_def track_extremes_def Let_def split: option.splits)

lemma apply_fill_Inr:
  assumes "apply_fill G pf symb s = Inr t"
  obtains e p eq where "apply_trade (ss_portfolio s) (fill_order pf symb) = Inr (e, p)" "t = update_drawdown G eq (track_trade pf (s\<lparr>ss_portfolio := p\<rparr>))"
  using assms by (auto simp: apply_fill_def Let_def elim!: bindR_InrE)

lemma settle_funding_Inr:
  assumes "settle_funding G symb b f s = Inr t"
  obtains (idle) "t = s"
  | (paid) e p cf mark eq where "apply_funding (ss_portfolio s) (fs_timestamp_ms f) symb cf mark = Inr (e, p)"
      "t = (if b then update_drawdown G eq (s\<lparr>ss_portfolio := p\<rparr>) else s\<lparr>ss_portfolio := p\<rparr>)"
  using assms unfolding settle_funding_def by (auto simp: Let_def elim!: bindR_InrE split: if_splits)

text \<open>What holds over one fill and over the removal of the filled orders holds over the loop that applies the due fills.\<close>

lemma fill_loop_kept:
  assumes "fill_loop G symb due rem pfs s = Inr t" and "P s"
    and "\<And>pf s t. apply_fill G pf symb s = Inr t \<Longrightarrow> P s \<Longrightarrow> P t" and "\<And>s rem. P s \<Longrightarrow> P (s\<lparr>ss_pending := rem\<rparr>)"
  shows "P t"
  using assms(1,2)
proof (induction pfs arbitrary: rem s)
  case Nil
  then show ?case using assms(4) by auto
next
  case (Cons pf pfs)
  then show ?case using assms(3) by (auto elim!: bindR_InrE split: if_splits)
qed

definition keeps_ledger :: "sim_config \<Rightarrow> sim_state \<Rightarrow> sim_state \<Rightarrow> bool" where
  "keeps_ledger G s t \<longleftrightarrow> (ledger (ss_portfolio s) \<longrightarrow> ledger (ss_portfolio t)) \<and> pf_initial_cash (ss_portfolio t) = pf_initial_cash (ss_portfolio s)"

lemma fill_ledger: "apply_fill G pf symb s = Inr t \<Longrightarrow> keeps_ledger G s t"
  by (erule apply_fill_Inr) (auto simp: keeps_ledger_def dest: history_grows intro: ledger.traded)

interpretation books: sim_relation keeps_ledger
proof
  show "keeps_ledger G s t" if "settle_funding G symb b f s = Inr t" for G symb b f s t
    using that by (rule settle_funding_Inr) (auto simp: keeps_ledger_def dest: history_grows intro: ledger.funded)
  show "keeps_ledger G s t" if "fill_due G symb due s = Inr t" for G symb due s t
    using that unfolding fill_due_def by (rule fill_loop_kept [where P = "keeps_ledger G s"]) (auto simp: keeps_ledger_def dest: fill_ledger)
  show "keeps_ledger G s t" if "fill_or_queue G pf symb now s = Inr t" for G pf symb now s t
    using that fill_ledger by (auto simp: fill_or_queue_def split: if_splits) (simp add: keeps_ledger_def)
  then show "keeps_ledger G s t" if "fill_or_queue G pf symb now s = Inr t" for G pf symb now s t
    using that .
  show "keeps_ledger G s t" if "mark_close G bar s = Inr t" for G bar s t
    using that by (auto simp: keeps_ledger_def mark_close_def Let_def elim!: bindR_InrE)
qed (auto simp: keeps_ledger_def)

section \<open>Drawdown\<close>

definition drawdown_recorded :: "sim_config \<Rightarrow> sim_state \<Rightarrow> bool" where
  "drawdown_recorded G s \<longleftrightarrow> ss_max_dd_pct s \<noteq> NaN \<and> (ss_drawdown_halt s \<longleftrightarrow> tr_max_drawdown_stop_pct (sg_policy G) \<le> ss_max_dd_pct s)"

definition keeps_record :: "sim_config \<Rightarrow> sim_state \<Rightarrow> sim_state \<Rightarrow> bool" where
  "keeps_record G s t \<longleftrightarrow> (drawdown_recorded G s \<longrightarrow> drawdown_recorded G t \<and> ss_max_dd_pct s \<le> ss_max_dd_pct t)"

lemma drawdown_grows:
  assumes "drawdown_recorded G s"
  shows "drawdown_recorded G (update_drawdown G eq s) \<and> ss_max_dd_pct s \<le> ss_max_dd_pct (update_drawdown G eq s)"
  using assms pymax_ge flt_le_trans pymax_not_NaN by (auto simp: drawdown_recorded_def update_drawdown_def Let_def)

lemma record_eq: "ss_max_dd_pct t = ss_max_dd_pct s \<Longrightarrow> ss_drawdown_halt t = ss_drawdown_halt s \<Longrightarrow> keeps_record G s t"
  by (auto simp: keeps_record_def drawdown_recorded_def)

lemma record_trans: "keeps_record G s t \<Longrightarrow> keeps_record G t u \<Longrightarrow> keeps_record G s u"
  unfolding keeps_record_def using flt_le_trans by blast

lemma record_updated: "ss_max_dd_pct t = ss_max_dd_pct s \<Longrightarrow> ss_drawdown_halt t = ss_drawdown_halt s \<Longrightarrow> keeps_record G s (update_drawdown G eq t)"
  using drawdown_grows [of G t eq] by (auto simp: keeps_record_def drawdown_recorded_def)

lemma fill_record: "apply_fill G pf symb s = Inr t \<Longrightarrow> keeps_record G s t"
  by (erule apply_fill_Inr) (simp add: record_updated)

interpretation drawdown: sim_relation keeps_record
proof
  show "keeps_record G s t" if "settle_funding G symb b f s = Inr t" for G symb b f s t
    using that by (rule settle_funding_Inr) (auto intro: record_eq record_updated)
  show "keeps_record G s t" if "fill_due G symb due s = Inr t" for G symb due s t
    using that unfolding fill_due_def
    by (rule fill_loop_kept [where P = "keeps_record G s"]) (auto intro: record_eq record_trans [OF _ fill_record] record_trans [OF _ record_eq])
  show "keeps_record G s t" if "fill_or_queue G pf symb now s = Inr t" for G pf symb now s t
    using that by (auto simp: fill_or_queue_def split: if_splits intro: fill_record record_eq)
  then show "keeps_record G s t" if "fill_or_queue G pf symb now s = Inr t" for G pf symb now s t
    using that .
  show "keeps_record G s t" if "mark_close G bar s = Inr t" for G bar s t
    using that record_trans [OF record_updated [of s s] record_eq] by (auto simp: mark_close_def Let_def elim!: bindR_InrE)
qed (auto intro: record_eq record_trans)

section \<open>Halt\<close>

text \<open>Entries submitted so far: those in the ledger and those still pending.\<close>

definition entries :: "trade_action list \<Rightarrow> nat" where
  "entries as = length (filter opens as)"

definition orders_opened :: "sim_state \<Rightarrow> nat" where
  "orders_opened s = entries (map te_action (pf_trade_history (ss_portfolio s))) + entries (map pe_action (ss_pending s))"

definition keeps_halt :: "sim_config \<Rightarrow> sim_state \<Rightarrow> sim_state \<Rightarrow> bool" where
  "keeps_halt G s t \<longleftrightarrow> (ss_drawdown_halt s \<longrightarrow> ss_drawdown_halt t \<and> orders_opened t = orders_opened s)"

lemma entries_simps [simp]: "entries [] = 0" "entries (a # as) = (if opens a then 1 else 0) + entries as" "entries (as @ bs) = entries as + entries bs"
  by (simp_all add: entries_def)

lemma entries_mset: "mset xs = mset ys \<Longrightarrow> entries (map f xs) = entries (map f ys)"
  unfolding entries_def by (metis mset_filter mset_map size_mset)

lemma halt_stays: "ss_drawdown_halt s \<Longrightarrow> ss_drawdown_halt (update_drawdown G eq s)"
  by (simp add: update_drawdown_def Let_def)

lemma fill_halt:
  assumes "apply_fill G pf symb s = Inr t"
  shows "(ss_drawdown_halt s \<longrightarrow> ss_drawdown_halt t) \<and> ss_pending t = ss_pending s
    \<and> entries (map te_action (pf_trade_history (ss_portfolio t))) = entries (map te_action (pf_trade_history (ss_portfolio s))) + entries [pe_action pf]"
proof -
  from assms obtain e p eq where a: "apply_trade (ss_portfolio s) (fill_order pf symb) = Inr (e, p)"
    and t: "t = update_drawdown G eq (track_trade pf (s\<lparr>ss_portfolio := p\<rparr>))" by (rule apply_fill_Inr)
  have "te_action e = pe_action pf" using a by (rule apply_trade_Inr) (simp add: trade_event_of_def fill_order_def)
  then show ?thesis using history_grows(1) [OF a] t by (simp add: halt_stays)
qed

lemma fills_halt:
  "fill_loop G symb due rem pfs s = Inr t \<Longrightarrow> (ss_drawdown_halt s \<longrightarrow> ss_drawdown_halt t)
     \<and> orders_opened t = entries (map te_action (pf_trade_history (ss_portfolio s))) + entries (map pe_action (rem @ pfs))"
proof (induction pfs arbitrary: rem s)
  case Nil
  then show ?case by (auto simp: orders_opened_def)
next
  case (Cons pf pfs)
  show ?case
  proof (cases "due (pe_fill_timestamp_ms pf)")
    case True
    then obtain u where "apply_fill G pf symb s = Inr u" "fill_loop G symb due rem pfs u = Inr t" using Cons.prems by (auto elim!: bindR_InrE)
    then show ?thesis using Cons.IH [of rem u] fill_halt [of G pf symb s u] by auto
  next
    case False
    then show ?thesis using Cons.prems Cons.IH [of "rem @ [pf]" s] by auto
  qed
qed

lemma halt_eq:
  "(ss_drawdown_halt s \<Longrightarrow> ss_drawdown_halt t) \<Longrightarrow> entries (map te_action (pf_trade_history (ss_portfolio t))) = entries (map te_action (pf_trade_history (ss_portfolio s)))
     \<Longrightarrow> ss_pending t = ss_pending s \<Longrightarrow> keeps_halt G s t"
  by (simp add: keeps_halt_def orders_opened_def)

interpretation halt: sim_relation keeps_halt
proof
  show "keeps_halt G s t" if "settle_funding G symb b f s = Inr t" for G symb b f s t
    using that
  proof (cases rule: settle_funding_Inr)
    case (paid e p cf mark eq)
    have "te_action e = FUNDING_SETTLEMENT" using paid(1) by (clarsimp simp: apply_funding_Inr funding_event_def Let_def)
    then show ?thesis using paid(2) history_grows(2) [OF paid(1)] by (intro halt_eq) (auto simp: opens_def halt_stays)
  qed (simp add: halt_eq)
  show "keeps_halt G s t" if "fill_due G symb due s = Inr t" for G symb due s t
    using fills_halt that entries_mset [of "sort_key pe_fill_timestamp_ms (ss_pending s)" "ss_pending s" pe_action]
    by (fastforce simp: fill_due_def keeps_halt_def orders_opened_def)
  show "keeps_halt G s t" if "fill_or_queue G pf symb now s = Inr t" "\<not> opens (pe_action pf)" for G pf symb now s t
    using that fill_halt by (fastforce simp: fill_or_queue_def keeps_halt_def orders_opened_def split: if_splits)
  show "keeps_halt G s t" if "fill_or_queue G pf symb now s = Inr t" "\<not> ss_drawdown_halt s" for G pf symb now s t
    using that by (simp add: keeps_halt_def)
  show "keeps_halt G s t" if "mark_close G bar s = Inr t" for G bar s t
    using that by (auto simp: mark_close_def Let_def halt_stays elim!: bindR_InrE intro!: halt_eq)
qed (auto simp: keeps_halt_def orders_opened_def)

section \<open>Properties\<close>

lemma engine_opens: "engine_validate G = Inr () \<longleftrightarrow> (\<exists>p. new_portfolio (sg_initial_cash G) = Inr p)"
  by (auto simp: engine_validate_def new_portfolio_def bindR_Inr_iff simp del: bindR_require)

lemma policy_stop_positive: "policy_validate P = Inr () \<Longrightarrow> \<not> tr_max_drawdown_stop_pct P \<le> 0"
  by (auto simp: policy_validate_def budget_validate_def bindR_Inr_iff simp del: bindR_require)

text \<open>C33: A simulation that ends, under a policy its constructor accepts, leaves a ledger: the recorded events replay, from the initial cash, to exactly the
  portfolio the run ended with, and the drawdown halt is set exactly when the greatest drawdown the run recorded has reached the stop of the policy.
  The constructor of the engine accepts exactly the amounts of initial cash with which a portfolio can be opened.\<close>

theorem simulation_leaves_a_ledger:
  assumes "policy_validate (sg_policy G) = Inr ()" and "simulate G candles signals funding = Inr s"
  shows "engine_validate G = Inr () \<and> ledger (ss_portfolio s)
    \<and> from_events (sg_initial_cash G) (pf_trade_history (ss_portfolio s)) = Inr (ss_portfolio s)
    \<and> (ss_drawdown_halt s \<longleftrightarrow> tr_max_drawdown_stop_pct (sg_policy G) \<le> ss_max_dd_pct s)"
proof -
  obtain p where p: "new_portfolio (sg_initial_cash G) = Inr p" and r: "run_bars G None candles (start_state G p signals funding) = Inr s"
    using assms(2) by (auto simp: simulate_def elim!: bindR_InrE)
  have l: "ledger (ss_portfolio s)"
    using books.ran [OF r] ledger.opened [OF p] by (simp add: keeps_ledger_def start_state_def)
  have c: "pf_initial_cash (ss_portfolio s) = sg_initial_cash G"
    using books.ran [OF r] p by (auto simp: keeps_ledger_def start_state_def new_portfolio_def elim!: bindR_InrE split: if_splits)
  have "drawdown_recorded G s"
    using drawdown.ran [OF r] policy_stop_positive [OF assms(1)] by (simp add: keeps_record_def drawdown_recorded_def start_state_def zero_flt_def)
  then show ?thesis using l p engine_opens ledger_history [OF l] by (auto simp: drawdown_recorded_def from_events_def c)
qed

text \<open>C32: The drawdown halt is sticky and blocks entries: from a state in which it is set, however many bars are run, whatever
  signals are due, the halt stays set and no entry is submitted. The entries in the ledger after the run are those that were in the
  ledger or pending before it.\<close>

theorem halt_blocks_entries:
  assumes "run_bars G prev bars s = Inr t" and "ss_drawdown_halt s"
  shows "ss_drawdown_halt t \<and> orders_opened t = orders_opened s"
  using halt.ran [OF assms(1)] assms(2) by (simp add: keeps_halt_def)

end
