(* ===== verification/Simulator_Sample.thy ===== *)
theory Simulator_Sample
  imports Simulator_Safety
begin

text \<open>
  A run of the simulation engine that enters a position in its only bar, at a price half above the open and with a fee of half the notional: the
  loss reaches the drawdown stop of the policy.
\<close>

definition policy_sample :: trade_policy where
  "policy_sample = \<lparr>tr_policy_id = ''P'', tr_name = ''N'', tr_min_signal_strength = Fin 0, tr_order_type = MARKET, tr_limit_offset_bps = Fin 0,
     tr_time_in_force_ms = 60000, tr_allowed_directions = [1, -1], tr_stop_loss_pct = None, tr_take_profit_pct = None, tr_trailing_stop_pct = None,
     tr_decay_exit_on_signal_reversal = True, tr_max_holding_ms = 100000, tr_ambiguous_exit_handling = ''REJECT_AMBIGUOUS'', tr_sizing_type = FIXED_NOTIONAL,
     tr_target_notional = Fin 200, tr_risk_fraction = Fin (1/4), tr_max_leverage = Fin 1, tr_max_gross_exposure_usdt = Fin 1000, tr_max_open_positions = 2,
     tr_max_drawdown_stop_pct = Fin (1/8), tr_min_volume_usdt_15m = Fin 0, tr_max_spread_bps = None, tr_allowed_regimes = []\<rparr>"

definition engine_sample :: sim_config where
  "engine_sample = \<lparr>sg_policy = policy_sample, sg_model = sample_model, sg_initial_cash = Fin 600, sg_repr = \<lambda>_. []\<rparr>"

definition signal_sample :: information_signal where
  "signal_sample = \<lparr>is_signal_id = ''S'', is_experiment_id = ''E'', is_timestamp_ms = 100, is_asset = ''BTCUSDT'', is_direction = 1, is_strength = Fin 1,
     is_horizon_ms = 1000, is_metadata = Map.empty\<rparr>"

abbreviation sample_bar :: candle where
  "sample_bar \<equiv> sample_candle (Fin 150) (Fin 1)"

lemma dust_bounds: "0 \<le> dust" "dust \<le> Fin 1"
  using rnd64_nonneg [of "1 / 10 ^ 12"] rnd64_mono [of "1 / 10 ^ 12" 1] by (auto simp: dust_def)

lemma dust_zero: "\<not> dust < 0"
  using dust_bounds(1) by (cases dust) (auto simp: zero_flt_def less_flt_def)

lemma dust_two: "dust < Fin 2"
  using dust_bounds(2) flt_le_less_trans [of dust "Fin 1" "Fin 2"] by simp

lemma flat_book: "pf_positions (ss_portfolio s) = [] \<Longrightarrow> \<not> has_position s symb"
  using dust_zero by (simp add: has_position_def position_of_def get_position_quantity_def zero_flt_def)

lemma policy_sample_valid: "policy_validate policy_sample = Inr ()"
  by (simp add: policy_validate_def entry_rule_validate_def exit_rule_validate_def sizing_validate_def budget_validate_def filter_validate_def pct_validate_def
      policy_sample_def finite_value_def require_def zero_flt_def)

definition halted_start :: sim_state where
  "halted_start = start_state engine_sample \<lparr>pf_initial_cash = Fin 600, pf_cash = Fin 600, pf_positions = [], pf_trade_history = []\<rparr> [signal_sample] []
     \<lparr>ss_drawdown_halt := True\<rparr>"

lemma halted_run: "\<exists>t. run_bars engine_sample None [sample_bar] halted_start = Inr t \<and> ss_signals t = []"
  by (simp add: step_bar_def Let_def settle_due_def fill_due_def halted_start_def start_state_def process_signal_def flat_book
     gap_exit_def standing_exit_def close_expiry_def mark_close_def mark_equity_def total_equity_def sample_candle_def signal_sample_def update_drawdown_def finite_value_def require_def)

theorem halt_blocks_entries_witness:
  "\<exists>t. run_bars engine_sample None [sample_bar] halted_start = Inr t \<and> ss_signals halted_start = [signal_sample] \<and> ss_signals t = []
     \<and> ss_drawdown_halt t \<and> orders_opened t = 0"
proof -
  obtain t where t: "run_bars engine_sample None [sample_bar] halted_start = Inr t" "ss_signals t = []" using halted_run by blast
  have "orders_opened halted_start = 0" "ss_signals halted_start = [signal_sample]" "ss_drawdown_halt halted_start"
    by (simp_all add: orders_opened_def halted_start_def start_state_def)
  then show ?thesis using halt_blocks_entries [OF t(1)] t by auto
qed

section \<open>An entry\<close>

definition flat_start :: sim_state where
  "flat_start = start_state engine_sample \<lparr>pf_initial_cash = Fin 600, pf_cash = Fin 600, pf_positions = [], pf_trade_history = []\<rparr> [signal_sample] []"

definition sample_entry :: order_request where
  "sample_entry = entry_order_request engine_sample signal_sample 1 (Fin 2) None None (Fin 300) None None"

lemma sample_entry_fills:
  "\<exists>r. simulate_order sample_model sample_entry [sample_bar] = Inr r \<and> er_is_filled r \<and> er_fill_price r = Fin 150 \<and> er_filled_quantity r = Fin 2
     \<and> er_fee_usdt r = Fin 150 \<and> er_fill_timestamp_ms r = 1000 \<and> er_observation_timestamp_ms r = 100 \<and> er_decision_timestamp_ms r = 600 \<and> er_order_timestamp_ms r = 600
     \<and> er_rejection_reason r = None \<and> er_settlement_timestamp_ms r = 1000"
proof -
  have times: "order_ms sample_model sample_entry = 600" "earliest_fill_ms sample_model sample_entry = 750"
    "decision_ms sample_model sample_entry = 600" "observed_ms sample_entry = 100"
    by (simp_all add: order_ms_def earliest_fill_ms_def decision_ms_def observed_ms_def sample_model_def sample_entry_def entry_order_request_def signal_sample_def)
  have fields: "rq_side sample_entry = 1" "rq_desired_quantity sample_entry = Fin 2" "rq_order_type sample_entry = MARKET"
    "rq_limit_price sample_entry = None" "rq_current_spread_bps sample_entry = None" "rq_liquidity_volume_base sample_entry = None"
    "rq_liquidity_available_at_ms sample_entry = None" "rq_max_fill_notional sample_entry = Some (Fin 300)" "rq_open_timestamp_ms sample_entry = None" "rq_open_price sample_entry = None"
    "rq_signal_timestamp_ms sample_entry = 100" "rq_time_in_force_ms sample_entry = 60000"
    by (simp_all add: sample_entry_def entry_order_request_def engine_sample_def policy_sample_def signal_sample_def)
  have guards: "request_guards sample_entry = Inr ()"
    using times fields by (simp add: request_guards_def require_def opt_all_def positive_finite_def)
  have taker: "taker_fill_price sample_model (Fin 100) (Fin 2) 1 1000 None None None None = Inr (Some (Fin 150), ''NOT_USED'', None)"
    using sample_price by (simp add: taker_fill_price_def sample_model_def sample_fees_def Let_def)
  have c: "cd_open_time_ms sample_bar = 1000" "cd_close_time_ms sample_bar = 2000" "cd_open sample_bar = Fin 100" by (simp_all add: sample_candle_def)
  have fee: "calculate_fee (em_fee_model sample_model) (Fin 300) False = Fin 150"
    by (simp add: calculate_fee_def sample_model_def sample_fees_def)
  show ?thesis
    by (simp add: simulate_order_def guards fields times c market_fill_def taker filled_result_def capped_quantity_def unfilled_result_def result_validate_def
        require_def finite_value_def zero_flt_def Let_def fee)
qed

lemma sample_sized: "calculate_quantity policy_sample (Fin 100) (Fin 600) None = Inr (Fin 2)"
  by (simp add: calculate_quantity_def policy_sample_def leverage_cap_def finite_value_def require_def pymin_def zero_flt_def)

lemma sample_submitted:
  assumes "ss_portfolio s = ss_portfolio flat_start" "ss_pending s = []" "\<not> ss_drawdown_halt s"
  shows "process_signal engine_sample None [sample_bar] sample_bar signal_sample s
    = route_entry engine_sample [sample_bar] sample_bar signal_sample 1 (Fin 300) sample_entry s"
proof -
  have p: "pf_positions (ss_portfolio s) = []" "pf_cash (ss_portfolio s) = Fin 600" by (simp_all add: assms flat_start_def start_state_def)
  have n: "\<not> has_position s symb" for symb by (rule flat_book) (rule p)
  have m: "meta_float signal_sample k = Inr None" "meta_int signal_sample k = None" "signal_atr signal_sample = Inr (Some None)"
    "signal_volume signal_sample None sample_bar = Inr None" "signal_regime engine_sample signal_sample = None" for k
    by (simp_all add: meta_float_def meta_int_def signal_sample_def signal_atr_def signal_volume_def signal_regime_def)
  have e: "should_enter policy_sample signal_sample None None None"
    by (simp add: should_enter_def is_actionable_def policy_sample_def signal_sample_def spread_allowed_def volume_allowed_def zero_flt_def feq_def)
  have q: "mark_equity s ''BTCUSDT'' x = Inr (Fin 600)" for x by (simp add: mark_equity_def total_equity_def p finite_value_def require_def)
  have prices: "entry_prices engine_sample sample_bar 1 None = Inr (None, Some (Fin 150))"
    using sample_bound by (simp add: entry_prices_def engine_sample_def policy_sample_def sample_model_def sample_candle_def)
  have g: "gross_exposure s sample_bar (Fin 300) = Fin 300"
    by (simp add: gross_exposure_def position_of_def get_position_quantity_def p assms(2) sample_candle_def zero_flt_def)
  have c: "cd_symbol sample_bar = ''BTCUSDT''" "cd_open sample_bar = Fin 100" "is_asset signal_sample = ''BTCUSDT''" "is_direction signal_sample = 1"
    "sg_policy engine_sample = policy_sample" "tr_max_open_positions policy_sample = 2" "tr_max_gross_exposure_usdt policy_sample = Fin 1000"
    by (simp_all add: sample_candle_def signal_sample_def engine_sample_def policy_sample_def)
  show ?thesis
    by (simp add: process_signal_def try_entry_def enter_sized_def c m e q prices g n assms(2,3) open_count_def sample_sized zero_flt_def Let_def sample_entry_def)
qed

lemma stripped: "py_strip ''BTCUSDT'' = ''BTCUSDT''"
  by code_simp

lemma quarter: "rnd64 (1/4) = Fin (1/4)"
proof -
  have h: "of_int 1 * 2 powi (- 2) = (1/4 :: rat)" by (simp add: power_int_minus)
  have r: "rval (1/4) = 1/4" using rval_exact [of 1 "- 2"] unfolding h by simp
  define big :: rat where "big = 2 ^ 1024"
  have "1 \<le> big" by (simp add: big_def)
  then show ?thesis by (simp add: rnd64_def r Let_def del: power_numeral flip: big_def)
qed

lemma sample_trade:
  assumes "to_timestamp_ms o1 = 1000" "to_action o1 = OPEN_LONG" "to_asset o1 = ''BTCUSDT''" "to_price o1 = Fin 150" "to_quantity o1 = Fin 2" "to_fee_usdt o1 = Fin 150"
    and "to_observation_timestamp_ms o1 = Some 100" "to_decision_timestamp_ms o1 = Some 600" "to_order_timestamp_ms o1 = Some 600" "to_settlement_timestamp_ms o1 = Some 1000"
  shows "\<exists>e. apply_trade (ss_portfolio flat_start) o1 = Inr (e, \<lparr>pf_initial_cash = Fin 600, pf_cash = Fin 450,
      pf_positions = [(''BTCUSDT'', \<lparr>lp_asset = ''BTCUSDT'', lp_quantity = Fin 2, lp_average_entry_price = Fin 150, lp_entry_timestamp_ms = 1000\<rparr>)],
      pf_trade_history = [e]\<rparr>) \<and> te_action e = OPEN_LONG"
  using assms stripped by (simp add: apply_trade_def flat_start_def start_state_def validate_event_input_def require_def trade_effect_def trade_direction_def Let_def
      all_finite_def finite_value_def trade_event_of_def trade_event_validate_def positive_ms_def ms_order_def ledger_position_validate_def zero_flt_def feq_def minus_flt_def)

lemma sample_entered:
  assumes "ss_portfolio s = ss_portfolio flat_start" "ss_pending s = []" "\<not> ss_drawdown_halt s" "ss_peak_equity s = Fin 600" "ss_max_dd_pct s = 0"
  shows "\<exists>t e. process_signal engine_sample None [sample_bar] sample_bar signal_sample s = Inr t \<and> ss_pending t = [] \<and> ss_drawdown_halt t
    \<and> ss_portfolio t = \<lparr>pf_initial_cash = Fin 600, pf_cash = Fin 450,
        pf_positions = [(''BTCUSDT'', \<lparr>lp_asset = ''BTCUSDT'', lp_quantity = Fin 2, lp_average_entry_price = Fin 150, lp_entry_timestamp_ms = 1000\<rparr>)],
        pf_trade_history = [e]\<rparr> \<and> te_action e = OPEN_LONG
    \<and> ss_peak_equity t = Fin 600 \<and> ss_max_dd_pct t = Fin (1/4) \<and> ss_entry_time t = Some 1000 \<and> ss_entry_price t = Some (Fin 150) \<and> ss_funding t = ss_funding s"
proof -
  obtain r where r: "simulate_order sample_model sample_entry [sample_bar] = Inr r" "er_is_filled r" "er_fill_price r = Fin 150" "er_filled_quantity r = Fin 2"
     "er_fee_usdt r = Fin 150" "er_fill_timestamp_ms r = 1000" "er_observation_timestamp_ms r = 100" "er_decision_timestamp_ms r = 600" "er_order_timestamp_ms r = 600"
     "er_rejection_reason r = None" "er_settlement_timestamp_ms r = 1000"
    using sample_entry_fills by blast
  define pf where "pf = (fill_info r OPEN_LONG ''BTCUSDT'' ''S'' ''ORD_S'' (Fin 300))"
  define pf' where "pf' = pf\<lparr>pe_metadata := (pe_metadata pf)(''reservation_notional'' \<mapsto> JFloat (Fin 300))\<rparr>"
  have "process_signal engine_sample None [sample_bar] sample_bar signal_sample s = apply_fill engine_sample pf' ''BTCUSDT'' s"
    unfolding sample_submitted [OF assms(1-3)] using r
    by (simp add: route_entry_def raise_on_causal_liquidity_rejection_def Let_def fill_or_queue_def sample_candle_def engine_sample_def signal_sample_def pf'_def pf_def
        fill_info_def require_def)
  moreover obtain e where "apply_trade (ss_portfolio s) (fill_order pf' ''BTCUSDT'') = Inr (e, \<lparr>pf_initial_cash = Fin 600, pf_cash = Fin 450,
      pf_positions = [(''BTCUSDT'', \<lparr>lp_asset = ''BTCUSDT'', lp_quantity = Fin 2, lp_average_entry_price = Fin 150, lp_entry_timestamp_ms = 1000\<rparr>)],
      pf_trade_history = [e]\<rparr>)" "te_action e = OPEN_LONG"
    using sample_trade [of "fill_order pf' ''BTCUSDT''"] r by (auto simp: fill_order_def pf'_def pf_def fill_info_def assms)
  ultimately show ?thesis using assms(2-) r(3,6) quarter
    by (simp add: apply_fill_def track_trade_def mark_equity_def total_equity_def unrealized_pnl_def finite_value_def require_def update_drawdown_def pf'_def pf_def
        fill_info_def opens_def Let_def pymax_def zero_flt_def minus_flt_def) (simp add: engine_sample_def policy_sample_def)
qed

lemma sample_run: "\<exists>t. simulate engine_sample [sample_bar] [signal_sample] [] = Inr t \<and> ss_drawdown_halt t \<and> orders_opened t = 1"
proof -
  obtain t e where t: "process_signal engine_sample None [sample_bar] sample_bar signal_sample flat_start = Inr t" "ss_pending t = []" "ss_drawdown_halt t"
    "ss_portfolio t = \<lparr>pf_initial_cash = Fin 600, pf_cash = Fin 450,
        pf_positions = [(''BTCUSDT'', \<lparr>lp_asset = ''BTCUSDT'', lp_quantity = Fin 2, lp_average_entry_price = Fin 150, lp_entry_timestamp_ms = 1000\<rparr>)],
        pf_trade_history = [e]\<rparr>" "te_action e = OPEN_LONG" "ss_entry_time t = Some 1000" "ss_entry_price t = Some (Fin 150)" "ss_funding t = []"
    using sample_entered [of flat_start] by (auto simp: flat_start_def start_state_def engine_sample_def)
  have f: "flat_start\<lparr>ss_funding := []\<rparr> = flat_start" "flat_start\<lparr>ss_pending := []\<rparr> = flat_start" "ss_funding flat_start = []" "ss_pending flat_start = []" "ss_signals flat_start = [signal_sample]"
    by (simp_all add: flat_start_def start_state_def)
  have c: "cd_symbol sample_bar = ''BTCUSDT''" "cd_open_time_ms sample_bar = 1000" "cd_close_time_ms sample_bar = 2000" "is_timestamp_ms signal_sample = 100"
    by (simp_all add: sample_candle_def signal_sample_def)
  define u where "u = t\<lparr>ss_signals := []\<rparr>"
  have k: "ss_funding u = []" "ss_pending u = []" "ss_portfolio u = ss_portfolio t" "ss_entry_time u = Some 1000" "ss_entry_price u = Some (Fin 150)" "ss_drawdown_halt u"
    by (simp_all add: u_def t)
  define v where "v = track_extremes sample_bar False u"
  have pos: "has_position u ''BTCUSDT''" "\<not> has_pending_exit u ''BTCUSDT''"
    using dust_two by (simp_all add: has_position_def position_of_def get_position_quantity_def has_pending_exit_def k t)
  have hold: "tr_max_holding_ms (sg_policy engine_sample) = 100000" by (simp add: engine_sample_def policy_sample_def)
  have "gap_exit engine_sample sample_bar u = Inr u"
    by (simp add: gap_exit_def gap_trigger_def stop_level_def trailing_level_def target_level_def engine_sample_def policy_sample_def k split: option.splits)
  moreover have "standing_exit engine_sample sample_bar u = Inr (False, u)"
    by (simp add: standing_exit_def choose_trigger_def adverse_triggers_def target_trigger_def stop_level_def trailing_level_def target_level_def engine_sample_def
       policy_sample_def k c Let_def)
  moreover have "u\<lparr>ss_funding := []\<rparr> = u" "u\<lparr>ss_pending := []\<rparr> = u" using k by simp_all
  moreover have "close_expiry engine_sample [sample_bar] sample_bar False u = Inr v"
    using pos by (simp add: close_expiry_def k c hold Let_def v_def)
  moreover have "v\<lparr>ss_pending := []\<rparr> = v" using k by (simp add: v_def)
  moreover have eqty: "mark_equity v ''BTCUSDT'' (cd_close sample_bar) = Inr (Fin 450)"
    by (simp add: mark_equity_def total_equity_def unrealized_pnl_def finite_value_def require_def v_def k t sample_candle_def Let_def minus_flt_def)
  moreover obtain w where w: "mark_close engine_sample sample_bar v = Inr w" "ss_drawdown_halt w" "ss_pending w = []" "ss_portfolio w = ss_portfolio t"
    by (simp add: mark_close_def eqty c Let_def) (simp add: v_def k halt_stays)
  moreover have "settle_due engine_sample symb b due flat_start = Inr flat_start" "fill_due engine_sample symb due flat_start = Inr flat_start" for symb b due
    using f by (simp_all add: settle_due_def fill_due_def)
  moreover have "signal_loop engine_sample None [sample_bar] sample_bar [signal_sample] flat_start = Inr u" by (simp add: c t(1) u_def)
  moreover have "settle_due engine_sample symb b due x = Inr x" "fill_due engine_sample symb due x = Inr x" if "x = u \<or> x = v" for symb b due x
    using that k by (auto simp: settle_due_def fill_due_def v_def)
  ultimately have "step_bar engine_sample None sample_bar [] flat_start = Inr w" by (simp add: step_bar_def f(2-) c Let_def)
  then have "simulate engine_sample [sample_bar] [signal_sample] [] = Inr w"
    by (simp add: simulate_def engine_sample_def new_portfolio_def finite_value_def require_def zero_flt_def flat_start_def)
  then show ?thesis using w t by (simp add: orders_opened_def opens_def)
qed

theorem simulation_leaves_a_ledger_witness:
  "\<exists>s. simulate engine_sample [sample_bar] [signal_sample] [] = Inr s \<and> orders_opened s = 1 \<and> ss_drawdown_halt s
     \<and> from_events (Fin 600) (pf_trade_history (ss_portfolio s)) = Inr (ss_portfolio s) \<and> Fin (1/8) \<le> ss_max_dd_pct s"
proof -
  obtain s where s: "simulate engine_sample [sample_bar] [signal_sample] [] = Inr s" "ss_drawdown_halt s" "orders_opened s = 1" using sample_run by blast
  have "policy_validate (sg_policy engine_sample) = Inr ()" by (simp add: policy_sample_valid engine_sample_def)
  from simulation_leaves_a_ledger [OF this s(1)] s show ?thesis by (auto simp: engine_sample_def policy_sample_def)
qed

section \<open>Look-ahead in the size of an entry\<close>

text \<open>
  The engine decides at the open of a bar, but marks the equity it sizes an entry with at the close of that bar. This shows when a position is
  still held, its exit pending (a reversal signal and a second signal due at the same open): two bars that differ in nothing but the
  close give entries of different sizes.
\<close>

definition holding :: sim_state where
  "holding = start_state engine_sample \<lparr>pf_initial_cash = Fin 600, pf_cash = Fin 100,
      pf_positions = [(''BTCUSDT'', \<lparr>lp_asset = ''BTCUSDT'', lp_quantity = Fin 2, lp_average_entry_price = Fin 150, lp_entry_timestamp_ms = 1000\<rparr>)],
      pf_trade_history = []\<rparr> [signal_sample] []
    \<lparr>ss_pending := [\<lparr>pe_fill_timestamp_ms = 2000, pe_action = CLOSE_LONG, pe_asset = ''BTCUSDT'', pe_price = Fin 150, pe_quantity = Fin 2, pe_fee_usdt = Fin 0,
      pe_signal_id = ''S'', pe_trade_id = ''EXIT_REV_S'', pe_observation_timestamp_ms = 1000, pe_decision_timestamp_ms = 1500, pe_order_timestamp_ms = 1500,
      pe_settlement_timestamp_ms = 2000, pe_reservation_notional = 0, pe_metadata = Map.empty\<rparr>]\<rparr>"

lemma sized_at_close:
  assumes "calculate_quantity policy_sample (Fin 100) eqty None = Inr q" "mark_equity holding ''BTCUSDT'' close = Inr eqty"
  shows "process_signal engine_sample None bars (sample_candle close v) signal_sample holding = enter_sized engine_sample bars (sample_candle close v) signal_sample None q holding"
proof -
  have m: "meta_float signal_sample k = Inr None" "signal_atr signal_sample = Inr (Some None)" "signal_volume signal_sample None (sample_candle close v) = Inr None"
    "signal_regime engine_sample signal_sample = None" for k
    by (simp_all add: meta_float_def signal_sample_def signal_atr_def signal_volume_def signal_regime_def)
  have e: "should_enter policy_sample signal_sample None None None"
    by (simp add: should_enter_def is_actionable_def policy_sample_def signal_sample_def spread_allowed_def volume_allowed_def zero_flt_def feq_def)
  have h: "has_pending_exit holding ''BTCUSDT''" "\<not> ss_drawdown_halt holding" "open_count holding ''BTCUSDT'' \<le> 1"
    by (simp_all add: has_pending_exit_def holding_def start_state_def open_count_def opens_def)
  have c: "cd_symbol (sample_candle close v) = ''BTCUSDT''" "cd_open (sample_candle close v) = Fin 100" "cd_close (sample_candle close v) = close"
    "is_asset signal_sample = ''BTCUSDT''" "sg_policy engine_sample = policy_sample" "tr_max_open_positions policy_sample = 2"
    by (simp_all add: sample_candle_def signal_sample_def engine_sample_def policy_sample_def)
  have "\<not> 2 \<le> open_count holding ''BTCUSDT''" using h(3) by simp
  then show ?thesis using assms by (simp add: process_signal_def try_entry_def c m e h)
qed

lemma entry_size_sees_close:
  "process_signal engine_sample None bars (sample_candle (Fin 150) v) signal_sample holding
     = enter_sized engine_sample bars (sample_candle (Fin 150) v) signal_sample None (Fin 1) holding"
  "process_signal engine_sample None bars (sample_candle (Fin 200) v) signal_sample holding
     = enter_sized engine_sample bars (sample_candle (Fin 200) v) signal_sample None (Fin 2) holding"
proof -
  have q: "calculate_quantity policy_sample (Fin 100) (Fin 100) None = Inr (Fin 1)" "calculate_quantity policy_sample (Fin 100) (Fin 200) None = Inr (Fin 2)"
    by (simp_all add: calculate_quantity_def policy_sample_def leverage_cap_def finite_value_def require_def pymin_def zero_flt_def)
  have e: "mark_equity holding ''BTCUSDT'' (Fin 150) = Inr (Fin 100)" "mark_equity holding ''BTCUSDT'' (Fin 200) = Inr (Fin 200)"
    by (simp_all add: mark_equity_def total_equity_def unrealized_pnl_def finite_value_def require_def holding_def start_state_def Let_def minus_flt_def)
  show "process_signal engine_sample None bars (sample_candle (Fin 150) v) signal_sample holding
     = enter_sized engine_sample bars (sample_candle (Fin 150) v) signal_sample None (Fin 1) holding"
    "process_signal engine_sample None bars (sample_candle (Fin 200) v) signal_sample holding
     = enter_sized engine_sample bars (sample_candle (Fin 200) v) signal_sample None (Fin 2) holding"
    by (rule sized_at_close [OF q(1) e(1)], rule sized_at_close [OF q(2) e(2)])
qed

end
