(* ===== verification/Execution_Service.thy ===== *)
theory Execution_Service
  imports Execution_Model Json_Values Actions
begin

text \<open>
  The execution of signals through prepared plans (\<open>execution/service.py\<close>, class \<open>ExecutionService\<close>) over the tables it keeps in the
  repository (\<open>storage.py\<close>): a signal is revalidated against the market, an entry plan is rounded to the exchange's filters and stored, submitted once
  under its hash, reconciled into protective orders, closed or cancelled. The public market client, the clock, the research
  registry, the signal engine and the signed client are parameters; every call of the signed client is recorded in the state.
  The payload of a plan row is the plan itself (its dictionary form reads back to the same plan), and the kind of the row says which plan it is.
\<close>

section \<open>Data\<close>

text \<open>A signal with the fields the service reads; the others (scores, evidence, levels shown to the user) are one opaque value.\<close>

record trading_signal =
  sn_signal_id :: string
  sn_symbol :: string
  sn_direction :: string
  sn_status :: string
  sn_validation_status :: string
  sn_data_health :: string
  sn_data_timestamp_ms :: int
  sn_expires_at_ms :: int
  sn_entry_low :: flt
  sn_entry_high :: flt
  sn_stop_loss :: flt
  sn_take_profit :: flt
  sn_recommended_notional :: flt
  sn_display_leverage :: flt
  sn_max_loss_usdt :: flt
  sn_estimated_fee_usdt :: flt
  sn_estimated_slippage_usdt :: flt
  sn_estimated_funding_usdt :: flt
  sn_invalidation_reason :: "string option"
  sn_other :: json

record plan_row =
  pl_payload :: any_plan
  pl_status :: string

record plan_order =
  po_payload :: order_receipt
  po_raw :: json
  po_created_at_ms :: int

record runtime_event =
  rv_event_type :: string
  rv_created_at_ms :: int
  rv_payload :: json

record repository =
  rp_signals :: "trading_signal list"
  rp_plans :: "plan_row list"
  rp_orders :: "plan_order list"
  rp_events :: "runtime_event list"

record exchange_filters =
  fl_tick_size :: flt
  fl_step_size :: flt
  fl_min_quantity :: flt
  fl_min_notional :: flt

datatype signed_call =
    PositionMode
  | Positions "string option"
  | RealizedPnl int
  | ChangeMarginType string string
  | ChangeLeverage string int
  | PlaceOrder "(string \<times> json) list"
  | QueryOrder string string
  | CancelOrder string string
  | PlaceProtective "(string \<times> json) list"
  | CancelProtective string string

record 'w plan_state =
  ps_world :: 'w
  ps_repo :: repository
  ps_calls :: "signed_call list"

type_synonym ('w, 'a) pact = "('w plan_state, 'a) dbop"

record 'w plan_service =
  xs_config :: execution_config
  xs_data_url :: string
  xs_rr_min :: flt
  xs_getenv :: getenv
  xs_hash :: hasher
  xs_repr :: "json \<Rightarrow> string"
  xs_clock :: "'w \<Rightarrow> int \<times> 'w"
  xs_klines :: "string \<Rightarrow> string \<Rightarrow> 'w \<Rightarrow> candle list res \<times> 'w"
  xs_server_time :: "'w \<Rightarrow> int res \<times> 'w"
  xs_filters :: "string \<Rightarrow> 'w \<Rightarrow> exchange_filters res \<times> 'w"
  xs_mark_price :: "string \<Rightarrow> 'w \<Rightarrow> flt res \<times> 'w"
  xs_registry :: "'w \<Rightarrow> (int \<times> bool option) option \<times> 'w"
  xs_invalidation :: "trading_signal \<Rightarrow> candle list \<Rightarrow> candle list \<Rightarrow> candle list \<Rightarrow> int \<Rightarrow> string option res"
  xs_connect :: "'w \<Rightarrow> unit res \<times> 'w"
  xs_client :: "signed_call \<Rightarrow> 'w \<Rightarrow> json res \<times> 'w"

section \<open>Statements\<close>

definition outside :: "('w \<Rightarrow> 'a res \<times> 'w) \<Rightarrow> ('w, 'a) pact" where
  "outside f s = (case f (ps_world s) of (r, w) \<Rightarrow> (r, s\<lparr>ps_world := w\<rparr>))"

definition plan_clock :: "'w plan_service \<Rightarrow> ('w, int) pact" where
  "plan_clock X = outside (\<lambda>w. case xs_clock X w of (t, w') \<Rightarrow> (Inr t, w'))"

definition plan_now :: "'w plan_service \<Rightarrow> int option \<Rightarrow> ('w, int) pact" where
  "plan_now X now_ms = (case now_ms of Some t \<Rightarrow> ret t | None \<Rightarrow> plan_clock X)"

definition signed :: "'w plan_service \<Rightarrow> signed_call \<Rightarrow> ('w, json) pact" where
  "signed X c s = (case xs_client X c (ps_world s) of (r, w) \<Rightarrow> (r, s\<lparr>ps_world := w, ps_calls := ps_calls s @ [c]\<rparr>))"

definition change_repo :: "(repository \<Rightarrow> repository) \<Rightarrow> ('w, unit) pact" where
  "change_repo f s = (Inr (), s\<lparr>ps_repo := f (ps_repo s)\<rparr>)"

definition with_repo :: "(repository \<Rightarrow> ('w, 'a) pact) \<Rightarrow> ('w, 'a) pact" where
  "with_repo F = with_state (\<lambda>s. F (ps_repo s))"

section \<open>Repository\<close>

definition get_signal :: "repository \<Rightarrow> string \<Rightarrow> trading_signal option" where
  "get_signal r sid = find (\<lambda>g. sn_signal_id g = sid) (rp_signals r)"

definition write_signal :: "string \<Rightarrow> (trading_signal \<Rightarrow> trading_signal) \<Rightarrow> ('w, unit) pact" where
  "write_signal sid f =
     with_repo (\<lambda>r. if get_signal r sid = None then raise (KeyError (''unknown signal: '' @ sid))
       else change_repo (\<lambda>r. r\<lparr>rp_signals := map (\<lambda>g. if sn_signal_id g = sid then f g else g) (rp_signals r)\<rparr>))"

definition update_signal_status :: "string \<Rightarrow> string \<Rightarrow> ('w, unit) pact" where
  "update_signal_status sid status = write_signal sid (\<lambda>g. g\<lparr>sn_status := status\<rparr>)"

definition invalidate_signal :: "string \<Rightarrow> string \<Rightarrow> ('w, unit) pact" where
  "invalidate_signal sid reason = write_signal sid (\<lambda>g. g\<lparr>sn_status := ''INVALIDATED'', sn_invalidation_reason := Some reason\<rparr>)"

fun any_plan_id :: "any_plan \<Rightarrow> string" where
  "any_plan_id (EntryPlan p) = ep_plan_id p"
| "any_plan_id (ClosingPlan p) = kp_plan_id p"

fun any_created_at :: "any_plan \<Rightarrow> int" where
  "any_created_at (EntryPlan p) = ep_created_at_ms p"
| "any_created_at (ClosingPlan p) = kp_created_at_ms p"

definition get_execution_plan :: "repository \<Rightarrow> string \<Rightarrow> plan_row option" where
  "get_execution_plan r pid = find (\<lambda>x. any_plan_id (pl_payload x) = pid) (rp_plans r)"

definition save_execution_plan :: "any_plan \<Rightarrow> ('w, unit) pact" where
  "save_execution_plan p =
     with_repo (\<lambda>r. if get_execution_plan r (any_plan_id p) \<noteq> None then raise (IntegrityError ''UNIQUE constraint failed: execution_plans.plan_id'')
       else change_repo (\<lambda>r. r\<lparr>rp_plans := rp_plans r @ [\<lparr>pl_payload = p, pl_status = ''PREPARED''\<rparr>]\<rparr>))"

definition update_execution_plan_status :: "string \<Rightarrow> string \<Rightarrow> ('w, unit) pact" where
  "update_execution_plan_status pid status =
     change_repo (\<lambda>r. r\<lparr>rp_plans := map (\<lambda>x. if any_plan_id (pl_payload x) = pid then x\<lparr>pl_status := status\<rparr> else x) (rp_plans r)\<rparr>)"

definition save_execution_order :: "'w plan_service \<Rightarrow> order_receipt \<Rightarrow> json \<Rightarrow> ('w, unit) pact" where
  "save_execution_order X receipt raw =
     sbind (plan_clock X) (\<lambda>t. change_repo (\<lambda>r. r\<lparr>rp_orders := rp_orders r @ [\<lparr>po_payload = receipt, po_raw = raw, po_created_at_ms = t\<rparr>]\<rparr>))"

definition latest_execution_order :: "repository \<Rightarrow> string \<Rightarrow> string \<Rightarrow> plan_order option" where
  "latest_execution_order r pid role =
     (let found = filter (\<lambda>x. or_plan_id (po_payload x) = pid \<and> or_role (po_payload x) = role) (rp_orders r)
      in if found = [] then None else Some (last (sort_key po_created_at_ms found)))"

definition daily_realized_loss_usdt :: "repository \<Rightarrow> int \<Rightarrow> flt res" where
  "daily_realized_loss_usdt r now =
     bindR (map_res (\<lambda>v. float_at (rv_payload v) ''realized_pnl_usdt'' (JFloat 0))
              (filter (\<lambda>v. rv_event_type v = ''realized_pnl'' \<and> now - now mod 86400000 \<le> rv_created_at_ms v) (rp_events r))) (\<lambda>realized.
     Inr \<bar>py_sum (filter (\<lambda>x. x < 0) realized)\<bar>)"

definition record_event :: "'w plan_service \<Rightarrow> string \<Rightarrow> json \<Rightarrow> ('w, unit) pact" where
  "record_event X ty payload =
     sbind (plan_clock X) (\<lambda>t. change_repo (\<lambda>r. r\<lparr>rp_events := rp_events r @ [\<lparr>rv_event_type = ty, rv_created_at_ms = t, rv_payload = payload\<rparr>]\<rparr>))"

definition open_entry_plan_ids :: "repository \<Rightarrow> string list" where
  "open_entry_plan_ids r =
     map (\<lambda>x. any_plan_id (pl_payload x)) (sort_key (\<lambda>x. any_created_at (pl_payload x))
       (filter (\<lambda>x. (case pl_payload x of EntryPlan _ \<Rightarrow> True | ClosingPlan _ \<Rightarrow> False) \<and> pl_status x \<in> {''SUBMITTED'', ''PARTIALLY_FILLED''}) (rp_plans r)))"

section \<open>Rounding\<close>

definition floor_to :: "flt \<Rightarrow> flt \<Rightarrow> flt res" where
  "floor_to x inc =
     (if inc \<le> 0 then Inl (ExecutionBlocked ''exchange filter increment is unavailable'')
      else bindR (math_floor (quot (x + lit (1 / 10 ^ 12)) inc)) (\<lambda>n. bindR (py_float (JInt n)) (\<lambda>y. Inr (y * inc))))"

fun math_ceil :: "flt \<Rightarrow> int res" where
  "math_ceil (Fin q) = Inr \<lceil>q\<rceil>"
| "math_ceil NaN = Inl (ValueError ''cannot convert float NaN to integer'')"
| "math_ceil x = Inl OverflowError"

definition ceil_to :: "flt \<Rightarrow> flt \<Rightarrow> flt res" where
  "ceil_to x inc =
     (if inc \<le> 0 then Inl (ExecutionBlocked ''exchange filter increment is unavailable'')
      else bindR (math_ceil (quot (x - lit (1 / 10 ^ 12)) inc)) (\<lambda>n. bindR (py_float (JInt n)) (\<lambda>y. Inr (y * inc))))"

section \<open>Gates\<close>

text \<open>The two constants of \<open>execution/environment.py\<close>.\<close>

definition current_execution_policy :: string where
  "current_execution_policy = ''RESEARCH_DISABLED_V1''"

definition accepted_execution_write_authority :: "string option" where
  "accepted_execution_write_authority = None"

definition obtain_client :: "'w plan_service \<Rightarrow> ('w, unit) pact" where
  "obtain_client X =
     (if current_execution_policy = ''RESEARCH_DISABLED_V1'' \<and> accepted_execution_write_authority = None
      then blocked ''RESEARCH_DISABLED_V1: signed Binance client is not authorized''
      else outside (xs_connect X))"

definition service_status :: "'w plan_service \<Rightarrow> ('w, json) pact" where
  "service_status X =
     (let C = xs_config X
      in sbind (lift_res (mode_of_string (ec_mode C))) (\<lambda>mode.
         (let present = (mode \<noteq> DISABLED \<and> credentials_present (xs_getenv X) C);
              live_armed = (mode \<noteq> LIVE \<or> (ec_allow_live C \<and> xs_getenv X ''BTC_QUANT_LIVE_CONFIRM'' = Some ''I_UNDERSTAND_REAL_ORDERS''));
              ready = (mode = PAPER \<or> (mode \<in> {TESTNET, LIVE} \<and> present \<and> live_armed \<and> current_execution_policy \<noteq> ''RESEARCH_DISABLED_V1''))
          in sbind (outside (\<lambda>w. case xs_registry X w of (r, w') \<Rightarrow> (Inr r, w'))) (\<lambda>registry.
             (let qualified = (case registry of Some (n, _) \<Rightarrow> n | None \<Rightarrow> 0);
                  gate = (case registry of None \<Rightarrow> ''FAIL_CLOSED'' | Some (n, _) \<Rightarrow> if n \<noteq> 0 then ''PASS'' else ''BLOCKED'')
              in ret (JObj [(''mode'', JStr (mode_value mode)), (''order_submission_enabled'', JBool (ready \<and> 0 < qualified)),
                   (''auto_execute'', JBool (ec_auto_execute C)), (''allow_live'', JBool (ec_allow_live C)), (''credentials_present'', JBool present),
                   (''max_notional_usdt'', JFloat (ec_max_notional_usdt C)), (''max_leverage'', JInt (ec_max_leverage C)),
                   (''max_daily_loss_usdt'', JFloat (ec_max_daily_loss_usdt C)), (''protective_orders_required'', JBool (ec_require_protective_orders C)),
                   (''research_registry_gate'', JStr gate), (''qualified_direction_engine'', JStr ''NONE''), (''qualified_direction_engine_count'', JInt qualified),
                   (''runtime_actionability'', JStr (if gate \<noteq> ''FAIL_CLOSED'' then ''OPPORTUNITY_ONLY'' else ''NO_OPPORTUNITY'')),
                   (''execution_policy'', JStr current_execution_policy),
                   (''execution_write_authority'', JStr (if accepted_execution_write_authority = None then ''NONE'' else ''ACCEPTED''))]))))))"

definition assert_registry_actionable :: "'w plan_service \<Rightarrow> ('w, unit) pact" where
  "assert_registry_actionable X =
     sbind (outside (\<lambda>w. case xs_registry X w of (r, w') \<Rightarrow> (Inr r, w'))) (\<lambda>registry.
       case registry of
         Some (n, Some actionable) \<Rightarrow> if \<not> actionable \<or> n = 0 then blocked ''RESEARCH_REGISTRY_NOT_ACTIONABLE'' else ret ()
       | _ \<Rightarrow> blocked ''RESEARCH_REGISTRY_NOT_ACTIONABLE'')"

section \<open>Revalidation of a signal\<close>

definition market_history :: "'w plan_service \<Rightarrow> string \<Rightarrow> ('w, candle list \<times> candle list \<times> candle list) pact" where
  "market_history X symb =
     on_error (sbind (outside (xs_klines X symb ''15m'')) (\<lambda>q. sbind (outside (xs_klines X symb ''1h'')) (\<lambda>h.
               sbind (outside (xs_klines X symb ''4h'')) (\<lambda>f. ret (q, h, f)))))
       (\<lambda>e. blocked (''failed to refresh market state: '' @ err_str e))"

definition drop_signal :: "string \<Rightarrow> string \<Rightarrow> ('w, unit) pact" where
  "drop_signal sid reason =
     sbind (if reason = ''TTL_EXPIRED'' then update_signal_status sid ''EXPIRED'' else invalidate_signal sid reason) (\<lambda>_.
     blocked (''signal failed execution revalidation: '' @ reason))"

definition revalidate :: "'w plan_service \<Rightarrow> trading_signal \<Rightarrow> int \<Rightarrow> ('w, unit) pact" where
  "revalidate X g now =
     sbind (market_history X (sn_symbol g)) (\<lambda>(q, h, f).
       if q = [] then blocked ''latest closed 15m market state is unavailable''
       else if sn_data_timestamp_ms g < cd_close_time_ms (last q) then
         sbind (lift_res (xs_invalidation X g f h q now)) (\<lambda>reason.
           case reason of None \<Rightarrow> ret () | Some r \<Rightarrow> drop_signal (sn_signal_id g) r)
       else ret ())"

definition refresh_signal_state :: "'w plan_service \<Rightarrow> string \<Rightarrow> int option \<Rightarrow> ('w, trading_signal) pact" where
  "refresh_signal_state X sid now_ms =
     with_repo (\<lambda>r.
       case get_signal r sid of
         None \<Rightarrow> raise (KeyError (''unknown signal: '' @ sid))
       | Some g \<Rightarrow>
           if sn_data_health g \<noteq> ''OK'' then blocked ''signal data_health is not OK''
           else sbind (case now_ms of Some t \<Rightarrow> ret t | None \<Rightarrow> outside (xs_server_time X)) (\<lambda>now.
             if sn_expires_at_ms g < now
             then sbind (update_signal_status sid ''EXPIRED'') (\<lambda>_. blocked ''signal TTL expired during execution revalidation'')
             else sbind (revalidate X g now) (\<lambda>_.
               with_repo (\<lambda>r. case get_signal r sid of
                   None \<Rightarrow> raise AssertionError
                 | Some g' \<Rightarrow> if sn_status g' \<noteq> ''ACTIVE'' then blocked ''signal is no longer ACTIVE'' else ret g'))))"

section \<open>Entry plans\<close>

text \<open>Entry, stop and target on legal ticks, with the distances from the entry.\<close>

definition plan_levels :: "trading_signal \<Rightarrow> flt \<Rightarrow> (flt \<times> flt \<times> flt \<times> flt \<times> flt) res" where
  "plan_levels g inc =
     (let long = (sn_direction g = ''LONG''); toward = (if long then floor_to else ceil_to)
      in bindR (ceil_to (sn_entry_low g) inc) (\<lambda>legal_low.
         bindR (floor_to (sn_entry_high g) inc) (\<lambda>legal_high.
         if legal_high < legal_low then Inl (ExecutionBlocked ''entry range contains no legal exchange tick'')
         else bindR (toward (quot (sn_entry_low g + sn_entry_high g) (Fin 2)) inc) (\<lambda>middle.
              (let entry = pymin (pymax middle legal_low) legal_high
               in bindR (toward (sn_stop_loss g) inc) (\<lambda>stop.
                  bindR (toward (sn_take_profit g) inc) (\<lambda>target.
                  (let risk = (if long then entry - stop else stop - entry); reward = (if long then target - entry else entry - target)
                   in if risk \<le> 0 \<or> reward \<le> 0 then Inl (ExecutionBlocked ''rounded SL/TP geometry is invalid'')
                      else Inr (entry, stop, target, risk, reward)))))))))"

text \<open>Quantity, notional, estimated loss and net reward ratio of the rounded plan.\<close>

definition plan_size :: "trading_signal \<Rightarrow> exchange_filters \<Rightarrow> flt \<Rightarrow> flt \<Rightarrow> flt \<Rightarrow> flt \<Rightarrow> (flt \<times> flt \<times> flt \<times> flt) res" where
  "plan_size g F rr_min entry risk reward =
     bindR (fdiv (sn_estimated_fee_usdt g + sn_estimated_slippage_usdt g + sn_estimated_funding_usdt g) (sn_recommended_notional g)) (\<lambda>friction_rate.
     bindR (fdiv risk entry) (\<lambda>risk_rate.
     bindR (fdiv (sn_max_loss_usdt g) (risk_rate + friction_rate)) (\<lambda>by_risk.
     bindR (fdiv (pymin (sn_recommended_notional g) by_risk) entry) (\<lambda>wanted.
     bindR (floor_to wanted (fl_step_size F)) (\<lambda>quantity.
     (let notional = quantity * entry
      in if quantity < fl_min_quantity F \<or> notional < fl_min_notional F
         then Inl (ExecutionBlocked ''risk-sized order is below exchange minimum filters'')
         else bindR (fdiv notional (sn_recommended_notional g)) (\<lambda>cost_scale.
              (let friction = friction_rate * sn_recommended_notional g * cost_scale
               in bindR (fdiv (notional * risk) entry) (\<lambda>loss. bindR (fdiv (notional * reward) entry) (\<lambda>gain.
                  (let max_loss = loss + friction
                   in bindR (fdiv (gain - friction) max_loss) (\<lambda>rr.
                      if sn_max_loss_usdt g + lit (1 / 10 ^ 9) < max_loss then Inl (ExecutionBlocked ''rounded plan exceeds immutable signal risk budget'')
                      else if rr < rr_min then Inl (ExecutionBlocked ''rounded plan RR is below strategy minimum'')
                      else Inr (quantity, notional, max_loss, rr)))))))))))))"

definition signed_plan :: "hasher \<Rightarrow> execution_plan \<Rightarrow> execution_plan" where
  "signed_plan H p = p\<lparr>ep_plan_hash := plan_calculated_hash H p\<rparr>"

definition entry_plan_id :: "hasher \<Rightarrow> string \<Rightarrow> int \<Rightarrow> string" where
  "entry_plan_id H sid created = take 20 (H (''entry:'' @ sid @ '':'' @ show_int created))"

definition new_entry_plan ::
  "'w plan_service \<Rightarrow> trading_signal \<Rightarrow> int \<Rightarrow> environment_authority \<Rightarrow> execution_mode \<Rightarrow> int \<Rightarrow> flt \<times> flt \<times> flt \<Rightarrow> flt \<times> flt \<times> flt \<times> flt \<Rightarrow> execution_plan" where
  "new_entry_plan X g now a mode leverage = (\<lambda>(entry, stop, target) (quantity, notional, max_loss, rr).
     signed_plan (xs_hash X)
       \<lparr>ep_plan_id = entry_plan_id (xs_hash X) (sn_signal_id g) now, ep_signal_id = sn_signal_id g, ep_symbol = sn_symbol g,
        ep_direction = sn_direction g, ep_mode = mode, ep_order_type = py_upper (ec_entry_order_type (xs_config X)), ep_quantity = quantity,
        ep_entry_price = entry, ep_stop_price = stop, ep_take_profit_price = target, ep_notional_usdt = notional,
        ep_leverage = min leverage (ec_max_leverage (xs_config X)), ep_validation_status = sn_validation_status g, ep_created_at_ms = now,
        ep_expires_at_ms = min (sn_expires_at_ms g) (now + ec_plan_ttl_seconds (xs_config X) * 1000), ep_signal_expires_at_ms = sn_expires_at_ms g,
        ep_rounded_rr_net = rr, ep_estimated_max_loss_usdt = max_loss, ep_plan_hash = [],
        ep_execution_environment_id = ea_environment_id a, ep_credential_namespace_id = ea_credential_namespace_id a,
        ep_account_authority_id = ea_account_authority_id a\<rparr>)"

definition build_entry_plan :: "'w plan_service \<Rightarrow> string \<Rightarrow> int option \<Rightarrow> ('w, execution_plan) pact" where
  "build_entry_plan X sid now_ms =
     sbind (assert_registry_actionable X) (\<lambda>_.
     sbind (plan_now X now_ms) (\<lambda>now.
     sbind (refresh_signal_state X sid (Some now)) (\<lambda>g.
     sbind (outside (xs_filters X (sn_symbol g))) (\<lambda>F.
     sbind (lift_res (plan_levels g (fl_tick_size F))) (\<lambda>(entry, stop, target, risk, reward).
     sbind (lift_res (plan_size g F (xs_rr_min X) entry risk reward)) (\<lambda>size.
     sbind (lift_res (authority_from_config (xs_config X) None None None)) (\<lambda>a.
     sbind (lift_res (mode_of_string (ec_mode (xs_config X)))) (\<lambda>mode.
     sbind (lift_res (py_int (sn_display_leverage g))) (\<lambda>leverage.
     (let plan = new_entry_plan X g now a mode leverage (entry, stop, target) size
      in sbind (save_execution_plan (EntryPlan plan)) (\<lambda>_. ret plan)))))))))))"

section \<open>Receipts\<close>

definition receipt_arg_of :: "order_receipt \<Rightarrow> receipt_arg" where
  "receipt_arg_of x = ReceiptDict
     [(''plan_hash'', or_plan_hash x), (''execution_environment_id'', or_execution_environment_id x),
      (''credential_namespace_id'', or_credential_namespace_id x), (''account_authority_id'', or_account_authority_id x),
      (''symbol'', or_symbol x), (''mode'', mode_value (or_mode x))]"

definition receipt_dict :: "order_receipt \<Rightarrow> json \<Rightarrow> json" where
  "receipt_dict x raw = JObj
     [(''plan_id'', JStr (or_plan_id x)), (''role'', JStr (or_role x)), (''order_id'', JStr (or_order_id x)), (''status'', JStr (or_status x)),
      (''raw'', raw), (''plan_hash'', JStr (or_plan_hash x)), (''mode'', JStr (mode_value (or_mode x))),
      (''execution_environment_id'', JStr (or_execution_environment_id x)), (''credential_namespace_id'', JStr (or_credential_namespace_id x)),
      (''account_authority_id'', JStr (or_account_authority_id x)), (''symbol'', JStr (or_symbol x)), (''submitted_at_ms'', JInt (or_submitted_at_ms x)),
      (''client_order_id'', JStr (or_client_order_id x)), (''exchange_order_id'', JStr (or_order_id x))]"

definition plan_receipt ::
  "execution_plan \<Rightarrow> environment_authority \<Rightarrow> execution_mode \<Rightarrow> int \<Rightarrow> string \<Rightarrow> string \<Rightarrow> string \<Rightarrow> string \<Rightarrow> order_receipt" where
  "plan_receipt p a mode now role order_id status client_id =
     \<lparr>or_plan_id = ep_plan_id p, or_role = role, or_order_id = order_id, or_status = status, or_plan_hash = ep_plan_hash p, or_mode = mode,
      or_execution_environment_id = ea_environment_id a, or_credential_namespace_id = ea_credential_namespace_id a,
      or_account_authority_id = ea_account_authority_id a, or_symbol = ep_symbol p, or_submitted_at_ms = now, or_client_order_id = client_id\<rparr>"

text \<open>\<open>str(raw.get(key, default))\<close>.\<close>

definition text_at :: "'w plan_service \<Rightarrow> json \<Rightarrow> string \<Rightarrow> json \<Rightarrow> string res" where
  "text_at X raw k d = bindR (get_attr raw k d) (\<lambda>v. Inr (json_str (xs_repr X) v))"

definition find_plan :: "string \<Rightarrow> (execution_plan \<Rightarrow> string \<Rightarrow> ('w, 'a) pact) \<Rightarrow> ('w, 'a) pact" where
  "find_plan pid F =
     with_repo (\<lambda>r. case get_execution_plan r pid of
         Some row \<Rightarrow> (case pl_payload row of EntryPlan p \<Rightarrow> F p (pl_status row) | ClosingPlan _ \<Rightarrow> raise (KeyError (''unknown entry plan: '' @ pid)))
       | None \<Rightarrow> raise (KeyError (''unknown entry plan: '' @ pid)))"

section \<open>Entry submission\<close>

text \<open>Open positions and daily loss as the exchange reports them.\<close>

definition signed_exposure :: "'w plan_service \<Rightarrow> int \<Rightarrow> flt \<Rightarrow> ('w, int \<times> flt) pact" where
  "signed_exposure X now daily_loss =
     sbind (obtain_client X) (\<lambda>_.
     sbind (signed X PositionMode) (\<lambda>pm.
     sbind (lift_res (get_attr pm ''dualSidePosition'' JNull)) (\<lambda>dual_side.
       if dual_side = JBool True \<or> py_lower (json_str (xs_repr X) dual_side) = ''true''
       then blocked ''hedge mode is enabled; phase two requires ONE_WAY mode''
       else sbind (signed X (Positions None)) (\<lambda>rows.
            sbind (lift_res (bindR (iterate rows) (map_res (\<lambda>item. float_at item ''positionAmt'' (JFloat 0))))) (\<lambda>amounts.
            sbind (signed X (RealizedPnl (now - now mod 86400000))) (\<lambda>pnl.
            sbind (lift_res (py_float pnl)) (\<lambda>exchange_pnl.
              ret (int (length (filter (\<lambda>x. 0 < \<bar>x\<bar>) amounts)), pymax daily_loss \<bar>pymin exchange_pnl 0\<bar>))))))))"

definition market_range_check :: "'w plan_service \<Rightarrow> execution_plan \<Rightarrow> ('w, unit) pact" where
  "market_range_check X p =
     (if ep_order_type p = ''MARKET'' then
        with_repo (\<lambda>r. case get_signal r (ep_signal_id p) of
            None \<Rightarrow> blocked ''source signal no longer exists''
          | Some g \<Rightarrow> sbind (outside (xs_mark_price X (ep_symbol p))) (\<lambda>mark.
              check (sn_entry_low g \<le> mark \<and> mark \<le> sn_entry_high g) ''MARKET entry is outside the immutable signal entry range''))
      else ret ())"

definition entry_order_params :: "execution_plan \<Rightarrow> (string \<times> json) list" where
  "entry_order_params p =
     [(''symbol'', JStr (ep_symbol p)), (''side'', JStr (if ep_direction p = ''LONG'' then ''BUY'' else ''SELL'')), (''type'', JStr (ep_order_type p)),
      (''quantity'', JFloat (ep_quantity p)), (''newClientOrderId'', JStr (''bqa-'' @ ep_plan_id p))]
     @ (if ep_order_type p = ''LIMIT'' then [(''price'', JFloat (ep_entry_price p)), (''timeInForce'', JStr ''GTC'')] else [])"

definition entry_raw :: "'w plan_service \<Rightarrow> execution_mode \<Rightarrow> execution_plan \<Rightarrow> ('w, json) pact" where
  "entry_raw X mode p =
     (if mode = PAPER then
        ret (JObj [(''orderId'', JStr (''paper-'' @ ep_plan_id p)), (''status'', JStr ''FILLED''), (''executedPrice'', JFloat (ep_entry_price p)), (''paper'', JBool True)])
      else sbind (obtain_client X) (\<lambda>_.
           sbind (on_error (signed X (ChangeMarginType (ep_symbol p) (ec_margin_type (xs_config X))))
                    (\<lambda>e. if contains ''-4046'' (err_str e) then ret JNull else raise e)) (\<lambda>_.
           sbind (signed X (ChangeLeverage (ep_symbol p) (ep_leverage p))) (\<lambda>_.
           signed X (PlaceOrder (entry_order_params p))))))"

definition entry_receipt ::
  "'w plan_service \<Rightarrow> execution_plan \<Rightarrow> environment_authority \<Rightarrow> execution_mode \<Rightarrow> int \<Rightarrow> json \<Rightarrow> order_receipt res" where
  "entry_receipt X p a mode now raw =
     bindR (get_attr raw ''clientOrderId'' (JStr ''unknown'')) (\<lambda>fallback.
     bindR (text_at X raw ''orderId'' fallback) (\<lambda>order_id.
     bindR (text_at X raw ''status'' (JStr ''NEW'')) (\<lambda>status.
     bindR (text_at X raw ''clientOrderId'' (JStr (''bqa-'' @ ep_plan_id p))) (\<lambda>client_id.
     Inr (plan_receipt p a mode now ''ENTRY'' order_id status client_id)))))"

text \<open>The submission of a prepared plan after its preflight.\<close>

definition submit_prepared :: "'w plan_service \<Rightarrow> execution_plan \<Rightarrow> string \<Rightarrow> bool \<Rightarrow> int \<Rightarrow> environment_authority \<Rightarrow> ('w, order_receipt) pact" where
  "submit_prepared X p confirmation_hash automatic now a =
     sbind (refresh_signal_state X (ep_signal_id p) (Some now)) (\<lambda>_.
     sbind (lift_res (mode_of_string (ec_mode (xs_config X)))) (\<lambda>mode.
     with_repo (\<lambda>r.
     sbind (lift_res (daily_realized_loss_usdt r now)) (\<lambda>loss.
     sbind (if mode \<in> {TESTNET, LIVE} then signed_exposure X now loss else ret (0, loss)) (\<lambda>(open_positions, daily_loss).
     sbind (lift_res (validate_entry (xs_hash X) (xs_getenv X) (xs_config X) p confirmation_hash now open_positions daily_loss automatic)) (\<lambda>_.
     sbind (market_range_check X p) (\<lambda>_.
     sbind (entry_raw X mode p) (\<lambda>raw.
     sbind (lift_res (entry_receipt X p a mode now raw)) (\<lambda>receipt.
     sbind (save_execution_order X receipt raw) (\<lambda>_.
     sbind (update_execution_plan_status (ep_plan_id p) ''SUBMITTED'') (\<lambda>_.
     ret receipt)))))))))))"

definition submit_entry :: "'w plan_service \<Rightarrow> string \<Rightarrow> string \<Rightarrow> bool \<Rightarrow> int option \<Rightarrow> ('w, order_receipt) pact" where
  "submit_entry X pid confirmation_hash automatic now_ms =
     find_plan pid (\<lambda>p status.
       if status \<noteq> ''PREPARED'' then blocked (''entry plan is already '' @ status)
       else sbind (plan_now X now_ms) (\<lambda>now.
            sbind (lift_res (preflight (xs_hash X) (EntryPlan p) (xs_config X) (Some (xs_data_url X)) None (Some ''ENTRY_SUBMIT'') (Some now) None None)) (\<lambda>a.
            submit_prepared X p confirmation_hash automatic now a)))"

section \<open>Reconciliation\<close>

fun paper_protections ::
  "'w plan_service \<Rightarrow> execution_plan \<Rightarrow> environment_authority \<Rightarrow> int \<Rightarrow> (string \<times> flt) list \<Rightarrow> ('w, json list) pact" where
  "paper_protections X p a now [] = ret []"
| "paper_protections X p a now ((role, trigger) # rest) =
     (let order_id = ''paper-'' @ py_lower role @ ''-'' @ ep_plan_id p;
          receipt = plan_receipt p a PAPER now role order_id ''NEW'' order_id;
          raw = JObj [(''paper'', JBool True), (''triggerPrice'', JFloat trigger)]
      in sbind (save_execution_order X receipt raw) (\<lambda>_.
         sbind (paper_protections X p a now rest) (\<lambda>receipts.
         ret (receipt_dict receipt raw # receipts))))"

definition exit_side :: "execution_plan \<Rightarrow> string" where
  "exit_side p = (if ep_direction p = ''LONG'' then ''SELL'' else ''BUY'')"

definition protective_params :: "execution_plan \<Rightarrow> string \<Rightarrow> flt \<Rightarrow> (string \<times> json) list" where
  "protective_params p ty trigger =
     [(''algoType'', JStr ''CONDITIONAL''), (''symbol'', JStr (ep_symbol p)), (''side'', JStr (exit_side p)), (''closePosition'', JStr ''true''),
      (''workingType'', JStr ''MARK_PRICE''), (''priceProtect'', JStr ''TRUE''), (''type'', JStr ty), (''triggerPrice'', JFloat trigger)]"

definition protective_receipt ::
  "'w plan_service \<Rightarrow> execution_plan \<Rightarrow> environment_authority \<Rightarrow> execution_mode \<Rightarrow> int \<Rightarrow> string \<Rightarrow> json \<Rightarrow> order_receipt res" where
  "protective_receipt X p a mode now role raw =
     bindR (get_attr raw ''orderId'' (JStr ''unknown'')) (\<lambda>other_id.
     bindR (text_at X raw ''algoId'' other_id) (\<lambda>order_id.
     bindR (get_attr raw ''status'' (JStr ''NEW'')) (\<lambda>other_status.
     bindR (text_at X raw ''algoStatus'' other_status) (\<lambda>status.
     bindR (text_at X raw ''clientOrderId'' (JStr [])) (\<lambda>client_id.
     Inr (plan_receipt p a mode now role order_id status client_id))))))"

text \<open>One protective order, and the loop over them: the receipts so far, and the exception that ended it.\<close>

definition place_protection ::
  "'w plan_service \<Rightarrow> execution_plan \<Rightarrow> environment_authority \<Rightarrow> execution_mode \<Rightarrow> int \<Rightarrow> string \<times> string \<times> flt \<Rightarrow> ('w, order_receipt \<times> json) pact" where
  "place_protection X p a mode now = (\<lambda>(role, ty, trigger).
     sbind (signed X (PlaceProtective (protective_params p ty trigger))) (\<lambda>raw.
     sbind (lift_res (protective_receipt X p a mode now role raw)) (\<lambda>receipt.
     sbind (save_execution_order X receipt raw) (\<lambda>_.
     ret (receipt, raw)))))"

fun protect_loop ::
  "'w plan_service \<Rightarrow> execution_plan \<Rightarrow> environment_authority \<Rightarrow> execution_mode \<Rightarrow> int \<Rightarrow> (string \<times> string \<times> flt) list
     \<Rightarrow> (order_receipt \<times> json) list \<Rightarrow> ('w, pyerr option \<times> (order_receipt \<times> json) list) pact" where
  "protect_loop X p a mode now [] receipts = ret (None, receipts)"
| "protect_loop X p a mode now (step # rest) receipts =
     with_repo (\<lambda>r.
       if latest_execution_order r (ep_plan_id p) (fst step) \<noteq> None then protect_loop X p a mode now rest receipts
       else sbind (on_error (sbind (place_protection X p a mode now step) (\<lambda>x. ret (Inr x))) (\<lambda>e. ret (Inl e))) (\<lambda>placed.
              case placed of Inl e \<Rightarrow> ret (Some e, receipts) | Inr x \<Rightarrow> protect_loop X p a mode now rest (receipts @ [x])))"

fun cancel_protections :: "'w plan_service \<Rightarrow> execution_plan \<Rightarrow> order_receipt list \<Rightarrow> ('w, unit) pact" where
  "cancel_protections X p [] = ret ()"
| "cancel_protections X p (x # xs) =
     sbind (on_error (sbind (signed X (CancelProtective (ep_symbol p) (or_order_id x))) (\<lambda>_. ret ()))
              (\<lambda>e. record_event X ''protective_cancel_failed''
                 (JObj [(''plan_id'', JStr (ep_plan_id p)), (''order_id'', JStr (or_order_id x)), (''error'', JStr (err_str e))]))) (\<lambda>_.
     cancel_protections X p xs)"

definition failsafe_close :: "'w plan_service \<Rightarrow> execution_plan \<Rightarrow> order_receipt list \<Rightarrow> ('w, unit) pact" where
  "failsafe_close X p receipts =
     sbind (cancel_protections X p receipts) (\<lambda>_.
     sbind (signed X (PlaceOrder [(''symbol'', JStr (ep_symbol p)), (''side'', JStr (exit_side p)), (''type'', JStr ''MARKET''), (''quantity'', JFloat (ep_quantity p)),
              (''reduceOnly'', JStr ''true''), (''newClientOrderId'', JStr (''bqa-failsafe-'' @ ep_plan_id p))])) (\<lambda>_.
     update_execution_plan_status (ep_plan_id p) ''FAILSAFE_CLOSED''))"

definition plan_result :: "string \<Rightarrow> json \<Rightarrow> (string \<times> json) list \<Rightarrow> json" where
  "plan_result pid status rest = JObj ([(''status'', status), (''plan_id'', JStr pid)] @ rest)"

definition protect_filled ::
  "'w plan_service \<Rightarrow> string \<Rightarrow> execution_plan \<Rightarrow> environment_authority \<Rightarrow> execution_mode \<Rightarrow> int \<Rightarrow> ('w, json) pact" where
  "protect_filled X pid p a mode now =
     with_repo (\<lambda>r.
       if latest_execution_order r pid ''STOP'' \<noteq> None \<and> latest_execution_order r pid ''TAKE_PROFIT'' \<noteq> None
       then ret (plan_result pid (JStr ''PROTECTED'') [])
       else sbind (protect_loop X p a mode now
                     [(''STOP'', ''STOP_MARKET'', ep_stop_price p), (''TAKE_PROFIT'', ''TAKE_PROFIT_MARKET'', ep_take_profit_price p)] []) (\<lambda>(failed, receipts).
         case failed of
           Some e \<Rightarrow> sbind (if ec_require_protective_orders (xs_config X) then failsafe_close X p (map fst receipts) else ret ()) (\<lambda>_. raise e)
         | None \<Rightarrow> sbind (update_execution_plan_status (ep_plan_id p) ''PROTECTED'') (\<lambda>_.
             ret (plan_result pid (JStr ''PROTECTED'') [(''orders'', JArr (map (\<lambda>(x, raw). receipt_dict x raw) receipts))]))))"

definition reconcile_signed ::
  "'w plan_service \<Rightarrow> string \<Rightarrow> execution_plan \<Rightarrow> environment_authority \<Rightarrow> execution_mode \<Rightarrow> int \<Rightarrow> string \<Rightarrow> ('w, json) pact" where
  "reconcile_signed X pid p a mode now order_id =
     sbind (obtain_client X) (\<lambda>_.
     sbind (signed X (QueryOrder (ep_symbol p) order_id)) (\<lambda>order.
     sbind (lift_res (get_attr order ''status'' (JStr ''UNKNOWN''))) (\<lambda>reported.
     (let order_status = json_str (xs_repr X) reported
      in sbind (if order_status \<in> {''NEW'', ''PENDING_NEW''} then sbind (plan_clock X) (\<lambda>t. ret (ep_signal_expires_at_ms p < t)) else ret False) (\<lambda>expired.
         if expired then
           sbind (signed X (CancelOrder (ep_symbol p) order_id)) (\<lambda>cancelled.
           sbind (update_execution_plan_status (ep_plan_id p) ''CANCELLED_EXPIRED'') (\<lambda>_.
           ret (plan_result pid (JStr ''CANCELLED_EXPIRED'') [(''order'', cancelled)])))
         else if order_status \<notin> {''FILLED'', ''PARTIALLY_FILLED''} then ret (plan_result pid reported [])
         else sbind (if order_status = ''PARTIALLY_FILLED'' then signed X (CancelOrder (ep_symbol p) order_id) else ret JNull) (\<lambda>_.
              protect_filled X pid p a mode now))))))"

definition reconcile_plan :: "'w plan_service \<Rightarrow> string \<Rightarrow> int option \<Rightarrow> ('w, json) pact" where
  "reconcile_plan X pid now_ms =
     find_plan pid (\<lambda>p status.
       sbind (plan_now X now_ms) (\<lambda>now.
       with_repo (\<lambda>r. let entry = latest_execution_order r pid ''ENTRY'' in
       sbind (lift_res (preflight (xs_hash X) (EntryPlan p) (xs_config X) (Some (xs_data_url X)) (map_option (\<lambda>x. receipt_arg_of (po_payload x)) entry)
                (Some ''RECONCILE'') (Some now) None None)) (\<lambda>a.
         case entry of
           None \<Rightarrow> blocked ''entry has not been submitted''
         | Some x \<Rightarrow>
             sbind (lift_res (mode_of_string (ec_mode (xs_config X)))) (\<lambda>mode.
               if mode = DISABLED then blocked ''execution.mode=disabled''
               else if mode = PAPER then
                 sbind (paper_protections X p a now [(''STOP'', ep_stop_price p), (''TAKE_PROFIT'', ep_take_profit_price p)]) (\<lambda>receipts.
                 sbind (update_execution_plan_status (ep_plan_id p) ''PROTECTED'') (\<lambda>_.
                 ret (plan_result pid (JStr ''PROTECTED'') [(''orders'', JArr receipts)])))
               else reconcile_signed X pid p a mode now (or_order_id (po_payload x)))))))"

section \<open>Closing and cancelling\<close>

fun first_open :: "json list \<Rightarrow> json option res" where
  "first_open [] = Inr None"
| "first_open (item # rest) = bindR (float_at item ''positionAmt'' (JFloat 0)) (\<lambda>x. if 0 < \<bar>x\<bar> then Inr (Some item) else first_open rest)"

definition signed_close :: "hasher \<Rightarrow> close_plan \<Rightarrow> close_plan" where
  "signed_close H p = p\<lparr>kp_plan_hash := close_calculated_hash H p\<rparr>"

definition close_plan_id :: "hasher \<Rightarrow> string \<Rightarrow> int \<Rightarrow> string" where
  "close_plan_id H symb created = take 20 (H (''close:'' @ symb @ '':'' @ show_int created))"

definition prepare_close :: "'w plan_service \<Rightarrow> string \<Rightarrow> int option \<Rightarrow> ('w, close_plan) pact" where
  "prepare_close X symb now_ms =
     (let C = xs_config X
      in sbind (lift_res (mode_of_string (ec_mode C))) (\<lambda>mode.
         if mode \<noteq> PAPER \<and> current_execution_policy = ''RESEARCH_DISABLED_V1''
         then blocked ''RESEARCH_DISABLED_V1: signed position query for close preparation is not authorized''
         else sbind (lift_res (risk_reducing_gate (xs_getenv X) C mode)) (\<lambda>_.
           if mode = PAPER then blocked ''paper close requires a simulated fill and is not inferred''
           else sbind (obtain_client X) (\<lambda>_.
             sbind (signed X (Positions (Some (py_upper symb)))) (\<lambda>rows.
             sbind (lift_res (bindR (iterate rows) first_open)) (\<lambda>position.
               case position of
                 None \<Rightarrow> blocked ''no open position''
               | Some item \<Rightarrow>
                   sbind (lift_res (bindR (item_of item ''positionAmt'') py_float)) (\<lambda>amount.
                   sbind (plan_now X now_ms) (\<lambda>created.
                   sbind (lift_res (authority_from_config C None None None)) (\<lambda>a.
                   (let plan = signed_close (xs_hash X)
                          \<lparr>kp_plan_id = close_plan_id (xs_hash X) symb created, kp_symbol = py_upper symb, kp_mode = mode,
                           kp_side = (if 0 < amount then ''SELL'' else ''BUY''), kp_quantity = \<bar>amount\<bar>, kp_created_at_ms = created,
                           kp_expires_at_ms = created + ec_plan_ttl_seconds C * 1000, kp_plan_hash = [],
                           kp_execution_environment_id = ea_environment_id a, kp_credential_namespace_id = ea_credential_namespace_id a,
                           kp_account_authority_id = ea_account_authority_id a\<rparr>
                    in sbind (save_execution_plan (ClosingPlan plan)) (\<lambda>_. ret plan)))))))))))"

definition close_receipt :: "'w plan_service \<Rightarrow> close_plan \<Rightarrow> environment_authority \<Rightarrow> int \<Rightarrow> json \<Rightarrow> order_receipt res" where
  "close_receipt X p a now raw =
     bindR (text_at X raw ''orderId'' (JStr ''unknown'')) (\<lambda>order_id.
     bindR (text_at X raw ''status'' (JStr ''NEW'')) (\<lambda>status.
     Inr \<lparr>or_plan_id = kp_plan_id p, or_role = ''CLOSE'', or_order_id = order_id, or_status = status, or_plan_hash = kp_plan_hash p, or_mode = kp_mode p,
          or_execution_environment_id = ea_environment_id a, or_credential_namespace_id = ea_credential_namespace_id a,
          or_account_authority_id = ea_account_authority_id a, or_symbol = kp_symbol p, or_submitted_at_ms = now,
          or_client_order_id = ''bqa-close-'' @ kp_plan_id p\<rparr>))"

definition submit_close :: "'w plan_service \<Rightarrow> string \<Rightarrow> string \<Rightarrow> int option \<Rightarrow> ('w, order_receipt) pact" where
  "submit_close X pid confirmation_hash now_ms =
     with_repo (\<lambda>r. case get_execution_plan r pid of
         None \<Rightarrow> raise (KeyError (''unknown close plan: '' @ pid))
       | Some row \<Rightarrow> (case pl_payload row of
           EntryPlan _ \<Rightarrow> raise (KeyError (''unknown close plan: '' @ pid))
         | ClosingPlan p \<Rightarrow>
             if pl_status row \<noteq> ''PREPARED'' then blocked (''close plan is already '' @ pl_status row)
             else sbind (plan_now X now_ms) (\<lambda>now.
               sbind (lift_res (preflight (xs_hash X) (ClosingPlan p) (xs_config X) (Some (xs_data_url X)) None (Some ''SUBMIT_CLOSE'') (Some now) None None)) (\<lambda>a.
               sbind (lift_res (validate_close (xs_hash X) (xs_getenv X) (xs_config X) p confirmation_hash now)) (\<lambda>_.
               sbind (obtain_client X) (\<lambda>_.
               sbind (signed X (PlaceOrder [(''symbol'', JStr (kp_symbol p)), (''side'', JStr (kp_side p)), (''type'', JStr ''MARKET''), (''quantity'', JFloat (kp_quantity p)),
                        (''reduceOnly'', JStr ''true''), (''newClientOrderId'', JStr (''bqa-close-'' @ kp_plan_id p))])) (\<lambda>raw.
               sbind (lift_res (close_receipt X p a now raw)) (\<lambda>receipt.
               sbind (save_execution_order X receipt raw) (\<lambda>_.
               sbind (update_execution_plan_status (kp_plan_id p) ''SUBMITTED'') (\<lambda>_. ret receipt))))))))))"

definition cancel_entry :: "'w plan_service \<Rightarrow> string \<Rightarrow> string \<Rightarrow> int option \<Rightarrow> ('w, json) pact" where
  "cancel_entry X pid confirmation_hash now_ms =
     find_plan pid (\<lambda>p status.
       with_repo (\<lambda>r. case latest_execution_order r pid ''ENTRY'' of
           None \<Rightarrow> blocked ''entry has not been submitted''
         | Some x \<Rightarrow>
             sbind (plan_now X now_ms) (\<lambda>now.
             sbind (lift_res (preflight (xs_hash X) (EntryPlan p) (xs_config X) (Some (xs_data_url X)) (Some (receipt_arg_of (po_payload x)))
                      (Some ''CANCEL_ENTRY'') (Some now) None None)) (\<lambda>_.
             sbind (lift_res (validate_cancel (xs_hash X) (xs_getenv X) (xs_config X) p confirmation_hash)) (\<lambda>_.
               if ep_mode p = PAPER then
                 sbind (update_execution_plan_status (ep_plan_id p) ''CANCELLED'') (\<lambda>_.
                 ret (JObj [(''orderId'', JStr (or_order_id (po_payload x))), (''status'', JStr ''CANCELED''), (''paper'', JBool True)]))
               else sbind (obtain_client X) (\<lambda>_. signed X (CancelOrder (ep_symbol p) (or_order_id (po_payload x)))))))))"

definition auto_submit :: "'w plan_service \<Rightarrow> trading_signal \<Rightarrow> ('w, order_receipt) pact" where
  "auto_submit X g =
     sbind (build_entry_plan X (sn_signal_id g) None) (\<lambda>p. submit_entry X (ep_plan_id p) (ep_plan_hash p) True None)"

fun reconcile_each :: "'w plan_service \<Rightarrow> string list \<Rightarrow> ('w, json list) pact" where
  "reconcile_each X [] = ret []"
| "reconcile_each X (pid # rest) =
     sbind (on_error (reconcile_plan X pid None)
              (\<lambda>e. ret (JObj [(''plan_id'', JStr pid), (''status'', JStr ''ERROR''), (''error'', JStr (err_str e))]))) (\<lambda>out.
     sbind (reconcile_each X rest) (\<lambda>outs. ret (out # outs)))"

definition reconcile_open_plans :: "'w plan_service \<Rightarrow> ('w, json list) pact" where
  "reconcile_open_plans X =
     sbind (lift_res (mode_of_string (ec_mode (xs_config X)))) (\<lambda>mode.
     with_repo (\<lambda>r.
       if mode = DISABLED then ret []
       else if mode \<noteq> PAPER \<and> current_execution_policy = ''RESEARCH_DISABLED_V1'' then
         ret (map (\<lambda>pid. JObj [(''plan_id'', JStr pid), (''status'', JStr ''BLOCKED''),
                               (''error'', JStr ''RESEARCH_DISABLED_V1: signed reconciliation is not authorized'')]) (open_entry_plan_ids r))
       else reconcile_each X (open_entry_plan_ids r)))"

end
