(* ===== verification/Execution_Service_Safety.thy ===== *)
theory Execution_Service_Safety
  imports Execution_Service
begin

text \<open>
  What the plan service promises. Under the two constants of \<open>execution/environment.py\<close> no operation and no sequence of
  operations makes a call of the signed client, and every order it stores is a paper order (the interpretation
  \<open>offline\<close> of \<open>run_relation\<close>); no plan is ever entered twice (the interpretation \<open>steady\<close> and the invariant \<open>plans_ok\<close>); what a successful
  submission and a successful plan guarantee.
\<close>

section \<open>Relations over the statements of the service\<close>

context run_relation
begin

lemma pres_lift_bind: "(\<And>x. v = Inr x \<Longrightarrow> pres (k x)) \<Longrightarrow> pres (sbind (lift_res v) k)"
  by (cases v) (auto simp: pres_def sbind_def lift_res_def rel_refl)

lemma pres_branches:
  "(c \<Longrightarrow> pres m) \<Longrightarrow> (\<not> c \<Longrightarrow> pres n) \<Longrightarrow> pres (if c then m else n)"
  "pres n \<Longrightarrow> (\<And>x. pres (f x)) \<Longrightarrow> pres (case opt of None \<Rightarrow> n | Some x \<Rightarrow> f x)"
  "(\<And>a b. pres (g a b)) \<Longrightarrow> pres (case z of (a, b) \<Rightarrow> g a b)"
  "(\<And>e. pres (h e)) \<Longrightarrow> (\<And>x. pres (f x)) \<Longrightarrow> pres (case w of Inl e \<Rightarrow> h e | Inr x \<Rightarrow> f x)"
  "(\<And>p. pres (u p)) \<Longrightarrow> (\<And>p. pres (v p)) \<Longrightarrow> pres (case ap of EntryPlan p \<Rightarrow> u p | ClosingPlan p \<Rightarrow> v p)"
  by (auto split: option.splits prod.splits sum.splits any_plan.splits)

lemma pres_fold: "(\<And>op. pres (f op)) \<Longrightarrow> P s (fold (\<lambda>op s. snd (f op s)) ops s)"
proof (induction ops arbitrary: s)
  case (Cons op ops)
  have "P s (snd (f op s))" using Cons.prems by (simp add: pres_def)
  with Cons show ?case by (auto intro: rel_trans)
qed (simp add: rel_refl)

end

lemma raise_bind [simp]: "sbind (raise e) k = raise e"
  by (rule ext) (simp add: sbind_def raise_def)

lemma obtain_client_blocked [simp]:
  "obtain_client X = blocked ''RESEARCH_DISABLED_V1: signed Binance client is not authorized''"
  by (simp add: obtain_client_def current_execution_policy_def accepted_execution_write_authority_def)

lemma authority_config_mode:
  assumes "authority_from_config c d b acc = Inr a"
  shows "mode_of_string (ec_mode c) = Inr (ea_mode a)"
proof -
  obtain m where m: "mode_of_string (ec_mode c) = Inr m"
    using assms by (cases "mode_of_string (ec_mode c)") (simp_all add: authority_from_config_def)
  show ?thesis
  proof (cases "m = DISABLED")
    case True
    with assms m show ?thesis by (auto simp: authority_from_config_def)
  next
    case False
    then obtain url expected where u: "resolved_url c d b m = Inr url" "normalize_rest_base_url (canonical_url m) = Inr expected"
      using assms m by (auto simp: authority_from_config_def bindR_Inr_iff simp del: bindR.simps)
    show ?thesis using assms m False u by (auto simp: authority_from_config_def split: if_splits)
  qed
qed

text \<open>A preflight that passes: the configured mode is paper, and so is the authority.\<close>

lemma preflight_paper:
  assumes "preflight H plan c d receipt action now acc url = Inr a"
  shows "mode_of_string (ec_mode c) = Inr PAPER" "ea_mode a = PAPER"
  using assms authority_config_mode [of c d url acc a] by (auto simp: preflight_def Let_def result_simps split: if_splits)

section \<open>No exchange call, paper orders only\<close>

definition paper_order :: "plan_order \<Rightarrow> bool" where
  "paper_order x \<longleftrightarrow> or_mode (po_payload x) = PAPER"

definition offline_step :: "'w plan_state \<Rightarrow> 'w plan_state \<Rightarrow> bool" where
  "offline_step s t \<longleftrightarrow> ps_calls t = ps_calls s
     \<and> (\<exists>new. rp_orders (ps_repo t) = rp_orders (ps_repo s) @ new \<and> list_all paper_order new)"

interpretation offline: run_relation offline_step
  by unfold_locales (fastforce simp: offline_step_def)+

lemma offline_repo:
  "(\<And>r. rp_orders (f r) = rp_orders r) \<Longrightarrow> offline.pres (change_repo f)"
  "(\<And>r. offline.pres (F r)) \<Longrightarrow> offline.pres (with_repo F)"
  by (auto simp: offline.pres_def offline_step_def change_repo_def with_repo_def with_state_def)

lemma offline_outside: "offline.pres (outside f)"
  by (auto simp: offline.pres_def offline_step_def outside_def split: prod.splits)

lemma offline_clock: "offline.pres (plan_clock X)" "offline.pres (plan_now X t)"
  by (auto simp: plan_clock_def plan_now_def intro!: offline_outside offline.pres_rules split: option.splits)

lemma offline_writes:
  "offline.pres (write_signal sid f)" "offline.pres (update_signal_status sid st)" "offline.pres (invalidate_signal sid rs)"
  "offline.pres (save_execution_plan p)" "offline.pres (update_execution_plan_status pid st)" "offline.pres (record_event X ty v)"
  unfolding write_signal_def update_signal_status_def invalidate_signal_def save_execution_plan_def update_execution_plan_status_def record_event_def
  by (intro offline_repo offline.pres_rules offline.pres_branches offline_clock; simp)+

lemma offline_order: "or_mode x = PAPER \<Longrightarrow> offline.pres (save_execution_order X x raw)"
  unfolding save_execution_order_def
  by (intro offline.pres_sbind offline_clock) (auto simp: offline.pres_def offline_step_def change_repo_def paper_order_def)

lemmas offline_intros = offline_repo(2) offline_writes offline_clock offline_outside offline.pres_branches offline.pres_lift_bind offline.pres_rules

lemma offline_refresh: "offline.pres (refresh_signal_state X sid t)"
  unfolding refresh_signal_state_def revalidate_def market_history_def drop_signal_def by (intro offline_intros)

lemma offline_build: "offline.pres (build_entry_plan X sid t)"
  unfolding build_entry_plan_def assert_registry_actionable_def Let_def by (intro offline_intros offline_refresh)

lemma entry_receipt_fields:
  assumes "entry_receipt X p a mode now raw = Inr x"
  shows "or_mode x = mode \<and> or_plan_id x = ep_plan_id p \<and> or_role x = ''ENTRY'' \<and> or_plan_hash x = ep_plan_hash p"
  using assms by (auto simp: entry_receipt_def plan_receipt_def bindR_Inr_iff simp del: bindR.simps)

lemma offline_entry_raw: "offline.pres (signed_exposure X now loss)" "offline.pres (market_range_check X p)" "offline.pres (entry_raw X mode p)"
  unfolding signed_exposure_def market_range_check_def entry_raw_def obtain_client_blocked raise_bind by (intro offline_intros)+

lemma offline_submit: "offline.pres (submit_entry X pid h auto t)"
  unfolding submit_entry_def submit_prepared_def find_plan_def
  by (intro offline_intros offline_refresh offline_entry_raw offline_order) (auto dest!: preflight_paper(1) entry_receipt_fields)

lemma offline_paper: "offline.pres (paper_protections X p a now steps)"
  by (induction X p a now steps rule: paper_protections.induct) (auto simp: Let_def plan_receipt_def intro!: offline_intros offline_order)

lemma offline_reconcile: "offline.pres (reconcile_plan X pid t)"
  unfolding reconcile_plan_def find_plan_def reconcile_signed_def obtain_client_blocked raise_bind Let_def
  by (intro offline_intros offline_paper)

lemma offline_close: "offline.pres (prepare_close X symb t)" "offline.pres (submit_close X pid h t)" "offline.pres (cancel_entry X pid h t)"
  unfolding prepare_close_def submit_close_def cancel_entry_def find_plan_def obtain_client_blocked raise_bind Let_def
  by (intro offline_intros)+

lemma offline_each: "offline.pres (reconcile_each X pids)"
  by (induction pids) (auto intro!: offline_intros offline_reconcile)

section \<open>Sequences of operations\<close>

text \<open>The public operations of the service, with the arguments their callers choose.\<close>

datatype plan_op =
    RefreshSignal string "int option"
  | BuildEntryPlan string "int option"
  | SubmitEntry string string bool "int option"
  | Reconcile string "int option"
  | PrepareClose string "int option"
  | SubmitClose string string "int option"
  | CancelEntry string string "int option"
  | AutoSubmit trading_signal
  | ReconcileOpenPlans

definition done_with :: "('w, 'a) pact \<Rightarrow> ('w, unit) pact" where
  "done_with m = sbind m (\<lambda>_. ret ())"

fun plan_op_run :: "'w plan_service \<Rightarrow> plan_op \<Rightarrow> ('w, unit) pact" where
  "plan_op_run X (RefreshSignal sid t) = done_with (refresh_signal_state X sid t)"
| "plan_op_run X (BuildEntryPlan sid t) = done_with (build_entry_plan X sid t)"
| "plan_op_run X (SubmitEntry pid h auto t) = done_with (submit_entry X pid h auto t)"
| "plan_op_run X (Reconcile pid t) = done_with (reconcile_plan X pid t)"
| "plan_op_run X (PrepareClose symb t) = done_with (prepare_close X symb t)"
| "plan_op_run X (SubmitClose pid h t) = done_with (submit_close X pid h t)"
| "plan_op_run X (CancelEntry pid h t) = done_with (cancel_entry X pid h t)"
| "plan_op_run X (AutoSubmit g) = done_with (auto_submit X g)"
| "plan_op_run X ReconcileOpenPlans = done_with (reconcile_open_plans X)"

definition plan_runs :: "'w plan_service \<Rightarrow> plan_op list \<Rightarrow> 'w plan_state \<Rightarrow> 'w plan_state" where
  "plan_runs X ops s = fold (\<lambda>op s. snd (plan_op_run X op s)) ops s"

lemma offline_op: "offline.pres (plan_op_run X op)"
  by (cases op) (auto simp: done_with_def auto_submit_def reconcile_open_plans_def
      intro!: offline_intros offline_refresh offline_build offline_submit offline_reconcile offline_close offline_each)

lemma offline_runs: "offline_step s (plan_runs X ops s)"
  unfolding plan_runs_def by (rule offline.pres_fold) (rule offline_op)

text \<open>C22: Whatever the configuration, the stored plans, the replies of the exchange and the confirmations given, no
  sequence of the plan service's operations makes a call of the signed client, and the orders it adds to the repository,
  behind those already there, are paper orders.\<close>

theorem service_stays_offline:
  "ps_calls (plan_runs X ops s) = ps_calls s
     \<and> (\<exists>new. rp_orders (ps_repo (plan_runs X ops s)) = rp_orders (ps_repo s) @ new \<and> list_all paper_order new)"
  using offline_runs [of s X ops] by (simp add: offline_step_def)

section \<open>A plan is entered at most once\<close>

definition plan_ids :: "plan_row list \<Rightarrow> string list" where
  "plan_ids ps = map (\<lambda>x. any_plan_id (pl_payload x)) ps"

definition entry_orders :: "plan_order list \<Rightarrow> string \<Rightarrow> plan_order list" where
  "entry_orders os pid = filter (\<lambda>x. or_plan_id (po_payload x) = pid \<and> or_role (po_payload x) = ''ENTRY'') os"

text \<open>Plan ids are unique, orders belong to stored plans, a prepared plan has no entry order, and no plan has two.\<close>

definition plans_ok :: "plan_row list \<Rightarrow> plan_order list \<Rightarrow> bool" where
  "plans_ok ps os \<longleftrightarrow> distinct (plan_ids ps) \<and> (\<forall>x\<in>set os. or_plan_id (po_payload x) \<in> set (plan_ids ps))
     \<and> (\<forall>x\<in>set ps. pl_status x = ''PREPARED'' \<longrightarrow> entry_orders os (any_plan_id (pl_payload x)) = [])
     \<and> (\<forall>pid. length (entry_orders os pid) \<le> 1)"

definition set_plan_status :: "string \<Rightarrow> string \<Rightarrow> plan_row list \<Rightarrow> plan_row list" where
  "set_plan_status pid st ps = map (\<lambda>x. if any_plan_id (pl_payload x) = pid then x\<lparr>pl_status := st\<rparr> else x) ps"

lemma plan_ids_status [simp]: "plan_ids (set_plan_status pid st ps) = plan_ids ps"
  by (induction ps) (auto simp: plan_ids_def set_plan_status_def)

lemma entry_orders_append [simp]:
  "entry_orders (os @ [x]) pid = entry_orders os pid @ (if or_plan_id (po_payload x) = pid \<and> or_role (po_payload x) = ''ENTRY'' then [x] else [])"
  by (simp add: entry_orders_def)

lemma plans_ok_status: "plans_ok ps os \<Longrightarrow> st \<noteq> ''PREPARED'' \<Longrightarrow> plans_ok (set_plan_status pid st ps) os"
  by (simp add: plans_ok_def) (auto simp: set_plan_status_def)

lemma plans_ok_other:
  "plans_ok ps os \<Longrightarrow> or_role (po_payload x) \<noteq> ''ENTRY'' \<Longrightarrow> or_plan_id (po_payload x) \<in> set (plan_ids ps) \<Longrightarrow> plans_ok ps (os @ [x])"
  by (simp add: plans_ok_def)

lemma plans_ok_pair:
  assumes "plans_ok ps os" "or_role (po_payload x) \<noteq> ''ENTRY''" "or_plan_id (po_payload x) \<in> set (plan_ids ps)"
    and "or_role (po_payload y) \<noteq> ''ENTRY''" "or_plan_id (po_payload y) \<in> set (plan_ids ps)"
  shows "plans_ok ps (os @ [x, y])"
  using plans_ok_other [OF plans_ok_other [OF assms(1-3)] assms(4,5)] by simp

lemma plans_ok_entry:
  assumes "plans_ok ps os" "entry_orders os pid = []" "pid \<in> set (plan_ids ps)" "or_plan_id (po_payload x) = pid"
  shows "plans_ok (set_plan_status pid ''SUBMITTED'' ps) (os @ [x])"
proof -
  have one: "length (entry_orders (os @ [x]) i) \<le> 1" for i
    using assms(1,2,4) by (cases "i = pid") (simp_all add: plans_ok_def)
  have other: "any_plan_id (pl_payload y) \<noteq> pid \<and> y \<in> set ps" if "y \<in> set (set_plan_status pid ''SUBMITTED'' ps)" "pl_status y = ''PREPARED''" for y
    using that by (auto simp: set_plan_status_def split: if_splits)
  have free: "entry_orders (os @ [x]) (any_plan_id (pl_payload y)) = []"
    if "y \<in> set (set_plan_status pid ''SUBMITTED'' ps)" "pl_status y = ''PREPARED''" for y
    using other [OF that] that(2) assms(1,4) by (auto simp: plans_ok_def)
  show ?thesis
    using assms one free by (simp add: plans_ok_def)
qed

lemma plans_ok_plan:
  assumes "plans_ok ps os" "any_plan_id p \<notin> set (plan_ids ps)"
  shows "plans_ok (ps @ [\<lparr>pl_payload = p, pl_status = st\<rparr>]) os"
proof -
  have "entry_orders os (any_plan_id p) = []"
    using assms by (auto simp: plans_ok_def entry_orders_def filter_empty_conv)
  with assms show ?thesis by (auto simp: plans_ok_def plan_ids_def)
qed

definition steady_step :: "'w plan_state \<Rightarrow> 'w plan_state \<Rightarrow> bool" where
  "steady_step s t \<longleftrightarrow> rp_plans (ps_repo t) = rp_plans (ps_repo s) \<and> rp_orders (ps_repo t) = rp_orders (ps_repo s)"

interpretation steady: run_relation steady_step
  by unfold_locales (auto simp: steady_step_def)

lemma steady_reads:
  "(\<And>r. steady.pres (F r)) \<Longrightarrow> steady.pres (with_repo F)" "steady.pres (outside f)"
  "(\<And>r. rp_plans (g r) = rp_plans r \<and> rp_orders (g r) = rp_orders r) \<Longrightarrow> steady.pres (change_repo g)"
  by (auto simp: steady.pres_def steady_step_def with_repo_def with_state_def outside_def change_repo_def split: prod.splits)

lemma steady_statements:
  "steady.pres (plan_clock X)" "steady.pres (plan_now X t)"
  "steady.pres (write_signal sid f)" "steady.pres (update_signal_status sid st)" "steady.pres (invalidate_signal sid rs)"
  unfolding plan_clock_def plan_now_def write_signal_def update_signal_status_def invalidate_signal_def
  by (intro steady_reads steady.pres_branches steady.pres_rules; simp)+

lemmas steady_intros = steady_reads(1,2) steady_statements steady.pres_branches steady.pres_lift_bind steady.pres_rules

lemma steady_refresh: "steady.pres (refresh_signal_state X sid t)"
  unfolding refresh_signal_state_def revalidate_def market_history_def drop_signal_def by (intro steady_intros)

lemma steady_entry: "steady.pres (signed_exposure X now loss)" "steady.pres (market_range_check X p)" "steady.pres (entry_raw X mode p)"
  "steady.pres (assert_registry_actionable X)"
  unfolding signed_exposure_def market_range_check_def entry_raw_def assert_registry_actionable_def obtain_client_blocked raise_bind
  by (intro steady_intros)+

text \<open>An action started on given plans and orders leaves plans and orders that satisfy a condition.\<close>

definition carries :: "plan_row list \<Rightarrow> plan_order list \<Rightarrow> (plan_row list \<Rightarrow> plan_order list \<Rightarrow> bool) \<Rightarrow> ('w, 'a) pact \<Rightarrow> bool" where
  "carries ps os B m \<longleftrightarrow> (\<forall>s. rp_plans (ps_repo s) = ps \<and> rp_orders (ps_repo s) = os
     \<longrightarrow> B (rp_plans (ps_repo (snd (m s)))) (rp_orders (ps_repo (snd (m s)))))"

lemma carries_steady: "steady.pres m \<Longrightarrow> B ps os \<Longrightarrow> carries ps os B m"
  by (simp add: carries_def steady.pres_def steady_step_def)

lemma carries_bind: "steady.pres m \<Longrightarrow> B ps os \<Longrightarrow> (\<And>x. carries ps os B (k x)) \<Longrightarrow> carries ps os B (sbind m k)"
  by (auto simp: carries_def steady.pres_def steady_step_def sbind_def split: prod.splits sum.splits) (metis snd_conv)+

lemma carries_lift: "B ps os \<Longrightarrow> (\<And>x. v = Inr x \<Longrightarrow> carries ps os B (k x)) \<Longrightarrow> carries ps os B (sbind (lift_res v) k)"
  by (cases v) (auto simp: carries_def sbind_def lift_res_def)

lemma carries_with_repo: "(\<And>r. rp_plans r = ps \<Longrightarrow> rp_orders r = os \<Longrightarrow> carries ps os B (F r)) \<Longrightarrow> carries ps os B (with_repo F)"
  by (simp add: carries_def with_repo_def with_state_def)

lemma carries_branches:
  "(c \<Longrightarrow> carries ps os B m) \<Longrightarrow> (\<not> c \<Longrightarrow> carries ps os B n) \<Longrightarrow> carries ps os B (if c then m else n)"
  "(\<And>a b. carries ps os B (g a b)) \<Longrightarrow> carries ps os B (case z of (a, b) \<Rightarrow> g a b)"
  "(opt = None \<Longrightarrow> carries ps os B n) \<Longrightarrow> (\<And>x. opt = Some x \<Longrightarrow> carries ps os B (f x)) \<Longrightarrow> carries ps os B (case opt of None \<Rightarrow> n | Some x \<Rightarrow> f x)"
  "(\<And>p. ap = EntryPlan p \<Longrightarrow> carries ps os B (u p)) \<Longrightarrow> (\<And>p. ap = ClosingPlan p \<Longrightarrow> carries ps os B (v p))
     \<Longrightarrow> carries ps os B (case ap of EntryPlan p \<Rightarrow> u p | ClosingPlan p \<Rightarrow> v p)"
  by (auto split: option.splits prod.splits any_plan.splits)

lemma carries_order:
  assumes "\<And>x. po_payload x = receipt \<Longrightarrow> carries ps (os @ [x]) B m"
  shows "carries ps os B (sbind (save_execution_order X receipt raw) (\<lambda>_. m))"
  unfolding carries_def
proof (intro allI impI)
  fix s :: "'a plan_state"
  assume s: "rp_plans (ps_repo s) = ps \<and> rp_orders (ps_repo s) = os"
  obtain t w where c: "xs_clock X (ps_world s) = (t, w)" by fastforce
  show "B (rp_plans (ps_repo (snd (sbind (save_execution_order X receipt raw) (\<lambda>_. m) s))))
          (rp_orders (ps_repo (snd (sbind (save_execution_order X receipt raw) (\<lambda>_. m) s))))"
    using assms [of "\<lparr>po_payload = receipt, po_raw = raw, po_created_at_ms = t\<rparr>", unfolded carries_def] s c
    by (simp add: sbind_def save_execution_order_def plan_clock_def outside_def change_repo_def)
qed

lemma carries_status:
  "carries (set_plan_status pid st ps) os B m \<Longrightarrow> carries ps os B (sbind (update_execution_plan_status pid st) (\<lambda>_. m))"
  by (auto simp: carries_def sbind_def update_execution_plan_status_def change_repo_def set_plan_status_def)

lemma carries_plan:
  assumes "B ps os" "any_plan_id p \<notin> set (plan_ids ps) \<Longrightarrow> carries (ps @ [\<lparr>pl_payload = p, pl_status = ''PREPARED''\<rparr>]) os B m"
  shows "carries ps os B (sbind (save_execution_plan p) (\<lambda>_. m))"
proof (cases "any_plan_id p \<in> set (plan_ids ps)")
  case True
  with assms(1) show ?thesis
    by (auto simp: carries_def sbind_def save_execution_plan_def with_repo_def with_state_def raise_def get_execution_plan_def find_None_iff plan_ids_def)
next
  case False
  then have none: "find (\<lambda>x. any_plan_id (pl_payload x) = any_plan_id p) ps = None"
    by (force simp: find_None_iff plan_ids_def)
  show ?thesis
    using assms(2) [OF False, unfolded carries_def] none
    by (auto simp: carries_def sbind_def save_execution_plan_def with_repo_def with_state_def change_repo_def get_execution_plan_def)
qed

lemmas carries_intros = carries_branches carries_lift carries_with_repo

section \<open>Every operation keeps the invariant\<close>

definition entered_step :: "'w plan_state \<Rightarrow> 'w plan_state \<Rightarrow> bool" where
  "entered_step s t \<longleftrightarrow> (plans_ok (rp_plans (ps_repo s)) (rp_orders (ps_repo s)) \<longrightarrow> plans_ok (rp_plans (ps_repo t)) (rp_orders (ps_repo t)))"

interpretation entered: run_relation entered_step
  by unfold_locales (auto simp: entered_step_def)

lemma entered_carries: "(\<And>ps os. plans_ok ps os \<Longrightarrow> carries ps os plans_ok m) \<Longrightarrow> entered.pres m"
  by (simp add: entered.pres_def entered_step_def carries_def)

lemma entered_steady: "steady.pres m \<Longrightarrow> entered.pres m"
  by (simp add: entered.pres_def entered_step_def steady.pres_def steady_step_def)

lemma stored_plan:
  "get_execution_plan r pid = Some row \<Longrightarrow> row \<in> set (rp_plans r) \<and> any_plan_id (pl_payload row) = pid \<and> pid \<in> set (plan_ids (rp_plans r))"
  by (auto simp: get_execution_plan_def find_Some_iff plan_ids_def)

lemma carries_raise: "B ps os \<Longrightarrow> carries ps os B (raise e)" "B ps os \<Longrightarrow> carries ps os B (ret x)"
  by (simp_all add: carries_def raise_def ret_def)

lemma carries_find_plan:
  assumes "B ps os"
    and "\<And>p row. row \<in> set ps \<Longrightarrow> pl_payload row = EntryPlan p \<Longrightarrow> ep_plan_id p = pid \<Longrightarrow> pid \<in> set (plan_ids ps) \<Longrightarrow> carries ps os B (F p (pl_status row))"
  shows "carries ps os B (find_plan pid F)"
  unfolding find_plan_def
proof (rule carries_with_repo, goal_cases)
  case (1 r)
  show ?case
  proof (cases "get_execution_plan r pid")
    case None
    then show ?thesis by (simp add: carries_raise assms(1))
  next
    case (Some row)
    with stored_plan [OF Some] 1 assms show ?thesis by (cases "pl_payload row") (auto intro: carries_raise)
  qed
qed

lemma entered_submit: "entered.pres (submit_entry X pid h auto t)"
  unfolding submit_entry_def submit_prepared_def
proof (rule entered_carries, rule carries_find_plan, goal_cases)
  case (2 ps os p row)
  note ok = \<open>plans_ok ps os\<close>
  have none: "pl_status row = ''PREPARED'' \<Longrightarrow> entry_orders os pid = []"
    using 2 by (auto simp: plans_ok_def)
  show ?case
    by (intro carries_branches(1,2) carries_lift carries_with_repo carries_order carries_status carries_bind steady_refresh steady_entry steady_statements(1,2) steady.pres_branches(1)
        carries_raise steady.pres_statements ok)
       (use none 2 in \<open>auto dest!: entry_receipt_fields intro!: plans_ok_entry\<close>)
qed simp

lemma entered_build: "entered.pres (build_entry_plan X sid t)"
proof (rule entered_carries)
  fix ps os
  assume ok: "plans_ok ps os"
  show "carries ps os plans_ok (build_entry_plan X sid t)"
    unfolding build_entry_plan_def Let_def
    by (intro carries_branches(2) carries_lift carries_plan carries_bind steady_refresh steady_entry steady_reads(2) steady_statements(1,2) carries_raise ok plans_ok_plan [OF ok])
qed

lemma bind_assoc: "sbind (sbind m k) l = sbind m (\<lambda>x. sbind (k x) l)" "sbind (ret x) k = k x"
  by (rule ext, simp add: sbind_def ret_def split: prod.split sum.split)+

lemma entered_reconcile: "entered.pres (reconcile_plan X pid t)"
  unfolding reconcile_plan_def
proof (rule entered_carries, rule carries_find_plan, goal_cases)
  case (2 ps os p row)
  note ok = \<open>plans_ok ps os\<close>
  show ?case
    unfolding reconcile_signed_def obtain_client_blocked raise_bind Let_def paper_protections.simps bind_assoc
    by (intro carries_branches(1,3) carries_lift carries_with_repo carries_order carries_status carries_bind steady_statements(1,2) carries_raise ok)
       (use 2 in \<open>auto simp: plan_receipt_def intro!: plans_ok_status plans_ok_pair\<close>)
qed simp

lemma entered_close: "entered.pres (prepare_close X symb t)" "entered.pres (submit_close X pid h t)"
  unfolding prepare_close_def submit_close_def find_plan_def obtain_client_blocked raise_bind Let_def
  by (rule entered_steady, intro steady_intros)+

lemma entered_cancel: "entered.pres (cancel_entry X pid h t)"
  unfolding cancel_entry_def
proof (rule entered_carries, rule carries_find_plan, goal_cases)
  case (2 ps os p row)
  then show ?case
    unfolding obtain_client_blocked raise_bind
    by (intro carries_branches(1,3) carries_lift carries_with_repo carries_status carries_bind steady_statements(1,2) carries_raise plans_ok_status) simp_all
qed simp

lemma entered_each: "entered.pres (reconcile_each X pids)"
  by (induction pids) (auto intro!: entered.pres_rules entered_reconcile)

lemma entered_op: "entered.pres (plan_op_run X op)"
  by (cases op) (auto simp: done_with_def auto_submit_def reconcile_open_plans_def with_repo_def
      intro!: entered.pres_rules entered.pres_branches entered_steady [OF steady_refresh] entered_build entered_submit entered_reconcile entered_close entered_cancel entered_each)

lemma entered_runs: "entered_step s (plan_runs X ops s)"
  unfolding plan_runs_def by (rule entered.pres_fold) (rule entered_op)

definition fresh_state :: "'w \<Rightarrow> trading_signal list \<Rightarrow> runtime_event list \<Rightarrow> 'w plan_state" where
  "fresh_state w gs es = \<lparr>ps_world = w, ps_repo = \<lparr>rp_signals = gs, rp_plans = [], rp_orders = [], rp_events = es\<rparr>, ps_calls = []\<rparr>"

text \<open>C23: From an empty order book, after any sequence of the plan service's operations (plans built, submitted any number of times with any confirmation,
  reconciled, cancelled, in any order), plan ids are unique, every order belongs to a stored plan, a plan that is still PREPARED has no entry
  order, and no plan has more than one entry order.\<close>

theorem plan_entered_at_most_once:
  "plans_ok (rp_plans (ps_repo (plan_runs X ops (fresh_state w gs es)))) (rp_orders (ps_repo (plan_runs X ops (fresh_state w gs es))))
   \<and> length (entry_orders (rp_orders (ps_repo (plan_runs X ops (fresh_state w gs es)))) pid) \<le> 1"
proof -
  have "plans_ok [] []" by (simp add: plans_ok_def plan_ids_def entry_orders_def)
  then have "plans_ok (rp_plans (ps_repo (plan_runs X ops (fresh_state w gs es)))) (rp_orders (ps_repo (plan_runs X ops (fresh_state w gs es))))"
    using entered_runs [of "fresh_state w gs es" X ops] by (simp add: entered_step_def fresh_state_def)
  then show ?thesis by (simp add: plans_ok_def)
qed

section \<open>What a prepared plan and a submission guarantee\<close>

lemma with_repo_apply: "with_repo F s = F (ps_repo s) s"
  by (simp add: with_repo_def with_state_def)

lemma refresh_active:
  assumes "refresh_signal_state X sid t s = (Inr g, s')"
  shows "get_signal (ps_repo s') sid = Some g \<and> sn_status g = ''ACTIVE''"
proof -
  have "ends (refresh_signal_state X sid t) (\<lambda>g s'. get_signal (ps_repo s') sid = Some g \<and> sn_status g = ''ACTIVE'')"
    unfolding refresh_signal_state_def ends_def
    by (auto simp: with_repo_apply sbind_Inr raise_def ret_def split: option.splits if_splits)
  with assms show ?thesis by (auto simp: ends_def)
qed

lemma market_range_keeps: "market_range_check X p s = (r, s') \<Longrightarrow> ps_repo s' = ps_repo s"
  by (auto simp: market_range_check_def with_repo_apply sbind_def outside_def check_def ret_def raise_def split: option.splits if_splits prod.splits sum.splits)

lemma signed_plan_hash: "ep_plan_hash (signed_plan H q) = plan_calculated_hash H (signed_plan H q)"
proof -
  have "plan_unsigned (q\<lparr>ep_plan_hash := x\<rparr>) = plan_unsigned q" for x by (simp add: plan_unsigned_def)
  then have "plan_calculated_hash H (signed_plan H q) = plan_calculated_hash H q" by (simp only: signed_plan_def plan_calculated_hash_def)
  then show ?thesis by (simp add: signed_plan_def)
qed

lemma plan_levels_ok:
  assumes "plan_levels g inc = Inr (entry, stop, target, risk, reward)"
  shows "risk = (if sn_direction g = ''LONG'' then entry - stop else stop - entry)
    \<and> reward = (if sn_direction g = ''LONG'' then target - entry else entry - target) \<and> \<not> risk \<le> 0 \<and> \<not> reward \<le> 0"
  using assms by (auto simp: plan_levels_def Let_def bindR_Inr_iff simp del: bindR.simps split: if_splits)

lemma plan_size_ok:
  assumes "plan_size g F rr_min entry risk reward = Inr (quantity, notional, max_loss, rr)"
  shows "notional = quantity * entry \<and> \<not> quantity < fl_min_quantity F \<and> \<not> notional < fl_min_notional F
    \<and> \<not> sn_max_loss_usdt g + lit (1 / 10 ^ 9) < max_loss \<and> \<not> rr < rr_min"
  using assms by (auto simp: plan_size_def Let_def bindR_Inr_iff simp del: bindR.simps split: if_splits)


text \<open>C24: A submission that returns a receipt was confirmed with the hash of the plan's own content, for a plan that was PREPARED and that is not
  provisional, not expired and within the configured notional and leverage, in paper mode, with its signal ACTIVE; it adds exactly one order, an entry order of
  that plan, and leaves the plan SUBMITTED.\<close>

theorem submitted_entry_was_confirmed:
  assumes "submit_entry X pid h auto (Some now) s = (Inr x, s')"
  shows "\<exists>p g entry. get_execution_plan (ps_repo s) pid = Some \<lparr>pl_payload = EntryPlan p, pl_status = ''PREPARED''\<rparr>
    \<and> h = ep_plan_hash p \<and> plan_calculated_hash (xs_hash X) p = h \<and> \<not> provisional (ep_validation_status p) \<and> now \<le> ep_expires_at_ms p
    \<and> \<not> ec_max_notional_usdt (xs_config X) < ep_notional_usdt p \<and> ep_leverage p \<le> ec_max_leverage (xs_config X) \<and> ep_mode p = PAPER
    \<and> get_signal (ps_repo s') (ep_signal_id p) = Some g \<and> sn_status g = ''ACTIVE''
    \<and> po_payload entry = x \<and> or_plan_id x = pid \<and> or_role x = ''ENTRY'' \<and> or_mode x = PAPER \<and> or_plan_hash x = h
    \<and> rp_orders (ps_repo s') = rp_orders (ps_repo s) @ [entry]
    \<and> rp_plans (ps_repo s') = set_plan_status pid ''SUBMITTED'' (rp_plans (ps_repo s))"
proof -
  obtain p row where row: "get_execution_plan (ps_repo s) pid = Some row" "pl_payload row = EntryPlan p" "pl_status row = ''PREPARED''"
    and run: "sbind (lift_res (preflight (xs_hash X) (EntryPlan p) (xs_config X) (Some (xs_data_url X)) None (Some ''ENTRY_SUBMIT'') (Some now) None None))
      (\<lambda>a. submit_prepared X p h auto now a) s = (Inr x, s')"
    using assms by (auto simp: submit_entry_def find_plan_def with_repo_apply raise_def plan_now_def sbind_def ret_def split: option.splits any_plan.splits if_splits)
  obtain a where a: "preflight (xs_hash X) (EntryPlan p) (xs_config X) (Some (xs_data_url X)) None (Some ''ENTRY_SUBMIT'') (Some now) None None = Inr a"
    and go: "submit_prepared X p h auto now a s = (Inr x, s')"
    using run by (auto simp: sbind_Inr lift_res_def)
  note paper = preflight_paper(1) [OF a]
  obtain g s1 loss s2 raw t
    where g: "refresh_signal_state X (ep_signal_id p) (Some now) s = (Inr g, s1)"
      and v: "validate_entry (xs_hash X) (xs_getenv X) (xs_config X) p h now 0 loss auto = Inr ()"
      and mk: "market_range_check X p s1 = (Inr (), s2)" and rc: "entry_receipt X p a PAPER now raw = Inr x"
      and sv: "ps_repo s' = (ps_repo s2)\<lparr>rp_orders := rp_orders (ps_repo s2) @ [\<lparr>po_payload = x, po_raw = raw, po_created_at_ms = t\<rparr>],
                 rp_plans := set_plan_status (ep_plan_id p) ''SUBMITTED'' (rp_plans (ps_repo s2))\<rparr>"
    using go paper by (auto simp: submit_prepared_def with_repo_apply sbind_Inr lift_res_def ret_def entry_raw_def save_execution_order_def update_execution_plan_status_def
        change_repo_def plan_clock_def outside_def set_plan_status_def split: prod.splits)
  have keep: "rp_plans (ps_repo s2) = rp_plans (ps_repo s)" "rp_orders (ps_repo s2) = rp_orders (ps_repo s)"
    using steady.presD [OF steady_refresh g] market_range_keeps [OF mk] by (simp_all add: steady_step_def)
  have id: "ep_plan_id p = pid" "row = \<lparr>pl_payload = EntryPlan p, pl_status = ''PREPARED''\<rparr>"
    using stored_plan [OF row(1)] row by (auto intro: plan_row.equality)
  have sig: "get_signal (ps_repo s') (ep_signal_id p) = Some g" "sn_status g = ''ACTIVE''"
    using refresh_active [OF g] market_range_keeps [OF mk] sv by (simp_all add: get_signal_def)
  have v': "plan_calculated_hash (xs_hash X) p = ep_plan_hash p \<and> h = ep_plan_hash p \<and> \<not> provisional (ep_validation_status p) \<and> now \<le> ep_expires_at_ms p
      \<and> \<not> ec_max_notional_usdt (xs_config X) < ep_notional_usdt p \<and> ep_leverage p \<le> ec_max_leverage (xs_config X) \<and> ep_mode p = PAPER"
    using v paper by (auto simp: validate_entry_def mode_gate_def risk_reducing_gate_def result_simps split: if_splits)
  show ?thesis
    using row(1) id v' sig sv keep entry_receipt_fields [OF rc]
    by (intro exI [of _ p] exI [of _ g] exI [of _ "\<lparr>po_payload = x, po_raw = raw, po_created_at_ms = t\<rparr>"]) simp
qed

end
