(* ===== verification/Execution_Service_Sample.thy ===== *)
theory Execution_Service_Sample
  imports Execution_Service_Safety
begin

text \<open>
  A paper run of the plan service on a concrete signal: the plan is built, submitted, cancelled and reconciled. The run gives the
  witnesses of the guarantees of \<open>Execution_Service_Safety\<close> and shows that a cancelled plan is marked protected again by the next reconciliation.
\<close>

definition plan_signal :: trading_signal where
  "plan_signal =
     \<lparr>sn_signal_id = ''s1'', sn_symbol = ''BTCUSDT'', sn_direction = ''LONG'', sn_status = ''ACTIVE'', sn_validation_status = ''VALIDATED_FORWARD'',
      sn_data_health = ''OK'', sn_data_timestamp_ms = 100, sn_expires_at_ms = 900000, sn_entry_low = Fin 62, sn_entry_high = Fin 66, sn_stop_loss = Fin 32,
      sn_take_profit = Fin 128, sn_recommended_notional = Fin 64, sn_display_leverage = Fin 3, sn_max_loss_usdt = Fin 32, sn_estimated_fee_usdt = Fin 0,
      sn_estimated_slippage_usdt = Fin 0, sn_estimated_funding_usdt = Fin 0, sn_invalidation_reason = None, sn_other = JNull\<rparr>"

definition plan_filters :: exchange_filters where
  "plan_filters = \<lparr>fl_tick_size = Fin 1, fl_step_size = Fin 1, fl_min_quantity = Fin 1, fl_min_notional = Fin 5\<rparr>"

definition plan_candle :: candle where
  "plan_candle = \<lparr>cd_symbol = ''BTCUSDT'', cd_open_time_ms = 0, cd_close_time_ms = 100, cd_open = Fin 100, cd_high = Fin 101, cd_low = Fin 99, cd_close = Fin 100, cd_volume = Fin 1, cd_quote_volume = Fin 100, cd_taker_buy_base_volume = Fin 0\<rparr>"

definition paper_service :: "unit plan_service" where
  "paper_service =
     \<lparr>xs_config = sample_config, xs_data_url = ''https://fapi.binance.com'', xs_rr_min = Fin 1, xs_getenv = (\<lambda>_. None), xs_hash = (\<lambda>_. ''h''),
      xs_repr = (\<lambda>_. []), xs_clock = (\<lambda>w. (1000, w)), xs_klines = (\<lambda>_ _ w. (Inr [plan_candle], w)), xs_server_time = (\<lambda>w. (Inr 1000, w)),
      xs_filters = (\<lambda>_ w. (Inr plan_filters, w)), xs_mark_price = (\<lambda>_ w. (Inr (Fin 100), w)), xs_registry = (\<lambda>w. (Some (1, Some True), w)),
      xs_invalidation = (\<lambda>_ _ _ _ _. Inr None), xs_connect = (\<lambda>w. (Inr (), w)), xs_client = (\<lambda>_ w. (Inr JNull, w))\<rparr>"

section \<open>Rounding to whole ticks\<close>

lemma half_f64:
  assumes "\<bar>m\<bar> \<le> 4000"
  shows "is_f64 (Fin (of_int m / 2))"
proof -
  have h: "of_int m * 2 powi (- 1) = (of_int m / 2 :: rat)" by (simp add: power_int_minus field_simps)
  have b: "\<bar>m\<bar> \<le> 2 ^ 53" "(- 1074 :: int) \<le> - 1" using assms by simp_all
  have r: "rval (of_int m / 2) = of_int m / 2" using rval_exact [OF b] unfolding h .
  define big :: rat where "big = 2 ^ 1024"
  have "(2::rat) ^ 12 \<le> big" unfolding big_def by (rule power_increasing) simp_all
  moreover have "\<bar>of_int m :: rat\<bar> \<le> 4000" using assms by (metis of_int_abs of_int_le_iff of_int_numeral)
  ultimately have "\<bar>of_int m / 2\<bar> < big" by simp
  with r show ?thesis unfolding is_f64_Fin big_def by simp
qed

lemma small_lit: "\<exists>d. lit (1 / 10 ^ 12) = Fin d \<and> 0 \<le> d \<and> d \<le> 1 / 2"
  using rnd64_nonneg [of "1 / 10 ^ 12"] rnd64_mono [of "1 / 10 ^ 12" "1 / 2"] by (cases "rnd64 (1 / 10 ^ 12)") (auto simp: zero_flt_def)

lemma near_int:
  assumes "0 \<le> n" "n \<le> 1000" "of_int n - 1 / 2 \<le> q" "q \<le> of_int n + 1 / 2"
  shows "\<exists>e. rnd64 q = Fin e \<and> of_int n - 1 / 2 \<le> e \<and> e \<le> of_int n + 1 / 2 \<and> (of_int n \<le> q \<longrightarrow> of_int n \<le> e) \<and> (q \<le> of_int n \<longrightarrow> e \<le> of_int n)"
proof -
  have f: "is_f64 (Fin (of_int n - 1 / 2))" "is_f64 (Fin (of_int n + 1 / 2))" "is_f64 (Fin (of_int n))"
    using half_f64 [of "2 * n - 1"] half_f64 [of "2 * n + 1"] half_f64 [of "2 * n"] assms by (simp_all add: diff_divide_distrib add_divide_distrib del: is_f64.simps)
  show ?thesis
    using rnd64_ge_f64 [OF f(1) assms(3)] rnd64_le_f64 [OF f(2) assms(4)] rnd64_ge_f64 [OF f(3), of q] rnd64_le_f64 [OF f(3), of q]
    by (cases "rnd64 q") auto
qed

lemma float_int: "0 \<le> n \<Longrightarrow> n \<le> 1000 \<Longrightarrow> py_float (JInt n) = Inr (Fin (of_int n))"
  using rnd64_of_int [of n] by (simp add: py_float_def)

lemma floor_to_int:
  assumes n: "0 \<le> n" "n \<le> 1000"
  shows "floor_to (Fin (of_int n)) (Fin 1) = Inr (Fin (of_int n))"
proof -
  obtain d where d: "lit (1 / 10 ^ 12) = Fin d" "0 \<le> d" "d \<le> 1 / 2" using small_lit by blast
  obtain e where e: "rnd64 (of_int n + d) = Fin e" "of_int n \<le> e" "e \<le> of_int n + 1 / 2"
    using near_int [OF n, of "of_int n + d"] d(2,3) by auto
  obtain u where u: "rnd64 e = Fin u" "of_int n \<le> u" "u \<le> of_int n + 1 / 2"
    using near_int [OF n, of e] e(2,3) by auto
  have "\<lfloor>u\<rfloor> = n" using u(2,3) by (intro floor_unique) simp_all
  then show ?thesis
    using rnd64_of_int [of n] n by (simp add: floor_to_def d(1) [simplified] e(1) u(1) float_int [OF n])
qed

lemma ceil_to_int:
  assumes n: "0 \<le> n" "n \<le> 1000"
  shows "ceil_to (Fin (of_int n)) (Fin 1) = Inr (Fin (of_int n))"
proof -
  obtain d where d: "lit (1 / 10 ^ 12) = Fin d" "0 \<le> d" "d \<le> 1 / 2" using small_lit by blast
  obtain e where e: "rnd64 (of_int n - d) = Fin e" "of_int n - 1 / 2 \<le> e" "e \<le> of_int n"
    using near_int [OF n, of "of_int n - d"] d(2,3) by auto
  obtain u where u: "rnd64 e = Fin u" "of_int n - 1 / 2 \<le> u" "u \<le> of_int n"
    using near_int [OF n, of e] e(2,3) by auto
  have "\<lceil>u\<rceil> = n" using u(2,3) by (intro ceiling_unique) simp_all
  then show ?thesis
    using rnd64_of_int [of n] n by (simp add: ceil_to_def minus_flt_def d(1) [simplified] e(1) u(1) float_int [OF n])
qed

lemma plan_signal_levels: "plan_levels plan_signal (Fin 1) = Inr (Fin 64, Fin 32, Fin 128, Fin 32, Fin 64)"
  using ceil_to_int [of 62] floor_to_int [of 66] floor_to_int [of 64] floor_to_int [of 32] floor_to_int [of 128]
  by (simp add: plan_levels_def plan_signal_def Let_def pymin_def pymax_def minus_flt_def)

lemma plan_signal_size: "plan_size plan_signal plan_filters (Fin 1) (Fin 64) (Fin 32) (Fin 64) = Inr (Fin 1, Fin 64, Fin 32, Fin 2)"
proof -
  have "Fin 32 \<le> Fin 32 + lit (1 / 10 ^ 9)"
    using rnd64_mono [of 32 "32 + d" for d] rnd64_nonneg [of "1 / 10 ^ 9"] rnd64_mono [of "1 / 10 ^ 9" 1]
    by (cases "rnd64 (1 / 10 ^ 9)") (auto simp: zero_flt_def)
  then have "\<not> Fin 32 + lit (1 / 10 ^ 9) < Fin 32" by (auto simp: less_flt_def)
  then show ?thesis
    using floor_to_int [of 1] by (simp add: plan_size_def plan_signal_def plan_filters_def Let_def pymin_def fdiv_def minus_flt_def feq_def)
qed

section \<open>The run\<close>

lemma paper_authority: "authority_from_config sample_config d None None = Inr sample_authority"
  by (simp add: authority_from_config_def sample_config_def mode_of_string_def resolved_url_def sample_normalize sample_authority_def or_else_def)

definition paper_start :: "unit plan_state" where
  "paper_start = fresh_state () [plan_signal] []"

definition paper_plan :: execution_plan where
  "paper_plan = new_entry_plan paper_service plan_signal 500 sample_authority PAPER 3 (Fin 64, Fin 32, Fin 128) (Fin 1, Fin 64, Fin 32, Fin 2)"

definition paper_prepared :: "unit plan_state" where
  "paper_prepared = paper_start\<lparr>ps_repo := (ps_repo paper_start)\<lparr>rp_plans := [\<lparr>pl_payload = EntryPlan paper_plan, pl_status = ''PREPARED''\<rparr>]\<rparr>\<rparr>"

lemma plan_signal_fields:
  "sn_signal_id plan_signal = ''s1''" "sn_symbol plan_signal = ''BTCUSDT''" "sn_status plan_signal = ''ACTIVE''" "sn_data_health plan_signal = ''OK''"
  "sn_expires_at_ms plan_signal = 900000" "sn_data_timestamp_ms plan_signal = 100" "sn_display_leverage plan_signal = Fin 3"
  by (simp_all add: plan_signal_def)

lemma paper_config: "xs_config paper_service = sample_config" "ec_mode sample_config = ''paper''" "mode_of_string ''paper'' = Inr PAPER"
  by (simp_all add: paper_service_def sample_config_def mode_of_string_def)

lemma paper_refresh:
  assumes "rp_signals (ps_repo s) = [plan_signal]" "now \<le> 900000"
  shows "refresh_signal_state paper_service ''s1'' (Some now) s = (Inr plan_signal, s)"
  using assms by (simp add: refresh_signal_state_def with_repo_apply get_signal_def plan_signal_fields sbind_def ret_def revalidate_def market_history_def on_error_def
      outside_def paper_service_def plan_candle_def)

lemma paper_build: "build_entry_plan paper_service ''s1'' (Some 500) paper_start = (Inr paper_plan, paper_prepared)"
proof -
  have sig: "rp_signals (ps_repo paper_start) = [plan_signal]" "rp_plans (ps_repo paper_start) = []" by (simp_all add: paper_start_def fresh_state_def)
  have reg: "assert_registry_actionable paper_service s = (Inr (), s)" for s
    by (simp add: assert_registry_actionable_def sbind_def outside_def paper_service_def ret_def)
  have fil: "outside (xs_filters paper_service x) s = (Inr plan_filters, s)" for x s by (simp add: outside_def paper_service_def)
  have rr: "xs_rr_min paper_service = Fin 1" "fl_tick_size plan_filters = Fin 1" by (simp_all add: paper_service_def plan_filters_def)
  have lev: "py_int (Fin 3) = Inr 3" by (simp add: py_int_def)
  have save: "save_execution_plan (EntryPlan paper_plan) paper_start = (Inr (), paper_prepared)"
    by (simp add: save_execution_plan_def with_repo_apply get_execution_plan_def sig change_repo_def paper_prepared_def)
  show ?thesis
    unfolding build_entry_plan_def
    by (simp add: sbind_def reg plan_now_def ret_def paper_refresh [OF sig(1)] fil rr lift_res_def plan_signal_levels plan_signal_size paper_authority paper_config
        plan_signal_fields lev Let_def save flip: paper_plan_def)
qed


lemma paper_hash: "plan_calculated_hash (xs_hash paper_service) p = ''h''"
  by (simp add: plan_calculated_hash_def paper_service_def)

lemma paper_plan_fields:
  "ep_plan_id paper_plan = ''h''" "ep_signal_id paper_plan = ''s1''" "ep_symbol paper_plan = ''BTCUSDT''" "ep_mode paper_plan = PAPER" "ep_order_type paper_plan = ''LIMIT''"
  "ep_plan_hash paper_plan = ''h''" "ep_validation_status paper_plan = ''VALIDATED_FORWARD''" "ep_expires_at_ms paper_plan = 120500" "ep_notional_usdt paper_plan = Fin 64"
  "ep_leverage paper_plan = 3" "ep_execution_environment_id paper_plan = ''local_paper''" "ep_credential_namespace_id paper_plan = ''NONE''"
  "ep_account_authority_id paper_plan = ''DEFAULT_PAPER_ACCOUNT''" "ep_entry_price paper_plan = Fin 64" "ep_stop_price paper_plan = Fin 32" "ep_take_profit_price paper_plan = Fin 128"
  by (simp_all add: paper_plan_def new_entry_plan_def signed_plan_def paper_hash plan_signal_def paper_config(1) sample_config_def sample_authority_def entry_plan_id_def
      py_upper_def upper_char_def) (simp add: paper_service_def)

lemma paper_preflight:
  assumes "action \<in> {''ENTRY_SUBMIT'', ''RECONCILE'', ''CANCEL_ENTRY''}" "now \<le> 120500"
    and "\<forall>r. receipt = Some r \<longrightarrow> receipt_fields r = [''h'', ''local_paper'', ''NONE'', ''DEFAULT_PAPER_ACCOUNT'', ''BTCUSDT'', ''paper'']"
  shows "preflight (xs_hash paper_service) (EntryPlan paper_plan) sample_config d receipt (Some action) (Some now) None None = Inr sample_authority"
  using assms unfolding preflight_def paper_authority
  by (auto simp: Let_def paper_hash paper_plan_fields match_authority_def check_assumptions_def sample_authority_def classify_action_def action_classifications_def
      check_receipt_def split: option.splits)

definition paper_order_of :: "string \<Rightarrow> string \<Rightarrow> string \<Rightarrow> string \<Rightarrow> int \<Rightarrow> json \<Rightarrow> plan_order" where
  "paper_order_of role order_id status client_id now raw =
     \<lparr>po_payload = plan_receipt paper_plan sample_authority PAPER now role order_id status client_id, po_raw = raw, po_created_at_ms = 1000\<rparr>"

definition paper_entry :: plan_order where
  "paper_entry = paper_order_of ''ENTRY'' ''paper-h'' ''FILLED'' ''bqa-h'' 600
     (JObj [(''orderId'', JStr ''paper-h''), (''status'', JStr ''FILLED''), (''executedPrice'', JFloat (Fin 64)), (''paper'', JBool True)])"

definition paper_state :: "string \<Rightarrow> plan_order list \<Rightarrow> unit plan_state" where
  "paper_state st os = paper_start\<lparr>ps_repo := (ps_repo paper_start)\<lparr>rp_plans := [\<lparr>pl_payload = EntryPlan paper_plan, pl_status = st\<rparr>], rp_orders := os\<rparr>\<rparr>"

lemma paper_state_fields:
  "rp_signals (ps_repo (paper_state st os)) = [plan_signal]" "rp_orders (ps_repo (paper_state st os)) = os"
  "get_execution_plan (ps_repo (paper_state st os)) ''h'' = Some \<lparr>pl_payload = EntryPlan paper_plan, pl_status = st\<rparr>"
  "daily_realized_loss_usdt (ps_repo (paper_state st os)) now = Inr \<bar>py_sum []\<bar>" "paper_prepared = paper_state ''PREPARED'' []"
  by (simp_all add: paper_state_def paper_start_def fresh_state_def get_execution_plan_def paper_plan_fields daily_realized_loss_usdt_def paper_prepared_def)

lemma paper_writes:
  "save_execution_order paper_service (plan_receipt paper_plan sample_authority PAPER now role i st' c) raw (paper_state st os)
     = (Inr (), paper_state st (os @ [paper_order_of role i st' c now raw]))"
  "update_execution_plan_status ''h'' st' (paper_state st os) = (Inr (), paper_state st' os)"
  by (simp_all add: save_execution_order_def sbind_def plan_clock_def outside_def paper_service_def change_repo_def paper_state_def paper_order_of_def
      update_execution_plan_status_def paper_plan_fields)

lemma paper_submit: "submit_entry paper_service ''h'' ''h'' False (Some 600) paper_prepared = (Inr (po_payload paper_entry), paper_state ''SUBMITTED'' [paper_entry])"
proof -
  have pre: "preflight (xs_hash paper_service) (EntryPlan paper_plan) sample_config d None (Some ''ENTRY_SUBMIT'') (Some 600) None None = Inr sample_authority" for d
    by (rule paper_preflight) simp_all
  have v: "validate_entry (xs_hash paper_service) (xs_getenv paper_service) sample_config paper_plan ''h'' 600 0 \<bar>0\<bar> False = Inr ()"
    by (simp add: validate_entry_def provisional_def startswith_def mode_gate_def risk_reducing_gate_def mode_of_string_def
        sample_config_def paper_plan_fields paper_hash zero_flt_def)
  have rc: "entry_receipt paper_service paper_plan sample_authority PAPER 600 (po_raw paper_entry) = Inr (po_payload paper_entry)"
    by (simp add: entry_receipt_def get_attr_def get_or_def text_at_def json_str_def paper_entry_def paper_order_of_def paper_plan_fields)
  have raw: "entry_raw paper_service PAPER paper_plan s = (Inr (po_raw paper_entry), s)" for s
    by (simp add: entry_raw_def ret_def paper_entry_def paper_order_of_def paper_plan_fields)
  have mk: "market_range_check paper_service paper_plan s = (Inr (), s)" for s
    by (simp add: market_range_check_def paper_plan_fields ret_def)
  have sv: "save_execution_order paper_service (po_payload paper_entry) (po_raw paper_entry) (paper_state st os) = (Inr (), paper_state st (os @ [paper_entry]))" for st os
    by (simp add: paper_entry_def paper_writes(1) paper_order_of_def)
  show ?thesis
    by (simp add: submit_entry_def find_plan_def with_repo_apply paper_state_fields plan_now_def sbind_def ret_def lift_res_def pre paper_config submit_prepared_def
        paper_refresh paper_plan_fields v rc raw mk sv paper_writes(2))
qed

theorem submitted_entry_was_confirmed_witness:
  "submit_entry paper_service ''h'' ''h'' False (Some 600) paper_prepared = (Inr (po_payload paper_entry), paper_state ''SUBMITTED'' [paper_entry])
   \<and> or_role (po_payload paper_entry) = ''ENTRY'' \<and> or_mode (po_payload paper_entry) = PAPER"
  using paper_submit submitted_entry_was_confirmed [OF paper_submit] by blast

section \<open>A cancelled plan\<close>

lemma paper_receipt_fields: "receipt_fields (receipt_arg_of (po_payload paper_entry)) = [''h'', ''local_paper'', ''NONE'', ''DEFAULT_PAPER_ACCOUNT'', ''BTCUSDT'', ''paper'']"
  by (simp add: receipt_arg_of_def Capability.dict_get_def paper_entry_def paper_order_of_def plan_receipt_def paper_plan_fields sample_authority_def)

lemma paper_entry_found: "latest_execution_order (ps_repo (paper_state st [paper_entry])) ''h'' ''ENTRY'' = Some paper_entry"
  by (simp add: latest_execution_order_def paper_state_fields paper_entry_def paper_order_of_def plan_receipt_def paper_plan_fields Let_def)

lemma paper_cancel: "\<exists>x. cancel_entry paper_service ''h'' ''h'' (Some 700) (paper_state ''SUBMITTED'' [paper_entry]) = (Inr x, paper_state ''CANCELLED'' [paper_entry])"
proof -
  have pre: "preflight (xs_hash paper_service) (EntryPlan paper_plan) sample_config d (Some (receipt_arg_of (po_payload paper_entry))) (Some ''CANCEL_ENTRY'') (Some 700) None None
      = Inr sample_authority" for d
    by (rule paper_preflight) (simp_all add: paper_receipt_fields)
  have v: "validate_cancel (xs_hash paper_service) (xs_getenv paper_service) sample_config paper_plan ''h'' = Inr ()"
    by (simp add: validate_cancel_def risk_reducing_gate_def paper_config paper_plan_fields paper_hash)
  show ?thesis
    by (simp add: cancel_entry_def find_plan_def with_repo_apply paper_state_fields paper_entry_found plan_now_def sbind_def ret_def lift_res_def pre paper_config v
        paper_plan_fields paper_writes(2))
qed

text \<open>Reconciliation does not read the status of the plan: reconciling a cancelled paper plan stores a stop and a target and marks it protected.\<close>

lemma cancelled_plan_protected_again:
  "\<exists>x y z. reconcile_plan paper_service ''h'' (Some 800) (paper_state ''CANCELLED'' [paper_entry]) = (Inr x, paper_state ''PROTECTED'' [paper_entry, y, z])
     \<and> or_role (po_payload y) = ''STOP'' \<and> or_role (po_payload z) = ''TAKE_PROFIT''"
proof -
  have pre: "preflight (xs_hash paper_service) (EntryPlan paper_plan) sample_config d (Some (receipt_arg_of (po_payload paper_entry))) (Some ''RECONCILE'') (Some 800) None None
      = Inr sample_authority" for d
    by (rule paper_preflight) (simp_all add: paper_receipt_fields)
  show ?thesis
    by (simp add: reconcile_plan_def find_plan_def with_repo_apply paper_state_fields paper_entry_found plan_now_def sbind_def ret_def lift_res_def pre paper_config
        paper_plan_fields paper_writes Let_def, intro exI conjI, rule refl) (simp_all add: paper_order_of_def plan_receipt_def)
qed

end
